(* ===== verification/Prelude.thy ===== *)
theory Prelude
  imports Main "HOL-Library.Word" "HOL-Library.Product_Lexorder"
begin

text \<open>
  What every component of the development shares: the collections of rewrite rules, the model of
  Go's scalar types (times, durations, unsigned integers, byte strings) and of the functions of
  package \<open>strings\<close> and \<open>strconv\<close> that the program calls, and general lemmas on
  lists.

  \<^item> A \<open>time.Time\<close> is the number of nanoseconds since Go's zero time (year 1, UTC), so the
    zero value is 0 and \<open>IsZero\<close> is equality with 0. A \<open>time.Duration\<close> is a number of
    nanoseconds; where the code can overflow its 64 bits the width is written out
    (\<open>int64\<close> below).
  \<^item> A Go string is a list of bytes (\<open>char\<close>). Case mapping is Go's on ASCII strings; bytes
    above 127 are left alone.
\<close>

section \<open>Collections of facts\<close>

named_theorems table_simps \<open>equations of the store operations that answer without a fault\<close>
named_theorems frame_simps \<open>what an operation leaves alone\<close>
named_theorems go_simps \<open>the string and number functions of the Go library\<close>

section \<open>Scalars\<close>

type_synonym gotime = int
type_synonym duration = int
type_synonym u32 = "32 word"

abbreviation (input) second :: duration where "second \<equiv> 1000000000"
abbreviation (input) minute :: duration where "minute \<equiv> 60000000000"
abbreviation (input) hour :: duration where "hour \<equiv> 3600000000000"
abbreviation (input) day :: duration where "day \<equiv> 86400000000000"

definition int64 :: "int \<Rightarrow> int" where
  "int64 x = sint (word_of_int x :: 64 word)"

lemma int64_id: "- (2 ^ 63) \<le> x \<Longrightarrow> x < 2 ^ 63 \<Longrightarrow> int64 x = x"
  unfolding int64_def by (simp add: sint_sbintrunc' signed_take_bit_int_eq_self)

section \<open>Lists\<close>

lemma distinct_map_filter: "distinct (map f xs) \<Longrightarrow> distinct (map f (filter P xs))"
  by (induction xs) auto

lemma distinct_map_remove1:
  assumes "distinct (map f xs)" and "x \<in> set xs"
  shows "distinct (map f (remove1 x xs))" and "f x \<notin> f ` set (remove1 x xs)"
    and "f ` set xs = insert (f x) (f ` set (remove1 x xs))"
proof -
  have "distinct (map f (remove1 x xs)) \<and> f x \<notin> f ` set (remove1 x xs) \<and>
      f ` set xs = insert (f x) (f ` set (remove1 x xs))"
    using assms by (induction xs) auto
  then show "distinct (map f (remove1 x xs))" and "f x \<notin> f ` set (remove1 x xs)"
    and "f ` set xs = insert (f x) (f ` set (remove1 x xs))" by blast+
qed

lemma find_Some_iff: "find P xs = Some x \<Longrightarrow> x \<in> set xs \<and> P x"
  by (induction xs) (auto split: if_splits)

lemma find_None_iff_all: "find P xs = None \<longleftrightarrow> (\<forall>x \<in> set xs. \<not> P x)"
  by (induction xs) auto

lemma find_unique:
  "distinct (map f xs) \<Longrightarrow> x \<in> set xs \<Longrightarrow> find (\<lambda>y. f y = f x) xs = Some x"
  by (induction xs) auto

lemma filter_map_upd:
  assumes "\<And>x. P (f x) \<longleftrightarrow> P x"
  shows "filter P (map f xs) = map f (filter P xs)"
  using assms by (induction xs) auto

lemma filter_map_cond_none:
  "(\<And>x. P x \<Longrightarrow> \<not> Q (f x)) \<Longrightarrow> (\<And>x. \<not> P x \<Longrightarrow> \<not> Q x) \<Longrightarrow>
   filter Q (map (\<lambda>x. if P x then f x else x) xs) = []"
  by (induction xs) simp_all

lemma filter_map_cond_other:
  "(\<And>x. P x \<Longrightarrow> \<not> Q (f x) \<and> \<not> Q x) \<Longrightarrow>
   filter Q (map (\<lambda>x. if P x then f x else x) xs) = filter Q xs"
  by (induction xs) simp_all

lemma map_filter_cond_id:
  "(\<And>x. x \<in> set xs \<Longrightarrow> \<not> P x) \<Longrightarrow> map (\<lambda>x. if P x then f x else x) xs = xs"
  by (induction xs) auto

lemma length_filter_map_cond:
  "(\<And>x. Q (f x) \<longleftrightarrow> Q x) \<Longrightarrow> length (filter Q (map f xs)) = length (filter Q xs)"
  by (induction xs) auto

lemma count_filter_split:
  "length (filter P xs) = length (filter (\<lambda>x. P x \<and> Q x) xs) + length (filter (\<lambda>x. P x \<and> \<not> Q x) xs)"
  by (induction xs) auto

lemma concat_pages:
  "concat (map (\<lambda>i. take n (drop (i * n) xs)) [0..<k]) = take (k * n) xs"
proof (induction k)
  case 0
  show ?case by simp
next
  case (Suc k)
  have "take (k * n) xs @ take n (drop (k * n) xs) = take (k * n + n) xs"
    by (simp add: take_add)
  with Suc show ?case by (simp add: add.commute)
qed

fun index_from :: "nat \<Rightarrow> ('a \<Rightarrow> bool) \<Rightarrow> 'a list \<Rightarrow> nat option" where
  "index_from i P [] = None"
| "index_from i P (x # xs) = (if P x then Some i else index_from (Suc i) P xs)"

lemma index_from_Some:
  "index_from i P xs = Some k \<Longrightarrow>
   i \<le> k \<and> k < i + length xs \<and> P (xs ! (k - i)) \<and> (\<forall>j < k - i. \<not> P (xs ! j))"
proof (induction xs arbitrary: i)
  case Nil
  then show ?case by simp
next
  case (Cons x xs)
  show ?case
  proof (cases "P x")
    case True
    with Cons.prems show ?thesis by simp
  next
    case False
    with Cons.prems have "index_from (Suc i) P xs = Some k" by simp
    from Cons.IH [OF this] False show ?thesis
      by (auto simp: nth_Cons' less_Suc_eq_0_disj)
  qed
qed

lemma index_from_None: "index_from i P xs = None \<longleftrightarrow> (\<forall>x \<in> set xs. \<not> P x)"
  by (induction xs arbitrary: i) auto

section \<open>Bytes and ASCII case\<close>

definition lower_char :: "char \<Rightarrow> char" where
  "lower_char c = (let n = (of_char c :: nat) in if 65 \<le> n \<and> n \<le> 90 then char_of (n + 32) else c)"

definition upper_char :: "char \<Rightarrow> char" where
  "upper_char c = (let n = (of_char c :: nat) in if 97 \<le> n \<and> n \<le> 122 then char_of (n - 32) else c)"

definition to_lower :: "string \<Rightarrow> string" where
  "to_lower s = map lower_char s"

definition to_upper :: "string \<Rightarrow> string" where
  "to_upper s = map upper_char s"

definition equal_fold :: "string \<Rightarrow> string \<Rightarrow> bool" where
  "equal_fold s t \<longleftrightarrow> to_lower s = to_lower t"

lemma lower_char_idem [simp]: "lower_char (lower_char c) = lower_char c"
  by (simp add: lower_char_def Let_def)

lemma to_lower_idem [simp]: "to_lower (to_lower s) = to_lower s"
  by (simp add: to_lower_def)

lemma length_to_lower [simp]: "length (to_lower s) = length s"
  by (simp add: to_lower_def)

lemma equal_fold_refl [simp]: "equal_fold s s"
  by (simp add: equal_fold_def)

lemma equal_fold_sym: "equal_fold s t \<Longrightarrow> equal_fold t s"
  by (simp add: equal_fold_def)

lemma equal_fold_trans: "equal_fold s t \<Longrightarrow> equal_fold t u \<Longrightarrow> equal_fold s u"
  by (simp add: equal_fold_def)

end
