(* ===== verification/Go_Strings.thy ===== *)
theory Go_Strings
  imports Prelude
begin

text \<open>
  The functions of Go's \<open>strings\<close> and \<open>strconv\<close> packages that the program calls, on
  byte strings: prefixes and substrings, splitting and joining, trimming of white space (ASCII and
  the UTF-8 encodings of the other Unicode spaces), decimal numerals.
\<close>

section \<open>Prefixes, substrings, positions\<close>

definition has_prefix :: "string \<Rightarrow> string \<Rightarrow> bool" where
  "has_prefix p s \<longleftrightarrow> take (length p) s = p"

definition has_suffix :: "string \<Rightarrow> string \<Rightarrow> bool" where
  "has_suffix p s \<longleftrightarrow> has_prefix (rev p) (rev s)"

lemma has_prefix_append [simp]: "has_prefix p (p @ s)"
  by (simp add: has_prefix_def)

lemma has_prefix_iff: "has_prefix p s \<longleftrightarrow> (\<exists>t. s = p @ t)"
  unfolding has_prefix_def by (metis append_eq_conv_conj append_take_drop_id)

lemma has_prefix_take: "has_prefix p (take k s) \<Longrightarrow> has_prefix p s"
  unfolding has_prefix_iff by (metis append.assoc append_take_drop_id)

fun str_index :: "string \<Rightarrow> string \<Rightarrow> nat option" where
  "str_index sub [] = (if sub = [] then Some 0 else None)"
| "str_index sub (c # s) = (if has_prefix sub (c # s) then Some 0 else map_option Suc (str_index sub s))"

definition contains :: "string \<Rightarrow> string \<Rightarrow> bool" where
  "contains s sub \<longleftrightarrow> str_index sub s \<noteq> None"

definition index_byte :: "char \<Rightarrow> string \<Rightarrow> nat option" where
  "index_byte c s = index_from 0 (\<lambda>x. x = c) s"

definition last_index_byte :: "char \<Rightarrow> string \<Rightarrow> nat option" where
  "last_index_byte c s = map_option (\<lambda>i. length s - Suc i) (index_byte c (rev s))"

lemma str_index_Some: "str_index sub s = Some i \<Longrightarrow> has_prefix sub (drop i s) \<and> i \<le> length s"
  by (induction sub s arbitrary: i rule: str_index.induct)
    (auto split: if_splits simp: has_prefix_def)

lemma index_byte_None: "index_byte c s = None \<longleftrightarrow> c \<notin> set s"
  by (auto simp: index_byte_def index_from_None)

lemma index_byte_Some:
  "index_byte c s = Some i \<Longrightarrow> i < length s \<and> s ! i = c \<and> c \<notin> set (take i s)"
  unfolding index_byte_def by (drule index_from_Some) (auto simp: in_set_conv_nth)

lemma last_index_byte_Some:
  assumes "last_index_byte c s = Some i"
  shows "i < length s \<and> s ! i = c \<and> c \<notin> set (drop (Suc i) s)"
proof -
  from assms obtain k where k: "index_byte c (rev s) = Some k" and i: "i = length s - Suc k"
    by (auto simp: last_index_byte_def)
  from index_byte_Some [OF k] have "k < length s" and "rev s ! k = c" and "c \<notin> set (take k (rev s))"
    by auto
  moreover have "set (take k (rev s)) = set (drop (length s - k) s)"
    by (simp add: take_rev)
  ultimately show ?thesis using i by (auto simp: rev_nth Suc_diff_Suc)
qed

lemma last_index_byte_None: "last_index_byte c s = None \<longleftrightarrow> c \<notin> set s"
  by (simp add: last_index_byte_def index_byte_None)

section \<open>Splitting and joining\<close>

fun split_on :: "char \<Rightarrow> string \<Rightarrow> string list" where
  "split_on c [] = [[]]"
| "split_on c (x # xs) =
     (if x = c then [] # split_on c xs
      else (case split_on c xs of [] \<Rightarrow> [[x]] | y # ys \<Rightarrow> (x # y) # ys))"

fun join :: "string \<Rightarrow> string list \<Rightarrow> string" where
  "join sep [] = []"
| "join sep [x] = x"
| "join sep (x # xs) = x @ sep @ join sep xs"

definition split_n2 :: "char \<Rightarrow> string \<Rightarrow> string list" where
  \<comment> \<open>\<open>strings.SplitN(s, c, 2)\<close>\<close>
  "split_n2 c s = (case index_byte c s of None \<Rightarrow> [s] | Some i \<Rightarrow> [take i s, drop (Suc i) s])"

lemma split_on_ne [simp]: "split_on c s \<noteq> []"
  by (induction s) (auto split: list.splits)

lemma split_on_no_sep: "t \<in> set (split_on c s) \<Longrightarrow> c \<notin> set t"
  by (induction s arbitrary: t) (auto split: if_splits list.splits)

lemma join_split_on: "join [c] (split_on c s) = s"
proof (induction s)
  case Nil
  show ?case by simp
next
  case (Cons x xs)
  obtain y ys where e: "split_on c xs = y # ys"
    using split_on_ne [of c xs] by (cases "split_on c xs") auto
  show ?case using Cons e by (cases ys) auto
qed

lemma split_on_single: "c \<notin> set s \<Longrightarrow> split_on c s = [s]"
  by (induction s) auto

lemma split_on_append: "c \<notin> set s \<Longrightarrow> split_on c (s @ c # t) = s # split_on c t"
  by (induction s) (auto split: list.splits)

fun replace_crlf :: "string \<Rightarrow> string" where
  \<comment> \<open>\<open>strings.ReplaceAll(s, "\r\n", "\n")\<close>\<close>
  "replace_crlf [] = []"
| "replace_crlf [x] = [x]"
| "replace_crlf (x # y # xs) =
     (if x = CHR 0x0D \<and> y = CHR 0x0A then CHR 0x0A # replace_crlf xs
      else x # replace_crlf (y # xs))"

definition replace_char :: "char \<Rightarrow> char \<Rightarrow> string \<Rightarrow> string" where
  "replace_char a b s = map (\<lambda>x. if x = a then b else x) s"

definition remove_char :: "char \<Rightarrow> string \<Rightarrow> string" where
  "remove_char a s = filter (\<lambda>x. x \<noteq> a) s"

lemma replace_char_notin: "a \<noteq> b \<Longrightarrow> a \<notin> set (replace_char a b s)"
  by (auto simp: replace_char_def)

fun fields_acc :: "(char \<Rightarrow> bool) \<Rightarrow> string \<Rightarrow> string \<Rightarrow> string list" where
  "fields_acc P cur [] = (if cur = [] then [] else [rev cur])"
| "fields_acc P cur (x # xs) =
     (if P x then (if cur = [] then fields_acc P [] xs else rev cur # fields_acc P [] xs)
      else fields_acc P (x # cur) xs)"

definition fields_func :: "(char \<Rightarrow> bool) \<Rightarrow> string \<Rightarrow> string list" where
  \<comment> \<open>\<open>strings.FieldsFunc\<close>: maximal runs of characters that are not separators\<close>
  "fields_func P s = fields_acc P [] s"

lemma fields_acc_sound:
  "\<forall>c \<in> set cur. \<not> P c \<Longrightarrow> t \<in> set (fields_acc P cur s) \<Longrightarrow> t \<noteq> [] \<and> (\<forall>c \<in> set t. \<not> P c)"
proof (induction s arbitrary: cur)
  case Nil
  then show ?case by (simp split: if_splits)
next
  case (Cons x xs)
  show ?case
  proof (cases "P x")
    case True
    have "t = rev cur \<and> cur \<noteq> [] \<or> t \<in> set (fields_acc P [] xs)"
      using Cons.prems(2) True by (simp split: if_splits)
    then show ?thesis
    proof
      assume "t = rev cur \<and> cur \<noteq> []"
      with Cons.prems(1) show ?thesis by simp
    next
      assume "t \<in> set (fields_acc P [] xs)"
      with Cons.IH [of "[]"] show ?thesis by simp
    qed
  next
    case False
    with Cons.prems have "t \<in> set (fields_acc P (x # cur) xs)" by simp
    moreover have "\<forall>c \<in> set (x # cur). \<not> P c" using Cons.prems(1) False by simp
    ultimately show ?thesis by (intro Cons.IH)
  qed
qed

lemma fields_func_sound: "t \<in> set (fields_func P s) \<Longrightarrow> t \<noteq> [] \<and> (\<forall>c \<in> set t. \<not> P c)"
  unfolding fields_func_def by (rule fields_acc_sound [of "[]"]) auto

lemma concat_fields_acc: "concat (fields_acc P cur s) = rev cur @ filter (\<lambda>c. \<not> P c) s"
  by (induction P cur s rule: fields_acc.induct) auto

lemma concat_fields_func: "concat (fields_func P s) = filter (\<lambda>c. \<not> P c) s"
  by (simp add: fields_func_def concat_fields_acc)

section \<open>White space\<close>

definition space_runes :: "string list" where
  \<comment> \<open>the UTF-8 encodings of the runes with \<open>unicode.IsSpace\<close>\<close>
  "space_runes = map (map char_of) ([[9], [10], [11], [12], [13], [32],
     [0xC2, 0x85], [0xC2, 0xA0], [0xE1, 0x9A, 0x80],
     [0xE2, 0x80, 0x80], [0xE2, 0x80, 0x81], [0xE2, 0x80, 0x82], [0xE2, 0x80, 0x83],
     [0xE2, 0x80, 0x84], [0xE2, 0x80, 0x85], [0xE2, 0x80, 0x86], [0xE2, 0x80, 0x87],
     [0xE2, 0x80, 0x88], [0xE2, 0x80, 0x89], [0xE2, 0x80, 0x8A],
     [0xE2, 0x80, 0xA8], [0xE2, 0x80, 0xA9], [0xE2, 0x80, 0xAF], [0xE2, 0x81, 0x9F],
     [0xE3, 0x80, 0x80]] :: nat list list)"

definition lead_width :: "string list \<Rightarrow> string \<Rightarrow> nat" where
  "lead_width rs s = (case find (\<lambda>r. has_prefix r s) rs of None \<Rightarrow> 0 | Some r \<Rightarrow> length r)"

lemma lead_width_le: "lead_width rs s \<le> length s"
  by (auto simp: lead_width_def has_prefix_iff split: option.splits dest!: find_Some_iff)

lemma lead_width_pos_less: "0 < lead_width rs s \<Longrightarrow> length s - lead_width rs s < length s"
  using lead_width_le [of rs s] by linarith

function strip_leading :: "string list \<Rightarrow> string \<Rightarrow> string" where
  "strip_leading rs s =
     (if lead_width rs s = 0 then s else strip_leading rs (drop (lead_width rs s) s))"
  by pat_completeness auto
termination
  by (relation "measure (\<lambda>(rs, s). length s)")
    (auto simp: lead_width_pos_less)

declare strip_leading.simps [simp del]

definition trim_left :: "string \<Rightarrow> string" where
  "trim_left s = strip_leading space_runes s"

definition trim_right :: "string \<Rightarrow> string" where
  "trim_right s = rev (strip_leading (map rev space_runes) (rev s))"

definition trim_space :: "string \<Rightarrow> string" where
  "trim_space s = trim_right (trim_left s)"

lemma strip_leading_drop: "\<exists>k. strip_leading rs s = drop k s"
proof (induction rs s rule: strip_leading.induct)
  case (1 rs s)
  show ?case
  proof (cases "lead_width rs s = 0")
    case True
    then have "strip_leading rs s = drop 0 s" by (simp add: strip_leading.simps [of rs s])
    then show ?thesis ..
  next
    case False
    with 1 obtain k where "strip_leading rs (drop (lead_width rs s) s) = drop k (drop (lead_width rs s) s)"
      by blast
    with False have "strip_leading rs s = drop (k + lead_width rs s) s"
      by (simp add: strip_leading.simps [of rs s])
    then show ?thesis ..
  qed
qed

lemma lead_width_strip [simp]: "lead_width rs (strip_leading rs s) = 0"
proof (induction rs s rule: strip_leading.induct)
  case (1 rs s)
  then show ?case by (cases "lead_width rs s = 0") (simp_all add: strip_leading.simps [of rs s])
qed

lemma strip_leading_id: "lead_width rs s = 0 \<Longrightarrow> strip_leading rs s = s"
  by (simp add: strip_leading.simps)

lemma trim_right_take: "\<exists>k. trim_right s = take k s"
proof -
  obtain k where "strip_leading (map rev space_runes) (rev s) = drop k (rev s)"
    using strip_leading_drop by blast
  then have "trim_right s = take (length s - k) s" by (simp add: trim_right_def drop_rev)
  then show ?thesis ..
qed

lemma space_runes_ne: "r \<in> set space_runes \<Longrightarrow> r \<noteq> []"
  by (auto simp: space_runes_def)

lemma lead_width_take:
  assumes "lead_width space_runes s = 0"
  shows "lead_width space_runes (take k s) = 0"
proof (cases "find (\<lambda>r. has_prefix r (take k s)) space_runes")
  case None
  then show ?thesis by (simp add: lead_width_def)
next
  case (Some r)
  then have r: "r \<in> set space_runes" "has_prefix r (take k s)" by (auto dest: find_Some_iff)
  from r(2) have "has_prefix r s" by (rule has_prefix_take)
  with r(1) have "find (\<lambda>r. has_prefix r s) space_runes \<noteq> None"
    by (auto simp: find_None_iff_all)
  then obtain r' where r': "find (\<lambda>r. has_prefix r s) space_runes = Some r'" by auto
  then have "r' \<noteq> []" by (metis find_Some_iff space_runes_ne)
  with assms r' show ?thesis by (simp add: lead_width_def)
qed

lemma trim_space_idem [simp]: "trim_space (trim_space s) = trim_space s"
proof -
  obtain k where k: "trim_right (trim_left s) = take k (trim_left s)" using trim_right_take by blast
  have "lead_width space_runes (trim_space s) = 0"
    unfolding trim_space_def k by (rule lead_width_take) (simp add: trim_left_def)
  then have "trim_left (trim_space s) = trim_space s" by (simp add: trim_left_def strip_leading_id)
  moreover have "trim_right (trim_right t) = trim_right t" for t
    by (simp add: trim_right_def strip_leading_id)
  ultimately show ?thesis by (simp add: trim_space_def)
qed

lemma lead_width_0: "[] \<notin> set rs \<Longrightarrow> lead_width rs s = 0 \<longleftrightarrow> (\<forall>r \<in> set rs. \<not> has_prefix r s)"
  unfolding lead_width_def by (auto simp: find_None_iff_all split: option.splits dest: find_Some_iff)

lemma trim_space_no_space:
  assumes "r \<in> set space_runes"
  shows "\<not> has_prefix r (trim_space s)" and "\<not> has_suffix r (trim_space s)"
proof -
  have ne: "[] \<notin> set space_runes" "[] \<notin> set (map rev space_runes)" using space_runes_ne by auto
  obtain k where k: "trim_space s = take k (trim_left s)" unfolding trim_space_def using trim_right_take by blast
  have "lead_width space_runes (trim_space s) = 0" unfolding k by (rule lead_width_take) (simp add: trim_left_def)
  with assms show "\<not> has_prefix r (trim_space s)" by (simp add: lead_width_0 [OF ne(1)])
  have "lead_width (map rev space_runes) (rev (trim_space s)) = 0" by (simp add: trim_space_def trim_right_def)
  with assms show "\<not> has_suffix r (trim_space s)" by (simp add: lead_width_0 [OF ne(2)] has_suffix_def)
qed

lemma contains_char: "contains s [c] \<longleftrightarrow> c \<in> set s"
  by (induction s) (auto simp: contains_def has_prefix_def)

lemma set_trim_space: "set (trim_space s) \<subseteq> set s"
proof -
  obtain j k where "trim_space s = take k (drop j s)"
    unfolding trim_space_def trim_left_def using strip_leading_drop trim_right_take by metis
  then show ?thesis by (auto dest: in_set_takeD in_set_dropD)
qed

text \<open>A text that begins and ends with a printing ASCII character has nothing to trim.\<close>

definition ascii_graph :: "char \<Rightarrow> bool" where
  "ascii_graph c \<longleftrightarrow> (let n = (of_char c :: nat) in 33 \<le> n \<and> n \<le> 126)"

lemma lead_width_other:
  assumes "s \<noteq> []" and "\<forall>r \<in> set rs. r \<noteq> [] \<and> hd r \<noteq> hd s"
  shows "lead_width rs s = 0"
proof -
  have "\<not> has_prefix r s" if "r \<in> set rs" for r
    using assms that by (cases r; cases s) (auto simp: has_prefix_def)
  then have "find (\<lambda>r. has_prefix r s) rs = None" by (simp add: find_None_iff_all)
  then show ?thesis by (simp add: lead_width_def)
qed

lemma space_runes_graph:
  assumes "ascii_graph c"
  shows "\<forall>r \<in> set space_runes. r \<noteq> [] \<and> hd r \<noteq> c" and "\<forall>r \<in> set (map rev space_runes). r \<noteq> [] \<and> hd r \<noteq> c"
  using assms by (auto simp: space_runes_def ascii_graph_def Let_def)

lemma trim_space_graph:
  assumes "s \<noteq> []" and "ascii_graph (hd s)" and "ascii_graph (last s)"
  shows "trim_space s = s"
proof -
  have "trim_left s = s"
    using lead_width_other [OF assms(1)] space_runes_graph(1) [OF assms(2)]
    by (simp add: trim_left_def strip_leading_id)
  moreover have "trim_right s = s"
    using lead_width_other [of "rev s"] space_runes_graph(2) [OF assms(3)] assms(1)
    by (simp add: trim_right_def strip_leading_id hd_rev)
  ultimately show ?thesis by (simp add: trim_space_def)
qed

lemma trim_space_Nil [simp]: "trim_space [] = []"
  using set_trim_space [of "[]"] by simp

function fields_from :: "string \<Rightarrow> string \<Rightarrow> string list" where
  "fields_from cur s =
     (if s = [] then (if cur = [] then [] else [rev cur])
      else if lead_width space_runes s > 0
      then (if cur = [] then [] else [rev cur]) @ fields_from [] (drop (lead_width space_runes s) s)
      else fields_from (hd s # cur) (tl s))"
  by pat_completeness auto
termination
  by (relation "measure (\<lambda>(cur, s). length s)") (auto simp: lead_width_pos_less)

declare fields_from.simps [simp del]

definition str_fields :: "string \<Rightarrow> string list" where
  \<comment> \<open>\<open>strings.Fields\<close>: the maximal runs without white space\<close>
  "str_fields s = fields_from [] s"

definition trim_prefix :: "string \<Rightarrow> string \<Rightarrow> string" where
  "trim_prefix p s = (if has_prefix p s then drop (length p) s else s)"

definition trim_suffix :: "string \<Rightarrow> string \<Rightarrow> string" where
  "trim_suffix p s = (if has_suffix p s then take (length s - length p) s else s)"

section \<open>Decimal numerals\<close>

definition digit_char :: "nat \<Rightarrow> char" where
  "digit_char d = char_of (48 + d)"

fun show_nat :: "nat \<Rightarrow> string" where
  "show_nat n = (if n < 10 then [digit_char n] else show_nat (n div 10) @ [digit_char (n mod 10)])"

declare show_nat.simps [simp del]

definition show_int :: "int \<Rightarrow> string" where
  "show_int i = (if i < 0 then CHR ''-'' # show_nat (nat (- i)) else show_nat (nat i))"

definition digit_val :: "char \<Rightarrow> nat option" where
  "digit_val c = (let n = (of_char c :: nat) in if 48 \<le> n \<and> n \<le> 57 then Some (n - 48) else None)"

fun digits_val :: "nat \<Rightarrow> string \<Rightarrow> nat option" where
  "digits_val a [] = Some a"
| "digits_val a (c # s) = (case digit_val c of None \<Rightarrow> None | Some d \<Rightarrow> digits_val (10 * a + d) s)"

definition parse_uint :: "string \<Rightarrow> nat option" where
  \<comment> \<open>\<open>strconv.ParseUint(s, 10, 64)\<close>: \<open>None\<close> for a syntax or a range error\<close>
  "parse_uint s =
     (if s = [] then None
      else case digits_val 0 s of None \<Rightarrow> None | Some n \<Rightarrow> if n < 2 ^ 64 then Some n else None)"

definition atoi :: "string \<Rightarrow> int option" where
  \<comment> \<open>\<open>strconv.Atoi\<close> on 64-bit platforms\<close>
  "atoi s =
     (let (neg, ds) = (case s of
          [] \<Rightarrow> (False, [])
        | c # t \<Rightarrow> if c = CHR ''-'' then (True, t) else if c = CHR ''+'' then (False, t) else (False, s))
      in if ds = [] then None
         else case digits_val 0 ds of
             None \<Rightarrow> None
           | Some n \<Rightarrow>
               (if neg then (if n \<le> 2 ^ 63 then Some (- int n) else None)
                else (if n < 2 ^ 63 then Some (int n) else None)))"

lemma digit_val_char: "d < 10 \<Longrightarrow> digit_val (digit_char d) = Some d"
  by (simp add: digit_val_def digit_char_def)

lemma digits_val_append:
  "digits_val a (s @ t) = (case digits_val a s of None \<Rightarrow> None | Some b \<Rightarrow> digits_val b t)"
  by (induction a s rule: digits_val.induct) (auto split: option.splits)

lemma digits_val_show: "digits_val 0 (show_nat n) = Some n"
proof (induction n rule: show_nat.induct)
  case (1 n)
  show ?case
  proof (cases "n < 10")
    case True
    then show ?thesis by (simp add: show_nat.simps [of n] digit_val_char)
  next
    case False
    with 1 show ?thesis
      by (simp add: show_nat.simps [of n] digits_val_append digit_val_char)
  qed
qed

lemma show_nat_ne [simp]: "show_nat n \<noteq> []"
  by (subst show_nat.simps) simp

lemma parse_uint_show: "n < 2 ^ 64 \<Longrightarrow> parse_uint (show_nat n) = Some n"
  by (simp add: parse_uint_def digits_val_show)

lemma show_nat_inj: "show_nat m = show_nat n \<Longrightarrow> m = n"
  using digits_val_show by (metis option.inject)

definition atoi_value :: "string \<Rightarrow> int" where
  \<comment> \<open>the number \<open>strconv.Atoi\<close> returns, also beside an error: 0 for a syntax error, the nearest
    64-bit number for a range error\<close>
  "atoi_value s =
     (case atoi s of
        Some i \<Rightarrow> i
      | None \<Rightarrow>
          (let (neg, ds) = (case s of
               [] \<Rightarrow> (False, [])
             | c # t \<Rightarrow> if c = CHR ''-'' then (True, t) else if c = CHR ''+'' then (False, t) else (False, s))
           in if ds = [] \<or> digits_val 0 ds = None then 0 else if neg then - (2 ^ 63) else 2 ^ 63 - 1))"

definition utf8 :: "nat list \<Rightarrow> string" where
  \<comment> \<open>texts outside ASCII, by their bytes\<close>
  "utf8 bs = map char_of bs"

definition crlf :: string where
  "crlf = [CHR 0x0D, CHR 0x0A]"

end
