(* ===== verification/DB_Models.thy ===== *)
theory DB_Models
  imports Go_Strings
begin

text \<open>
  The rows of \<open>internal/db/models.go\<close> and the database they live in.

  Each GORM model is a record with the source's columns (the bookkeeping columns \<open>CreatedAt\<close>
  and \<open>UpdatedAt\<close> appear where the program reads them). The database itself is third-party
  code: it is modelled by what the program relies on, tables as lists of rows in insertion order,
  primary keys assigned from an auto-increment counter that is never reused, and the declared
  unique indexes.

  Every SQL statement may fail (disk full, lock timeout, lost connection). The outcomes of the
  coming statements are the field \<open>db_faults\<close>: each statement takes one entry, \<open>True\<close> makes
  it fail without an effect, and an exhausted list means that no further statement fails. Theorems
  that do not mention the field hold for every pattern of failures.
\<close>

section \<open>Rows\<close>

record domain =
  d_id :: nat
  d_name :: string
  d_smtp_port :: int
  d_imap_port :: int
  d_pop3_port :: int
  d_tls_cert_path :: string
  d_tls_key_path :: string
  d_tls_enabled :: bool
  d_dkim_selector :: string
  d_dkim_private_key :: string
  d_dkim_public_key :: string

definition zero_domain :: domain where
  "zero_domain = \<lparr>d_id = 0, d_name = [], d_smtp_port = 0, d_imap_port = 0, d_pop3_port = 0,
     d_tls_cert_path = [], d_tls_key_path = [], d_tls_enabled = False, d_dkim_selector = [],
     d_dkim_private_key = [], d_dkim_public_key = []\<rparr>"

record user =
  u_id :: nat
  u_username :: string
  u_password_hash :: string
  u_domain_id :: nat
  u_domain :: domain  \<comment> \<open>the association: filled by \<open>Preload\<close>, zero otherwise\<close>
  u_quota_bytes :: int
  u_used_bytes :: int
  u_is_active :: bool
  u_is_admin :: bool
  u_must_change_password :: bool
  u_language :: string

record message =
  m_id :: nat
  m_user_id :: nat
  m_message_id :: string
  m_folder :: string
  m_from_addr :: string
  m_to_addr :: string
  m_cc_addr :: string
  m_subject :: string
  m_text_body :: string
  m_html_body :: string
  m_raw_data :: string
  m_is_read :: bool
  m_is_flagged :: bool
  m_is_deleted :: bool
  m_date :: gotime
  m_created_at :: gotime

datatype outbound_status = Pending | Sending | Sent | Deferred | Failed | Canceled

record outbound_message =
  o_id :: nat
  o_message_id :: string
  o_user_id :: nat
  o_from_addr :: string
  o_to_addr :: string
  o_recipient_dom :: string
  o_raw_data :: string
  o_status :: outbound_status
  o_attempts :: int
  o_next_attempt_at :: gotime
  o_last_response :: string
  o_last_error :: string
  o_completed_at :: "gotime option"

datatype ban_reason =
    NoReason
  | GivenReason string
  | StagedReason int string int int      \<comment> \<open>ban number, scene, trigger number, failures\<close>
  | StagedUnknownReason int string int int \<comment> \<open>the same, with the note that grace was skipped\<close>

record ban_entry =
  b_id :: nat
  b_ip_address :: string
  b_reason :: ban_reason
  b_fail_count :: int
  b_ban_count :: int
  b_expires_at :: gotime

record protocol_log =
  p_id :: nat
  p_protocol :: string
  p_port :: int
  p_client_ip :: string
  p_username :: string
  p_success :: bool
  p_fail_reason :: string
  p_detail :: string
  p_msg_count :: int
  p_duration_ms :: int
  p_created_at :: gotime

record attachment =
  a_id :: nat
  a_message_id :: nat
  a_file_name :: string
  a_file_path :: string
  a_content_type :: string
  a_file_size :: int

record mailbox =
  mb_id :: nat
  mb_user_id :: nat
  mb_name :: string
  mb_special_use :: string
  mb_is_subscribed :: bool

record mailbox_state =
  ms_user_id :: nat
  ms_folder :: string
  ms_uid_validity :: u32

definition system_mailboxes :: "(string \<times> string) list" where
  "system_mailboxes =
     [(''INBOX'', ''''), (''Sent'', ''Sent''), (''Drafts'', ''Drafts''), (''Trash'', ''Trash'')]"

section \<open>The database\<close>

datatype tbl = TUsers | TDomains | TMessages | TOutbound | TBans | TLogs | TAttachments | TMailboxes

record db =
  db_users :: "user list"
  db_domains :: "domain list"
  db_messages :: "message list"
  db_outbound :: "outbound_message list"
  db_bans :: "ban_entry list"
  db_logs :: "protocol_log list"
  db_attachments :: "attachment list"
  db_mailboxes :: "mailbox list"
  db_mailbox_states :: "mailbox_state list"
  db_next :: "tbl \<Rightarrow> nat"  \<comment> \<open>the auto-increment counters\<close>
  db_faults :: "bool list"

definition empty_db :: db where
  "empty_db = \<lparr>db_users = [], db_domains = [], db_messages = [], db_outbound = [], db_bans = [],
     db_logs = [], db_attachments = [], db_mailboxes = [], db_mailbox_states = [],
     db_next = (\<lambda>_. 1), db_faults = []\<rparr>"

text \<open>The errors the program tells apart, and the texts it only passes on.\<close>

datatype err =
    ErrDb                   \<comment> \<open>a statement failed\<close>
  | ErrRecordNotFound       \<comment> \<open>\<open>gorm.ErrRecordNotFound\<close>\<close>
  | ErrUniqueConflict       \<comment> \<open>a unique index was violated\<close>
  | ErrInvalidEmail
  | ErrInvalidCredentials
  | ErrUserInactive
  | ErrMailboxNotFound
  | ErrMailboxExists
  | ErrMailboxInvalid
  | ErrMailboxSystem
  | ErrMailboxNotEmpty
  | ErrText string

type_synonym 'a result = "err + 'a"

section \<open>Statements\<close>

definition fault :: "db \<Rightarrow> bool" where
  "fault s = (case db_faults s of [] \<Rightarrow> False | f # _ \<Rightarrow> f)"

definition tick :: "db \<Rightarrow> db" where
  "tick s = s\<lparr>db_faults := tl (db_faults s)\<rparr>"

definition db_stmt :: "(db \<Rightarrow> 'a result \<times> db) \<Rightarrow> db \<Rightarrow> 'a result \<times> db" where
  "db_stmt f s = (if fault s then (Inl ErrDb, tick s) else f (tick s))"

definition db_query :: "(db \<Rightarrow> 'a) \<Rightarrow> db \<Rightarrow> 'a result \<times> db" where
  "db_query f = db_stmt (\<lambda>s. (Inr (f s), s))"

definition db_exec :: "(db \<Rightarrow> db) \<Rightarrow> db \<Rightarrow> unit result \<times> db" where
  "db_exec f = db_stmt (\<lambda>s. (Inr (), f s))"

definition db_first :: "(db \<Rightarrow> 'a option) \<Rightarrow> db \<Rightarrow> 'a result \<times> db" where
  "db_first f = db_stmt (\<lambda>s. (case f s of None \<Rightarrow> Inl ErrRecordNotFound | Some x \<Rightarrow> Inr x, s))"

definition db_transaction :: "(db \<Rightarrow> 'a result \<times> db) \<Rightarrow> db \<Rightarrow> 'a result \<times> db" where
  \<comment> \<open>\<open>db.Transaction\<close>: an error of the body or of the commit rolls every change back\<close>
  "db_transaction body s =
     (case body s of
        (Inl e, s1) \<Rightarrow> (Inl e, s\<lparr>db_faults := db_faults s1\<rparr>)
      | (Inr a, s1) \<Rightarrow>
          if fault s1 then (Inl ErrDb, s\<lparr>db_faults := db_faults (tick s1)\<rparr>) else (Inr a, tick s1))"

text \<open>
  Everything but the outcomes still to come. Two databases with the same \<open>tables\<close> hold the same
  rows and counters.
\<close>

definition tables :: "db \<Rightarrow> db" where
  "tables s = s\<lparr>db_faults := []\<rparr>"

lemma tick_simps [simp]:
  "db_users (tick s) = db_users s" "db_domains (tick s) = db_domains s"
  "db_messages (tick s) = db_messages s" "db_outbound (tick s) = db_outbound s"
  "db_bans (tick s) = db_bans s" "db_logs (tick s) = db_logs s"
  "db_attachments (tick s) = db_attachments s" "db_mailboxes (tick s) = db_mailboxes s"
  "db_mailbox_states (tick s) = db_mailbox_states s" "db_next (tick s) = db_next s"
  by (simp_all add: tick_def)

lemma tick_faults [simp]: "db_faults (tick s) = tl (db_faults s)"
  by (simp add: tick_def)

lemma tables_simps [simp]:
  "db_users (tables s) = db_users s" "db_domains (tables s) = db_domains s"
  "db_messages (tables s) = db_messages s" "db_outbound (tables s) = db_outbound s"
  "db_bans (tables s) = db_bans s" "db_logs (tables s) = db_logs s"
  "db_attachments (tables s) = db_attachments s" "db_mailboxes (tables s) = db_mailboxes s"
  "db_mailbox_states (tables s) = db_mailbox_states s" "db_next (tables s) = db_next s"
  "db_faults (tables s) = []"
  by (simp_all add: tables_def)

lemma tables_tick [simp]: "tables (tick s) = tables s"
  by (simp add: tables_def tick_def)

lemma tables_faults [simp]: "tables (s\<lparr>db_faults := fs\<rparr>) = tables s"
  by (simp add: tables_def)

lemma tables_idem [simp]: "tables (tables s) = tables s"
  by (simp add: tables_def)

lemma tables_eqD:
  assumes "tables s = tables t"
  shows "db_users s = db_users t" "db_domains s = db_domains t" "db_messages s = db_messages t"
    "db_outbound s = db_outbound t" "db_bans s = db_bans t" "db_logs s = db_logs t"
    "db_attachments s = db_attachments t" "db_mailboxes s = db_mailboxes t"
    "db_mailbox_states s = db_mailbox_states t" "db_next s = db_next t"
  using assms by (metis tables_simps)+

lemma fault_no_faults [simp]: "db_faults s = [] \<Longrightarrow> fault s = False"
  by (simp add: fault_def)

lemma tick_no_faults [simp]: "db_faults s = [] \<Longrightarrow> tick s = s"
  by (simp add: tick_def)

lemma db_query_tables [simp]: "tables (snd (db_query f s)) = tables s"
  by (simp add: db_query_def db_stmt_def)

lemma db_first_tables [simp]: "tables (snd (db_first f s)) = tables s"
  by (simp add: db_first_def db_stmt_def)

lemma db_query_Inr: "db_query f s = (Inr x, s') \<longleftrightarrow> \<not> fault s \<and> x = f (tick s) \<and> s' = tick s"
  by (auto simp: db_query_def db_stmt_def)

lemma db_query_Inl: "db_query f s = (Inl e, s') \<longleftrightarrow> fault s \<and> e = ErrDb \<and> s' = tick s"
  by (auto simp: db_query_def db_stmt_def)

lemma db_exec_Inr: "db_exec f s = (Inr x, s') \<longleftrightarrow> \<not> fault s \<and> s' = f (tick s)"
  by (auto simp: db_exec_def db_stmt_def)

lemma db_exec_Inl: "db_exec f s = (Inl e, s') \<longleftrightarrow> fault s \<and> e = ErrDb \<and> s' = tick s"
  by (auto simp: db_exec_def db_stmt_def)

lemma db_first_Inr: "db_first f s = (Inr x, s') \<longleftrightarrow> \<not> fault s \<and> f (tick s) = Some x \<and> s' = tick s"
  by (auto simp: db_first_def db_stmt_def split: option.splits)

lemma db_first_Inl:
  "db_first f s = (Inl e, s') \<longleftrightarrow>
     s' = tick s \<and> (fault s \<and> e = ErrDb \<or> \<not> fault s \<and> f (tick s) = None \<and> e = ErrRecordNotFound)"
  by (auto simp: db_first_def db_stmt_def split: option.splits)

lemmas stmt_results = db_query_Inr db_query_Inl db_exec_Inr db_exec_Inl db_first_Inr db_first_Inl

lemma db_query_ok [table_simps]: "db_faults s = [] \<Longrightarrow> db_query f s = (Inr (f s), s)"
  by (simp add: db_query_def db_stmt_def)

lemma db_exec_ok [table_simps]: "db_faults s = [] \<Longrightarrow> db_exec f s = (Inr (), f s)"
  by (simp add: db_exec_def db_stmt_def)

lemma db_first_ok [table_simps]:
  "db_faults s = [] \<Longrightarrow>
   db_first f s = (case f s of None \<Rightarrow> Inl ErrRecordNotFound | Some x \<Rightarrow> Inr x, s)"
  by (simp add: db_first_def db_stmt_def)

text \<open>A transaction that does not succeed leaves the tables as they were.\<close>

lemma db_transaction_Inl: "db_transaction body s = (Inl e, s') \<Longrightarrow> tables s' = tables s"
  by (auto simp: db_transaction_def split: prod.splits sum.splits if_splits)

lemma db_transaction_Inr:
  "db_transaction body s = (Inr a, s') \<Longrightarrow> \<exists>s1. body s = (Inr a, s1) \<and> tables s' = tables s1"
  by (auto simp: db_transaction_def split: prod.splits sum.splits if_splits)

section \<open>Well-formed tables\<close>

definition wf_rows :: "('r \<Rightarrow> nat) \<Rightarrow> nat \<Rightarrow> 'r list \<Rightarrow> bool" where
  "wf_rows rid n rows \<longleftrightarrow> 0 < n \<and> sorted (map rid rows) \<and> distinct (map rid rows) \<and>
     (\<forall>r \<in> set rows. 0 < rid r \<and> rid r < n)"

lemma wf_rows_Nil [simp]: "wf_rows rid n [] \<longleftrightarrow> 0 < n"
  by (simp add: wf_rows_def)

lemma wf_rows_insert: "wf_rows rid n rows \<Longrightarrow> rid r = n \<Longrightarrow> wf_rows rid (Suc n) (rows @ [r])"
  by (auto simp: wf_rows_def sorted_append less_Suc_eq intro: less_imp_le)

lemma wf_rows_filter: "wf_rows rid n rows \<Longrightarrow> wf_rows rid n (filter P rows)"
  by (auto simp: wf_rows_def distinct_map_filter sorted_filter)

lemma wf_rows_map:
  assumes "wf_rows rid n rows" and "\<And>r. rid (f r) = rid r"
  shows "wf_rows rid n (map f rows)"
  using assms by (auto simp: wf_rows_def comp_def)

lemma wf_rows_distinct: "wf_rows rid n rows \<Longrightarrow> distinct (map rid rows)"
  by (simp add: wf_rows_def)

lemma wf_rows_sorted: "wf_rows rid n rows \<Longrightarrow> sorted (map rid rows)"
  by (simp add: wf_rows_def)

lemma wf_rows_unique:
  "wf_rows rid n rows \<Longrightarrow> r \<in> set rows \<Longrightarrow> r' \<in> set rows \<Longrightarrow> rid r = rid r' \<Longrightarrow> r = r'"
  unfolding wf_rows_def by (metis distinct_map inj_onD)

lemma wf_rows_find:
  "wf_rows rid n rows \<Longrightarrow> r \<in> set rows \<Longrightarrow> find (\<lambda>x. rid x = rid r) rows = Some r"
  by (rule find_unique) (simp_all add: wf_rows_def)

definition wf_db :: "db \<Rightarrow> bool" where
  "wf_db s \<longleftrightarrow>
     wf_rows u_id (db_next s TUsers) (db_users s) \<and>
     wf_rows d_id (db_next s TDomains) (db_domains s) \<and>
     wf_rows m_id (db_next s TMessages) (db_messages s) \<and>
     wf_rows o_id (db_next s TOutbound) (db_outbound s) \<and>
     wf_rows b_id (db_next s TBans) (db_bans s) \<and>
     wf_rows p_id (db_next s TLogs) (db_logs s) \<and>
     wf_rows a_id (db_next s TAttachments) (db_attachments s) \<and>
     wf_rows mb_id (db_next s TMailboxes) (db_mailboxes s) \<and>
     distinct (map d_name (db_domains s)) \<and>
     distinct (map b_ip_address (db_bans s)) \<and>
     distinct (map (\<lambda>b. (mb_user_id b, mb_name b)) (db_mailboxes s)) \<and>
     distinct (map (\<lambda>t. (ms_user_id t, ms_folder t)) (db_mailbox_states s))"

lemma wf_empty_db: "wf_db empty_db"
  by (simp add: wf_db_def empty_db_def)

lemma wf_db_tables [simp]: "wf_db (tables s) = wf_db s"
  by (simp add: wf_db_def)

lemma wf_db_tick [simp]: "wf_db (tick s) = wf_db s"
  by (simp add: wf_db_def)

lemma wf_db_cong: "tables s = tables t \<Longrightarrow> wf_db s = wf_db t"
  by (metis wf_db_tables)

text \<open>
  \<open>Save\<close>: the row with the same primary key is overwritten; where there is none (it was
  deleted since it was read) GORM inserts the row. Listings without an order come by primary key.
\<close>

definition save_row :: "('r \<Rightarrow> nat) \<Rightarrow> 'r \<Rightarrow> 'r list \<Rightarrow> 'r list" where
  "save_row rid r rows =
     (if rid r \<in> set (map rid rows) then map (\<lambda>x. if rid x = rid r then r else x) rows
      else insort_key rid r rows)"

lemma save_row_existing:
  "rid r \<in> set (map rid rows) \<Longrightarrow> save_row rid r rows = map (\<lambda>x. if rid x = rid r then r else x) rows"
  by (simp add: save_row_def)

lemma set_save_row:
  "x \<in> set (save_row rid r rows) \<Longrightarrow> x = r \<or> x \<in> set rows \<and> rid x \<noteq> rid r"
  unfolding save_row_def by (auto simp: set_insort_key split: if_splits intro: rev_image_eqI)

lemma find_save_row:
  "find (\<lambda>x. rid x = j) (save_row rid r rows) =
     (if j = rid r then Some r else find (\<lambda>x. rid x = j) rows)"
proof (cases "rid r \<in> set (map rid rows)")
  case True
  have "find (\<lambda>x. rid x = j) (map (\<lambda>x. if rid x = rid r then r else x) rows) =
      (if j = rid r \<and> rid r \<in> rid ` set rows then Some r else find (\<lambda>x. rid x = j) rows)"
    by (induction rows) auto
  with True show ?thesis by (simp add: save_row_def)
next
  case False
  have "find (\<lambda>x. rid x = j) (insort_key rid r rows) = (if j = rid r then Some r else find (\<lambda>x. rid x = j) rows)"
    using False by (induction rows) auto
  with False show ?thesis by (simp add: save_row_def)
qed

lemma wf_save_row:
  assumes "wf_rows rid n rows" and "0 < rid r" and "rid r < n"
  shows "wf_rows rid n (save_row rid r rows)"
proof (cases "rid r \<in> set (map rid rows)")
  case True
  have "map rid (map (\<lambda>x. if rid x = rid r then r else x) rows) = map rid rows"
    by (simp add: comp_def cong: if_cong)
  with assms True show ?thesis
    by (auto simp: save_row_existing wf_rows_def simp del: map_map)
next
  case False
  with assms show ?thesis
    by (auto simp: save_row_def wf_rows_def sorted_insort_key set_insort_key distinct_map
        distinct_insort inj_on_def image_iff)
qed

text \<open>\<open>LIMIT size OFFSET (page - 1) * size\<close>; GORM leaves a negative offset or limit out.\<close>

definition paginate :: "int \<Rightarrow> int \<Rightarrow> 'a list \<Rightarrow> 'a list" where
  "paginate page sz xs =
     (let rest = drop (nat ((page - 1) * sz)) xs
      in if sz < 0 then rest else take (nat sz) rest)"

lemma paginate_nth_page:
  "paginate (int k + 1) (int n) xs = take n (drop (k * n) xs)"
  by (simp add: paginate_def Let_def nat_mult_distrib)

lemma paginate_all_pages:
  assumes "length xs \<le> k * n"
  shows "concat (map (\<lambda>i. paginate (int i + 1) (int n) xs) [0..<k]) = xs"
  using assms by (simp add: paginate_nth_page concat_pages)

end
