(* ===== verification/Mail_Store.thy ===== *)
theory Mail_Store
  imports DB_Models
begin

text \<open>
  \<open>internal/store/mail_store.go\<close>: the operations of \<open>MailStore\<close> on the \<open>messages\<close> table, one
  definition per method, then their laws: which rows an operation may touch, the order of the
  listings that every IMAP sequence number rests on, pagination, and well-formedness.
\<close>

section \<open>Operations\<close>

definition in_folder :: "nat \<Rightarrow> string \<Rightarrow> message \<Rightarrow> bool" where
  "in_folder uid f m \<longleftrightarrow> m_user_id m = uid \<and> m_folder m = f"

definition upd_messages :: "(message \<Rightarrow> bool) \<Rightarrow> (message \<Rightarrow> message) \<Rightarrow> db \<Rightarrow> db" where
  "upd_messages P f s = s\<lparr>db_messages := map (\<lambda>m. if P m then f m else m) (db_messages s)\<rparr>"

definition del_messages :: "(message \<Rightarrow> bool) \<Rightarrow> db \<Rightarrow> db" where
  "del_messages P s = s\<lparr>db_messages := filter (\<lambda>m. \<not> P m) (db_messages s)\<rparr>"

definition new_message :: "gotime \<Rightarrow> message \<Rightarrow> db \<Rightarrow> message" where
  \<comment> \<open>the row that is inserted: a fresh id, the default folder, the creation time\<close>
  "new_message now msg s =
     msg\<lparr>m_id := db_next s TMessages,
         m_folder := (if m_folder msg = [] then ''INBOX'' else m_folder msg),
         m_created_at := (if m_created_at msg = 0 then now else m_created_at msg)\<rparr>"

definition insert_message :: "message \<Rightarrow> db \<Rightarrow> db" where
  "insert_message m s = s\<lparr>db_messages := db_messages s @ [m],
                          db_next := (db_next s)(TMessages := Suc (db_next s TMessages))\<rparr>"

definition mails_create :: "gotime \<Rightarrow> message \<Rightarrow> db \<Rightarrow> message result \<times> db" where
  "mails_create now msg =
     db_stmt (\<lambda>s. let m = new_message now msg s in (Inr m, insert_message m s))"

definition mails_get_by_id :: "nat \<Rightarrow> db \<Rightarrow> message result \<times> db" where
  "mails_get_by_id i = db_first (\<lambda>s. find (\<lambda>m. m_id m = i) (db_messages s))"

definition by_date_desc :: "message \<Rightarrow> int \<times> int" where
  "by_date_desc m = (- m_date m, - int (m_id m))"

definition mails_list :: "nat \<Rightarrow> string \<Rightarrow> int \<Rightarrow> int \<Rightarrow> db \<Rightarrow> (message list \<times> int) result \<times> db" where
  "mails_list uid f page sz s =
     (case db_query (\<lambda>s. int (length (filter (in_folder uid f) (db_messages s)))) s of
        (Inl e, s1) \<Rightarrow> (Inl e, s1)
      | (Inr tot, s1) \<Rightarrow>
          (case db_query (\<lambda>s. paginate page sz
                  (sort_key by_date_desc (filter (in_folder uid f) (db_messages s)))) s1 of
             (Inl e, s2) \<Rightarrow> (Inl e, s2)
           | (Inr ms, s2) \<Rightarrow> (Inr (ms, tot), s2)))"

definition mails_mark_read_state :: "nat \<Rightarrow> bool \<Rightarrow> db \<Rightarrow> unit result \<times> db" where
  "mails_mark_read_state i b = db_exec (upd_messages (\<lambda>m. m_id m = i) (\<lambda>m. m\<lparr>m_is_read := b\<rparr>))"

definition mails_mark_read :: "nat \<Rightarrow> db \<Rightarrow> unit result \<times> db" where
  "mails_mark_read i = mails_mark_read_state i True"

definition mails_mark_flagged :: "nat \<Rightarrow> bool \<Rightarrow> db \<Rightarrow> unit result \<times> db" where
  "mails_mark_flagged i b =
     db_exec (upd_messages (\<lambda>m. m_id m = i) (\<lambda>m. m\<lparr>m_is_flagged := b\<rparr>))"

definition mails_set_read_states :: "nat list \<Rightarrow> bool \<Rightarrow> db \<Rightarrow> unit result \<times> db" where
  "mails_set_read_states ids b s =
     (if ids = [] then (Inr (), s)
      else db_exec (upd_messages (\<lambda>m. m_id m \<in> set ids) (\<lambda>m. m\<lparr>m_is_read := b\<rparr>)) s)"

definition mails_set_flagged_states :: "nat list \<Rightarrow> bool \<Rightarrow> db \<Rightarrow> unit result \<times> db" where
  "mails_set_flagged_states ids b s =
     (if ids = [] then (Inr (), s)
      else db_exec (upd_messages (\<lambda>m. m_id m \<in> set ids) (\<lambda>m. m\<lparr>m_is_flagged := b\<rparr>)) s)"

definition mails_move_to_folder :: "nat \<Rightarrow> string \<Rightarrow> db \<Rightarrow> unit result \<times> db" where
  "mails_move_to_folder i f = db_exec (upd_messages (\<lambda>m. m_id m = i) (\<lambda>m. m\<lparr>m_folder := f\<rparr>))"

definition mails_set_deleted_states :: "nat list \<Rightarrow> bool \<Rightarrow> db \<Rightarrow> unit result \<times> db" where
  "mails_set_deleted_states ids b s =
     (if ids = [] then (Inr (), s)
      else db_exec (upd_messages (\<lambda>m. m_id m \<in> set ids) (\<lambda>m. m\<lparr>m_is_deleted := b\<rparr>)) s)"

definition mails_list_deleted :: "nat \<Rightarrow> string \<Rightarrow> db \<Rightarrow> message list result \<times> db" where
  "mails_list_deleted uid f =
     db_query (\<lambda>s. sort_key m_id (filter (\<lambda>m. in_folder uid f m \<and> m_is_deleted m) (db_messages s)))"

definition mails_delete_many :: "nat list \<Rightarrow> db \<Rightarrow> unit result \<times> db" where
  "mails_delete_many ids s =
     (if ids = [] then (Inr (), s) else db_exec (del_messages (\<lambda>m. m_id m \<in> set ids)) s)"

definition mails_delete :: "nat \<Rightarrow> db \<Rightarrow> unit result \<times> db" where
  "mails_delete i = db_exec (del_messages (\<lambda>m. m_id m = i))"

definition mails_count_unread :: "nat \<Rightarrow> string \<Rightarrow> db \<Rightarrow> int result \<times> db" where
  "mails_count_unread uid f =
     db_query (\<lambda>s. int (length (filter (\<lambda>m. in_folder uid f m \<and> \<not> m_is_read m) (db_messages s))))"

definition mails_list_all :: "nat \<Rightarrow> string \<Rightarrow> db \<Rightarrow> message list result \<times> db" where
  "mails_list_all uid f = db_query (\<lambda>s. sort_key m_id (filter (in_folder uid f) (db_messages s)))"

definition mails_count :: "nat \<Rightarrow> string \<Rightarrow> db \<Rightarrow> int result \<times> db" where
  "mails_count uid f = db_query (\<lambda>s. int (length (filter (in_folder uid f) (db_messages s))))"

definition mails_max_id :: "nat \<Rightarrow> string \<Rightarrow> db \<Rightarrow> nat result \<times> db" where
  "mails_max_id uid f =
     db_query (\<lambda>s. foldr max (map m_id (filter (in_folder uid f) (db_messages s))) 0)"

definition mails_count_by_folder :: "string \<Rightarrow> db \<Rightarrow> int result \<times> db" where
  "mails_count_by_folder f = db_query (\<lambda>s. int (length (filter (\<lambda>m. m_folder m = f) (db_messages s))))"

definition mails_count_all :: "db \<Rightarrow> int result \<times> db" where
  "mails_count_all = db_query (\<lambda>s. int (length (db_messages s)))"

text \<open>
  SQL's \<open>LENGTH\<close> counts bytes in MySQL and characters in SQLite: it is the parameter
  \<open>sql_len\<close> of the two size totals.
\<close>

definition mails_total_size_by_folder :: "(string \<Rightarrow> int) \<Rightarrow> string \<Rightarrow> db \<Rightarrow> int result \<times> db" where
  "mails_total_size_by_folder sql_len f =
     db_query (\<lambda>s. sum_list (map (\<lambda>m. sql_len (m_text_body m) + sql_len (m_html_body m))
                       (filter (\<lambda>m. m_folder m = f) (db_messages s))))"

definition mails_total_size :: "(string \<Rightarrow> int) \<Rightarrow> db \<Rightarrow> int result \<times> db" where
  "mails_total_size sql_len =
     db_query (\<lambda>s. sum_list (map (\<lambda>m. sql_len (m_text_body m) + sql_len (m_html_body m)) (db_messages s)))"

definition mails_count_by_folder_since :: "string \<Rightarrow> gotime \<Rightarrow> db \<Rightarrow> int result \<times> db" where
  "mails_count_by_folder_since f since =
     db_query (\<lambda>s. int (length (filter (\<lambda>m. m_folder m = f \<and> since \<le> m_created_at m) (db_messages s))))"

definition mails_list_everything :: "int \<Rightarrow> int \<Rightarrow> db \<Rightarrow> (message list \<times> int) result \<times> db" where
  "mails_list_everything page sz s =
     (case mails_count_all s of
        (Inl e, s1) \<Rightarrow> (Inl e, s1)
      | (Inr tot, s1) \<Rightarrow>
          (case db_query (\<lambda>s. paginate page sz (sort_key (\<lambda>m. - m_date m) (db_messages s))) s1 of
             (Inl e, s2) \<Rightarrow> (Inl e, s2)
           | (Inr ms, s2) \<Rightarrow> (Inr (ms, tot), s2)))"

definition mails_list_by_folder :: "string \<Rightarrow> int \<Rightarrow> int \<Rightarrow> db \<Rightarrow> (message list \<times> int) result \<times> db" where
  "mails_list_by_folder f page sz s =
     (case mails_count_by_folder f s of
        (Inl e, s1) \<Rightarrow> (Inl e, s1)
      | (Inr tot, s1) \<Rightarrow>
          (case db_query (\<lambda>s. paginate page sz
                  (sort_key (\<lambda>m. - m_date m) (filter (\<lambda>m. m_folder m = f) (db_messages s)))) s1 of
             (Inl e, s2) \<Rightarrow> (Inl e, s2)
           | (Inr ms, s2) \<Rightarrow> (Inr (ms, tot), s2)))"

section \<open>Rows an operation may touch\<close>

lemma upd_messages_simps [simp]:
  "db_users (upd_messages P f s) = db_users s" "db_domains (upd_messages P f s) = db_domains s"
  "db_messages (upd_messages P f s) = map (\<lambda>m. if P m then f m else m) (db_messages s)"
  "db_outbound (upd_messages P f s) = db_outbound s" "db_bans (upd_messages P f s) = db_bans s"
  "db_logs (upd_messages P f s) = db_logs s" "db_attachments (upd_messages P f s) = db_attachments s"
  "db_mailboxes (upd_messages P f s) = db_mailboxes s"
  "db_mailbox_states (upd_messages P f s) = db_mailbox_states s"
  "db_next (upd_messages P f s) = db_next s" "db_faults (upd_messages P f s) = db_faults s"
  by (simp_all add: upd_messages_def)

lemma del_messages_simps [simp]:
  "db_users (del_messages P s) = db_users s" "db_domains (del_messages P s) = db_domains s"
  "db_messages (del_messages P s) = filter (\<lambda>m. \<not> P m) (db_messages s)"
  "db_outbound (del_messages P s) = db_outbound s" "db_bans (del_messages P s) = db_bans s"
  "db_logs (del_messages P s) = db_logs s" "db_attachments (del_messages P s) = db_attachments s"
  "db_mailboxes (del_messages P s) = db_mailboxes s"
  "db_mailbox_states (del_messages P s) = db_mailbox_states s"
  "db_next (del_messages P s) = db_next s" "db_faults (del_messages P s) = db_faults s"
  by (simp_all add: del_messages_def)

lemma insert_message_simps [simp]:
  "db_users (insert_message m s) = db_users s" "db_domains (insert_message m s) = db_domains s"
  "db_messages (insert_message m s) = db_messages s @ [m]"
  "db_outbound (insert_message m s) = db_outbound s" "db_bans (insert_message m s) = db_bans s"
  "db_logs (insert_message m s) = db_logs s" "db_attachments (insert_message m s) = db_attachments s"
  "db_mailboxes (insert_message m s) = db_mailboxes s"
  "db_mailbox_states (insert_message m s) = db_mailbox_states s"
  "db_next (insert_message m s) = (db_next s)(TMessages := Suc (db_next s TMessages))"
  "db_faults (insert_message m s) = db_faults s"
  by (simp_all add: insert_message_def)

lemma wf_upd_messages: "wf_db s \<Longrightarrow> (\<And>m. m_id (f m) = m_id m) \<Longrightarrow> wf_db (upd_messages P f s)"
  by (auto simp: wf_db_def intro: wf_rows_map)

lemma wf_del_messages: "wf_db s \<Longrightarrow> wf_db (del_messages P s)"
  by (auto simp: wf_db_def intro: wf_rows_filter)

lemma wf_insert_message: "wf_db s \<Longrightarrow> m_id m = db_next s TMessages \<Longrightarrow> wf_db (insert_message m s)"
  by (auto simp: wf_db_def intro: wf_rows_insert)

lemma mails_create_Inr:
  "mails_create now msg s = (Inr m, s') \<longleftrightarrow>
     \<not> fault s \<and> m = new_message now msg s \<and> s' = insert_message m (tick s)"
  by (auto simp: mails_create_def db_stmt_def Let_def new_message_def)

lemma mails_create_Inl: "mails_create now msg s = (Inl e, s') \<longleftrightarrow> fault s \<and> e = ErrDb \<and> s' = tick s"
  by (auto simp: mails_create_def db_stmt_def Let_def)

lemma mails_create_ok:
  "db_faults s = [] \<Longrightarrow>
   mails_create now msg s = (Inr (new_message now msg s), insert_message (new_message now msg s) s)"
  by (simp add: mails_create_def db_stmt_def Let_def)

lemma new_message_simps [simp]:
  "m_id (new_message now msg s) = db_next s TMessages"
  "m_user_id (new_message now msg s) = m_user_id msg"
  "m_raw_data (new_message now msg s) = m_raw_data msg"
  "m_is_read (new_message now msg s) = m_is_read msg"
  "m_is_flagged (new_message now msg s) = m_is_flagged msg"
  "m_is_deleted (new_message now msg s) = m_is_deleted msg"
  "m_text_body (new_message now msg s) = m_text_body msg"
  "m_html_body (new_message now msg s) = m_html_body msg"
  "m_date (new_message now msg s) = m_date msg"
  "m_subject (new_message now msg s) = m_subject msg"
  "m_folder msg \<noteq> [] \<Longrightarrow> m_folder (new_message now msg s) = m_folder msg"
  by (simp_all add: new_message_def)

lemma new_message_tick [simp]: "new_message now msg (tick s) = new_message now msg s"
  by (simp add: new_message_def)

lemma mails_create_wf: "wf_db s \<Longrightarrow> wf_db (snd (mails_create now msg s))"
  by (auto simp: mails_create_def db_stmt_def Let_def intro!: wf_insert_message)

lemma db_exec_wf: "wf_db s \<Longrightarrow> (\<And>t. wf_db t \<Longrightarrow> wf_db (f t)) \<Longrightarrow> wf_db (snd (db_exec f s))"
  by (auto simp: db_exec_def db_stmt_def)

lemmas mail_updates =
  mails_mark_read_def mails_mark_read_state_def mails_mark_flagged_def mails_set_read_states_def
  mails_set_flagged_states_def mails_move_to_folder_def mails_set_deleted_states_def
  mails_delete_many_def mails_delete_def

lemma mail_updates_wf:
  assumes "wf_db s"
  shows "wf_db (snd (mails_mark_read_state i b s))" "wf_db (snd (mails_mark_read i s))"
    "wf_db (snd (mails_mark_flagged i b s))" "wf_db (snd (mails_set_read_states ids b s))"
    "wf_db (snd (mails_set_flagged_states ids b s))" "wf_db (snd (mails_move_to_folder i f s))"
    "wf_db (snd (mails_set_deleted_states ids b s))" "wf_db (snd (mails_delete_many ids s))"
    "wf_db (snd (mails_delete i s))"
  using assms
  by (auto simp: mail_updates intro!: db_exec_wf wf_upd_messages wf_del_messages)

lemma mail_queries_tables [simp]:
  "tables (snd (mails_get_by_id i s)) = tables s" "tables (snd (mails_list_all uid f s)) = tables s"
  "tables (snd (mails_count uid f s)) = tables s" "tables (snd (mails_max_id uid f s)) = tables s"
  "tables (snd (mails_count_unread uid f s)) = tables s"
  "tables (snd (mails_list_deleted uid f s)) = tables s"
  "tables (snd (mails_count_all s)) = tables s" "tables (snd (mails_count_by_folder f s)) = tables s"
  by (simp_all add: mails_get_by_id_def mails_list_all_def mails_count_def mails_max_id_def
      mails_count_unread_def mails_list_deleted_def mails_count_all_def mails_count_by_folder_def)

section \<open>The view of a folder\<close>

definition folder_view :: "nat \<Rightarrow> string \<Rightarrow> db \<Rightarrow> message list" where
  \<comment> \<open>the messages of a folder in the order of their sequence numbers\<close>
  "folder_view uid f s = filter (in_folder uid f) (db_messages s)"

lemma folder_view_cong: "tables s = tables t \<Longrightarrow> folder_view uid f s = folder_view uid f t"
  unfolding folder_view_def by (metis tables_simps(3))

lemma folder_view_tick [simp]: "folder_view uid f (tick s) = folder_view uid f s"
  by (simp add: folder_view_def)

lemma wf_sorted_view: "wf_db s \<Longrightarrow> sorted (map m_id (filter P (db_messages s)))"
  by (rule sorted_filter) (simp add: wf_db_def wf_rows_def)

lemma wf_distinct_view: "wf_db s \<Longrightarrow> distinct (map m_id (filter P (db_messages s)))"
  by (rule distinct_map_filter) (simp add: wf_db_def wf_rows_def)

lemma wf_message_ids: "wf_db s \<Longrightarrow> m \<in> set (db_messages s) \<Longrightarrow> 0 < m_id m \<and> m_id m < db_next s TMessages"
  by (simp add: wf_db_def wf_rows_def)

lemma mails_list_all_Inr:
  "wf_db s \<Longrightarrow> mails_list_all uid f s = (Inr ms, s') \<longleftrightarrow>
     \<not> fault s \<and> ms = folder_view uid f s \<and> s' = tick s"
  by (simp add: mails_list_all_def stmt_results folder_view_def sort_key_id_if_sorted wf_sorted_view)

lemma mails_list_all_ok:
  "wf_db s \<Longrightarrow> db_faults s = [] \<Longrightarrow> mails_list_all uid f s = (Inr (folder_view uid f s), s)"
  by (simp add: mails_list_all_Inr)

lemma mails_list_all_Inl: "mails_list_all uid f s = (Inl e, s') \<longleftrightarrow> fault s \<and> e = ErrDb \<and> s' = tick s"
  by (simp add: mails_list_all_def stmt_results)

lemma folder_view_insert:
  "folder_view uid f (insert_message m s) =
     folder_view uid f s @ (if in_folder uid f m then [m] else [])"
  by (simp add: folder_view_def)

lemma folder_view_del: "folder_view uid f (del_messages P s) = filter (\<lambda>m. \<not> P m) (folder_view uid f s)"
  by (simp add: folder_view_def conj_commute)

lemma folder_view_upd:
  assumes "\<And>m. in_folder uid f (g m) = in_folder uid f m"
  shows "folder_view uid f (upd_messages P g s) =
     map (\<lambda>m. if P m then g m else m) (folder_view uid f s)"
  unfolding folder_view_def upd_messages_simps
  by (rule filter_map_upd) (simp add: assms)

lemma folder_view_distinct: "wf_db s \<Longrightarrow> distinct (map m_id (folder_view uid f s))"
  by (simp add: folder_view_def wf_distinct_view)

lemma folder_view_sorted: "wf_db s \<Longrightarrow> sorted (map m_id (folder_view uid f s))"
  by (simp add: folder_view_def wf_sorted_view)

lemma folder_view_ids: "wf_db s \<Longrightarrow> m \<in> set (folder_view uid f s) \<Longrightarrow> 0 < m_id m \<and> m_id m < db_next s TMessages"
  by (auto simp: folder_view_def wf_db_def wf_rows_def)

lemma mails_count_view:
  "mails_count uid f s = (Inr n, s') \<longleftrightarrow> \<not> fault s \<and> n = int (length (folder_view uid f s)) \<and> s' = tick s"
  by (simp add: mails_count_def stmt_results folder_view_def)

lemma foldr_max_ge: "x \<in> set xs \<Longrightarrow> (x::nat) \<le> foldr max xs 0"
  by (induction xs) auto

lemma foldr_max_lt: "0 < (n::nat) \<Longrightarrow> \<forall>x \<in> set xs. x < n \<Longrightarrow> foldr max xs 0 < n"
  by (induction xs) auto

section \<open>Properties of the mail store\<close>

definition sample_message :: "nat \<Rightarrow> nat \<Rightarrow> string \<Rightarrow> message" where
  "sample_message i uid f = \<lparr>m_id = i, m_user_id = uid, m_message_id = '''', m_folder = f,
     m_from_addr = ''a@x'', m_to_addr = ''b@y'', m_cc_addr = '''', m_subject = ''hi'',
     m_text_body = ''body'', m_html_body = '''', m_raw_data = '''', m_is_read = False,
     m_is_flagged = False, m_is_deleted = False, m_date = 1, m_created_at = 1\<rparr>"

definition sample_mails :: "message list \<Rightarrow> db" where
  "sample_mails ms = empty_db\<lparr>db_messages := ms, db_next := (\<lambda>_. 10)\<rparr>"

lemma sample_message_simps [simp]:
  "m_id (sample_message i uid f) = i" "m_user_id (sample_message i uid f) = uid"
  "m_folder (sample_message i uid f) = f" "m_is_deleted (sample_message i uid f) = False"
  "m_is_read (sample_message i uid f) = False" "m_date (sample_message i uid f) = 1"
  "sample_message i uid f = sample_message j v g \<longleftrightarrow> i = j \<and> uid = v \<and> f = g"
  by (auto simp: sample_message_def)

lemma sample_mails_simps [simp]:
  "db_messages (sample_mails ms) = ms" "db_next (sample_mails ms) = (\<lambda>_. 10)"
  "db_faults (sample_mails ms) = []" "db_mailboxes (sample_mails ms) = []"
  "db_mailbox_states (sample_mails ms) = []" "db_users (sample_mails ms) = []"
  by (simp_all add: sample_mails_def empty_db_def)

lemma wf_sample_mails: "wf_rows m_id 10 ms \<Longrightarrow> wf_db (sample_mails ms)"
  by (simp add: wf_db_def sample_mails_def empty_db_def)

text \<open>A message that is stored becomes the last message of its owner's folder, with an id above
  every id in use, and every other folder and user keeps exactly the listing it had; a failed
  insert changes nothing.\<close>

theorem create_appends:
  assumes "wf_db s" and "mails_create now msg s = (r, s')"
  shows "case r of
      Inl e \<Rightarrow> tables s' = tables s
    | Inr m \<Rightarrow> folder_view (m_user_id m) (m_folder m) s' = folder_view (m_user_id m) (m_folder m) s @ [m]
        \<and> (\<forall>x \<in> set (db_messages s). m_id x < m_id m)
        \<and> (\<forall>u f. (u, f) \<noteq> (m_user_id m, m_folder m) \<longrightarrow> folder_view u f s' = folder_view u f s)
        \<and> m_user_id m = m_user_id msg \<and> wf_db s'"
proof (cases r)
  case (Inl e)
  with assms(2) show ?thesis by (simp add: mails_create_Inl)
next
  case (Inr m)
  with assms(2) have "m = new_message now msg s" and s': "s' = insert_message m (tick s)"
    by (simp_all add: mails_create_Inr)
  moreover have "wf_db s'" using mails_create_wf [OF assms(1), of now msg] assms(2) by simp
  ultimately show ?thesis
    using Inr wf_message_ids [OF assms(1)] by (auto simp: folder_view_insert in_folder_def)
qed

lemma create_appends_witness:
  "wf_db (sample_mails [sample_message 1 7 ''INBOX'']) \<and>
   folder_view 7 ''INBOX'' (insert_message (sample_message 10 7 ''INBOX'')
     (sample_mails [sample_message 1 7 ''INBOX''])) =
   [sample_message 1 7 ''INBOX'', sample_message 10 7 ''INBOX'']"
proof -
  let ?s = "sample_mails [sample_message 1 7 ''INBOX'']" and ?m = "sample_message 0 7 ''INBOX''"
  have wf: "wf_db ?s" by (rule wf_sample_mails) (simp add: wf_rows_def)
  have "new_message 1 ?m ?s = sample_message 10 7 ''INBOX''"
    by (simp add: new_message_def sample_message_def)
  then have "mails_create 1 ?m ?s =
      (Inr (sample_message 10 7 ''INBOX''), insert_message (sample_message 10 7 ''INBOX'') ?s)"
    by (simp add: mails_create_ok)
  from create_appends [OF wf this] wf show ?thesis
    by (simp add: folder_view_def in_folder_def)
qed

text \<open>The pages of a folder listing partition it: with no failing statement, the concatenation of
  the first \<open>k\<close> pages is the whole folder, newest first, once \<open>k\<close> pages are enough to hold it,
  and every page reports the same total.\<close>

theorem list_pages_partition:
  assumes "db_faults s = []" and "length (folder_view uid f s) \<le> k * n"
  shows "concat (map (\<lambda>i. case fst (mails_list uid f (int i + 1) (int n) s) of
              Inr (ms, _) \<Rightarrow> ms | Inl _ \<Rightarrow> []) [0..<k]) =
         sort_key by_date_desc (folder_view uid f s) \<and>
       (\<exists>ms. mails_list uid f page sz s = (Inr (ms, int (length (folder_view uid f s))), s))"
proof -
  have "mails_list uid f page sz s =
      (Inr (paginate page sz (sort_key by_date_desc (folder_view uid f s)),
            int (length (folder_view uid f s))), s)" for page sz
    using assms(1) by (simp add: mails_list_def db_query_ok folder_view_def)
  then show ?thesis using assms(2) by (simp_all add: paginate_all_pages)
qed

lemma list_pages_partition_witness:
  "concat (map (\<lambda>i. case fst (mails_list 7 ''INBOX'' (int i + 1) (int 1)
        (sample_mails [sample_message 1 7 ''INBOX'', sample_message 2 7 ''INBOX''])) of
      Inr (ms, _) \<Rightarrow> ms | Inl _ \<Rightarrow> []) [0..<2]) =
   [sample_message 2 7 ''INBOX'', sample_message 1 7 ''INBOX'']"
  using list_pages_partition [of "sample_mails [sample_message 1 7 ''INBOX'', sample_message 2 7 ''INBOX'']"
      7 "''INBOX''" 2 1]
  by (simp add: folder_view_def in_folder_def by_date_desc_def)

end
