(* ===== verification/Account_Store.thy ===== *)
theory Account_Store
  imports DB_Models
begin

text \<open>
  \<open>internal/store/domain_store.go\<close> and \<open>user_store.go\<close>: domains, accounts, the two login
  paths and the storage quota. \<open>bcrypt\<close> is the parameter \<open>check_pw hash password\<close>.
\<close>

section \<open>Domains\<close>

definition new_domain :: "domain \<Rightarrow> db \<Rightarrow> domain" where
  \<comment> \<open>the declared defaults replace zero values\<close>
  "new_domain d s = d\<lparr>d_id := db_next s TDomains,
     d_smtp_port := (if d_smtp_port d = 0 then 25 else d_smtp_port d),
     d_imap_port := (if d_imap_port d = 0 then 143 else d_imap_port d),
     d_pop3_port := (if d_pop3_port d = 0 then 110 else d_pop3_port d),
     d_dkim_selector := (if d_dkim_selector d = [] then ''default'' else d_dkim_selector d)\<rparr>"

definition insert_domain :: "domain \<Rightarrow> db \<Rightarrow> db" where
  "insert_domain d s = s\<lparr>db_domains := db_domains s @ [d],
                         db_next := (db_next s)(TDomains := Suc (db_next s TDomains))\<rparr>"

definition domains_create :: "domain \<Rightarrow> db \<Rightarrow> domain result \<times> db" where
  "domains_create d =
     db_stmt (\<lambda>s. if d_name d \<in> d_name ` set (db_domains s) then (Inl ErrUniqueConflict, s)
                  else (let d' = new_domain d s in (Inr d', insert_domain d' s)))"

definition domains_get_by_id :: "nat \<Rightarrow> db \<Rightarrow> domain result \<times> db" where
  "domains_get_by_id i = db_first (\<lambda>s. find (\<lambda>d. d_id d = i) (db_domains s))"

definition domains_get_by_name :: "string \<Rightarrow> db \<Rightarrow> domain result \<times> db" where
  "domains_get_by_name name = db_first (\<lambda>s. find (\<lambda>d. d_name d = name) (db_domains s))"

definition domains_first_tls :: "db \<Rightarrow> domain result \<times> db" where
  "domains_first_tls =
     db_first (\<lambda>s. find (\<lambda>d. d_tls_enabled d \<and> d_tls_cert_path d \<noteq> [] \<and> d_tls_key_path d \<noteq> [])
                     (db_domains s))"

definition domains_update :: "domain \<Rightarrow> db \<Rightarrow> unit result \<times> db" where
  "domains_update d =
     db_stmt (\<lambda>s. if \<exists>x \<in> set (db_domains s). d_name x = d_name d \<and> d_id x \<noteq> d_id d
                  then (Inl ErrUniqueConflict, s)
                  else (Inr (), s\<lparr>db_domains := save_row d_id d (db_domains s)\<rparr>))"

definition domains_delete :: "nat \<Rightarrow> db \<Rightarrow> unit result \<times> db" where
  "domains_delete i = db_exec (\<lambda>s. s\<lparr>db_domains := filter (\<lambda>d. d_id d \<noteq> i) (db_domains s)\<rparr>)"

definition domains_list :: "int \<Rightarrow> int \<Rightarrow> db \<Rightarrow> (domain list \<times> int) result \<times> db" where
  "domains_list page sz s =
     (case db_query (\<lambda>s. int (length (db_domains s))) s of
        (Inl e, s1) \<Rightarrow> (Inl e, s1)
      | (Inr tot, s1) \<Rightarrow>
          (case db_query (\<lambda>s. paginate page sz (db_domains s)) s1 of
             (Inl e, s2) \<Rightarrow> (Inl e, s2)
           | (Inr ds, s2) \<Rightarrow> (Inr (ds, tot), s2)))"

section \<open>Accounts\<close>

definition domain_of :: "db \<Rightarrow> user \<Rightarrow> domain option" where
  "domain_of s u = find (\<lambda>d. d_id d = u_domain_id u) (db_domains s)"

definition with_domain :: "db \<Rightarrow> user \<Rightarrow> user" where
  \<comment> \<open>what \<open>Preload\<close> leaves in the association\<close>
  "with_domain s u = u\<lparr>u_domain := (case domain_of s u of None \<Rightarrow> zero_domain | Some d \<Rightarrow> d)\<rparr>"

definition preload_domains :: "user list \<Rightarrow> db \<Rightarrow> user list result \<times> db" where
  \<comment> \<open>one more query, left out when no row has a domain id; a row as read has no association\<close>
  "preload_domains us s =
     (if \<forall>u \<in> set us. u_domain_id u = 0 then (Inr (map (\<lambda>u. u\<lparr>u_domain := zero_domain\<rparr>) us), s)
      else db_query (\<lambda>s. map (with_domain s) us) s)"

definition preload_domain :: "user \<Rightarrow> db \<Rightarrow> user result \<times> db" where
  "preload_domain u s =
     (case preload_domains [u] s of (Inl e, s1) \<Rightarrow> (Inl e, s1) | (Inr us, s1) \<Rightarrow> (Inr (hd us), s1))"

definition new_user :: "user \<Rightarrow> db \<Rightarrow> user" where
  "new_user u s = u\<lparr>u_id := db_next s TUsers,
     u_quota_bytes := (if u_quota_bytes u = 0 then 5368709120 else u_quota_bytes u),
     u_is_active := True,
     u_language := (if u_language u = [] then ''auto'' else u_language u)\<rparr>"

definition insert_user :: "user \<Rightarrow> db \<Rightarrow> db" where
  "insert_user u s = s\<lparr>db_users := db_users s @ [u],
                       db_next := (db_next s)(TUsers := Suc (db_next s TUsers))\<rparr>"

definition users_create :: "user \<Rightarrow> db \<Rightarrow> user result \<times> db" where
  "users_create u = db_stmt (\<lambda>s. let u' = new_user u s in (Inr u', insert_user u' s))"

definition users_get_by_id :: "nat \<Rightarrow> db \<Rightarrow> user result \<times> db" where
  "users_get_by_id i s =
     (case db_first (\<lambda>s. find (\<lambda>u. u_id u = i) (db_users s)) s of
        (Inl e, s1) \<Rightarrow> (Inl e, s1)
      | (Inr u, s1) \<Rightarrow> preload_domain u s1)"

definition users_get_by_username :: "string \<Rightarrow> nat \<Rightarrow> db \<Rightarrow> user result \<times> db" where
  "users_get_by_username name did =
     db_first (\<lambda>s. find (\<lambda>u. u_username u = name \<and> u_domain_id u = did) (db_users s))"

definition in_domain :: "db \<Rightarrow> string \<Rightarrow> user \<Rightarrow> bool" where
  "in_domain s name u \<longleftrightarrow> (\<exists>d \<in> set (db_domains s). d_id d = u_domain_id u \<and> d_name d = name)"

definition users_get_by_email :: "string \<Rightarrow> db \<Rightarrow> user result \<times> db" where
  "users_get_by_email email s =
     (case split_n2 CHR ''@'' email of
        [name, dn] \<Rightarrow>
          (case db_first (\<lambda>s. find (\<lambda>u. u_username u = name \<and> in_domain s dn u) (db_users s)) s of
             (Inl e, s1) \<Rightarrow> (Inl e, s1)
           | (Inr u, s1) \<Rightarrow> preload_domain u s1)
      | _ \<Rightarrow> (Inl ErrInvalidEmail, s))"

definition check_account :: "(string \<Rightarrow> string \<Rightarrow> bool) \<Rightarrow> user \<Rightarrow> string \<Rightarrow> user result" where
  "check_account check_pw u password =
     (if \<not> u_is_active u then Inl ErrUserInactive
      else if \<not> check_pw (u_password_hash u) password then Inl ErrInvalidCredentials
      else Inr u)"

definition users_authenticate ::
  "(string \<Rightarrow> string \<Rightarrow> bool) \<Rightarrow> string \<Rightarrow> string \<Rightarrow> db \<Rightarrow> user result \<times> db" where
  "users_authenticate check_pw email password s =
     (case users_get_by_email email s of
        (Inl _, s1) \<Rightarrow> (Inl ErrInvalidCredentials, s1)
      | (Inr u, s1) \<Rightarrow> (check_account check_pw u password, s1))"

definition users_authenticate_login ::
  "(string \<Rightarrow> string \<Rightarrow> bool) \<Rightarrow> string \<Rightarrow> string \<Rightarrow> db \<Rightarrow> user result \<times> db" where
  "users_authenticate_login check_pw login password s =
     (if contains login ''@'' then users_authenticate check_pw login password s
      else (case db_query (\<lambda>s. filter (\<lambda>u. u_username u = login \<and> domain_of s u \<noteq> None) (db_users s)) s of
              (Inl _, s1) \<Rightarrow> (Inl ErrInvalidCredentials, s1)
            | (Inr us, s1) \<Rightarrow>
                (case preload_domains us s1 of
                   (Inl _, s2) \<Rightarrow> (Inl ErrInvalidCredentials, s2)
                 | (Inr us', s2) \<Rightarrow>
                     (case us' of
                        [u] \<Rightarrow> (check_account check_pw u password, s2)
                      | _ \<Rightarrow> (Inl ErrInvalidCredentials, s2)))))"

definition users_login_exists :: "string \<Rightarrow> db \<Rightarrow> bool \<times> db" where
  "users_login_exists login0 s =
     (let login = trim_space login0
      in if login = [] then (False, s)
         else if contains login ''@'' then
           (case users_get_by_email login s of (Inl _, s1) \<Rightarrow> (False, s1) | (Inr _, s1) \<Rightarrow> (True, s1))
         else (case db_query (\<lambda>s. length (filter (\<lambda>u. u_username u = login) (db_users s))) s of
                 (Inl _, s1) \<Rightarrow> (False, s1)
               | (Inr n, s1) \<Rightarrow> (n > 0, s1)))"

definition upd_users :: "(user \<Rightarrow> bool) \<Rightarrow> (user \<Rightarrow> user) \<Rightarrow> db \<Rightarrow> db" where
  "upd_users P f s = s\<lparr>db_users := map (\<lambda>u. if P u then f u else u) (db_users s)\<rparr>"

text \<open>
  \<open>Save\<close> also saves the association if it is loaded (GORM's documented auto-save of a \<open>belongs to\<close>): the
  domain is inserted unless it is there, and the foreign key is set from the loaded domain.
\<close>

definition keep_domain :: "domain \<Rightarrow> domain list \<Rightarrow> domain list" where
  \<comment> \<open>\<open>INSERT ... ON CONFLICT DO NOTHING\<close>\<close>
  "keep_domain d ds =
     (if d = zero_domain \<or> d_id d \<in> d_id ` set ds \<or> d_name d \<in> d_name ` set ds then ds else insort_key d_id d ds)"

definition with_key_of_domain :: "user \<Rightarrow> user" where
  "with_key_of_domain u = (if u_domain u = zero_domain then u else u\<lparr>u_domain_id := d_id (u_domain u)\<rparr>)"

definition users_update :: "user \<Rightarrow> db \<Rightarrow> unit result \<times> db" where
  "users_update u =
     db_exec (\<lambda>s. s\<lparr>db_domains := keep_domain (u_domain u) (db_domains s),
                     db_users := save_row u_id (with_key_of_domain u) (db_users s)\<rparr>)"

definition users_delete :: "nat \<Rightarrow> db \<Rightarrow> unit result \<times> db" where
  "users_delete i = db_exec (\<lambda>s. s\<lparr>db_users := filter (\<lambda>u. u_id u \<noteq> i) (db_users s)\<rparr>)"

definition users_list :: "nat \<Rightarrow> int \<Rightarrow> int \<Rightarrow> db \<Rightarrow> (user list \<times> int) result \<times> db" where
  "users_list did page sz s =
     (case db_query (\<lambda>s. int (length (filter (\<lambda>u. u_domain_id u = did) (db_users s)))) s of
        (Inl e, s1) \<Rightarrow> (Inl e, s1)
      | (Inr tot, s1) \<Rightarrow>
          (case db_query (\<lambda>s. paginate page sz (filter (\<lambda>u. u_domain_id u = did) (db_users s))) s1 of
             (Inl e, s2) \<Rightarrow> (Inl e, s2)
           | (Inr us, s2) \<Rightarrow>
               (case preload_domains us s2 of
                  (Inl e, s3) \<Rightarrow> (Inl e, s3)
                | (Inr us', s3) \<Rightarrow> (Inr (us', tot), s3))))"

definition users_list_all :: "int \<Rightarrow> int \<Rightarrow> db \<Rightarrow> (user list \<times> int) result \<times> db" where
  "users_list_all page sz s =
     (case db_query (\<lambda>s. int (length (db_users s))) s of
        (Inl e, s1) \<Rightarrow> (Inl e, s1)
      | (Inr tot, s1) \<Rightarrow>
          (case db_query (\<lambda>s. paginate page sz (db_users s)) s1 of
             (Inl e, s2) \<Rightarrow> (Inl e, s2)
           | (Inr us, s2) \<Rightarrow>
               (case preload_domains us s2 of
                  (Inl e, s3) \<Rightarrow> (Inl e, s3)
                | (Inr us', s3) \<Rightarrow> (Inr (us', tot), s3))))"

definition users_update_used_bytes :: "nat \<Rightarrow> int \<Rightarrow> db \<Rightarrow> unit result \<times> db" where
  "users_update_used_bytes i delta =
     db_exec (upd_users (\<lambda>u. u_id u = i) (\<lambda>u. u\<lparr>u_used_bytes := u_used_bytes u + delta\<rparr>))"

definition users_try_reserve_quota :: "nat \<Rightarrow> int \<Rightarrow> db \<Rightarrow> bool result \<times> db" where
  "users_try_reserve_quota i delta s =
     (if delta \<le> 0 then (Inr False, s)
      else db_stmt (\<lambda>s.
        let P = (\<lambda>u. u_id u = i \<and> u_used_bytes u + delta \<le> u_quota_bytes u)
        in (Inr (length (filter P (db_users s)) = 1),
            upd_users P (\<lambda>u. u\<lparr>u_used_bytes := u_used_bytes u + delta\<rparr>) s)) s)"

definition users_update_password :: "nat \<Rightarrow> string \<Rightarrow> db \<Rightarrow> unit result \<times> db" where
  "users_update_password i hashed =
     db_exec (upd_users (\<lambda>u. u_id u = i)
       (\<lambda>u. u\<lparr>u_password_hash := hashed, u_must_change_password := False\<rparr>))"

definition users_update_language :: "nat \<Rightarrow> string \<Rightarrow> db \<Rightarrow> unit result \<times> db" where
  "users_update_language i lang =
     (let l = (if lang \<in> {''auto'', ''en'', ''zh'', ''ja''} then lang else ''auto'')
      in db_exec (upd_users (\<lambda>u. u_id u = i) (\<lambda>u. u\<lparr>u_language := l\<rparr>)))"

section \<open>Laws of the account store\<close>

lemma with_domain_simps [simp]:
  "u_id (with_domain s u) = u_id u" "u_username (with_domain s u) = u_username u"
  "u_password_hash (with_domain s u) = u_password_hash u" "u_domain_id (with_domain s u) = u_domain_id u"
  "u_is_active (with_domain s u) = u_is_active u" "u_is_admin (with_domain s u) = u_is_admin u"
  "u_quota_bytes (with_domain s u) = u_quota_bytes u" "u_used_bytes (with_domain s u) = u_used_bytes u"
  "u_must_change_password (with_domain s u) = u_must_change_password u"
  "u_language (with_domain s u) = u_language u"
  by (simp_all add: with_domain_def)

lemma with_domain_tick [simp]: "with_domain (tick s) u = with_domain s u"
  by (simp add: with_domain_def domain_of_def)

lemma domain_of_tick [simp]: "domain_of (tick s) u = domain_of s u"
  by (simp add: domain_of_def)

lemma in_domain_tick [simp]: "in_domain (tick s) n u = in_domain s n u"
  by (simp add: in_domain_def)

definition same_account :: "user \<Rightarrow> user \<Rightarrow> bool" where
  \<comment> \<open>the same row, whatever the loaded association\<close>
  "same_account u v \<longleftrightarrow> u\<lparr>u_domain := zero_domain\<rparr> = v\<lparr>u_domain := zero_domain\<rparr>"

lemma same_account_refl [simp]: "same_account u u"
  by (simp add: same_account_def)

lemma same_account_with_domain [simp]: "same_account (with_domain s u) u"
  by (simp add: same_account_def with_domain_def)

lemma same_account_fields:
  assumes "same_account u v"
  shows "u_id u = u_id v" "u_username u = u_username v" "u_is_active u = u_is_active v"
    "u_password_hash u = u_password_hash v" "u_domain_id u = u_domain_id v" "u_is_admin u = u_is_admin v"
  using assms unfolding same_account_def by (cases u; cases v; simp)+

lemma same_account_stripped [simp]: "same_account (u\<lparr>u_domain := zero_domain\<rparr>) u"
  by (simp add: same_account_def)

definition domain_loaded :: "db \<Rightarrow> user \<Rightarrow> bool" where
  \<comment> \<open>the association is empty or the row of the domains table that the foreign key names\<close>
  "domain_loaded s u \<longleftrightarrow> u_domain u = zero_domain \<or>
     u_domain u \<in> set (db_domains s) \<and> d_id (u_domain u) = u_domain_id u"

lemma domain_loaded_with_domain [simp]: "domain_loaded s (with_domain s u)"
  unfolding domain_loaded_def with_domain_def domain_of_def
  by (auto split: option.splits dest!: find_Some_iff)

lemma domain_loaded_stripped [simp]: "domain_loaded s (u\<lparr>u_domain := zero_domain\<rparr>)"
  by (simp add: domain_loaded_def)

lemma domain_loaded_tables: "tables s = tables t \<Longrightarrow> domain_loaded s u = domain_loaded t u"
  unfolding domain_loaded_def tables_def by (cases s; cases t) simp

lemma preload_domains_loaded:
  assumes "preload_domains us s = (Inr us', s')" and "u \<in> set us'"
  shows "domain_loaded s u"
  using assms by (auto simp: preload_domains_def stmt_results split: if_splits)

lemma preload_domain_loaded:
  assumes "preload_domain u s = (Inr u', s')"
  shows "domain_loaded s u'"
proof -
  from assms obtain us' s1 where p: "preload_domains [u] s = (Inr us', s1)" and u': "u' = hd us'"
    by (auto simp: preload_domain_def split: prod.splits sum.splits)
  from p have "length us' = 1"
    by (auto simp: preload_domains_def stmt_results split: if_splits)
  then have "u' \<in> set us'" unfolding u' by (cases us') simp_all
  with preload_domains_loaded [OF p] show ?thesis .
qed

lemma preload_domains_Inr:
  assumes "preload_domains us s = (Inr us', s')"
  shows "tables s' = tables s" and "list_all2 same_account us' us"
  using assms
  by (auto simp: preload_domains_def stmt_results list_all2_conv_all_nth split: if_splits)

lemma preload_domain_Inr:
  assumes "preload_domain u s = (Inr u', s')"
  shows "tables s' = tables s" and "same_account u' u"
  using assms
  by (auto simp: preload_domain_def preload_domains_def stmt_results split: if_splits prod.splits sum.splits)

lemma preload_domain_tables: "tables (snd (preload_domain u s)) = tables s"
  by (auto simp: preload_domain_def preload_domains_def stmt_results split: if_splits prod.splits sum.splits)

lemma preload_domains_tables: "tables (snd (preload_domains us s)) = tables s"
  by (auto simp: preload_domains_def)

lemma users_get_by_email_tables [simp]: "tables (snd (users_get_by_email email s)) = tables s"
  using preload_domain_tables
  by (auto simp: users_get_by_email_def db_first_def db_stmt_def split: list.splits option.splits)

lemma users_get_by_id_tables [simp]: "tables (snd (users_get_by_id i s)) = tables s"
  using preload_domain_tables
  by (auto simp: users_get_by_id_def db_first_def db_stmt_def split: option.splits)

lemma users_get_by_id_Inr:
  assumes "users_get_by_id i s = (Inr u, s')"
  shows "\<exists>v \<in> set (db_users s). same_account u v \<and> u_id v = i" and "tables s' = tables s"
proof -
  from assms obtain v where "find (\<lambda>u. u_id u = i) (db_users s) = Some v"
    and "preload_domain v (tick s) = (Inr u, s')"
    by (auto simp: users_get_by_id_def stmt_results split: prod.splits sum.splits)
  then show "\<exists>v \<in> set (db_users s). same_account u v \<and> u_id v = i" and "tables s' = tables s"
    using find_Some_iff preload_domain_Inr by fastforce+
qed

lemma users_get_by_email_frame: "users_get_by_email email s = (r, s') \<Longrightarrow> tables s' = tables s"
  by (metis snd_conv users_get_by_email_tables)

lemma preload_domains_frame: "preload_domains us s = (r, s') \<Longrightarrow> tables s' = tables s"
  by (metis snd_conv preload_domains_tables)

definition login_refers :: "db \<Rightarrow> string \<Rightarrow> user \<Rightarrow> bool" where
  \<comment> \<open>the accounts a login name stands for\<close>
  "login_refers s login u \<longleftrightarrow>
     (if contains login ''@''
      then (case split_n2 CHR ''@'' login of
              [name, dn] \<Rightarrow> u_username u = name \<and> in_domain s dn u
            | _ \<Rightarrow> False)
      else u_username u = login \<and> domain_of s u \<noteq> None)"

lemma users_get_by_email_Inr:
  assumes "users_get_by_email email s = (Inr u, s')"
  shows "\<exists>v \<in> set (db_users s). same_account u v \<and>
    (case split_n2 CHR ''@'' email of [n, d] \<Rightarrow> u_username v = n \<and> in_domain s d v | _ \<Rightarrow> False)"
proof -
  from assms obtain n d v s1 where nd: "split_n2 CHR ''@'' email = [n, d]"
    and v: "find (\<lambda>u. u_username u = n \<and> in_domain s d u) (db_users s) = Some v"
    and "preload_domain v s1 = (Inr u, s')"
    by (auto simp: users_get_by_email_def stmt_results split: prod.splits sum.splits list.splits)
  then have "same_account u v" by (auto dest: preload_domain_Inr)
  with find_Some_iff [OF v] nd show ?thesis by auto
qed

lemma users_get_by_email_loaded:
  assumes "users_get_by_email email s = (Inr u, s')"
  shows "domain_loaded s u"
proof -
  from assms obtain v where "preload_domain v (tick s) = (Inr u, s')"
    by (auto simp: users_get_by_email_def stmt_results split: prod.splits sum.splits list.splits)
  then have "domain_loaded (tick s) u" by (rule preload_domain_loaded)
  then show ?thesis by (simp add: domain_loaded_def)
qed

lemma check_account_Inr:
  "check_account cp u pw = Inr v \<longleftrightarrow> v = u \<and> u_is_active u \<and> cp (u_password_hash u) pw"
  by (auto simp: check_account_def)

lemma users_authenticate_login_tables [simp]:
  "tables (snd (users_authenticate_login cp login pw s)) = tables s"
  by (auto simp: users_authenticate_login_def users_authenticate_def stmt_results
      split: prod.splits sum.splits list.splits
      dest: users_get_by_email_frame preload_domains_frame)

lemma filter_length_unique:
  assumes "distinct (map f xs)" and "x \<in> set xs" and "\<And>y. P y \<Longrightarrow> f y = f x"
  shows "length (filter P xs) = (if P x then 1 else 0)"
  using assms
proof (induction xs)
  case (Cons y ys)
  show ?case
  proof (cases "y = x")
    case True
    have "\<not> P z" if "z \<in> set ys" for z
    proof
      assume "P z"
      then have "f z = f y" using Cons.prems(3) True by simp
      with that Cons.prems(1) show False by (metis distinct.simps(2) image_eqI list.set_map list.simps(9))
    qed
    then have "filter P ys = []" by (simp add: filter_empty_conv)
    with True show ?thesis by simp
  next
    case False
    then have "x \<in> set ys" "f y \<noteq> f x" using Cons.prems by auto
    with Cons show ?thesis by auto
  qed
qed simp

fun run_reservations :: "(nat \<times> int) list \<Rightarrow> db \<Rightarrow> bool result list \<times> db" where
  \<comment> \<open>any number of submissions, of any accounts, each reserving its bytes\<close>
  "run_reservations [] s = ([], s)"
| "run_reservations ((i, d) # rs) s =
     (case users_try_reserve_quota i d s of
        (r, s1) \<Rightarrow> (case run_reservations rs s1 of (res, s2) \<Rightarrow> (r # res, s2)))"

definition granted :: "nat \<Rightarrow> (nat \<times> int) list \<Rightarrow> bool result list \<Rightarrow> int" where
  "granted i rs res = sum_list (map (\<lambda>((j, d), r). if j = i \<and> r = Inr True then d else 0) (zip rs res))"

lemma reserve_one:
  assumes "wf_db s" and "u \<in> set (db_users s)" and "users_try_reserve_quota j d s = (r, s')"
  shows "\<exists>u' \<in> set (db_users s'). u_id u' = u_id u \<and> u_quota_bytes u' = u_quota_bytes u
      \<and> u_used_bytes u' = u_used_bytes u + (if j = u_id u \<and> r = Inr True then d else 0)
      \<and> (r = Inr True \<longrightarrow> 0 < d) \<and> (u_used_bytes u \<le> u_quota_bytes u \<longrightarrow> u_used_bytes u' \<le> u_quota_bytes u)"
    and "map u_id (db_users s') = map u_id (db_users s)"
    and "wf_db s'"
proof -
  let ?P = "\<lambda>u. u_id u = j \<and> u_used_bytes u + d \<le> u_quota_bytes u"
  let ?f = "\<lambda>u. u\<lparr>u_used_bytes := u_used_bytes u + d\<rparr>"
  have wfr: "wf_rows u_id (db_next s TUsers) (db_users s)" using assms(1) by (simp add: wf_db_def)
  consider "d \<le> 0" "r = Inr False" "s' = s" | "0 < d" "r = Inl ErrDb" "s' = tick s"
    | "0 < d" "r = Inr (length (filter ?P (db_users s)) = 1)" "s' = upd_users ?P ?f (tick s)"
    using assms(3) by (force simp: users_try_reserve_quota_def db_stmt_def Let_def split: if_splits)
  then have "(\<exists>u' \<in> set (db_users s'). u_id u' = u_id u \<and> u_quota_bytes u' = u_quota_bytes u
      \<and> u_used_bytes u' = u_used_bytes u + (if j = u_id u \<and> r = Inr True then d else 0)
      \<and> (r = Inr True \<longrightarrow> 0 < d) \<and> (u_used_bytes u \<le> u_quota_bytes u \<longrightarrow> u_used_bytes u' \<le> u_quota_bytes u))
    \<and> map u_id (db_users s') = map u_id (db_users s) \<and> wf_db s'"
  proof cases
    case 1
    with assms show ?thesis by auto
  next
    case 2
    with assms show ?thesis by auto
  next
    case 3
    let ?u' = "if ?P u then ?f u else u"
    have "length (filter ?P (db_users s)) = (if ?P u then 1 else 0)" if "u_id u = j"
      using wf_rows_distinct [OF wfr] assms(2) by (rule filter_length_unique) (simp add: that)
    with 3 have "u_used_bytes ?u' = u_used_bytes u + (if j = u_id u \<and> r = Inr True then d else 0)"
      by auto
    moreover have "?u' \<in> set (db_users s')" using 3(3) assms(2) by (auto simp: upd_users_def)
    moreover have "map u_id (db_users s') = map u_id (db_users s)"
      using 3(3) by (auto simp: upd_users_def)
    moreover have "wf_db s'" using 3(3) assms(1) by (auto simp: wf_db_def upd_users_def intro: wf_rows_map)
    moreover have "u_id ?u' = u_id u" "u_quota_bytes ?u' = u_quota_bytes u"
      "u_used_bytes u \<le> u_quota_bytes u \<longrightarrow> u_used_bytes ?u' \<le> u_quota_bytes u" by auto
    ultimately show ?thesis using 3(1) by blast
  qed
  then show "\<exists>u' \<in> set (db_users s'). u_id u' = u_id u \<and> u_quota_bytes u' = u_quota_bytes u
      \<and> u_used_bytes u' = u_used_bytes u + (if j = u_id u \<and> r = Inr True then d else 0)
      \<and> (r = Inr True \<longrightarrow> 0 < d) \<and> (u_used_bytes u \<le> u_quota_bytes u \<longrightarrow> u_used_bytes u' \<le> u_quota_bytes u)"
    and "map u_id (db_users s') = map u_id (db_users s)" and "wf_db s'" by blast+
qed

section \<open>Properties of the account store\<close>

definition sample_domain :: "nat \<Rightarrow> string \<Rightarrow> domain" where
  "sample_domain i n = zero_domain\<lparr>d_id := i, d_name := n\<rparr>"

definition sample_user :: "nat \<Rightarrow> string \<Rightarrow> nat \<Rightarrow> user" where
  "sample_user i n d = \<lparr>u_id = i, u_username = n, u_password_hash = ''pw'', u_domain_id = d,
     u_domain = zero_domain, u_quota_bytes = 100, u_used_bytes = 0, u_is_active = True,
     u_is_admin = False, u_must_change_password = False, u_language = ''auto''\<rparr>"

definition sample_accounts :: db where
  "sample_accounts = empty_db\<lparr>db_users := [sample_user 1 ''ann'' 1, sample_user 2 ''bob'' 1],
     db_domains := [sample_domain 1 ''x.org''], db_next := (\<lambda>_. 10)\<rparr>"

lemma wf_sample_accounts: "wf_db sample_accounts"
  by (simp add: wf_db_def sample_accounts_def empty_db_def wf_rows_def sample_user_def sample_domain_def
      zero_domain_def)

text \<open>C20: whatever the order of the submissions and whichever statements fail, the bytes charged to an
  account are exactly the sum of the reservations that were granted to it, and an account that is
  within its quota stays within it.\<close>

theorem quota_never_exceeded:
  assumes "wf_db s" and "u \<in> set (db_users s)" and "run_reservations rs s = (res, s')"
  shows "\<exists>u' \<in> set (db_users s'). u_id u' = u_id u \<and>
      u_used_bytes u' = u_used_bytes u + granted (u_id u) rs res \<and>
      (u_used_bytes u \<le> u_quota_bytes u \<longrightarrow> u_used_bytes u' \<le> u_quota_bytes u)"
  using assms
proof (induction rs arbitrary: s u res)
  case Nil
  then show ?case by (auto simp: granted_def)
next
  case (Cons p rs)
  obtain j d where p: "p = (j, d)" by (cases p)
  obtain r s1 where r: "users_try_reserve_quota j d s = (r, s1)"
    by (cases "users_try_reserve_quota j d s")
  with p Cons.prems(3) obtain res1 where run: "run_reservations rs s1 = (res1, s')" and res: "res = r # res1"
    by (auto split: prod.splits)
  from reserve_one [OF Cons.prems(1,2) r] obtain u1 where u1: "u1 \<in> set (db_users s1)"
    "u_id u1 = u_id u" "u_quota_bytes u1 = u_quota_bytes u"
    "u_used_bytes u1 = u_used_bytes u + (if j = u_id u \<and> r = Inr True then d else 0)"
    "u_used_bytes u \<le> u_quota_bytes u \<longrightarrow> u_used_bytes u1 \<le> u_quota_bytes u" and "wf_db s1" by blast
  from Cons.IH [OF this(6) this(1) run] u1 show ?case
    by (auto simp: granted_def res p)
qed

lemma quota_never_exceeded_witness:
  "fst (run_reservations [(1, 60), (1, 60), (2, 30)] sample_accounts) = [Inr True, Inr False, Inr True] \<and>
   (\<exists>u' \<in> set (db_users (snd (run_reservations [(1, 60), (1, 60), (2, 30)] sample_accounts))).
      u_id u' = 1 \<and> u_used_bytes u' = 60)"
proof -
  let ?rs = "[(1, 60), (1, 60), (2, 30)] :: (nat \<times> int) list"
  have res: "fst (run_reservations ?rs sample_accounts) = [Inr True, Inr False, Inr True]"
    by (simp add: sample_accounts_def sample_user_def empty_db_def users_try_reserve_quota_def
        db_stmt_def Let_def upd_users_def fault_def tick_def)
  have "sample_user 1 ''ann'' 1 \<in> set (db_users sample_accounts)" by (simp add: sample_accounts_def)
  from quota_never_exceeded [OF wf_sample_accounts this prod.collapse [symmetric], of ?rs] res
  show ?thesis by (auto simp: granted_def sample_user_def)
qed

lemma users_authenticate_login_Inr:
  assumes "users_authenticate_login check_pw login pw s = (Inr u, s')"
  shows "(\<exists>v \<in> set (db_users s). same_account u v \<and> login_refers s login v \<and>
      (\<not> contains login ''@'' \<longrightarrow> filter (login_refers s login) (db_users s) = [v])) \<and>
    u_is_active u \<and> check_pw (u_password_hash u) pw \<and> tables s' = tables s"
proof (cases "contains login ''@''")
  case True
  with assms obtain s1 where e: "users_get_by_email login s = (Inr u, s1)"
    and "check_account check_pw u pw = Inr u"
    by (auto simp: users_authenticate_login_def users_authenticate_def check_account_Inr
        split: prod.splits sum.splits)
  moreover have "tables s' = tables s"
    using users_authenticate_login_tables [of check_pw login pw s] assms by simp
  ultimately show ?thesis
    using users_get_by_email_Inr [OF e] True by (auto simp: login_refers_def check_account_Inr)
next
  case False
  then have refers: "login_refers s login = (\<lambda>u. u_username u = login \<and> domain_of s u \<noteq> None)"
    by (auto simp: login_refers_def)
  from False assms obtain us' s2 where
    p: "preload_domains (filter (login_refers s login) (db_users s)) (tick s) = (Inr us', s2)"
    and "us' = [u]" and c: "check_account check_pw u pw = Inr u"
    by (auto simp: users_authenticate_login_def refers stmt_results check_account_Inr
        split: prod.splits sum.splits list.splits)
  with preload_domains_Inr(2) [OF p] obtain v where v: "filter (login_refers s login) (db_users s) = [v]"
    and "same_account u v" by (auto simp: list_all2_Cons1)
  moreover from v have "v \<in> set (db_users s)" "login_refers s login v"
    by (auto simp: filter_eq_Cons_iff)
  moreover have "tables s' = tables s"
    using users_authenticate_login_tables [of check_pw login pw s] assms by simp
  ultimately show ?thesis using c by (auto simp: check_account_Inr)
qed

lemma users_authenticate_login_loaded:
  assumes "users_authenticate_login check_pw login pw s = (Inr u, s')"
  shows "domain_loaded s u"
proof (cases "contains login ''@''")
  case True
  with assms show ?thesis
    by (auto simp: users_authenticate_login_def users_authenticate_def check_account_Inr
        split: prod.splits sum.splits dest: users_get_by_email_loaded)
next
  case False
  with assms obtain us us' s2 where
    p: "preload_domains us (tick s) = (Inr us', s2)" and "us' = [u]"
    by (auto simp: users_authenticate_login_def stmt_results check_account_Inr
        split: prod.splits sum.splits list.splits)
  with preload_domains_loaded [OF p] domain_loaded_tables [of "tick s" s] show ?thesis by simp
qed

text \<open>C21: the protocol login is sound under every pattern of failing statements: whoever it lets in is a
  row of the users table that the login name stands for (for a bare user name, the only account of
  that name), is active, and has the password; and the login changes no table.\<close>

theorem login_sound:
  assumes "users_authenticate_login check_pw login pw s = (Inr u, s')"
  shows "(\<exists>v \<in> set (db_users s). same_account u v \<and> login_refers s login v \<and>
      (\<not> contains login ''@'' \<longrightarrow> filter (login_refers s login) (db_users s) = [v])) \<and>
    u_is_active u \<and> check_pw (u_password_hash u) pw \<and> tables s' = tables s"
  using assms by (rule users_authenticate_login_Inr)

lemma login_sound_witness:
  "fst (users_authenticate_login (=) ''ann'' ''pw'' sample_accounts) =
     Inr (with_domain sample_accounts (sample_user 1 ''ann'' 1)) \<and>
   (\<exists>v \<in> set (db_users sample_accounts). login_refers sample_accounts ''ann'' v)"
proof -
  have "users_authenticate_login (=) ''ann'' ''pw'' sample_accounts =
      (Inr (with_domain sample_accounts (sample_user 1 ''ann'' 1)), sample_accounts)"
    by (simp add: users_authenticate_login_def sample_accounts_def sample_user_def sample_domain_def
        zero_domain_def empty_db_def contains_def db_query_def db_stmt_def fault_def tick_def domain_of_def
        preload_domains_def check_account_def with_domain_def has_prefix_def)
  from login_sound [OF this] this show ?thesis by auto
qed

text \<open>An account logs in by its full address whenever no statement fails: for the account that the
  address stands for first, the outcome is decided by the active flag and the password alone,
  the flag being tested first.\<close>

theorem login_by_address:
  assumes "db_faults s = []" and "split_n2 CHR ''@'' login = [n, d]" and "contains login ''@''"
    and "find (login_refers s login) (db_users s) = Some v"
  shows "\<exists>u. same_account u v \<and> users_authenticate_login check_pw login pw s =
      (if \<not> u_is_active v then Inl ErrUserInactive
       else if check_pw (u_password_hash v) pw then Inr u else Inl ErrInvalidCredentials, s)"
proof -
  have "login_refers s login = (\<lambda>u. u_username u = n \<and> in_domain s d u)"
    using assms(2,3) by (auto simp: login_refers_def)
  with assms have "\<exists>u. same_account u v \<and> users_get_by_email login s = (Inr u, s)"
    by (auto simp: users_get_by_email_def table_simps preload_domain_def preload_domains_def)
  then obtain u where "same_account u v" "users_get_by_email login s = (Inr u, s)" by blast
  with assms(3) show ?thesis
    by (auto simp: users_authenticate_login_def users_authenticate_def check_account_def
        dest: same_account_fields intro!: exI [of _ u])
qed

lemma login_by_address_witness:
  "fst (users_authenticate_login (=) ''bob@x.org'' ''nope'' sample_accounts) = Inl ErrInvalidCredentials"
proof -
  have f: "find (login_refers sample_accounts ''bob@x.org'') (db_users sample_accounts) =
      Some (sample_user 2 ''bob'' 1)"
    by (simp add: sample_accounts_def sample_user_def login_refers_def in_domain_def sample_domain_def
        zero_domain_def split_n2_def index_byte_def contains_def has_prefix_def)
  have "db_faults sample_accounts = []" "split_n2 CHR ''@'' ''bob@x.org'' = [''bob'', ''x.org'']"
    "contains ''bob@x.org'' ''@''"
    by (simp_all add: sample_accounts_def empty_db_def split_n2_def index_byte_def contains_def has_prefix_def)
  from login_by_address [OF this f, of "(=)" "''nope''"] show ?thesis by (auto simp: sample_user_def)
qed

end
