(* ===== verification/Log_Store.thy ===== *)
theory Log_Store
  imports DB_Models
begin

text \<open>
  \<open>internal/store/protocol_log_store.go\<close> and \<open>attachment_store.go\<close>: the call log of the mail
  protocols with its filters, statistics and retention, and the attachment rows.
\<close>

section \<open>Protocol log\<close>

fun sql_like :: "string \<Rightarrow> string \<Rightarrow> bool" where
  \<comment> \<open>SQL's \<open>LIKE\<close>: ASCII case is ignored, \<open>%\<close> stands for any text and \<open>_\<close> for any character\<close>
  "sql_like [] s = (s = [])"
| "sql_like (p # ps) [] = (p = CHR ''%'' \<and> sql_like ps [])"
| "sql_like (p # ps) (c # s) =
     (if p = CHR ''%'' then sql_like ps (c # s) \<or> sql_like (p # ps) s
      else (p = CHR ''_'' \<or> lower_char p = lower_char c) \<and> sql_like ps s)"

record log_filter =
  lf_protocol :: string
  lf_success :: "bool option"
  lf_ip :: string
  lf_username :: string
  lf_from :: gotime
  lf_to :: gotime

definition logs_create :: "gotime \<Rightarrow> protocol_log \<Rightarrow> db \<Rightarrow> nat result \<times> db" where
  \<comment> \<open>the id of the new row\<close>
  "logs_create now l =
     db_stmt (\<lambda>s. let r = l\<lparr>p_id := db_next s TLogs,
                           p_created_at := (if p_created_at l = 0 then now else p_created_at l)\<rparr>
                  in (Inr (p_id r), s\<lparr>db_logs := db_logs s @ [r],
                                      db_next := (db_next s)(TLogs := Suc (db_next s TLogs))\<rparr>))"

definition logs_update_duration :: "nat \<Rightarrow> int \<Rightarrow> db \<Rightarrow> unit result \<times> db" where
  "logs_update_duration i ms =
     db_exec (\<lambda>s. s\<lparr>db_logs := map (\<lambda>l. if p_id l = i then l\<lparr>p_duration_ms := ms\<rparr> else l) (db_logs s)\<rparr>)"

definition log_matches :: "log_filter \<Rightarrow> protocol_log \<Rightarrow> bool" where
  "log_matches f l \<longleftrightarrow>
     (lf_protocol f = [] \<or> p_protocol l = lf_protocol f) \<and>
     (case lf_success f of None \<Rightarrow> True | Some b \<Rightarrow> p_success l = b) \<and>
     (lf_ip f = [] \<or> sql_like (''%'' @ lf_ip f @ ''%'') (p_client_ip l)) \<and>
     (lf_username f = [] \<or> sql_like (''%'' @ lf_username f @ ''%'') (p_username l)) \<and>
     (lf_from f = 0 \<or> lf_from f \<le> p_created_at l) \<and>
     (lf_to f = 0 \<or> p_created_at l \<le> lf_to f)"

definition logs_list :: "int \<Rightarrow> int \<Rightarrow> log_filter \<Rightarrow> db \<Rightarrow> (protocol_log list \<times> int) result \<times> db" where
  "logs_list page sz f s =
     (case db_query (\<lambda>s. int (length (filter (log_matches f) (db_logs s)))) s of
        (Inl e, s1) \<Rightarrow> (Inl e, s1)
      | (Inr tot, s1) \<Rightarrow>
          (case db_query (\<lambda>s. paginate page sz (rev (filter (log_matches f) (db_logs s)))) s1 of
             (Inl e, s2) \<Rightarrow> (Inl e, s2)
           | (Inr ls, s2) \<Rightarrow> (Inr (ls, tot), s2)))"

type_synonym log_stats = "string \<Rightarrow> (int \<times> int) option"  \<comment> \<open>successes and failures per protocol\<close>

definition group_counts :: "gotime \<Rightarrow> protocol_log list \<Rightarrow> ((string \<times> bool) \<times> int) list" where
  "group_counts from_t ls =
     (let keys = map (\<lambda>l. (p_protocol l, p_success l)) (filter (\<lambda>l. from_t = 0 \<or> from_t \<le> p_created_at l) ls)
      in map (\<lambda>k. (k, int (count_list keys k))) (remdups keys))"

definition no_stats :: log_stats where
  "no_stats = [''smtp'' \<mapsto> (0, 0), ''imap'' \<mapsto> (0, 0), ''pop3'' \<mapsto> (0, 0)]"

fun add_group :: "log_stats \<Rightarrow> (string \<times> bool) \<times> int \<Rightarrow> log_stats" where
  "add_group st ((proto, ok), n) =
     (let (a, b) = (case st proto of None \<Rightarrow> (0, 0) | Some p \<Rightarrow> p)
      in st(proto \<mapsto> (if ok then (n, b) else (a, n))))"

definition logs_count_stats :: "gotime \<Rightarrow> db \<Rightarrow> log_stats result \<times> db" where
  "logs_count_stats from_t s =
     (case db_query (\<lambda>s. group_counts from_t (db_logs s)) s of
        (Inl e, s1) \<Rightarrow> (Inl e, s1)
      | (Inr rows, s1) \<Rightarrow> (Inr (foldl add_group no_stats rows), s1))"

definition logs_cleanup_before :: "gotime \<Rightarrow> db \<Rightarrow> int result \<times> db" where
  "logs_cleanup_before before =
     db_stmt (\<lambda>s. (Inr (int (length (filter (\<lambda>l. p_created_at l < before) (db_logs s)))),
                  s\<lparr>db_logs := filter (\<lambda>l. \<not> p_created_at l < before) (db_logs s)\<rparr>))"

section \<open>Attachments\<close>

definition attachments_create :: "attachment \<Rightarrow> db \<Rightarrow> attachment result \<times> db" where
  "attachments_create a =
     db_stmt (\<lambda>s. let a' = a\<lparr>a_id := db_next s TAttachments\<rparr>
                  in (Inr a', s\<lparr>db_attachments := db_attachments s @ [a'],
                                db_next := (db_next s)(TAttachments := Suc (db_next s TAttachments))\<rparr>))"

definition attachments_get_by_id :: "nat \<Rightarrow> db \<Rightarrow> attachment result \<times> db" where
  "attachments_get_by_id i = db_first (\<lambda>s. find (\<lambda>a. a_id a = i) (db_attachments s))"

definition attachments_list_by_message :: "nat \<Rightarrow> db \<Rightarrow> attachment list result \<times> db" where
  "attachments_list_by_message mid = db_query (\<lambda>s. filter (\<lambda>a. a_message_id a = mid) (db_attachments s))"

definition attachments_delete :: "nat \<Rightarrow> db \<Rightarrow> unit result \<times> db" where
  "attachments_delete i =
     db_exec (\<lambda>s. s\<lparr>db_attachments := filter (\<lambda>a. a_id a \<noteq> i) (db_attachments s)\<rparr>)"

definition attachments_delete_by_message :: "nat \<Rightarrow> db \<Rightarrow> unit result \<times> db" where
  "attachments_delete_by_message mid =
     db_exec (\<lambda>s. s\<lparr>db_attachments := filter (\<lambda>a. a_message_id a \<noteq> mid) (db_attachments s)\<rparr>)"

section \<open>Laws\<close>

lemma sql_like_any [simp]: "sql_like ''%'' s"
  by (induction s) auto

lemma sql_like_prefix_any:
  assumes "CHR ''%'' \<notin> set p" and "CHR ''_'' \<notin> set p"
  shows "sql_like (p @ ''%'') s \<longleftrightarrow> has_prefix (to_lower p) (to_lower s)"
  using assms
proof (induction p arbitrary: s)
  case Nil
  then show ?case by (simp add: has_prefix_def to_lower_def)
next
  case (Cons c p)
  then have "c \<noteq> CHR ''%''" "c \<noteq> CHR ''_''" by auto
  with Cons show ?case by (cases s) (auto simp: has_prefix_def to_lower_def)
qed

text \<open>A filter text without wildcards matches exactly the values that contain it, ignoring case.\<close>

lemma sql_like_contains:
  assumes "CHR ''%'' \<notin> set p" and "CHR ''_'' \<notin> set p"
  shows "sql_like (''%'' @ p @ ''%'') s \<longleftrightarrow> contains (to_lower s) (to_lower p)"
proof (induction s)
  case Nil
  show ?case using sql_like_prefix_any [OF assms, of "[]"]
    by (simp add: contains_def to_lower_def has_prefix_def)
next
  case (Cons c s)
  have "sql_like (''%'' @ p @ ''%'') (c # s) \<longleftrightarrow> has_prefix (to_lower p) (to_lower (c # s)) \<or> sql_like (''%'' @ p @ ''%'') s"
    using sql_like_prefix_any [OF assms, of "c # s"] by simp
  with Cons show ?case by (simp add: contains_def to_lower_def)
qed

definition stat_of :: "log_stats \<Rightarrow> string \<Rightarrow> int \<times> int" where
  "stat_of st p = (case st p of None \<Rightarrow> (0, 0) | Some q \<Rightarrow> q)"

lemma add_group_simp:
  "add_group st ((q, ok), n) p =
     (if p = q then Some (if ok then (n, snd (stat_of st q)) else (fst (stat_of st q), n)) else st p)"
  by (cases "stat_of st q") (simp add: stat_of_def)

declare add_group.simps [simp del]

lemma foldl_groups:
  assumes "distinct (map fst rows)"
  shows "foldl add_group st rows p =
    (if p \<in> fst ` fst ` set rows
     then Some (case map_of rows (p, True) of None \<Rightarrow> fst (stat_of st p) | Some n \<Rightarrow> n,
                case map_of rows (p, False) of None \<Rightarrow> snd (stat_of st p) | Some n \<Rightarrow> n)
     else st p)"
  using assms
proof (induction rows arbitrary: st)
  case Nil
  show ?case by simp
next
  case (Cons row rows)
  obtain q ok n where row: "row = ((q, ok), n)" by (cases row) auto
  with Cons.prems have new: "map_of rows (q, ok) = None" and d: "distinct (map fst rows)"
    by (auto simp: map_of_eq_None_iff)
  have IH: "foldl add_group (add_group st row) rows p =
    (if p \<in> fst ` fst ` set rows
     then Some (case map_of rows (p, True) of None \<Rightarrow> fst (stat_of (add_group st row) p) | Some n \<Rightarrow> n,
                case map_of rows (p, False) of None \<Rightarrow> snd (stat_of (add_group st row) p) | Some n \<Rightarrow> n)
     else add_group st row p)" by (rule Cons.IH [OF d])
  show ?case
  proof (cases "p = q")
    case False
    then have "add_group st row p = st p" "stat_of (add_group st row) p = stat_of st p"
      by (simp_all add: row add_group_simp stat_of_def)
    from IH [unfolded this] False show ?thesis by (simp add: row)
  next
    case True
    then have "stat_of (add_group st row) p = (if ok then (n, snd (stat_of st p)) else (fst (stat_of st p), n))"
      by (simp add: row add_group_simp stat_of_def)
    note IH [unfolded this]
    moreover have "p \<notin> fst ` fst ` set rows \<Longrightarrow> map_of rows (p, b) = None" for b
      by (force simp: map_of_eq_None_iff)
    ultimately show ?thesis using True new
      by (cases ok; cases "p \<in> fst ` fst ` set rows") (auto simp: row add_group_simp split: option.splits)
  qed
qed

lemma group_counts_keys:
  "map fst (group_counts t ls) = remdups (map (\<lambda>l. (p_protocol l, p_success l)) (filter (\<lambda>l. t = 0 \<or> t \<le> p_created_at l) ls))"
  by (simp add: group_counts_def Let_def comp_def)

lemma count_list_map_filter: "count_list (map f (filter P xs)) y = length (filter (\<lambda>x. P x \<and> f x = y) xs)"
  by (induction xs) auto

lemma map_of_group_counts:
  "map_of (group_counts t ls) k =
     (let n = length (filter (\<lambda>l. (t = 0 \<or> t \<le> p_created_at l) \<and> (p_protocol l, p_success l) = k) ls)
      in if n = 0 then None else Some (int n))"
proof -
  have "map_of (map (\<lambda>k. (k, f k)) ks) k = (if k \<in> set ks then Some (f k) else None)" for f :: "string \<times> bool \<Rightarrow> int" and ks
    by (induction ks) auto
  then show ?thesis
    by (auto simp: group_counts_def Let_def count_list_map_filter filter_empty_conv)
qed

section \<open>Properties of the log store\<close>

definition recent :: "gotime \<Rightarrow> string \<Rightarrow> bool \<Rightarrow> db \<Rightarrow> int" where
  "recent t p ok s = int (length (filter
     (\<lambda>l. (t = 0 \<or> t \<le> p_created_at l) \<and> p_protocol l = p \<and> p_success l = ok) (db_logs s)))"

text \<open>The statistics card is exact: for each of the three protocols, and for every other protocol
  that occurs, it shows the numbers of successful and failed records since the given time, zeros
  included, and reading it changes nothing.\<close>

theorem stats_exact:
  assumes "logs_count_stats t s = (Inr st, s')"
  shows "(p \<in> {''smtp'', ''imap'', ''pop3''} \<or> 0 < recent t p True s + recent t p False s \<longrightarrow>
      st p = Some (recent t p True s, recent t p False s)) \<and> tables s' = tables s"
proof -
  from assms have st: "st = foldl add_group no_stats (group_counts t (db_logs s))" and s': "s' = tick s"
    by (auto simp: logs_count_stats_def stmt_results split: prod.splits sum.splits)
  let ?g = "group_counts t (db_logs s)"
  have d: "distinct (map fst ?g)" by (simp add: group_counts_keys)
  have m: "map_of ?g (p, ok) = (if recent t p ok s = 0 then None else Some (recent t p ok s))" for ok
    by (simp add: map_of_group_counts recent_def Let_def)
  have "p \<in> fst ` fst ` set ?g \<longleftrightarrow> (\<exists>ok. map_of ?g (p, ok) \<noteq> None)"
    by (force simp: map_of_eq_None_iff)
  moreover have "(\<exists>ok. map_of ?g (p, ok) \<noteq> None) \<longleftrightarrow> recent t p True s \<noteq> 0 \<or> recent t p False s \<noteq> 0"
    unfolding m by (metis (full_types) option.discI)
  moreover have "stat_of no_stats p = (0, 0)" by (simp add: stat_of_def no_stats_def)
  ultimately have "st p = (if recent t p True s = 0 \<and> recent t p False s = 0 then no_stats p
      else Some (recent t p True s, recent t p False s))"
    unfolding st foldl_groups [OF d] m by simp
  moreover have "p \<in> {''smtp'', ''imap'', ''pop3''} \<Longrightarrow> no_stats p = Some (0, 0)"
    by (auto simp: no_stats_def)
  ultimately show ?thesis using s' by auto
qed

definition sample_log :: "nat \<Rightarrow> string \<Rightarrow> bool \<Rightarrow> gotime \<Rightarrow> protocol_log" where
  "sample_log i p ok t = \<lparr>p_id = i, p_protocol = p, p_port = 25, p_client_ip = ''10.0.0.1'', p_username = [],
     p_success = ok, p_fail_reason = [], p_detail = [], p_msg_count = 0, p_duration_ms = 0, p_created_at = t\<rparr>"

lemma stats_exact_witness:
  "\<exists>st. fst (logs_count_stats 5 (empty_db\<lparr>db_logs := [sample_log 1 ''smtp'' True 3, sample_log 2 ''smtp'' False 7]\<rparr>)) = Inr st \<and>
     st ''smtp'' = Some (0, 1)"
proof -
  let ?s = "empty_db\<lparr>db_logs := [sample_log 1 ''smtp'' True 3, sample_log 2 ''smtp'' False 7]\<rparr>"
  obtain st where "logs_count_stats 5 ?s = (Inr st, ?s)"
    by (simp add: logs_count_stats_def db_query_def db_stmt_def empty_db_def fault_def tick_def)
  from stats_exact [OF this, of "''smtp''"] this show ?thesis
    by (simp add: recent_def sample_log_def)
qed

end
