(* ===== verification/Config.thy ===== *)
theory Config
  imports Go_Strings
begin

text \<open>
  \<open>config/config.go\<close> and \<open>config/defaults.go\<close>: the configuration record, its defaults, and how it
  is loaded, completed, given a session key and written back. The TOML codec is third-party code:
  the parameters \<open>decode\<close> and \<open>encode\<close>. The operating system, the environment variable and the
  random bytes (\<open>None\<close> when \<open>rand.Read\<close> fails) are arguments.
\<close>

section \<open>Data\<close>

record database_config =
  dbc_driver :: string
  dbc_dsn :: string

record storage_config =
  stc_base_dir :: string
  stc_attach_dir :: string

record web_config =
  wc_addr :: string
  wc_secret_key :: string
  wc_cookie_secure :: bool
  wc_log_keep_days :: int
  wc_timezone :: string

record smtp_config =
  sc_addr :: string
  sc_tls_addr :: string
  sc_submission_addr :: string
  sc_domain :: string
  sc_tls_cert :: string
  sc_tls_key :: string
  sc_max_message :: int

record imap_config =
  ic_addr :: string
  ic_tls_addr :: string
  ic_tls_cert :: string
  ic_tls_key :: string

record pop3_config =
  pc_addr :: string
  pc_tls_addr :: string
  pc_tls_cert :: string
  pc_tls_key :: string

record auth_config =
  ac_oauth2_enabled :: bool
  ac_oauth2_provider :: string
  ac_oauth2_client_id :: string
  ac_oauth2_client_secret :: string
  ac_oauth2_redirect_url :: string
  ac_ldap_enabled :: bool
  ac_ldap_server :: string
  ac_ldap_bind_dn :: string
  ac_ldap_bind_password :: string
  ac_ldap_search_base :: string
  ac_ldap_search_filter :: string
  ac_ldap_use_tls :: bool

record ban_config =
  bc_max_fail_attempts :: int
  bc_ban_duration_min :: int

record outbound_config =
  oc_hostname :: string
  oc_poll_interval :: int
  oc_max_attempts :: int
  oc_retry_base_min :: int
  oc_max_recipients :: int
  oc_max_per_min :: int
  oc_max_per_day :: int
  oc_connect_timeout :: int
  oc_workers :: int
  oc_batch_size :: int
  oc_max_concurrent_per_domain :: int
  oc_relay_host :: string
  oc_relay_port :: int
  oc_relay_user :: string
  oc_relay_password :: string
  oc_relay_starttls :: bool
  oc_relay_tls_insecure :: bool
  oc_ip_family :: string
  oc_source_ip :: string

record config =
  cf_database :: database_config
  cf_storage :: storage_config
  cf_web :: web_config
  cf_smtp :: smtp_config
  cf_imap :: imap_config
  cf_pop3 :: pop3_config
  cf_auth :: auth_config
  cf_ban :: ban_config
  cf_caddy_data_dir :: string
  cf_outbound :: outbound_config

datatype config_error =
    RandFailed | MkdirFailed | CreateFailed | EncodeFailed | ChmodFailed | ReadFailed | ParseFailed
  | KeyEmpty | KeyLegacy | KeyTooShort nat

definition insecure_legacy_secret_key :: string where
  "insecure_legacy_secret_key = ''mail-go-secret-key-change-in-production''"

definition min_secret_key_len :: nat where "min_secret_key_len = 16"

section \<open>Defaults\<close>

definition etc_dir :: "bool \<Rightarrow> string" where
  "etc_dir windows = (if windows then ''./win/etc/mail_go/'' else ''/etc/mail_go/'')"

definition base_dir :: "bool \<Rightarrow> string" where
  "base_dir windows = (if windows then ''./win/srv/mail_go/'' else ''/srv/mail_go/'')"

definition default_dsn :: "bool \<Rightarrow> string" where
  "default_dsn windows = (if windows then ''./win/srv/mail_go/mail.db'' else ''/srv/mail_go/mail.db'')"

definition default_attach_dir :: "bool \<Rightarrow> string" where
  \<comment> \<open>\<open>filepath.Join(baseDir(), "attachments")\<close>, cleaned\<close>
  "default_attach_dir windows =
     (if windows then ''win'' @ [CHR 0x5C] @ ''srv'' @ [CHR 0x5C] @ ''mail_go'' @ [CHR 0x5C] @ ''attachments''
      else ''/srv/mail_go/attachments'')"

definition default_config :: "bool \<Rightarrow> config" where
  "default_config windows = \<lparr>
     cf_database = \<lparr>dbc_driver = ''sqlite'', dbc_dsn = default_dsn windows\<rparr>,
     cf_storage = \<lparr>stc_base_dir = base_dir windows, stc_attach_dir = default_attach_dir windows\<rparr>,
     cf_web = \<lparr>wc_addr = '':8080'', wc_secret_key = [], wc_cookie_secure = True, wc_log_keep_days = 30,
       wc_timezone = ''Asia/Shanghai''\<rparr>,
     cf_smtp = \<lparr>sc_addr = '':25'', sc_tls_addr = '':465'', sc_submission_addr = '':587'',
       sc_domain = ''localhost'', sc_tls_cert = [], sc_tls_key = [], sc_max_message = 64 * 1024 * 1024\<rparr>,
     cf_imap = \<lparr>ic_addr = '':143'', ic_tls_addr = '':993'', ic_tls_cert = [], ic_tls_key = []\<rparr>,
     cf_pop3 = \<lparr>pc_addr = '':110'', pc_tls_addr = '':995'', pc_tls_cert = [], pc_tls_key = []\<rparr>,
     cf_auth = \<lparr>ac_oauth2_enabled = False, ac_oauth2_provider = [], ac_oauth2_client_id = [],
       ac_oauth2_client_secret = [], ac_oauth2_redirect_url = [], ac_ldap_enabled = False,
       ac_ldap_server = [], ac_ldap_bind_dn = [], ac_ldap_bind_password = [], ac_ldap_search_base = [],
       ac_ldap_search_filter = [], ac_ldap_use_tls = False\<rparr>,
     cf_ban = \<lparr>bc_max_fail_attempts = 5, bc_ban_duration_min = 30\<rparr>,
     cf_caddy_data_dir = [],
     cf_outbound = \<lparr>oc_hostname = [], oc_poll_interval = 15, oc_max_attempts = 12, oc_retry_base_min = 5,
       oc_max_recipients = 50, oc_max_per_min = 30, oc_max_per_day = 500, oc_connect_timeout = 30,
       oc_workers = 4, oc_batch_size = 50, oc_max_concurrent_per_domain = 2, oc_relay_host = [],
       oc_relay_port = 587, oc_relay_user = [], oc_relay_password = [], oc_relay_starttls = True,
       oc_relay_tls_insecure = False, oc_ip_family = ''ipv4'', oc_source_ip = []\<rparr>\<rparr>"

definition or_str :: "string \<Rightarrow> string \<Rightarrow> string" where
  "or_str a b = (if a = [] then b else a)"

definition or_int :: "int \<Rightarrow> int \<Rightarrow> int" where
  "or_int a b = (if a = 0 then b else a)"

definition merge_outbound :: "outbound_config \<Rightarrow> outbound_config \<Rightarrow> outbound_config" where
  "merge_outbound c d = c\<lparr>
     oc_poll_interval := or_int (oc_poll_interval c) (oc_poll_interval d),
     oc_max_attempts := or_int (oc_max_attempts c) (oc_max_attempts d),
     oc_retry_base_min := or_int (oc_retry_base_min c) (oc_retry_base_min d),
     oc_max_recipients := or_int (oc_max_recipients c) (oc_max_recipients d),
     oc_max_per_min := or_int (oc_max_per_min c) (oc_max_per_min d),
     oc_max_per_day := or_int (oc_max_per_day c) (oc_max_per_day d),
     oc_connect_timeout := or_int (oc_connect_timeout c) (oc_connect_timeout d),
     oc_workers := or_int (oc_workers c) (oc_workers d),
     oc_batch_size := or_int (oc_batch_size c) (oc_batch_size d),
     oc_max_concurrent_per_domain := or_int (oc_max_concurrent_per_domain c) (oc_max_concurrent_per_domain d),
     oc_relay_port := or_int (oc_relay_port c) (oc_relay_port d),
     oc_ip_family := or_str (oc_ip_family c) (oc_ip_family d)\<rparr>"

definition merge_defaults :: "config \<Rightarrow> config \<Rightarrow> config" where
  "merge_defaults c d = c\<lparr>
     cf_database := \<lparr>dbc_driver = or_str (dbc_driver (cf_database c)) (dbc_driver (cf_database d)),
       dbc_dsn = or_str (dbc_dsn (cf_database c)) (dbc_dsn (cf_database d))\<rparr>,
     cf_storage := \<lparr>stc_base_dir = or_str (stc_base_dir (cf_storage c)) (stc_base_dir (cf_storage d)),
       stc_attach_dir = or_str (stc_attach_dir (cf_storage c)) (stc_attach_dir (cf_storage d))\<rparr>,
     cf_web := (cf_web c)\<lparr>wc_addr := or_str (wc_addr (cf_web c)) (wc_addr (cf_web d)),
       wc_log_keep_days := or_int (wc_log_keep_days (cf_web c)) (wc_log_keep_days (cf_web d)),
       wc_timezone := or_str (wc_timezone (cf_web c)) (wc_timezone (cf_web d))\<rparr>,
     cf_smtp := (cf_smtp c)\<lparr>sc_addr := or_str (sc_addr (cf_smtp c)) (sc_addr (cf_smtp d)),
       sc_tls_addr := or_str (sc_tls_addr (cf_smtp c)) (sc_tls_addr (cf_smtp d)),
       sc_submission_addr := or_str (sc_submission_addr (cf_smtp c)) (sc_submission_addr (cf_smtp d)),
       sc_domain := or_str (sc_domain (cf_smtp c)) (sc_domain (cf_smtp d)),
       sc_max_message := or_int (sc_max_message (cf_smtp c)) (sc_max_message (cf_smtp d))\<rparr>,
     cf_imap := (cf_imap c)\<lparr>ic_addr := or_str (ic_addr (cf_imap c)) (ic_addr (cf_imap d)),
       ic_tls_addr := or_str (ic_tls_addr (cf_imap c)) (ic_tls_addr (cf_imap d))\<rparr>,
     cf_pop3 := (cf_pop3 c)\<lparr>pc_addr := or_str (pc_addr (cf_pop3 c)) (pc_addr (cf_pop3 d)),
       pc_tls_addr := or_str (pc_tls_addr (cf_pop3 c)) (pc_tls_addr (cf_pop3 d))\<rparr>,
     cf_ban := \<lparr>bc_max_fail_attempts = or_int (bc_max_fail_attempts (cf_ban c)) (bc_max_fail_attempts (cf_ban d)),
       bc_ban_duration_min = or_int (bc_ban_duration_min (cf_ban c)) (bc_ban_duration_min (cf_ban d))\<rparr>,
     cf_outbound := merge_outbound (cf_outbound c) (cf_outbound d)\<rparr>"

section \<open>The session key\<close>

definition hex_digit :: "nat \<Rightarrow> char" where
  "hex_digit n = char_of (if n < 10 then 48 + n else 87 + n)"

definition hex_encode :: "char list \<Rightarrow> string" where
  "hex_encode bs = concat (map (\<lambda>b. [hex_digit ((of_char b :: nat) div 16), hex_digit ((of_char b :: nat) mod 16)]) bs)"

definition secret_key_random_bytes :: nat where "secret_key_random_bytes = 32"

definition generate_secret_key :: "char list option \<Rightarrow> config_error + string" where
  "generate_secret_key rnd =
     (case rnd of None \<Rightarrow> Inl RandFailed | Some bytes \<Rightarrow> Inr (hex_encode (take secret_key_random_bytes bytes)))"

definition set_secret_key :: "string \<Rightarrow> config \<Rightarrow> config" where
  "set_secret_key k c = c\<lparr>cf_web := (cf_web c)\<lparr>wc_secret_key := k\<rparr>\<rparr>"

definition secret_key :: "config \<Rightarrow> string" where
  "secret_key c = wc_secret_key (cf_web c)"

definition ensure_secret_key :: "char list option \<Rightarrow> config \<Rightarrow> config_error + config" where
  "ensure_secret_key rnd c =
     (if secret_key c \<noteq> [] \<and> secret_key c \<noteq> insecure_legacy_secret_key then Inr c
      else case generate_secret_key rnd of Inl e \<Rightarrow> Inl e | Inr k \<Rightarrow> Inr (set_secret_key k c))"

definition apply_secret_key_env :: "string \<Rightarrow> config \<Rightarrow> config" where
  "apply_secret_key_env env c = (if env \<noteq> [] then set_secret_key env c else c)"

definition validate_secret_key :: "string \<Rightarrow> config_error option" where
  "validate_secret_key k =
     (if k = [] then Some KeyEmpty
      else if k = insecure_legacy_secret_key then Some KeyLegacy
      else if length k < min_secret_key_len then Some (KeyTooShort (length k))
      else None)"

section \<open>Loading\<close>

text \<open>
  The file system as far as the loader uses it: the file's contents (\<open>None\<close> when it does not
  exist), its mode, and which of the calls fail.
\<close>

record config_fs =
  fs_file :: "string option"
  fs_private :: bool       \<comment> \<open>mode 0600\<close>
  fs_read_fails :: bool
  fs_mkdir_fails :: bool
  fs_create_fails :: bool
  fs_encode_fails :: bool
  fs_chmod_fails :: bool

text \<open>\<open>fs_private\<close> is the mode 0600 that \<open>os.Chmod\<close> is asked for; on Windows the call succeeds and only
  clears the read-only attribute, so there the field says no more than that the call was made.\<close>

definition write_config :: "(config \<Rightarrow> string) \<Rightarrow> config \<Rightarrow> config_fs \<Rightarrow> config_error option \<times> config_fs" where
  "write_config encode c fs =
     (if fs_mkdir_fails fs then (Some MkdirFailed, fs)
      else if fs_create_fails fs then (Some CreateFailed, fs)
      else if fs_encode_fails fs then (Some EncodeFailed, fs\<lparr>fs_file := Some []\<rparr>)
      else if fs_chmod_fails fs then (Some ChmodFailed, fs\<lparr>fs_file := Some (encode c)\<rparr>)
      else (None, fs\<lparr>fs_file := Some (encode c), fs_private := True\<rparr>))"

definition fix_bools :: "string \<Rightarrow> config \<Rightarrow> config \<Rightarrow> config" where
  \<comment> \<open>booleans whose default is true, when the file does not mention them\<close>
  "fix_bools data d c =
     (let c1 = (if \<not> contains data ''relay_starttls''
                then c\<lparr>cf_outbound := (cf_outbound c)\<lparr>oc_relay_starttls := oc_relay_starttls (cf_outbound d)\<rparr>\<rparr> else c)
      in if \<not> contains data ''cookie_secure''
         then c1\<lparr>cf_web := (cf_web c1)\<lparr>wc_cookie_secure := wc_cookie_secure (cf_web d)\<rparr>\<rparr> else c1)"

definition load_config ::
  "(string \<Rightarrow> config option) \<Rightarrow> (config \<Rightarrow> string) \<Rightarrow> bool \<Rightarrow> string \<Rightarrow> char list option \<Rightarrow> config_fs \<Rightarrow>
   (config_error + config) \<times> config_fs" where
  "load_config decode encode windows env rnd fs =
     (let defaults = default_config windows
      in case fs_file fs of
           None \<Rightarrow>
             (case ensure_secret_key rnd defaults of
                Inl e \<Rightarrow> (Inl e, fs)
              | Inr c \<Rightarrow>
                  (case write_config encode c fs of
                     (Some e, fs1) \<Rightarrow> (Inl e, fs1)
                   | (None, fs1) \<Rightarrow> (Inr (apply_secret_key_env env c), fs1)))
         | Some data \<Rightarrow>
             if fs_read_fails fs then (Inl ReadFailed, fs)
             else
               (case decode data of
                  None \<Rightarrow> (Inl ParseFailed, fs)
                | Some c0 \<Rightarrow>
                    (case ensure_secret_key rnd (fix_bools data defaults c0) of
                       Inl e \<Rightarrow> (Inl e, fs)
                     | Inr c \<Rightarrow>
                         (let merged = merge_defaults c defaults
                          in case write_config encode merged fs of
                               (Some e, fs1) \<Rightarrow> (Inl e, fs1)
                             | (None, fs1) \<Rightarrow> (Inr (apply_secret_key_env env merged), fs1)))))"

section \<open>Laws\<close>

lemma or_idem [simp]: "or_str (or_str a b) b = or_str a b" "or_int (or_int x y) y = or_int x y"
  by (simp_all add: or_str_def or_int_def)

lemma merge_outbound_idem [simp]: "merge_outbound (merge_outbound c d) d = merge_outbound c d"
  by (simp add: merge_outbound_def)

lemma merge_defaults_idem: "merge_defaults (merge_defaults c d) d = merge_defaults c d"
  by (simp add: merge_defaults_def)

lemma secret_key_merge [simp]: "secret_key (merge_defaults c d) = secret_key c"
  by (simp add: merge_defaults_def secret_key_def)

lemma secret_key_set [simp]: "secret_key (set_secret_key k c) = k"
  by (simp add: set_secret_key_def secret_key_def)

lemma set_secret_key_merge: "set_secret_key k (merge_defaults c d) = merge_defaults (set_secret_key k c) d"
  by (simp add: merge_defaults_def set_secret_key_def)

lemma merge_default_default:
  "merge_defaults (default_config w) (default_config w) = default_config w"
  by (simp add: merge_defaults_def merge_outbound_def default_config_def or_str_def or_int_def)

lemma secret_key_default [simp]: "secret_key (default_config w) = []"
  by (simp add: default_config_def secret_key_def)

lemma length_hex_encode [simp]: "length (hex_encode bs) = 2 * length bs"
  by (induction bs) (simp_all add: hex_encode_def)

lemma trusted_key:
  "ensure_secret_key rnd c = Inr c' \<Longrightarrow> rnd = Some bytes \<Longrightarrow> length bytes = secret_key_random_bytes \<Longrightarrow>
   secret_key c' \<noteq> [] \<and> secret_key c' \<noteq> insecure_legacy_secret_key \<and>
   (c' = c \<or> c' = set_secret_key (hex_encode bytes) c \<and> length (secret_key c') = 64)"
  by (auto simp: ensure_secret_key_def generate_secret_key_def secret_key_random_bytes_def
      insecure_legacy_secret_key_def split: if_splits dest: arg_cong [where f = length])

lemma ensure_secret_key_trusted:
  "secret_key c \<noteq> [] \<Longrightarrow> secret_key c \<noteq> insecure_legacy_secret_key \<Longrightarrow> ensure_secret_key rnd c = Inr c"
  by (simp add: ensure_secret_key_def)

lemma write_config_ok:
  "write_config encode c fs = (None, fs1) \<longleftrightarrow>
     \<not> fs_mkdir_fails fs \<and> \<not> fs_create_fails fs \<and> \<not> fs_encode_fails fs \<and> \<not> fs_chmod_fails fs \<and>
     fs1 = fs\<lparr>fs_file := Some (encode c), fs_private := True\<rparr>"
  by (auto simp: write_config_def)

lemma load_config_ok:
  assumes "load_config decode encode w env rnd fs = (Inr c, fs1)"
  obtains c0 c1 where "ensure_secret_key rnd c0 = Inr c1"
    and "c = apply_secret_key_env env (merge_defaults c1 (default_config w))"
    and "write_config encode (merge_defaults c1 (default_config w)) fs = (None, fs1)"
    and "fs_file fs = None \<and> c0 = default_config w \<or>
      (\<exists>data c2. fs_file fs = Some data \<and> \<not> fs_read_fails fs \<and> decode data = Some c2 \<and>
         c0 = fix_bools data (default_config w) c2)"
proof (cases "fs_file fs")
  case None
  with assms obtain c1 where 1: "ensure_secret_key rnd (default_config w) = Inr c1"
    "write_config encode c1 fs = (None, fs1)" "c = apply_secret_key_env env c1"
    by (auto simp: load_config_def Let_def split: sum.splits prod.splits option.splits)
  have "c1 = default_config w \<or> (\<exists>k. c1 = set_secret_key k (default_config w))"
    using 1(1) by (auto simp: ensure_secret_key_def split: if_splits sum.splits)
  then have "merge_defaults c1 (default_config w) = c1"
    by (auto simp: merge_default_default simp flip: set_secret_key_merge)
  with 1 None show thesis using that by metis
next
  case (Some data)
  with assms show thesis
    using that by (auto simp: load_config_def Let_def split: sum.splits prod.splits option.splits if_splits)
qed

definition codec :: "(string \<Rightarrow> config option) \<Rightarrow> (config \<Rightarrow> string) \<Rightarrow> config \<Rightarrow> bool" where
  \<comment> \<open>what the loader relies on of the TOML library: what it wrote it reads back, and it writes
    every field under its name\<close>
  "codec decode encode c \<longleftrightarrow> decode (encode c) = Some c \<and> contains (encode c) ''relay_starttls'' \<and>
     contains (encode c) ''cookie_secure''"

section \<open>Properties of the loader\<close>

text \<open>Loading is stable: once a configuration has been loaded without an override, a second start
  with any other random bytes loads the same configuration (the same session key in particular)
  and leaves the file as it is.\<close>

theorem load_stable:
  assumes "codec decode encode c" and "length bytes = secret_key_random_bytes" and "\<not> fs_read_fails fs"
    and "load_config decode encode w [] (Some bytes) fs = (Inr c, fs1)"
  shows "load_config decode encode w [] rnd fs1 = (Inr c, fs1) \<and> fs_private fs1"
proof -
  from assms(4) obtain c0 c1 where e: "ensure_secret_key (Some bytes) c0 = Inr c1"
    and c: "c = merge_defaults c1 (default_config w)"
    and wr: "write_config encode c fs = (None, fs1)"
    by (elim load_config_ok) (simp add: apply_secret_key_env_def)
  have "secret_key c \<noteq> []" "secret_key c \<noteq> insecure_legacy_secret_key"
    using trusted_key [OF e refl assms(2)] by (simp_all add: c)
  then have "ensure_secret_key rnd c = Inr c" by (rule ensure_secret_key_trusted)
  moreover have "fix_bools (encode c) (default_config w) c = c"
    using assms(1) by (simp add: codec_def fix_bools_def Let_def)
  moreover have "merge_defaults c (default_config w) = c" by (simp add: c merge_defaults_idem)
  moreover have "write_config encode c fs1 = (None, fs1)" using wr by (simp add: write_config_ok)
  moreover have "fs_file fs1 = Some (encode c)" "\<not> fs_read_fails fs1" "fs_private fs1"
    using wr assms(3) by (auto simp: write_config_ok c)
  ultimately show ?thesis
    using assms(1) by (simp add: load_config_def Let_def codec_def apply_secret_key_env_def)
qed

text \<open>C27: the loader never leaves the web sessions under an untrusted key: without an override, a loaded
  configuration has a key that is neither empty nor the published legacy key; a key it had to
  create passes the start-up validation; and the file it wrote is readable by its owner only.\<close>

theorem load_key_trusted:
  assumes "length bytes = secret_key_random_bytes"
    and "load_config decode encode w [] (Some bytes) fs = (Inr c, fs1)"
  shows "secret_key c \<noteq> [] \<and> secret_key c \<noteq> insecure_legacy_secret_key \<and> fs_private fs1 \<and>
    fs_file fs1 = Some (encode c) \<and>
    (validate_secret_key (secret_key c) = None \<or>
      (\<exists>data c2. fs_file fs = Some data \<and> decode data = Some c2 \<and> secret_key c = secret_key c2 \<and>
         length (secret_key c2) < min_secret_key_len))"
proof -
  from assms(2) obtain c0 c1 where e: "ensure_secret_key (Some bytes) c0 = Inr c1"
    and c: "c = merge_defaults c1 (default_config w)"
    and wr: "write_config encode c fs = (None, fs1)"
    and src: "fs_file fs = None \<and> c0 = default_config w \<or>
      (\<exists>data c2. fs_file fs = Some data \<and> \<not> fs_read_fails fs \<and> decode data = Some c2 \<and>
         c0 = fix_bools data (default_config w) c2)"
    by (elim load_config_ok) (simp add: apply_secret_key_env_def)
  have k: "secret_key (fix_bools data d c2) = secret_key c2" for data d c2
    by (simp add: fix_bools_def secret_key_def Let_def)
  note t = trusted_key [OF e refl assms(1)]
  from t have "validate_secret_key (secret_key c) = None \<or>
      secret_key c = secret_key c0 \<and> length (secret_key c0) < min_secret_key_len"
    by (auto simp: c validate_secret_key_def min_secret_key_len_def)
  with src have "validate_secret_key (secret_key c) = None \<or>
      (\<exists>data c2. fs_file fs = Some data \<and> decode data = Some c2 \<and> secret_key c = secret_key c2 \<and>
         length (secret_key c2) < min_secret_key_len)"
    using t by (auto simp: k c)
  with t wr show ?thesis by (auto simp: c write_config_ok)
qed

definition fresh_fs :: config_fs where
  "fresh_fs = \<lparr>fs_file = None, fs_private = False, fs_read_fails = False, fs_mkdir_fails = False,
     fs_create_fails = False, fs_encode_fails = False, fs_chmod_fails = False\<rparr>"

definition sample_bytes :: "char list" where
  "sample_bytes = replicate 32 (CHR ''k'')"

lemma load_fresh:
  "load_config decode encode w [] (Some sample_bytes) fresh_fs =
     (let c = set_secret_key (hex_encode sample_bytes) (default_config w)
      in (Inr c, fresh_fs\<lparr>fs_file := Some (encode c), fs_private := True\<rparr>))"
  by (simp add: load_config_def Let_def fresh_fs_def ensure_secret_key_def generate_secret_key_def
      write_config_def apply_secret_key_env_def sample_bytes_def secret_key_random_bytes_def)

lemma load_key_trusted_witness:
  "fs_private (snd (load_config (\<lambda>_. None) (\<lambda>_. []) False [] (Some sample_bytes) fresh_fs))"
proof -
  have "length sample_bytes = secret_key_random_bytes"
    by (simp add: sample_bytes_def secret_key_random_bytes_def)
  from load_key_trusted [OF this load_fresh [unfolded Let_def], where decode = "\<lambda>_. None" and encode = "\<lambda>_. []" and w = False]
  show ?thesis by (simp add: load_fresh Let_def)
qed

lemma load_stable_witness:
  "\<exists>c fs1. load_config (\<lambda>_. Some c) (\<lambda>_. ''relay_starttls cookie_secure'') False [] None fs1 = (Inr c, fs1)"
proof -
  let ?c = "set_secret_key (hex_encode sample_bytes) (default_config False)"
  have "codec (\<lambda>_. Some ?c) (\<lambda>_. ''relay_starttls cookie_secure'') ?c"
    by (simp add: codec_def contains_def has_prefix_def)
  moreover have "length sample_bytes = secret_key_random_bytes" "\<not> fs_read_fails fresh_fs"
    by (simp_all add: sample_bytes_def secret_key_random_bytes_def fresh_fs_def)
  ultimately show ?thesis
    using load_stable [OF _ _ _ load_fresh [unfolded Let_def], where decode = "\<lambda>_. Some ?c" and w = False] by blast
qed

end
