(* ===== verification/Protocol_Common.thy ===== *)
theory Protocol_Common
  imports Mail_Store Account_Store Ban_Store Log_Store Config
begin

text \<open>
  What the three mail protocol servers share: the message text they serve (\<open>buildRawMessage\<close>, the
  same function in \<open>pop3_server\<close> and \<open>imap_server\<close>), the login with its ban ledger, the protocol log
  entry, and the notices the servers give to the IMAP push hub.
\<close>

section \<open>The text of a message\<close>

definition text_header :: "string \<Rightarrow> string \<Rightarrow> string" where
  "text_header k v = k @ '': '' @ v @ crlf"

definition build_raw_message :: "(gotime \<Rightarrow> string) \<Rightarrow> message \<Rightarrow> string" where
  "build_raw_message fmt_date msg =
     (if m_raw_data msg \<noteq> [] then m_raw_data msg
      else
        text_header ''From'' (m_from_addr msg) @
        text_header ''To'' (m_to_addr msg) @
        (if m_cc_addr msg \<noteq> [] then text_header ''Cc'' (m_cc_addr msg) else []) @
        text_header ''Subject'' (m_subject msg) @
        text_header ''Date'' (fmt_date (m_date msg)) @
        (if m_message_id msg \<noteq> [] then text_header ''Message-ID'' (m_message_id msg) else []) @
        text_header ''MIME-Version'' ''1.0'' @
        (let plain = ''Content-Type: text/plain; charset=utf-8'' @ crlf @ crlf;
             html = ''Content-Type: text/html; charset=utf-8'' @ crlf @ crlf
         in if m_html_body msg \<noteq> [] \<and> m_text_body msg \<noteq> [] then
              (let boundary = ''mailgo_'' @ show_nat (m_id msg)
               in ''Content-Type: multipart/alternative; boundary='' @ [CHR 0x22] @ boundary @ [CHR 0x22] @ crlf @
                  crlf @
                  ''--'' @ boundary @ crlf @ plain @ m_text_body msg @ crlf @
                  ''--'' @ boundary @ crlf @ html @ m_html_body msg @ crlf @
                  ''--'' @ boundary @ ''--'' @ crlf)
            else if m_text_body msg \<noteq> [] then plain @ m_text_body msg
            else if m_html_body msg \<noteq> [] then html @ m_html_body msg
            else plain))"

section \<open>Notices to the push hub\<close>

text \<open>The calls of the interface \<open>Pusher\<close>; the IMAP server answers them in \<open>Imap_Session\<close>.\<close>

datatype push_event =
    Push_New string message
  | Push_Flags string string message
  | Push_Expunged string string "nat list"

section \<open>Tables a login may touch\<close>

text \<open>
  A login reads the accounts and writes the ban ledger and the protocol log. The rest of the database
  is what \<open>but_ledgers\<close> keeps.
\<close>

definition but_ledgers :: "db \<Rightarrow> db" where
  "but_ledgers s = s\<lparr>db_bans := [], db_logs := [], db_next := (db_next s)(TBans := 0, TLogs := 0), db_faults := []\<rparr>"

lemma but_ledgers_tables [simp]: "but_ledgers (tables s) = but_ledgers s"
  by (simp add: but_ledgers_def tables_def)

lemma but_ledgers_tick [simp]: "but_ledgers (tick s) = but_ledgers s"
  by (simp add: but_ledgers_def tick_def)

lemma but_ledgers_cong: "tables s = tables t \<Longrightarrow> but_ledgers s = but_ledgers t"
  by (metis but_ledgers_tables)

lemma but_ledgers_bans [simp]: "but_ledgers (s\<lparr>db_bans := b\<rparr>) = but_ledgers s"
  by (simp add: but_ledgers_def)

lemma but_ledgers_sel:
  "db_users (but_ledgers s) = db_users s" "db_domains (but_ledgers s) = db_domains s"
  "db_messages (but_ledgers s) = db_messages s" "db_outbound (but_ledgers s) = db_outbound s"
  "db_attachments (but_ledgers s) = db_attachments s" "db_mailboxes (but_ledgers s) = db_mailboxes s"
  "db_mailbox_states (but_ledgers s) = db_mailbox_states s"
  "k \<noteq> TBans \<Longrightarrow> k \<noteq> TLogs \<Longrightarrow> db_next (but_ledgers s) k = db_next s k"
  by (simp_all add: but_ledgers_def)

lemma but_ledgersD:
  assumes "but_ledgers s = but_ledgers t"
  shows "db_users s = db_users t" "db_domains s = db_domains t" "db_messages s = db_messages t"
    "db_outbound s = db_outbound t" "db_attachments s = db_attachments t"
    "db_mailboxes s = db_mailboxes t" "db_mailbox_states s = db_mailbox_states t"
    "k \<noteq> TBans \<Longrightarrow> k \<noteq> TLogs \<Longrightarrow> db_next s k = db_next t k"
  using assms by (metis but_ledgers_sel)+

lemma insert_ban_but [simp]: "but_ledgers (insert_ban b s) = but_ledgers s"
  by (simp add: but_ledgers_def insert_ban_def fun_eq_iff)

lemma del_bans_but [simp]: "but_ledgers (del_bans P s) = but_ledgers s"
  by (simp add: but_ledgers_def del_bans_def)

lemma count_failure_but [simp]: "but_ledgers (count_failure ip s) = but_ledgers s"
  by (simp add: but_ledgers_def count_failure_def)

lemma insert_or_nothing_but [simp]: "but_ledgers (insert_or_nothing ip s) = but_ledgers s"
  by (simp add: insert_or_nothing_def)

lemma db_stmt_but: "(\<And>t. but_ledgers (snd (f t)) = but_ledgers t) \<Longrightarrow> but_ledgers (snd (db_stmt f s)) = but_ledgers s"
  by (simp add: db_stmt_def)

lemma db_exec_but: "(\<And>t. but_ledgers (f t) = but_ledgers t) \<Longrightarrow> but_ledgers (snd (db_exec f s)) = but_ledgers s"
  by (simp add: db_exec_def db_stmt_def)

lemma db_query_but [simp]: "but_ledgers (snd (db_query f s)) = but_ledgers s"
  by (simp add: db_query_def db_stmt_def)

lemma db_first_but [simp]: "but_ledgers (snd (db_first f s)) = but_ledgers s"
  by (simp add: db_first_def db_stmt_def)

lemma read_fail_count_but [simp]: "but_ledgers (snd (read_fail_count ip s)) = but_ledgers s"
  by (simp add: read_fail_count_def)

lemma bans_update_but [simp]: "but_ledgers (snd (bans_update b s)) = but_ledgers s"
  unfolding bans_update_def by (rule db_stmt_but) simp

lemma bans_get_by_ip_but [simp]: "but_ledgers (snd (bans_get_by_ip ip s)) = but_ledgers s"
  by (simp add: bans_get_by_ip_def)

lemma bans_reset_fail_but [simp]: "but_ledgers (snd (bans_reset_fail ip s)) = but_ledgers s"
  unfolding bans_reset_fail_def by (rule db_exec_but) simp

lemma bans_increment_fail_but [simp]: "but_ledgers (snd (bans_increment_fail ip s)) = but_ledgers s"
proof -
  obtain r s1 where q: "db_stmt (\<lambda>s. (Inr (length (filter (has_ip ip) (db_bans s))), count_failure ip s)) s = (r, s1)"
    by (cases "db_stmt (\<lambda>s. (Inr (length (filter (has_ip ip) (db_bans s))), count_failure ip s)) s")
  have 1: "but_ledgers s1 = but_ledgers s"
    using db_stmt_but [of "\<lambda>s. (Inr (length (filter (has_ip ip) (db_bans s))), count_failure ip s)" s] q by simp
  have 2: "but_ledgers (snd (db_exec (insert_or_nothing ip) s1)) = but_ledgers s1"
    by (rule db_exec_but) simp
  then show ?thesis
    using 1 unfolding bans_increment_fail_def q by (auto split: sum.splits prod.splits)
qed

lemma record_auth_failure_but [simp]:
  "but_ledgers (snd (record_auth_failure now ip max_fail first_min reason known s)) = but_ledgers s"
proof -
  obtain r1 s1 where i: "bans_increment_fail ip s = (r1, s1)" by (cases "bans_increment_fail ip s")
  obtain r2 s2 where g: "bans_get_by_ip ip s1 = (r2, s2)" by (cases "bans_get_by_ip ip s1")
  have 12: "but_ledgers s1 = but_ledgers s" "but_ledgers s2 = but_ledgers s1"
    using bans_increment_fail_but [of ip s] bans_get_by_ip_but [of ip s1] i g by simp_all
  have u: "bans_update b s2 = (r, s3) \<Longrightarrow> but_ledgers s3 = but_ledgers s" for b r s3
    using bans_update_but [of b s2] 12 by simp
  show ?thesis
    using 12 unfolding record_auth_failure_def
    by (auto simp: i g Let_def split: sum.splits prod.splits dest: u)
qed

lemma bans_is_banned_but [simp]: "but_ledgers (snd (bans_is_banned now ip s)) = but_ledgers s"
  by (simp add: bans_is_banned_def db_first_def db_stmt_def split: option.splits)

lemma users_login_exists_but [simp]: "but_ledgers (snd (users_login_exists login s)) = but_ledgers s"
  unfolding users_login_exists_def
  by (auto simp: Let_def stmt_results split: prod.splits sum.splits dest: users_get_by_email_frame but_ledgers_cong)

lemma logs_create_but [simp]: "but_ledgers (snd (logs_create now l s)) = but_ledgers s"
  unfolding logs_create_def by (rule db_stmt_but) (simp add: but_ledgers_def Let_def fun_eq_iff)

lemma logs_update_duration_but [simp]: "but_ledgers (snd (logs_update_duration i ms s)) = but_ledgers s"
  unfolding logs_update_duration_def by (rule db_exec_but) (simp add: but_ledgers_def)

lemma users_authenticate_login_but [simp]:
  "but_ledgers (snd (users_authenticate_login check_pw login pw s)) = but_ledgers s"
  by (rule but_ledgers_cong) simp

lemma mails_list_all_but [simp]: "but_ledgers (snd (mails_list_all uid f s)) = but_ledgers s"
  by (simp add: mails_list_all_def)

lemma users_get_by_email_but [simp]: "but_ledgers (snd (users_get_by_email email s)) = but_ledgers s"
  by (rule but_ledgers_cong) simp

section \<open>The login of a mail protocol\<close>

text \<open>
  The reason written beside a ban, and the accounting of a login attempt, the same in the three
  servers: a failure is counted against the address (without grace when the name stands for no
  account), a success clears the count.
\<close>

definition mail_ban_reason :: string where
  "mail_ban_reason = utf8 [233, 130, 174, 228, 187, 182, 229, 141, 143, 232, 174, 174, 232, 174, 164, 232,
     175, 129, 229, 164, 177, 232, 180, 165, 230, 172, 161, 230, 149, 176, 232, 191, 135, 229, 164, 154]"

definition guarded_login ::
  "(string \<Rightarrow> string \<Rightarrow> bool) \<Rightarrow> ban_config \<Rightarrow> gotime \<Rightarrow> string \<Rightarrow> string \<Rightarrow> string \<Rightarrow> db \<Rightarrow> user option \<times> db" where
  "guarded_login check_pw bc now ip login pw s =
     (case users_authenticate_login check_pw login pw s of
        (Inl _, s1) \<Rightarrow>
          (let (known, s2) = users_login_exists login s1
           in (None, snd (record_auth_failure now ip (bc_max_fail_attempts bc) (bc_ban_duration_min bc)
                            mail_ban_reason known s2)))
      | (Inr u, s1) \<Rightarrow> (Some u, snd (bans_reset_fail ip s1)))"

lemma guarded_login_but [simp]: "but_ledgers (snd (guarded_login check_pw bc now ip login pw s)) = but_ledgers s"
proof -
  obtain r1 s1 where a: "users_authenticate_login check_pw login pw s = (r1, s1)"
    by (cases "users_authenticate_login check_pw login pw s")
  obtain k s2 where e: "users_login_exists login s1 = (k, s2)" by (cases "users_login_exists login s1")
  have "but_ledgers s1 = but_ledgers s" "but_ledgers s2 = but_ledgers s1"
    using users_authenticate_login_but [of check_pw login pw s] users_login_exists_but [of login s1] a e by simp_all
  then show ?thesis by (simp add: guarded_login_def a e split: sum.splits)
qed

lemma guarded_login_Some:
  assumes "guarded_login check_pw bc now ip login pw s = (Some u, s')"
  shows "u_is_active u \<and> check_pw (u_password_hash u) pw \<and>
    (\<exists>v \<in> set (db_users s). same_account u v \<and> login_refers s login v)"
proof -
  from assms obtain s1 where "users_authenticate_login check_pw login pw s = (Inr u, s1)"
    by (auto simp: guarded_login_def Let_def split: prod.splits sum.splits)
  from users_authenticate_login_Inr [OF this] show ?thesis by blast
qed

lemma guarded_login_loaded:
  assumes "guarded_login check_pw bc now ip login pw s = (Some u, s')"
  shows "domain_loaded s u"
  using assms
  by (auto simp: guarded_login_def Let_def split: prod.splits sum.splits dest: users_authenticate_login_loaded)

section \<open>Ports\<close>

definition port_of :: "string \<Rightarrow> int" where
  \<comment> \<open>the port of a listening address, 0 when it does not parse (\<open>sessionPort\<close>, \<open>portOf\<close>, \<open>parseAddrPort\<close>)\<close>
  "port_of addr =
     (case (split_host_port addr, last_index_byte CHR '':'' addr) of
        (Some _, Some i) \<Rightarrow> (case atoi (drop (Suc i) addr) of None \<Rightarrow> 0 | Some p \<Rightarrow> p)
      | _ \<Rightarrow> 0)"

end
