(* ===== verification/Conn_Hub.thy ===== *)
theory Conn_Hub
  imports Go_Strings "HOL-Library.Multiset"
begin

text \<open>
  The registry of active protocol connections (\<open>internal/connhub/hub.go\<close>), which the admin pages
  list and the ban page uses to throw the connections of an address out.

  The map from identifiers to connections is kept as the list of its values. A loop over the map
  visits them in an order that Go leaves open and that may differ from loop to loop: every operation
  that loops takes that order as its argument \<open>ord\<close>, a rearrangement of the values (\<open>map_order\<close>).
  Identifiers are 64-bit and wrap, and registering under an identifier in use overwrites the
  entry, as the map assignment does. The disconnect callback of a connection closes its socket: it
  is modelled by the socket's number. A connection handle is its identifier: a handle whose entry is
  gone changes nothing the registry shows. Each operation holds the one lock of the hub, so
  interleavings of connections are sequences of operations.
\<close>

record hub_conn =
  hc_id :: "64 word"
  hc_protocol :: string
  hc_ip :: string
  hc_port :: int
  hc_user :: string
  hc_tls :: bool
  hc_connected :: gotime
  hc_last_active :: gotime
  hc_disconnect :: "nat option"

record hub =
  hub_seq :: "64 word"
  hub_conns :: "hub_conn list"

definition new_hub :: hub where
  "new_hub = \<lparr>hub_seq = 0, hub_conns = []\<rparr>"

definition hub_register :: "gotime \<Rightarrow> string \<Rightarrow> string \<Rightarrow> int \<Rightarrow> bool \<Rightarrow> hub \<Rightarrow> 64 word \<times> hub" where
  "hub_register now protocol ip port tls h =
     (let i = hub_seq h + 1;
          c = \<lparr>hc_id = i, hc_protocol = protocol, hc_ip = ip, hc_port = port, hc_user = [], hc_tls = tls,
               hc_connected = now, hc_last_active = now, hc_disconnect = None\<rparr>
      in (i, \<lparr>hub_seq = i, hub_conns = filter (\<lambda>c. hc_id c \<noteq> i) (hub_conns h) @ [c]\<rparr>))"

definition upd_conn :: "64 word \<Rightarrow> (hub_conn \<Rightarrow> hub_conn) \<Rightarrow> hub \<Rightarrow> hub" where
  "upd_conn i f h = h\<lparr>hub_conns := map (\<lambda>c. if hc_id c = i then f c else c) (hub_conns h)\<rparr>"

definition conn_set_user :: "gotime \<Rightarrow> string \<Rightarrow> 64 word \<Rightarrow> hub \<Rightarrow> hub" where
  "conn_set_user now u i = upd_conn i (\<lambda>c. c\<lparr>hc_user := u, hc_last_active := now\<rparr>)"

definition conn_set_tls :: "bool \<Rightarrow> 64 word \<Rightarrow> hub \<Rightarrow> hub" where
  "conn_set_tls on i = upd_conn i (\<lambda>c. c\<lparr>hc_tls := on\<rparr>)"

definition conn_touch :: "gotime \<Rightarrow> 64 word \<Rightarrow> hub \<Rightarrow> hub" where
  "conn_touch now i = upd_conn i (\<lambda>c. c\<lparr>hc_last_active := now\<rparr>)"

definition conn_set_disconnect :: "nat \<Rightarrow> 64 word \<Rightarrow> hub \<Rightarrow> hub" where
  "conn_set_disconnect socket i = upd_conn i (\<lambda>c. c\<lparr>hc_disconnect := Some socket\<rparr>)"

definition conn_close :: "64 word \<Rightarrow> hub \<Rightarrow> hub" where
  "conn_close i h = h\<lparr>hub_conns := filter (\<lambda>c. hc_id c \<noteq> i) (hub_conns h)\<rparr>"

definition hub_get :: "64 word \<Rightarrow> hub \<Rightarrow> hub_conn option" where
  "hub_get i h = find (\<lambda>c. hc_id c = i) (hub_conns h)"

text \<open>Disconnecting answers the sockets it closes; the protocol servers notice and call \<open>Close\<close>.\<close>

definition hub_disconnect :: "64 word \<Rightarrow> hub \<Rightarrow> bool \<times> nat list" where
  "hub_disconnect i h =
     (case hub_get i h of
        None \<Rightarrow> (False, [])
      | Some c \<Rightarrow> (True, case hc_disconnect c of None \<Rightarrow> [] | Some k \<Rightarrow> [k]))"

definition map_order :: "(hub_conn list \<Rightarrow> hub_conn list) \<Rightarrow> bool" where
  \<comment> \<open>an order in which \<open>range\<close> may visit the values of the map: each of them once\<close>
  "map_order ord \<longleftrightarrow> (\<forall>cs. mset (ord cs) = mset cs)"

definition hub_disconnect_by_ip :: "(hub_conn list \<Rightarrow> hub_conn list) \<Rightarrow> string \<Rightarrow> hub \<Rightarrow> int \<times> nat list" where
  "hub_disconnect_by_ip ord ip h =
     (if ip = [] then (0, [])
      else let fns = List.map_filter (\<lambda>c. if hc_ip c = ip then hc_disconnect c else None) (ord (hub_conns h))
           in (int (length fns), fns))"

definition hub_list :: "(hub_conn list \<Rightarrow> hub_conn list) \<Rightarrow> hub \<Rightarrow> hub_conn list" where
  "hub_list ord h = sort_key hc_id (map (\<lambda>c. c\<lparr>hc_disconnect := None\<rparr>) (ord (hub_conns h)))"

definition hub_counts :: "(hub_conn list \<Rightarrow> hub_conn list) \<Rightarrow> hub \<Rightarrow> string \<Rightarrow> int option" where
  "hub_counts ord h =
     foldl (\<lambda>m c. m(hc_protocol c \<mapsto> (case m (hc_protocol c) of None \<Rightarrow> 0 | Some n \<Rightarrow> n) + 1))
       Map.empty (ord (hub_conns h))"

section \<open>What the registry promises\<close>

text \<open>The operations of the protocol servers on the hub, and the registry they should see.\<close>

datatype hub_event =
    Registered gotime string string int bool
  | User_Set gotime string nat
  | Tls_Set bool nat
  | Touched gotime nat
  | Disconnect_Set nat nat
  | Closed nat

fun hub_apply :: "hub_event \<Rightarrow> hub \<Rightarrow> hub" where
  "hub_apply (Registered now p ip port tls) h = snd (hub_register now p ip port tls h)"
| "hub_apply (User_Set now u i) h = conn_set_user now u (of_nat i) h"
| "hub_apply (Tls_Set on i) h = conn_set_tls on (of_nat i) h"
| "hub_apply (Touched now i) h = conn_touch now (of_nat i) h"
| "hub_apply (Disconnect_Set k i) h = conn_set_disconnect k (of_nat i) h"
| "hub_apply (Closed i) h = conn_close (of_nat i) h"

text \<open>Connection number \<open>k\<close> is the \<open>k\<close>-th one registered. It is open from then until it is closed, and
  shows what was last said about it.\<close>

record shown = sh_protocol :: string  sh_ip :: string  sh_user :: string  sh_tls :: bool  sh_socket :: "nat option"

fun registry :: "hub_event list \<Rightarrow> nat \<times> (nat \<times> shown) list" where
  "registry [] = (0, [])"
| "registry (e # es) =
     (let (n, open) = registry es;
          upd = (\<lambda>i f. (n, map (\<lambda>(j, c). (j, if j = i then f c else c)) open))
      in case e of
          Registered now p ip port tls \<Rightarrow>
            (Suc n, open @ [(Suc n, \<lparr>sh_protocol = p, sh_ip = ip, sh_user = [], sh_tls = tls, sh_socket = None\<rparr>)])
        | User_Set now u i \<Rightarrow> upd i (\<lambda>c. c\<lparr>sh_user := u\<rparr>)
        | Tls_Set on i \<Rightarrow> upd i (\<lambda>c. c\<lparr>sh_tls := on\<rparr>)
        | Touched now i \<Rightarrow> (n, open)
        | Disconnect_Set k i \<Rightarrow> upd i (\<lambda>c. c\<lparr>sh_socket := Some k\<rparr>)
        | Closed i \<Rightarrow> (n, filter (\<lambda>(j, c). j \<noteq> i) open))"

definition hub_after :: "hub_event list \<Rightarrow> hub" where
  "hub_after es = foldr hub_apply es new_hub"

definition valid_handles :: "hub_event list \<Rightarrow> bool" where
  "valid_handles es \<longleftrightarrow> length es < 2 ^ 64 \<and>
     (\<forall>e \<in> set es. case e of Registered now p ip port tls \<Rightarrow> True | User_Set now u i \<Rightarrow> i < 2 ^ 64
        | Tls_Set on i \<Rightarrow> i < 2 ^ 64 | Touched now i \<Rightarrow> i < 2 ^ 64 | Disconnect_Set k i \<Rightarrow> i < 2 ^ 64
        | Closed i \<Rightarrow> i < 2 ^ 64)"

definition show_conn :: "hub_conn \<Rightarrow> nat \<times> shown" where
  "show_conn c = (unat (hc_id c), \<lparr>sh_protocol = hc_protocol c, sh_ip = hc_ip c, sh_user = hc_user c,
     sh_tls = hc_tls c, sh_socket = hc_disconnect c\<rparr>)"

definition hub_rel :: "hub \<Rightarrow> nat \<times> (nat \<times> shown) list \<Rightarrow> bool" where
  "hub_rel h r \<longleftrightarrow> unat (hub_seq h) = fst r \<and> map show_conn (hub_conns h) = snd r \<and>
     sorted (map fst (snd r)) \<and> distinct (map fst (snd r)) \<and> (\<forall>p \<in> set (snd r). fst p \<le> fst r)"

lemma show_conn_id: "hc_id c = of_nat i \<longleftrightarrow> fst (show_conn c) = i" if "i < 2 ^ 64"
proof -
  have "unat (of_nat i :: 64 word) = i" using that by (simp add: unat_of_nat)
  then show ?thesis by (simp add: show_conn_def) (metis word_unat_eq_iff)
qed

lemma upd_conn_rel:
  assumes "hub_rel h (n, xs)" and "i < 2 ^ 64" and "\<And>c. hc_id (f c) = hc_id c"
    and "\<And>c. snd (show_conn (f c)) = g (snd (show_conn c))"
  shows "hub_rel (upd_conn (of_nat i) f h) (n, map (\<lambda>(j, c). (j, if j = i then g c else c)) xs)"
proof -
  have f: "show_conn (if hc_id c = of_nat i then f c else c) =
      (\<lambda>(j, c). (j, if j = i then g c else c)) (show_conn c)" for c
    using assms(3, 4) [of c] show_conn_id [OF assms(2), of c] by (auto simp: show_conn_def)
  have m: "map show_conn (map (\<lambda>c. if hc_id c = of_nat i then f c else c) (hub_conns h)) =
      map (\<lambda>(j, c). (j, if j = i then g c else c)) (map show_conn (hub_conns h))"
    by (simp only: map_map comp_def f)
  have fst: "map fst (map (\<lambda>(j, c). (j, if j = i then g c else c)) xs) = map fst xs"
    by (simp add: split_def)
  have rel: "unat (hub_seq h) = n" "map show_conn (hub_conns h) = xs" "sorted (map fst xs)" "distinct (map fst xs)"
    "\<forall>p \<in> set xs. fst p \<le> n"
    using assms(1) by (simp_all add: hub_rel_def)
  have "\<forall>p \<in> set (map (\<lambda>(j, c). (j, if j = i then g c else c)) xs). fst p \<le> n"
    using rel(5) by (simp add: split_def)
  with rel m fst show ?thesis
    unfolding hub_rel_def upd_conn_def by (simp del: map_map list.set_map)
qed

lemma registry_bound: "fst (registry es) \<le> length es"
  by (induction es) (auto simp: Let_def split: prod.splits hub_event.splits)

lemma hub_rel_apply:
  assumes "hub_rel h (registry es)" and "valid_handles (e # es)"
  shows "hub_rel (hub_apply e h) (registry (e # es))"
proof -
  obtain n xs where r: "registry es = (n, xs)" by (cases "registry es")
  with assms(1) have rel: "hub_rel h (n, xs)" by simp
  have n: "n < 2 ^ 64 - 1" using registry_bound [of es] r assms(2) by (auto simp: valid_handles_def)
  show ?thesis
  proof (cases e)
    case (Registered now p ip port tls)
    have s: "unat (hub_seq h + 1) = Suc n"
      using rel n unfolding hub_rel_def by (simp add: unat_word_ariths)
    have "\<forall>c \<in> set (hub_conns h). hc_id c \<noteq> hub_seq h + 1"
    proof
      fix c assume "c \<in> set (hub_conns h)"
      then have "fst (show_conn c) \<le> n" using rel unfolding hub_rel_def by force
      with s show "hc_id c \<noteq> hub_seq h + 1" by (auto simp: show_conn_def)
    qed
    then have "filter (\<lambda>c. hc_id c \<noteq> hub_seq h + 1) (hub_conns h) = hub_conns h" by simp
    with rel s Registered show ?thesis
      by (auto simp: r hub_register_def Let_def hub_rel_def show_conn_def sorted_append)
  next
    case (Closed i)
    then have i: "i < 2 ^ 64" using assms(2) by (simp add: valid_handles_def)
    have p: "filter ((\<lambda>(j, c). j \<noteq> i) \<circ> show_conn) (hub_conns h) = filter (\<lambda>c. hc_id c \<noteq> of_nat i) (hub_conns h)"
      by (rule filter_cong) (auto simp: show_conn_id [OF i] split_def)
    have "map show_conn (filter (\<lambda>c. hc_id c \<noteq> of_nat i) (hub_conns h)) = filter (\<lambda>(j, c). j \<noteq> i) xs"
      using rel unfolding hub_rel_def by (auto simp: filter_map p)
    with rel Closed show ?thesis
      by (auto simp: r conn_close_def hub_rel_def distinct_map_filter sorted_filter)
  next
    case (User_Set now u i)
    then show ?thesis using assms(2) upd_conn_rel [OF rel, of i]
      by (simp add: r conn_set_user_def valid_handles_def show_conn_def)
  next
    case (Tls_Set on i)
    then show ?thesis using assms(2) upd_conn_rel [OF rel, of i]
      by (simp add: r conn_set_tls_def valid_handles_def show_conn_def)
  next
    case (Disconnect_Set k i)
    then show ?thesis using assms(2) upd_conn_rel [OF rel, of i]
      by (simp add: r conn_set_disconnect_def valid_handles_def show_conn_def)
  next
    case (Touched now i)
    have "(\<lambda>(j :: nat, c). (j, if j = i then c else c)) = (\<lambda>x. x)" by auto
    with Touched show ?thesis using assms(2) upd_conn_rel [OF rel, of i _ "\<lambda>c. c"]
      by (simp add: r conn_touch_def valid_handles_def show_conn_def)
  qed
qed

lemma hub_rel_after: "valid_handles es \<Longrightarrow> hub_rel (hub_after es) (registry es)"
proof (induction es)
  case Nil
  then show ?case by (simp add: hub_after_def hub_rel_def new_hub_def)
next
  case (Cons e es)
  then have "valid_handles es" by (simp add: valid_handles_def)
  with Cons show ?case using hub_rel_apply [of "hub_after es" es e] by (simp add: hub_after_def)
qed

lemma hub_list_conns:
  assumes "hub_rel h r" and "map_order ord"
  shows "hub_list ord h = map (\<lambda>c. c\<lparr>hc_disconnect := None\<rparr>) (hub_conns h)"
proof -
  let ?strip = "map (\<lambda>c. c\<lparr>hc_disconnect := None\<rparr>) :: hub_conn list \<Rightarrow> hub_conn list"
  have "distinct (map fst (map show_conn (hub_conns h)))" using assms(1) unfolding hub_rel_def by metis
  then have "distinct (map (unat \<circ> hc_id) (hub_conns h))" by (simp add: comp_def show_conn_def)
  then have "inj_on hc_id (set (?strip (hub_conns h)))"
    by (auto simp: distinct_map inj_on_def)
  moreover have "mset (?strip (ord (hub_conns h))) = mset (?strip (hub_conns h))"
    using assms(2) by (simp add: map_order_def)
  moreover from this have "set (?strip (ord (hub_conns h))) = set (?strip (hub_conns h))" by (rule mset_eq_setD)
  ultimately have any_order: "sorted (map hc_id (?strip (hub_conns h))) \<Longrightarrow> hub_list ord h = ?strip (hub_conns h)"
    unfolding hub_list_def by (intro sort_key_inj_key_eq) simp_all
  have "sorted (map (unat \<circ> hc_id) (hub_conns h))"
  proof -
    have "sorted (map fst (map show_conn (hub_conns h)))" using assms(1) unfolding hub_rel_def by metis
    then show ?thesis by (simp add: comp_def show_conn_def)
  qed
  then have "sorted (map hc_id (hub_conns h))"
    by (simp add: sorted_map word_le_nat_alt comp_def)
  then have "sorted (map hc_id (map (\<lambda>c. c\<lparr>hc_disconnect := None\<rparr>) (hub_conns h)))" by (simp add: comp_def)
  then show ?thesis by (rule any_order)
qed

lemma hub_counts_fold:
  "foldl (\<lambda>m c. m(hc_protocol c \<mapsto> (case m (hc_protocol c) of None \<Rightarrow> 0 | Some n \<Rightarrow> n) + 1)) m cs p =
     (let k = length (filter (\<lambda>c. hc_protocol c = p) cs)
      in if k = 0 then m p else Some ((case m p of None \<Rightarrow> 0 | Some n \<Rightarrow> n) + int k))"
  by (induction cs arbitrary: m) (auto simp: Let_def split: option.splits)

section \<open>Properties of the registry\<close>

text \<open>C29: whatever the connections of the three protocols do to the hub, in whatever order, and in
  whatever order Go visits the entries of the hub's map, the admin page lists exactly the connections
  that were registered and not yet closed, in the order in which they came, each with the address,
  user and TLS state last recorded for it, and the counters by protocol add up to that list. The
  sequences are those of fewer than \<open>2 ^ 64\<close> steps, so that no identifier is given twice.\<close>

theorem hub_lists_open_connections:
  assumes "valid_handles es" and "map_order ord" and "map_order ord'"
  shows "map (\<lambda>c. (unat (hc_id c), hc_protocol c, hc_ip c, hc_user c, hc_tls c)) (hub_list ord (hub_after es)) =
      map (\<lambda>(i, s). (i, sh_protocol s, sh_ip s, sh_user s, sh_tls s)) (snd (registry es)) \<and>
    hub_counts ord' (hub_after es) p =
      (let k = length (filter (\<lambda>(i, s). sh_protocol s = p) (snd (registry es))) in if k = 0 then None else Some (int k))"
proof (rule conjI)
  note rel = hub_rel_after [OF assms(1)]
  then have m: "snd (registry es) = map show_conn (hub_conns (hub_after es))" by (simp add: hub_rel_def)
  show "map (\<lambda>c. (unat (hc_id c), hc_protocol c, hc_ip c, hc_user c, hc_tls c)) (hub_list ord (hub_after es)) =
      map (\<lambda>(i, s). (i, sh_protocol s, sh_ip s, sh_user s, sh_tls s)) (snd (registry es))"
    unfolding hub_list_conns [OF rel assms(2)] m by (simp add: show_conn_def)
  have "mset (filter (\<lambda>c. hc_protocol c = p) (ord' (hub_conns (hub_after es)))) =
      mset (filter (\<lambda>c. hc_protocol c = p) (hub_conns (hub_after es)))"
    using assms(3) by (simp add: map_order_def)
  then have l: "length (filter (\<lambda>c. hc_protocol c = p) (ord' (hub_conns (hub_after es)))) =
      length (filter (\<lambda>c. hc_protocol c = p) (hub_conns (hub_after es)))"
    by (rule mset_eq_length)
  show "hub_counts ord' (hub_after es) p =
      (let k = length (filter (\<lambda>(i, s). sh_protocol s = p) (snd (registry es))) in if k = 0 then None else Some (int k))"
    unfolding hub_counts_def hub_counts_fold l m by (simp add: filter_map comp_def show_conn_def Let_def)
qed

definition sample_events :: "hub_event list" where
  "sample_events = [Closed 1, User_Set 9 ''a@x'' 2, Disconnect_Set 7 2, Registered 5 ''pop3'' ''1.2.3.4'' 110 False,
     Disconnect_Set 6 1, Registered 1 ''imap'' ''1.2.3.4'' 143 False]"

lemma hub_lists_open_connections_witness:
  "map (\<lambda>c. (unat (hc_id c), hc_protocol c, hc_ip c, hc_user c, hc_tls c)) (hub_list rev (hub_after (tl sample_events))) =
     [(1, ''imap'', ''1.2.3.4'', [], False), (2, ''pop3'', ''1.2.3.4'', ''a@x'', False)]"
proof -
  have v: "valid_handles (tl sample_events)" by (simp add: valid_handles_def sample_events_def)
  have o: "map_order rev" by (simp add: map_order_def)
  show ?thesis unfolding hub_lists_open_connections [OF v o o, THEN conjunct1] by (simp add: sample_events_def)
qed

text \<open>Banning an address throws out every open connection that came from it and no other: the
  sockets closed are those of the listed connections of that address, in some order, and the number
  reported is their number.\<close>

theorem kick_by_address:
  assumes "valid_handles es" and "map_order ord" and "ip \<noteq> []"
  shows "fst (hub_disconnect_by_ip ord ip (hub_after es)) = int (length (snd (hub_disconnect_by_ip ord ip (hub_after es)))) \<and>
     mset (snd (hub_disconnect_by_ip ord ip (hub_after es))) =
     mset [k. (i, s) \<leftarrow> snd (registry es), sh_ip s = ip, k \<leftarrow> (case sh_socket s of None \<Rightarrow> [] | Some k \<Rightarrow> [k])]"
proof -
  have m: "snd (registry es) = map show_conn (hub_conns (hub_after es))"
    using hub_rel_after [OF assms(1)] by (simp add: hub_rel_def)
  have e: "List.map_filter (\<lambda>c. if hc_ip c = ip then hc_disconnect c else None) cs =
      [k. (i, s) \<leftarrow> map show_conn cs, sh_ip s = ip, k \<leftarrow> (case sh_socket s of None \<Rightarrow> [] | Some k \<Rightarrow> [k])]" for cs
    by (induction cs) (auto simp: List.map_filter_simps show_conn_def split: option.splits)
  have o: "mset (List.map_filter f (ord cs)) = mset (List.map_filter f cs)" for f :: "hub_conn \<Rightarrow> nat option" and cs
    using assms(2) by (simp add: map_order_def List.map_filter_def)
  show ?thesis unfolding hub_disconnect_by_ip_def m e [symmetric] using assms(3) o by (simp add: Let_def)
qed

lemma kick_by_address_witness: "mset (snd (hub_disconnect_by_ip rev ''1.2.3.4'' (hub_after sample_events))) = {#7#}"
proof -
  have v: "valid_handles sample_events" by (simp add: valid_handles_def sample_events_def)
  have o: "map_order rev" by (simp add: map_order_def)
  show ?thesis using kick_by_address [OF v o, of "''1.2.3.4''"] by (simp add: sample_events_def)
qed

end
