(* ===== verification/Attachment_Storage.thy ===== *)
theory Attachment_Storage
  imports Go_Strings
begin

text \<open>
  The attachment files on disk (\<open>internal/storage/attachment.go\<close>) and the functions of Go's
  \<open>path/filepath\<close> it relies on (\<open>Clean\<close>, \<open>Join\<close>, \<open>Ext\<close>, as they work with the separator
  \<open>/\<close>).

  The disk is a map from full paths to contents; the outcomes of the coming file operations are a
  list, as for the database. The library \<open>uuid\<close> is the list of names it will hand out.
\<close>

section \<open>Paths\<close>

abbreviation (input) slash :: char where "slash \<equiv> CHR ''/''"

text \<open>One element of a path at a time, on the stack of the elements kept so far (last first).\<close>

fun clean_step :: "bool \<Rightarrow> string list \<Rightarrow> string \<Rightarrow> string list" where
  "clean_step rooted st e =
     (if e = [] \<or> e = ''.'' then st
      else if e = ''..'' then
        (case st of
           [] \<Rightarrow> if rooted then [] else [''..'']
         | x # xs \<Rightarrow> if x = ''..'' then ''..'' # st else xs)
      else e # st)"

definition path_clean :: "string \<Rightarrow> string" where
  "path_clean p =
     (let rooted = has_prefix ''/'' p;
          body = join ''/'' (rev (foldl (clean_step rooted) [] (split_on slash p)))
      in if rooted then slash # body else if body = [] then ''.'' else body)"

definition path_join :: "string \<Rightarrow> string \<Rightarrow> string" where
  \<comment> \<open>\<open>filepath.Join(a, b)\<close>: empty elements are ignored\<close>
  "path_join a b =
     (let es = filter (\<lambda>e. e \<noteq> []) [a, b] in if es = [] then [] else path_clean (join ''/'' es))"

definition path_dir :: "string \<Rightarrow> string" where
  \<comment> \<open>\<open>filepath.Dir\<close>\<close>
  "path_dir p = path_clean (case last_index_byte slash p of None \<Rightarrow> [] | Some i \<Rightarrow> take (Suc i) p)"

definition path_ext :: "string \<Rightarrow> string" where
  "path_ext p =
     (let name = (case last_index_byte slash p of None \<Rightarrow> p | Some i \<Rightarrow> drop (Suc i) p)
      in case last_index_byte CHR ''.'' name of None \<Rightarrow> [] | Some i \<Rightarrow> drop i name)"

section \<open>Names of saved files\<close>

definition hex_lower :: "char \<Rightarrow> bool" where
  "hex_lower c \<longleftrightarrow> (let n = (of_char c :: nat) in 48 \<le> n \<and> n \<le> 57 \<or> 97 \<le> n \<and> n \<le> 102)"

definition ext_char :: "char \<Rightarrow> bool" where
  "ext_char c \<longleftrightarrow> (let n = (of_char c :: nat) in
     97 \<le> n \<and> n \<le> 122 \<or> 65 \<le> n \<and> n \<le> 90 \<or> 48 \<le> n \<and> n \<le> 57 \<or> c = CHR ''.'' \<or> c = CHR ''_'' \<or> c = CHR ''-'')"

definition uuid_text :: "string \<Rightarrow> bool" where
  "uuid_text s \<longleftrightarrow> length s = 36 \<and>
     (\<forall>i < 36. if i \<in> {8, 13, 18, 23} then s ! i = CHR ''-'' else hex_lower (s ! i))"

definition saved_file_re :: "string \<Rightarrow> bool" where
  "saved_file_re s \<longleftrightarrow> uuid_text (take 36 s) \<and>
     (case drop 36 s of
        [] \<Rightarrow> True
      | c # ext \<Rightarrow> c = CHR ''.'' \<and> 1 \<le> length ext \<and> length ext \<le> 32 \<and> list_all ext_char ext)"

definition safe_ext :: "string \<Rightarrow> string" where
  "safe_ext filename =
     (let ext = path_ext filename
      in if length ext > 33 then [] else if list_all ext_char ext then ext else [])"

section \<open>Files\<close>

record disk =
  disk_files :: "string \<Rightarrow> string option"
  disk_faults :: "bool list"
  disk_uuids :: "string list"

datatype storage_error = Mkdir_Failed | Write_Failed | Read_Failed | Remove_Failed | Illegal_Path | Outside_Base

definition disk_fails :: "disk \<Rightarrow> bool \<times> disk" where
  "disk_fails d = (case disk_faults d of [] \<Rightarrow> (False, d) | f # fs \<Rightarrow> (f, d\<lparr>disk_faults := fs\<rparr>))"

definition next_uuid :: "disk \<Rightarrow> string \<times> disk" where
  "next_uuid d = (hd (disk_uuids d), d\<lparr>disk_uuids := tl (disk_uuids d)\<rparr>)"

definition storage_save :: "string \<Rightarrow> string \<Rightarrow> string \<Rightarrow> disk \<Rightarrow> (storage_error + string) \<times> disk" where
  "storage_save base filename data d =
     (case disk_fails d of
        (True, d1) \<Rightarrow> (Inl Mkdir_Failed, d1)
      | (False, d1) \<Rightarrow>
          (let ext = safe_ext filename;
               (u, d2) = next_uuid d1;
               name = u @ ext
           in case disk_fails d2 of
                (True, d3) \<Rightarrow> (Inl Write_Failed, d3)
              | (False, d3) \<Rightarrow>
                  (Inr name, d3\<lparr>disk_files := (disk_files d3)(path_join base name \<mapsto> data)\<rparr>)))"

definition full_path :: "string \<Rightarrow> string \<Rightarrow> storage_error + string" where
  "full_path base rel =
     (if \<not> saved_file_re rel then Inl Illegal_Path
      else if \<not> has_prefix (path_clean base @ ''/'') (path_join base rel) then Inl Outside_Base
      else Inr (path_join base rel))"

definition storage_read :: "string \<Rightarrow> string \<Rightarrow> disk \<Rightarrow> (storage_error + string) \<times> disk" where
  "storage_read base rel d =
     (case full_path base rel of
        Inl e \<Rightarrow> (Inl e, d)
      | Inr p \<Rightarrow>
          (case disk_fails d of
             (True, d1) \<Rightarrow> (Inl Read_Failed, d1)
           | (False, d1) \<Rightarrow> (case disk_files d1 p of None \<Rightarrow> (Inl Read_Failed, d1) | Some x \<Rightarrow> (Inr x, d1))))"

definition storage_delete :: "string \<Rightarrow> string \<Rightarrow> disk \<Rightarrow> (storage_error + unit) \<times> disk" where
  "storage_delete base rel d =
     (case full_path base rel of
        Inl e \<Rightarrow> (Inl e, d)
      | Inr p \<Rightarrow>
          (case disk_fails d of
             (True, d1) \<Rightarrow> (Inl Remove_Failed, d1)
           | (False, d1) \<Rightarrow> (Inr (), d1\<lparr>disk_files := (disk_files d1)(p := None)\<rparr>)))"

section \<open>Lemmas\<close>

lemma split_on_snoc:
  "c \<notin> set t \<Longrightarrow> split_on c (s @ c # t) = split_on c s @ [t]"
proof (induction s)
  case Nil
  then show ?case by (simp add: split_on_single)
next
  case (Cons x s)
  obtain y ys where e: "split_on c s = y # ys" using split_on_ne [of c s] by (cases "split_on c s") auto
  with Cons show ?case by simp
qed

text \<open>An element of a path that names a file.\<close>

definition plain_element :: "string \<Rightarrow> bool" where
  "plain_element e \<longleftrightarrow> e \<noteq> [] \<and> e \<noteq> ''.'' \<and> e \<noteq> ''..'' \<and> slash \<notin> set e"

lemma join_snoc: "xs \<noteq> [] \<Longrightarrow> join sep (xs @ [x]) = join sep xs @ sep @ x"
  by (induction sep xs rule: join.induct) auto

lemma clean_step_set:
  "set (clean_step r st e) \<subseteq> set st \<union> {''..''} \<union> (if e = [] \<or> e = ''.'' then {} else {e})"
  by (cases st) (simp_all, blast)

declare clean_step.simps [simp del]

lemma clean_stack_set:
  "set (foldl (clean_step r) st es) \<subseteq> set st \<union> {''..''} \<union> {e \<in> set es. e \<noteq> [] \<and> e \<noteq> ''.''}"
proof (induction es arbitrary: st)
  case Nil
  show ?case by auto
next
  case (Cons x es)
  have "set (clean_step r st x) \<subseteq> set st \<union> {''..''} \<union> {e \<in> {x}. e \<noteq> [] \<and> e \<noteq> ''.''}"
    using clean_step_set [of r st x] by (auto split: if_splits)
  with Cons.IH [of "clean_step r st x"] show ?case by auto
qed

lemma join_one:
  assumes "\<forall>e \<in> set es. e \<noteq> []" and "join ''/'' es = [c]"
  shows "es = [[c]]"
proof (cases es)
  case Nil
  with assms show ?thesis by simp
next
  case (Cons x xs)
  with assms show ?thesis by (cases xs) (auto simp: append_eq_Cons_conv)
qed

lemma join_eq_Nil: "\<forall>e \<in> set es. e \<noteq> [] \<Longrightarrow> join sep es = [] \<longleftrightarrow> es = []"
  by (induction sep es rule: join.induct) auto

lemma path_clean_element:
  assumes "plain_element e" and "base \<noteq> []"
  shows "path_clean (base @ slash # e) =
    (if path_clean base = ''.'' then e else if path_clean base = ''/'' then slash # e
     else path_clean base @ slash # e)"
proof -
  let ?r = "has_prefix ''/'' base"
  let ?st = "foldl (clean_step ?r) [] (split_on slash base)"
  have r: "has_prefix ''/'' (base @ slash # e) = ?r" using assms(2) by (cases base) (simp_all add: has_prefix_def)
  have st: "foldl (clean_step ?r) [] (split_on slash (base @ slash # e)) = e # ?st"
    using assms(1) by (simp add: split_on_snoc plain_element_def clean_step.simps)
  have set: "set ?st \<subseteq> {''..''} \<union> {e \<in> set (split_on slash base). e \<noteq> [] \<and> e \<noteq> ''.''}"
    using clean_stack_set [of ?r "[]" "split_on slash base"] by simp
  then have ne: "\<forall>x \<in> set (rev ?st). x \<noteq> []" by auto
  have j: "join ''/'' (rev (e # ?st)) = (if ?st = [] then e else join ''/'' (rev ?st) @ slash # e)"
    by (simp add: join_snoc)
  have e: "e \<noteq> []" using assms(1) by (simp add: plain_element_def)
  have hd: "join ''/'' (rev ?st) \<noteq> ''.''" "join ''/'' (rev ?st) \<noteq> ''/''"
    using join_one [OF ne] set split_on_no_sep [of "''/''" slash base] by auto
  define body where "body = join ''/'' (rev ?st)"
  have body: "body = [] \<longleftrightarrow> ?st = []" "body \<noteq> ''.''" "body \<noteq> ''/''"
    using join_eq_Nil [OF ne, of "''/''"] hd by (simp_all add: body_def)
  have b: "path_clean base = (if ?r then slash # body else if body = [] then ''.'' else body)"
    by (simp only: path_clean_def Let_def body_def)
  have be: "path_clean (base @ slash # e) =
      (let t = (if ?st = [] then e else body @ slash # e) in if ?r then slash # t else if t = [] then ''.'' else t)"
    by (simp only: path_clean_def Let_def r st j body_def)
  show ?thesis
    unfolding b be using body e by (auto simp: Let_def)
qed

lemma hex_lower_plain: "hex_lower c \<Longrightarrow> c \<noteq> slash \<and> c \<noteq> CHR ''.''"
  by (auto simp: hex_lower_def)

lemma ext_char_plain: "ext_char c \<Longrightarrow> c \<noteq> slash"
  by (auto simp: ext_char_def)

lemma uuid_text_chars:
  assumes "uuid_text s"
  shows "slash \<notin> set s" and "CHR ''.'' \<notin> set s" and "s \<noteq> []"
proof -
  have "c = CHR ''-'' \<or> hex_lower c" if c: "c \<in> set s" for c
  proof -
    from c obtain i where "i < 36" "c = s ! i" using assms by (auto simp: uuid_text_def in_set_conv_nth)
    then show ?thesis using assms unfolding uuid_text_def by (metis (full_types))
  qed
  then show "slash \<notin> set s" and "CHR ''.'' \<notin> set s" using hex_lower_plain by force+
  show "s \<noteq> []" using assms by (auto simp: uuid_text_def)
qed

lemma saved_file_plain:
  assumes "saved_file_re s"
  shows "plain_element s" and "hd s \<noteq> CHR ''.''" and "s \<noteq> []"
proof -
  have u: "uuid_text (take 36 s)" and r: "list_all ext_char (drop 36 s)"
    using assms by (auto simp: saved_file_re_def ext_char_def split: list.splits)
  then have "slash \<notin> set (take 36 s)" "slash \<notin> set (drop 36 s)"
    using uuid_text_chars(1) ext_char_plain by (auto simp: list_all_iff)
  then have no: "slash \<notin> set s" by (metis UnE append_take_drop_id set_append)
  have len: "36 \<le> length s" using u by (simp add: uuid_text_def min_def split: if_splits)
  then show ne: "s \<noteq> []" by auto
  have "hd s \<in> set (take 36 s)" using ne by (cases s) simp_all
  then show "hd s \<noteq> CHR ''.''" using uuid_text_chars(2) [OF u] ne by (cases s) auto
  then show "plain_element s" using no ne by (auto simp: plain_element_def)
qed

lemma path_clean_plain: "plain_element e \<Longrightarrow> path_clean e = e"
  unfolding path_clean_def Let_def
  by (cases e) (auto simp: plain_element_def has_prefix_def split_on_single clean_step.simps)

lemma full_path_eq:
  "full_path base rel =
     (if \<not> saved_file_re rel then Inl Illegal_Path
      else if path_clean base = ''.'' \<or> path_clean base = ''/'' then Inl Outside_Base
      else Inr (path_clean base @ slash # rel))"
proof (cases "saved_file_re rel")
  case False
  then show ?thesis by (simp add: full_path_def)
next
  case True
  note p = saved_file_plain [OF True]
  have ns: "hd rel \<noteq> slash" using p(1,3) by (cases rel) (auto simp: plain_element_def)
  have "has_prefix ''./'' rel = False" "has_prefix ''//'' (slash # rel) = False"
    using p(2,3) ns by (cases rel; auto simp: has_prefix_def)+
  moreover have "path_join base rel = (if base = [] \<or> path_clean base = ''.'' then rel
      else if path_clean base = ''/'' then slash # rel else path_clean base @ slash # rel)"
    using path_clean_element [OF p(1), of base] path_clean_plain [OF p(1)] p(3)
    by (auto simp: path_join_def)
  moreover have "path_clean [] = ''.''" by (simp add: path_clean_def has_prefix_def clean_step.simps)
  ultimately show ?thesis
    using True has_prefix_append [of "path_clean base @ ''/''" rel]
    by (cases "base = []") (simp_all add: full_path_def)
qed

lemma path_ext_dot: "path_ext p = [] \<or> (\<exists>t. path_ext p = CHR ''.'' # t)"
proof -
  have "drop i n = CHR ''.'' # drop (Suc i) n" if "last_index_byte CHR ''.'' n = Some i" for i n
    using last_index_byte_Some [OF that] Cons_nth_drop_Suc by metis
  then show ?thesis unfolding path_ext_def Let_def by (auto split: option.splits)
qed

lemma saved_name_re:
  assumes "uuid_text u" and "safe_ext f \<noteq> ''.''"
  shows "saved_file_re (u @ safe_ext f)"
proof -
  have len: "length u = 36" using assms(1) by (simp add: uuid_text_def)
  have "safe_ext f = [] \<or> (\<exists>t. safe_ext f = CHR ''.'' # t \<and> 1 \<le> length t \<and> length t \<le> 32 \<and> list_all ext_char t)"
  proof (cases "safe_ext f = []")
    case False
    then have e: "safe_ext f = path_ext f" and l: "length (path_ext f) \<le> 33" "list_all ext_char (path_ext f)"
      by (auto simp: safe_ext_def Let_def split: if_splits)
    then obtain t where t: "path_ext f = CHR ''.'' # t" using path_ext_dot [of f] False by auto
    then show ?thesis using e l assms(2) by (cases t) auto
  qed simp
  then show ?thesis using assms(1) len by (auto simp: saved_file_re_def)
qed

section \<open>Properties\<close>

text \<open>C22: attachment paths cannot leave the attachment directory. A stored path is turned into a file
  name only if it is a saved name (a UUID with an optional short extension), which is a single path
  element with no separator and is neither of the dot names; the file is then the entry of that
  name directly inside the cleaned base directory. For a base that cleans to the root or to the
  current directory every path is refused.\<close>

theorem attachment_path_confined:
  "full_path base rel = Inr p \<longleftrightarrow>
     saved_file_re rel \<and> path_clean base \<noteq> ''.'' \<and> path_clean base \<noteq> ''/'' \<and>
     p = path_clean base @ slash # rel \<and> slash \<notin> set rel \<and> rel \<noteq> ''..'' \<and> rel \<noteq> ''.''"
  unfolding full_path_eq using saved_file_plain(1) [of rel] by (auto simp: plain_element_def)


definition sample_disk :: disk where
  "sample_disk = \<lparr>disk_files = Map.empty, disk_faults = [],
     disk_uuids = [''01234567-89ab-cdef-0123-456789abcdef'']\<rparr>"


end
