(* ===== verification/Mail_Util.thy ===== *)
theory Mail_Util
  imports Go_Strings
begin

text \<open>
  Reading a MIME message (\<open>internal/mailutil/codec.go\<close> and \<open>parseSMTPMessage\<close> of
  \<open>internal/smtp_server/server.go\<close>; \<open>Append\<close> of the IMAP session reads a message the same way).

  The MIME reader is a library (\<open>go-message\<close>): what it makes of the bytes of a message is the
  record \<open>mail_reader\<close>, its header queries and its parts in order. The table of character sets
  (\<open>htmlindex\<close>) and the decoder of encoded words are parameters too.
\<close>

section \<open>Character sets\<close>

text \<open>\<open>utf8.Valid\<close>: the ranges still due for the bytes of the current rune.\<close>

definition utf8_lead :: "nat \<Rightarrow> (nat \<times> nat) list option" where
  "utf8_lead b =
     (if b < 0x80 then Some []
      else if 0xC2 \<le> b \<and> b \<le> 0xDF then Some [(0x80, 0xBF)]
      else if b = 0xE0 then Some [(0xA0, 0xBF), (0x80, 0xBF)]
      else if b = 0xED then Some [(0x80, 0x9F), (0x80, 0xBF)]
      else if 0xE1 \<le> b \<and> b \<le> 0xEF then Some [(0x80, 0xBF), (0x80, 0xBF)]
      else if b = 0xF0 then Some [(0x90, 0xBF), (0x80, 0xBF), (0x80, 0xBF)]
      else if 0xF1 \<le> b \<and> b \<le> 0xF3 then Some [(0x80, 0xBF), (0x80, 0xBF), (0x80, 0xBF)]
      else if b = 0xF4 then Some [(0x80, 0x8F), (0x80, 0xBF), (0x80, 0xBF)]
      else None)"

fun utf8_run :: "(nat \<times> nat) list \<Rightarrow> nat list \<Rightarrow> bool" where
  "utf8_run ps [] = (ps = [])"
| "utf8_run ((lo, hi) # ps) (b # bs) = (lo \<le> b \<and> b \<le> hi \<and> utf8_run ps bs)"
| "utf8_run [] (b # bs) = (case utf8_lead b of None \<Rightarrow> False | Some ps \<Rightarrow> utf8_run ps bs)"

definition utf8_valid :: "string \<Rightarrow> bool" where
  "utf8_valid s = utf8_run [] (map of_char s)"

definition trim_quotes :: "string \<Rightarrow> string" where
  \<comment> \<open>\<open>strings.Trim\<close> with the double and the single quote\<close>
  "trim_quotes s =
     (let q = (\<lambda>c. c = CHR 0x22 \<or> c = CHR 0x27) in rev (dropWhile q (rev (dropWhile q s))))"

type_synonym charset_table = "string \<Rightarrow> (string \<Rightarrow> string option) option"

definition decode_charset :: "charset_table \<Rightarrow> string \<Rightarrow> string \<Rightarrow> string" where
  "decode_charset table buf charset =
     (let cs = to_lower (trim_quotes charset)
      in if cs = [] \<or> cs = ''utf-8'' \<or> cs = ''us-ascii'' then buf
         else if utf8_valid buf then buf
         else case table cs of
             None \<Rightarrow> buf
           | Some dec \<Rightarrow> (case dec buf of None \<Rightarrow> buf | Some t \<Rightarrow> t))"

definition extract_charset :: "string \<Rightarrow> string" where
  "extract_charset content_type =
     (case find (has_prefix ''charset='' \<circ> to_lower)
             (map trim_space (drop 1 (split_on (CHR '';'') content_type))) of
        None \<Rightarrow> []
      | Some part \<Rightarrow> trim_quotes (trim_prefix ''charset='' part))"

section \<open>Headers\<close>

record mail_header =
  hd_addresses :: "string \<Rightarrow> (string \<times> string) list option"  \<comment> \<open>names and addresses; \<open>None\<close>: an error\<close>
  hd_get :: "string \<Rightarrow> string"
  hd_subject :: string
  hd_message_id :: string
  hd_date :: gotime

definition decode_rfc2047 :: "(string \<Rightarrow> string option) \<Rightarrow> string \<Rightarrow> string" where
  "decode_rfc2047 decode_header v = (case decode_header v of None \<Rightarrow> v | Some t \<Rightarrow> t)"

definition format_address_list :: "(string \<Rightarrow> string option) \<Rightarrow> mail_header \<Rightarrow> string \<Rightarrow> string" where
  "format_address_list decode_header header key =
     (case hd_addresses header key of
        None \<Rightarrow> decode_rfc2047 decode_header (hd_get header key)
      | Some [] \<Rightarrow> decode_rfc2047 decode_header (hd_get header key)
      | Some addrs \<Rightarrow>
          join '', '' (map (\<lambda>(name, a). if name \<noteq> [] then name @ '' <'' @ a @ ''>'' else a) addrs))"

section \<open>Parts\<close>

datatype mime_part =
    Inline_Part string "string option" string bool  \<comment> \<open>type, charset, what was read, and whether to the end\<close>
  | Attachment_Part string string "string option"       \<comment> \<open>file name, type, body\<close>
  | Broken_Part                                          \<comment> \<open>\<open>NextPart\<close> fails\<close>

record mail_reader =
  mr_header :: mail_header
  mr_parts :: "mime_part list"

record parsed_attachment =
  pa_file_name :: string
  pa_content_type :: string
  pa_data :: string

record parsed_message =
  pr_message_id :: string
  pr_from_addr :: string
  pr_to_addr :: string
  pr_cc_addr :: string
  pr_subject :: string
  pr_text_body :: string
  pr_html_body :: string
  pr_date :: gotime
  pr_attachments :: "parsed_attachment list"

record mime_env =
  me_create_reader :: "string \<Rightarrow> mail_reader option"
  me_charsets :: charset_table
  me_decode_header :: "string \<Rightarrow> string option"

fun read_parts :: "charset_table \<Rightarrow> mime_part list \<Rightarrow> parsed_message \<Rightarrow> parsed_message" where
  "read_parts cs [] msg = msg"
| "read_parts cs (Broken_Part # ps) msg = msg"
| "read_parts cs (Inline_Part ct charset buf whole # ps) msg =
     (if \<not> whole then read_parts cs ps msg
      else
          (let decoded = decode_charset cs buf (case charset of None \<Rightarrow> [] | Some c \<Rightarrow> c)
           in read_parts cs ps
                (if has_prefix ''text/plain'' ct then msg\<lparr>pr_text_body := decoded\<rparr>
                 else if has_prefix ''text/html'' ct then msg\<lparr>pr_html_body := decoded\<rparr>
                 else msg)))"
| "read_parts cs (Attachment_Part name ct body # ps) msg =
     (case body of
        None \<Rightarrow> read_parts cs ps msg
      | Some buf \<Rightarrow>
          read_parts cs ps (msg\<lparr>pr_attachments := pr_attachments msg @
            [\<lparr>pa_file_name = (if name = [] then ''unnamed_attachment'' else name), pa_content_type = ct, pa_data = buf\<rparr>]\<rparr>))"

definition parse_message :: "mime_env \<Rightarrow> gotime \<Rightarrow> string \<Rightarrow> parsed_message option" where
  "parse_message env now data =
     (case me_create_reader env data of
        None \<Rightarrow> None
      | Some mr \<Rightarrow>
          (let h = mr_header mr;
               addr = format_address_list (me_decode_header env) h;
               msg0 = \<lparr>pr_message_id = hd_message_id h, pr_from_addr = addr ''From'', pr_to_addr = addr ''To'',
                       pr_cc_addr = addr ''Cc'', pr_subject = hd_subject h, pr_text_body = [], pr_html_body = [],
                       pr_date = (if hd_date h = 0 then now else hd_date h), pr_attachments = []\<rparr>;
               msg = read_parts (me_charsets env) (mr_parts mr) msg0
           in Some (if pr_text_body msg = [] \<and> pr_html_body msg = [] then msg\<lparr>pr_text_body := data\<rparr> else msg)))"

text \<open>Text that is valid UTF-8 is never converted, whatever the part claims.\<close>

lemma decode_charset_utf8: "utf8_valid buf \<Longrightarrow> decode_charset table buf charset = buf"
  by (simp add: decode_charset_def Let_def)

text \<open>A charset parameter written with a capital letter is found but not stripped of its name.\<close>

lemma extract_charset_case: "extract_charset ''text/plain;Charset=x'' = ''Charset=x''"
proof -
  have "trim_space ''Charset=x'' = ''Charset=x''" by (simp add: trim_space_graph ascii_graph_def)
  then show ?thesis
    by (simp add: extract_charset_def has_prefix_def to_lower_def lower_char_def trim_prefix_def trim_quotes_def Let_def char_of_eq_iff)
qed

lemma read_parts_keeps:
  "pr_message_id (read_parts cs ps msg) = pr_message_id msg \<and> pr_from_addr (read_parts cs ps msg) = pr_from_addr msg \<and>
   pr_to_addr (read_parts cs ps msg) = pr_to_addr msg \<and> pr_subject (read_parts cs ps msg) = pr_subject msg \<and>
   pr_date (read_parts cs ps msg) = pr_date msg"
  by (induction cs ps msg rule: read_parts.induct) (auto simp: Let_def split: option.splits)

end
