(* ===== verification/Outbound_Store.thy ===== *)
theory Outbound_Store
  imports DB_Models
begin

text \<open>
  \<open>internal/store/outbound_store.go\<close>: the delivery queue. \<open>Claim\<close> is the compare-and-set on
  which the dispatchers rely; the locale \<open>claim_queue\<close> states what they rely on.
\<close>

section \<open>Operations\<close>

definition insert_outbound :: "outbound_message \<Rightarrow> db \<Rightarrow> db" where
  "insert_outbound m s = s\<lparr>db_outbound := db_outbound s @ [m],
                           db_next := (db_next s)(TOutbound := Suc (db_next s TOutbound))\<rparr>"

definition outbound_create :: "outbound_message \<Rightarrow> db \<Rightarrow> outbound_message result \<times> db" where
  "outbound_create m =
     db_stmt (\<lambda>s. let m' = m\<lparr>o_id := db_next s TOutbound\<rparr> in (Inr m', insert_outbound m' s))"

definition outbound_get_by_id :: "nat \<Rightarrow> db \<Rightarrow> outbound_message result \<times> db" where
  "outbound_get_by_id i = db_first (\<lambda>s. find (\<lambda>m. o_id m = i) (db_outbound s))"

definition is_due :: "gotime \<Rightarrow> outbound_message \<Rightarrow> bool" where
  "is_due now m \<longleftrightarrow> o_status m \<in> {Pending, Deferred} \<and> o_next_attempt_at m \<le> now"

definition outbound_list_due :: "gotime \<Rightarrow> int \<Rightarrow> db \<Rightarrow> outbound_message list result \<times> db" where
  "outbound_list_due now limit =
     db_query (\<lambda>s. let due = sort_key o_next_attempt_at (filter (is_due now) (db_outbound s))
                   in if limit < 0 then due else take (nat limit) due)"

definition outbound_list ::
  "int \<Rightarrow> int \<Rightarrow> outbound_status option \<Rightarrow> db \<Rightarrow> (outbound_message list \<times> int) result \<times> db" where
  \<comment> \<open>newest first; \<open>None\<close> stands for the empty status filter\<close>
  "outbound_list page sz st s =
     (let rows = (\<lambda>s. filter (\<lambda>m. st = None \<or> st = Some (o_status m)) (db_outbound s))
      in case db_query (\<lambda>s. int (length (rows s))) s of
           (Inl e, s1) \<Rightarrow> (Inl e, s1)
         | (Inr tot, s1) \<Rightarrow>
             (case db_query (\<lambda>s. paginate page sz (rev (rows s))) s1 of
                (Inl e, s2) \<Rightarrow> (Inl e, s2)
              | (Inr ms, s2) \<Rightarrow> (Inr (ms, tot), s2)))"

definition outbound_update :: "outbound_message \<Rightarrow> db \<Rightarrow> unit result \<times> db" where
  "outbound_update m = db_exec (\<lambda>s. s\<lparr>db_outbound := save_row o_id m (db_outbound s)\<rparr>)"

definition claimable :: "nat \<Rightarrow> outbound_message \<Rightarrow> bool" where
  "claimable i m \<longleftrightarrow> o_id m = i \<and> o_status m \<in> {Pending, Deferred}"

definition set_sending :: "nat \<Rightarrow> db \<Rightarrow> db" where
  "set_sending i s =
     s\<lparr>db_outbound := map (\<lambda>m. if claimable i m then m\<lparr>o_status := Sending\<rparr> else m) (db_outbound s)\<rparr>"

definition outbound_claim :: "nat \<Rightarrow> db \<Rightarrow> bool result \<times> db" where
  "outbound_claim i =
     db_stmt (\<lambda>s. (Inr (length (filter (claimable i) (db_outbound s)) = 1), set_sending i s))"

definition outbound_delete :: "nat \<Rightarrow> db \<Rightarrow> unit result \<times> db" where
  "outbound_delete i = db_exec (\<lambda>s. s\<lparr>db_outbound := filter (\<lambda>m. o_id m \<noteq> i) (db_outbound s)\<rparr>)"

definition outbound_count_by_status :: "outbound_status \<Rightarrow> db \<Rightarrow> int result \<times> db" where
  "outbound_count_by_status st =
     db_query (\<lambda>s. int (length (filter (\<lambda>m. o_status m = st) (db_outbound s))))"

section \<open>Statuses in the order of a delivery\<close>

instantiation outbound_status :: linorder
begin

fun status_rank :: "outbound_status \<Rightarrow> nat" where
  "status_rank Pending = 0"
| "status_rank Sending = 1"
| "status_rank Deferred = 2"
| "status_rank Sent = 3"
| "status_rank Failed = 4"
| "status_rank Canceled = 5"

definition less_eq_outbound_status :: "outbound_status \<Rightarrow> outbound_status \<Rightarrow> bool" where
  "less_eq_outbound_status a b \<longleftrightarrow> status_rank a \<le> status_rank b"

definition less_outbound_status :: "outbound_status \<Rightarrow> outbound_status \<Rightarrow> bool" where
  "less_outbound_status a b \<longleftrightarrow> status_rank a < status_rank b"

instance
proof
  fix x y z :: outbound_status
  show "(x < y) = (x \<le> y \<and> \<not> y \<le> x)"
    by (auto simp: less_eq_outbound_status_def less_outbound_status_def)
  show "x \<le> x" by (simp add: less_eq_outbound_status_def)
  show "x \<le> y \<Longrightarrow> y \<le> z \<Longrightarrow> x \<le> z" by (simp add: less_eq_outbound_status_def)
  show "x \<le> y \<Longrightarrow> y \<le> x \<Longrightarrow> x = y" by (cases x; cases y) (simp_all add: less_eq_outbound_status_def)
  show "x \<le> y \<or> y \<le> x" by (auto simp: less_eq_outbound_status_def)
qed

end

text \<open>The statuses in which the queue is done with a message: those above \<open>Deferred\<close>.\<close>

definition is_final :: "outbound_status \<Rightarrow> bool" where
  "is_final st \<longleftrightarrow> Deferred < st"

lemma is_final_simps [simp]:
  "\<not> is_final Pending" "\<not> is_final Sending" "\<not> is_final Deferred"
  "is_final Sent" "is_final Failed" "is_final Canceled"
  by (simp_all add: is_final_def less_outbound_status_def)

lemma is_due_not_final: "is_due now m \<Longrightarrow> \<not> is_final (o_status m)"
  by (auto simp: is_due_def)

section \<open>Laws of the queue\<close>

definition wf_outbound :: "db \<Rightarrow> bool" where
  "wf_outbound s \<longleftrightarrow> wf_rows o_id (db_next s TOutbound) (db_outbound s)"

definition outbound_row :: "nat \<Rightarrow> db \<Rightarrow> outbound_message option" where
  "outbound_row i s = find (\<lambda>m. o_id m = i) (db_outbound s)"

definition status_of :: "nat \<Rightarrow> db \<Rightarrow> outbound_status option" where
  "status_of i s = map_option o_status (outbound_row i s)"

lemma wf_outbound_db: "wf_db s \<Longrightarrow> wf_outbound s"
  by (simp add: wf_db_def wf_outbound_def)

lemma wf_outbound_tick [simp]: "wf_outbound (tick s) = wf_outbound s"
  by (simp add: wf_outbound_def)

lemma outbound_row_tick [simp]: "outbound_row i (tick s) = outbound_row i s"
  by (simp add: outbound_row_def)

lemma status_of_tick [simp]: "status_of i (tick s) = status_of i s"
  by (simp add: status_of_def)

lemma outbound_row_in: "outbound_row i s = Some m \<Longrightarrow> m \<in> set (db_outbound s) \<and> o_id m = i"
  unfolding outbound_row_def by (rule find_Some_iff)

lemma outbound_row_wf: "wf_outbound s \<Longrightarrow> m \<in> set (db_outbound s) \<Longrightarrow> outbound_row (o_id m) s = Some m"
  unfolding wf_outbound_def outbound_row_def by (rule wf_rows_find)

lemma find_map_id:
  "(\<And>m. o_id (f m) = o_id m) \<Longrightarrow> find (\<lambda>m. o_id m = i) (map f ms) = map_option f (find (\<lambda>m. o_id m = i) ms)"
  by (induction ms) auto

lemma wf_set_sending: "wf_outbound s \<Longrightarrow> wf_outbound (set_sending i s)"
  by (simp add: wf_outbound_def set_sending_def wf_rows_map)

lemma row_set_sending:
  "outbound_row j (set_sending i s) =
     map_option (\<lambda>m. if claimable i m then m\<lparr>o_status := Sending\<rparr> else m) (outbound_row j s)"
  unfolding outbound_row_def set_sending_def by (simp add: find_map_id)

lemma status_set_sending:
  "status_of j (set_sending i s) =
     (if j = i \<and> status_of i s \<in> {Some Pending, Some Deferred} then Some Sending else status_of j s)"
proof (cases "outbound_row j s")
  case None
  then show ?thesis by (auto simp: status_of_def row_set_sending)
next
  case (Some m)
  with outbound_row_in [OF Some] show ?thesis
    by (auto simp: status_of_def row_set_sending claimable_def)
qed

lemma claim_count:
  assumes "wf_outbound s"
  shows "(length (filter (claimable i) (db_outbound s)) = 1) = (status_of i s \<in> {Some Pending, Some Deferred})"
proof (cases "outbound_row i s")
  case None
  then have "filter (claimable i) (db_outbound s) = []"
    by (auto simp: outbound_row_def find_None_iff_all filter_empty_conv claimable_def)
  with None show ?thesis by (simp add: status_of_def)
next
  case (Some m)
  note in_m = outbound_row_in [OF Some]
  have u: "x = m" if "x \<in> set (db_outbound s)" "o_id x = i" for x
    using assms in_m that by (auto simp: wf_outbound_def dest: wf_rows_unique)
  have d: "distinct (db_outbound s)"
    using assms by (simp add: wf_outbound_def wf_rows_def distinct_map)
  have "filter (claimable i) (db_outbound s) = (if claimable i m then [m] else [])"
  proof -
    have "set (filter (claimable i) (db_outbound s)) = (if claimable i m then {m} else {})"
      using u in_m by (auto simp: claimable_def)
    moreover have "distinct (filter (claimable i) (db_outbound s))" using d by simp
    moreover have "xs = [m]" if "set xs = {m}" "distinct xs" for xs
      using that by (cases xs; cases "tl xs") auto
    ultimately show ?thesis by (auto split: if_splits)
  qed
  with Some in_m show ?thesis by (auto simp: status_of_def claimable_def)
qed

lemma outbound_claim_result:
  assumes "wf_outbound s" and "outbound_claim i s = (r, s')"
  shows "wf_outbound s'"
    and "r = Inr True \<Longrightarrow> status_of i s \<in> {Some Pending, Some Deferred} \<and> status_of i s' = Some Sending"
    and "r \<noteq> Inr True \<Longrightarrow> status_of i s' = status_of i s"
    and "j \<noteq> i \<Longrightarrow> outbound_row j s' = outbound_row j s"
    and "status_of i s = Some Sending \<Longrightarrow> r \<noteq> Inr True"
proof -
  have cs: "s' = tick s \<and> r = Inl ErrDb \<or>
      s' = set_sending i (tick s) \<and> r = Inr (status_of i s \<in> {Some Pending, Some Deferred})"
    using assms claim_count [of "tick s" i]
    by (auto simp: outbound_claim_def db_stmt_def split: if_splits)
  then show "wf_outbound s'" using assms(1) wf_set_sending [of "tick s" i] by auto
  show "r = Inr True \<Longrightarrow> status_of i s \<in> {Some Pending, Some Deferred} \<and> status_of i s' = Some Sending"
    using cs by (auto simp: status_set_sending)
  show "r \<noteq> Inr True \<Longrightarrow> status_of i s' = status_of i s" using cs by (auto simp: status_set_sending split: if_splits)
  show "j \<noteq> i \<Longrightarrow> outbound_row j s' = outbound_row j s"
    using cs outbound_row_in [of j s]
    by (cases "outbound_row j s") (auto simp: row_set_sending claimable_def)
  show "status_of i s = Some Sending \<Longrightarrow> r \<noteq> Inr True" using cs by auto
qed

lemma outbound_update_result:
  assumes "wf_outbound s" and "outbound_update m s = (r, s')" and "0 < o_id m" and "o_id m < db_next s TOutbound"
  shows "wf_outbound s'"
    and "outbound_row j s' = (if j = o_id m \<and> r = Inr () then Some m else outbound_row j s)"
    and "db_next s' = db_next s" and "db_messages s' = db_messages s" and "db_users s' = db_users s"
    and "db_domains s' = db_domains s" and "r = (if fault s then Inl ErrDb else Inr ())"
    and "db_faults s' = tl (db_faults s)"
proof -
  have cs: "s' = tick s \<and> r = Inl ErrDb \<and> fault s \<or>
      s' = (tick s)\<lparr>db_outbound := save_row o_id m (db_outbound s)\<rparr> \<and> r = Inr () \<and> \<not> fault s"
    using assms(2) by (auto simp: outbound_update_def db_exec_def db_stmt_def split: if_splits)
  from assms have "wf_rows o_id (db_next s TOutbound) (save_row o_id m (db_outbound s))"
    unfolding wf_outbound_def by (intro wf_save_row)
  with cs assms(1) show "wf_outbound s'" by (auto simp: wf_outbound_def)
  from cs show "outbound_row j s' = (if j = o_id m \<and> r = Inr () then Some m else outbound_row j s)"
    by (elim disjE) (simp_all add: outbound_row_def find_save_row)
  from cs show "db_next s' = db_next s" "db_messages s' = db_messages s" "db_users s' = db_users s"
    "db_domains s' = db_domains s" "r = (if fault s then Inl ErrDb else Inr ())"
    "db_faults s' = tl (db_faults s)" by auto
qed

section \<open>The queue as an interface\<close>

text \<open>
  What a dispatcher relies on: a claim succeeds only on an item that is open, closes it, and
  touches no other item. Whoever keeps a list of the ids he has claimed and not given back then
  never holds an id twice, however many dispatchers claim.
\<close>

locale claim_queue =
  fixes inv :: "'s \<Rightarrow> bool" and open_item :: "nat \<Rightarrow> 's \<Rightarrow> bool" and claim :: "nat \<Rightarrow> 's \<Rightarrow> bool \<times> 's"
  assumes claim_inv: "inv s \<Longrightarrow> inv (snd (claim i s))"
    and claim_open: "inv s \<Longrightarrow> fst (claim i s) \<Longrightarrow> open_item i s"
    and claim_closes: "inv s \<Longrightarrow> fst (claim i s) \<Longrightarrow> \<not> open_item i (snd (claim i s))"
    and claim_keeps: "inv s \<Longrightarrow> open_item j (snd (claim i s)) \<Longrightarrow> open_item j s"
begin

fun claim_all :: "nat list \<Rightarrow> 's \<Rightarrow> nat list \<times> 's" where
  "claim_all [] s = ([], s)"
| "claim_all (i # is) s =
     (let (ok, s1) = claim i s; (got, s2) = claim_all is s1 in (if ok then i # got else got, s2))"

lemma claim_all_spec:
  assumes "inv s" and "claim_all is s = (got, s')"
  shows "distinct got" and "\<forall>i \<in> set got. open_item i s \<and> \<not> open_item i s'" and "inv s'"
    and "\<forall>j. open_item j s' \<longrightarrow> open_item j s" and "set got \<subseteq> set is"
proof -
  have "distinct got \<and> (\<forall>i \<in> set got. open_item i s \<and> \<not> open_item i s') \<and> inv s' \<and>
      (\<forall>j. open_item j s' \<longrightarrow> open_item j s) \<and> set got \<subseteq> set is"
    using assms
  proof (induction "is" arbitrary: s got)
    case Nil
    then show ?case by simp
  next
    case (Cons i "is")
    obtain ok s1 where c: "claim i s = (ok, s1)" by (cases "claim i s")
    obtain got1 where rest: "claim_all is s1 = (got1, s')" and got: "got = (if ok then i # got1 else got1)"
      using Cons.prems(2) by (auto simp: c split: prod.splits)
    from claim_inv [OF Cons.prems(1), of i] c have "inv s1" by simp
    note IH = Cons.IH [OF this rest]
    have "ok \<Longrightarrow> open_item i s \<and> \<not> open_item i s1"
      using claim_open [OF Cons.prems(1), of i] claim_closes [OF Cons.prems(1), of i] c by simp
    moreover have "open_item j s1 \<Longrightarrow> open_item j s" for j
      using claim_keeps [OF Cons.prems(1), of j i] c by simp
    ultimately show ?case using IH by (auto simp: got)
  qed
  then show "distinct got" and "\<forall>i \<in> set got. open_item i s \<and> \<not> open_item i s'" and "inv s'"
    and "\<forall>j. open_item j s' \<longrightarrow> open_item j s" and "set got \<subseteq> set is" by blast+
qed

text \<open>Two dispatchers, one after the other or interleaved as two parts of one run, share nothing.\<close>

lemma claim_all_disjoint:
  assumes "inv s" and "claim_all is s = (got, s1)" and "claim_all js s1 = (got', s2)"
  shows "set got \<inter> set got' = {}"
  using claim_all_spec(2) [OF assms(1,2)] claim_all_spec(2) [OF claim_all_spec(3) [OF assms(1,2)] assms(3)]
  by blast

end

definition is_open :: "nat \<Rightarrow> db \<Rightarrow> bool" where
  "is_open i s \<longleftrightarrow> status_of i s \<in> {Some Pending, Some Deferred}"

definition try_claim :: "nat \<Rightarrow> db \<Rightarrow> bool \<times> db" where
  \<comment> \<open>how the dispatcher uses \<open>Claim\<close>: an error counts as not claimed\<close>
  "try_claim i s = (case outbound_claim i s of (r, s1) \<Rightarrow> (r = Inr True, s1))"

lemma is_open_tick [simp]: "is_open i (tick s) = is_open i s"
  by (simp add: is_open_def)

lemma try_claim_laws:
  assumes "wf_outbound s"
  shows "wf_outbound (snd (try_claim i s))"
    and "fst (try_claim i s) \<Longrightarrow> is_open i s" and "fst (try_claim i s) \<Longrightarrow> \<not> is_open i (snd (try_claim i s))"
    and "is_open j (snd (try_claim i s)) \<Longrightarrow> is_open j s"
proof -
  obtain r s1 where r: "outbound_claim i s = (r, s1)" by (cases "outbound_claim i s")
  note res = outbound_claim_result [OF assms r]
  show "wf_outbound (snd (try_claim i s))" using res(1) by (simp add: try_claim_def r)
  show "fst (try_claim i s) \<Longrightarrow> is_open i s" using res(2) by (simp add: try_claim_def r is_open_def)
  show "fst (try_claim i s) \<Longrightarrow> \<not> is_open i (snd (try_claim i s))"
    using res(2) by (auto simp: try_claim_def r is_open_def)
  have "j \<noteq> i \<Longrightarrow> status_of j s1 = status_of j s" using res(4) [of j] by (simp add: status_of_def)
  then show "is_open j (snd (try_claim i s)) \<Longrightarrow> is_open j s"
    using res(2,3) by (cases "j = i"; cases "r = Inr True") (simp_all add: try_claim_def r is_open_def)
qed

interpretation outq: claim_queue wf_outbound is_open try_claim
  by unfold_locales (auto intro: try_claim_laws dest: try_claim_laws)

end
