(* ===== verification/Outbound_Manager.thy ===== *)
theory Outbound_Manager
  imports Outbound_Store Account_Store Mail_Store Config
begin

text \<open>
  \<open>internal/outbound/manager.go\<close>: enqueueing with its rate limits, the dispatcher, one delivery
  attempt with its retry or bounce, and the administrator's retry and cancel. The delivery itself
  (\<open>Mailer.Deliver\<close>, see theory \<open>Mailer\<close>) is the field \<open>deliver\<close> of the source and so an
  argument here, as are the clock, the UUID, the address parser and the DKIM signer.

  The goroutines (dispatchers, workers, the administrator's requests) are the step relation
  \<open>dstep\<close>: any interleaving of their database statements.
\<close>

section \<open>Delivery errors\<close>

datatype go_error =
    Delivery_Error bool int string   \<comment> \<open>permanent, code, message\<close>
  | Wrapped string go_error          \<comment> \<open>\<open>fmt.Errorf("...%w", err)\<close>\<close>
  | Other_Error string

fun error_text :: "go_error \<Rightarrow> string" where
  "error_text (Delivery_Error perm code msg) = (if code > 0 then show_int code @ '' '' @ msg else msg)"
| "error_text (Wrapped t e) = t @ error_text e"
| "error_text (Other_Error t) = t"

fun as_delivery_error :: "go_error \<Rightarrow> (bool \<times> int \<times> string) option" where
  "as_delivery_error (Delivery_Error perm code msg) = Some (perm, code, msg)"
| "as_delivery_error (Wrapped t e) = as_delivery_error e"
| "as_delivery_error (Other_Error t) = None"

definition is_permanent :: "go_error \<Rightarrow> bool" where
  "is_permanent e = (case as_delivery_error e of None \<Rightarrow> False | Some (perm, _, _) \<Rightarrow> perm)"

section \<open>Rate limits\<close>

record user_window =
  w_minute_start :: gotime
  w_minute_count :: int
  w_day_start :: gotime
  w_day_count :: int

datatype enqueue_error =
    Not_Enabled | Bad_Recipient string | Local_Recipient string
  | Minute_Limit int | Day_Limit int | Store_Failed err

definition check_rate_limit ::
  "outbound_config \<Rightarrow> gotime \<Rightarrow> nat \<Rightarrow> (nat \<Rightarrow> user_window option) \<Rightarrow>
   enqueue_error option \<times> (nat \<Rightarrow> user_window option)" where
  "check_rate_limit cfg now uid lim =
     (let fresh = \<lparr>w_minute_start = now, w_minute_count = 0, w_day_start = now, w_day_count = 0\<rparr>;
          w = (case lim uid of
                 None \<Rightarrow> fresh
               | Some w \<Rightarrow>
                   if now - w_day_start w \<ge> 24 * hour then fresh
                   else if now - w_minute_start w \<ge> minute
                   then w\<lparr>w_minute_start := now, w_minute_count := 0\<rparr>
                   else w)
      in if oc_max_per_min cfg > 0 \<and> w_minute_count w \<ge> oc_max_per_min cfg
         then (Some (Minute_Limit (oc_max_per_min cfg)), lim(uid \<mapsto> w))
         else if oc_max_per_day cfg > 0 \<and> w_day_count w \<ge> oc_max_per_day cfg
         then (Some (Day_Limit (oc_max_per_day cfg)), lim(uid \<mapsto> w))
         else (None, lim(uid \<mapsto> w\<lparr>w_minute_count := w_minute_count w + 1, w_day_count := w_day_count w + 1\<rparr>)))"

section \<open>Enqueueing\<close>

definition manager_enabled :: "outbound_config \<Rightarrow> bool" where
  "manager_enabled cfg \<longleftrightarrow> oc_max_per_day cfg > 0"

definition domain_part :: "string \<Rightarrow> string option" where
  \<comment> \<open>what follows the last \<open>@\<close>, unless there is none or it is the last character\<close>
  "domain_part a =
     (case last_index_byte CHR ''@'' a of
        None \<Rightarrow> None
      | Some i \<Rightarrow> if i = length a - 1 then None else Some (drop (Suc i) a))"

definition sign_dkim ::
  "(string \<Rightarrow> 'blk option) \<Rightarrow> ('blk \<Rightarrow> 'key option) \<Rightarrow> (string \<Rightarrow> string \<Rightarrow> string \<Rightarrow> 'key \<Rightarrow> string option) \<Rightarrow>
   string \<Rightarrow> string \<Rightarrow> string \<Rightarrow> string \<Rightarrow> string option" where
  "sign_dkim pem_decode parse_signer dkim raw domain_name selector private_key =
     (if private_key = [] then Some raw
      else if domain_name = [] then None
      else
        (let sel = (if selector = [] then ''default'' else selector)
         in case pem_decode private_key of
              None \<Rightarrow> None
            | Some block \<Rightarrow>
                (case parse_signer block of
                   None \<Rightarrow> None
                 | Some key \<Rightarrow> dkim raw domain_name sel key)))"

text \<open>The signer, once its libraries are fixed: message, domain, selector, private key.\<close>

type_synonym signer = "string \<Rightarrow> string \<Rightarrow> string \<Rightarrow> string \<Rightarrow> string option"

definition sign_for_sender :: "signer \<Rightarrow> string \<Rightarrow> string \<Rightarrow> db \<Rightarrow> string option \<times> db" where
  "sign_for_sender sign from_addr raw s =
     (case domain_part from_addr of
        None \<Rightarrow> (None, s)
      | Some d \<Rightarrow>
          (case domains_get_by_name (to_lower d) s of
             (Inl _, s1) \<Rightarrow> (Some raw, s1)
           | (Inr dm, s1) \<Rightarrow> (sign raw (d_name dm) (d_dkim_selector dm) (d_dkim_private_key dm), s1)))"

definition user_id_or_zero :: "user option \<Rightarrow> nat" where
  "user_id_or_zero u = (case u of None \<Rightarrow> 0 | Some u \<Rightarrow> u_id u)"

definition enqueue ::
  "outbound_config \<Rightarrow> (string \<Rightarrow> string option) \<Rightarrow> signer \<Rightarrow> gotime \<Rightarrow> string \<Rightarrow> user option \<Rightarrow>
   string \<Rightarrow> string \<Rightarrow> string \<Rightarrow> (nat \<Rightarrow> user_window option) \<times> db \<Rightarrow>
   (enqueue_error + outbound_message) \<times> (nat \<Rightarrow> user_window option) \<times> db" where
  "enqueue cfg parse_addr sign now uuid sender from_addr to0 raw st =
     (let (lim, s) = st
      in if \<not> manager_enabled cfg then (Inl Not_Enabled, lim, s)
         else
           (case parse_addr (trim_space to0) of
              None \<Rightarrow> (Inl (Bad_Recipient (trim_space to0)), lim, s)
            | Some rcpt \<Rightarrow>
                (case domain_part rcpt of
                   None \<Rightarrow> (Inl (Bad_Recipient rcpt), lim, s)
                 | Some d \<Rightarrow>
                     (case users_get_by_email rcpt s of
                        (Inr _, s1) \<Rightarrow> (Inl (Local_Recipient rcpt), lim, s1)
                      | (Inl _, s1) \<Rightarrow>
                          (let (limit_err, lim1) =
                             (case sender of
                                None \<Rightarrow> (None, lim)
                              | Some u \<Rightarrow> check_rate_limit cfg now (u_id u) lim)
                           in case limit_err of
                                Some e \<Rightarrow> (Inl e, lim1, s1)
                              | None \<Rightarrow>
                                  (let (signed0, s2) = sign_for_sender sign from_addr raw s1;
                                       signed = (case signed0 of None \<Rightarrow> raw | Some x \<Rightarrow> x);
                                       item = \<lparr>o_id = 0, o_message_id = ''<'' @ uuid @ ''@outbound>'',
                                         o_user_id = user_id_or_zero sender, o_from_addr = from_addr,
                                         o_to_addr = rcpt, o_recipient_dom = to_lower d,
                                         o_raw_data = signed, o_status = Pending, o_attempts = 0,
                                         o_next_attempt_at = now, o_last_response = [],
                                         o_last_error = [], o_completed_at = None\<rparr>
                                   in case outbound_create item s2 of
                                        (Inl e, s3) \<Rightarrow> (Inl (Store_Failed e), lim1, s3)
                                      | (Inr m, s3) \<Rightarrow> (Inr m, lim1, s3)))))))"

section \<open>Dispatching\<close>

definition dispatch_batch_size :: "outbound_config \<Rightarrow> int" where
  "dispatch_batch_size cfg = (if oc_batch_size cfg \<le> 0 then 50 else oc_batch_size cfg)"

fun claim_items :: "outbound_message list \<Rightarrow> db \<Rightarrow> outbound_message list \<times> db" where
  \<comment> \<open>the items handed to the workers\<close>
  "claim_items [] s = ([], s)"
| "claim_items (m # ms) s =
     (case outbound_claim (o_id m) s of
        (Inr True, s1) \<Rightarrow> (case claim_items ms s1 of (js, s2) \<Rightarrow> (m\<lparr>o_status := Sending\<rparr> # js, s2))
      | (_, s1) \<Rightarrow> claim_items ms s1)"

definition process_due :: "outbound_config \<Rightarrow> gotime \<Rightarrow> db \<Rightarrow> outbound_message list \<times> db" where
  "process_due cfg now s =
     (case outbound_list_due now (dispatch_batch_size cfg) s of
        (Inl _, s1) \<Rightarrow> ([], s1)
      | (Inr items, s1) \<Rightarrow> claim_items items s1)"

text \<open>The per-domain semaphores: how many connections each key holds; \<open>None\<close> when the caller must wait.\<close>

definition acquire_domain :: "outbound_config \<Rightarrow> string \<Rightarrow> (string \<Rightarrow> nat) \<Rightarrow> (string \<Rightarrow> nat) option" where
  "acquire_domain cfg key sems =
     (if oc_max_concurrent_per_domain cfg \<le> 0 then Some sems
      else if int (sems key) < oc_max_concurrent_per_domain cfg then Some (sems(key := Suc (sems key)))
      else None)"

definition release_domain :: "outbound_config \<Rightarrow> string \<Rightarrow> (string \<Rightarrow> nat) \<Rightarrow> string \<Rightarrow> nat" where
  "release_domain cfg key sems =
     (if oc_max_concurrent_per_domain cfg \<le> 0 then sems else sems(key := sems key - 1))"

definition deliver_key :: "outbound_config \<Rightarrow> string \<Rightarrow> string" where
  "deliver_key cfg rcpt =
     (if oc_relay_host cfg \<noteq> [] then ''relay''
      else case domain_part rcpt of None \<Rightarrow> [] | Some d \<Rightarrow> to_lower d)"

section \<open>One delivery attempt\<close>

definition backoff :: "int \<Rightarrow> int \<Rightarrow> duration" where
  \<comment> \<open>after \<open>attempts\<close> attempts: an int64 shifted left, capped at a day\<close>
  "backoff base_min attempts =
     (let b = int64 (int64 (base_min * minute) * 2 ^ nat (attempts - 1))
      in if b > 24 * hour then 24 * hour else b)"

definition bounce_text :: "(gotime \<Rightarrow> string) \<Rightarrow> outbound_message \<Rightarrow> string \<Rightarrow> gotime \<Rightarrow> string" where
  \<comment> \<open>the notice, in Chinese; \<open>fmt_time\<close> formats the local time\<close>
  "bounce_text fmt_time item reason now =
     utf8 [232, 191, 153, 230, 152, 175, 228, 184, 128, 229, 176, 129, 231, 179, 187, 231, 187, 159, 233, 128, 128, 228, 191, 161, 233, 128, 154, 231, 159, 165, 227, 128, 130]
     @ crlf @ crlf
     @ utf8 [230, 130, 168, 231, 154, 132, 233, 130, 174, 228, 187, 182, 230, 156, 170, 232, 131, 189, 230, 138, 149, 233, 128, 146, 229, 136, 176, 228, 187, 165, 228, 184, 139, 230, 148, 182, 228, 187, 182, 228, 186, 186, 239, 188, 154]
     @ crlf @ crlf
     @ ''  '' @ utf8 [230, 148, 182, 228, 187, 182, 228, 186, 186, 239, 188, 154] @ o_to_addr item @ crlf
     @ ''  '' @ utf8 [229, 164, 177, 232, 180, 165, 229, 142, 159, 229, 155, 160, 239, 188, 154] @ reason @ crlf
     @ ''  '' @ utf8 [230, 138, 149, 233, 128, 146, 230, 151, 182, 233, 151, 180, 239, 188, 154] @ fmt_time now @ crlf
     @ ''  '' @ utf8 [229, 176, 157, 232, 175, 149, 230, 172, 161, 230, 149, 176, 239, 188, 154] @ show_int (o_attempts item)
     @ crlf @ crlf
     @ utf8 [229, 166, 130, 230, 158, 156, 230, 148, 182, 228, 187, 182, 228, 186, 186, 229, 156, 176, 229, 157, 128, 230, 151, 160, 232, 175, 175, 239, 188, 140, 232, 175, 183, 231, 168, 141, 229, 144, 142, 233, 135, 141, 232, 175, 149, 239, 188, 155, 232, 191, 158, 231, 187, 173, 229, 164, 177, 232, 180, 165, 229, 143, 175, 232, 131, 189, 232, 161, 168, 231, 164, 186, 230, 148, 182, 228, 187, 182, 229, 156, 176, 229, 157, 128, 228, 184, 141, 229, 173, 152, 229, 156, 168, 230, 136, 150, 229, 175, 185, 230, 150, 185, 230, 156, 141, 229, 138, 161, 229, 153, 168, 230, 139, 146, 230, 148, 182, 227, 128, 130]
     @ crlf"

definition bounce_message ::
  "(gotime \<Rightarrow> string) \<Rightarrow> string \<Rightarrow> nat \<Rightarrow> outbound_message \<Rightarrow> string \<Rightarrow> gotime \<Rightarrow> message" where
  "bounce_message fmt_time hostname uid item reason now =
     \<lparr>m_id = 0, m_user_id = uid,
      m_message_id = ''<bounce-'' @ show_nat (o_id item) @ ''@'' @ hostname @ ''>'',
      m_folder = ''INBOX'',
      m_from_addr = ''Mail Delivery System <postmaster@'' @ hostname @ ''>'',
      m_to_addr = o_from_addr item, m_cc_addr = [],
      m_subject = utf8 [233, 130, 174, 228, 187, 182, 230, 138, 149, 233, 128, 146, 229, 164, 177, 232, 180, 165] @ '': '' @ o_to_addr item,
      m_text_body = bounce_text fmt_time item reason now, m_html_body = [], m_raw_data = [],
      m_is_read = False, m_is_flagged = False, m_is_deleted = False, m_date = now, m_created_at = 0\<rparr>"

definition bounce ::
  "(gotime \<Rightarrow> string) \<Rightarrow> string \<Rightarrow> gotime \<Rightarrow> outbound_message \<Rightarrow> go_error \<Rightarrow> db \<Rightarrow> db" where
  "bounce fmt_time hostname now item e s =
     (case users_get_by_email (o_from_addr item) s of
        (Inl _, s1) \<Rightarrow> s1
      | (Inr sender, s1) \<Rightarrow>
          snd (mails_create now (bounce_message fmt_time hostname (u_id sender) item (error_text e) now) s1))"

definition deliver_one ::
  "outbound_config \<Rightarrow> (gotime \<Rightarrow> string) \<Rightarrow> string \<Rightarrow> (string \<Rightarrow> string \<Rightarrow> string \<Rightarrow> go_error + string) \<Rightarrow>
   gotime \<Rightarrow> outbound_message \<Rightarrow> db \<Rightarrow> outbound_message \<times> db" where
  \<comment> \<open>the item as left in memory, and the stores; one reading of the clock\<close>
  "deliver_one cfg fmt_time hostname deliver now item0 s =
     (let item1 = item0\<lparr>o_attempts := o_attempts item0 + 1\<rparr>
      in case deliver (o_from_addr item0) (o_to_addr item0) (o_raw_data item0) of
           Inr resp \<Rightarrow>
             (let item = item1\<lparr>o_status := Sent, o_last_response := resp, o_last_error := [],
                               o_completed_at := Some now\<rparr>
              in (item, snd (outbound_update item s)))
         | Inl e \<Rightarrow>
             (let item2 = item1\<lparr>o_last_response := [], o_last_error := error_text e\<rparr>
              in if is_permanent e \<or> o_attempts item2 \<ge> oc_max_attempts cfg
                 then (let item = item2\<lparr>o_status := Failed, o_completed_at := Some now\<rparr>
                       in case outbound_update item s of
                            (Inl _, s1) \<Rightarrow> (item, s1)
                          | (Inr _, s1) \<Rightarrow> (item, bounce fmt_time hostname now item e s1))
                 else (let item = item2\<lparr>o_status := Deferred,
                                        o_next_attempt_at := now + backoff (oc_retry_base_min cfg) (o_attempts item2)\<rparr>
                       in (item, snd (outbound_update item s)))))"

section \<open>The administrator\<close>

definition manager_retry :: "gotime \<Rightarrow> nat \<Rightarrow> db \<Rightarrow> unit result \<times> db" where
  "manager_retry now i s =
     (case outbound_get_by_id i s of
        (Inl e, s1) \<Rightarrow> (Inl e, s1)
      | (Inr item, s1) \<Rightarrow>
          outbound_update (item\<lparr>o_status := Pending, o_attempts := 0, o_last_error := [],
            o_last_response := [], o_completed_at := None, o_next_attempt_at := now\<rparr>) s1)"

definition manager_cancel :: "gotime \<Rightarrow> nat \<Rightarrow> db \<Rightarrow> unit result \<times> db" where
  "manager_cancel now i s =
     (case outbound_get_by_id i s of
        (Inl e, s1) \<Rightarrow> (Inl e, s1)
      | (Inr item, s1) \<Rightarrow>
          if o_status item = Sent then (Inl (ErrText ''already sent''), s1)
          else outbound_update (item\<lparr>o_status := Canceled,
                 o_last_error := utf8 [231, 174, 161, 231, 144, 134, 229, 145, 152, 229, 143, 150, 230, 182, 136],
                 o_completed_at := Some now\<rparr>) s1)"

section \<open>Rate limit laws\<close>

fun limit_run :: "outbound_config \<Rightarrow> nat \<Rightarrow> gotime list \<Rightarrow> (nat \<Rightarrow> user_window option) \<Rightarrow>
    gotime list \<times> (nat \<Rightarrow> user_window option)" where
  \<comment> \<open>requests of one user at the given times; the times of those that were let through\<close>
  "limit_run cfg uid [] lim = ([], lim)"
| "limit_run cfg uid (t # ts) lim =
     (case check_rate_limit cfg t uid lim of
        (None, lim1) \<Rightarrow> (case limit_run cfg uid ts lim1 of (acc, lim2) \<Rightarrow> (t # acc, lim2))
      | (Some _, lim1) \<Rightarrow> limit_run cfg uid ts lim1)"

lemma check_rate_limit_other: "v \<noteq> uid \<Longrightarrow> snd (check_rate_limit cfg now uid lim) v = lim v"
  by (simp add: check_rate_limit_def Let_def)

text \<open>Inside one day window the accepted requests and the day counter grow together.\<close>

lemma limit_run_day:
  assumes "lim uid = Some w" and "0 < oc_max_per_day cfg" and "w_day_count w \<le> oc_max_per_day cfg"
    and "\<forall>t \<in> set ts. t - w_day_start w < 24 * hour" and "limit_run cfg uid ts lim = (acc, lim')"
  shows "int (length acc) \<le> oc_max_per_day cfg - w_day_count w"
  using assms
proof (induction ts arbitrary: lim w acc)
  case Nil
  then show ?case by simp
next
  case (Cons t ts)
  let ?w = "if t - w_minute_start w \<ge> minute then w\<lparr>w_minute_start := t, w_minute_count := 0\<rparr> else w"
  have w: "w_day_count ?w = w_day_count w" "w_day_start ?w = w_day_start w" by simp_all
  have now: "\<not> t - w_day_start w \<ge> 24 * hour" using Cons.prems(4) by simp
  obtain e lim1 where c: "check_rate_limit cfg t uid lim = (e, lim1)" by (cases "check_rate_limit cfg t uid lim")
  show ?case
  proof (cases e)
    case None
    then have lim1: "lim1 uid = Some (?w\<lparr>w_minute_count := w_minute_count ?w + 1, w_day_count := w_day_count ?w + 1\<rparr>)"
      and lt: "w_day_count w < oc_max_per_day cfg"
      using c Cons.prems(1-3) now by (auto simp: check_rate_limit_def Let_def split: if_splits)
    obtain acc1 where run: "limit_run cfg uid ts lim1 = (acc1, lim')" and acc: "acc = t # acc1"
      using Cons.prems(5) c None by (auto split: prod.splits)
    have "int (length acc1) \<le> oc_max_per_day cfg - (w_day_count w + 1)"
      using Cons.IH [OF lim1 Cons.prems(2) _ _ run] lt Cons.prems(4) w by auto
    with acc show ?thesis by simp
  next
    case (Some x)
    then have lim1: "lim1 uid = Some ?w"
      using c Cons.prems(1) now by (auto simp: check_rate_limit_def Let_def split: if_splits)
    have run: "limit_run cfg uid ts lim1 = (acc, lim')" using Cons.prems(5) c Some by simp
    show ?thesis using Cons.IH [OF lim1 Cons.prems(2) _ _ run] Cons.prems(3,4) w by auto
  qed
qed

section \<open>Delivery laws\<close>

lemma backoff_bounds:
  assumes "0 < base_min" and "base_min \<le> 1440" and "1 \<le> n" and "n \<le> 17"
  shows "0 < backoff base_min n" and "backoff base_min n \<le> 24 * hour"
    and "backoff base_min n = min (24 * hour) (base_min * minute * 2 ^ nat (n - 1))"
proof -
  have p: "(2::int) ^ nat (n - 1) \<le> 2 ^ 16" using assms(4) by (intro power_increasing) auto
  have i1: "int64 (base_min * minute) = base_min * minute" using assms(1,2) by (intro int64_id) auto
  have "base_min * minute * 2 ^ nat (n - 1) \<le> (1440 * minute) * 2 ^ 16"
    using assms(1,2) p by (intro mult_mono) auto
  moreover have "0 \<le> base_min * minute * 2 ^ nat (n - 1)" using assms(1) by simp
  ultimately have i2: "int64 (base_min * minute * 2 ^ nat (n - 1)) = base_min * minute * 2 ^ nat (n - 1)"
    by (intro int64_id) auto
  have "0 < base_min * minute * 2 ^ nat (n - 1)" using assms(1) by simp
  then show "0 < backoff base_min n" and "backoff base_min n \<le> 24 * hour"
    and "backoff base_min n = min (24 * hour) (base_min * minute * 2 ^ nat (n - 1))"
    by (simp_all add: backoff_def i1 i2 Let_def)
qed

text \<open>With many attempts the shift runs over: the wait becomes negative, the retry immediate.\<close>

lemma backoff_overflow: "backoff 5 26 < 0"
  by (simp add: backoff_def int64_def Let_def)

lemma bounce_frame:
  shows "db_outbound (bounce f h now item e s) = db_outbound s"
    and "db_next (bounce f h now item e s) TOutbound = db_next s TOutbound"
proof -
  have t: "tables s1 = tables s" if "users_get_by_email a s = (r, s1)" for a r s1
    using that by (rule users_get_by_email_frame)
  show "db_outbound (bounce f h now item e s) = db_outbound s"
    "db_next (bounce f h now item e s) TOutbound = db_next s TOutbound"
    by (auto simp: bounce_def mails_create_def db_stmt_def Let_def split: sum.splits prod.splits
        dest: t tables_eqD(4) tables_eqD(10) dest!: t)
qed

lemma bounce_wf_outbound [simp]: "wf_outbound (bounce f h now item e s) = wf_outbound s"
  by (simp add: wf_outbound_def bounce_frame)

lemma bounce_row [simp]: "outbound_row i (bounce f h now item e s) = outbound_row i s"
  by (simp add: outbound_row_def bounce_frame)

text \<open>The new state of an item after an attempt, as a function of the outcome.\<close>

definition attempted ::
  "outbound_config \<Rightarrow> gotime \<Rightarrow> go_error + string \<Rightarrow> outbound_message \<Rightarrow> outbound_message" where
  "attempted cfg now r item =
     (let n = o_attempts item + 1
      in case r of
           Inr resp \<Rightarrow> item\<lparr>o_attempts := n, o_status := Sent, o_last_response := resp, o_last_error := [],
                           o_completed_at := Some now\<rparr>
         | Inl e \<Rightarrow>
             if is_permanent e \<or> n \<ge> oc_max_attempts cfg
             then item\<lparr>o_attempts := n, o_last_response := [], o_last_error := error_text e,
                       o_status := Failed, o_completed_at := Some now\<rparr>
             else item\<lparr>o_attempts := n, o_last_response := [], o_last_error := error_text e,
                       o_status := Deferred, o_next_attempt_at := now + backoff (oc_retry_base_min cfg) n\<rparr>)"

lemma attempted_id [simp]: "o_id (attempted cfg now r item) = o_id item"
  by (auto simp: attempted_def Let_def split: sum.splits)

lemma deliver_one_result:
  assumes "wf_outbound s" and "0 < o_id item" and "o_id item < db_next s TOutbound"
    and "deliver_one cfg f h deliver now item s = (item', s')"
  shows "item' = attempted cfg now (deliver (o_from_addr item) (o_to_addr item) (o_raw_data item)) item"
    and "wf_outbound s'"
    and "outbound_row i s' = (if i = o_id item \<and> \<not> fault s then Some item' else outbound_row i s)"
    and "db_next s' TOutbound = db_next s TOutbound"
proof -
  let ?r = "deliver (o_from_addr item) (o_to_addr item) (o_raw_data item)"
  let ?a = "attempted cfg now ?r item"
  obtain q s1 where u: "outbound_update ?a s = (q, s1)" by (cases "outbound_update ?a s")
  have id: "0 < o_id ?a" "o_id ?a < db_next s TOutbound" using assms(2,3) by simp_all
  note upd = outbound_update_result [OF assms(1) u id]
  have cs: "item' = ?a \<and> (s' = s1 \<or> (\<exists>e. s' = bounce f h now item' e s1))"
    using assms(4) u by (auto simp: deliver_one_def attempted_def Let_def split: sum.splits if_splits prod.splits)
  then show "item' = ?a" by blast
  from cs upd show "wf_outbound s'" "db_next s' TOutbound = db_next s TOutbound"
    by (auto simp: bounce_frame)
  from cs upd(2) [of i] upd(7)
  show "outbound_row i s' = (if i = o_id item \<and> \<not> fault s then Some item' else outbound_row i s)"
    by (auto split: if_splits)
qed

section \<open>The delivery system\<close>

text \<open>
  Any number of dispatchers (each with the list it has read and not yet gone through), the channel
  of claimed jobs, the workers' jobs, the ids handed to the transport so far, and the stores.
\<close>

record delivery_system =
  ds_db :: db
  ds_snap :: "nat \<Rightarrow> outbound_message list"
  ds_jobs :: "outbound_message list"
  ds_work :: "outbound_message list"

definition in_flight :: "delivery_system \<Rightarrow> nat list" where
  "in_flight st = map o_id (ds_jobs st @ ds_work st)"

inductive dstep :: "outbound_config \<Rightarrow> delivery_system \<Rightarrow> delivery_system \<Rightarrow> bool" for cfg where
  scan: "outbound_list_due now (dispatch_batch_size cfg) (ds_db st) = (r, s') \<Longrightarrow>
    dstep cfg st (st\<lparr>ds_snap := (ds_snap st)(k := (case r of Inl _ \<Rightarrow> [] | Inr items \<Rightarrow> items)), ds_db := s'\<rparr>)"
| claim: "ds_snap st k = m # ms \<Longrightarrow> outbound_claim (o_id m) (ds_db st) = (r, s') \<Longrightarrow>
    dstep cfg st (st\<lparr>ds_snap := (ds_snap st)(k := ms), ds_db := s',
      ds_jobs := (if r = Inr True then ds_jobs st @ [m\<lparr>o_status := Sending\<rparr>] else ds_jobs st)\<rparr>)"
| take_job: "ds_jobs st = j # js \<Longrightarrow>
    dstep cfg st (st\<lparr>ds_jobs := js, ds_work := j # ds_work st\<rparr>)"
| attempt: "j \<in> set (ds_work st) \<Longrightarrow> deliver_one cfg f h deliver now j (ds_db st) = (j', s') \<Longrightarrow>
    dstep cfg st (st\<lparr>ds_work := remove1 j (ds_work st), ds_db := s'\<rparr>)"
| cancel: "manager_cancel now i (ds_db st) = (r, s') \<Longrightarrow> dstep cfg st (st\<lparr>ds_db := s'\<rparr>)"
| retry_idle: "i \<notin> set (in_flight st) \<Longrightarrow> manager_retry now i (ds_db st) = (r, s') \<Longrightarrow>
    dstep cfg st (st\<lparr>ds_db := s'\<rparr>)"
| remove: "outbound_delete i (ds_db st) = (r, s') \<Longrightarrow> dstep cfg st (st\<lparr>ds_db := s'\<rparr>)"
| submit: "enqueue cfg pa sign now uuid u a b raw (lim, ds_db st) = (r, lim', s') \<Longrightarrow>
    dstep cfg st (st\<lparr>ds_db := s'\<rparr>)"

inductive_cases dstep_cases: "dstep cfg st st'"

text \<open>Every job in the channel or with a worker is there once, and its row cannot be claimed again.\<close>

definition delivery_inv :: "delivery_system \<Rightarrow> bool" where
  "delivery_inv st \<longleftrightarrow> wf_outbound (ds_db st) \<and> distinct (in_flight st) \<and>
     (\<forall>i \<in> set (in_flight st). 0 < i \<and> i < db_next (ds_db st) TOutbound \<and> \<not> is_open i (ds_db st))"

lemma delivery_inv_cong:
  assumes "delivery_inv st" and "in_flight st' = in_flight st" and "wf_outbound (ds_db st')"
    and "db_next (ds_db st) TOutbound \<le> db_next (ds_db st') TOutbound"
    and "\<And>i. i \<in> set (in_flight st) \<Longrightarrow> is_open i (ds_db st') \<Longrightarrow> is_open i (ds_db st)"
  shows "delivery_inv st'"
  using assms unfolding delivery_inv_def by (metis order_less_le_trans)

lemma outbound_get_by_id_Inr:
  "outbound_get_by_id i s = (Inr m, s') \<longleftrightarrow> \<not> fault s \<and> outbound_row i s = Some m \<and> s' = tick s"
  by (simp add: outbound_get_by_id_def stmt_results outbound_row_def)

lemma outbound_get_by_id_Inl: "outbound_get_by_id i s = (Inl e, s') \<Longrightarrow> s' = tick s"
  by (simp add: outbound_get_by_id_def stmt_results)

lemma outbound_row_bounds: "wf_outbound s \<Longrightarrow> outbound_row i s = Some m \<Longrightarrow> o_id m = i \<and> 0 < i \<and> i < db_next s TOutbound"
  using outbound_row_in [of i s m] by (auto simp: wf_outbound_def wf_rows_def)

lemma is_open_row: "is_open i s \<longleftrightarrow> (\<exists>m. outbound_row i s = Some m \<and> o_status m \<in> {Pending, Deferred})"
  by (auto simp: is_open_def status_of_def)

lemma manager_cancel_frame:
  assumes "wf_outbound s" and "manager_cancel now i s = (r, s')"
  shows "wf_outbound s' \<and> db_next s' TOutbound = db_next s TOutbound \<and> (is_open j s' \<longrightarrow> is_open j s)"
proof (cases "outbound_get_by_id i s")
  case (Pair q s1)
  show ?thesis
  proof (cases q)
    case (Inl e)
    with Pair assms show ?thesis by (auto simp: manager_cancel_def dest: outbound_get_by_id_Inl)
  next
    case (Inr m)
    with Pair have m: "outbound_row i s = Some m" "s1 = tick s" by (simp_all add: outbound_get_by_id_Inr)
    note b = outbound_row_bounds [OF assms(1) m(1)]
    show ?thesis
    proof (cases "o_status m = Sent")
      case True
      with Pair Inr m assms show ?thesis by (auto simp: manager_cancel_def)
    next
      case False
      let ?m = "m\<lparr>o_status := Canceled,
                 o_last_error := utf8 [231, 174, 161, 231, 144, 134, 229, 145, 152, 229, 143, 150, 230, 182, 136],
                 o_completed_at := Some now\<rparr>"
      from False Pair Inr m assms(2) have u: "outbound_update ?m (tick s) = (r, s')"
        by (simp add: manager_cancel_def)
      have "wf_outbound (tick s)" "0 < o_id ?m" "o_id ?m < db_next (tick s) TOutbound" using b assms(1) by simp_all
      note upd = outbound_update_result [OF this(1) u this(2,3)]
      show ?thesis using upd(1,3) upd(2) [of j] by (auto simp: is_open_row split: if_splits)
    qed
  qed
qed

lemma manager_retry_frame:
  assumes "wf_outbound s" and "manager_retry now i s = (r, s')"
  shows "wf_outbound s' \<and> db_next s' TOutbound = db_next s TOutbound \<and> (j \<noteq> i \<longrightarrow> is_open j s' \<longrightarrow> is_open j s)"
proof (cases "outbound_get_by_id i s")
  case (Pair q s1)
  show ?thesis
  proof (cases q)
    case (Inl e)
    with Pair assms show ?thesis by (auto simp: manager_retry_def dest: outbound_get_by_id_Inl)
  next
    case (Inr m)
    with Pair have m: "outbound_row i s = Some m" "s1 = tick s" by (simp_all add: outbound_get_by_id_Inr)
    note b = outbound_row_bounds [OF assms(1) m(1)]
    let ?m = "m\<lparr>o_status := Pending, o_attempts := 0, o_last_error := [],
            o_last_response := [], o_completed_at := None, o_next_attempt_at := now\<rparr>"
    from Pair Inr m assms(2) have u: "outbound_update ?m (tick s) = (r, s')"
      by (simp add: manager_retry_def)
    have "wf_outbound (tick s)" "0 < o_id ?m" "o_id ?m < db_next (tick s) TOutbound" using b assms(1) by simp_all
    note upd = outbound_update_result [OF this(1) u this(2,3)]
    show ?thesis using upd(1,3) upd(2) [of j] b by (auto simp: is_open_row split: if_splits)
  qed
qed

lemma sign_for_sender_frame: "sign_for_sender sign a raw s = (r, s') \<Longrightarrow> tables s' = tables s"
  by (auto simp: sign_for_sender_def domains_get_by_name_def stmt_results
      split: option.splits prod.splits sum.splits)

text \<open>Enqueueing either leaves the tables alone or appends one new pending row for an external address.\<close>

lemma enqueue_cases:
  assumes "enqueue cfg pa sign now uuid u a b raw (lim, s) = (r, lim', s')"
  shows "tables s' = tables s \<and> (\<exists>e. r = Inl e) \<or>
    (\<exists>m s2 e1 s1. r = Inr m \<and> tables s2 = tables s \<and> s' = insert_outbound m s2 \<and>
       o_id m = db_next s TOutbound \<and> o_status m = Pending \<and> o_attempts m = 0 \<and> o_next_attempt_at m = now \<and>
       o_user_id m = user_id_or_zero u \<and> o_from_addr m = a \<and>
       pa (trim_space b) = Some (o_to_addr m) \<and> manager_enabled cfg \<and>
       users_get_by_email (o_to_addr m) s = (Inl e1, s1) \<and>
       (\<forall>d. domain_part (o_to_addr m) = Some d \<longrightarrow> o_recipient_dom m = to_lower d) \<and>
       (\<forall>v. u = Some v \<longrightarrow> fst (check_rate_limit cfg now (u_id v) lim) = None))"
proof (cases "manager_enabled cfg")
  case False
  with assms show ?thesis by (auto simp: enqueue_def)
next
  case True
  show ?thesis
  proof (cases "pa (trim_space b)")
    case None
    with assms True show ?thesis by (auto simp: enqueue_def)
  next
    case (Some rcpt)
    note pa = this
    show ?thesis
    proof (cases "domain_part rcpt")
      case None
      with assms True pa show ?thesis by (auto simp: enqueue_def)
    next
      case (Some d)
      note d = this
      obtain q s1 where q: "users_get_by_email rcpt s = (q, s1)" by (cases "users_get_by_email rcpt s")
      then have t1: "tables s1 = tables s" by (rule users_get_by_email_frame)
      show ?thesis
      proof (cases q)
        case (Inr v)
        with assms True pa d q t1 show ?thesis by (auto simp: enqueue_def)
      next
        case (Inl e)
        obtain le lim1 where l: "(case u of None \<Rightarrow> (None, lim) | Some v \<Rightarrow> check_rate_limit cfg now (u_id v) lim) = (le, lim1)"
          by (cases "case u of None \<Rightarrow> (None, lim) | Some v \<Rightarrow> check_rate_limit cfg now (u_id v) lim")
        obtain sg s2 where sg: "sign_for_sender sign a raw s1 = (sg, s2)" by (cases "sign_for_sender sign a raw s1")
        then have t2: "tables s2 = tables s" using t1 sign_for_sender_frame by metis
        show ?thesis
        proof (cases le)
          case (Some x)
          with assms True pa d q Inl l t1 show ?thesis by (auto simp: enqueue_def Let_def)
        next
          case None
          then have lim_ok: "\<forall>v. u = Some v \<longrightarrow> fst (check_rate_limit cfg now (u_id v) lim) = None"
            using l by (auto split: option.splits)
          let ?item = "\<lparr>o_id = 0, o_message_id = ''<'' @ uuid @ ''@outbound>'',
                 o_user_id = user_id_or_zero u, o_from_addr = a,
                 o_to_addr = rcpt, o_recipient_dom = to_lower d,
                 o_raw_data = (case sg of None \<Rightarrow> raw | Some x \<Rightarrow> x), o_status = Pending, o_attempts = 0,
                 o_next_attempt_at = now, o_last_response = [], o_last_error = [], o_completed_at = None\<rparr>"
          from assms True pa d q Inl l sg None have
            "(case outbound_create ?item s2 of (Inl e, s3) \<Rightarrow> (Inl (Store_Failed e), lim1, s3)
              | (Inr m, s3) \<Rightarrow> (Inr m, lim1, s3)) = (r, lim', s')"
            by (simp add: enqueue_def Let_def)
          then consider "s' = tick s2" "\<exists>e. r = Inl e"
            | "s' = insert_outbound (?item\<lparr>o_id := db_next s2 TOutbound\<rparr>) (tick s2)"
              "r = Inr (?item\<lparr>o_id := db_next s2 TOutbound\<rparr>)"
            by (auto simp: outbound_create_def db_stmt_def Let_def split: if_splits)
          then show ?thesis
          proof cases
            case 1
            with t2 show ?thesis by auto
          next
            case 2
            have "db_next s2 = db_next s" by (rule tables_eqD(10) [OF t2])
            then show ?thesis using 2 t2 pa d q Inl True lim_ok by (intro disjI2) (auto intro!: exI [of _ "tick s2"])
          qed
        qed
      qed
    qed
  qed
qed

lemma enqueue_frame:
  assumes "wf_outbound s" and "enqueue cfg pa sign now uuid u a b raw (lim, s) = (r, lim', s')"
  shows "wf_outbound s'" and "db_next s TOutbound \<le> db_next s' TOutbound"
    and "i < db_next s TOutbound \<Longrightarrow> outbound_row i s' = outbound_row i s"
proof -
  have "find P (xs @ [m]) = find P xs" if "\<not> P m" for P xs and m :: outbound_message
    using that by (induction xs) auto
  then have app: "i < o_id m \<Longrightarrow> outbound_row i (insert_outbound m t) = outbound_row i t" for m t
    by (simp add: outbound_row_def insert_outbound_def)
  have c: "tables s' = tables s \<or> (\<exists>m t. tables t = tables s \<and> s' = insert_outbound m t \<and> o_id m = db_next s TOutbound)"
    using enqueue_cases [OF assms(2)] by blast
  have wft: "wf_outbound t" if "tables t = tables s" for t
    using assms(1) by (simp add: wf_outbound_def tables_eqD(4) [OF that] tables_eqD(10) [OF that])
  have nx: "db_next t = db_next s" if "tables t = tables s" for t using that by (rule tables_eqD(10))
  have ins: "wf_outbound (insert_outbound m t)" if "wf_outbound t" "o_id m = db_next t TOutbound" for m t
    using that wf_rows_insert [of o_id "db_next t TOutbound" "db_outbound t" m]
    by (simp add: wf_outbound_def insert_outbound_def)
  from c show "wf_outbound s'"
    using wft ins nx by (metis (no_types))
  from c show "db_next s TOutbound \<le> db_next s' TOutbound"
  proof (elim disjE exE conjE)
    assume "tables s' = tables s"
    from nx [OF this] show ?thesis by simp
  next
    fix m t assume "tables t = tables s" "s' = insert_outbound m t"
    with nx [of t] show ?thesis by (simp add: insert_outbound_def)
  qed
  have row: "outbound_row i t = outbound_row i s" if "tables t = tables s" for t
    using tables_eqD(4) [OF that] by (simp add: outbound_row_def)
  then show "i < db_next s TOutbound \<Longrightarrow> outbound_row i s' = outbound_row i s"
    using c app by metis
qed

lemma outbound_delete_frame:
  assumes "wf_outbound s" and "outbound_delete i s = (r, s')"
  shows "wf_outbound s'" and "db_next s' = db_next s"
    and "outbound_row j s' = (if j = i \<and> \<not> fault s then None else outbound_row j s)"
proof -
  have f: "find (\<lambda>m. o_id m = j) (filter (\<lambda>m. o_id m \<noteq> i) ms) = (if j = i then None else find (\<lambda>m. o_id m = j) ms)" for ms
    by (induction ms) auto
  have c: "s' = tick s \<and> fault s \<or>
      s' = (tick s)\<lparr>db_outbound := filter (\<lambda>m. o_id m \<noteq> i) (db_outbound s)\<rparr> \<and> \<not> fault s"
    using assms(2) by (auto simp: outbound_delete_def db_exec_def db_stmt_def split: if_splits)
  with assms(1) show "wf_outbound s'" and "db_next s' = db_next s" by (auto simp: wf_outbound_def wf_rows_filter)
  from c show "outbound_row j s' = (if j = i \<and> \<not> fault s then None else outbound_row j s)"
    by (elim disjE conjE) (simp_all add: outbound_row_def f)
qed

lemma dstep_inv:
  assumes "delivery_inv st" and "dstep cfg st st'"
  shows "delivery_inv st'"
proof -
  have wf: "wf_outbound (ds_db st)" and d: "distinct (in_flight st)"
    and fl: "\<forall>i \<in> set (in_flight st). 0 < i \<and> i < db_next (ds_db st) TOutbound \<and> \<not> is_open i (ds_db st)"
    using assms(1) by (auto simp: delivery_inv_def)
  from assms(2) show ?thesis
  proof cases
    case (scan now r s' k)
    then have "s' = tick (ds_db st)" by (cases r) (simp_all add: outbound_list_due_def stmt_results)
    with scan assms(1) show ?thesis by (auto simp: delivery_inv_def in_flight_def)
  next
    case (claim k m ms r s')
    note res = outbound_claim_result [OF wf claim(3)]
    have nx: "db_next s' = db_next (ds_db st)"
      using claim(3) by (auto simp: outbound_claim_def db_stmt_def set_sending_def split: if_splits)
    have other: "j \<noteq> o_id m \<Longrightarrow> is_open j s' = is_open j (ds_db st)" for j
      using res(4) [of j] by (simp add: is_open_row)
    have keep: "is_open j s' \<Longrightarrow> is_open j (ds_db st)" for j
      using other res(2,3) by (cases "j = o_id m"; cases "r = Inr True") (auto simp: is_open_def)
    show ?thesis
    proof (cases "r = Inr True")
      case False
      have "delivery_inv (st\<lparr>ds_snap := (ds_snap st)(k := ms), ds_db := s'\<rparr>)"
        by (rule delivery_inv_cong [OF assms(1)]) (use res(1) nx keep in \<open>simp_all add: in_flight_def\<close>)
      with claim False show ?thesis by simp
    next
      case True
      from res(2) [OF True] have op: "is_open (o_id m) (ds_db st)" "\<not> is_open (o_id m) s'"
        by (auto simp: is_open_def)
      then have new: "o_id m \<notin> set (in_flight st)" using fl by blast
      from op(1) have "0 < o_id m \<and> o_id m < db_next (ds_db st) TOutbound"
        by (auto simp: is_open_row dest: outbound_row_bounds [OF wf])
      then show ?thesis using claim True res(1) nx d fl new op keep
        by (auto simp: delivery_inv_def in_flight_def)
    qed
  next
    case (take_job j js)
    with assms(1) show ?thesis by (auto simp: delivery_inv_def in_flight_def)
  next
    case (attempt j f h deliver now j' s')
    have j: "o_id j \<in> set (in_flight st)" using attempt(2) by (auto simp: in_flight_def)
    then have b: "0 < o_id j" "o_id j < db_next (ds_db st) TOutbound" using fl by auto
    note res = deliver_one_result [OF wf b attempt(3)]
    have dw: "distinct (map o_id (ds_work st))" using d by (simp add: in_flight_def)
    have "set (map o_id (ds_jobs st)) \<inter> set (map o_id (ds_work st)) = {}" using d by (auto simp: in_flight_def)
    with distinct_map_remove1 [OF dw attempt(2)] d attempt(1)
    have st': "distinct (in_flight st')" "o_id j \<notin> set (in_flight st')" "set (in_flight st') \<subseteq> set (in_flight st)"
      by (auto simp: in_flight_def)
    have "is_open i s' \<Longrightarrow> i \<noteq> o_id j \<Longrightarrow> is_open i (ds_db st)" for i
      using res(3) [of i] by (simp add: is_open_row)
    with st' attempt(1) res(2,4) fl show ?thesis by (auto simp: delivery_inv_def)
  next
    case (cancel now i r s')
    then show ?thesis
      using manager_cancel_frame [OF wf cancel(2)] by (intro delivery_inv_cong [OF assms(1)]) (auto simp: in_flight_def)
  next
    case (retry_idle i now r s')
    have "in_flight st' = in_flight st" by (simp add: in_flight_def retry_idle(1))
    moreover have "is_open j s' \<Longrightarrow> j \<in> set (in_flight st) \<Longrightarrow> is_open j (ds_db st)" for j
      using manager_retry_frame [OF wf retry_idle(3), of j] retry_idle(2) by metis
    ultimately show ?thesis
      using manager_retry_frame [OF wf retry_idle(3)] retry_idle(1)
      by (intro delivery_inv_cong [OF assms(1)]) auto
  next
    case (remove i r s')
    note del = outbound_delete_frame [OF wf remove(2)]
    show ?thesis
      by (rule delivery_inv_cong [OF assms(1)])
        (use remove(1) del in \<open>auto simp: in_flight_def is_open_row split: if_splits\<close>)
  next
    case (submit pa sign now uuid u a b raw lim r lim' s')
    note e = enqueue_frame [OF wf submit(2)]
    show ?thesis
      by (rule delivery_inv_cong [OF assms(1)]) (use submit(1) e fl in \<open>auto simp: in_flight_def is_open_row\<close>)
  qed
qed

section \<open>Properties of the delivery queue\<close>

text \<open>No message is ever with two workers. Start with nothing in flight; then, whatever the
  interleaving of dispatchers, workers, submissions, deletions, cancellations and retries of idle
  items, and whichever statements fail, the ids in the job channel and with the workers are
  pairwise distinct, and none of them can be claimed again while it is there.\<close>

theorem at_most_once_in_flight:
  assumes "wf_outbound (ds_db st0)" and "in_flight st0 = []" and "(dstep cfg)\<^sup>*\<^sup>* st0 st"
  shows "distinct (in_flight st) \<and> (\<forall>i \<in> set (in_flight st). \<not> fst (try_claim i (ds_db st)))"
proof -
  have "delivery_inv st0" using assms(1,2) by (simp add: delivery_inv_def)
  with assms(3) have "delivery_inv st" by (induction rule: rtranclp_induct) (auto intro: dstep_inv)
  then show ?thesis using outq.claim_open by (auto simp: delivery_inv_def)
qed

definition sample_item :: "nat \<Rightarrow> outbound_status \<Rightarrow> outbound_message" where
  "sample_item i st = \<lparr>o_id = i, o_message_id = ''<1@outbound>'', o_user_id = 1, o_from_addr = ''ann@x.org'',
     o_to_addr = ''bob@y.net'', o_recipient_dom = ''y.net'', o_raw_data = ''hi'', o_status = st,
     o_attempts = 0, o_next_attempt_at = 0, o_last_response = [], o_last_error = [], o_completed_at = None\<rparr>"

definition sample_queue :: "outbound_message list \<Rightarrow> db" where
  "sample_queue ms = sample_accounts\<lparr>db_outbound := ms\<rparr>"

definition sample_config :: outbound_config where
  "sample_config = cf_outbound (default_config False)"

lemma sample_queue_simps [simp]:
  "db_outbound (sample_queue ms) = ms" "db_faults (sample_queue ms) = []"
  "db_next (sample_queue ms) = (\<lambda>_. 10)" "db_messages (sample_queue ms) = []"
  by (simp_all add: sample_queue_def sample_accounts_def empty_db_def)

lemma sample_item_simps [simp]:
  "o_id (sample_item i st) = i" "o_status (sample_item i st) = st" "o_next_attempt_at (sample_item i st) = 0"
  "o_attempts (sample_item i st) = 0" "o_from_addr (sample_item i st) = ''ann@x.org''"
  "o_to_addr (sample_item i st) = ''bob@y.net''" "o_raw_data (sample_item i st) = ''hi''"
  by (simp_all add: sample_item_def)

lemma at_most_once_in_flight_witness:
  "\<exists>st. (dstep sample_config)\<^sup>*\<^sup>* \<lparr>ds_db = sample_queue [sample_item 1 Pending], ds_snap = (\<lambda>_. []), ds_jobs = [], ds_work = []\<rparr> st
     \<and> in_flight st = [1] \<and> \<not> fst (try_claim 1 (ds_db st))"
proof -
  let ?db = "sample_queue [sample_item 1 Pending]"
  let ?st0 = "\<lparr>ds_db = ?db, ds_snap = (\<lambda>_. []), ds_jobs = [], ds_work = []\<rparr>"
  let ?st1 = "?st0\<lparr>ds_snap := (ds_snap ?st0)(0 := [sample_item 1 Pending]), ds_db := ?db\<rparr>"
  let ?s2 = "snd (outbound_claim 1 ?db)"
  let ?st2 = "?st1\<lparr>ds_snap := (ds_snap ?st1)(0 := []), ds_db := ?s2,
      ds_jobs := (if Inr True = (Inr True :: bool result) then ds_jobs ?st1 @ [(sample_item 1 Pending)\<lparr>o_status := Sending\<rparr>] else ds_jobs ?st1)\<rparr>"
  have "outbound_list_due 0 (dispatch_batch_size sample_config) (ds_db ?st0) = (Inr [sample_item 1 Pending], ?db)"
    by (simp add: outbound_list_due_def table_simps is_due_def dispatch_batch_size_def sample_config_def default_config_def)
  from dstep.scan [OF this, of 0] have 1: "dstep sample_config ?st0 ?st1" by simp
  have "outbound_claim (o_id (sample_item 1 Pending)) (ds_db ?st1) = (Inr True, ?s2)"
    by (simp add: outbound_claim_def db_stmt_def claimable_def)
  then have 2: "dstep sample_config ?st1 ?st2" by (rule dstep.claim [rotated]) simp
  from 1 2 have r: "(dstep sample_config)\<^sup>*\<^sup>* ?st0 ?st2" by (meson r_into_rtranclp rtranclp_trans)
  have "wf_outbound (ds_db ?st0)" "in_flight ?st0 = []"
    by (simp_all add: wf_outbound_def wf_rows_def in_flight_def)
  from at_most_once_in_flight [OF this r] have "\<forall>i \<in> set (in_flight ?st2). \<not> fst (try_claim i (ds_db ?st2))" by blast
  moreover have "in_flight ?st2 = [1]" by (simp add: in_flight_def)
  ultimately show ?thesis using r by fastforce
qed

text \<open>C25: what one attempt does, when no statement fails. The attempt is counted; the item is sent
  exactly when the transport accepted it; a temporary refusal before the attempt limit defers it,
  to a time after now and at most a day ahead; everything else fails it for good, and then (and
  only then) one notice is stored, in the INBOX of the sender if he has an account here. This is for
  a retry base of 1 to 1440 minutes, at most 17 attempts and a count of attempts that is not negative
  (the defaults are 5 and 12); beyond these the 64-bit delay can wrap to zero or below, see
  \<open>backoff_overflow\<close>.\<close>

theorem attempt_outcome:
  assumes "wf_db s" and "db_faults s = []" and "0 < o_id item" and "o_id item < db_next s TOutbound"
    and "0 \<le> o_attempts item" and "0 < oc_retry_base_min cfg" and "oc_retry_base_min cfg \<le> 1440"
    and "oc_max_attempts cfg \<le> 17"
    and "deliver_one cfg fmt h deliver now item s = (item', s')"
  shows "let r = deliver (o_from_addr item) (o_to_addr item) (o_raw_data item) in
    o_attempts item' = o_attempts item + 1 \<and> outbound_row (o_id item) s' = Some item' \<and>
    (o_status item' = Sent \<longleftrightarrow> (\<exists>resp. r = Inr resp)) \<and>
    (o_status item' = Deferred \<longleftrightarrow> (\<exists>e. r = Inl e \<and> \<not> is_permanent e) \<and> o_attempts item' < oc_max_attempts cfg) \<and>
    (o_status item' = Deferred \<longrightarrow> now < o_next_attempt_at item' \<and> o_next_attempt_at item' \<le> now + 24 * hour) \<and>
    o_status item' \<in> {Sent, Deferred, Failed} \<and>
    (o_status item' \<noteq> Failed \<longrightarrow> db_messages s' = db_messages s) \<and>
    (o_status item' = Failed \<longrightarrow>
      (case users_get_by_email (o_from_addr item) s of
         (Inl _, _) \<Rightarrow> db_messages s' = db_messages s
       | (Inr u, _) \<Rightarrow> \<exists>m. db_messages s' = db_messages s @ [m] \<and> m_user_id m = u_id u \<and> m_folder m = ''INBOX''))"
proof -
  let ?r = "deliver (o_from_addr item) (o_to_addr item) (o_raw_data item)"
  note res = deliver_one_result [OF wf_outbound_db [OF assms(1)] assms(3,4,9)]
  have bo: "0 < backoff (oc_retry_base_min cfg) (o_attempts item + 1) \<and>
      backoff (oc_retry_base_min cfg) (o_attempts item + 1) \<le> 24 * hour"
    if "o_attempts item + 1 < oc_max_attempts cfg"
    using backoff_bounds(1,2) [OF assms(6,7), of "o_attempts item + 1"] that assms(5,8) by auto
  have item': "item' = attempted cfg now ?r item" by (rule res(1))
  have outcome: "o_attempts item' = o_attempts item + 1 \<and> (o_status item' = Sent \<longleftrightarrow> (\<exists>resp. ?r = Inr resp)) \<and>
    (o_status item' = Deferred \<longleftrightarrow> (\<exists>e. ?r = Inl e \<and> \<not> is_permanent e) \<and> o_attempts item' < oc_max_attempts cfg) \<and>
    (o_status item' = Deferred \<longrightarrow> now < o_next_attempt_at item' \<and> o_next_attempt_at item' \<le> now + 24 * hour) \<and>
    o_status item' \<in> {Sent, Deferred, Failed}"
    using bo by (cases ?r) (auto simp: item' attempted_def Let_def)
  let ?s1 = "s\<lparr>db_outbound := save_row o_id item' (db_outbound s)\<rparr>"
  have upd: "outbound_update item' s = (Inr (), ?s1)" using assms(2) by (simp add: outbound_update_def table_simps)
  have s': "o_status item' \<noteq> Failed \<and> s' = ?s1 \<or>
      o_status item' = Failed \<and> (\<exists>e. s' = bounce fmt h now item' e ?s1)"
    using assms(9) upd unfolding item' deliver_one_def Let_def
    by (auto simp: attempted_def Let_def split: sum.splits if_splits prod.splits)
  have em: "users_get_by_email a ?s1 = (fst (users_get_by_email a s), ?s1)" for a
    using assms(2)
    by (auto simp: users_get_by_email_def table_simps preload_domain_def preload_domains_def in_domain_def
        with_domain_def domain_of_def split: list.splits option.splits)
  have from_eq: "o_from_addr item' = o_from_addr item"
    by (simp add: item' attempted_def Let_def split: sum.split)
  have msgs: "case users_get_by_email (o_from_addr item) s of
         (Inl _, _) \<Rightarrow> db_messages (bounce fmt h now item' e ?s1) = db_messages s
       | (Inr u, _) \<Rightarrow> \<exists>m. db_messages (bounce fmt h now item' e ?s1) = db_messages s @ [m] \<and>
           m_user_id m = u_id u \<and> m_folder m = ''INBOX''" for e
    using assms(2) em [of "o_from_addr item"]
    by (cases "users_get_by_email (o_from_addr item) s")
      (auto simp: bounce_def from_eq mails_create_ok bounce_message_def new_message_def split: sum.splits)
  have "outbound_row (o_id item) s' = Some item'" using res(3) assms(2) by simp
  with outcome s' msgs show ?thesis by (auto simp: Let_def split: prod.splits sum.splits)
qed

lemma wf_sample_queue: "wf_rows o_id 10 ms \<Longrightarrow> wf_db (sample_queue ms)"
  using wf_sample_accounts by (simp add: wf_db_def sample_queue_def sample_accounts_def empty_db_def)

lemma attempt_outcome_witness:
  "o_status (fst (deliver_one sample_config (\<lambda>_. []) ''mx'' (\<lambda>_ _ _. Inl (Delivery_Error False 450 ''later'')) 5
     (sample_item 1 Sending) (sample_queue [sample_item 1 Sending]))) = Deferred"
proof -
  let ?s = "sample_queue [sample_item 1 Sending]" and ?d = "\<lambda>_ _ _. Inl (Delivery_Error False 450 ''later'')"
  have wf: "wf_db ?s" by (rule wf_sample_queue) (simp add: wf_rows_def)
  have cfg: "oc_max_attempts sample_config = 12" "oc_retry_base_min sample_config = 5"
    by (simp_all add: sample_config_def default_config_def)
  note t = attempt_outcome [OF wf, where item = "sample_item 1 Sending" and cfg = sample_config
      and deliver = ?d, OF _ _ _ _ _ _ _ prod.collapse [symmetric], of "\<lambda>_. []" "''mx''" 5]
  show ?thesis using t by (simp add: cfg Let_def is_permanent_def)
qed

text \<open>Only mail for outside enters the queue. With no failing statement, an accepted submission adds
  exactly one row, pending and due at once, for the address the parser returned; no account has
  that address; the recipient domain is what follows its last at-sign in lower case; and the
  user's rate limit let it through. A refused submission leaves the queue as it was.\<close>

theorem enqueue_external_only:
  assumes "db_faults s = []"
    and "enqueue cfg parse_addr sign now uuid u from_addr to raw (lim, s) = (r, lim', s')"
  shows "case r of
      Inl _ \<Rightarrow> db_outbound s' = db_outbound s
    | Inr m \<Rightarrow> db_outbound s' = db_outbound s @ [m] \<and> o_status m = Pending \<and> is_due now m \<and>
        parse_addr (trim_space to) = Some (o_to_addr m) \<and>
        (\<forall>n d v. split_n2 CHR ''@'' (o_to_addr m) = [n, d] \<longrightarrow> v \<in> set (db_users s) \<longrightarrow>
           \<not> (u_username v = n \<and> in_domain s d v)) \<and>
        map_option to_lower (domain_part (o_to_addr m)) = Some (o_recipient_dom m) \<and>
        manager_enabled cfg \<and> (\<forall>v. u = Some v \<longrightarrow> fst (check_rate_limit cfg now (u_id v) lim) = None)"
proof -
  have dp: "domain_part (o_to_addr m) \<noteq> None" if "r = Inr m" for m
    using assms(2) that
    by (auto simp: enqueue_def Let_def outbound_create_def db_stmt_def split: if_splits option.splits prod.splits sum.splits)
  have local: "\<not> (u_username v = n \<and> in_domain s d v)"
    if "users_get_by_email a s = (Inl e, s1)" "split_n2 CHR ''@'' a = [n, d]" "v \<in> set (db_users s)" for a e s1 n d v
    using that assms(1)
    by (auto simp: users_get_by_email_def table_simps preload_domain_def preload_domains_def find_None_iff_all
        split: option.splits if_splits)
  have q: "db_outbound t = db_outbound s" if "tables t = tables s" for t using that by (rule tables_eqD(4))
  from enqueue_cases [OF assms(2)] show ?thesis
  proof (elim disjE exE conjE)
    fix e assume "tables s' = tables s" "r = Inl e"
    with q [of s'] show ?thesis by simp
  next
    fix m s2 e1 s1
    assume m: "r = Inr m" "tables s2 = tables s" "s' = insert_outbound m s2" "o_status m = Pending"
      "o_next_attempt_at m = now" "parse_addr (trim_space to) = Some (o_to_addr m)" "manager_enabled cfg"
      "users_get_by_email (o_to_addr m) s = (Inl e1, s1)"
      "\<forall>d. domain_part (o_to_addr m) = Some d \<longrightarrow> o_recipient_dom m = to_lower d"
      "\<forall>v. u = Some v \<longrightarrow> fst (check_rate_limit cfg now (u_id v) lim) = None"
    have "map_option to_lower (domain_part (o_to_addr m)) = Some (o_recipient_dom m)"
      using dp [OF m(1)] m(9) by auto
    moreover have "db_outbound s' = db_outbound s @ [m]" using q [OF m(2)] m(3) by (simp add: insert_outbound_def)
    ultimately show ?thesis using m local [OF m(8)] by (simp add: is_due_def)
  qed
qed

lemma sample_enqueue:
  "\<exists>m. fst (enqueue sample_config (\<lambda>_. Some ''bob@y'') (\<lambda>raw _ _ _. Some raw) t ''u'' None ''ann@x.org'' b ''hi''
       (lim, sample_queue [])) = Inr m"
proof -
  have dp: "domain_part ''bob@y'' = Some ''y''"
    by (simp add: domain_part_def last_index_byte_def index_byte_def)
  have ext: "users_get_by_email ''bob@y'' (sample_queue []) = (Inl ErrRecordNotFound, sample_queue [])"
    by (simp add: users_get_by_email_def split_n2_def index_byte_def table_simps)
      (simp add: sample_queue_def sample_accounts_def sample_user_def in_domain_def sample_domain_def)
  have en: "manager_enabled sample_config" by (simp add: manager_enabled_def sample_config_def default_config_def)
  obtain sg s2 where sg: "sign_for_sender (\<lambda>raw _ _ _. Some raw) ''ann@x.org'' ''hi'' (sample_queue []) = (sg, s2)"
    by (cases "sign_for_sender (\<lambda>raw _ _ _. Some raw) ''ann@x.org'' ''hi'' (sample_queue [])")
  then have "db_faults s2 = []"
    by (auto simp: sign_for_sender_def domains_get_by_name_def table_simps split: option.splits)
  then show ?thesis
    by (simp add: enqueue_def en dp ext sg outbound_create_def db_stmt_def Let_def)
qed

lemma enqueue_external_only_witness:
  "\<exists>m. fst (enqueue sample_config (\<lambda>_. Some ''bob@y'') (\<lambda>raw _ _ _. Some raw) 7 ''u'' None ''ann@x.org'' ''<bob@y>'' ''hi''
       ((\<lambda>_. None), sample_queue [])) = Inr m \<and> is_due 7 m \<and> o_to_addr m = ''bob@y''"
proof -
  let ?e = "enqueue sample_config (\<lambda>_. Some ''bob@y'') (\<lambda>raw _ _ _. Some raw) 7 ''u'' None ''ann@x.org'' ''<bob@y>'' ''hi''
      ((\<lambda>_. None) :: nat \<Rightarrow> user_window option, sample_queue [])"
  have "?e = (fst ?e, fst (snd ?e), snd (snd ?e))" by simp
  from enqueue_external_only [OF _ this] sample_enqueue [of 7 "''<bob@y>''" "\<lambda>_. None"] show ?thesis by auto
qed

text \<open>C28: the daily limit holds: whatever the times and however many, of the submissions that a user
  makes within a day of his first one no more are let through than the configured number.\<close>

theorem day_limit_holds:
  assumes "0 < oc_max_per_day cfg" and "lim uid = None" and "\<forall>t' \<in> set ts. t' - t < 24 * hour"
    and "limit_run cfg uid (t # ts) lim = (acc, lim')"
  shows "int (length acc) \<le> oc_max_per_day cfg"
proof -
  let ?w = "\<lparr>w_minute_start = t, w_minute_count = 1, w_day_start = t, w_day_count = 1\<rparr>"
  from assms(1,2) have "check_rate_limit cfg t uid lim = (None, lim(uid \<mapsto> ?w))"
    by (simp add: check_rate_limit_def Let_def)
  with assms(4) obtain acc1 where run: "limit_run cfg uid ts (lim(uid \<mapsto> ?w)) = (acc1, lim')" and "acc = t # acc1"
    by (auto split: prod.splits)
  moreover have "int (length acc1) \<le> oc_max_per_day cfg - w_day_count ?w"
    by (rule limit_run_day [OF _ assms(1) _ _ run]) (use assms in auto)
  ultimately show ?thesis by simp
qed

lemma day_limit_holds_witness:
  "length (fst (limit_run (sample_config\<lparr>oc_max_per_day := 2\<rparr>) 1 [5, 6, 7, 8] (\<lambda>_. None))) \<le> 2"
  using day_limit_holds [of "sample_config\<lparr>oc_max_per_day := 2\<rparr>" "\<lambda>_. None" 1 "[6, 7, 8]" 5, OF _ _ _ prod.collapse [symmetric]]
  by (simp del: limit_run.simps)

text \<open>Cancelling does not stop a message that is already with a worker. If the administrator cancels
  an item in flight and its attempt then ends with a temporary failure before the limit, the
  worker's update overwrites the cancellation: the item is deferred again and can be claimed.\<close>

theorem cancel_in_flight_is_lost:
  assumes "wf_outbound s" and "db_faults s = []" and "outbound_row (o_id item) s = Some m"
    and "manager_cancel t (o_id item) s = (Inr (), s1)"
    and "deliver (o_from_addr item) (o_to_addr item) (o_raw_data item) = Inl e" and "\<not> is_permanent e"
    and "o_attempts item + 1 < oc_max_attempts cfg"
    and "deliver_one cfg fmt h deliver now item s1 = (item', s2)"
  shows "status_of (o_id item) s1 = Some Canceled \<and> status_of (o_id item) s2 = Some Deferred \<and> is_open (o_id item) s2"
proof -
  note b = outbound_row_bounds [OF assms(1,3)]
  let ?m = "m\<lparr>o_status := Canceled,
                 o_last_error := utf8 [231, 174, 161, 231, 144, 134, 229, 145, 152, 229, 143, 150, 230, 182, 136],
                 o_completed_at := Some t\<rparr>"
  from assms(2-4) have u: "outbound_update ?m s = (Inr (), s1)"
    by (auto simp: manager_cancel_def outbound_get_by_id_def table_simps outbound_row_def split: if_splits)
  have "0 < o_id ?m" "o_id ?m < db_next s TOutbound" using b by simp_all
  note upd = outbound_update_result [OF assms(1) u this]
  have f1: "db_faults s1 = []" using upd(8) assms(2) by simp
  from upd b have wf1: "wf_outbound s1" "0 < o_id item" "o_id item < db_next s1 TOutbound" by simp_all
  from deliver_one_result [OF wf1 assms(8)] f1 have "outbound_row (o_id item) s2 = Some item'" "o_status item' = Deferred"
    using assms(5-7) by (auto simp: attempted_def Let_def)
  moreover have "outbound_row (o_id item) s1 = Some ?m" using upd(2) [of "o_id item"] b by simp
  ultimately show ?thesis by (simp add: status_of_def is_open_def)
qed

lemma cancel_in_flight_is_lost_witness:
  "is_open 1 (snd (deliver_one sample_config (\<lambda>_. []) ''mx'' (\<lambda>_ _ _. Inl (Delivery_Error False 450 ''later'')) 5
     (sample_item 1 Sending) (snd (manager_cancel 4 1 (sample_queue [sample_item 1 Sending])))))"
proof -
  let ?s = "sample_queue [sample_item 1 Sending]" and ?d = "\<lambda>_ _ _. Inl (Delivery_Error False 450 ''later'')"
  have wf: "wf_outbound ?s" by (simp add: wf_outbound_def wf_rows_def)
  have c: "manager_cancel 4 1 ?s = (Inr (), snd (manager_cancel 4 1 ?s))"
    by (simp add: manager_cancel_def outbound_get_by_id_def outbound_update_def table_simps)
  have row: "outbound_row 1 ?s = Some (sample_item 1 Sending)" by (simp add: outbound_row_def)
  have cfg: "oc_max_attempts sample_config = 12" by (simp add: sample_config_def default_config_def)
  from cancel_in_flight_is_lost [OF wf, where item = "sample_item 1 Sending" and deliver = ?d and cfg = sample_config,
      OF _ _ _ _ _ _ prod.collapse [symmetric], of "sample_item 1 Sending" 4 "snd (manager_cancel 4 1 ?s)"] c row
  show ?thesis by (simp add: cfg is_permanent_def)
qed

end

