(* ===== verification/Smtp_Server.thy ===== *)
theory Smtp_Server
  imports Protocol_Common Conn_Hub Attachment_Storage Mail_Util Outbound_Manager
begin

text \<open>
  The SMTP server (\<open>internal/smtp_server/server.go\<close>): the session object that the library
  \<open>go-smtp\<close> drives. The library reads the wire and calls the session's methods; here a session is
  any sequence of such calls (\<open>smtp_call\<close>), which is more than the library makes, followed by
  \<open>Logout\<close>. The MIME reader, the address parser and the DKIM signer are parameters; the outbound
  manager and the attachment storage are the models of \<open>Outbound_Manager\<close> and
  \<open>Attachment_Storage\<close>.
\<close>

section \<open>State\<close>

datatype smtp_mode = Inbound | Submission | Implicit_TLS

record smtp_server =
  ss_cfg :: smtp_config
  ss_ban :: ban_config
  ss_outbound :: "outbound_config option"  \<comment> \<open>the manager's configuration; \<open>None\<close>: no manager\<close>
  ss_pusher :: bool
  ss_base_dir :: string
  ss_check_pw :: "string \<Rightarrow> string \<Rightarrow> bool"
  ss_mime :: mime_env
  ss_parse_addr :: "string \<Rightarrow> string option"
  ss_sign :: signer

text \<open>What the sessions share.\<close>

record smtp_world =
  sw_db :: db
  sw_disk :: disk
  sw_limits :: "nat \<Rightarrow> user_window option"
  sw_hub :: hub
  sw_pushed :: "push_event list"

record server_session =
  sm_mode :: smtp_mode
  sm_from :: string
  sm_rcpts :: "string list"
  sm_local :: "string list"
  sm_external :: "string list"
  sm_authenticated :: bool
  sm_user_id :: nat
  sm_email :: string
  sm_user :: "user option"
  sm_ip :: string
  sm_started :: gotime
  sm_port :: int
  sm_auth_tried :: bool
  sm_auth_ok :: bool
  sm_auth_username :: string
  sm_fail_reason :: string
  sm_msg_count :: int
  sm_detail :: "string list"
  sm_handle :: "64 word"

datatype smtp_error =
    Auth_Unknown_Mechanism | Auth_Failed | Auth_Required
  | Sender_Mismatch | Invalid_Recipient string | Relay_Denied string | External_Disabled string
  | No_Recipients | Data_Unreadable | Message_Unparsable
  | Outbound_Unavailable | Too_Many_External int int | Queue_Failed string enqueue_error

section \<open>Sessions\<close>

definition session_port :: "smtp_config \<Rightarrow> smtp_mode \<Rightarrow> int" where
  "session_port cfg mode =
     port_of (case mode of Inbound \<Rightarrow> sc_addr cfg | Submission \<Rightarrow> sc_submission_addr cfg
                | Implicit_TLS \<Rightarrow> sc_tls_addr cfg)"

definition new_session ::
  "smtp_server \<Rightarrow> smtp_mode \<Rightarrow> gotime \<Rightarrow> string option \<Rightarrow> bool \<Rightarrow> nat \<Rightarrow> smtp_world \<Rightarrow> server_session \<times> smtp_world" where
  "new_session srv mode now remote_addr tls socket w =
     (let ip = client_ip_from_addr remote_addr;
          port = session_port (ss_cfg srv) mode;
          (i, h) = hub_register now ''smtp'' ip port tls (sw_hub w)
      in (\<lparr>sm_mode = mode, sm_from = [], sm_rcpts = [], sm_local = [], sm_external = [], sm_authenticated = False,
           sm_user_id = 0, sm_email = [], sm_user = None, sm_ip = ip, sm_started = now, sm_port = port,
           sm_auth_tried = False, sm_auth_ok = False, sm_auth_username = [], sm_fail_reason = [], sm_msg_count = 0,
           sm_detail = [], sm_handle = i\<rparr>,
          w\<lparr>sw_hub := conn_set_disconnect socket i h\<rparr>))"

definition record_fail :: "string \<Rightarrow> server_session \<Rightarrow> server_session" where
  "record_fail reason s = (if sm_fail_reason s = [] then s\<lparr>sm_fail_reason := reason\<rparr> else s)"

definition record_detail :: "string \<Rightarrow> server_session \<Rightarrow> server_session" where
  "record_detail part s = s\<lparr>sm_detail := sm_detail s @ [part]\<rparr>"

definition auth_mechanisms :: "string list" where
  "auth_mechanisms = [''PLAIN'']"

text \<open>\<open>Auth\<close> with the callback that the SASL server calls with the credentials.\<close>

definition account_domain :: "user \<Rightarrow> db \<Rightarrow> string \<times> db" where
  "account_domain u s =
     (if d_name (u_domain u) \<noteq> [] then (d_name (u_domain u), s)
      else case domains_get_by_id (u_domain_id u) s of (Inl _, s1) \<Rightarrow> ([], s1) | (Inr d, s1) \<Rightarrow> (d_name d, s1))"

definition smtp_auth ::
  "smtp_server \<Rightarrow> gotime \<Rightarrow> string \<Rightarrow> string \<Rightarrow> string \<Rightarrow> server_session \<Rightarrow> smtp_world \<Rightarrow>
   smtp_error option \<times> server_session \<times> smtp_world" where
  "smtp_auth srv now mech username password s0 w0 =
     (if mech \<noteq> ''PLAIN'' then (Some Auth_Unknown_Mechanism, record_fail (utf8 [228, 184, 141, 230, 148, 175, 230, 140, 129, 231, 154, 132, 232, 174, 164, 232, 175, 129, 230, 156, 186, 229, 136, 182]) s0, w0)
      else
        (let s = s0\<lparr>sm_auth_tried := True, sm_auth_username := username\<rparr>;
             w = w0\<lparr>sw_hub := conn_touch now (sm_handle s0) (sw_hub w0)\<rparr>
         in case bans_is_banned now (sm_ip s) (sw_db w) of
              (Some _, d1) \<Rightarrow> (Some Auth_Failed, record_fail (''IP'' @ utf8 [229, 183, 178, 232, 162, 171, 229, 176, 129, 231, 166, 129]) s, w\<lparr>sw_db := d1\<rparr>)
            | (None, d1) \<Rightarrow>
                (case guarded_login (ss_check_pw srv) (ss_ban srv) now (sm_ip s) username password d1 of
                   (None, d2) \<Rightarrow> (Some Auth_Failed, record_fail (utf8 [231, 148, 168, 230, 136, 183, 229, 144, 141, 230, 136, 150, 229, 175, 134, 231, 160, 129, 233, 148, 153, 232, 175, 175]) s, w\<lparr>sw_db := d2\<rparr>)
                 | (Some u, d2) \<Rightarrow>
                     (let (dn, d3) = account_domain u d2
                      in if dn = [] then (Some Auth_Failed, record_fail (utf8 [231, 148, 168, 230, 136, 183, 229, 144, 141, 230, 136, 150, 229, 175, 134, 231, 160, 129, 233, 148, 153, 232, 175, 175]) s, w\<lparr>sw_db := d3\<rparr>)
                         else
                           (let email = u_username u @ ''@'' @ dn
                            in (None,
                                s\<lparr>sm_authenticated := True, sm_auth_ok := True, sm_user_id := u_id u,
                                  sm_user := Some u, sm_email := email\<rparr>,
                                w\<lparr>sw_db := d3, sw_hub := conn_set_user now email (sm_handle s) (sw_hub w)\<rparr>))))))"

definition smtp_mail :: "string \<Rightarrow> server_session \<Rightarrow> smtp_error option \<times> server_session" where
  "smtp_mail from_addr s =
     (if sm_mode s \<noteq> Inbound \<and> \<not> sm_authenticated s
      then (Some Auth_Required, record_fail (utf8 [230, 156, 170, 232, 174, 164, 232, 175, 129, 231, 148, 168, 230, 136, 183, 229, 176, 157, 232, 175, 149, 229, 143, 145, 228, 191, 161]) s)
      else if sm_authenticated s \<and> \<not> equal_fold (trim_space from_addr) (sm_email s)
      then (Some Sender_Mismatch, record_fail (utf8 [229, 143, 145, 228, 187, 182, 228, 186, 186, 229, 156, 176, 229, 157, 128, 228, 184, 142, 231, 153, 187, 229, 189, 149, 231, 148, 168, 230, 136, 183, 228, 184, 141, 228, 184, 128, 232, 135, 180]) s)
      else (None, s\<lparr>sm_from := from_addr, sm_rcpts := [], sm_local := [], sm_external := []\<rparr>))"

definition local_user_by_email :: "string \<Rightarrow> db \<Rightarrow> user result \<times> db" where
  "local_user_by_email email = users_get_by_email (trim_space email)"

definition outbound_enabled :: "smtp_server \<Rightarrow> bool" where
  "outbound_enabled srv = (case ss_outbound srv of None \<Rightarrow> False | Some cfg \<Rightarrow> manager_enabled cfg)"

definition smtp_rcpt ::
  "smtp_server \<Rightarrow> string \<Rightarrow> server_session \<Rightarrow> smtp_world \<Rightarrow> smtp_error option \<times> server_session \<times> smtp_world" where
  "smtp_rcpt srv to0 s w =
     (let to = trim_space to0
      in if to = [] then (Some (Invalid_Recipient to), record_fail (utf8 [230, 151, 160, 230, 149, 136, 231, 154, 132, 230, 148, 182, 228, 187, 182, 228, 186, 186, 229, 156, 176, 229, 157, 128]) s, w)
         else
           (case local_user_by_email to (sw_db w) of
              (Inr _, d1) \<Rightarrow> (None, s\<lparr>sm_rcpts := sm_rcpts s @ [to], sm_local := sm_local s @ [to]\<rparr>, w\<lparr>sw_db := d1\<rparr>)
            | (Inl _, d1) \<Rightarrow>
                (let w1 = w\<lparr>sw_db := d1\<rparr>
                 in if \<not> sm_authenticated s then (Some (Relay_Denied to), record_fail (utf8 [228, 184, 173, 231, 187, 167, 232, 174, 191, 233, 151, 174, 232, 162, 171, 230, 139, 146, 231, 187, 157]) s, w1)
                    else if \<not> outbound_enabled srv then (Some (External_Disabled to), record_fail (utf8 [229, 164, 150, 233, 131, 168, 230, 138, 149, 233, 128, 146, 230, 156, 170, 229, 144, 175, 231, 148, 168]) s, w1)
                    else (None, s\<lparr>sm_rcpts := sm_rcpts s @ [to], sm_external := sm_external s @ [to]\<rparr>, w1))))"

section \<open>Storing a message\<close>

fun save_attachments :: "string \<Rightarrow> nat \<Rightarrow> nat \<Rightarrow> parsed_attachment list \<Rightarrow> disk \<times> db \<Rightarrow> disk \<times> db" where
  "save_attachments base uid mid [] (dk, d) = (dk, d)"
| "save_attachments base uid mid (a # as) (dk, d) =
     (case storage_save base (pa_file_name a) (pa_data a) dk of
        (Inl _, dk1) \<Rightarrow> save_attachments base uid mid as (dk1, d)
      | (Inr path, dk1) \<Rightarrow>
          (let rec = \<lparr>a_id = 0, a_message_id = mid, a_file_name = pa_file_name a, a_file_path = path,
                      a_content_type = pa_content_type a, a_file_size = int (length (pa_data a))\<rparr>
           in case attachments_create rec d of
                (Inl _, d1) \<Rightarrow> save_attachments base uid mid as (dk1, d1)
              | (Inr _, d1) \<Rightarrow>
                  save_attachments base uid mid as (dk1, snd (users_update_used_bytes uid (a_file_size rec) d1))))"

definition message_row :: "nat \<Rightarrow> string \<Rightarrow> parsed_message \<Rightarrow> string \<Rightarrow> bool \<Rightarrow> message" where
  "message_row uid folder p data read =
     \<lparr>m_id = 0, m_user_id = uid, m_message_id = pr_message_id p, m_folder = folder, m_from_addr = pr_from_addr p,
      m_to_addr = pr_to_addr p, m_cc_addr = pr_cc_addr p, m_subject = pr_subject p, m_text_body = pr_text_body p,
      m_html_body = pr_html_body p, m_raw_data = data, m_is_read = read, m_is_flagged = False, m_is_deleted = False,
      m_date = pr_date p, m_created_at = 0\<rparr>"

definition save_message ::
  "smtp_server \<Rightarrow> gotime \<Rightarrow> nat \<Rightarrow> string \<Rightarrow> parsed_message \<Rightarrow> string \<Rightarrow> bool \<Rightarrow> smtp_world \<Rightarrow>
   message result \<times> smtp_world" where
  "save_message srv now uid folder p data read w =
     (case mails_create now (message_row uid folder p data read) (sw_db w) of
        (Inl e, d1) \<Rightarrow> (Inl e, w\<lparr>sw_db := d1\<rparr>)
      | (Inr m, d1) \<Rightarrow>
          (let (dk, d2) = save_attachments (ss_base_dir srv) uid (m_id m) (pr_attachments p) (sw_disk w, d1)
           in (Inr m, w\<lparr>sw_disk := dk, sw_db := d2\<rparr>)))"

section \<open>\<open>Data\<close>\<close>

fun deliver_local ::
  "smtp_server \<Rightarrow> gotime \<Rightarrow> parsed_message \<Rightarrow> string \<Rightarrow> string list \<Rightarrow> smtp_world \<Rightarrow> nat \<times> smtp_world" where
  \<comment> \<open>how many local recipients got the message\<close>
  "deliver_local srv now p data [] w = (0, w)"
| "deliver_local srv now p data (rcpt # rs) w =
     (case local_user_by_email rcpt (sw_db w) of
        (Inl _, d1) \<Rightarrow> deliver_local srv now p data rs (w\<lparr>sw_db := d1\<rparr>)
      | (Inr u, d1) \<Rightarrow>
          (case save_message srv now (u_id u) ''INBOX'' p data False (w\<lparr>sw_db := d1\<rparr>) of
             (Inl _, w1) \<Rightarrow> deliver_local srv now p data rs w1
           | (Inr m, w1) \<Rightarrow>
               (let w2 = (if ss_pusher srv
                          then w1\<lparr>sw_pushed := sw_pushed w1 @
                                   [Push_New (u_username u @ ''@'' @ d_name (u_domain u)) m]\<rparr>
                          else w1);
                    (n, w3) = deliver_local srv now p data rs w2
                in (Suc n, w3))))"

fun queue_external ::
  "smtp_server \<Rightarrow> outbound_config \<Rightarrow> gotime \<Rightarrow> user option \<Rightarrow> string \<Rightarrow> string \<Rightarrow> string list \<Rightarrow> smtp_world \<Rightarrow>
   smtp_error option \<times> nat \<times> smtp_world" where
  "queue_external srv cfg now u email data [] w = (None, 0, w)"
| "queue_external srv cfg now u email data (rcpt # rs) w =
     (let (uuid, dk) = next_uuid (sw_disk w)
      in case enqueue cfg (ss_parse_addr srv) (ss_sign srv) now uuid u email rcpt data (sw_limits w, sw_db w) of
           (Inl e, lim, d) \<Rightarrow> (Some (Queue_Failed rcpt e), 0, w\<lparr>sw_disk := dk, sw_limits := lim, sw_db := d\<rparr>)
         | (Inr _, lim, d) \<Rightarrow>
             (let (r, n, w1) = queue_external srv cfg now u email data rs
                                 (w\<lparr>sw_disk := dk, sw_limits := lim, sw_db := d\<rparr>)
              in (r, Suc n, w1)))"

definition finish_data ::
  "smtp_server \<Rightarrow> gotime \<Rightarrow> parsed_message \<Rightarrow> string \<Rightarrow> nat \<Rightarrow> nat \<Rightarrow> server_session \<Rightarrow> smtp_world \<Rightarrow>
   smtp_error option \<times> server_session \<times> smtp_world" where
  "finish_data srv now p data delivered queued s w =
     (let s1 = s\<lparr>sm_msg_count := sm_msg_count s + int queued\<rparr>;
          w1 = (if sm_authenticated s \<and> sm_user_id s \<noteq> 0 \<and> sm_mode s \<noteq> Inbound
                then snd (save_message srv now (sm_user_id s) ''Sent'' p data True w) else w)
      in (None,
          record_detail (''MAIL FROM:<'' @ sm_from s @ ''> RCPT'' @ (utf8 [195, 151]) @ show_nat (length (sm_rcpts s)) @
            ('' '' @ utf8 [230, 156, 172, 229, 156, 176, 230, 138, 149, 233, 128, 146]) @ show_nat delivered @ ('' '' @ utf8 [229, 164, 150, 229, 143, 145]) @ show_nat queued) s1, w1))"

text \<open>\<open>Data\<close> once the message is parsed: the local recipients, then the queue.\<close>

definition smtp_store ::
  "smtp_server \<Rightarrow> gotime \<Rightarrow> parsed_message \<Rightarrow> string \<Rightarrow> server_session \<Rightarrow> smtp_world \<Rightarrow>
   smtp_error option \<times> server_session \<times> smtp_world" where
  "smtp_store srv now p data s w =
     (let (delivered, w1) = deliver_local srv now p data (sm_local s) w;
          s1 = s\<lparr>sm_msg_count := sm_msg_count s + int delivered\<rparr>
      in if sm_external s = [] then finish_data srv now p data delivered 0 s1 w1
         else case ss_outbound srv of
             None \<Rightarrow> (Some Outbound_Unavailable, record_fail (utf8 [229, 164, 150, 233, 131, 168, 230, 138, 149, 233, 128, 146, 230, 156, 141, 229, 138, 161, 228, 184, 141, 229, 143, 175, 231, 148, 168]) s1, w1)
           | Some cfg \<Rightarrow>
               if oc_max_recipients cfg > 0 \<and> int (length (sm_external s)) > oc_max_recipients cfg
               then (Some (Too_Many_External (int (length (sm_external s))) (oc_max_recipients cfg)),
                     record_fail (utf8 [229, 164, 150, 233, 131, 168, 230, 148, 182, 228, 187, 182, 228, 186, 186, 230, 149, 176, 233, 135, 143, 232, 182, 133, 229, 135, 186, 233, 153, 144, 229, 136, 182]) s1, w1)
               else (case queue_external srv cfg now (sm_user s) (sm_email s) data (sm_external s) w1 of
                       (Some e, _, w2) \<Rightarrow> (Some e, record_fail (utf8 [229, 164, 150, 229, 143, 145, 233, 152, 159, 229, 136, 151, 230, 138, 149, 233, 128, 146, 229, 164, 177, 232, 180, 165]) s1, w2)
                     | (None, queued, w2) \<Rightarrow> finish_data srv now p data delivered queued s1 w2))"

definition smtp_data ::
  "smtp_server \<Rightarrow> gotime \<Rightarrow> string option \<Rightarrow> server_session \<Rightarrow> smtp_world \<Rightarrow> smtp_error option \<times> server_session \<times> smtp_world" where
  "smtp_data srv now body s w0 =
     (let w = w0\<lparr>sw_hub := conn_touch now (sm_handle s) (sw_hub w0)\<rparr>
      in if sm_rcpts s = [] then (Some No_Recipients, record_fail (utf8 [230, 156, 170, 230, 140, 135, 229, 174, 154, 230, 148, 182, 228, 187, 182, 228, 186, 186]) s, w)
         else case body of
             None \<Rightarrow> (Some Data_Unreadable, record_fail (utf8 [232, 175, 187, 229, 143, 150, 233, 130, 174, 228, 187, 182, 230, 149, 176, 230, 141, 174, 229, 164, 177, 232, 180, 165]) s, w)
           | Some data \<Rightarrow>
               (case parse_message (ss_mime srv) now data of
                  None \<Rightarrow> (Some Message_Unparsable, record_fail (utf8 [233, 130, 174, 228, 187, 182, 230, 160, 188, 229, 188, 143, 232, 167, 163, 230, 158, 144, 229, 164, 177, 232, 180, 165]) s, w)
                | Some p \<Rightarrow>
                    smtp_store srv now p data s w))"

definition smtp_reset :: "server_session \<Rightarrow> server_session" where
  "smtp_reset s = s\<lparr>sm_from := [], sm_rcpts := [], sm_local := [], sm_external := []\<rparr>"

section \<open>End of a session\<close>

definition smtp_log_entry :: "gotime \<Rightarrow> server_session \<Rightarrow> protocol_log" where
  "smtp_log_entry now s =
     (let success = (sm_fail_reason s = []);
          detail0 = join ''; '' (sm_detail s);
          username = (if sm_auth_username s = [] \<and> sm_email s \<noteq> [] then sm_email s else sm_auth_username s);
          detail = (if detail0 \<noteq> [] then detail0
                    else if sm_auth_tried s then (if sm_auth_ok s then (''AUTH '' @ utf8 [230, 136, 144, 229, 138, 159]) else (''AUTH '' @ utf8 [229, 164, 177, 232, 180, 165]))
                    else if success then (utf8 [232, 191, 158, 230, 142, 165, 229, 187, 186, 231, 171, 139, 239, 188, 140, 230, 151, 160, 233, 130, 174, 228, 187, 182, 230, 147, 141, 228, 189, 156])
                    else detail0)
      in \<lparr>p_id = 0, p_protocol = ''smtp'', p_port = sm_port s, p_client_ip = sm_ip s, p_username = username,
          p_success = (success \<and> \<not> (sm_auth_tried s \<and> \<not> sm_auth_ok s)), p_fail_reason = sm_fail_reason s,
          p_detail = detail, p_msg_count = sm_msg_count s, p_duration_ms = (now - sm_started s) div 1000000,
          p_created_at = now\<rparr>)"

definition smtp_logout :: "gotime \<Rightarrow> server_session \<Rightarrow> smtp_world \<Rightarrow> smtp_world" where
  "smtp_logout now s w =
     w\<lparr>sw_db := snd (logs_create now (smtp_log_entry now s) (sw_db w)),
       sw_hub := conn_close (sm_handle s) (sw_hub w)\<rparr>"

section \<open>Any sequence of calls\<close>

datatype smtp_call =
    Call_Auth string string string
  | Call_Mail string
  | Call_Rcpt string
  | Call_Data "string option"
  | Call_Reset

definition smtp_step ::
  "smtp_server \<Rightarrow> gotime \<Rightarrow> smtp_call \<Rightarrow> server_session \<Rightarrow> smtp_world \<Rightarrow> smtp_error option \<times> server_session \<times> smtp_world" where
  "smtp_step srv now c s w =
     (case c of
        Call_Auth mech u p \<Rightarrow> smtp_auth srv now mech u p s w
      | Call_Mail a \<Rightarrow> (let (r, s1) = smtp_mail a s in (r, s1, w))
      | Call_Rcpt a \<Rightarrow> smtp_rcpt srv a s w
      | Call_Data body \<Rightarrow> smtp_data srv now body s w
      | Call_Reset \<Rightarrow> (None, smtp_reset s, w))"

fun smtp_calls ::
  "smtp_server \<Rightarrow> (gotime \<times> smtp_call) list \<Rightarrow> server_session \<Rightarrow> smtp_world \<Rightarrow> server_session \<times> smtp_world" where
  "smtp_calls srv [] s w = (s, w)"
| "smtp_calls srv ((now, c) # cs) s w =
     (let (r, s1, w1) = smtp_step srv now c s w in smtp_calls srv cs s1 w1)"

definition smtp_connection ::
  "smtp_server \<Rightarrow> smtp_mode \<Rightarrow> gotime \<Rightarrow> string option \<Rightarrow> bool \<Rightarrow> nat \<Rightarrow> (gotime \<times> smtp_call) list \<Rightarrow> gotime \<Rightarrow>
   smtp_world \<Rightarrow> server_session \<times> smtp_world" where
  "smtp_connection srv mode now remote_addr tls socket cs end w =
     (let (s0, w0) = new_session srv mode now remote_addr tls socket w;
          (s1, w1) = smtp_calls srv cs s0 w0
      in (s1, smtp_logout end s1 w1))"

section \<open>What a session can do to the database\<close>

definition acct :: "user \<Rightarrow> user" where
  \<comment> \<open>the columns of an account, its usage counter aside (the association is no column)\<close>
  "acct u = u\<lparr>u_domain := zero_domain, u_used_bytes := 0\<rparr>"

definition core :: "db \<Rightarrow> user list \<times> domain list \<times> mailbox list \<times> mailbox_state list \<times> message list \<times> outbound_message list" where
  "core s = (map acct (db_users s), db_domains s, db_mailboxes s, db_mailbox_states s, db_messages s, db_outbound s)"

text \<open>The credentials offered in a sequence of calls, and the accounts they open.\<close>

definition offers_of :: "(gotime \<times> smtp_call) list \<Rightarrow> (string \<times> string) set" where
  "offers_of cs = {(u, p). \<exists>now mech. (now, Call_Auth mech u p) \<in> set cs}"

definition smtp_login :: "smtp_server \<Rightarrow> (string \<times> string) set \<Rightarrow> db \<Rightarrow> user \<Rightarrow> bool" where
  "smtp_login srv offers s0 u \<longleftrightarrow> u_is_active u \<and> acct u \<in> acct ` set (db_users s0) \<and>
     (\<exists>(name, pw) \<in> offers. login_refers s0 name u \<and> ss_check_pw srv (u_password_hash u) pw)"

definition account_email :: "db \<Rightarrow> user \<Rightarrow> string \<Rightarrow> bool" where
  \<comment> \<open>the address of an account: its name, and the name of a row of the domains table that it refers to\<close>
  "account_email s u e \<longleftrightarrow>
     (\<exists>d \<in> set (db_domains s). d_id d = u_domain_id u \<and> d_name d \<noteq> [] \<and> e = u_username u @ ''@'' @ d_name d)"

definition opened_by :: "smtp_server \<Rightarrow> (gotime \<times> smtp_call) list \<Rightarrow> db \<Rightarrow> user \<Rightarrow> bool" where
  \<comment> \<open>an active row of the users table, whose name and password were offered in one of the calls\<close>
  "opened_by srv cs s v \<longleftrightarrow> v \<in> set (db_users s) \<and> u_is_active v \<and>
     (\<exists>now mech name pw. (now, Call_Auth mech name pw) \<in> set cs \<and> login_refers s name v \<and>
        ss_check_pw srv (u_password_hash v) pw)"

definition new_mail_ok :: "smtp_server \<Rightarrow> (string \<times> string) set \<Rightarrow> db \<Rightarrow> message \<Rightarrow> bool" where
  "new_mail_ok srv offers s0 m \<longleftrightarrow>
     m_folder m = ''INBOX'' \<and> m_user_id m \<in> u_id ` set (db_users s0) \<or>
     m_folder m = ''Sent'' \<and> (\<exists>u. smtp_login srv offers s0 u \<and> m_user_id m = u_id u)"

definition new_item_ok :: "smtp_server \<Rightarrow> (string \<times> string) set \<Rightarrow> db \<Rightarrow> outbound_message \<Rightarrow> bool" where
  "new_item_ok srv offers s0 o' \<longleftrightarrow>
     (\<exists>u. smtp_login srv offers s0 u \<and> o_user_id o' = u_id u \<and> account_email s0 u (o_from_addr o'))"

definition grows :: "smtp_server \<Rightarrow> (string \<times> string) set \<Rightarrow> db \<Rightarrow> db \<Rightarrow> bool" where
  "grows srv offers s0 s \<longleftrightarrow> (\<exists>ms os.
     core s = (map acct (db_users s0), db_domains s0, db_mailboxes s0, db_mailbox_states s0,
               db_messages s0 @ ms, db_outbound s0 @ os) \<and>
     (\<forall>m \<in> set ms. new_mail_ok srv offers s0 m) \<and> (\<forall>x \<in> set os. new_item_ok srv offers s0 x))"

definition session_ok :: "smtp_server \<Rightarrow> (string \<times> string) set \<Rightarrow> db \<Rightarrow> server_session \<Rightarrow> bool" where
  "session_ok srv offers s0 s \<longleftrightarrow> (sm_external s \<noteq> [] \<longrightarrow> sm_authenticated s) \<and>
     (sm_authenticated s \<longrightarrow> (\<exists>u. sm_user s = Some u \<and> smtp_login srv offers s0 u \<and> sm_user_id s = u_id u \<and>
        account_email s0 u (sm_email s)))"

lemma core_tables [simp]: "core (tables s) = core s"
  by (simp add: core_def)

lemma core_cong: "tables s = tables t \<Longrightarrow> core s = core t"
  by (metis core_tables)

lemma core_but [simp]: "core (but_ledgers s) = core s"
  by (simp add: core_def but_ledgers_sel)

lemma core_but_cong: "but_ledgers s = but_ledgers t \<Longrightarrow> core s = core t"
  by (metis core_but)

lemma core_tick [simp]: "core (tick s) = core s"
  by (simp add: core_def)

lemma grows_refl [simp]: "grows srv offers s s"
  unfolding grows_def by (intro exI [of _ "[]"]) (simp add: core_def)

lemma grows_core: "grows srv offers s0 s \<Longrightarrow> core s' = core s \<Longrightarrow> grows srv offers s0 s'"
  by (simp add: grows_def)

lemma grows_accounts:
  assumes "grows srv offers s0 s"
  shows "map acct (db_users s) = map acct (db_users s0)" and "db_domains s = db_domains s0"
  using assms by (auto simp: grows_def core_def)

lemma acct_fields:
  assumes "acct u = acct v"
  shows "u_id u = u_id v" "u_username u = u_username v" "u_domain_id u = u_domain_id v"
    "u_is_active u = u_is_active v" "u_password_hash u = u_password_hash v"
  using assms unfolding acct_def by (cases u; cases v; simp)+

lemma smtp_login_opened:
  assumes "smtp_login srv (offers_of cs) s u"
  shows "\<exists>v. opened_by srv cs s v \<and> u_id v = u_id u \<and> (\<forall>e. account_email s u e \<longrightarrow> account_email s v e)"
proof -
  from assms obtain v name pw where v: "v \<in> set (db_users s)" "acct u = acct v" and "(name, pw) \<in> offers_of cs"
    and l: "login_refers s name u" "ss_check_pw srv (u_password_hash u) pw" "u_is_active u"
    by (auto simp: smtp_login_def)
  then obtain now mech where "(now, Call_Auth mech name pw) \<in> set cs" by (auto simp: offers_of_def)
  moreover note f = acct_fields [OF v(2)]
  moreover have "login_refers s name v"
    using l(1) unfolding login_refers_def in_domain_def domain_of_def f(2,3) .
  ultimately show ?thesis using v(1) l(2,3) unfolding opened_by_def account_email_def by (intro exI [of _ v]) auto
qed

lemma same_account_acct: "same_account u v \<Longrightarrow> acct u = acct v"
  unfolding same_account_def acct_def by (cases u; cases v) simp

lemma domains_login_refers:
  assumes "db_domains s = db_domains t" and "u_username u = u_username v" and "u_domain_id u = u_domain_id v"
  shows "login_refers s name u = login_refers t name v"
  unfolding login_refers_def in_domain_def domain_of_def assms ..

lemma guarded_login_smtp:
  assumes "guarded_login (ss_check_pw srv) bc now ip name pw s = (Some u, s')" and "(name, pw) \<in> offers"
    and "grows srv offers s0 s"
  shows "smtp_login srv offers s0 u"
proof -
  from guarded_login_Some [OF assms(1)] obtain v where v: "v \<in> set (db_users s)" "same_account u v" "login_refers s name v"
    and u: "u_is_active u" "ss_check_pw srv (u_password_hash u) pw" by blast
  note a = same_account_acct [OF v(2)]
  have "acct u \<in> acct ` set (db_users s0)"
    using v(1) a grows_accounts(1) [OF assms(3)] by (metis image_eqI list.set_map)
  moreover have "login_refers s0 name u"
    using v(3) domains_login_refers [OF grows_accounts(2) [OF assms(3)], of v u name] acct_fields [OF a] by simp
  ultimately show ?thesis using u assms(2) unfolding smtp_login_def by blast
qed

lemma account_domain_result:
  assumes "account_domain u s = (dn, s')"
  shows "tables s' = tables s"
    and "dn \<noteq> [] \<Longrightarrow> domain_loaded s u \<Longrightarrow> account_email s u (u_username u @ ''@'' @ dn)"
proof -
  show "tables s' = tables s"
    using assms by (auto simp: account_domain_def domains_get_by_id_def stmt_results split: if_splits prod.splits sum.splits)
  assume "dn \<noteq> []" "domain_loaded s u"
  then show "account_email s u (u_username u @ ''@'' @ dn)"
    using assms unfolding account_email_def domain_loaded_def
    by (auto simp: account_domain_def domains_get_by_id_def stmt_results zero_domain_def
        split: if_splits prod.splits sum.splits dest!: find_Some_iff)
qed

lemma local_user_result:
  assumes "local_user_by_email a s = (r, s')"
  shows "tables s' = tables s" and "r = Inr u \<Longrightarrow> u_id u \<in> u_id ` set (db_users s)"
proof -
  show "tables s' = tables s" using assms users_get_by_email_frame by (auto simp: local_user_by_email_def)
  assume "r = Inr u"
  with assms obtain v where "v \<in> set (db_users s)" "same_account u v"
    unfolding local_user_by_email_def using users_get_by_email_Inr by blast
  then show "u_id u \<in> u_id ` set (db_users s)" using same_account_fields(1) by blast
qed

lemma save_attachments_core:
  "save_attachments base uid mid as (dk, d) = (dk', d') \<Longrightarrow> core d' = core d"
proof (induction base uid mid as "(dk, d)" arbitrary: dk d rule: save_attachments.induct)
  case (1 base uid mid dk d)
  then show ?case by simp
next
  case (2 base uid mid a as dk d)
  obtain r dk1 where s: "storage_save base (pa_file_name a) (pa_data a) dk = (r, dk1)"
    by (cases "storage_save base (pa_file_name a) (pa_data a) dk")
  show ?case
  proof (cases r)
    case (Inl e)
    then show ?thesis using 2(1) 2(4) s by simp
  next
    case (Inr path)
    let ?rec = "\<lparr>a_id = 0, a_message_id = mid, a_file_name = pa_file_name a, a_file_path = path,
      a_content_type = pa_content_type a, a_file_size = int (length (pa_data a))\<rparr>"
    obtain q d1 where c: "attachments_create ?rec d = (q, d1)" by (cases "attachments_create ?rec d")
    have d1: "core d1 = core d"
      using c by (auto simp: attachments_create_def db_stmt_def Let_def core_def split: if_splits)
    have upd: "core (snd (users_update_used_bytes uid n d1)) = core d1" for n
      by (auto simp: users_update_used_bytes_def db_exec_def db_stmt_def core_def upd_users_def acct_def)
    show ?thesis
      using 2(2,3) [OF s [symmetric] Inr refl c [symmetric]] 2(4) s Inr c d1 upd
      by (cases q) (simp_all add: Let_def)
  qed
qed

lemma save_message_grows:
  assumes "save_message srv now uid folder p data read w = (r, w')" and "grows srv offers s0 (sw_db w)"
    and "folder = ''INBOX'' \<and> uid \<in> u_id ` set (db_users s0) \<or>
      folder = ''Sent'' \<and> (\<exists>u. smtp_login srv offers s0 u \<and> uid = u_id u)"
  shows "grows srv offers s0 (sw_db w') \<and> sw_pushed w' = sw_pushed w"
proof -
  obtain q d1 where c: "mails_create now (message_row uid folder p data read) (sw_db w) = (q, d1)"
    by (cases "mails_create now (message_row uid folder p data read) (sw_db w)")
  have "grows srv offers s0 d1"
  proof (cases q)
    case (Inl e)
    with c have "tables d1 = tables (sw_db w)" by (simp add: mails_create_Inl)
    with assms(2) show ?thesis by (auto intro: grows_core core_cong)
  next
    case (Inr m)
    with c have m: "m = new_message now (message_row uid folder p data read) (sw_db w)" and d1: "d1 = insert_message m (tick (sw_db w))"
      by (simp_all add: mails_create_Inr)
    from assms(2) obtain ms os where g: "core (sw_db w) = (map acct (db_users s0), db_domains s0, db_mailboxes s0,
        db_mailbox_states s0, db_messages s0 @ ms, db_outbound s0 @ os)"
      "\<forall>m \<in> set ms. new_mail_ok srv offers s0 m" "\<forall>x \<in> set os. new_item_ok srv offers s0 x"
      by (auto simp: grows_def)
    have "m_folder m = folder" "m_user_id m = uid" using m assms(3) by (auto simp: message_row_def)
    then have "new_mail_ok srv offers s0 m" using assms(3) by (auto simp: new_mail_ok_def)
    then show ?thesis
      using g unfolding grows_def d1
      by (intro exI [of _ "ms @ [m]"] exI [of _ os]) (auto simp: core_def insert_message_def)
  qed
  then show ?thesis
    using assms(1) c
    by (auto simp: save_message_def split: sum.splits prod.splits dest!: save_attachments_core intro: grows_core)
qed

lemma deliver_local_grows:
  "deliver_local srv now p data rs w = (n, w') \<Longrightarrow> grows srv offers s0 (sw_db w) \<Longrightarrow>
   grows srv offers s0 (sw_db w')"
proof (induction srv now p data rs w arbitrary: n w' rule: deliver_local.induct)
  case (1 srv now p data w)
  then show ?case by simp
next
  case (2 srv now p data rcpt rs w)
  obtain r d1 where l: "local_user_by_email rcpt (sw_db w) = (r, d1)" by (cases "local_user_by_email rcpt (sw_db w)")
  note lu = local_user_result [OF l]
  have g1: "grows srv offers s0 d1" using 2(5) lu(1) by (auto intro: grows_core core_cong)
  show ?case
  proof (cases r)
    case (Inl e)
    then show ?thesis using 2(1) [OF l [symmetric] Inl] 2(4) l g1 by simp
  next
    case (Inr u)
    let ?w1 = "w\<lparr>sw_db := d1\<rparr>"
    obtain q w1 where s: "save_message srv now (u_id u) ''INBOX'' p data False ?w1 = (q, w1)"
      by (cases "save_message srv now (u_id u) ''INBOX'' p data False ?w1")
    have "u_id u \<in> u_id ` set (db_users s0)"
    proof -
      have "u_id ` set (db_users (sw_db w)) = u_id ` acct ` set (db_users (sw_db w))"
        by (simp add: image_image acct_def)
      also have "\<dots> = u_id ` acct ` set (db_users s0)"
        using grows_accounts(1) [OF 2(5)] by (metis list.set_map)
      also have "\<dots> = u_id ` set (db_users s0)" by (simp add: image_image acct_def)
      finally show ?thesis using lu(2) [OF Inr] by simp
    qed
    then have g2: "grows srv offers s0 (sw_db w1)" using save_message_grows [OF s] g1 by simp
    show ?thesis
    proof (cases q)
      case (Inl e)
      then show ?thesis using 2(2) [OF l [symmetric] Inr s [symmetric] Inl] 2(4) l s Inr g2 by simp
    next
      case (Inr m)
      let ?w2 = "if ss_pusher srv then w1\<lparr>sw_pushed := sw_pushed w1 @ [Push_New (u_username u @ ''@'' @ d_name (u_domain u)) m]\<rparr> else w1"
      obtain n3 w3 where d: "deliver_local srv now p data rs ?w2 = (n3, w3)" by (cases "deliver_local srv now p data rs ?w2")
      have "w' = w3" using 2(4) l s \<open>r = Inr u\<close> Inr d by (auto simp: Let_def)
      moreover have "grows srv offers s0 (sw_db ?w2)" using g2 by simp
      ultimately show ?thesis
        using 2(3) [OF l [symmetric] \<open>r = Inr u\<close> s [symmetric] Inr refl d] by simp
    qed
  qed
qed

lemma enqueue_grows:
  assumes "enqueue cfg pa sg now uuid (Some u) email rcpt data (lim, s) = (r, lim', s')"
    and "grows srv offers s0 s" and "smtp_login srv offers s0 u" and "account_email s0 u email"
  shows "grows srv offers s0 s'"
  using enqueue_cases [OF assms(1)]
proof (elim disjE exE conjE)
  assume "tables s' = tables s"
  with assms(2) show ?thesis by (auto intro: grows_core core_cong)
next
  fix m s2 assume m: "tables s2 = tables s" "s' = insert_outbound m s2"
    "o_user_id m = user_id_or_zero (Some u)" "o_from_addr m = email"
  from assms(2) obtain ms os where g: "core s = (map acct (db_users s0), db_domains s0, db_mailboxes s0,
        db_mailbox_states s0, db_messages s0 @ ms, db_outbound s0 @ os)"
      "\<forall>m \<in> set ms. new_mail_ok srv offers s0 m" "\<forall>x \<in> set os. new_item_ok srv offers s0 x"
    by (auto simp: grows_def)
  have "core s2 = core s" using m(1) by (rule core_cong)
  moreover have "new_item_ok srv offers s0 m"
    using m(3,4) assms(3,4) by (auto simp: new_item_ok_def user_id_or_zero_def)
  ultimately show ?thesis
    using g unfolding grows_def m(2)
    by (intro exI [of _ ms] exI [of _ "os @ [m]"]) (auto simp: core_def insert_outbound_def)
qed

lemma queue_external_grows:
  "queue_external srv cfg now (Some u) email data rs w = (r, n, w') \<Longrightarrow> grows srv offers s0 (sw_db w) \<Longrightarrow>
   smtp_login srv offers s0 u \<Longrightarrow> account_email s0 u email \<Longrightarrow> grows srv offers s0 (sw_db w')"
proof (induction rs arbitrary: r n w w')
  case Nil
  then show ?case by simp
next
  case (Cons rcpt rs)
  obtain uuid dk where d: "next_uuid (sw_disk w) = (uuid, dk)" by (cases "next_uuid (sw_disk w)")
  obtain q lim dd where e: "enqueue cfg (ss_parse_addr srv) (ss_sign srv) now uuid (Some u) email rcpt data (sw_limits w, sw_db w) = (q, lim, dd)"
    by (metis prod.collapse)
  have g: "grows srv offers s0 dd" using enqueue_grows [OF e Cons.prems(2-4)] .
  show ?case
  proof (cases q)
    case (Inl x)
    with Cons.prems(1) d e g show ?thesis by (auto simp: Let_def)
  next
    case (Inr x)
    let ?w1 = "w\<lparr>sw_disk := dk, sw_limits := lim, sw_db := dd\<rparr>"
    obtain r1 n1 w1 where c: "queue_external srv cfg now (Some u) email data rs ?w1 = (r1, n1, w1)"
      by (metis prod.collapse)
    have "w' = w1" using Cons.prems(1) d e Inr c by (auto simp: Let_def)
    then show ?thesis using Cons.IH [OF c _ Cons.prems(3,4)] g by simp
  qed
qed

lemma session_ok_record [simp]:
  "session_ok srv offers s0 (record_fail r s) = session_ok srv offers s0 s"
  "session_ok srv offers s0 (record_detail t s) = session_ok srv offers s0 s"
  "session_ok srv offers s0 (s\<lparr>sm_msg_count := k\<rparr>) = session_ok srv offers s0 s"
  by (simp_all add: session_ok_def record_fail_def record_detail_def)

lemma finish_data_grows:
  assumes "finish_data srv now p data a b s w = (r, s', w')" and "grows srv offers s0 (sw_db w)"
    and "session_ok srv offers s0 s"
  shows "grows srv offers s0 (sw_db w') \<and> session_ok srv offers s0 s'"
proof -
  have "grows srv offers s0 (sw_db (snd (save_message srv now (sm_user_id s) ''Sent'' p data True w)))"
    if "sm_authenticated s"
  proof -
    have "\<exists>u. smtp_login srv offers s0 u \<and> sm_user_id s = u_id u" using that assms(3) by (auto simp: session_ok_def)
    then show ?thesis using save_message_grows [OF surjective_pairing assms(2)] by auto
  qed
  with assms show ?thesis by (auto simp: finish_data_def Let_def split: if_splits)
qed

lemma smtp_store_grows:
  assumes "smtp_store srv now p data s w = (r, s', w')" and "grows srv offers s0 (sw_db w)"
    and "session_ok srv offers s0 s"
  shows "grows srv offers s0 (sw_db w') \<and> session_ok srv offers s0 s'"
proof -
  obtain n w1 where d: "deliver_local srv now p data (sm_local s) w = (n, w1)"
    by (cases "deliver_local srv now p data (sm_local s) w")
  let ?s1 = "s\<lparr>sm_msg_count := sm_msg_count s + int n\<rparr>"
  have g1: "grows srv offers s0 (sw_db w1)" using deliver_local_grows [OF d assms(2)] .
  have s1: "session_ok srv offers s0 ?s1" using assms(3) by simp
  note eq = assms(1) [unfolded smtp_store_def d Let_def prod.case]
  show ?thesis
  proof (cases "sm_external s = []")
    case True
    with eq have "finish_data srv now p data n 0 ?s1 w1 = (r, s', w')" by simp
    from finish_data_grows [OF this g1 s1] show ?thesis .
  next
    case ext: False
    show ?thesis
    proof (cases "ss_outbound srv")
      case None
      with eq ext g1 s1 show ?thesis by auto
    next
      case (Some cfg)
      show ?thesis
      proof (cases "oc_max_recipients cfg > 0 \<and> int (length (sm_external s)) > oc_max_recipients cfg")
        case True
        with eq ext Some g1 s1 show ?thesis by auto
      next
        case lim: False
        from ext assms(3) obtain u where u: "sm_user s = Some u" "smtp_login srv offers s0 u" "account_email s0 u (sm_email s)"
          by (auto simp: session_ok_def)
        obtain q k w2 where x: "queue_external srv cfg now (sm_user s) (sm_email s) data (sm_external s) w1 = (q, k, w2)"
          by (metis prod.collapse)
        have g2: "grows srv offers s0 (sw_db w2)" using queue_external_grows [OF x [unfolded u(1)] g1 u(2,3)] .
        show ?thesis
        proof (cases q)
          case (Some e)
          with eq ext \<open>ss_outbound srv = Some cfg\<close> lim x g2 s1 show ?thesis by auto
        next
          case None
          with eq ext Some lim x have "finish_data srv now p data n k ?s1 w2 = (r, s', w')" by auto
          from finish_data_grows [OF this g2 s1] show ?thesis .
        qed
      qed
    qed
  qed
qed

lemma smtp_data_grows:
  assumes "smtp_data srv now body s w = (r, s', w')" and "grows srv offers s0 (sw_db w)"
    and "session_ok srv offers s0 s"
  shows "grows srv offers s0 (sw_db w') \<and> session_ok srv offers s0 s'"
proof -
  let ?w = "w\<lparr>sw_hub := conn_touch now (sm_handle s) (sw_hub w)\<rparr>"
  have g: "grows srv offers s0 (sw_db ?w)" using assms(2) by simp
  show ?thesis
    using assms(1) g assms(3) smtp_store_grows [OF _ g assms(3)]
    unfolding smtp_data_def Let_def by (auto split: if_splits option.splits)
qed

lemma smtp_auth_grows:
  assumes "smtp_auth srv now mech name pw s w = (r, s', w')" and "grows srv offers s0 (sw_db w)"
    and "session_ok srv offers s0 s" and "(name, pw) \<in> offers"
  shows "grows srv offers s0 (sw_db w') \<and> session_ok srv offers s0 s'"
proof (cases "mech = ''PLAIN''")
  case False
  with assms show ?thesis by (auto simp: smtp_auth_def)
next
  case True
  obtain b d1 where b: "bans_is_banned now (sm_ip s) (sw_db w) = (b, d1)" by (cases "bans_is_banned now (sm_ip s) (sw_db w)")
  have g1: "grows srv offers s0 d1"
    using grows_core [OF assms(2) core_but_cong] bans_is_banned_but [of now "sm_ip s" "sw_db w"] b by simp
  obtain q d2 where l: "guarded_login (ss_check_pw srv) (ss_ban srv) now (sm_ip s) name pw d1 = (q, d2)"
    by (cases "guarded_login (ss_check_pw srv) (ss_ban srv) now (sm_ip s) name pw d1")
  have g2: "grows srv offers s0 d2"
    using grows_core [OF g1 core_but_cong] guarded_login_but [of "ss_check_pw srv" "ss_ban srv" now "sm_ip s" name pw d1] l by simp
  have s1: "session_ok srv offers s0 (s\<lparr>sm_auth_tried := True, sm_auth_username := name\<rparr>)"
    using assms(3) by (simp add: session_ok_def)
  show ?thesis
  proof (cases "\<exists>e. b = Some e")
    case True
    with assms(1) \<open>mech = ''PLAIN''\<close> b g1 s1 show ?thesis by (auto simp: smtp_auth_def Let_def)
  next
    case nb: False
    show ?thesis
    proof (cases q)
      case None
      with assms(1) \<open>mech = ''PLAIN''\<close> b nb l g2 s1 show ?thesis by (auto simp: smtp_auth_def Let_def)
    next
      case (Some u)
      obtain dn d3 where a: "account_domain u d2 = (dn, d3)" by (cases "account_domain u d2")
      note ad = account_domain_result [OF a]
      have g3: "grows srv offers s0 d3" using grows_core [OF g2 core_cong [OF ad(1)]] .
      have lg: "smtp_login srv offers s0 u" by (rule guarded_login_smtp [OF l [unfolded Some] assms(4) g1])
      have em: "account_email s0 u (u_username u @ ''@'' @ dn)" if "dn \<noteq> []"
      proof -
        have "db_domains d2 = db_domains d1"
          using guarded_login_but [of "ss_check_pw srv" "ss_ban srv" now "sm_ip s" name pw d1] l by (auto dest: but_ledgersD(2))
        then have "domain_loaded d2 u" using guarded_login_loaded [OF l [unfolded Some]] by (simp add: domain_loaded_def)
        from ad(2) [OF that this] show ?thesis using grows_accounts(2) [OF g2] by (simp add: account_email_def)
      qed
      show ?thesis
      proof (cases "dn = []")
        case True
        with assms(1) \<open>mech = ''PLAIN''\<close> b nb l Some a g3 s1 show ?thesis by (auto simp: smtp_auth_def Let_def)
      next
        case False
        with assms(1) \<open>mech = ''PLAIN''\<close> b nb l Some a g3 lg em show ?thesis
          by (auto simp: smtp_auth_def Let_def session_ok_def)
      qed
    qed
  qed
qed

lemma smtp_step_grows:
  assumes "smtp_step srv now c s w = (r, s', w')" and "grows srv offers s0 (sw_db w)"
    and "session_ok srv offers s0 s" and "offers_of [(now, c)] \<subseteq> offers"
  shows "grows srv offers s0 (sw_db w') \<and> session_ok srv offers s0 s'"
proof (cases c)
  case (Call_Auth mech u p)
  then have "(u, p) \<in> offers" using assms(4) by (auto simp: offers_of_def)
  with smtp_auth_grows [OF _ assms(2,3)] assms(1) Call_Auth show ?thesis by (simp add: smtp_step_def)
next
  case (Call_Mail a)
  with assms show ?thesis
    by (auto simp: smtp_step_def Let_def smtp_mail_def session_ok_def record_fail_def split: prod.splits if_splits)
next
  case (Call_Rcpt a)
  obtain q d1 where l: "local_user_by_email (trim_space a) (sw_db w) = (q, d1)"
    by (cases "local_user_by_email (trim_space a) (sw_db w)")
  have "grows srv offers s0 d1" using grows_core [OF assms(2) core_cong [OF local_user_result(1) [OF l]]] .
  with Call_Rcpt assms l show ?thesis
    by (auto simp: smtp_step_def Let_def smtp_rcpt_def session_ok_def record_fail_def split: sum.splits if_splits)
next
  case (Call_Data body)
  with assms show ?thesis by (auto simp: smtp_step_def dest: smtp_data_grows)
next
  case Call_Reset
  with assms show ?thesis by (auto simp: smtp_step_def smtp_reset_def session_ok_def)
qed

lemma smtp_calls_grows:
  "smtp_calls srv cs s w = (s', w') \<Longrightarrow> grows srv offers s0 (sw_db w) \<Longrightarrow> session_ok srv offers s0 s \<Longrightarrow>
   offers_of cs \<subseteq> offers \<Longrightarrow> grows srv offers s0 (sw_db w') \<and> session_ok srv offers s0 s'"
proof (induction srv cs s w rule: smtp_calls.induct)
  case (1 srv s w)
  then show ?case by simp
next
  case (2 srv now c cs s w)
  obtain r s1 w1 where st: "smtp_step srv now c s w = (r, s1, w1)" by (metis prod.collapse)
  have "offers_of [(now, c)] \<subseteq> offers" "offers_of cs \<subseteq> offers" using 2(5) by (auto simp: offers_of_def)
  with smtp_step_grows [OF st 2(3,4)] 2(1) [OF st [symmetric] refl refl] 2(2) st show ?case by simp
qed

section \<open>Properties of a session\<close>

text \<open>C1: no open relay and no spoofing through the queue. Whatever calls are made on a connection, in
  whatever order, with whatever failing statements and files: domains and folders stay as they were,
  accounts too but for their usage counters, and no stored message or queued item is touched. Every
  item added to the outbound queue belongs to an active row of the users table for which a name that
  stands for it was offered on this connection together with its password, and the sender of the
  item is that row's user name at the name of the domain row it refers to; every message added is
  in the inbox of an account, or in the Sent folder of such a row.\<close>

theorem smtp_no_open_relay:
  assumes "smtp_connection srv mode now remote tls socket cs end w = (s', w')"
  shows "\<exists>ms os.
    map acct (db_users (sw_db w')) = map acct (db_users (sw_db w)) \<and> db_domains (sw_db w') = db_domains (sw_db w) \<and>
    db_mailboxes (sw_db w') = db_mailboxes (sw_db w) \<and>
    db_messages (sw_db w') = db_messages (sw_db w) @ ms \<and> db_outbound (sw_db w') = db_outbound (sw_db w) @ os \<and>
    (\<forall>m \<in> set ms. m_folder m = ''INBOX'' \<and> m_user_id m \<in> u_id ` set (db_users (sw_db w)) \<or>
       m_folder m = ''Sent'' \<and> (\<exists>v. opened_by srv cs (sw_db w) v \<and> m_user_id m = u_id v)) \<and>
    (\<forall>x \<in> set os. \<exists>v. opened_by srv cs (sw_db w) v \<and> o_user_id x = u_id v \<and>
       (\<exists>d \<in> set (db_domains (sw_db w)). d_id d = u_domain_id v \<and> d_name d \<noteq> [] \<and>
          o_from_addr x = u_username v @ ''@'' @ d_name d))"
proof -
  obtain s0 w0 where n: "new_session srv mode now remote tls socket w = (s0, w0)"
    by (cases "new_session srv mode now remote tls socket w")
  obtain s1 w1 where c: "smtp_calls srv cs s0 w0 = (s1, w1)" by (cases "smtp_calls srv cs s0 w0")
  have "sw_db w0 = sw_db w" "session_ok srv (offers_of cs) (sw_db w) s0"
    using n by (auto simp: new_session_def Let_def session_ok_def split: prod.splits)
  with smtp_calls_grows [OF c] have g: "grows srv (offers_of cs) (sw_db w) (sw_db w1)" by simp
  have "w' = smtp_logout end s1 w1" using assms n c by (auto simp: smtp_connection_def Let_def)
  then have "core (sw_db w') = core (sw_db w1)"
    using core_but_cong [OF logs_create_but] by (simp add: smtp_logout_def)
  with grows_core [OF g] have "grows srv (offers_of cs) (sw_db w) (sw_db w')" by simp
  then obtain ms os where core: "core (sw_db w') = (map acct (db_users (sw_db w)), db_domains (sw_db w),
      db_mailboxes (sw_db w), db_mailbox_states (sw_db w), db_messages (sw_db w) @ ms, db_outbound (sw_db w) @ os)"
    and ms: "\<And>m. m \<in> set ms \<Longrightarrow> new_mail_ok srv (offers_of cs) (sw_db w) m"
    and os: "\<And>x. x \<in> set os \<Longrightarrow> new_item_ok srv (offers_of cs) (sw_db w) x"
    by (auto simp: grows_def)
  have "m_folder m = ''INBOX'' \<and> m_user_id m \<in> u_id ` set (db_users (sw_db w)) \<or>
      m_folder m = ''Sent'' \<and> (\<exists>v. opened_by srv cs (sw_db w) v \<and> m_user_id m = u_id v)" if "m \<in> set ms" for m
    using ms [OF that] smtp_login_opened unfolding new_mail_ok_def by metis
  moreover have "\<exists>v. opened_by srv cs (sw_db w) v \<and> o_user_id x = u_id v \<and> account_email (sw_db w) v (o_from_addr x)"
    if "x \<in> set os" for x
    using os [OF that] smtp_login_opened unfolding new_item_ok_def by metis
  ultimately show ?thesis
    using core unfolding core_def account_email_def by (intro exI [of _ ms] exI [of _ os]) simp
qed

text \<open>The guards of the envelope. A sender is accepted exactly when the listener is the inbound one or
  the session is logged in, and a logged-in session uses its own address (letter case and
  surrounding space aside); a recipient is accepted exactly when it is not empty and is either a
  local account or, for a logged-in session with the outbound manager enabled, any other address.
  A refusal leaves the envelope as it was.\<close>

theorem smtp_envelope_guards:
  "(fst (smtp_mail a s) = None \<longleftrightarrow>
      (if sm_authenticated s then equal_fold (trim_space a) (sm_email s) else sm_mode s = Inbound)) \<and>
   (fst (smtp_rcpt srv b s w) = None \<longleftrightarrow>
      trim_space b \<noteq> [] \<and>
      ((\<exists>u. fst (users_get_by_email (trim_space b) (sw_db w)) = Inr u) \<or>
       sm_authenticated s \<and> outbound_enabled srv)) \<and>
   (fst (smtp_mail a s) = None \<or> sm_rcpts (snd (smtp_mail a s)) = sm_rcpts s \<and> sm_from (snd (smtp_mail a s)) = sm_from s) \<and>
   (fst (smtp_rcpt srv b s w) = None \<or>
      sm_rcpts (fst (snd (smtp_rcpt srv b s w))) = sm_rcpts s \<and>
      sm_external (fst (snd (smtp_rcpt srv b s w))) = sm_external s)"
  by (auto simp: smtp_mail_def smtp_rcpt_def local_user_by_email_def Let_def record_fail_def
      split: prod.splits sum.splits)

section \<open>Delivery to every local recipient\<close>

text \<open>The account a recipient address names.\<close>

definition rcpt_account :: "db \<Rightarrow> string \<Rightarrow> nat option" where
  "rcpt_account s a =
     (case split_n2 CHR ''@'' (trim_space a) of
        [name, dn] \<Rightarrow> map_option u_id (find (\<lambda>u. u_username u = name \<and> in_domain s dn u) (map acct (db_users s)))
      | _ \<Rightarrow> None)"

lemma find_map: "(\<And>x. P (f x) = Q x) \<Longrightarrow> find P (map f xs) = map_option f (find Q xs)"
  by (induction xs) auto

lemma local_user_exact:
  assumes "db_faults s = []"
  shows "\<exists>r. local_user_by_email a s = (r, s) \<and>
    rcpt_account s a = (case r of Inl _ \<Rightarrow> None | Inr u \<Rightarrow> Some (u_id u))"
proof -
  have f: "find (\<lambda>u. u_username u = n \<and> in_domain s d u) (map acct (db_users s)) =
      map_option acct (find (\<lambda>u. u_username u = n \<and> in_domain s d u) (db_users s))" for n d
    by (rule find_map) (simp add: acct_def in_domain_def)
  have "map_option (u_id \<circ> acct) z = map_option u_id z" for z by (cases z) (simp_all add: acct_def)
  with f assms show ?thesis
    by (auto simp: local_user_by_email_def users_get_by_email_def rcpt_account_def table_simps
        preload_domain_def preload_domains_def option.map_comp comp_def split: list.splits option.splits)
qed

lemma rcpt_account_cong:
  assumes "map acct (db_users s) = map acct (db_users t)" and "db_domains s = db_domains t"
  shows "rcpt_account s a = rcpt_account t a"
  unfolding rcpt_account_def in_domain_def domain_of_def assms ..

lemma save_attachments_ok:
  "save_attachments base uid mid as (dk, d) = (dk', d') \<Longrightarrow> db_faults d = [] \<Longrightarrow> db_faults d' = []"
proof (induction as arbitrary: dk d)
  case Nil
  then show ?case by simp
next
  case (Cons a as)
  have upd: "db_faults (snd (users_update_used_bytes uid n t)) = []" if "db_faults t = []" for n t
    using that by (simp add: users_update_used_bytes_def db_exec_def db_stmt_def upd_users_def)
  have att: "\<exists>q. attachments_create r d = (Inr q, d\<lparr>db_attachments := db_attachments d @ [q],
      db_next := (db_next d)(TAttachments := Suc (db_next d TAttachments))\<rparr>)" for r
    using Cons.prems(2) by (simp add: attachments_create_def db_stmt_def Let_def)
  obtain r dk1 where s: "storage_save base (pa_file_name a) (pa_data a) dk = (r, dk1)"
    by (cases "storage_save base (pa_file_name a) (pa_data a) dk")
  show ?case
  proof (cases r)
    case (Inl e)
    with s Cons show ?thesis by simp
  next
    case (Inr path)
    with s Cons.prems show ?thesis
      using att [of "\<lparr>a_id = 0, a_message_id = mid, a_file_name = pa_file_name a, a_file_path = path,
        a_content_type = pa_content_type a, a_file_size = int (length (pa_data a))\<rparr>"]
      by (auto simp: Let_def intro!: Cons.IH upd)
  qed
qed

definition mail_tag :: "message \<Rightarrow> nat \<times> string \<times> string \<times> bool" where
  "mail_tag m = (m_user_id m, m_folder m, m_raw_data m, m_is_read m)"

lemma save_message_ok:
  assumes "save_message srv now uid folder p data read w = (r, w')" and "db_faults (sw_db w) = []" and "folder \<noteq> []"
  shows "\<exists>m. r = Inr m \<and> mail_tag m = (uid, folder, data, read) \<and> db_faults (sw_db w') = [] \<and>
    core (sw_db w') = core (insert_message m (sw_db w))"
proof -
  let ?m = "new_message now (message_row uid folder p data read) (sw_db w)"
  have c: "mails_create now (message_row uid folder p data read) (sw_db w) = (Inr ?m, insert_message ?m (sw_db w))"
    using assms(2) by (simp add: mails_create_def db_stmt_def Let_def)
  obtain dk d where sa: "save_attachments (ss_base_dir srv) uid (m_id ?m) (pr_attachments p)
      (sw_disk w, insert_message ?m (sw_db w)) = (dk, d)" by (metis prod.collapse)
  have "core d = core (insert_message ?m (sw_db w))" "db_faults d = []"
    using save_attachments_core [OF sa] save_attachments_ok [OF sa] assms(2) by (simp_all add: insert_message_def)
  moreover have "r = Inr ?m" "sw_db w' = d"
    using assms(1) c sa by (auto simp: save_message_def Let_def simp del: new_message_simps)
  moreover have "mail_tag ?m = (uid, folder, data, read)"
    using assms(3) by (simp add: mail_tag_def new_message_def message_row_def)
  ultimately show ?thesis by simp
qed

definition same_accounts :: "db \<Rightarrow> db \<Rightarrow> bool" where
  "same_accounts s t \<longleftrightarrow> map acct (db_users s) = map acct (db_users t) \<and> db_domains s = db_domains t \<and>
     db_outbound s = db_outbound t"

lemma deliver_local_ok:
  "deliver_local srv now p data rs w = (n, w') \<Longrightarrow> db_faults (sw_db w) = [] \<Longrightarrow>
   \<exists>ms. db_messages (sw_db w') = db_messages (sw_db w) @ ms \<and> n = length ms \<and> db_faults (sw_db w') = [] \<and>
     same_accounts (sw_db w') (sw_db w) \<and>
     map mail_tag ms = map (\<lambda>i. (i, ''INBOX'', data, False)) (List.map_filter (rcpt_account (sw_db w)) rs)"
proof (induction rs arbitrary: n w w')
  case Nil
  then show ?case by (simp add: same_accounts_def List.map_filter_def)
next
  case (Cons rcpt rs)
  obtain r where l: "local_user_by_email rcpt (sw_db w) = (r, sw_db w)"
    and a: "rcpt_account (sw_db w) rcpt = (case r of Inl _ \<Rightarrow> None | Inr u \<Rightarrow> Some (u_id u))"
    using local_user_exact [OF Cons.prems(2)] by blast
  show ?case
  proof (cases r)
    case (Inl e)
    with Cons.prems l have "deliver_local srv now p data rs w = (n, w')" by simp
    from Cons.IH [OF this Cons.prems(2)] a Inl show ?thesis by (simp add: List.map_filter_def)
  next
    case (Inr u)
    obtain q w1 where s: "save_message srv now (u_id u) ''INBOX'' p data False w = (q, w1)"
      by (cases "save_message srv now (u_id u) ''INBOX'' p data False w")
    from save_message_ok [OF s Cons.prems(2)] obtain m where m: "q = Inr m" "mail_tag m = (u_id u, ''INBOX'', data, False)"
      "db_faults (sw_db w1) = []" "core (sw_db w1) = core (insert_message m (sw_db w))" by blast
    let ?w2 = "if ss_pusher srv then w1\<lparr>sw_pushed := sw_pushed w1 @ [Push_New (u_username u @ ''@'' @ d_name (u_domain u)) m]\<rparr> else w1"
    have w2: "db_messages (sw_db ?w2) = db_messages (sw_db w) @ [m]" "same_accounts (sw_db ?w2) (sw_db w)" "db_faults (sw_db ?w2) = []"
      using m(3,4) by (simp_all add: core_def insert_message_def same_accounts_def)
    have acc: "rcpt_account (sw_db ?w2) = rcpt_account (sw_db w)"
      using w2(2) by (intro ext rcpt_account_cong) (simp_all add: same_accounts_def)
    obtain k w3 where d: "deliver_local srv now p data rs ?w2 = (k, w3)" by (cases "deliver_local srv now p data rs ?w2")
    have nk: "n = Suc k" "w' = w3" using Cons.prems(1) l s Inr m(1) d by (simp_all add: Let_def)
    from Cons.IH [OF d w2(3)] obtain ms where ms: "db_messages (sw_db w3) = db_messages (sw_db ?w2) @ ms" "k = length ms"
      "db_faults (sw_db w3) = []" "same_accounts (sw_db w3) (sw_db ?w2)"
      "map mail_tag ms = map (\<lambda>i. (i, ''INBOX'', data, False)) (List.map_filter (rcpt_account (sw_db w)) rs)"
      unfolding acc by blast
    show ?thesis
      using ms w2 m(2) a Inr nk
      by (intro exI [of _ "m # ms"]) (simp add: same_accounts_def)
  qed
qed

lemma enqueue_ok:
  assumes "enqueue cfg pa sg now uuid u email rcpt data (lim, s) = (r, lim', s')" and "db_faults s = []"
  shows "db_faults s' = [] \<and> db_messages s' = db_messages s"
proof -
  define kept where "kept t \<longleftrightarrow> db_faults t = [] \<and> db_messages t = db_messages s" for t :: db
  have 1: "kept s1" if "users_get_by_email a s = (x, s1)" for a x s1
    using that assms(2) by (auto simp: kept_def users_get_by_email_def table_simps preload_domain_def preload_domains_def
        split: list.splits option.splits if_splits)
  have 2: "kept t'" if "sign_for_sender sg f x t = (y, t')" "kept t" for f x t y t'
    using that by (auto simp: kept_def sign_for_sender_def table_simps domains_get_by_name_def Let_def
        split: option.splits)
  have 3: "kept t'" if "outbound_create i t = (y, t')" "kept t" for i t y t'
    using that by (auto simp: kept_def outbound_create_def db_stmt_def insert_outbound_def Let_def)
  have "kept s" using assms(2) by (simp add: kept_def)
  then have "kept s'"
    using assms(1) unfolding enqueue_def Let_def
    by (simp split: if_splits option.splits prod.splits sum.splits) (blast dest: 1 2 3)+
  then show ?thesis by (simp add: kept_def)
qed

lemma queue_external_ok:
  "queue_external srv cfg now u email data rs w = (r, n, w') \<Longrightarrow> db_faults (sw_db w) = [] \<Longrightarrow>
   db_faults (sw_db w') = [] \<and> db_messages (sw_db w') = db_messages (sw_db w)"
proof (induction rs arbitrary: r n w w')
  case Nil
  then show ?case by simp
next
  case (Cons rcpt rs)
  obtain uuid dk where d: "next_uuid (sw_disk w) = (uuid, dk)" by (cases "next_uuid (sw_disk w)")
  obtain q lim dd where e: "enqueue cfg (ss_parse_addr srv) (ss_sign srv) now uuid u email rcpt data (sw_limits w, sw_db w) = (q, lim, dd)"
    by (metis prod.collapse)
  let ?w1 = "w\<lparr>sw_disk := dk, sw_limits := lim, sw_db := dd\<rparr>"
  obtain r1 n1 w1 where c: "queue_external srv cfg now u email data rs ?w1 = (r1, n1, w1)"
    by (metis prod.collapse)
  note dd = enqueue_ok [OF e Cons.prems(2)]
  have "db_faults (sw_db w1) = [] \<and> db_messages (sw_db w1) = db_messages dd" using Cons.IH [OF c] dd by simp
  with dd Cons.prems(1) d e c show ?case by (cases q) (auto simp: Let_def)
qed

definition keeps_sent_copy :: "server_session \<Rightarrow> bool" where
  "keeps_sent_copy s \<longleftrightarrow> sm_authenticated s \<and> sm_user_id s \<noteq> 0 \<and> sm_mode s \<noteq> Inbound"

lemma finish_data_ok:
  assumes "finish_data srv now p data a b s w = (r, s', w')" and "db_faults (sw_db w) = []"
  shows "\<exists>sent. r = None \<and> db_messages (sw_db w') = db_messages (sw_db w) @ sent \<and>
    map mail_tag sent = (if keeps_sent_copy s then [(sm_user_id s, ''Sent'', data, True)] else [])"
proof -
  obtain q w1 where s: "save_message srv now (sm_user_id s) ''Sent'' p data True w = (q, w1)"
    by (cases "save_message srv now (sm_user_id s) ''Sent'' p data True w")
  from save_message_ok [OF s assms(2)] obtain m where m: "mail_tag m = (sm_user_id s, ''Sent'', data, True)"
    "core (sw_db w1) = core (insert_message m (sw_db w))" by blast
  then have "db_messages (sw_db w1) = db_messages (sw_db w) @ [m]" by (simp add: core_def insert_message_def)
  then show ?thesis
    using assms(1) s m(1)
    by (intro exI [of _ "if keeps_sent_copy s then [m] else []"]) (auto simp: finish_data_def keeps_sent_copy_def Let_def)
qed

lemma smtp_store_ok:
  assumes "smtp_store srv now p data s w = (r, s', w')" and "db_faults (sw_db w) = []"
  shows "\<exists>ms sent. db_messages (sw_db w') = db_messages (sw_db w) @ ms @ sent \<and>
    map mail_tag ms = map (\<lambda>i. (i, ''INBOX'', data, False)) (List.map_filter (rcpt_account (sw_db w)) (sm_local s)) \<and>
    map mail_tag sent = (if r = None \<and> keeps_sent_copy s then [(sm_user_id s, ''Sent'', data, True)] else [])"
proof -
  obtain n w1 where d: "deliver_local srv now p data (sm_local s) w = (n, w1)"
    by (cases "deliver_local srv now p data (sm_local s) w")
  from deliver_local_ok [OF d assms(2)] obtain ms where ms: "db_messages (sw_db w1) = db_messages (sw_db w) @ ms"
    "db_faults (sw_db w1) = []"
    "map mail_tag ms = map (\<lambda>i. (i, ''INBOX'', data, False)) (List.map_filter (rcpt_account (sw_db w)) (sm_local s))"
    by blast
  let ?s1 = "s\<lparr>sm_msg_count := sm_msg_count s + int n\<rparr>"
  note eq = assms(1) [unfolded smtp_store_def d Let_def prod.case]
  have fin: ?thesis if "finish_data srv now p data n k ?s1 w2 = (r, s', w')" "db_faults (sw_db w2) = []"
      "db_messages (sw_db w2) = db_messages (sw_db w1)" for k w2
  proof -
    from finish_data_ok [OF that(1,2)] obtain sent where "r = None" "db_messages (sw_db w') = db_messages (sw_db w2) @ sent"
      "map mail_tag sent = (if keeps_sent_copy ?s1 then [(sm_user_id ?s1, ''Sent'', data, True)] else [])" by blast
    then show ?thesis using ms that(3)
      by (intro exI [of _ ms] exI [of _ sent]) (simp add: keeps_sent_copy_def)
  qed
  have err: ?thesis if "r = Some e" "db_messages (sw_db w') = db_messages (sw_db w1)" for e
    using that ms by (intro exI [of _ ms] exI [of _ "[]"]) simp
  show ?thesis
  proof (cases "sm_external s = []")
    case True
    with eq show ?thesis using fin [of 0 w1] ms(2) by simp
  next
    case ext: False
    show ?thesis
    proof (cases "ss_outbound srv")
      case None
      with eq ext show ?thesis using err by auto
    next
      case (Some cfg)
      obtain q k w2 where x: "queue_external srv cfg now (sm_user s) (sm_email s) data (sm_external s) w1 = (q, k, w2)"
        by (metis prod.collapse)
      note w2 = queue_external_ok [OF x ms(2)]
      show ?thesis
      proof (cases "oc_max_recipients cfg > 0 \<and> int (length (sm_external s)) > oc_max_recipients cfg")
        case True
        with eq ext Some show ?thesis using err by auto
      next
        case False
        with eq ext Some x show ?thesis using err fin [of k w2] w2 by (cases q) auto
      qed
    qed
  qed
qed

text \<open>C12: a message accepted for delivery reaches every local recipient. When no statement fails, \<open>Data\<close> appends
  to the table exactly one unread message, with the bytes that were sent, in the inbox of the
  account each local recipient names, in order and before anything can be refused; a submission that
  succeeds also leaves one read copy in the sender's Sent folder, and nothing else is stored.\<close>

theorem data_reaches_local_recipients:
  assumes "smtp_data srv now (Some data) s w = (r, s', w')" and "db_faults (sw_db w) = []"
    and "parse_message (ss_mime srv) now data = Some p" and "sm_rcpts s \<noteq> []"
  shows "\<exists>ms sent. db_messages (sw_db w') = db_messages (sw_db w) @ ms @ sent \<and>
    map mail_tag ms = map (\<lambda>i. (i, ''INBOX'', data, False)) (List.map_filter (rcpt_account (sw_db w)) (sm_local s)) \<and>
    map mail_tag sent = (if r = None \<and> keeps_sent_copy s then [(sm_user_id s, ''Sent'', data, True)] else [])"
proof -
  let ?w = "w\<lparr>sw_hub := conn_touch now (sm_handle s) (sw_hub w)\<rparr>"
  have "smtp_store srv now p data s ?w = (r, s', w')"
    using assms(1,3,4) by (simp add: smtp_data_def)
  from smtp_store_ok [OF this] assms(2) show ?thesis by simp
qed

text \<open>A refusal can come after the delivery. With more external recipients than the configuration
  allows, \<open>Data\<close> answers with an error and queues nothing, but the local recipients have already got
  the message: a client that corrects the list and sends again delivers it to them twice.\<close>

theorem too_many_external_after_delivery:
  assumes "smtp_data srv now (Some data) s w = (r, s', w')" and "db_faults (sw_db w) = []"
    and "parse_message (ss_mime srv) now data = Some p" and "sm_rcpts s \<noteq> []"
    and "ss_outbound srv = Some cfg" and "0 < oc_max_recipients cfg"
    and "oc_max_recipients cfg < int (length (sm_external s))"
  shows "r = Some (Too_Many_External (int (length (sm_external s))) (oc_max_recipients cfg)) \<and>
    db_outbound (sw_db w') = db_outbound (sw_db w) \<and>
    map m_user_id (db_messages (sw_db w')) =
      map m_user_id (db_messages (sw_db w)) @ List.map_filter (rcpt_account (sw_db w)) (sm_local s)"
proof -
  let ?w = "w\<lparr>sw_hub := conn_touch now (sm_handle s) (sw_hub w)\<rparr>"
  have st: "smtp_store srv now p data s ?w = (r, s', w')"
    using assms(1,3,4) by (simp add: smtp_data_def)
  obtain n w1 where d: "deliver_local srv now p data (sm_local s) ?w = (n, w1)"
    by (cases "deliver_local srv now p data (sm_local s) ?w")
  from deliver_local_ok [OF d] assms(2) obtain ms where ms: "db_messages (sw_db w1) = db_messages (sw_db w) @ ms"
    "same_accounts (sw_db w1) (sw_db w)"
    "map mail_tag ms = map (\<lambda>i. (i, ''INBOX'', data, False)) (List.map_filter (rcpt_account (sw_db w)) (sm_local s))"
    by auto
  have "map m_user_id ms = map fst (map mail_tag ms)" by (simp add: mail_tag_def comp_def)
  then have "map m_user_id ms = List.map_filter (rcpt_account (sw_db w)) (sm_local s)"
    unfolding ms(3) by (simp add: comp_def)
  moreover have "sm_external s \<noteq> []" using assms(6,7) by auto
  ultimately show ?thesis
    using st ms(1,2) assms(5-7) unfolding smtp_store_def d Let_def prod.case
    by (auto simp: same_accounts_def)
qed

section \<open>A sample server\<close>

definition plain_reader :: "string \<Rightarrow> mail_reader option" where
  \<comment> \<open>a MIME reader that finds one plain-text part and no header field\<close>
  "plain_reader data = Some \<lparr>mr_header = \<lparr>hd_addresses = (\<lambda>_. None), hd_get = (\<lambda>_. []), hd_subject = [], hd_message_id = [],
     hd_date = 0\<rparr>, mr_parts = [Inline_Part ''text/plain'' None data True]\<rparr>"

definition sample_smtp :: smtp_server where
  "sample_smtp = \<lparr>ss_cfg = \<lparr>sc_addr = '':25'', sc_tls_addr = [], sc_submission_addr = '':587'', sc_domain = ''x.org'',
       sc_tls_cert = [], sc_tls_key = [], sc_max_message = 1000\<rparr>,
     ss_ban = \<lparr>bc_max_fail_attempts = 5, bc_ban_duration_min = 30\<rparr>,
     ss_outbound = Some (sample_config\<lparr>oc_max_recipients := 1\<rparr>), ss_pusher = True, ss_base_dir = ''/data'',
     ss_check_pw = (=), ss_mime = \<lparr>me_create_reader = plain_reader, me_charsets = (\<lambda>_. None), me_decode_header = Some\<rparr>,
     ss_parse_addr = Some, ss_sign = (\<lambda>_ _ _ _. None)\<rparr>"

definition sample_world :: smtp_world where
  "sample_world = \<lparr>sw_db = sample_accounts, sw_disk = sample_disk, sw_limits = (\<lambda>_. None), sw_hub = new_hub, sw_pushed = []\<rparr>"

definition sample_envelope :: "string list \<Rightarrow> server_session" where
  "sample_envelope ext = \<lparr>sm_mode = Submission, sm_from = ''ann@x.org'', sm_rcpts = [''bob@x.org'', ''ann@x.org''] @ ext,
     sm_local = [''bob@x.org'', ''ann@x.org''], sm_external = ext, sm_authenticated = True, sm_user_id = 1,
     sm_email = ''ann@x.org'', sm_user = Some (sample_user 1 ''ann'' 1), sm_ip = ''1.2.3.4'', sm_started = 0, sm_port = 587,
     sm_auth_tried = True, sm_auth_ok = True, sm_auth_username = ''ann'', sm_fail_reason = [], sm_msg_count = 0,
     sm_detail = [], sm_handle = 1\<rparr>"

lemma smtp_no_open_relay_witness:
  "db_outbound (sw_db (snd (smtp_connection sample_smtp Inbound 0 None False 7
     [(1, Call_Mail ''a@y.org''), (2, Call_Rcpt ''b@z.org''), (3, Call_Data (Some ''hi''))] 4 sample_world))) = []"
proof -
  let ?cs = "[(1, Call_Mail ''a@y.org''), (2, Call_Rcpt ''b@z.org''), (3, Call_Data (Some ''hi''))]"
  obtain s' w' where c: "smtp_connection sample_smtp Inbound 0 None False 7 ?cs 4 sample_world = (s', w')"
    by (metis prod.collapse)
  have n: "\<not> opened_by sample_smtp ?cs s v" for s v by (simp add: opened_by_def)
  have "db_outbound (sw_db sample_world) = []" by (simp add: sample_world_def sample_accounts_def empty_db_def)
  with smtp_no_open_relay [OF c] n show ?thesis unfolding c by auto
qed

lemma sample_accounts_named:
  "List.map_filter (rcpt_account (sw_db sample_world)) (sm_local (sample_envelope ext)) = [2, 1]"
proof -
  have t: "trim_space ''bob@x.org'' = ''bob@x.org''" "trim_space ''ann@x.org'' = ''ann@x.org''"
    by (simp_all add: trim_space_graph ascii_graph_def)
  show ?thesis
    by (simp add: List.map_filter_def rcpt_account_def t sample_envelope_def split_n2_def index_byte_def in_domain_def acct_def sample_world_def
        sample_accounts_def sample_user_def sample_domain_def)
qed

lemma sample_parses:
  "parse_message (ss_mime sample_smtp) 9 ''hi'' = Some \<lparr>pr_message_id = [], pr_from_addr = [], pr_to_addr = [], pr_cc_addr = [],
     pr_subject = [], pr_text_body = ''hi'', pr_html_body = [], pr_date = 9, pr_attachments = []\<rparr>"
proof -
  have "utf8_valid ''hi''" by (simp add: utf8_valid_def utf8_lead_def)
  then show ?thesis
    by (simp add: parse_message_def sample_smtp_def plain_reader_def format_address_list_def decode_rfc2047_def
        decode_charset_utf8 has_prefix_def Let_def)
qed

lemma data_reaches_local_recipients_witness:
  "map m_user_id (db_messages (sw_db (snd (snd (smtp_data sample_smtp 9 (Some ''hi'') (sample_envelope [''c@y.org'', ''d@y.org'']) sample_world))))) =
     [2, 1] @ (if fst (smtp_data sample_smtp 9 (Some ''hi'') (sample_envelope [''c@y.org'', ''d@y.org'']) sample_world) = None
               then [1] else [])"
proof -
  let ?s = "sample_envelope [''c@y.org'', ''d@y.org'']"
  obtain r s' w' where d: "smtp_data sample_smtp 9 (Some ''hi'') ?s sample_world = (r, s', w')" by (metis prod.collapse)
  have m: "map m_user_id ms = map fst (map mail_tag ms)" for ms by (simp add: mail_tag_def comp_def)
  have "db_faults (sw_db sample_world) = []" "sm_rcpts ?s \<noteq> []" "db_messages (sw_db sample_world) = []"
    "keeps_sent_copy ?s" "sm_user_id ?s = 1"
    by (simp_all add: sample_world_def sample_accounts_def empty_db_def sample_envelope_def keeps_sent_copy_def)
  with data_reaches_local_recipients [OF d _ sample_parses] show ?thesis
    unfolding d by (auto simp: sample_accounts_named m simp del: map_map)
qed

lemma too_many_external_after_delivery_witness:
  "fst (smtp_data sample_smtp 9 (Some ''hi'') (sample_envelope [''c@y.org'', ''d@y.org'']) sample_world) =
     Some (Too_Many_External 2 1) \<and>
   map m_user_id (db_messages (sw_db (snd (snd
     (smtp_data sample_smtp 9 (Some ''hi'') (sample_envelope [''c@y.org'', ''d@y.org'']) sample_world))))) = [2, 1]"
proof -
  let ?s = "sample_envelope [''c@y.org'', ''d@y.org'']" and ?cfg = "sample_config\<lparr>oc_max_recipients := 1\<rparr>"
  obtain r s' w' where d: "smtp_data sample_smtp 9 (Some ''hi'') ?s sample_world = (r, s', w')" by (metis prod.collapse)
  have "db_faults (sw_db sample_world) = []" "sm_rcpts ?s \<noteq> []" "db_messages (sw_db sample_world) = []"
    "List.map_filter (rcpt_account (sw_db sample_world)) (sm_local ?s) = [2, 1]" "sm_external ?s = [''c@y.org'', ''d@y.org'']"
    "ss_outbound sample_smtp = Some ?cfg" "oc_max_recipients ?cfg = 1"
    using sample_accounts_named
    by (simp_all add: sample_world_def sample_accounts_def empty_db_def sample_envelope_def sample_smtp_def)
  with too_many_external_after_delivery [OF d _ sample_parses] show ?thesis
    unfolding d by (simp only: sample_accounts_named) simp
qed

end
