(* ===== verification/Pop3_Server.thy ===== *)
theory Pop3_Server
  imports Protocol_Common Conn_Hub "HOL-Library.Multiset"
begin

text \<open>
  The POP3 server (\<open>internal/pop3_server/server.go\<close>): the command handlers, the loop of
  \<open>handleConn\<close> and what a connection does to the mailbox, the ban ledger, the protocol log, the
  connection hub and the push hub.

  A connection is what its client sends: the lines of the clear part with the time each arrives, what
  follows after \<open>STLS\<close> (\<open>None\<close> when the handshake fails), and the time at which it breaks off.
  Bytes sent are the field \<open>po_out\<close>; a failing write is ignored by the code and by the model. The
  map of marked messages is the list of its keys, or \<open>None\<close> for the nil map, into which a write
  panics. An index or a slice bound out of range panics too: the handlers index with \<open>slice_index\<close> and
  \<open>slice_from\<close>, whose \<open>None\<close> is the panic, and every handler that indexes says how it ended. The order in which Go walks over that map is the server's parameter \<open>ps_order\<close>.
\<close>

section \<open>Multi-line data\<close>

definition norm_newlines :: "string \<Rightarrow> string" where
  "norm_newlines raw = replace_char (CHR 0x0D) (CHR 0x0A) (replace_crlf raw)"

fun dot_lines :: "int option \<Rightarrow> string list \<Rightarrow> string" where
  "dot_lines limit [] = []"
| "dot_lines limit (l # ls) =
     (if (case limit of None \<Rightarrow> False | Some n \<Rightarrow> n \<le> 0) then []
      else if ls = [] \<and> l = [] then []
      else (if has_prefix ''.'' l then ''.'' else []) @ l @ crlf @
           dot_lines (map_option (\<lambda>n. n - 1) limit) ls)"

definition write_dot_stuffed :: "string \<Rightarrow> int option \<Rightarrow> string" where
  "write_dot_stuffed raw limit = dot_lines limit (split_on (CHR 0x0A) (norm_newlines raw))"

definition normalize_pop3_data :: "string \<Rightarrow> string" where
  "normalize_pop3_data raw = write_dot_stuffed raw None"

text \<open>Go's \<open>xs[i]\<close> and \<open>xs[i:]\<close>; \<open>None\<close> is the run-time panic.\<close>

definition slice_index :: "'a list \<Rightarrow> int \<Rightarrow> 'a option" where
  "slice_index xs i = (if 0 \<le> i \<and> i < int (length xs) then Some (xs ! nat i) else None)"

definition slice_from :: "'a list \<Rightarrow> nat \<Rightarrow> 'a list option" where
  "slice_from xs i = (if i \<le> length xs then Some (drop i xs) else None)"

definition split_header_body :: "string \<Rightarrow> (string \<times> string) option" where
  "split_header_body raw =
     (case str_index (crlf @ crlf) raw of
        Some i \<Rightarrow> map_option (\<lambda>body. (take i raw, body)) (slice_from raw (i + 4))
      | None \<Rightarrow>
          (case str_index [CHR 0x0A, CHR 0x0A] raw of
             Some i \<Rightarrow> map_option (\<lambda>body. (take i raw, body)) (slice_from raw (i + 2))
           | None \<Rightarrow> Some (raw, [])))"

section \<open>The state of a connection\<close>

record pop3_message =
  pm_id :: nat
  pm_raw :: string
  pm_size :: int

record pop3_server =
  ps_cfg :: pop3_config
  ps_ban :: ban_config
  ps_tls_loader :: bool
  ps_pusher :: bool
  ps_check_pw :: "string \<Rightarrow> string \<Rightarrow> bool"
  ps_fmt_date :: "gotime \<Rightarrow> string"
  ps_order :: "int list \<Rightarrow> int list"

record pop3_peer =
  pk_ip :: string
  pk_port :: int
  pk_socket :: nat
  pk_started :: gotime

record pop3_state =
  po_user :: "user option"
  po_login :: string
  po_fail :: string
  po_counts :: "string \<Rightarrow> nat"
  po_msgs :: "pop3_message list"
  po_deleted :: "int list option"
  po_tls :: bool
  po_out :: string
  po_handle :: "64 word"
  po_hub :: hub
  po_pushed :: "push_event list"
  po_db :: db

datatype pop3_outcome = Go_On | Upgrade | Quitted | Panicked

definition send_response :: "string \<Rightarrow> pop3_state \<Rightarrow> pop3_state" where
  "send_response line st = st\<lparr>po_out := po_out st @ line @ crlf\<rparr>"

definition send_raw :: "string \<Rightarrow> pop3_state \<Rightarrow> pop3_state" where
  "send_raw bs st = st\<lparr>po_out := po_out st @ bs\<rparr>"

definition marked :: "pop3_state \<Rightarrow> int \<Rightarrow> bool" where
  "marked st n = (case po_deleted st of None \<Rightarrow> False | Some ds \<Rightarrow> n \<in> set ds)"

definition is_authenticated :: "pop3_state \<Rightarrow> bool" where
  "is_authenticated st = (case po_user st of None \<Rightarrow> False | Some u \<Rightarrow> u_id u \<noteq> 0)"

text \<open>The messages still shown, with their numbers.\<close>

definition listing :: "pop3_state \<Rightarrow> (int \<times> pop3_message) list" where
  "listing st = filter (\<lambda>(n, m). \<not> marked st n) (zip (map int [1..<Suc (length (po_msgs st))]) (po_msgs st))"

text \<open>The number a command names, if it names a message: \<open>strconv.Atoi\<close> and the range.\<close>

definition message_number :: "string \<Rightarrow> pop3_state \<Rightarrow> int option" where
  "message_number arg st =
     (case atoi arg of
        None \<Rightarrow> None
      | Some n \<Rightarrow> if n < 1 \<or> n > int (length (po_msgs st)) then None else Some n)"

section \<open>Handlers\<close>

definition requires_auth :: "string \<Rightarrow> bool" where
  "requires_auth c \<longleftrightarrow> c \<in> {''STAT'', ''LIST'', ''RETR'', ''DELE'', ''RSET'', ''TOP'', ''UIDL''}"

definition handle_capa :: "pop3_server \<Rightarrow> bool \<Rightarrow> pop3_state \<Rightarrow> pop3_state" where
  "handle_capa srv tls_active st =
     (let st1 = send_response ''RESP-CODES'' (send_response ''UIDL'' (send_response ''TOP''
                  (send_response ''USER'' (send_response ''+OK Capability list follows'' st))));
          st2 = (if \<not> tls_active \<and> pc_tls_cert (ps_cfg srv) \<noteq> [] \<and> pc_tls_key (ps_cfg srv) \<noteq> []
                 then send_response ''STLS'' st1 else st1)
      in send_response ''.'' st2)"

definition pop3_load_messages :: "pop3_server \<Rightarrow> user \<Rightarrow> db \<Rightarrow> pop3_message list \<times> db" where
  "pop3_load_messages srv u s =
     (case mails_list_all (u_id u) ''INBOX'' s of
        (Inl _, s1) \<Rightarrow> ([], s1)
      | (Inr ms, s1) \<Rightarrow>
          (map (\<lambda>m. let raw = build_raw_message (ps_fmt_date srv) m
                    in \<lparr>pm_id = m_id m, pm_raw = raw, pm_size = int (length (normalize_pop3_data raw))\<rparr>) ms, s1))"

definition named_user :: "string \<Rightarrow> user" where
  \<comment> \<open>\<open>&db.User{Username: username}\<close>\<close>
  "named_user name = \<lparr>u_id = 0, u_username = name, u_password_hash = [], u_domain_id = 0, u_domain = zero_domain,
     u_quota_bytes = 0, u_used_bytes = 0, u_is_active = False, u_is_admin = False,
     u_must_change_password = False, u_language = []\<rparr>"

definition handle_user :: "string \<Rightarrow> pop3_state \<Rightarrow> pop3_state" where
  "handle_user name st0 =
     (let st = st0\<lparr>po_login := name, po_msgs := [], po_deleted := None\<rparr>
      in if name = [] then send_response ''-ERR missing username'' st
         else case users_get_by_email name (po_db st) of
             (Inl _, s1) \<Rightarrow> send_response ''+OK'' (st\<lparr>po_user := Some (named_user name), po_db := s1\<rparr>)
           | (Inr u, s1) \<Rightarrow> send_response ''+OK'' (st\<lparr>po_user := Some (u\<lparr>u_username := name\<rparr>), po_db := s1\<rparr>))"

definition handle_pass :: "pop3_server \<Rightarrow> pop3_peer \<Rightarrow> gotime \<Rightarrow> string \<Rightarrow> pop3_state \<Rightarrow> pop3_state" where
  "handle_pass srv peer now pw st0 =
     (let st = st0\<lparr>po_user := None, po_msgs := [], po_deleted := None\<rparr>
      in case po_user st0 of
          None \<Rightarrow> send_response ''-ERR no username given'' st
        | Some u0 \<Rightarrow>
            (case guarded_login (ps_check_pw srv) (ps_ban srv) now (pk_ip peer) (u_username u0) pw (po_db st) of
               (None, s1) \<Rightarrow> send_response ''-ERR authentication failed'' (st\<lparr>po_db := s1\<rparr>)
             | (Some u, s1) \<Rightarrow>
                 (let user = u\<lparr>u_username := u_username u0\<rparr>;
                      (ms, s2) = pop3_load_messages srv user s1
                  in send_response (''+OK authenticated, '' @ show_nat (length ms) @ '' messages'')
                       (st\<lparr>po_user := Some user, po_msgs := ms, po_deleted := Some [], po_db := s2\<rparr>))))"

definition wrong_credentials :: string where
  "wrong_credentials = utf8 [231, 148, 168, 230, 136, 183, 229, 144, 141, 230, 136, 150, 229, 175, 134, 231,
     160, 129, 233, 148, 153, 232, 175, 175]"

definition after_pass :: "gotime \<Rightarrow> pop3_state \<Rightarrow> pop3_state" where
  \<comment> \<open>the rest of the case \<open>PASS\<close> in the loop\<close>
  "after_pass now st =
     (if \<not> is_authenticated st
      then (if po_fail st = [] then st\<lparr>po_fail := wrong_credentials\<rparr> else st)
      else st\<lparr>po_fail := [], po_hub := conn_set_user now (po_login st) (po_handle st) (po_hub st)\<rparr>)"

definition handle_stat :: "pop3_state \<Rightarrow> pop3_state" where
  "handle_stat st =
     (let shown = listing st
      in send_response (''+OK '' @ show_nat (length shown) @ '' '' @
           show_int (sum_list (map (pm_size \<circ> snd) shown))) st)"

definition handle_list :: "string \<Rightarrow> pop3_state \<Rightarrow> pop3_outcome \<times> pop3_state" where
  "handle_list arg st =
     (if arg = [] then
        (Go_On, send_response ''.'' (foldl (\<lambda>st (n, m). send_response (show_int n @ '' '' @ show_int (pm_size m)) st)
          (send_response ''+OK message list follows'' st) (listing st)))
      else case message_number arg st of
          None \<Rightarrow> (Go_On, send_response ''-ERR no such message'' st)
        | Some n \<Rightarrow>
            if marked st n then (Go_On, send_response ''-ERR message deleted'' st)
            else (case slice_index (po_msgs st) (n - 1) of
                    None \<Rightarrow> (Panicked, st)
                  | Some m \<Rightarrow> (Go_On, send_response (''+OK '' @ show_int n @ '' '' @ show_int (pm_size m)) st)))"

definition handle_retr :: "string \<Rightarrow> pop3_state \<Rightarrow> pop3_outcome \<times> pop3_state" where
  "handle_retr arg st =
     (case message_number arg st of
        None \<Rightarrow> (Go_On, send_response ''-ERR no such message'' st)
      | Some n \<Rightarrow>
          if marked st n then (Go_On, send_response ''-ERR message deleted'' st)
          else (case slice_index (po_msgs st) (n - 1) of
                  None \<Rightarrow> (Panicked, st)
                | Some m \<Rightarrow>
                    (Go_On, send_raw (''.'' @ crlf) (send_raw (write_dot_stuffed (pm_raw m) None)
                       (send_response (''+OK '' @ show_int (pm_size m) @ '' octets'') st)))))"

definition handle_dele :: "string \<Rightarrow> pop3_state \<Rightarrow> pop3_outcome \<times> pop3_state" where
  "handle_dele arg st =
     (case message_number arg st of
        None \<Rightarrow> (Go_On, send_response ''-ERR no such message'' st)
      | Some n \<Rightarrow>
          if marked st n then (Go_On, send_response ''-ERR message already deleted'' st)
          else (case po_deleted st of
                  None \<Rightarrow> (Panicked, st)
                | Some ds \<Rightarrow> (Go_On, send_response ''+OK message marked for deletion''
                                     (st\<lparr>po_deleted := Some (ds @ [n])\<rparr>))))"

definition handle_top :: "string \<Rightarrow> pop3_state \<Rightarrow> pop3_outcome \<times> pop3_state" where
  "handle_top arg st =
     (case str_fields arg of
        [] \<Rightarrow> (Go_On, send_response ''-ERR syntax error'' st)
      | a # rest \<Rightarrow>
          (case message_number a st of
             None \<Rightarrow> (Go_On, send_response ''-ERR no such message'' st)
           | Some n \<Rightarrow>
               if marked st n then (Go_On, send_response ''-ERR message deleted'' st)
               else (let n_lines = (case rest of [] \<Rightarrow> 0 | b # _ \<Rightarrow> atoi_value b)
                     in case Option.bind (slice_index (po_msgs st) (n - 1)) (\<lambda>m. split_header_body (pm_raw m)) of
                          None \<Rightarrow> (Panicked, st)
                        | Some (header, body) \<Rightarrow>
                            (Go_On, send_raw (''.'' @ crlf) (send_raw (write_dot_stuffed body (Some n_lines)) (send_raw crlf
                               (send_raw (write_dot_stuffed header None) (send_response ''+OK top of message follows'' st))))))))"

definition handle_uidl :: "string \<Rightarrow> pop3_state \<Rightarrow> pop3_outcome \<times> pop3_state" where
  "handle_uidl arg st =
     (if arg = [] then
        (Go_On, send_response ''.'' (foldl (\<lambda>st (n, m). send_response (show_int n @ '' '' @ show_nat (pm_id m)) st)
          (send_response ''+OK UIDL list follows'' st) (listing st)))
      else case message_number arg st of
          None \<Rightarrow> (Go_On, send_response ''-ERR no such message'' st)
        | Some n \<Rightarrow>
            if marked st n then (Go_On, send_response ''-ERR message deleted'' st)
            else (case slice_index (po_msgs st) (n - 1) of
                    None \<Rightarrow> (Panicked, st)
                  | Some m \<Rightarrow> (Go_On, send_response (''+OK '' @ show_int n @ '' '' @ show_nat (pm_id m)) st)))"

text \<open>The loop of \<open>expungeDeleted\<close>: the numbers of the messages that were deleted, in the order of the
  walk; a failing delete is skipped.\<close>

fun expunge_loop :: "pop3_message list \<Rightarrow> int list \<Rightarrow> db \<Rightarrow> pop3_outcome \<times> nat list \<times> db" where
  "expunge_loop msgs [] s = (Go_On, [], s)"
| "expunge_loop msgs (n # ns) s =
     (if 1 \<le> n \<and> n \<le> int (length msgs)
      then (case slice_index msgs (n - 1) of
              None \<Rightarrow> (Panicked, [], s)
            | Some m \<Rightarrow>
                (case mails_delete (pm_id m) s of
                   (Inl _, s1) \<Rightarrow> expunge_loop msgs ns s1
                 | (Inr _, s1) \<Rightarrow> (let (r, seqs, s2) = expunge_loop msgs ns s1 in (r, nat n # seqs, s2))))
      else expunge_loop msgs ns s)"

definition expunge_deleted :: "pop3_server \<Rightarrow> pop3_state \<Rightarrow> pop3_outcome \<times> nat \<times> pop3_state" where
  "expunge_deleted srv st =
     (case (po_deleted st, po_user st) of
        (Some ds, Some u) \<Rightarrow>
          if u_id u = 0 then (Go_On, 0, st)
          else (let (r, seqs, s1) = expunge_loop (po_msgs st) (ps_order srv ds) (po_db st);
                    notices = (if r = Go_On \<and> ps_pusher srv \<and> seqs \<noteq> [] \<and> u_username u \<noteq> []
                               then [Push_Expunged (u_username u) ''INBOX'' seqs] else [])
                in (r, length seqs, st\<lparr>po_db := s1, po_pushed := po_pushed st @ notices\<rparr>))
      | _ \<Rightarrow> (Go_On, 0, st))"

section \<open>The protocol log\<close>

definition pop3_command_detail :: "(string \<Rightarrow> nat) \<Rightarrow> nat \<Rightarrow> string" where
  "pop3_command_detail counts deleted =
     (let parts = concat (map (\<lambda>c. if counts c = 0 then []
                                   else if counts c = 1 then [c]
                                   else [c @ utf8 [195, 151] @ show_nat (counts c)])
             [''USER'', ''PASS'', ''STAT'', ''LIST'', ''RETR'', ''TOP'', ''UIDL'', ''DELE'', ''RSET'', ''STLS'', ''QUIT'']) @
             (if deleted > 0 then [utf8 [229, 136, 160, 233, 153, 164] @ show_nat deleted] else [])
      in if parts = []
         then utf8 [232, 191, 158, 230, 142, 165, 229, 187, 186, 231, 171, 139, 239, 188, 140, 230, 151, 160,
                229, 145, 189, 228, 187, 164]
         else join '' '' parts)"

definition pop3_write_log ::
  "pop3_peer \<Rightarrow> gotime \<Rightarrow> string \<Rightarrow> bool \<Rightarrow> string \<Rightarrow> string \<Rightarrow> nat \<Rightarrow> int \<Rightarrow> db \<Rightarrow> db" where
  "pop3_write_log peer at username success reason detail mails dur s =
     snd (logs_create at \<lparr>p_id = 0, p_protocol = ''pop3'', p_port = pk_port peer, p_client_ip = pk_ip peer,
       p_username = username, p_success = success, p_fail_reason = reason, p_detail = detail,
       p_msg_count = int mails, p_duration_ms = dur, p_created_at = at\<rparr> s)"

definition since_ms :: "gotime \<Rightarrow> gotime \<Rightarrow> int" where
  \<comment> \<open>\<open>time.Since(started).Milliseconds()\<close>\<close>
  "since_ms now started = (now - started) div 1000000"

section \<open>The command loop\<close>

definition pop3_dispatch ::
  "pop3_server \<Rightarrow> pop3_peer \<Rightarrow> gotime \<Rightarrow> string \<Rightarrow> string \<Rightarrow> pop3_state \<Rightarrow> pop3_outcome \<times> pop3_state" where
  "pop3_dispatch srv peer now c arg st =
     (if c = ''USER'' then (Go_On, handle_user arg st)
      else if c = ''PASS'' then (Go_On, after_pass now (handle_pass srv peer now arg st))
      else if c = ''STAT'' then (Go_On, handle_stat st)
      else if c = ''LIST'' then handle_list arg st
      else if c = ''RETR'' then handle_retr arg st
      else if c = ''DELE'' then handle_dele arg st
      else if c = ''NOOP'' then (Go_On, send_response ''+OK'' st)
      else if c = ''RSET'' then (Go_On, send_response ''+OK'' (st\<lparr>po_deleted := Some []\<rparr>))
      else if c = ''QUIT'' then
        (let (r, n, st1) = expunge_deleted srv st;
             st2 = send_response ''+OK MailGo POP3 server signing off'' st1
         in if r = Panicked then (Panicked, st1) else (Quitted, st2\<lparr>po_db := pop3_write_log peer now (po_login st2) (is_authenticated st2) (po_fail st2)
                            (pop3_command_detail (po_counts st2) n) n (since_ms now (pk_started peer)) (po_db st2)\<rparr>))
      else if c = ''CAPA'' then (Go_On, handle_capa srv (po_tls st) st)
      else if c = ''STLS'' then
        (if is_authenticated st then (Go_On, send_response ''-ERR STLS not allowed after authentication'' st)
         else if po_tls st then (Go_On, send_response ''-ERR TLS already active'' st)
         else if \<not> ps_tls_loader srv then (Go_On, send_response ''-ERR TLS not available'' st)
         else (Upgrade, send_response ''+OK Begin TLS negotiation'' st))
      else if c = ''TOP'' then handle_top arg st
      else if c = ''UIDL'' then handle_uidl arg st
      else (Go_On, send_response ''-ERR unknown command'' st))"

definition pop3_parse :: "string \<Rightarrow> string \<times> string" where
  \<comment> \<open>command and argument of a line that is not blank\<close>
  "pop3_parse line =
     (let parts = split_n2 (CHR '' '') line
      in (to_upper (hd parts), case parts of _ # a # _ \<Rightarrow> trim_space a | _ \<Rightarrow> []))"

definition pop3_command ::
  "pop3_server \<Rightarrow> pop3_peer \<Rightarrow> gotime \<Rightarrow> string \<Rightarrow> pop3_state \<Rightarrow> pop3_outcome \<times> pop3_state" where
  "pop3_command srv peer now line0 st0 =
     (let line = trim_space line0
      in if line = [] then (Go_On, st0)
         else
           (let (c, arg) = pop3_parse line;
                st = st0\<lparr>po_counts := (po_counts st0)(c := po_counts st0 c + 1),
                        po_hub := conn_touch now (po_handle st0) (po_hub st0)\<rparr>
            in if \<not> is_authenticated st \<and> requires_auth c
               then (Go_On, send_response ''-ERR authentication required'' st)
               else pop3_dispatch srv peer now c arg st))"

fun pop3_run ::
  "pop3_server \<Rightarrow> pop3_peer \<Rightarrow> (gotime \<times> string) list \<Rightarrow> pop3_state \<Rightarrow> pop3_outcome \<times> pop3_state" where
  "pop3_run srv peer [] st = (Go_On, st)"
| "pop3_run srv peer ((now, line) # ls) st =
     (case pop3_command srv peer now line st of
        (Go_On, st1) \<Rightarrow> pop3_run srv peer ls st1
      | r \<Rightarrow> r)"

text \<open>What follows the loop when the connection breaks off without \<open>QUIT\<close>.\<close>

definition pop3_broken :: "pop3_peer \<Rightarrow> gotime \<Rightarrow> pop3_state \<Rightarrow> pop3_state" where
  "pop3_broken peer end st =
     st\<lparr>po_db := pop3_write_log peer end (po_login st) (is_authenticated st \<and> po_fail st = []) (po_fail st)
       (pop3_command_detail (po_counts st) 0) 0 (since_ms end (pk_started peer)) (po_db st)\<rparr>"

definition pop3_tls_failed :: "pop3_peer \<Rightarrow> gotime \<Rightarrow> pop3_state \<Rightarrow> pop3_state" where
  "pop3_tls_failed peer end st =
     st\<lparr>po_db := pop3_write_log peer end (po_login st) False
       (''TLS '' @ utf8 [230, 143, 161, 230, 137, 139, 229, 164, 177, 232, 180, 165])
       (pop3_command_detail (po_counts st) 0) 0 (since_ms end (pk_started peer)) (po_db st)\<rparr>"

definition pop3_session ::
  "pop3_server \<Rightarrow> pop3_peer \<Rightarrow> (gotime \<times> string) list \<Rightarrow> (gotime \<times> string) list option \<Rightarrow> gotime \<Rightarrow>
   pop3_state \<Rightarrow> pop3_outcome \<times> pop3_state" where
  "pop3_session srv peer clear secure end st =
     (case pop3_run srv peer clear st of
        (Go_On, st1) \<Rightarrow> (Go_On, pop3_broken peer end st1)
      | (Upgrade, st1) \<Rightarrow>
          (case secure of
             None \<Rightarrow> (Go_On, pop3_tls_failed peer end st1)
           | Some ls \<Rightarrow>
               (case pop3_run srv peer ls
                       (st1\<lparr>po_tls := True, po_hub := conn_set_tls True (po_handle st1) (po_hub st1)\<rparr>) of
                  (Go_On, st2) \<Rightarrow> (Go_On, pop3_broken peer end st2)
                | r \<Rightarrow> r))
      | r \<Rightarrow> r)"

definition pop3_handle_conn ::
  "pop3_server \<Rightarrow> pop3_peer \<Rightarrow> (gotime \<times> string) list \<Rightarrow> (gotime \<times> string) list option \<Rightarrow> gotime \<Rightarrow>
   hub \<Rightarrow> db \<Rightarrow> pop3_outcome \<times> string \<times> push_event list \<times> hub \<times> db" where
  "pop3_handle_conn srv peer clear secure end h s =
     (let now = pk_started peer
      in case bans_is_banned now (pk_ip peer) s of
          (Some _, s1) \<Rightarrow>
            (Quitted, ''-ERR access denied'' @ crlf, [], h,
             pop3_write_log peer now [] False (''IP'' @ utf8 [229, 183, 178, 232, 162, 171, 229, 176, 129, 231, 166, 129])
               (utf8 [232, 191, 158, 230, 142, 165, 232, 162, 171, 230, 139, 146, 231, 187, 157]) 0 0 s1)
        | (None, s1) \<Rightarrow>
            (let (i, h1) = hub_register now ''pop3'' (pk_ip peer) (pk_port peer) False h;
                 h2 = conn_set_disconnect (pk_socket peer) i h1;
                 st0 = \<lparr>po_user = None, po_login = [], po_fail = [], po_counts = (\<lambda>_. 0), po_msgs = [],
                        po_deleted = None, po_tls = False, po_out = [], po_handle = i, po_hub = h2,
                        po_pushed = [], po_db = s1\<rparr>;
                 (r, st) = pop3_session srv peer clear secure end
                             (send_response ''+OK MailGo POP3 server ready'' st0)
             in (r, po_out st, po_pushed st, conn_close i (po_hub st), po_db st)))"

section \<open>Handlers that only answer\<close>

definition says :: "pop3_state \<Rightarrow> pop3_state \<Rightarrow> bool" where
  "says st st' \<longleftrightarrow> (\<exists>bs. st' = st\<lparr>po_out := po_out st @ bs\<rparr>)"

lemma says_refl [simp, intro]: "says st st"
  unfolding says_def by (rule exI [of _ "[]"]) simp

lemma says_raw [intro]:
  assumes "says st st'"
  shows "says st (send_raw bs st')"
proof -
  from assms obtain cs where "st' = st\<lparr>po_out := po_out st @ cs\<rparr>" by (auto simp: says_def)
  then have "send_raw bs st' = st\<lparr>po_out := po_out st @ (cs @ bs)\<rparr>" by (simp add: send_raw_def)
  then show ?thesis unfolding says_def ..
qed

lemma send_response_raw: "send_response line = send_raw (line @ crlf)"
  by (simp add: fun_eq_iff send_response_def send_raw_def)

lemma says_response [intro]: "says st st' \<Longrightarrow> says st (send_response line st')"
  unfolding send_response_raw by (rule says_raw)

lemma says_foldl: "says st st' \<Longrightarrow> says st (foldl (\<lambda>st x. send_response (f x) st) st' xs)"
  by (induction xs arbitrary: st') (auto intro: says_response)

lemma says_fields:
  assumes "says st st'"
  shows "po_user st' = po_user st" "po_msgs st' = po_msgs st" "po_deleted st' = po_deleted st"
    "po_db st' = po_db st" "po_pushed st' = po_pushed st" "po_login st' = po_login st" "po_tls st' = po_tls st"
  using assms by (auto simp: says_def)

lemma answers_only:
  "says st (handle_stat st)" "says st (snd (handle_list arg st))" "says st (snd (handle_retr arg st))"
  "says st (snd (handle_top arg st))" "says st (snd (handle_uidl arg st))" "says st (handle_capa srv t st)"
  unfolding handle_stat_def handle_list_def handle_retr_def handle_top_def handle_uidl_def handle_capa_def
  by (auto simp: Let_def split_def intro!: says_foldl says_response says_raw split: option.splits list.splits)

section \<open>Every index is in range\<close>

lemma str_index_bound: "str_index p s = Some i \<Longrightarrow> i + length p \<le> length s"
proof -
  assume "str_index p s = Some i"
  from str_index_Some [OF this] have "has_prefix p (drop i s)" "i \<le> length s" by simp_all
  then have "length p \<le> length (drop i s)" unfolding has_prefix_def by (metis length_take min.bounded_iff order_refl)
  then show ?thesis using \<open>i \<le> length s\<close> by simp
qed

lemma split_header_body_Some: "split_header_body raw \<noteq> None"
proof -
  have "slice_from raw (i + k) \<noteq> None" if "str_index p raw = Some i" "k = length p" for p i k
    using str_index_bound [OF that(1)] that(2) by (simp add: slice_from_def)
  from this [of "crlf @ crlf" _ 4] this [of "[CHR 0x0A, CHR 0x0A]" _ 2] show ?thesis
    unfolding split_header_body_def by (force simp: crlf_def split: option.splits)
qed

lemma message_number_index:
  assumes "message_number arg st = Some n"
  shows "slice_index (po_msgs st) (n - 1) = Some (po_msgs st ! nat (n - 1))"
  using assms by (auto simp: message_number_def slice_index_def split: option.splits if_splits)

lemma in_range:
  "fst (handle_list arg st) = Go_On" "fst (handle_retr arg st) = Go_On" "fst (handle_top arg st) = Go_On"
  "fst (handle_uidl arg st) = Go_On"
proof -
  have "\<exists>h b. split_header_body raw = Some (h, b)" for raw using split_header_body_Some [of raw] by auto
  then have "(case split_header_body raw of None \<Rightarrow> (Panicked, st) | Some (h, b) \<Rightarrow> (Go_On, f h b)) =
      (Go_On, case split_header_body raw of None \<Rightarrow> st | Some (h, b) \<Rightarrow> f h b)" for raw f
    using split_header_body_Some [of raw] by (cases "split_header_body raw") (simp_all add: split_def)
  then show "fst (handle_top arg st) = Go_On"
    by (auto simp: handle_top_def Let_def message_number_index split: option.splits list.splits)
qed (auto simp: handle_list_def handle_retr_def handle_uidl_def message_number_index split: option.splits)

lemma expunge_loop_in_range: "fst (expunge_loop msgs ns s) = Go_On"
proof (induction ns arbitrary: s)
  case Nil
  then show ?case by simp
next
  case (Cons n ns)
  show ?case
    using Cons.IH by (auto simp: slice_index_def split_def Let_def split: sum.splits)
qed

lemma expunge_deleted_in_range: "expunge_deleted srv st = (r, n, st') \<Longrightarrow> r = Go_On"
  using expunge_loop_in_range
  by (auto simp: expunge_deleted_def Let_def split_def split: option.splits if_splits)

section \<open>What a connection can reach\<close>

text \<open>The passwords offered on the lines of a connection.\<close>

definition passwords_of :: "(gotime \<times> string) list \<Rightarrow> string set" where
  "passwords_of ls = {pw. \<exists>(now, line) \<in> set ls. pop3_parse (trim_space line) = (''PASS'', pw)}"

definition proven_login :: "pop3_server \<Rightarrow> string set \<Rightarrow> db \<Rightarrow> user \<Rightarrow> bool" where
  \<comment> \<open>the account is active, is one the login name stands for, and its password was offered\<close>
  "proven_login srv pws s u \<longleftrightarrow> u_is_active u \<and> (\<exists>pw \<in> pws. ps_check_pw srv (u_password_hash u) pw) \<and>
     (\<exists>login. \<exists>v \<in> set (db_users s). same_account u v \<and> login_refers s login v)"

definition drop_inv :: "pop3_server \<Rightarrow> string set \<Rightarrow> db \<Rightarrow> pop3_state \<Rightarrow> bool" where
  "drop_inv srv pws s0 st \<longleftrightarrow> but_ledgers (po_db st) = but_ledgers s0 \<and>
     (po_msgs st \<noteq> [] \<longrightarrow> po_deleted st \<noteq> None \<and>
       (\<exists>u login. po_user st = Some (u\<lparr>u_username := login\<rparr>) \<and> proven_login srv pws s0 u \<and>
         (\<forall>m \<in> set (po_msgs st). \<exists>x \<in> set (db_messages s0). m_id x = pm_id m \<and> in_folder (u_id u) ''INBOX'' x)))"

lemma login_refers_cong:
  assumes "but_ledgers s = but_ledgers t"
  shows "login_refers s = login_refers t"
  unfolding login_refers_def [abs_def] in_domain_def [abs_def] domain_of_def [abs_def] but_ledgersD(2) [OF assms] ..

lemma drop_inv_says: "drop_inv srv pws s0 st \<Longrightarrow> says st st' \<Longrightarrow> drop_inv srv pws s0 st'"
  by (simp add: drop_inv_def says_fields)

lemma drop_inv_bookkeeping [simp]:
  "drop_inv srv pws s0 (send_response line st) = drop_inv srv pws s0 st"
  "drop_inv srv pws s0 (st\<lparr>po_counts := c, po_hub := h\<rparr>) = drop_inv srv pws s0 st"
  "drop_inv srv pws s0 (st\<lparr>po_fail := f\<rparr>) = drop_inv srv pws s0 st"
  "drop_inv srv pws s0 (st\<lparr>po_fail := f, po_hub := h\<rparr>) = drop_inv srv pws s0 st"
  "drop_inv srv pws s0 (st\<lparr>po_tls := t, po_hub := h\<rparr>) = drop_inv srv pws s0 st"
  by (simp_all add: drop_inv_def send_response_def)

lemma drop_inv_empty:
  "po_msgs st = [] \<Longrightarrow> but_ledgers (po_db st) = but_ledgers s0 \<Longrightarrow> drop_inv srv pws s0 st"
  by (simp add: drop_inv_def)

lemma handle_user_inv: "drop_inv srv pws s0 st \<Longrightarrow> drop_inv srv pws s0 (handle_user name st)"
  using users_get_by_email_but [of name "po_db st"]
  by (cases "users_get_by_email name (po_db st)")
    (auto simp: handle_user_def Let_def drop_inv_def send_response_def split: sum.splits)

lemma load_messages_inbox:
  assumes "pop3_load_messages srv u s = (ms, s')"
  shows "but_ledgers s' = but_ledgers s \<and>
    (\<forall>m \<in> set ms. \<exists>x \<in> set (db_messages s). m_id x = pm_id m \<and> in_folder (u_id u) ''INBOX'' x)"
  using assms mails_list_all_but [of "u_id u" "''INBOX''" s]
  by (auto simp: pop3_load_messages_def mails_list_all_def stmt_results Let_def
      split: prod.splits sum.splits) blast

lemma handle_pass_inv:
  assumes "drop_inv srv pws s0 st" and "pw \<in> pws"
  shows "drop_inv srv pws s0 (handle_pass srv peer now pw st)"
proof (cases "po_user st")
  case None
  with assms show ?thesis by (simp add: handle_pass_def drop_inv_def Let_def send_response_def)
next
  case (Some u0)
  obtain r s1 where g: "guarded_login (ps_check_pw srv) (ps_ban srv) now (pk_ip peer) (u_username u0) pw (po_db st) = (r, s1)"
    by (cases "guarded_login (ps_check_pw srv) (ps_ban srv) now (pk_ip peer) (u_username u0) pw (po_db st)")
  have b: "but_ledgers (po_db st) = but_ledgers s0" using assms(1) by (simp add: drop_inv_def)
  then have b1: "but_ledgers s1 = but_ledgers s0"
    using guarded_login_but [of "ps_check_pw srv" "ps_ban srv" now "pk_ip peer" "u_username u0" pw "po_db st"] g by simp
  show ?thesis
  proof (cases r)
    case None
    with Some g b1 show ?thesis
      by (simp add: handle_pass_def Let_def) (rule drop_inv_empty, simp_all)
  next
    case (Some u)
    let ?u = "u\<lparr>u_username := u_username u0\<rparr>"
    obtain ms s2 where l: "pop3_load_messages srv ?u s1 = (ms, s2)" by (cases "pop3_load_messages srv ?u s1")
    note loaded = load_messages_inbox [OF l]
    have "proven_login srv pws s0 u"
      using guarded_login_Some [OF g [unfolded Some]] assms(2) but_ledgersD(1) [OF b] login_refers_cong [OF b]
      unfolding proven_login_def by (metis)
    moreover have "db_messages s1 = db_messages s0" using but_ledgersD(3) [OF b1] .
    ultimately show ?thesis
      using loaded b1 \<open>po_user st = Some u0\<close> g Some l
      by (auto simp: handle_pass_def Let_def drop_inv_def send_response_def)
  qed
qed

lemma after_pass_inv [simp]: "drop_inv srv pws s0 (after_pass now st) = drop_inv srv pws s0 st"
  by (simp add: after_pass_def)

lemma handle_dele_inv:
  assumes "drop_inv srv pws s0 st" and "handle_dele arg st = (r, st')"
  shows "drop_inv srv pws s0 st' \<and> r = Go_On"
proof (cases "message_number arg st")
  case None
  with assms show ?thesis by (auto simp: handle_dele_def)
next
  case (Some n)
  then have "po_msgs st \<noteq> []" by (auto simp: message_number_def split: option.splits if_splits)
  with assms(1) obtain ds where ds: "po_deleted st = Some ds" by (auto simp: drop_inv_def)
  have "drop_inv srv pws s0 (st\<lparr>po_deleted := Some (ds @ [n])\<rparr>)"
    using assms(1) by (simp add: drop_inv_def)
  with assms Some ds show ?thesis by (auto simp: handle_dele_def split: if_splits)
qed

text \<open>Every command but a final \<open>QUIT\<close> keeps the invariant, and none panics.\<close>

lemma pop3_dispatch_inv:
  assumes "drop_inv srv pws s0 st" and "c = ''PASS'' \<Longrightarrow> arg \<in> pws" and "c \<noteq> ''QUIT''"
    and "pop3_dispatch srv peer now c arg st = (r, st')"
  shows "drop_inv srv pws s0 st' \<and> r \<in> {Go_On, Upgrade}"
proof -
  note says = answers_only [THEN drop_inv_says [OF assms(1)]]
  have idx: "\<And>r st'. handle_list arg st = (r, st') \<Longrightarrow> drop_inv srv pws s0 st' \<and> r = Go_On"
    "\<And>r st'. handle_retr arg st = (r, st') \<Longrightarrow> drop_inv srv pws s0 st' \<and> r = Go_On"
    "\<And>r st'. handle_top arg st = (r, st') \<Longrightarrow> drop_inv srv pws s0 st' \<and> r = Go_On"
    "\<And>r st'. handle_uidl arg st = (r, st') \<Longrightarrow> drop_inv srv pws s0 st' \<and> r = Go_On"
    using says(2-5) in_range by (metis fst_conv snd_conv)+
  have rset: "drop_inv srv pws s0 (st\<lparr>po_deleted := Some []\<rparr>)" using assms(1) by (simp add: drop_inv_def)
  show ?thesis
    using assms(4) says(1,6) idx handle_user_inv [OF assms(1)] handle_pass_inv [OF assms(1,2)] handle_dele_inv [OF assms(1)]
      rset assms(1,3)
    unfolding pop3_dispatch_def by (auto split: if_splits)
qed

lemma expunge_loop_effect:
  "expunge_loop msgs ns s = (r, seqs, s') \<Longrightarrow>
   \<exists>D \<subseteq> pm_id ` set msgs. but_ledgers s' = del_messages (\<lambda>m. m_id m \<in> D) (but_ledgers s)"
proof (induction msgs ns s arbitrary: r seqs s' rule: expunge_loop.induct)
  case (1 msgs s)
  have "but_ledgers s = del_messages (\<lambda>m. m_id m \<in> {}) (but_ledgers s)" by (simp add: del_messages_def)
  with 1 show ?case by (metis empty_subsetI expunge_loop.simps(1) snd_conv)
next
  case (2 msgs n ns s)
  show ?case
  proof (cases "1 \<le> n \<and> n \<le> int (length msgs)")
    case False
    with 2 show ?thesis by auto
  next
    case True
    let ?i = "pm_id (msgs ! nat (n - 1))"
    have mem: "?i \<in> pm_id ` set msgs" using True by auto
    have idx: "slice_index msgs (n - 1) = Some (msgs ! nat (n - 1))" using True by (simp add: slice_index_def)
    obtain q s1 where q: "mails_delete ?i s = (q, s1)" by (cases "mails_delete ?i s")
    show ?thesis
    proof (cases q)
      case (Inl e)
      then have "but_ledgers s1 = but_ledgers s" using q by (auto simp: mails_delete_def stmt_results)
      with 2(1) [OF True idx q [symmetric] Inl] 2(4) True idx q Inl show ?thesis by auto
    next
      case (Inr u)
      then have s1: "but_ledgers s1 = del_messages (\<lambda>m. m_id m = ?i) (but_ledgers s)"
        using q by (auto simp: mails_delete_def stmt_results but_ledgers_def del_messages_def tick_def)
      obtain r2 seqs2 where "expunge_loop msgs ns s1 = (r2, seqs2, s')"
        using 2(4) True idx q Inr by (auto simp: Let_def split: prod.splits)
      from 2(2) [OF True idx q [symmetric] Inr this]
      obtain D where D: "D \<subseteq> pm_id ` set msgs" "but_ledgers s' = del_messages (\<lambda>m. m_id m \<in> D) (but_ledgers s1)"
        by blast
      have "but_ledgers s' = del_messages (\<lambda>m. m_id m \<in> insert ?i D) (but_ledgers s)"
        unfolding D(2) s1 by (simp add: del_messages_def conj_commute)
      with D(1) mem show ?thesis by (intro exI [of _ "insert ?i D"]) auto
    qed
  qed
qed

definition removal :: "pop3_server \<Rightarrow> string set \<Rightarrow> db \<Rightarrow> db \<Rightarrow> nat set \<Rightarrow> bool" where
  \<comment> \<open>the messages with ids in \<open>D\<close> are gone, all from the inbox of one account with a proven login\<close>
  "removal srv pws s0 s' D \<longleftrightarrow> but_ledgers s' = del_messages (\<lambda>m. m_id m \<in> D) (but_ledgers s0) \<and>
     (D \<noteq> {} \<longrightarrow> (\<exists>u. proven_login srv pws s0 u \<and>
        (\<forall>i \<in> D. \<exists>x \<in> set (db_messages s0). m_id x = i \<and> in_folder (u_id u) ''INBOX'' x)))"

lemma removal_none: "but_ledgers s' = but_ledgers s0 \<Longrightarrow> removal srv pws s0 s' {}"
  by (simp add: removal_def del_messages_def)

lemma expunge_deleted_removal:
  assumes "drop_inv srv pws s0 st" and "expunge_deleted srv st = (r, n, st')"
  shows "\<exists>D. removal srv pws s0 (po_db st') D"
proof (cases "po_db st' = po_db st")
  case True
  then show ?thesis using assms(1) removal_none unfolding drop_inv_def by metis
next
  case False
  with assms(2) obtain ds u q seqs s1 where d: "po_deleted st = Some ds" "po_user st = Some u"
    and e: "expunge_loop (po_msgs st) (ps_order srv ds) (po_db st) = (q, seqs, s1)" and s1: "po_db st' = s1"
    by (auto simp: expunge_deleted_def Let_def split: option.splits if_splits prod.splits)
  obtain D where D: "D \<subseteq> pm_id ` set (po_msgs st)"
    "but_ledgers s1 = del_messages (\<lambda>m. m_id m \<in> D) (but_ledgers (po_db st))"
    using expunge_loop_effect [OF e] by blast
  have "removal srv pws s0 s1 D"
    unfolding removal_def
  proof
    show "but_ledgers s1 = del_messages (\<lambda>m. m_id m \<in> D) (but_ledgers s0)"
      using D(2) assms(1) by (simp add: drop_inv_def)
    show "D \<noteq> {} \<longrightarrow> (\<exists>u. proven_login srv pws s0 u \<and>
        (\<forall>i \<in> D. \<exists>x \<in> set (db_messages s0). m_id x = i \<and> in_folder (u_id u) ''INBOX'' x))"
    proof
      assume "D \<noteq> {}"
      with D(1) have "po_msgs st \<noteq> []" by auto
      with assms(1) obtain v where "proven_login srv pws s0 v"
        "\<forall>m \<in> set (po_msgs st). \<exists>x \<in> set (db_messages s0). m_id x = pm_id m \<and> in_folder (u_id v) ''INBOX'' x"
        by (auto simp: drop_inv_def)
      with D(1) show "\<exists>u. proven_login srv pws s0 u \<and>
          (\<forall>i \<in> D. \<exists>x \<in> set (db_messages s0). m_id x = i \<and> in_folder (u_id u) ''INBOX'' x)" by blast
    qed
  qed
  with s1 show ?thesis by blast
qed

lemma pop3_write_log_but [simp]: "but_ledgers (pop3_write_log peer at u ok f d n ms s) = but_ledgers s"
  by (simp add: pop3_write_log_def)

lemma removal_log [simp]:
  "removal srv pws s0 (pop3_write_log peer at u ok f d n ms s) D = removal srv pws s0 s D"
  by (simp add: removal_def)

lemma pop3_command_inv:
  assumes "drop_inv srv pws s0 st" and "passwords_of [(t, line)] \<subseteq> pws"
    and "pop3_command srv peer now line st = (r, st')"
  shows "r \<noteq> Panicked \<and> (if r = Quitted then \<exists>D. removal srv pws s0 (po_db st') D else drop_inv srv pws s0 st')"
proof (cases "trim_space line = []")
  case True
  with assms show ?thesis by (auto simp: pop3_command_def)
next
  case False
  obtain c arg where p: "pop3_parse (trim_space line) = (c, arg)" by (cases "pop3_parse (trim_space line)")
  let ?st = "st\<lparr>po_counts := (po_counts st)(c := po_counts st c + 1), po_hub := conn_touch now (po_handle st) (po_hub st)\<rparr>"
  have inv: "drop_inv srv pws s0 ?st" using assms(1) by simp
  have pw: "c = ''PASS'' \<Longrightarrow> arg \<in> pws" using assms(2) p by (auto simp: passwords_of_def)
  show ?thesis
  proof (cases "\<not> is_authenticated ?st \<and> requires_auth c")
    case True
    with assms(3) False p inv show ?thesis by (auto simp: pop3_command_def Let_def)
  next
    case F: False
    then have d: "pop3_dispatch srv peer now c arg ?st = (r, st')"
      using assms(3) False p by (auto simp: pop3_command_def Let_def split: if_splits)
    show ?thesis
    proof (cases "c = ''QUIT''")
      case False
      then show ?thesis using pop3_dispatch_inv [OF inv pw False d] by auto
    next
      case True
      obtain q n st1 where e: "expunge_deleted srv ?st = (q, n, st1)" by (cases "expunge_deleted srv ?st")
      from expunge_deleted_removal [OF inv e] show ?thesis
        using d True e expunge_deleted_in_range [OF e] by (auto simp: pop3_dispatch_def send_response_def Let_def)
    qed
  qed
qed

lemma pop3_run_inv:
  assumes "drop_inv srv pws s0 st" and "passwords_of ls \<subseteq> pws" and "pop3_run srv peer ls st = (r, st')"
  shows "r \<noteq> Panicked \<and> (if r = Quitted then \<exists>D. removal srv pws s0 (po_db st') D else drop_inv srv pws s0 st')"
  using assms
proof (induction srv peer ls st rule: pop3_run.induct)
  case (1 srv peer st)
  then show ?case by simp
next
  case (2 srv peer now line ls st)
  obtain r1 st1 where c: "pop3_command srv peer now line st = (r1, st1)" by (cases "pop3_command srv peer now line st")
  have P: "passwords_of [(now, line)] \<subseteq> pws" "passwords_of ls \<subseteq> pws"
    using 2(3) by (auto simp: passwords_of_def)
  note step = pop3_command_inv [OF 2(2) P(1) c]
  show ?case
  proof (cases "r1 = Go_On")
    case True
    with step have "drop_inv srv pws s0 st1" by simp
    from 2(1) [OF c [symmetric] True this P(2)] show ?thesis using 2(4) c True by simp
  next
    case False
    then have "r = r1 \<and> st' = st1" using 2(4) c by (cases r1) auto
    with step show ?thesis by simp
  qed
qed

lemma pop3_broken_but [simp]: "but_ledgers (po_db (pop3_broken peer end st)) = but_ledgers (po_db st)"
  by (simp add: pop3_broken_def)

lemma pop3_tls_failed_but [simp]: "but_ledgers (po_db (pop3_tls_failed peer end st)) = but_ledgers (po_db st)"
  by (simp add: pop3_tls_failed_def)

lemma drop_inv_but: "drop_inv srv pws s0 st \<Longrightarrow> but_ledgers (po_db st) = but_ledgers s0"
  by (simp add: drop_inv_def)

definition all_lines :: "(gotime \<times> string) list \<Rightarrow> (gotime \<times> string) list option \<Rightarrow> (gotime \<times> string) list" where
  "all_lines clear secure = clear @ (case secure of None \<Rightarrow> [] | Some ls \<Rightarrow> ls)"

lemma pop3_session_inv:
  assumes "drop_inv srv pws s0 st" and "passwords_of (all_lines clear secure) \<subseteq> pws"
    and "pop3_session srv peer clear secure end st = (r, st')"
  shows "r \<noteq> Panicked \<and> (\<exists>D. removal srv pws s0 (po_db st') D \<and> (D \<noteq> {} \<longrightarrow> r = Quitted))"
proof -
  obtain r1 st1 where c: "pop3_run srv peer clear st = (r1, st1)" by (cases "pop3_run srv peer clear st")
  have P: "passwords_of clear \<subseteq> pws" "secure = Some ls \<Longrightarrow> passwords_of ls \<subseteq> pws" for ls
    using assms(2) by (auto simp: passwords_of_def all_lines_def)
  note i1 = pop3_run_inv [OF assms(1) P(1) c]
  have kept: ?thesis if "r \<noteq> Panicked" "but_ledgers (po_db st') = but_ledgers s0"
    using that removal_none by blast
  show ?thesis
  proof (cases r1)
    case Go_On
    with i1 have "drop_inv srv pws s0 st1" by simp
    then show ?thesis using assms(3) c Go_On by (intro kept) (auto simp: pop3_session_def drop_inv_def)
  next
    case Upgrade
    with i1 have inv1: "drop_inv srv pws s0 st1" by simp
    show ?thesis
    proof (cases secure)
      case None
      then show ?thesis using assms(3) c Upgrade inv1 by (intro kept) (auto simp: pop3_session_def drop_inv_def)
    next
      case (Some ls)
      let ?st = "st1\<lparr>po_tls := True, po_hub := conn_set_tls True (po_handle st1) (po_hub st1)\<rparr>"
      obtain r2 st2 where c2: "pop3_run srv peer ls ?st = (r2, st2)" by (cases "pop3_run srv peer ls ?st")
      have inv2: "drop_inv srv pws s0 ?st" using inv1 by simp
      note i2 = pop3_run_inv [OF inv2 P(2) [OF Some] c2]
      show ?thesis
      proof (cases "r2 = Quitted")
        case True
        with i2 assms(3) c Upgrade Some c2 show ?thesis by (auto simp: pop3_session_def)
      next
        case False
        with i2 have "drop_inv srv pws s0 st2" "r2 \<noteq> Panicked" by auto
        then show ?thesis using assms(3) c Upgrade Some c2 False
          by (cases r2; intro kept) (auto simp: pop3_session_def drop_inv_def)
      qed
    qed
  next
    case Quitted
    with i1 assms(3) c show ?thesis by (auto simp: pop3_session_def)
  next
    case Panicked
    with i1 show ?thesis by simp
  qed
qed

lemma pop3_handle_conn_inv:
  assumes "pop3_handle_conn srv peer clear secure end h s = (r, out, pushed, h', s')"
  shows "r \<noteq> Panicked \<and> (\<exists>D. removal srv (passwords_of (all_lines clear secure)) s s' D \<and> (D \<noteq> {} \<longrightarrow> r = Quitted))"
proof -
  let ?P = "passwords_of (all_lines clear secure)"
  obtain b s1 where b: "bans_is_banned (pk_started peer) (pk_ip peer) s = (b, s1)"
    by (cases "bans_is_banned (pk_started peer) (pk_ip peer) s")
  have s1: "but_ledgers s1 = but_ledgers s" using bans_is_banned_but [of "pk_started peer" "pk_ip peer" s] b by simp
  show ?thesis
  proof (cases b)
    case (Some e)
    then have "r = Quitted" "but_ledgers s' = but_ledgers s"
      using assms b s1 by (auto simp: pop3_handle_conn_def Let_def)
    then show ?thesis using removal_none by blast
  next
    case None
    obtain st0 st where "pop3_session srv peer clear secure end st0 = (r, st)" and "po_db st = s'"
      and "po_msgs st0 = []" and "po_db st0 = s1"
      using assms b None by (auto simp: pop3_handle_conn_def Let_def send_response_def split: prod.splits)
    moreover have "drop_inv srv ?P s st0"
      using calculation s1 by (intro drop_inv_empty) simp_all
    ultimately show ?thesis using pop3_session_inv [of srv ?P s st0] by blast
  qed
qed

section \<open>Properties of a connection\<close>

text \<open>C2: whatever a POP3 client sends, with whatever pattern of failing statements, a connection
  removes messages only if it ends with \<open>QUIT\<close>, and then only messages from the inbox of an active
  account whose password the client offered on this connection; accounts, folders, other users' mail
  and the outbound queue are left as they were.\<close>

theorem pop3_removes_only_own_mail:
  assumes "pop3_handle_conn srv peer clear secure end h s = (r, out, pushed, h', s')"
  shows "\<exists>D. but_ledgers s' = del_messages (\<lambda>m. m_id m \<in> D) (but_ledgers s) \<and>
    (D \<noteq> {} \<longrightarrow> r = Quitted \<and>
      (\<exists>u. proven_login srv (passwords_of (all_lines clear secure)) s u \<and>
        (\<forall>i \<in> D. \<exists>x \<in> set (db_messages s). m_id x = i \<and> in_folder (u_id u) ''INBOX'' x)))"
  using pop3_handle_conn_inv [OF assms] unfolding removal_def by blast

text \<open>C11: no input makes the handler of a POP3 connection panic: whenever \<open>LIST\<close>, \<open>RETR\<close>, \<open>TOP\<close> or
  \<open>UIDL\<close> or the removal at \<open>QUIT\<close> indexes the slice of messages, or \<open>TOP\<close> cuts a message after its
  header, the index is in range (out of range is a panic of the model as of Go), and a message is
  only marked when the map of marks has been made.\<close>

theorem pop3_never_panics: "fst (pop3_handle_conn srv peer clear secure end h s) \<noteq> Panicked"
  using pop3_handle_conn_inv by (metis prod.collapse)

section \<open>The multi-line responses\<close>

text \<open>The client's side of RFC 1939: lines up to the one that is a single dot, with the stuffed dots
  taken off.\<close>

fun client_read :: "string \<Rightarrow> string list \<Rightarrow> string \<Rightarrow> (string list \<times> string) option" where
  "client_read cur ls [] = None"
| "client_read cur ls [c] = None"
| "client_read cur ls (c # d # s) =
     (if c = CHR 0x0D \<and> d = CHR 0x0A
      then (if rev cur = ''.'' then Some (rev ls, s)
            else client_read [] (trim_prefix ''.'' (rev cur) # ls) s)
      else client_read (c # cur) ls (d # s))"

lemma client_read_line:
  assumes "CHR 0x0D \<notin> set l"
  shows "client_read cur ls (l @ crlf @ rest) =
    (let line = rev cur @ l in
     if line = ''.'' then Some (rev ls, rest) else client_read [] (trim_prefix ''.'' line # ls) rest)"
  using assms
proof (induction l arbitrary: cur)
  case Nil
  show ?case by (simp add: crlf_def Let_def)
next
  case (Cons c l)
  have c: "c \<noteq> CHR 0x0D" "CHR 0x0D \<notin> set l" using Cons.prems by auto
  obtain d s where ds: "l @ crlf @ rest = d # s" by (cases "l @ crlf @ rest") (auto simp: crlf_def)
  have "client_read cur ls ((c # l) @ crlf @ rest) = client_read (c # cur) ls (l @ crlf @ rest)"
    using c(1) ds by simp
  then show ?case using Cons.IH [OF c(2), of "c # cur"] by simp
qed

text \<open>What a mail text is line by line, whatever mixture of line ends it uses.\<close>

definition maildrop_lines :: "string \<Rightarrow> string list" where
  "maildrop_lines raw =
     (let ls = split_on (CHR 0x0A) (norm_newlines raw) in if last ls = [] then butlast ls else ls)"

fun shown_lines :: "string list \<Rightarrow> string list" where
  "shown_lines [] = []"
| "shown_lines (l # ls) = (if ls = [] \<and> l = [] then [] else l # shown_lines ls)"

lemma shown_lines_last: "ls \<noteq> [] \<Longrightarrow> shown_lines ls = (if last ls = [] then butlast ls else ls)"
  by (induction ls) auto

lemma stuffed_line: "trim_prefix ''.'' ((if has_prefix ''.'' l then ''.'' else []) @ l) = l"
  "(if has_prefix ''.'' l then ''.'' else []) @ l \<noteq> ''.''"
  by (auto simp: trim_prefix_def has_prefix_def)

lemma client_read_stuffed:
  "\<forall>l \<in> set ls. CHR 0x0D \<notin> set l \<Longrightarrow>
   client_read [] acc (dot_lines None ls @ ''.'' @ crlf @ rest) = Some (rev acc @ shown_lines ls, rest)"
proof (induction ls arbitrary: acc)
  case Nil
  show ?case using client_read_line [of "''.''" "[]" acc rest] by (simp add: Let_def)
next
  case (Cons l ls)
  show ?case
  proof (cases "ls = [] \<and> l = []")
    case True
    then show ?thesis using client_read_line [of "''.''" "[]" acc rest] by (simp add: Let_def)
  next
    case False
    let ?l = "(if has_prefix ''.'' l then ''.'' else []) @ l"
    have d: "dot_lines None (l # ls) = ?l @ crlf @ dot_lines None ls" using False by auto
    have cr: "CHR 0x0D \<notin> set ?l" using Cons.prems by auto
    have "client_read [] acc (?l @ crlf @ (dot_lines None ls @ ''.'' @ crlf @ rest)) =
        client_read [] (l # acc) (dot_lines None ls @ ''.'' @ crlf @ rest)"
      unfolding client_read_line [OF cr] using stuffed_line [of l] by (simp only: Let_def rev.simps append_Nil if_False)
    also have "\<dots> = Some (rev acc @ shown_lines (l # ls), rest)"
      using Cons.IH [of "l # acc"] Cons.prems False by auto
    finally show ?thesis unfolding d by simp
  qed
qed

lemma norm_newlines_no_cr: "CHR 0x0D \<notin> set (norm_newlines raw)"
  unfolding norm_newlines_def by (rule replace_char_notin) simp

lemma set_split_on: "t \<in> set (split_on c s) \<Longrightarrow> set t \<subseteq> set s"
proof (induction s arbitrary: t)
  case Nil
  then show ?case by simp
next
  case (Cons x s)
  obtain y ys where e: "split_on c s = y # ys" using split_on_ne [of c s] by (cases "split_on c s") auto
  with Cons.IH have "set y \<subseteq> set s" "\<forall>z \<in> set ys. set z \<subseteq> set s" by auto
  with Cons.prems e show ?case by (auto split: if_splits)
qed

lemma client_read_retr:
  "client_read [] [] (write_dot_stuffed raw None @ ''.'' @ crlf @ rest) = Some (maildrop_lines raw, rest)"
proof -
  have "\<forall>l \<in> set (split_on (CHR 0x0A) (norm_newlines raw)). CHR 0x0D \<notin> set l"
    using set_split_on norm_newlines_no_cr by blast
  from client_read_stuffed [OF this, of "[]" rest] show ?thesis
    by (simp add: write_dot_stuffed_def maildrop_lines_def Let_def shown_lines_last)
qed


text \<open>\<open>QUIT\<close> after a login empties the mailbox of exactly the marked messages, whatever order the map
  of marks is walked in: when no statement fails, the messages with the marked numbers are gone and no
  other row has changed, the count in the log is the number of marks, and the push hub is told all
  the numbers once, in the numbering the client saw.\<close>

theorem quit_expunges_marked:
  assumes "po_deleted st = Some ds" and "po_user st = Some u" and "u_id u \<noteq> 0" and "u_username u \<noteq> []"
    and "ps_pusher srv" and "db_faults (po_db st) = []"
    and "\<forall>n \<in> set ds. 1 \<le> n \<and> n \<le> int (length (po_msgs st))"
    and "mset (ps_order srv ds) = mset ds" and "expunge_deleted srv st = (r, k, st')"
  shows "k = length ds \<and>
    po_db st' = del_messages (\<lambda>m. \<exists>n \<in> set ds. m_id m = pm_id (po_msgs st ! nat (n - 1))) (po_db st) \<and>
    (\<exists>seqs. mset seqs = mset (map nat ds) \<and>
       po_pushed st' = po_pushed st @ (if ds = [] then [] else [Push_Expunged (u_username u) ''INBOX'' seqs]))"
proof -
  let ?os = "ps_order srv ds"
  have loop: "expunge_loop (po_msgs st) ns s =
      (Go_On, map nat ns, del_messages (\<lambda>m. \<exists>n \<in> set ns. m_id m = pm_id (po_msgs st ! nat (n - 1))) s)"
    if "\<forall>n \<in> set ns. 1 \<le> n \<and> n \<le> int (length (po_msgs st))" "db_faults s = []" for ns s
    using that
  proof (induction ns arbitrary: s)
    case Nil
    then show ?case by (simp add: del_messages_def)
  next
    case (Cons n ns)
    let ?s1 = "del_messages (\<lambda>m. m_id m = pm_id (po_msgs st ! nat (n - 1))) s"
    have "mails_delete (pm_id (po_msgs st ! nat (n - 1))) s = (Inr (), ?s1)"
      using Cons.prems by (simp add: mails_delete_def db_exec_ok)
    moreover have "slice_index (po_msgs st) (n - 1) = Some (po_msgs st ! nat (n - 1))"
      using Cons.prems by (simp add: slice_index_def)
    moreover have "db_faults ?s1 = []" using Cons.prems by (simp add: del_messages_def)
    ultimately show ?case
      using Cons.IH [of ?s1] Cons.prems by (simp add: Let_def del_messages_def conj_commute disj_imp)
  qed
  have same: "set ?os = set ds" "length ?os = length ds" "mset (map nat ?os) = mset (map nat ds)"
    using assms(8) mset_eq_setD mset_eq_length by (blast, blast, simp)
  have "\<forall>n \<in> set ?os. 1 \<le> n \<and> n \<le> int (length (po_msgs st))" using assms(7) same(1) by simp
  from loop [OF this assms(6)] show ?thesis
    using assms(1,2,3,4,5,9) same by (auto simp: expunge_deleted_def Let_def split: if_splits)
qed

section \<open>A sample connection\<close>

definition sample_pop3 :: pop3_server where
  "sample_pop3 = \<lparr>ps_cfg = \<lparr>pc_addr = '':110'', pc_tls_addr = [], pc_tls_cert = [], pc_tls_key = []\<rparr>,
     ps_ban = \<lparr>bc_max_fail_attempts = 5, bc_ban_duration_min = 30\<rparr>, ps_tls_loader = False, ps_pusher = True,
     ps_check_pw = (=), ps_fmt_date = (\<lambda>_. ''today''), ps_order = (\<lambda>ns. ns)\<rparr>"

definition sample_box :: db where
  "sample_box = sample_accounts\<lparr>db_messages := [sample_message 1 1 ''INBOX'', sample_message 2 1 ''INBOX'',
     sample_message 3 2 ''INBOX'']\<rparr>"

definition sample_peer :: pop3_peer where
  "sample_peer = \<lparr>pk_ip = ''1.2.3.4'', pk_port = 110, pk_socket = 7, pk_started = 0\<rparr>"

definition sample_lines :: "(gotime \<times> string) list" where
  "sample_lines = [(1, ''USER ann@x.org''), (2, ''PASS pw''), (3, ''DELE 2''), (4, ''QUIT'')]"

lemma sample_lines_parse:
  "trim_space ''USER ann@x.org'' = ''USER ann@x.org''" "trim_space ''PASS pw'' = ''PASS pw''"
  "trim_space ''DELE 2'' = ''DELE 2''" "trim_space ''QUIT'' = ''QUIT''"
  "pop3_parse ''USER ann@x.org'' = (''USER'', ''ann@x.org'')" "pop3_parse ''PASS pw'' = (''PASS'', ''pw'')"
  "pop3_parse ''DELE 2'' = (''DELE'', ''2'')" "pop3_parse ''QUIT'' = (''QUIT'', [])"
  by (simp_all add: trim_space_graph ascii_graph_def pop3_parse_def Let_def split_n2_def index_byte_def
      to_upper_def upper_char_def)

lemma sample_find:
  "users_get_by_email ''ann@x.org'' sample_box = (Inr (with_domain sample_box (sample_user 1 ''ann'' 1)), sample_box)"
  by (simp add: users_get_by_email_def split_n2_def index_byte_def db_first_def db_stmt_def sample_box_def
      sample_accounts_def empty_db_def in_domain_def sample_user_def sample_domain_def zero_domain_def
      preload_domain_def preload_domains_def with_domain_def domain_of_def db_query_def)

lemma sample_login:
  "guarded_login (=) bc now ''1.2.3.4'' ''ann@x.org'' ''pw'' sample_box =
     (Some (with_domain sample_box (sample_user 1 ''ann'' 1)), sample_box)"
proof -
  have "users_authenticate_login (=) ''ann@x.org'' ''pw'' sample_box =
      (Inr (with_domain sample_box (sample_user 1 ''ann'' 1)), sample_box)"
    by (simp add: users_authenticate_login_def users_authenticate_def sample_find contains_def has_prefix_def
        check_account_def) (simp add: sample_user_def)
  moreover have "bans_reset_fail ip sample_box = (Inr (), sample_box)" for ip
    by (simp add: bans_reset_fail_def db_exec_def db_stmt_def del_bans_def sample_box_def sample_accounts_def
        empty_db_def)
  ultimately show ?thesis by (simp add: guarded_login_def)
qed

lemma sample_load:
  "pop3_load_messages sample_pop3 (u\<lparr>u_id := 1\<rparr>) sample_box =
     (map (\<lambda>m. let raw = build_raw_message (\<lambda>_. ''today'') m
               in \<lparr>pm_id = m_id m, pm_raw = raw, pm_size = int (length (normalize_pop3_data raw))\<rparr>)
        [sample_message 1 1 ''INBOX'', sample_message 2 1 ''INBOX''], sample_box)"
  by (simp add: pop3_load_messages_def mails_list_all_def db_query_def db_stmt_def sample_box_def sample_accounts_def
      empty_db_def in_folder_def sample_pop3_def)

abbreviation ann :: user where "ann \<equiv> with_domain sample_box (sample_user 1 ''ann'' 1)"

lemma sample_user_step:
  assumes "po_db st = sample_box"
  shows "\<exists>st'. pop3_command sample_pop3 sample_peer now ''USER ann@x.org'' st = (Go_On, st') \<and> po_db st' = sample_box \<and>
    po_user st' = Some (ann\<lparr>u_username := ''ann@x.org''\<rparr>)"
  using assms by (simp add: pop3_command_def sample_lines_parse requires_auth_def pop3_dispatch_def handle_user_def
      sample_find Let_def send_response_def)

lemma ann_id: "(ann\<lparr>u_username := n\<rparr>)\<lparr>u_id := 1\<rparr> = ann\<lparr>u_username := n\<rparr>"
  by (simp add: with_domain_def sample_user_def)

lemma sample_pass_step:
  assumes "po_db st = sample_box" and "po_user st = Some (ann\<lparr>u_username := ''ann@x.org''\<rparr>)"
  shows "\<exists>st'. pop3_command sample_pop3 sample_peer now ''PASS pw'' st = (Go_On, st') \<and> po_db st' = sample_box \<and>
    po_user st' = Some (ann\<lparr>u_username := ''ann@x.org''\<rparr>) \<and> map pm_id (po_msgs st') = [1, 2] \<and> po_deleted st' = Some []"
proof -
  have l: "pop3_load_messages sample_pop3 (ann\<lparr>u_username := ''ann@x.org''\<rparr>) sample_box =
     (map (\<lambda>m. let raw = build_raw_message (\<lambda>_. ''today'') m
               in \<lparr>pm_id = m_id m, pm_raw = raw, pm_size = int (length (normalize_pop3_data raw))\<rparr>)
        [sample_message 1 1 ''INBOX'', sample_message 2 1 ''INBOX''], sample_box)"
    by (rule sample_load [of "ann\<lparr>u_username := ''ann@x.org''\<rparr>", unfolded ann_id])
  have g: "guarded_login (ps_check_pw sample_pop3) (ps_ban sample_pop3) now (pk_ip sample_peer) ''ann@x.org'' ''pw'' sample_box =
      (Some ann, sample_box)"
    by (simp add: sample_pop3_def sample_peer_def sample_login)
  show ?thesis
    using assms by (simp add: pop3_command_def sample_lines_parse requires_auth_def pop3_dispatch_def handle_pass_def
        g l Let_def send_response_def after_pass_def del: One_nat_def)
qed

lemma sample_dele_step:
  assumes "po_db st = sample_box" and "po_user st = Some (ann\<lparr>u_username := ''ann@x.org''\<rparr>)"
    and "map pm_id (po_msgs st) = [1, 2]" and "po_deleted st = Some []"
  shows "\<exists>st'. pop3_command sample_pop3 sample_peer now ''DELE 2'' st = (Go_On, st') \<and> po_db st' = sample_box \<and>
    po_user st' = Some (ann\<lparr>u_username := ''ann@x.org''\<rparr>) \<and> map pm_id (po_msgs st') = [1, 2] \<and> po_deleted st' = Some [2]"
proof -
  have "length (po_msgs st) = 2" using arg_cong [OF assms(3), of length] by simp
  moreover have "u_id ann = 1" by (simp add: with_domain_def sample_user_def)
  moreover have "atoi ''2'' = Some 2" by (simp add: atoi_def digit_val_def)
  ultimately show ?thesis
    using assms by (simp add: pop3_command_def sample_lines_parse requires_auth_def pop3_dispatch_def handle_dele_def
        Let_def send_response_def message_number_def marked_def is_authenticated_def)
qed

lemma sample_quit_step:
  assumes "po_db st = sample_box" and "po_user st = Some (ann\<lparr>u_username := ''ann@x.org''\<rparr>)"
    and "map pm_id (po_msgs st) = [1, 2]" and "po_deleted st = Some [2]"
  shows "\<exists>st'. pop3_command sample_pop3 sample_peer now ''QUIT'' st = (Quitted, st') \<and>
    map m_id (db_messages (po_db st')) = [1, 3]"
proof -
  obtain a b where ms: "po_msgs st = [a, b]" "pm_id b = 2" using assms(3) by auto
  have i: "u_id ann = 1" by (simp add: with_domain_def sample_user_def)
  show ?thesis
    using assms ms by (simp add: pop3_command_def sample_lines_parse requires_auth_def pop3_dispatch_def
        Let_def send_response_def expunge_deleted_def slice_index_def sample_pop3_def i mails_delete_def db_exec_def db_stmt_def
        pop3_write_log_def logs_create_def sample_box_def sample_accounts_def empty_db_def del_messages_def sample_user_def)
qed

lemma sample_run:
  assumes "po_db st = sample_box"
  shows "\<exists>st'. pop3_run sample_pop3 sample_peer sample_lines st = (Quitted, st') \<and> map m_id (db_messages (po_db st')) = [1, 3]"
proof -
  obtain st1 where 1: "pop3_command sample_pop3 sample_peer 1 ''USER ann@x.org'' st = (Go_On, st1)" "po_db st1 = sample_box"
    "po_user st1 = Some (ann\<lparr>u_username := ''ann@x.org''\<rparr>)" using sample_user_step [OF assms] by metis
  obtain st2 where 2: "pop3_command sample_pop3 sample_peer 2 ''PASS pw'' st1 = (Go_On, st2)" "po_db st2 = sample_box"
    "po_user st2 = Some (ann\<lparr>u_username := ''ann@x.org''\<rparr>)" "map pm_id (po_msgs st2) = [1, 2]" "po_deleted st2 = Some []"
    using sample_pass_step [OF 1(2,3)] by metis
  obtain st3 where 3: "pop3_command sample_pop3 sample_peer 3 ''DELE 2'' st2 = (Go_On, st3)" "po_db st3 = sample_box"
    "po_user st3 = Some (ann\<lparr>u_username := ''ann@x.org''\<rparr>)" "map pm_id (po_msgs st3) = [1, 2]" "po_deleted st3 = Some [2]"
    using sample_dele_step [OF 2(2-5)] by metis
  obtain st4 where 4: "pop3_command sample_pop3 sample_peer 4 ''QUIT'' st3 = (Quitted, st4)"
    "map m_id (db_messages (po_db st4)) = [1, 3]" using sample_quit_step [OF 3(2-5)] by metis
  show ?thesis by (simp add: sample_lines_def 1(1) 2(1) 3(1) 4)
qed

lemma pop3_removes_only_own_mail_witness:
  "\<exists>r out pushed h' s'.
     pop3_handle_conn sample_pop3 sample_peer sample_lines None 5 new_hub sample_box = (r, out, pushed, h', s') \<and>
     map m_id (db_messages s') = [1, 3] \<and> (\<exists>u. proven_login sample_pop3 (passwords_of sample_lines) sample_box u)"
proof -
  obtain r out pushed h' s' where
    e: "pop3_handle_conn sample_pop3 sample_peer sample_lines None 5 new_hub sample_box = (r, out, pushed, h', s')"
    by (metis prod.collapse)
  have b: "bans_is_banned (pk_started sample_peer) (pk_ip sample_peer) sample_box = (None, sample_box)"
    by (simp add: bans_is_banned_def db_first_def db_stmt_def sample_box_def sample_accounts_def empty_db_def)
  obtain i h1 where h: "hub_register (pk_started sample_peer) ''pop3'' (pk_ip sample_peer) (pk_port sample_peer) False new_hub = (i, h1)"
    by fastforce
  let ?st = "send_response ''+OK MailGo POP3 server ready'' \<lparr>po_user = None, po_login = [], po_fail = [],
     po_counts = (\<lambda>_. 0), po_msgs = [], po_deleted = None, po_tls = False, po_out = [], po_handle = i,
     po_hub = conn_set_disconnect (pk_socket sample_peer) i h1, po_pushed = [], po_db = sample_box\<rparr>"
  have d: "po_db ?st = sample_box" by (simp add: send_response_def)
  obtain st' where r: "pop3_run sample_pop3 sample_peer sample_lines ?st = (Quitted, st')"
    "map m_id (db_messages (po_db st')) = [1, 3]" using sample_run [OF d] by (elim exE conjE)
  have "s' = po_db st'" using e b h r(1) by (simp add: pop3_handle_conn_def Let_def pop3_session_def)
  with r(2) have ids: "map m_id (db_messages s') = [1, 3]" by simp
  from pop3_removes_only_own_mail [OF e] obtain D where
    D: "but_ledgers s' = del_messages (\<lambda>m. m_id m \<in> D) (but_ledgers sample_box)" and
    p: "D \<noteq> {} \<longrightarrow> (\<exists>u. proven_login sample_pop3 (passwords_of (all_lines sample_lines None)) sample_box u)" by blast
  have "db_messages s' = filter (\<lambda>m. m_id m \<notin> D) (db_messages sample_box)"
    using arg_cong [OF D, of db_messages] by (simp add: but_ledgers_sel)
  with ids have "D \<noteq> {}" by (auto simp: sample_box_def)
  with p ids e show ?thesis by (auto simp: all_lines_def)
qed


lemma quit_expunges_marked_witness:
  "\<exists>r k st'. expunge_deleted sample_pop3 \<lparr>po_user = Some ann, po_login = [], po_fail = [], po_counts = (\<lambda>_. 0),
     po_msgs = [\<lparr>pm_id = 1, pm_raw = [], pm_size = 0\<rparr>, \<lparr>pm_id = 2, pm_raw = [], pm_size = 0\<rparr>], po_deleted = Some [2],
     po_tls = False, po_out = [], po_handle = 1, po_hub = new_hub, po_pushed = [], po_db = sample_box\<rparr> = (r, k, st') \<and>
     k = 1 \<and> map m_id (db_messages (po_db st')) = [1, 3]"
proof -
  let ?st = "\<lparr>po_user = Some ann, po_login = [], po_fail = [], po_counts = (\<lambda>_. 0),
     po_msgs = [\<lparr>pm_id = 1, pm_raw = [], pm_size = 0\<rparr>, \<lparr>pm_id = 2, pm_raw = [], pm_size = 0\<rparr>], po_deleted = Some [2],
     po_tls = False, po_out = [], po_handle = 1, po_hub = new_hub, po_pushed = [], po_db = sample_box\<rparr>"
  obtain r k st' where e: "expunge_deleted sample_pop3 ?st = (r, k, st')" by (metis prod.collapse)
  have u: "u_id ann \<noteq> 0" "u_username ann \<noteq> []" by (simp_all add: with_domain_def sample_user_def)
  have "ps_pusher sample_pop3" "db_faults (po_db ?st) = []" "mset (ps_order sample_pop3 [2]) = mset [2]"
    by (simp_all add: sample_pop3_def sample_box_def sample_accounts_def empty_db_def)
  from quit_expunges_marked [OF _ _ u this(1,2) _ this(3) e, simplified]
  have "k = 1" "po_db st' = del_messages (\<lambda>m. m_id m = 2) sample_box" by auto
  with e show ?thesis by (auto simp: del_messages_def sample_box_def)
qed

end
