(* ===== verification/Mailbox_Store.thy ===== *)
theory Mailbox_Store
  imports Mail_Store "HOL-Library.List_Lexorder" "HOL-Library.Char_ord"
begin

text \<open>
  \<open>internal/store/mailbox_store.go\<close> and \<open>mailbox_state_store.go\<close>: the folders of a user and
  the persistent UIDVALIDITY of each. \<open>Delete\<close> and \<open>Rename\<close> are transactions over three
  tables. Their laws: nothing is lost or left half done, and the four system folders appear
  exactly once.
\<close>

section \<open>Operations\<close>

definition is_system_mailbox_name :: "string \<Rightarrow> bool" where
  "is_system_mailbox_name name \<longleftrightarrow> name \<in> set (map fst system_mailboxes)"

definition has_mailbox :: "nat \<Rightarrow> string \<Rightarrow> mailbox \<Rightarrow> bool" where
  "has_mailbox uid name b \<longleftrightarrow> mb_user_id b = uid \<and> mb_name b = name"

definition new_mailbox :: "mailbox \<Rightarrow> db \<Rightarrow> mailbox" where
  \<comment> \<open>GORM replaces the zero value of \<open>is_subscribed\<close> by the declared default, true\<close>
  "new_mailbox mb s = mb\<lparr>mb_id := db_next s TMailboxes, mb_is_subscribed := True\<rparr>"

definition insert_mailbox :: "mailbox \<Rightarrow> db \<Rightarrow> db" where
  "insert_mailbox b s = s\<lparr>db_mailboxes := db_mailboxes s @ [b],
                          db_next := (db_next s)(TMailboxes := Suc (db_next s TMailboxes))\<rparr>"

definition mailboxes_create :: "mailbox \<Rightarrow> db \<Rightarrow> unit result \<times> db" where
  "mailboxes_create mb =
     db_stmt (\<lambda>s. if \<exists>b \<in> set (db_mailboxes s). has_mailbox (mb_user_id mb) (mb_name mb) b
                  then (Inl ErrUniqueConflict, s)
                  else (Inr (), insert_mailbox (new_mailbox mb s) s))"

definition system_mailbox :: "nat \<Rightarrow> string \<times> string \<Rightarrow> mailbox" where
  "system_mailbox uid d = \<lparr>mb_id = 0, mb_user_id = uid, mb_name = fst d, mb_special_use = snd d,
     mb_is_subscribed = True\<rparr>"

fun ensure_loop :: "nat \<Rightarrow> string set \<Rightarrow> (string \<times> string) list \<Rightarrow> db \<Rightarrow> unit result \<times> db" where
  "ensure_loop uid have [] s = (Inr (), s)"
| "ensure_loop uid have (d # ds) s =
     (if fst d \<in> have then ensure_loop uid have ds s
      else (case mailboxes_create (system_mailbox uid d) s of
              (Inl e, s1) \<Rightarrow> (Inl e, s1)
            | (Inr _, s1) \<Rightarrow> ensure_loop uid have ds s1))"

definition mailboxes_ensure_system :: "nat \<Rightarrow> db \<Rightarrow> unit result \<times> db" where
  "mailboxes_ensure_system uid s =
     (case db_query (\<lambda>s. filter (\<lambda>b. mb_user_id b = uid) (db_mailboxes s)) s of
        (Inl e, s1) \<Rightarrow> (Inl e, s1)
      | (Inr existing, s1) \<Rightarrow> ensure_loop uid (set (map mb_name existing)) system_mailboxes s1)"

definition mailboxes_list :: "nat \<Rightarrow> db \<Rightarrow> mailbox list result \<times> db" where
  "mailboxes_list uid s =
     (case db_query (\<lambda>s. sort_key mb_name (filter (\<lambda>b. mb_user_id b = uid) (db_mailboxes s))) s of
        (Inl e, s1) \<Rightarrow> (Inl e, s1)
      | (Inr mbs, s1) \<Rightarrow>
          (let sys = List.map_filter (\<lambda>d. find (\<lambda>b. mb_name b = fst d) (rev mbs)) system_mailboxes;
               custom = filter (\<lambda>b. \<not> is_system_mailbox_name (mb_name b)) mbs
           in (Inr (sys @ custom), s1)))"

definition mailboxes_get_by_name :: "nat \<Rightarrow> string \<Rightarrow> db \<Rightarrow> mailbox result \<times> db" where
  "mailboxes_get_by_name uid name = db_first (\<lambda>s. find (has_mailbox uid name) (db_mailboxes s))"

definition del_mailbox_states :: "nat \<Rightarrow> string \<Rightarrow> db \<Rightarrow> db" where
  "del_mailbox_states uid name s =
     s\<lparr>db_mailbox_states := filter (\<lambda>t. \<not> (ms_user_id t = uid \<and> ms_folder t = name)) (db_mailbox_states s)\<rparr>"

definition del_mailbox :: "nat \<Rightarrow> string \<Rightarrow> db \<Rightarrow> db" where
  "del_mailbox uid name s =
     s\<lparr>db_mailboxes := filter (\<lambda>b. \<not> has_mailbox uid name b) (db_mailboxes s)\<rparr>"

definition mailboxes_delete :: "nat \<Rightarrow> string \<Rightarrow> db \<Rightarrow> unit result \<times> db" where
  "mailboxes_delete uid name =
     db_transaction (\<lambda>s.
       case mails_count uid name s of
         (Inl e, s1) \<Rightarrow> (Inl e, s1)
       | (Inr count, s1) \<Rightarrow>
           if count > 0 then (Inl ErrMailboxNotEmpty, s1)
           else (case db_exec (del_mailbox uid name) s1 of
                   (Inl e, s2) \<Rightarrow> (Inl e, s2)
                 | (Inr _, s2) \<Rightarrow> db_exec (del_mailbox_states uid name) s2))"

definition ren_mailbox :: "nat \<Rightarrow> string \<Rightarrow> string \<Rightarrow> db \<Rightarrow> db" where
  "ren_mailbox uid old new s =
     s\<lparr>db_mailboxes := map (\<lambda>b. if has_mailbox uid old b then b\<lparr>mb_name := new\<rparr> else b) (db_mailboxes s)\<rparr>"

definition ren_stmt :: "nat \<Rightarrow> string \<Rightarrow> string \<Rightarrow> db \<Rightarrow> unit result \<times> db" where
  \<comment> \<open>the \<open>UPDATE mailboxes SET name\<close>, under the unique index on user and name\<close>
  "ren_stmt uid old new =
     db_stmt (\<lambda>s. if old \<noteq> new \<and> (\<exists>b \<in> set (db_mailboxes s). has_mailbox uid old b)
                     \<and> (\<exists>b \<in> set (db_mailboxes s). has_mailbox uid new b)
                  then (Inl ErrUniqueConflict, s) else (Inr (), ren_mailbox uid old new s))"

definition mailboxes_rename :: "nat \<Rightarrow> string \<Rightarrow> string \<Rightarrow> db \<Rightarrow> unit result \<times> db" where
  "mailboxes_rename uid old new =
     db_transaction (\<lambda>s.
       case ren_stmt uid old new s of
         (Inl e, s1) \<Rightarrow> (Inl e, s1)
       | (Inr _, s1) \<Rightarrow>
           (case db_exec (upd_messages (in_folder uid old) (\<lambda>m. m\<lparr>m_folder := new\<rparr>)) s1 of
              (Inl e, s2) \<Rightarrow> (Inl e, s2)
            | (Inr _, s2) \<Rightarrow> db_exec (del_mailbox_states uid old) s2))"

definition mailboxes_set_subscribed :: "nat \<Rightarrow> string \<Rightarrow> bool \<Rightarrow> db \<Rightarrow> unit result \<times> db" where
  "mailboxes_set_subscribed uid name b =
     db_exec (\<lambda>s. s\<lparr>db_mailboxes :=
       map (\<lambda>x. if has_mailbox uid name x then x\<lparr>mb_is_subscribed := b\<rparr> else x) (db_mailboxes s)\<rparr>)"

text \<open>
  \<open>UidValidity\<close>: the random value is an argument, \<open>None\<close> where \<open>rand.Read\<close> fails.
\<close>

definition save_mailbox_state :: "mailbox_state \<Rightarrow> db \<Rightarrow> db" where
  \<comment> \<open>\<open>Save\<close> on the composite primary key: update the row or insert it\<close>
  "save_mailbox_state t s =
     (let same = (\<lambda>x. ms_user_id x = ms_user_id t \<and> ms_folder x = ms_folder t)
      in s\<lparr>db_mailbox_states :=
             (if \<exists>x \<in> set (db_mailbox_states s). same x
              then map (\<lambda>x. if same x then t else x) (db_mailbox_states s)
              else db_mailbox_states s @ [t])\<rparr>)"

definition uid_validity :: "u32 option \<Rightarrow> nat \<Rightarrow> string \<Rightarrow> db \<Rightarrow> u32 result \<times> db" where
  "uid_validity rnd uid f s =
     (let draw = (\<lambda>s1. case rnd of
            None \<Rightarrow> (Inl (ErrText ''rand''), s1)
          | Some r \<Rightarrow>
              (let v = (if r = 0 then 1 else r)
               in case db_exec (save_mailbox_state
                         \<lparr>ms_user_id = uid, ms_folder = f, ms_uid_validity = v\<rparr>) s1 of
                    (Inl e, s2) \<Rightarrow> (Inl e, s2)
                  | (Inr _, s2) \<Rightarrow> (Inr v, s2)))
      in case db_first (\<lambda>s. find (\<lambda>t. ms_user_id t = uid \<and> ms_folder t = f) (db_mailbox_states s)) s of
           (Inr st, s1) \<Rightarrow> if ms_uid_validity st \<noteq> 0 then (Inr (ms_uid_validity st), s1) else draw s1
         | (Inl e, s1) \<Rightarrow> if e \<noteq> ErrRecordNotFound then (Inl e, s1) else draw s1)"

section \<open>System folders\<close>

definition mailbox_names :: "nat \<Rightarrow> db \<Rightarrow> string set" where
  "mailbox_names uid s = mb_name ` {b \<in> set (db_mailboxes s). mb_user_id b = uid}"

definition system_names :: "string set" where
  "system_names = set (map fst system_mailboxes)"

lemma mailbox_names_tick [simp]: "mailbox_names uid (tick s) = mailbox_names uid s"
  by (simp add: mailbox_names_def)

lemma mailbox_names_has: "name \<in> mailbox_names uid s \<longleftrightarrow> (\<exists>b \<in> set (db_mailboxes s). has_mailbox uid name b)"
  by (auto simp: mailbox_names_def has_mailbox_def)

lemma insert_mailbox_simps [simp]:
  "db_mailboxes (insert_mailbox b s) = db_mailboxes s @ [b]"
  "db_messages (insert_mailbox b s) = db_messages s"
  "db_mailbox_states (insert_mailbox b s) = db_mailbox_states s"
  "db_users (insert_mailbox b s) = db_users s"
  "db_faults (insert_mailbox b s) = db_faults s"
  by (simp_all add: insert_mailbox_def)

lemma mailbox_names_insert:
  "mailbox_names v (insert_mailbox b s) =
     mailbox_names v s \<union> (if mb_user_id b = v then {mb_name b} else {})"
  by (auto simp: mailbox_names_def)

lemma new_mailbox_simps [simp]:
  "mb_user_id (new_mailbox b s) = mb_user_id b" "mb_name (new_mailbox b s) = mb_name b"
  "mb_id (new_mailbox b s) = db_next s TMailboxes"
  by (simp_all add: new_mailbox_def)

lemma wf_insert_mailbox:
  assumes "wf_db s" and "mb_name b \<notin> mailbox_names (mb_user_id b) s"
  shows "wf_db (insert_mailbox (new_mailbox b s) s)"
  using assms
  by (auto simp: wf_db_def insert_mailbox_def new_mailbox_def mailbox_names_def intro: wf_rows_insert)

lemma mailboxes_create_Inr:
  "mailboxes_create mb s = (Inr x, s') \<longleftrightarrow>
     \<not> fault s \<and> mb_name mb \<notin> mailbox_names (mb_user_id mb) s \<and>
     s' = insert_mailbox (new_mailbox mb s) (tick s)"
  by (auto simp: mailboxes_create_def db_stmt_def mailbox_names_has new_mailbox_def)

lemma mailboxes_create_Inl: "mailboxes_create mb s = (Inl e, s') \<Longrightarrow> s' = tick s"
  by (auto simp: mailboxes_create_def db_stmt_def split: if_splits)

lemma new_mailbox_tick [simp]: "new_mailbox b (tick s) = new_mailbox b s"
  by (simp add: new_mailbox_def)

lemma mailboxes_create_wf:
  assumes "wf_db s" and "mailboxes_create mb s = (q, s')"
  shows "wf_db s'"
proof (cases q)
  case (Inl e)
  with assms show ?thesis by (auto dest: mailboxes_create_Inl)
next
  case (Inr x)
  with assms(2) have "mb_name mb \<notin> mailbox_names (mb_user_id mb) (tick s)"
    and s': "s' = insert_mailbox (new_mailbox mb (tick s)) (tick s)"
    by (auto simp: mailboxes_create_Inr)
  with assms(1) show ?thesis unfolding s' by (intro wf_insert_mailbox) auto
qed

lemma ensure_loop_spec:
  assumes "wf_db s" and "have = mailbox_names uid s0" and "mailbox_names uid s0 \<subseteq> mailbox_names uid s"
    and "ensure_loop uid have ds s = (r, s')"
  shows "wf_db s' \<and> db_messages s' = db_messages s \<and> db_mailbox_states s' = db_mailbox_states s \<and>
    (\<forall>v. v \<noteq> uid \<longrightarrow> mailbox_names v s' = mailbox_names v s) \<and>
    mailbox_names uid s \<subseteq> mailbox_names uid s' \<and>
    mailbox_names uid s' \<subseteq> mailbox_names uid s \<union> set (map fst ds) \<and>
    (r = Inr () \<longrightarrow> mailbox_names uid s' \<supseteq> set (map fst ds))"
  using assms
proof (induction ds arbitrary: s)
  case Nil
  then show ?case by auto
next
  case (Cons d ds)
  show ?case
  proof (cases "fst d \<in> have")
    case True
    with Cons.prems have "ensure_loop uid have ds s = (r, s')" by simp
    from Cons.IH [OF Cons.prems(1-3) this] True Cons.prems(2,3) show ?thesis by auto
  next
    case False
    obtain q s1 where q: "mailboxes_create (system_mailbox uid d) s = (q, s1)"
      by (cases "mailboxes_create (system_mailbox uid d) s")
    show ?thesis
    proof (cases q)
      case (Inl e)
      with q False Cons.prems(4) have "r = Inl e" "s' = s1" by auto
      moreover from q Inl have "s1 = tick s" by (auto dest: mailboxes_create_Inl)
      ultimately show ?thesis using Cons.prems(1) by auto
    next
      case (Inr x)
      with q have s1: "s1 = insert_mailbox (new_mailbox (system_mailbox uid d) s) (tick s)"
        by (auto simp: mailboxes_create_Inr)
      have names: "mailbox_names uid s1 = mailbox_names uid s \<union> {fst d}"
        "\<And>v. v \<noteq> uid \<Longrightarrow> mailbox_names v s1 = mailbox_names v s"
        by (auto simp: s1 mailbox_names_insert system_mailbox_def)
      have "wf_db s1" using Cons.prems(1) q by (rule mailboxes_create_wf)
      moreover have "mailbox_names uid s0 \<subseteq> mailbox_names uid s1" using Cons.prems(3) names by auto
      moreover have "ensure_loop uid have ds s1 = (r, s')" using Cons.prems(4) False q Inr by simp
      ultimately have "wf_db s' \<and> db_messages s' = db_messages s1 \<and>
          db_mailbox_states s' = db_mailbox_states s1 \<and>
          (\<forall>v. v \<noteq> uid \<longrightarrow> mailbox_names v s' = mailbox_names v s1) \<and>
          mailbox_names uid s1 \<subseteq> mailbox_names uid s' \<and>
          mailbox_names uid s' \<subseteq> mailbox_names uid s1 \<union> set (map fst ds) \<and>
          (r = Inr () \<longrightarrow> mailbox_names uid s' \<supseteq> set (map fst ds))"
        using Cons.IH Cons.prems(2) by blast
      with names show ?thesis by (auto simp: s1)
    qed
  qed
qed

lemma ensure_system_spec:
  assumes "wf_db s" and "mailboxes_ensure_system uid s = (r, s')"
  shows "wf_db s'" and "db_messages s' = db_messages s"
    and "db_mailbox_states s' = db_mailbox_states s"
    and "v \<noteq> uid \<Longrightarrow> mailbox_names v s' = mailbox_names v s"
    and "mailbox_names uid s \<subseteq> mailbox_names uid s'"
    and "mailbox_names uid s' \<subseteq> mailbox_names uid s \<union> system_names"
    and "r = Inr () \<Longrightarrow> system_names \<subseteq> mailbox_names uid s'"
proof -
  have "wf_db s' \<and> db_messages s' = db_messages s \<and> db_mailbox_states s' = db_mailbox_states s \<and>
    (\<forall>v. v \<noteq> uid \<longrightarrow> mailbox_names v s' = mailbox_names v s) \<and>
    mailbox_names uid s \<subseteq> mailbox_names uid s' \<and>
    mailbox_names uid s' \<subseteq> mailbox_names uid s \<union> system_names \<and>
    (r = Inr () \<longrightarrow> mailbox_names uid s' \<supseteq> system_names)"
  proof (cases "fault s")
    case True
    with assms show ?thesis
      by (auto simp: mailboxes_ensure_system_def db_query_def db_stmt_def)
  next
    case False
    let ?have = "set (map mb_name (filter (\<lambda>b. mb_user_id b = uid) (db_mailboxes s)))"
    from False assms(2) have loop: "ensure_loop uid ?have system_mailboxes (tick s) = (r, s')"
      by (simp add: mailboxes_ensure_system_def db_query_def db_stmt_def)
    have "?have = mailbox_names uid s" by (auto simp: mailbox_names_def)
    from ensure_loop_spec [OF _ this _ loop] assms(1) show ?thesis
      by (simp add: system_names_def)
  qed
  then show "wf_db s'" "db_messages s' = db_messages s" "db_mailbox_states s' = db_mailbox_states s"
    "v \<noteq> uid \<Longrightarrow> mailbox_names v s' = mailbox_names v s"
    "mailbox_names uid s \<subseteq> mailbox_names uid s'"
    "mailbox_names uid s' \<subseteq> mailbox_names uid s \<union> system_names"
    "r = Inr () \<Longrightarrow> system_names \<subseteq> mailbox_names uid s'"
    by blast+
qed

lemma ensure_loop_complete:
  "set (map fst ds) \<subseteq> have \<Longrightarrow> ensure_loop uid have ds s = (Inr (), s)"
  by (induction ds) auto

lemma ensure_system_complete:
  assumes "system_names \<subseteq> mailbox_names uid s"
  shows "mailboxes_ensure_system uid s = (if fault s then Inl ErrDb else Inr (), tick s)"
proof -
  have "set (map mb_name (filter (\<lambda>b. mb_user_id b = uid) (db_mailboxes s))) = mailbox_names uid s"
    by (auto simp: mailbox_names_def)
  with assms show ?thesis
    by (simp add: mailboxes_ensure_system_def db_query_def db_stmt_def system_names_def
        ensure_loop_complete)
qed

section \<open>Deleting and renaming a folder\<close>

lemma del_mailbox_simps [simp]:
  "db_mailboxes (del_mailbox uid name s) = filter (\<lambda>b. \<not> has_mailbox uid name b) (db_mailboxes s)"
  "db_messages (del_mailbox uid name s) = db_messages s"
  "db_mailbox_states (del_mailbox uid name s) = db_mailbox_states s"
  "db_mailboxes (del_mailbox_states uid name s) = db_mailboxes s"
  "db_messages (del_mailbox_states uid name s) = db_messages s"
  "db_mailbox_states (del_mailbox_states uid name s) =
     filter (\<lambda>t. \<not> (ms_user_id t = uid \<and> ms_folder t = name)) (db_mailbox_states s)"
  by (simp_all add: del_mailbox_def del_mailbox_states_def)

lemma wf_del_mailbox: "wf_db s \<Longrightarrow> wf_db (del_mailbox uid name s)"
  by (simp add: wf_db_def del_mailbox_def wf_rows_filter distinct_map_filter)

lemma wf_del_mailbox_states: "wf_db s \<Longrightarrow> wf_db (del_mailbox_states uid name s)"
  by (simp add: wf_db_def del_mailbox_states_def distinct_map_filter)

lemma mailboxes_delete_Inr:
  assumes "mailboxes_delete uid name s = (Inr x, s')"
  shows "folder_view uid name s = []"
    and "tables s' = tables (del_mailbox_states uid name (del_mailbox uid name (tick s)))"
proof -
  from assms obtain s1 s2 n where "\<not> fault s" "n = int (length (folder_view uid name s))" "\<not> n > 0"
    and "\<not> fault (tick s)" "s1 = del_mailbox uid name (tick (tick s))"
    and "s2 = del_mailbox_states uid name (tick s1)" "tables s' = tables s2"
    by (auto simp: mailboxes_delete_def db_transaction_def mails_count_view stmt_results
        split: prod.splits sum.splits if_splits)
  then show "folder_view uid name s = []"
    and "tables s' = tables (del_mailbox_states uid name (del_mailbox uid name (tick s)))"
    by (auto simp: tables_def tick_def del_mailbox_def del_mailbox_states_def)
qed

lemma mailboxes_delete_wf:
  assumes "wf_db s" and "mailboxes_delete uid name s = (r, s')"
  shows "wf_db s'"
proof (cases r)
  case (Inl e)
  with assms(2) have "tables s' = tables s"
    unfolding mailboxes_delete_def by (intro db_transaction_Inl) simp
  with assms(1) show ?thesis by (simp cong: wf_db_cong)
next
  case (Inr x)
  with assms(2) have "tables s' = tables (del_mailbox_states uid name (del_mailbox uid name (tick s)))"
    by (intro mailboxes_delete_Inr) simp
  moreover have "wf_db (del_mailbox_states uid name (del_mailbox uid name (tick s)))"
    using assms(1) by (intro wf_del_mailbox_states wf_del_mailbox) simp
  ultimately show ?thesis by (metis wf_db_tables)
qed

lemma ren_mailbox_simps [simp]:
  "db_mailboxes (ren_mailbox uid old new s) =
     map (\<lambda>b. if has_mailbox uid old b then b\<lparr>mb_name := new\<rparr> else b) (db_mailboxes s)"
  "db_messages (ren_mailbox uid old new s) = db_messages s"
  "db_mailbox_states (ren_mailbox uid old new s) = db_mailbox_states s"
  by (simp_all add: ren_mailbox_def)

definition renamed :: "nat \<Rightarrow> string \<Rightarrow> string \<Rightarrow> db \<Rightarrow> db" where
  \<comment> \<open>the tables after a committed rename\<close>
  "renamed uid old new s =
     del_mailbox_states uid old
       (upd_messages (in_folder uid old) (\<lambda>m. m\<lparr>m_folder := new\<rparr>) (ren_mailbox uid old new s))"

lemma mailboxes_rename_Inr:
  assumes "mailboxes_rename uid old new s = (Inr x, s')"
  shows "tables s' = tables (renamed uid old new s)"
    and "old \<noteq> new \<Longrightarrow> old \<in> mailbox_names uid s \<Longrightarrow> new \<notin> mailbox_names uid s"
proof -
  from assms obtain s1 s2 s3 where 1: "ren_stmt uid old new s = (Inr (), s1)"
    and 2: "s2 = upd_messages (in_folder uid old) (\<lambda>m. m\<lparr>m_folder := new\<rparr>) (tick s1)"
    and 3: "s3 = del_mailbox_states uid old (tick s2)" and 4: "tables s' = tables s3"
    by (auto simp: mailboxes_rename_def db_transaction_def stmt_results
        split: prod.splits sum.splits if_splits)
  from 1 have "s1 = ren_mailbox uid old new (tick s)"
    and "old \<noteq> new \<Longrightarrow> old \<in> mailbox_names uid s \<Longrightarrow> new \<notin> mailbox_names uid s"
    by (auto simp: ren_stmt_def db_stmt_def mailbox_names_has split: if_splits)
  then show "tables s' = tables (renamed uid old new s)"
    and "old \<noteq> new \<Longrightarrow> old \<in> mailbox_names uid s \<Longrightarrow> new \<notin> mailbox_names uid s"
    unfolding 4 3 2 renamed_def
    by (simp_all add: tables_def tick_def ren_mailbox_def upd_messages_def del_mailbox_states_def)
qed

lemma folder_same [simp]: "m\<lparr>m_folder := m_folder m\<rparr> = (m :: message)"
  by simp

lemma filter_renamed:
  assumes "old \<noteq> new"
  shows "filter (in_folder uid new)
      (map (\<lambda>m. if in_folder uid old m then m\<lparr>m_folder := new\<rparr> else m) ms) =
    map (\<lambda>m. m\<lparr>m_folder := new\<rparr>) (filter (\<lambda>m. in_folder uid old m \<or> in_folder uid new m) ms)"
proof (induction ms)
  case (Cons m ms)
  consider "in_folder uid old m" | "\<not> in_folder uid old m" "in_folder uid new m"
    | "\<not> in_folder uid old m" "\<not> in_folder uid new m" by blast
  then show ?case
  proof cases
    case 1
    then have "in_folder uid new (m\<lparr>m_folder := new\<rparr>)" by (simp add: in_folder_def)
    with 1 Cons show ?thesis by simp
  next
    case 2
    then have "m\<lparr>m_folder := new\<rparr> = m" by (auto simp: in_folder_def)
    with 2 Cons show ?thesis by simp
  next
    case 3
    with Cons show ?thesis by simp
  qed
qed simp

lemma folder_view_renamed:
  assumes "old \<noteq> new"
  shows "folder_view uid old (renamed uid old new s) = []"
    and "folder_view uid new (renamed uid old new s) =
      map (\<lambda>m. m\<lparr>m_folder := new\<rparr>)
        (filter (\<lambda>m. in_folder uid old m \<or> in_folder uid new m) (db_messages s))"
    and "v \<noteq> uid \<or> f \<notin> {old, new} \<Longrightarrow>
      folder_view v f (renamed uid old new s) = folder_view v f s"
proof -
  have m: "db_messages (renamed uid old new s) =
      map (\<lambda>m. if in_folder uid old m then m\<lparr>m_folder := new\<rparr> else m) (db_messages s)"
    by (simp add: renamed_def)
  show "folder_view uid old (renamed uid old new s) = []"
    unfolding folder_view_def m by (rule filter_map_cond_none) (use assms in \<open>simp_all add: in_folder_def\<close>)
  show "folder_view uid new (renamed uid old new s) =
      map (\<lambda>m. m\<lparr>m_folder := new\<rparr>)
        (filter (\<lambda>m. in_folder uid old m \<or> in_folder uid new m) (db_messages s))"
    using filter_renamed [OF assms] by (simp add: folder_view_def m)
  show "v \<noteq> uid \<or> f \<notin> {old, new} \<Longrightarrow>
      folder_view v f (renamed uid old new s) = folder_view v f s"
    unfolding folder_view_def m
    by (rule filter_map_cond_other) (simp add: in_folder_def, blast)
qed

lemma wf_renamed:
  assumes "wf_db s" and "old = new \<or> old \<notin> mailbox_names uid s \<or> new \<notin> mailbox_names uid s"
  shows "wf_db (renamed uid old new s)"
proof -
  let ?f = "\<lambda>b. if has_mailbox uid old b then b\<lparr>mb_name := new\<rparr> else b"
  let ?k = "\<lambda>b. (mb_user_id b, mb_name b)"
  have d: "distinct (map ?k (db_mailboxes s))" using assms(1) by (simp add: wf_db_def)
  have "inj_on (\<lambda>b. ?k (?f b)) (set (db_mailboxes s))"
  proof (rule inj_onI)
    fix a b assume ab: "a \<in> set (db_mailboxes s)" "b \<in> set (db_mailboxes s)" "?k (?f a) = ?k (?f b)"
    have n: "mb_name x \<in> mailbox_names (mb_user_id x) s" if "x \<in> set (db_mailboxes s)" for x
      using that by (auto simp: mailbox_names_def)
    have "?k a = ?k b"
    proof (cases "has_mailbox uid old a = has_mailbox uid old b")
      case True
      with ab(3) show ?thesis by (simp add: has_mailbox_def split: if_splits)
    next
      case False
      with ab n [of a] n [of b] assms(2) show ?thesis
        by (cases "has_mailbox uid old a") (auto simp: has_mailbox_def)
    qed
    moreover from d have "inj_on ?k (set (db_mailboxes s))" by (simp only: distinct_map)
    ultimately show "a = b" using ab(1,2) inj_onD [of ?k _ a b] by blast
  qed
  moreover have "distinct (db_mailboxes s)" using d by (simp add: distinct_map)
  ultimately have "distinct (map ?k (map ?f (db_mailboxes s)))"
    by (simp add: distinct_map comp_def)
  with assms(1) show ?thesis
    by (simp add: wf_db_def renamed_def del_mailbox_states_def upd_messages_def ren_mailbox_def
        wf_rows_map distinct_map_filter del: map_map)
qed

lemma mailboxes_rename_wf:
  assumes "wf_db s" and "mailboxes_rename uid old new s = (r, s')"
  shows "wf_db s'"
proof (cases r)
  case (Inl e)
  with assms(2) have "tables s' = tables s"
    unfolding mailboxes_rename_def by (intro db_transaction_Inl) simp
  with assms(1) show ?thesis by (simp cong: wf_db_cong)
next
  case (Inr x)
  with assms(2) have eq: "mailboxes_rename uid old new s = (Inr x, s')" by simp
  have "wf_db (renamed uid old new s)"
    using assms(1) mailboxes_rename_Inr(2) [OF eq] by (intro wf_renamed) auto
  with mailboxes_rename_Inr(1) [OF eq] show ?thesis by (metis wf_db_tables)
qed

section \<open>UIDVALIDITY\<close>

definition stored_uid_validity :: "nat \<Rightarrow> string \<Rightarrow> db \<Rightarrow> u32 option" where
  "stored_uid_validity uid f s =
     map_option ms_uid_validity
       (find (\<lambda>t. ms_user_id t = uid \<and> ms_folder t = f) (db_mailbox_states s))"

lemma stored_uid_validity_tick [simp]: "stored_uid_validity uid f (tick s) = stored_uid_validity uid f s"
  by (simp add: stored_uid_validity_def)

lemma find_map_same:
  "\<exists>x \<in> set xs. P x \<Longrightarrow> P t \<Longrightarrow> find P (map (\<lambda>x. if P x then t else x) xs) = Some t"
  by (induction xs) auto

lemma find_append_new: "\<not> (\<exists>x \<in> set xs. P x) \<Longrightarrow> P t \<Longrightarrow> find P (xs @ [t]) = Some t"
  by (induction xs) auto

lemma find_map_other:
  "(\<And>x. Q x \<Longrightarrow> \<not> P x) \<Longrightarrow> (P t \<Longrightarrow> \<not> Q t) \<Longrightarrow> \<not> Q t \<Longrightarrow>
   find Q (map (\<lambda>x. if P x then t else x) xs) = find Q xs"
  by (induction xs) auto

lemma find_append_other: "\<not> Q t \<Longrightarrow> find Q (xs @ [t]) = find Q xs"
  by (induction xs) auto

lemma stored_save:
  "stored_uid_validity uid f (save_mailbox_state \<lparr>ms_user_id = u, ms_folder = g, ms_uid_validity = v\<rparr> s) =
     (if u = uid \<and> g = f then Some v else stored_uid_validity uid f s)"
proof (cases "u = uid \<and> g = f")
  case True
  then show ?thesis
    by (auto simp: stored_uid_validity_def save_mailbox_state_def Let_def find_map_same find_append_new)
next
  case False
  have "find (\<lambda>t. ms_user_id t = uid \<and> ms_folder t = f)
         (map (\<lambda>x. if ms_user_id x = u \<and> ms_folder x = g
            then \<lparr>ms_user_id = u, ms_folder = g, ms_uid_validity = v\<rparr> else x) (db_mailbox_states s)) =
        find (\<lambda>t. ms_user_id t = uid \<and> ms_folder t = f) (db_mailbox_states s)"
    by (rule find_map_other) (use False in auto)
  with False show ?thesis
    by (auto simp: stored_uid_validity_def save_mailbox_state_def Let_def find_append_other)
qed

lemma uid_validity_Inr:
  assumes "uid_validity rnd uid f s = (Inr v, s')"
  shows "v \<noteq> 0" and "stored_uid_validity uid f s' = Some v"
    and "stored_uid_validity uid f s = Some w \<Longrightarrow> w \<noteq> 0 \<Longrightarrow> v = w \<and> tables s' = tables s"
    and "(u, g) \<noteq> (uid, f) \<Longrightarrow> stored_uid_validity u g s' = stored_uid_validity u g s"
  using assms
  by (auto simp: uid_validity_def Let_def stmt_results stored_save stored_uid_validity_def [of _ _ "tick s"]
      stored_uid_validity_def [of _ _ s]
      split: prod.splits sum.splits if_splits option.splits)

lemma uid_validity_frame:
  assumes "uid_validity rnd uid f s = (r, s')"
  shows "db_messages s' = db_messages s" and "db_mailboxes s' = db_mailboxes s"
    and "db_users s' = db_users s" and "db_next s' = db_next s"
  using assms
  by (auto simp: uid_validity_def Let_def stmt_results save_mailbox_state_def
      split: prod.splits sum.splits if_splits option.splits)

section \<open>Properties of the mailbox store\<close>

text \<open>Renaming a folder is atomic and loses no message. When it reports an error the tables are as
  they were. When it succeeds every message keeps its id and contents, the messages of the old
  folder are in the new one, after which the old folder is empty, no other folder of any user
  changes, and the unique index on (user, name) still holds.\<close>

theorem rename_atomic:
  assumes "wf_db s" and "old \<noteq> new" and "mailboxes_rename uid old new s = (r, s')"
  shows "(r \<noteq> Inr () \<longrightarrow> tables s' = tables s)
    \<and> (r = Inr () \<longrightarrow>
        map m_id (db_messages s') = map m_id (db_messages s)
        \<and> folder_view uid old s' = []
        \<and> set (map m_id (folder_view uid new s')) =
            set (map m_id (folder_view uid old s)) \<union> set (map m_id (folder_view uid new s))
        \<and> (\<forall>v f. v \<noteq> uid \<or> f \<notin> {old, new} \<longrightarrow> folder_view v f s' = folder_view v f s))
    \<and> wf_db s'"
proof (intro conjI impI)
  assume "r \<noteq> Inr ()"
  then obtain e where "r = Inl e" by (cases r) auto
  with assms(3) show "tables s' = tables s"
    unfolding mailboxes_rename_def by (intro db_transaction_Inl) simp
next
  show "wf_db s'" using assms(1,3) by (rule mailboxes_rename_wf)
next
  assume "r = Inr ()"
  with assms(3) have eq: "tables s' = tables (renamed uid old new s)"
    by (intro mailboxes_rename_Inr(1)) simp
  note view = folder_view_cong [OF eq] and fv = folder_view_renamed [OF assms(2), where uid = uid]
  have "map m_id (db_messages (renamed uid old new s)) = map m_id (db_messages s)"
    by (simp add: renamed_def)
  then show "map m_id (db_messages s') = map m_id (db_messages s)"
    using tables_eqD(3) [OF eq] by simp
  show "folder_view uid old s' = []" using view fv(1) by simp
  show "set (map m_id (folder_view uid new s')) =
      set (map m_id (folder_view uid old s)) \<union> set (map m_id (folder_view uid new s))"
    unfolding view fv(2) by (auto simp: folder_view_def image_iff)
  show "\<forall>v f. v \<noteq> uid \<or> f \<notin> {old, new} \<longrightarrow> folder_view v f s' = folder_view v f s"
    using view fv(3) by simp
qed

definition sample_mailbox :: "nat \<Rightarrow> nat \<Rightarrow> string \<Rightarrow> mailbox" where
  "sample_mailbox i uid n = \<lparr>mb_id = i, mb_user_id = uid, mb_name = n, mb_special_use = '''',
     mb_is_subscribed = True\<rparr>"

definition sample_folders :: "message list \<Rightarrow> mailbox list \<Rightarrow> db" where
  "sample_folders ms bs = (sample_mails ms)\<lparr>db_mailboxes := bs\<rparr>"

lemma sample_mailbox_simps [simp]:
  "mb_id (sample_mailbox i uid n) = i" "mb_user_id (sample_mailbox i uid n) = uid"
  "mb_name (sample_mailbox i uid n) = n"
  by (simp_all add: sample_mailbox_def)

lemma wf_sample_folders:
  "wf_rows m_id 10 ms \<Longrightarrow> wf_rows mb_id 10 bs \<Longrightarrow> distinct (map (\<lambda>b. (mb_user_id b, mb_name b)) bs) \<Longrightarrow>
   wf_db (sample_folders ms bs)"
  by (simp add: wf_db_def sample_folders_def sample_mails_def empty_db_def)

lemma sample_folders_simps [simp]:
  "db_messages (sample_folders ms bs) = ms" "db_mailboxes (sample_folders ms bs) = bs"
  "db_faults (sample_folders ms bs) = []" "db_mailbox_states (sample_folders ms bs) = []"
  "db_next (sample_folders ms bs) = (\<lambda>_. 10)"
  by (simp_all add: sample_folders_def)

lemma rename_atomic_witness:
  "folder_view 7 ''Old'' (snd (mailboxes_rename 7 ''Old'' ''New''
     (sample_folders [sample_message 1 7 ''Old''] [sample_mailbox 1 7 ''Old'']))) = [] \<and>
   fst (mailboxes_rename 7 ''Old'' ''New''
     (sample_folders [sample_message 1 7 ''Old''] [sample_mailbox 1 7 ''Old''])) = Inr ()"
proof -
  let ?s = "sample_folders [sample_message 1 7 ''Old''] [sample_mailbox 1 7 ''Old'']"
  have wf: "wf_db ?s" by (rule wf_sample_folders) (simp_all add: wf_rows_def)
  have ok: "fst (mailboxes_rename 7 ''Old'' ''New'' ?s) = Inr ()"
    by (simp add: mailboxes_rename_def db_transaction_def ren_stmt_def db_stmt_def db_exec_def
        ren_mailbox_def upd_messages_def del_mailbox_states_def has_mailbox_def)
  from rename_atomic [OF wf _ prod.collapse [symmetric], of "''Old''" "''New''" 7] ok
  show ?thesis by simp
qed

text \<open>A folder is deleted only when it holds no message, and deleting is atomic: on success the
  mailbox row and its UIDVALIDITY are gone and no message is touched, on an error (the folder is
  not empty, or a statement fails) nothing has changed.\<close>

theorem delete_only_empty:
  assumes "wf_db s" and "mailboxes_delete uid name s = (r, s')"
  shows "(case r of
      Inl e \<Rightarrow> tables s' = tables s
    | Inr _ \<Rightarrow> folder_view uid name s = [] \<and> db_messages s' = db_messages s
        \<and> mailbox_names uid s' = mailbox_names uid s - {name}
        \<and> stored_uid_validity uid name s' = None) \<and> wf_db s'"
proof (cases r)
  case (Inl e)
  with assms(2) have "tables s' = tables s"
    unfolding mailboxes_delete_def by (intro db_transaction_Inl) simp
  with Inl mailboxes_delete_wf [OF assms] show ?thesis by simp
next
  case (Inr x)
  with assms(2) have ok: "mailboxes_delete uid name s = (Inr x, s')" by simp
  note eq = mailboxes_delete_Inr [OF ok]
  have "mailbox_names uid s' = mailbox_names uid s - {name}"
    unfolding mailbox_names_def tables_eqD(8) [OF eq(2)] by (auto simp: has_mailbox_def)
  moreover have "stored_uid_validity uid name s' = None"
    unfolding stored_uid_validity_def tables_eqD(9) [OF eq(2)]
    by (auto simp: find_None_iff_all)
  moreover have "db_messages s' = db_messages s" using tables_eqD(3) [OF eq(2)] by simp
  ultimately show ?thesis using Inr eq(1) mailboxes_delete_wf [OF assms] by simp
qed

lemma delete_only_empty_witness:
  "fst (mailboxes_delete 7 ''Old'' (sample_folders [sample_message 1 7 ''Old''] [sample_mailbox 1 7 ''Old''])) =
     Inl ErrMailboxNotEmpty \<and>
   mailbox_names 7 (snd (mailboxes_delete 7 ''Old'' (sample_folders [] [sample_mailbox 1 7 ''Old'']))) = {}"
proof -
  let ?s = "sample_folders [] [sample_mailbox 1 7 ''Old'']"
  have wf: "wf_db ?s" by (rule wf_sample_folders) (simp_all add: wf_rows_def)
  have ok: "fst (mailboxes_delete 7 ''Old'' ?s) = Inr ()"
    by (simp add: mailboxes_delete_def db_transaction_def mails_count_def db_query_def db_stmt_def
        db_exec_def del_mailbox_def del_mailbox_states_def has_mailbox_def)
  from delete_only_empty [OF wf prod.collapse [symmetric], of 7 "''Old''"] ok
  have "mailbox_names 7 (snd (mailboxes_delete 7 ''Old'' ?s)) = {}"
    by (auto simp: mailbox_names_def)
  then show ?thesis
    by (simp add: mailboxes_delete_def db_transaction_def mails_count_def db_query_def db_stmt_def
        in_folder_def)
qed

text \<open>The UIDVALIDITY of a folder is never zero and never changes once it is stored: a second
  reading returns the first one's value whatever is drawn, and no other folder is affected.\<close>

theorem uid_validity_stable:
  assumes "uid_validity rnd uid f s = (Inr v, s1)" and "uid_validity rnd' uid f s1 = (Inr w, s2)"
  shows "v \<noteq> 0 \<and> w = v \<and> tables s2 = tables s1 \<and>
    (\<forall>u g. (u, g) \<noteq> (uid, f) \<longrightarrow> stored_uid_validity u g s1 = stored_uid_validity u g s)"
  using uid_validity_Inr [OF assms(1)] uid_validity_Inr [OF assms(2)] by metis

lemma uid_validity_stable_witness:
  "fst (uid_validity (Some 9) 7 ''INBOX'' (snd (uid_validity (Some 5) 7 ''INBOX'' empty_db))) = Inr 5"
proof -
  let ?s = "snd (uid_validity (Some 5) 7 ''INBOX'' empty_db)"
  have a: "uid_validity (Some 5) 7 ''INBOX'' empty_db = (Inr 5, ?s)"
    by (simp add: uid_validity_def db_first_def db_exec_def db_stmt_def empty_db_def)
  have b: "uid_validity (Some 9) 7 ''INBOX'' ?s = (Inr 5, ?s)"
    by (simp add: uid_validity_def db_first_def db_exec_def db_stmt_def empty_db_def save_mailbox_state_def)
  from uid_validity_stable [OF a b] b show ?thesis by simp
qed

text \<open>After \<open>EnsureSystemMailboxes\<close> succeeds the user has every system folder, no folder of
  anyone was removed, no message changed, and a second call changes nothing.\<close>

theorem ensure_system_idempotent:
  assumes "wf_db s" and "mailboxes_ensure_system uid s = (Inr (), s1)"
  shows "mailbox_names uid s1 = mailbox_names uid s \<union> system_names
    \<and> (\<forall>v. v \<noteq> uid \<longrightarrow> mailbox_names v s1 = mailbox_names v s)
    \<and> db_messages s1 = db_messages s \<and> wf_db s1
    \<and> tables (snd (mailboxes_ensure_system uid s1)) = tables s1"
proof -
  note spec = ensure_system_spec [OF assms]
  from spec(7) have sys: "system_names \<subseteq> mailbox_names uid s1" by simp
  then have "tables (snd (mailboxes_ensure_system uid s1)) = tables s1"
    by (simp add: ensure_system_complete)
  with spec(1,2,4,5,6) sys show ?thesis by blast
qed

lemma ensure_system_idempotent_witness:
  "mailbox_names 7 (snd (mailboxes_ensure_system 7 empty_db)) = system_names"
proof -
  have "mailboxes_ensure_system 7 empty_db = (Inr (), snd (mailboxes_ensure_system 7 empty_db))"
    by (simp add: mailboxes_ensure_system_def db_query_def db_stmt_def empty_db_def system_mailboxes_def
        mailboxes_create_def system_mailbox_def has_mailbox_def insert_mailbox_def new_mailbox_def)
  from ensure_system_idempotent [OF wf_empty_db this] show ?thesis
    by (simp add: mailbox_names_def empty_db_def)
qed

end
