(* ===== verification/Mailer.thy ===== *)
theory Mailer
  imports Outbound_Manager
begin

text \<open>
  \<open>internal/outbound/mailer.go\<close>: one SMTP transaction with a remote server, direct delivery over
  the MX hosts, and delivery through a smarthost. The network is third-party: a connection is the
  list of replies that will be read from it before and after the TLS handshake, the outcomes of
  the writes, and what the certificate is worth; what the client sends is recorded with the flag
  whether it went over TLS. Name resolution and dialling are arguments.
\<close>

section \<open>Connections\<close>

datatype reply = Reply int string | Broken string

datatype wire = Cmd string | Body string

record conn =
  cn_in :: "reply list"        \<comment> \<open>replies in the clear\<close>
  cn_tls_in :: "reply list"    \<comment> \<open>replies after the handshake\<close>
  cn_write_fails :: "bool list"
  cn_handshake_fails :: bool
  cn_cert_ok :: bool
  cn_secure :: bool
  cn_exts :: "string \<Rightarrow> string option"
  cn_out :: "(bool \<times> wire) list"

type_synonym 'a io = "conn \<Rightarrow> (go_error + 'a) \<times> conn"

definition ret :: "'a \<Rightarrow> 'a io" where
  "ret x c = (Inr x, c)"

definition fail :: "go_error \<Rightarrow> 'a io" where
  "fail e c = (Inl e, c)"

definition bnd :: "'a io \<Rightarrow> ('a \<Rightarrow> 'b io) \<Rightarrow> 'b io" where
  "bnd f g c = (case f c of (Inl e, c1) \<Rightarrow> (Inl e, c1) | (Inr x, c1) \<Rightarrow> g x c1)"

definition temp_error :: "string \<Rightarrow> go_error" where
  "temp_error t = Delivery_Error False 0 t"

definition perm_error :: "string \<Rightarrow> go_error" where
  "perm_error t = Delivery_Error True 0 t"

datatype resp_error = Proto int string | Io string

definition classify_response :: "resp_error \<Rightarrow> string \<Rightarrow> go_error" where
  "classify_response e fallback =
     (case e of
        Proto code msg \<Rightarrow> Delivery_Error (code \<ge> 500) code msg
      | Io t \<Rightarrow> if fallback \<noteq> [] then temp_error fallback else temp_error t)"

definition write_wire :: "wire \<Rightarrow> string \<Rightarrow> unit io" where
  \<comment> \<open>\<open>PrintfLine\<close>, or the dot writer with its \<open>Close\<close>\<close>
  "write_wire w err c =
     (let c1 = c\<lparr>cn_write_fails := tl (cn_write_fails c)\<rparr>
      in if cn_write_fails c \<noteq> [] \<and> hd (cn_write_fails c) then (Inl (temp_error err), c1)
         else (Inr (), c1\<lparr>cn_out := cn_out c @ [(cn_secure c, w)]\<rparr>))"

definition read_response :: "int \<Rightarrow> conn \<Rightarrow> (int \<times> string \<times> resp_error option) \<times> conn" where
  "read_response expect c =
     (case cn_in c of
        [] \<Rightarrow> ((0, [], Some (Io ''EOF'')), c)
      | Broken t # rs \<Rightarrow> ((0, [], Some (Io t)), c\<lparr>cn_in := rs\<rparr>)
      | Reply code msg # rs \<Rightarrow>
          ((code, msg, if code = expect then None else Some (Proto code msg)), c\<lparr>cn_in := rs\<rparr>))"

definition expect_reply :: "int \<Rightarrow> (int \<times> string) io" where
  "expect_reply expect c =
     (case read_response expect c of
        ((code, msg, Some e), c1) \<Rightarrow> (Inl (classify_response e msg), c1)
      | ((code, msg, None), c1) \<Rightarrow> (Inr (code, msg), c1))"

definition cmd :: "string \<Rightarrow> int \<Rightarrow> string \<Rightarrow> (int \<times> string) io" where
  "cmd host expect line =
     bnd (write_wire (Cmd line) (''write to '' @ host @ '' failed'')) (\<lambda>_. expect_reply expect)"

definition parse_exts :: "string \<Rightarrow> string \<Rightarrow> string option" where
  "parse_exts msg =
     foldl (\<lambda>m l0. let l = trim_space l0 in
              if l = [] then m
              else (case split_n2 CHR '' '' l of
                      [k, v] \<Rightarrow> m(to_upper k \<mapsto> v)
                    | k # _ \<Rightarrow> m(to_upper k \<mapsto> [])
                    | [] \<Rightarrow> m))
       Map.empty (split_on (CHR 0x0A) msg)"

definition hello :: "string \<Rightarrow> string \<Rightarrow> unit io" where
  "hello host hostname =
     bnd (write_wire (Cmd (''EHLO '' @ hostname)) (''write EHLO to '' @ host @ '' failed''))
       (\<lambda>_ c. case read_response 250 c of
                ((_, msg, None), c1) \<Rightarrow> (Inr (), c1\<lparr>cn_exts := parse_exts msg\<rparr>)
              | ((_, _, Some _), c1) \<Rightarrow>
                  bnd (write_wire (Cmd (''HELO '' @ hostname)) (''write HELO to '' @ host @ '' failed''))
                    (\<lambda>_. bnd (expect_reply 250) (\<lambda>_. ret ())) c1)"

section \<open>AUTH PLAIN\<close>

definition b64_char :: "nat \<Rightarrow> char" where
  "b64_char n = char_of (if n < 26 then 65 + n else if n < 52 then 71 + n else if n < 62 then n - 4
     else if n = 62 then 43 else (47::nat))"

fun base64 :: "string \<Rightarrow> string" where
  "base64 [] = []"
| "base64 [a] = (let n = of_char a in [b64_char (n div 4), b64_char (n mod 4 * 16), CHR ''='', CHR ''=''])"
| "base64 [a, b] =
     (let n = of_char a; m = of_char b
      in [b64_char (n div 4), b64_char (n mod 4 * 16 + m div 16), b64_char (m mod 16 * 4), CHR ''=''])"
| "base64 (a # b # c # s) =
     (let n = of_char a; m = of_char b; k = of_char c
      in b64_char (n div 4) # b64_char (n mod 4 * 16 + m div 16) # b64_char (m mod 16 * 4 + k div 64)
         # b64_char (k mod 64) # base64 s)"

definition credentials :: "string \<Rightarrow> string \<Rightarrow> string" where
  "credentials username password = base64 (CHR 0x00 # username @ CHR 0x00 # password)"

definition auth_plain :: "string \<Rightarrow> string \<Rightarrow> string \<Rightarrow> unit io" where
  "auth_plain host username password =
     (let b64 = credentials username password
      in bnd (write_wire (Cmd (''AUTH PLAIN '' @ b64)) (''write to '' @ host @ '' failed''))
           (\<lambda>_ c. case read_response 235 c of
                    ((_, _, None), c1) \<Rightarrow> (Inr (), c1)
                  | ((code, msg, Some e), c1) \<Rightarrow>
                      if code = 334 then bnd (cmd host 235 b64) (\<lambda>_. ret ()) c1
                      else (Inl (classify_response e msg), c1)))"

section \<open>The transaction\<close>

text \<open>The dot writer of \<open>net/textproto\<close>: stuffed dots, CRLF line ends, the closing line.\<close>

datatype dot_state = Begin | BeginLine | SeenCR | InLine

fun dot_write :: "dot_state \<Rightarrow> string \<Rightarrow> string" where
  "dot_write st [] =
     (case st of BeginLine \<Rightarrow> [] | SeenCR \<Rightarrow> [CHR 0x0A] | _ \<Rightarrow> crlf) @ ''.'' @ crlf"
| "dot_write st (x # xs) =
     (if st = SeenCR then x # dot_write (if x = CHR 0x0A then BeginLine else InLine) xs
      else
        (let stuff = (if st \<noteq> InLine \<and> x = CHR ''.'' then ''.'' else [])
         in if x = CHR 0x0D then stuff @ x # dot_write SeenCR xs
            else if x = CHR 0x0A then stuff @ crlf @ dot_write BeginLine xs
            else stuff @ x # dot_write InLine xs))"

definition is_8bit :: "string \<Rightarrow> bool" where
  "is_8bit d \<longleftrightarrow> (\<exists>b \<in> set d. (of_char b :: nat) \<ge> 128)"

definition tls_client_handshake :: "string \<Rightarrow> bool \<Rightarrow> unit io" where
  "tls_client_handshake host insecure c =
     (if cn_handshake_fails c \<or> (\<not> insecure \<and> \<not> cn_cert_ok c)
      then (Inl (temp_error (''TLS handshake with '' @ host @ '' failed'')), c)
      else (Inr (), c\<lparr>cn_secure := True, cn_in := cn_tls_in c\<rparr>))"

definition get_exts :: "(string \<Rightarrow> string option) io" where
  "get_exts c = (Inr (cn_exts c), c)"

definition setup_session :: "string \<Rightarrow> string \<Rightarrow> bool \<Rightarrow> bool \<Rightarrow> bool \<Rightarrow> unit io" where
  \<comment> \<open>greeting, EHLO and TLS\<close>
  "setup_session hostname host implicit_tls start_tls insecure =
     bnd (expect_reply 220) (\<lambda>_.
       if implicit_tls
       then bnd (tls_client_handshake host insecure) (\<lambda>_. hello host hostname)
       else bnd (hello host hostname) (\<lambda>_. bnd get_exts (\<lambda>exts.
         (let adv = exts ''STARTTLS'' \<noteq> None
          in if adv \<or> start_tls
             then if \<not> adv \<and> start_tls then fail (temp_error (host @ '' does not advertise STARTTLS''))
                  else bnd (cmd host 220 ''STARTTLS'') (\<lambda>_.
                       bnd (tls_client_handshake host insecure) (\<lambda>_. hello host hostname))
             else ret ()))))"

definition wrap_error :: "string \<Rightarrow> 'a io \<Rightarrow> 'a io" where
  "wrap_error t f c = (case f c of (Inl e, c1) \<Rightarrow> (Inl (Wrapped t e), c1) | r \<Rightarrow> r)"

definition mail_command :: "string \<Rightarrow> string \<Rightarrow> string \<Rightarrow> (string \<Rightarrow> string option) \<Rightarrow> go_error + string" where
  "mail_command host from_addr data exts =
     (if is_8bit data
      then if exts ''8BITMIME'' \<noteq> None then Inr (''MAIL FROM:<'' @ from_addr @ ''> BODY=8BITMIME'')
           else Inl (perm_error (host @ '' does not advertise 8BITMIME and the message contains 8-bit data''))
      else Inr (''MAIL FROM:<'' @ from_addr @ ''>''))"

definition quit :: "'a \<Rightarrow> 'a io" where
  \<comment> \<open>best effort: whatever happens, the result stands\<close>
  "quit x c = (case write_wire (Cmd ''QUIT'') [] c of (_, c1) \<Rightarrow> (case read_response 221 c1 of (_, c2) \<Rightarrow> (Inr x, c2)))"

definition send_mail :: "string \<Rightarrow> string \<Rightarrow> string \<Rightarrow> string \<Rightarrow> string io" where
  "send_mail host from_addr to data =
     bnd get_exts (\<lambda>exts.
       case mail_command host from_addr data exts of
         Inl e \<Rightarrow> fail e
       | Inr line \<Rightarrow>
           bnd (cmd host 250 line) (\<lambda>_.
           bnd (cmd host 250 (''RCPT TO:<'' @ to @ ''>'')) (\<lambda>_.
           bnd (cmd host 354 ''DATA'') (\<lambda>_.
           bnd (write_wire (Body (dot_write Begin data)) (''writing message data to '' @ host @ '' failed'')) (\<lambda>_.
           bnd (expect_reply 250) (\<lambda>(code, msg). quit (show_int code @ '' '' @ msg)))))))"

definition smtp_session ::
  "string \<Rightarrow> string \<Rightarrow> bool \<Rightarrow> bool \<Rightarrow> string \<Rightarrow> string \<Rightarrow> string \<Rightarrow> string \<Rightarrow> string \<Rightarrow> bool \<Rightarrow> string io" where
  "smtp_session hostname host implicit_tls start_tls username password from_addr to data insecure =
     bnd (setup_session hostname host implicit_tls start_tls insecure) (\<lambda>_.
     bnd (if username \<noteq> [] then wrap_error (''AUTH PLAIN with '' @ host @ '' failed: '') (auth_plain host username password)
          else ret ()) (\<lambda>_.
     send_mail host from_addr to data))"

text \<open>Dialling: the network and the address are computed by the source, the rest is the network's.\<close>

record mailer =
  ml_hostname :: string
  ml_port :: int
  ml_relay :: "(string \<times> int \<times> string \<times> string \<times> bool \<times> bool) option" \<comment> \<open>host, port, user, password, STARTTLS, insecure\<close>
  ml_ip_family :: string

definition new_mailer :: "string \<Rightarrow> mailer" where
  "new_mailer hostname = \<lparr>ml_hostname = (if hostname = [] then ''localhost'' else hostname), ml_port = 0,
     ml_relay = None, ml_ip_family = []\<rparr>"

definition mailer_port :: "mailer \<Rightarrow> int" where
  "mailer_port m = (if ml_port m = 0 then 25 else ml_port m)"

definition dial_network :: "(string \<Rightarrow> bool option) \<Rightarrow> string \<Rightarrow> string \<Rightarrow> string" where
  \<comment> \<open>\<open>parse_ip host\<close> is \<open>None\<close> for a name, otherwise whether the literal is IPv4\<close>
  "dial_network parse_ip family host =
     (case parse_ip host of
        Some is4 \<Rightarrow> if is4 then ''tcp4'' else ''tcp6''
      | None \<Rightarrow>
          (let f = to_lower family
           in if f = ''ipv6'' then ''tcp6'' else if f = ''auto'' then ''tcp'' else ''tcp4''))"

type_synonym network = "string \<Rightarrow> string \<Rightarrow> int \<Rightarrow> conn option"  \<comment> \<open>network, host, port\<close>

definition smtp_transaction ::
  "mailer \<Rightarrow> (string \<Rightarrow> bool option) \<Rightarrow> network \<Rightarrow> string \<Rightarrow> int \<Rightarrow> bool \<Rightarrow> bool \<Rightarrow> string \<Rightarrow> string \<Rightarrow>
   string \<Rightarrow> string \<Rightarrow> string \<Rightarrow> bool \<Rightarrow> (go_error + string) \<times> (bool \<times> wire) list" where
  "smtp_transaction m parse_ip dial host port implicit_tls start_tls username password from_addr to data insecure =
     (case dial (dial_network parse_ip (ml_ip_family m) host) host port of
        None \<Rightarrow> (Inl (temp_error (''connect to '' @ host @ '' failed'')), [])
      | Some c \<Rightarrow>
          (case smtp_session (ml_hostname m) host implicit_tls start_tls username password from_addr to data insecure
                  (c\<lparr>cn_secure := False, cn_exts := Map.empty, cn_out := []\<rparr>) of
             (r, c1) \<Rightarrow> (r, cn_out c1)))"

section \<open>Choosing the host\<close>

datatype mx_answer = Mx_Records "(string \<times> int) list" | Mx_Not_Found | Mx_Failed string
datatype ip_answer = Ip_Records "(string \<times> bool) list" | Ip_Failed string  \<comment> \<open>address, whether IPv4\<close>

definition lookup_mx :: "mx_answer \<Rightarrow> ip_answer \<Rightarrow> string \<Rightarrow> string \<Rightarrow> go_error + string list" where
  "lookup_mx mx ip dname family =
     (case mx of
        Mx_Not_Found \<Rightarrow> Inl (perm_error (''domain does not exist: '' @ dname))
      | Mx_Failed t \<Rightarrow> Inl (Other_Error t)
      | Mx_Records [] \<Rightarrow>
          (case ip of
             Ip_Failed t \<Rightarrow> Inl (Other_Error t)
           | Ip_Records ips \<Rightarrow>
               (let v4 = map fst (filter snd ips); v6 = map fst (filter (\<lambda>p. \<not> snd p) ips);
                    hosts = (if equal_fold family ''ipv6'' then v6 @ v4 else v4 @ v6)
                in if hosts = [] then Inl (Other_Error (''no MX or A records for '' @ dname)) else Inr hosts))
      | Mx_Records rs \<Rightarrow>
          (let hosts = filter (\<lambda>h. h \<noteq> [])
                 (map (\<lambda>(h, _). if has_suffix ''.'' h then butlast h else h) (sort_key snd rs))
           in if hosts = [] then Inl (Other_Error (''no usable MX hosts for '' @ dname)) else Inr hosts))"

fun try_hosts :: "(string \<Rightarrow> go_error + string) \<Rightarrow> string list \<Rightarrow> go_error option \<Rightarrow> string \<Rightarrow> go_error + string" where
  "try_hosts deliver_to [] last_err dname =
     (case last_err of None \<Rightarrow> Inl (temp_error (''no MX hosts available for '' @ dname)) | Some e \<Rightarrow> Inl e)"
| "try_hosts deliver_to (h # hs) last_err dname =
     (case deliver_to h of
        Inr resp \<Rightarrow> Inr resp
      | Inl e \<Rightarrow>
          (case as_delivery_error e of
             Some (perm, code, msg) \<Rightarrow>
               if perm then Inl (Delivery_Error perm code msg)
               else try_hosts deliver_to hs (Some (Delivery_Error perm code msg)) dname
           | None \<Rightarrow>
               try_hosts deliver_to hs (Some (temp_error (''delivery to '' @ h @ '' failed: '' @ error_text e))) dname))"

definition deliver_via_relay ::
  "mailer \<Rightarrow> (string \<Rightarrow> bool option) \<Rightarrow> network \<Rightarrow> string \<Rightarrow> string \<Rightarrow> string \<Rightarrow> string \<times> int \<times> string \<times> string \<times> bool \<times> bool \<Rightarrow>
   go_error + string" where
  "deliver_via_relay m parse_ip dial from_addr to data relay =
     (let (host, port0, user, pw, start_tls, insecure) = relay;
          port = (if port0 = 0 then 587 else port0);
          implicit_tls = (port = 465)
      in fst (smtp_transaction m parse_ip dial host port implicit_tls (start_tls \<and> \<not> implicit_tls)
                user pw from_addr to data insecure))"

definition mailer_deliver ::
  "mailer \<Rightarrow> (string \<Rightarrow> bool option) \<Rightarrow> network \<Rightarrow> (string \<Rightarrow> mx_answer) \<Rightarrow> (string \<Rightarrow> ip_answer) \<Rightarrow>
   string \<Rightarrow> string \<Rightarrow> string \<Rightarrow> go_error + string" where
  "mailer_deliver m parse_ip dial mx ip from_addr to data =
     (if (case ml_relay m of Some relay \<Rightarrow> fst relay \<noteq> [] | None \<Rightarrow> False)
      then deliver_via_relay m parse_ip dial from_addr to data (the (ml_relay m))
      else
          (case domain_part to of
             None \<Rightarrow> Inl (perm_error (''invalid recipient address: '' @ to))
           | Some d \<Rightarrow>
               (let dname = to_lower (trim_space d)
                in case lookup_mx (mx dname) (ip dname) dname (ml_ip_family m) of
                     Inl e \<Rightarrow>
                       (case as_delivery_error e of
                          Some (perm, code, msg) \<Rightarrow> Inl (Delivery_Error perm code msg)
                        | None \<Rightarrow> Inl (temp_error (''MX lookup failed for '' @ dname @ '': '' @ error_text e)))
                   | Inr hosts \<Rightarrow>
                       try_hosts (\<lambda>h. fst (smtp_transaction m parse_ip dial h (mailer_port m) False False [] []
                                             from_addr to data True)) hosts None dname)))"

section \<open>Reasoning about a session\<close>

definition triple :: "(conn \<Rightarrow> bool) \<Rightarrow> 'a io \<Rightarrow> ('a \<Rightarrow> conn \<Rightarrow> bool) \<Rightarrow> (conn \<Rightarrow> bool) \<Rightarrow> bool" where
  \<comment> \<open>from a connection with \<open>P\<close>, a result leaves one with \<open>Q\<close>, an error one with \<open>E\<close>\<close>
  "triple P f Q E \<longleftrightarrow> (\<forall>c. P c \<longrightarrow> (case f c of (Inr x, c1) \<Rightarrow> Q x c1 | (Inl _, c1) \<Rightarrow> E c1))"

lemma triple_bnd: "triple P f R E \<Longrightarrow> (\<And>x. triple (R x) (g x) Q E) \<Longrightarrow> triple P (bnd f g) Q E"
  unfolding triple_def bnd_def by (fastforce split: prod.splits sum.splits)

lemma triple_ret: "(\<And>c. P c \<Longrightarrow> Q x c) \<Longrightarrow> triple P (ret x) Q E"
  by (simp add: triple_def ret_def)

lemma triple_fail: "(\<And>c. P c \<Longrightarrow> E c) \<Longrightarrow> triple P (fail e) Q E"
  by (simp add: triple_def fail_def)

lemma triple_conseq:
  "triple P f Q E \<Longrightarrow> (\<And>c. P' c \<Longrightarrow> P c) \<Longrightarrow> (\<And>x c. Q x c \<Longrightarrow> Q' x c) \<Longrightarrow> (\<And>c. E c \<Longrightarrow> E' c) \<Longrightarrow> triple P' f Q' E'"
  unfolding triple_def by (fastforce split: prod.splits sum.splits)

lemma triple_write:
  "(\<And>c fs. P c \<Longrightarrow> Q () (c\<lparr>cn_write_fails := fs, cn_out := cn_out c @ [(cn_secure c, w)]\<rparr>)) \<Longrightarrow>
   (\<And>c fs. P c \<Longrightarrow> E (c\<lparr>cn_write_fails := fs\<rparr>)) \<Longrightarrow> triple P (write_wire w err) Q E"
  by (auto simp: triple_def write_wire_def Let_def)

lemma read_response_sent: "read_response n c = (q, c1) \<Longrightarrow> cn_out c1 = cn_out c \<and> cn_secure c1 = cn_secure c \<and> cn_exts c1 = cn_exts c
   \<and> cn_cert_ok c1 = cn_cert_ok c"
  by (auto simp: read_response_def split: list.splits reply.splits)

lemma expect_reply_sent: "expect_reply n c = (q, c1) \<Longrightarrow> cn_out c1 = cn_out c \<and> cn_secure c1 = cn_secure c \<and> cn_exts c1 = cn_exts c
   \<and> cn_cert_ok c1 = cn_cert_ok c"
  by (auto simp: expect_reply_def dest: read_response_sent split: prod.splits option.splits)

text \<open>
  Everything said in the clear satisfies \<open>ok\<close>, and if certificates are verified (not \<open>ins\<close>)
  nothing is said over TLS to a server without a valid one.
\<close>

definition clear_ok :: "(wire \<Rightarrow> bool) \<Rightarrow> bool \<Rightarrow> bool \<Rightarrow> conn \<Rightarrow> bool" where
  "clear_ok ok ins cert c \<longleftrightarrow> (\<forall>w. (False, w) \<in> set (cn_out c) \<longrightarrow> ok w) \<and>
     cn_cert_ok c = cert \<and> (ins \<or> cert \<or> \<not> cn_secure c \<and> (\<forall>w. (True, w) \<notin> set (cn_out c)))"

definition said :: "(wire \<Rightarrow> bool) \<Rightarrow> bool \<Rightarrow> bool \<Rightarrow> bool \<Rightarrow> conn \<Rightarrow> bool" where
  \<comment> \<open>\<open>clear_ok\<close>, and if \<open>s\<close> the connection is encrypted\<close>
  "said ok ins cert s c \<longleftrightarrow> clear_ok ok ins cert c \<and> (s \<longrightarrow> cn_secure c)"

lemma said_clear: "said ok ins cert s c \<Longrightarrow> clear_ok ok ins cert c"
  by (simp add: said_def)

lemma clear_expect:
  "triple (said ok ins cert s) (expect_reply n) (\<lambda>_. said ok ins cert s) (clear_ok ok ins cert)"
  unfolding triple_def by (auto simp: said_def clear_ok_def dest: expect_reply_sent split: prod.splits sum.splits)

lemma clear_write_either:
  assumes "s \<or> ok w"
  shows "triple (said ok ins cert s) (write_wire w err)
    (\<lambda>_. said ok ins cert s) (clear_ok ok ins cert)"
  by (rule triple_write) (use assms in \<open>auto simp: said_def clear_ok_def\<close>)

lemma clear_cmd:
  assumes "s \<or> ok (Cmd line)"
  shows "triple (said ok ins cert s) (cmd host n line)
    (\<lambda>_. said ok ins cert s) (clear_ok ok ins cert)"
  unfolding cmd_def by (rule triple_bnd, rule clear_write_either, rule assms, rule clear_expect)

lemma clear_hello:
  assumes "s \<or> ok (Cmd (''EHLO '' @ h)) \<and> ok (Cmd (''HELO '' @ h))"
  shows "triple (said ok ins cert s) (hello host h)
    (\<lambda>_. said ok ins cert s) (clear_ok ok ins cert)"
proof -
  let ?I = "said ok ins cert s"
  have fallback: "triple ?I (bnd (write_wire (Cmd (''HELO '' @ h)) e) (\<lambda>_. bnd (expect_reply 250) (\<lambda>_. ret ())))
      (\<lambda>_. ?I) (clear_ok ok ins cert)" for e
    by (rule triple_bnd, rule clear_write_either)
      (use assms in blast, rule triple_bnd, rule clear_expect, rule triple_ret)
  show ?thesis
    unfolding hello_def
  proof (rule triple_bnd, rule clear_write_either)
    show "s \<or> ok (Cmd (''EHLO '' @ h))" using assms by blast
    show "triple ?I (\<lambda>c. case read_response 250 c of
                ((_, msg, None), c1) \<Rightarrow> (Inr (), c1\<lparr>cn_exts := parse_exts msg\<rparr>)
              | ((_, _, Some _), c1) \<Rightarrow>
                  bnd (write_wire (Cmd (''HELO '' @ h)) (''write HELO to '' @ host @ '' failed''))
                    (\<lambda>_. bnd (expect_reply 250) (\<lambda>_. ret ())) c1) (\<lambda>_. ?I) (clear_ok ok ins cert)" for x
      unfolding triple_def
    proof (intro allI impI)
      fix c assume I: "?I c"
      obtain n msg e c1 where r: "read_response 250 c = ((n, msg, e), c1)" by (metis prod.exhaust)
      have I1: "?I c1" using I read_response_sent [OF r] by (auto simp: said_def clear_ok_def)
      show "case case read_response 250 c of
                ((_, msg, None), c1) \<Rightarrow> (Inr (), c1\<lparr>cn_exts := parse_exts msg\<rparr>)
              | ((_, _, Some _), c1) \<Rightarrow>
                  bnd (write_wire (Cmd (''HELO '' @ h)) (''write HELO to '' @ host @ '' failed''))
                    (\<lambda>_. bnd (expect_reply 250) (\<lambda>_. ret ())) c1
            of (Inr x, c1) \<Rightarrow> ?I c1 | (Inl _, c1) \<Rightarrow> clear_ok ok ins cert c1"
        using I1 fallback [of "''write HELO to '' @ host @ '' failed''", unfolded triple_def, rule_format, OF I1]
        by (cases e) (simp_all add: r said_def clear_ok_def)
    qed
  qed
qed

lemma clear_handshake:
  "triple (said ok ins cert s) (tls_client_handshake host ins)
    (\<lambda>_. said ok ins cert True) (clear_ok ok ins cert)"
  by (auto simp: triple_def tls_client_handshake_def said_def clear_ok_def)

lemma clear_get_exts:
  "triple I get_exts (\<lambda>x c. I c \<and> x = cn_exts c) E"
  by (auto simp: triple_def get_exts_def)

lemma said_weaken: "said ok ins cert True c \<Longrightarrow> said ok ins cert s c"
  by (simp add: said_def)

lemma clear_setup:
  assumes "\<And>h. ok (Cmd (''EHLO '' @ h)) \<and> ok (Cmd (''HELO '' @ h))" and "ok (Cmd ''STARTTLS'')"
  shows "triple (said ok ins cert False) (setup_session hostname host implicit_tls start_tls ins)
    (\<lambda>_. said ok ins cert (implicit_tls \<or> start_tls)) (clear_ok ok ins cert)"
proof -
  let ?ph = "\<lambda>s. triple (said ok ins cert s) (bnd (tls_client_handshake host ins) (\<lambda>_. hello host hostname))
      (\<lambda>_. said ok ins cert (implicit_tls \<or> start_tls)) (clear_ok ok ins cert)"
  have hs: "?ph s" for s
    by (rule triple_bnd, rule clear_handshake, rule triple_conseq, rule clear_hello [where s = True])
      (auto intro: said_weaken)
  have st: "triple (said ok ins cert False) (bnd (cmd host 220 ''STARTTLS'') (\<lambda>_. bnd (tls_client_handshake host ins) (\<lambda>_. hello host hostname)))
      (\<lambda>_. said ok ins cert (implicit_tls \<or> start_tls)) (clear_ok ok ins cert)"
    by (rule triple_bnd, rule clear_cmd) (use assms hs in auto)
  have plain: "triple (said ok ins cert False) (bnd (hello host hostname) (\<lambda>_. bnd get_exts (\<lambda>exts.
         (let adv = exts ''STARTTLS'' \<noteq> None
          in if adv \<or> start_tls
             then if \<not> adv \<and> start_tls then fail (temp_error (host @ '' does not advertise STARTTLS''))
                  else bnd (cmd host 220 ''STARTTLS'') (\<lambda>_.
                       bnd (tls_client_handshake host ins) (\<lambda>_. hello host hostname))
             else ret ()))))
      (\<lambda>_. said ok ins cert (implicit_tls \<or> start_tls)) (clear_ok ok ins cert)" if "\<not> implicit_tls"
  proof (rule triple_bnd, rule clear_hello [where s = False])
    show "False \<or> ok (Cmd (''EHLO '' @ hostname)) \<and> ok (Cmd (''HELO '' @ hostname))" using assms(1) by blast
    show "triple (said ok ins cert False) (bnd get_exts (\<lambda>exts.
         (let adv = exts ''STARTTLS'' \<noteq> None
          in if adv \<or> start_tls
             then if \<not> adv \<and> start_tls then fail (temp_error (host @ '' does not advertise STARTTLS''))
                  else bnd (cmd host 220 ''STARTTLS'') (\<lambda>_.
                       bnd (tls_client_handshake host ins) (\<lambda>_. hello host hostname))
             else ret ()))) (\<lambda>_. said ok ins cert (implicit_tls \<or> start_tls)) (clear_ok ok ins cert)" for x
    proof (rule triple_bnd [where R = "\<lambda>_. said ok ins cert False"])
      show "triple (said ok ins cert False) get_exts (\<lambda>_. said ok ins cert False) (clear_ok ok ins cert)"
        by (simp add: triple_def get_exts_def)
      show "triple (said ok ins cert False)
         (let adv = exts ''STARTTLS'' \<noteq> None
          in if adv \<or> start_tls
             then if \<not> adv \<and> start_tls then fail (temp_error (host @ '' does not advertise STARTTLS''))
                  else bnd (cmd host 220 ''STARTTLS'') (\<lambda>_.
                       bnd (tls_client_handshake host ins) (\<lambda>_. hello host hostname))
             else ret ()) (\<lambda>_. said ok ins cert (implicit_tls \<or> start_tls)) (clear_ok ok ins cert)" for exts
        using st that by (auto simp: Let_def intro!: triple_fail triple_ret dest: said_clear)
    qed
  qed
  show ?thesis
    unfolding setup_session_def
    by (rule triple_bnd, rule clear_expect) (use hs plain in auto)
qed

lemma said_read: "said ok ins cert s c \<Longrightarrow> read_response n c = (q, c1) \<Longrightarrow> said ok ins cert s c1"
  by (drule read_response_sent) (simp add: said_def clear_ok_def)

lemma said_write_any: "said ok ins cert True c \<Longrightarrow> write_wire w e c = (r, c1) \<Longrightarrow> said ok ins cert True c1"
  by (auto simp: write_wire_def Let_def said_def clear_ok_def split: if_splits)

lemma triple_snd:
  assumes "triple P f (\<lambda>_. E) E" and "P c"
  shows "E (snd (f c))"
proof -
  obtain r c1 where "f c = (r, c1)" by (cases "f c")
  with assms show ?thesis unfolding triple_def by (cases r) force+
qed

lemma said_send_mail:
  "triple (said ok ins cert True) (send_mail host from_addr to data) (\<lambda>_. clear_ok ok ins cert) (clear_ok ok ins cert)"
proof -
  have q: "triple (said ok ins cert True) (quit x) (\<lambda>_. clear_ok ok ins cert) (clear_ok ok ins cert)" for x :: string
    unfolding triple_def quit_def
    by (auto split: prod.splits intro: said_clear [OF said_read [OF said_write_any]])
  have data: "triple (said ok ins cert True)
      (bnd (write_wire (Body b) e) (\<lambda>_. bnd (expect_reply 250) (\<lambda>(code, msg). quit (show_int code @ '' '' @ msg))))
      (\<lambda>_. clear_ok ok ins cert) (clear_ok ok ins cert)" for b e
    by (rule triple_bnd, rule clear_write_either, simp, rule triple_bnd, rule clear_expect)
      (simp add: q split: prod.split)
  have cmds: "triple (said ok ins cert True)
      (bnd (cmd host 250 line) (\<lambda>_. bnd (cmd host 250 rcpt) (\<lambda>_. bnd (cmd host 354 ''DATA'') (\<lambda>_.
        bnd (write_wire (Body b) e) (\<lambda>_. bnd (expect_reply 250) (\<lambda>(code, msg). quit (show_int code @ '' '' @ msg)))))))
      (\<lambda>_. clear_ok ok ins cert) (clear_ok ok ins cert)" for line rcpt b e
    by (rule triple_bnd, rule clear_cmd, simp, rule triple_bnd, rule clear_cmd, simp, rule triple_bnd, rule clear_cmd, simp)
      (rule data)
  show ?thesis
    unfolding send_mail_def
  proof (rule triple_bnd [where R = "\<lambda>_. said ok ins cert True"])
    show "triple (said ok ins cert True) get_exts (\<lambda>_. said ok ins cert True) (clear_ok ok ins cert)"
      by (simp add: triple_def get_exts_def)
    show "triple (said ok ins cert True)
       (case mail_command host from_addr data exts of
         Inl e \<Rightarrow> fail e
       | Inr line \<Rightarrow>
           bnd (cmd host 250 line) (\<lambda>_.
           bnd (cmd host 250 (''RCPT TO:<'' @ to @ ''>'')) (\<lambda>_.
           bnd (cmd host 354 ''DATA'') (\<lambda>_.
           bnd (write_wire (Body (dot_write Begin data)) (''writing message data to '' @ host @ '' failed'')) (\<lambda>_.
           bnd (expect_reply 250) (\<lambda>(code, msg). quit (show_int code @ '' '' @ msg)))))))
       (\<lambda>_. clear_ok ok ins cert) (clear_ok ok ins cert)" for exts
      by (cases "mail_command host from_addr data exts"; simp only: sum.case)
        (rule triple_fail, erule said_clear, rule cmds)
  qed
qed

lemma said_auth:
  "triple (said ok ins cert True) (auth_plain host u p) (\<lambda>_. said ok ins cert True) (clear_ok ok ins cert)"
proof -
  have again: "triple (said ok ins cert True) (bnd (cmd host 235 b) (\<lambda>_. ret ())) (\<lambda>_. said ok ins cert True) (clear_ok ok ins cert)" for b
    by (rule triple_bnd, rule clear_cmd, simp, rule triple_ret)
  have reply: "triple (said ok ins cert True)
      (\<lambda>c. case read_response 235 c of
                    ((_, _, None), c1) \<Rightarrow> (Inr (), c1)
                  | ((code, msg, Some e), c1) \<Rightarrow>
                      if code = 334 then bnd (cmd host 235 b) (\<lambda>_. ret ()) c1
                      else (Inl (classify_response e msg), c1)) (\<lambda>_. said ok ins cert True) (clear_ok ok ins cert)" for b
    unfolding triple_def
  proof (intro allI impI)
    fix c assume I: "said ok ins cert True c"
    obtain n msg e c1 where r: "read_response 235 c = ((n, msg, e), c1)" by (metis prod.exhaust)
    have I1: "said ok ins cert True c1" using I read_response_sent [OF r] by (auto simp: said_def clear_ok_def)
    show "case case read_response 235 c of
                    ((_, _, None), c1) \<Rightarrow> (Inr (), c1)
                  | ((code, msg, Some e), c1) \<Rightarrow>
                      if code = 334 then bnd (cmd host 235 b) (\<lambda>_. ret ()) c1
                      else (Inl (classify_response e msg), c1)
          of (Inr x, c1) \<Rightarrow> said ok ins cert True c1 | (Inl _, c1) \<Rightarrow> clear_ok ok ins cert c1"
      using I1 again [unfolded triple_def, rule_format, OF I1, of b]
      by (cases e) (auto simp: r dest: said_clear)
  qed
  show ?thesis
    unfolding auth_plain_def Let_def
    by (rule triple_bnd, rule clear_write_either, simp, rule reply)
qed

lemma triple_wrap: "triple P f Q E \<Longrightarrow> triple P (wrap_error t f) Q E"
  unfolding triple_def wrap_error_def by (fastforce split: prod.splits sum.splits)

lemma b64_char_0: "b64_char 0 = CHR ''A''"
  by code_simp

lemma hd_credentials: "\<exists>s. credentials u p = CHR ''A'' # s"
proof -
  obtain b s where "u @ CHR 0x00 # p = b # s" by (cases u) auto
  then have "credentials u p = base64 (CHR 0x00 # b # s)" by (simp add: credentials_def)
  then show ?thesis by (cases s) (simp_all add: Let_def b64_char_0)
qed

section \<open>Properties of the transport\<close>

text \<open>C15: a smarthost's credentials and the mail itself are never said in the clear. When TLS is asked
  for (port 465, or STARTTLS set), whatever the server answers and wherever the connection breaks,
  no authentication line and no message body is sent before the handshake; and unless verification
  is switched off, nothing at all is sent over TLS to a server without a valid certificate.\<close>

theorem credentials_only_over_tls:
  assumes "implicit_tls \<or> start_tls"
    and "smtp_transaction m parse_ip dial host port implicit_tls start_tls username password from_addr to data insecure = (r, out)"
  shows "(\<forall>w. (False, w) \<in> set out \<longrightarrow>
      w \<noteq> Cmd (''AUTH PLAIN '' @ credentials username password) \<and> w \<noteq> Cmd (credentials username password) \<and>
      (\<forall>b. w \<noteq> Body b)) \<and>
    (\<forall>c w. dial (dial_network parse_ip (ml_ip_family m) host) host port = Some c \<longrightarrow> \<not> insecure \<longrightarrow> \<not> cn_cert_ok c \<longrightarrow>
      (True, w) \<notin> set out)"
proof (cases "dial (dial_network parse_ip (ml_ip_family m) host) host port")
  case None
  with assms show ?thesis by (auto simp: smtp_transaction_def)
next
  case (Some c)
  let ?ok = "\<lambda>w. w \<noteq> Cmd (''AUTH PLAIN '' @ credentials username password) \<and> w \<noteq> Cmd (credentials username password) \<and>
      (\<forall>b. w \<noteq> Body b)"
  let ?c = "c\<lparr>cn_secure := False, cn_exts := Map.empty, cn_out := []\<rparr>"
  let ?cert = "cn_cert_ok c"
  let ?f = "smtp_session (ml_hostname m) host implicit_tls start_tls username password from_addr to data insecure"
  obtain s where s: "credentials username password = CHR ''A'' # s" using hd_credentials by blast
  have ok: "?ok (Cmd (''EHLO '' @ h)) \<and> ?ok (Cmd (''HELO '' @ h))" "?ok (Cmd ''STARTTLS'')" for h
    by (simp_all add: s)
  have su: "triple (said ?ok insecure ?cert False) (setup_session (ml_hostname m) host implicit_tls start_tls insecure)
      (\<lambda>_. said ?ok insecure ?cert True) (clear_ok ?ok insecure ?cert)"
    using clear_setup [of ?ok insecure ?cert "ml_hostname m" host implicit_tls start_tls, OF ok] assms(1) by simp
  have auth: "triple (said ?ok insecure ?cert True)
      (if username \<noteq> [] then wrap_error (''AUTH PLAIN with '' @ host @ '' failed: '') (auth_plain host username password) else ret ())
      (\<lambda>_. said ?ok insecure ?cert True) (clear_ok ?ok insecure ?cert)"
    by (auto intro: triple_wrap said_auth triple_ret)
  have "triple (said ?ok insecure ?cert False) ?f (\<lambda>_. clear_ok ?ok insecure ?cert) (clear_ok ?ok insecure ?cert)"
    unfolding smtp_session_def by (rule triple_bnd, rule su, rule triple_bnd, rule auth, rule said_send_mail)
  moreover have "said ?ok insecure ?cert False ?c" by (simp add: said_def clear_ok_def)
  ultimately have "clear_ok ?ok insecure ?cert (snd (?f ?c))"
    by (rule triple_snd)
  moreover have "out = cn_out (snd (?f ?c))"
    using assms(2) Some by (simp add: smtp_transaction_def split: prod.splits)
  ultimately show ?thesis using Some by (auto simp: clear_ok_def)
qed

definition sample_server :: conn where
  "sample_server = \<lparr>cn_in = [Reply 220 ''mx'', Reply 250 ''STARTTLS'', Reply 220 ''go''],
     cn_tls_in = [Reply 250 ''8BITMIME'', Reply 235 ''ok'', Reply 250 ''ok'', Reply 250 ''ok'', Reply 354 ''go'',
       Reply 250 ''queued'', Reply 221 ''bye''],
     cn_write_fails = [], cn_handshake_fails = False, cn_cert_ok = True, cn_secure = False,
     cn_exts = Map.empty, cn_out = []\<rparr>"

definition sample_transaction :: "(go_error + string) \<times> (bool \<times> wire) list" where
  "sample_transaction = smtp_transaction (new_mailer ''us'') (\<lambda>_. None) (\<lambda>_ _ _. Some sample_server) ''mx'' 587
     False True ''u'' ''p'' ''a@x'' ''b@y'' ''hi'' False"

lemma credentials_only_over_tls_witness:
  "(False, Body (dot_write Begin ''hi'')) \<notin> set (snd sample_transaction)"
  using credentials_only_over_tls [of False True "new_mailer ''us''" "\<lambda>_. None" "\<lambda>_ _ _. Some sample_server" "''mx''" 587
      "''u''" "''p''" "''a@x''" "''b@y''" "''hi''" False, OF _ prod.collapse [symmetric]]
  unfolding sample_transaction_def by blast

lemma bnd_Inr: "bnd f g c = (Inr y, c2) \<longleftrightarrow> (\<exists>x c1. f c = (Inr x, c1) \<and> g x c1 = (Inr y, c2))"
  by (auto simp: bnd_def split: prod.splits sum.splits)

lemma write_Inr: "write_wire w e c = (Inr x, c1) \<Longrightarrow> cn_out c1 = cn_out c @ [(cn_secure c, w)] \<and> cn_secure c1 = cn_secure c \<and> cn_exts c1 = cn_exts c"
  by (auto simp: write_wire_def Let_def split: if_splits)

lemma expect_Inr: "expect_reply n c = (Inr (code, msg), c1) \<Longrightarrow> code = n \<and> cn_out c1 = cn_out c \<and> cn_secure c1 = cn_secure c"
  using expect_reply_sent [of n c "Inr (code, msg)" c1]
  by (auto simp: expect_reply_def read_response_def split: prod.splits option.splits list.splits reply.splits if_splits)

lemma cmd_Inr:
  assumes "cmd h n line c = (Inr q, c1)"
  shows "cn_out c1 = cn_out c @ [(cn_secure c, Cmd line)] \<and> cn_secure c1 = cn_secure c"
proof -
  from assms obtain c0 where "write_wire (Cmd line) (''write to '' @ h @ '' failed'') c = (Inr (), c0)"
    and "expect_reply n c0 = (Inr q, c1)" by (auto simp: cmd_def bnd_Inr)
  with write_Inr expect_Inr show ?thesis by (metis prod.collapse)
qed

lemma quit_Inr: "quit x c = (Inr y, c1) \<Longrightarrow> y = x \<and>
  (cn_out c1 = cn_out c \<or> cn_out c1 = cn_out c @ [(cn_secure c, Cmd ''QUIT'')])"
  by (auto simp: quit_def write_wire_def Let_def split: prod.splits if_splits dest!: read_response_sent)

text \<open>What \<open>sendMail\<close> has put on the wire when it succeeds.\<close>

lemma send_mail_Inr:
  assumes "send_mail host from_addr to data c = (Inr resp, c1)"
  obtains line msg q where "mail_command host from_addr data (cn_exts c) = Inr line"
    and "cn_out c1 = cn_out c @ [(cn_secure c, Cmd line), (cn_secure c, Cmd (''RCPT TO:<'' @ to @ ''>'')),
      (cn_secure c, Cmd ''DATA''), (cn_secure c, Body (dot_write Begin data))] @ q"
    and "q = [] \<or> q = [(cn_secure c, Cmd ''QUIT'')]" and "resp = show_int 250 @ '' '' @ msg"
proof (cases "mail_command host from_addr data (cn_exts c)")
  case (Inl e)
  with assms show thesis by (simp add: send_mail_def bnd_def get_exts_def fail_def)
next
  case (Inr line)
  let ?rcpt = "''RCPT TO:<'' @ to @ ''>''" and ?e = "''writing message data to '' @ host @ '' failed''"
  from assms Inr have "bnd (cmd host 250 line) (\<lambda>_. bnd (cmd host 250 ?rcpt) (\<lambda>_.
      bnd (cmd host 354 ''DATA'') (\<lambda>_. bnd (write_wire (Body (dot_write Begin data)) ?e) (\<lambda>_.
      bnd (expect_reply 250) (\<lambda>(code, msg). quit (show_int code @ '' '' @ msg)))))) c = (Inr resp, c1)"
    unfolding send_mail_def bnd_def [of get_exts] get_exts_def by simp
  then obtain q3 c3 q4 c4 q5 c5 c6 p c7 where 1: "cmd host 250 line c = (Inr q3, c3)"
    and 2: "cmd host 250 ?rcpt c3 = (Inr q4, c4)" and 3: "cmd host 354 ''DATA'' c4 = (Inr q5, c5)"
    and 4: "write_wire (Body (dot_write Begin data)) ?e c5 = (Inr (), c6)"
    and 5: "expect_reply 250 c6 = (Inr p, c7)"
    and 6: "(case p of (code, msg) \<Rightarrow> quit (show_int code @ '' '' @ msg)) c7 = (Inr resp, c1)"
    unfolding bnd_Inr by (elim exE conjE) simp
  obtain code msg where p: "p = (code, msg)" by (cases p)
  from expect_Inr [OF 5 [unfolded p]] have n5: "code = 250" "cn_out c7 = cn_out c6" "cn_secure c7 = cn_secure c6" by auto
  from 6 have "quit (show_int 250 @ '' '' @ msg) c7 = (Inr resp, c1)" by (simp add: p n5(1))
  from quit_Inr [OF this] obtain q where q: "resp = show_int 250 @ '' '' @ msg" "cn_out c1 = cn_out c7 @ q"
    "q = [] \<or> q = [(cn_secure c7, Cmd ''QUIT'')]" by auto
  have sec: "cn_secure c7 = cn_secure c"
    using n5(3) write_Inr [OF 4] cmd_Inr [OF 3] cmd_Inr [OF 2] cmd_Inr [OF 1] by simp
  have "cn_out c1 = cn_out c @ [(cn_secure c, Cmd line), (cn_secure c, Cmd ?rcpt),
      (cn_secure c, Cmd ''DATA''), (cn_secure c, Body (dot_write Begin data))] @ q"
    using q(2) n5(2) cmd_Inr [OF 1] cmd_Inr [OF 2] cmd_Inr [OF 3] write_Inr [OF 4] by simp
  from that [OF Inr this] q(1,3) sec show thesis by simp
qed

text \<open>C26: a delivery is reported as done only when the server took the message: on success the
  client has sent MAIL with the sender, RCPT with the recipient, DATA and the whole dot-stuffed
  body in this order and on the same channel, after it nothing or one QUIT on that channel, the
  reported reply has code 250, and 8-bit data was announced as such.\<close>

theorem delivered_means_accepted:
  assumes "smtp_transaction m parse_ip dial host port implicit_tls start_tls username password from_addr to data insecure = (Inr resp, out)"
  shows "\<exists>pre post sec ext msg. out = pre @ [(sec, Cmd (''MAIL FROM:<'' @ from_addr @ ''>'' @ ext)),
      (sec, Cmd (''RCPT TO:<'' @ to @ ''>'')), (sec, Cmd ''DATA''), (sec, Body (dot_write Begin data))] @ post \<and>
    (post = [] \<or> post = [(sec, Cmd ''QUIT'')]) \<and>
    ext = (if is_8bit data then '' BODY=8BITMIME'' else []) \<and> resp = show_int 250 @ '' '' @ msg"
proof -
  from assms obtain c c1 where ses: "smtp_session (ml_hostname m) host implicit_tls start_tls username password from_addr to data insecure c = (Inr resp, c1)"
    and out: "out = cn_out c1"
    by (auto simp: smtp_transaction_def split: option.splits prod.splits)
  then obtain c2 where "send_mail host from_addr to data c2 = (Inr resp, c1)"
    unfolding smtp_session_def bnd_Inr by blast
  then obtain line msg q where l: "mail_command host from_addr data (cn_exts c2) = Inr line"
    and "cn_out c1 = cn_out c2 @ [(cn_secure c2, Cmd line), (cn_secure c2, Cmd (''RCPT TO:<'' @ to @ ''>'')),
      (cn_secure c2, Cmd ''DATA''), (cn_secure c2, Body (dot_write Begin data))] @ q"
    and "q = [] \<or> q = [(cn_secure c2, Cmd ''QUIT'')]" and "resp = show_int 250 @ '' '' @ msg"
    by (rule send_mail_Inr)
  moreover have "line = ''MAIL FROM:<'' @ from_addr @ ''>'' @ (if is_8bit data then '' BODY=8BITMIME'' else [])"
    using l by (auto simp: mail_command_def split: if_splits)
  ultimately show ?thesis
    unfolding out
    by (intro exI [of _ "cn_out c2"] exI [of _ q] exI [of _ "cn_secure c2"]
        exI [of _ "if is_8bit data then '' BODY=8BITMIME'' else []"] exI [of _ msg]) simp
qed

definition sample_plain_server :: conn where
  "sample_plain_server = \<lparr>cn_in = [Reply 220 ''mx'', Reply 500 ''what'', Reply 250 ''ok'', Reply 250 ''ok'', Reply 250 ''ok'',
       Reply 354 ''go'', Reply 250 ''queued''],
     cn_tls_in = [], cn_write_fails = [], cn_handshake_fails = False, cn_cert_ok = False, cn_secure = False,
     cn_exts = Map.empty, cn_out = []\<rparr>"

lemma delivered_means_accepted_witness:
  "(False, Body (dot_write Begin ''hi'')) \<in> set (snd (smtp_transaction (new_mailer ''us'') (\<lambda>_. None)
     (\<lambda>_ _ _. Some sample_plain_server) ''mx'' 25 False False [] [] ''a@x'' ''b@y'' ''hi'' True))"
proof -
  let ?t = "smtp_transaction (new_mailer ''us'') (\<lambda>_. None)
     (\<lambda>_ _ _. Some sample_plain_server) ''mx'' 25 False False [] [] ''a@x'' ''b@y'' ''hi'' True"
  have r: "?t = (Inr (show_int 250 @ '' '' @ ''queued''), snd ?t)" and s: "\<forall>p \<in> set (snd ?t). \<not> fst p"
    by (simp_all add: smtp_transaction_def smtp_session_def setup_session_def bnd_def expect_reply_def read_response_def
        hello_def write_wire_def Let_def ret_def get_exts_def send_mail_def mail_command_def is_8bit_def cmd_def quit_def
        sample_plain_server_def)
  from delivered_means_accepted [OF r] s show ?thesis by fastforce
qed

text \<open>The MX hosts are tried in order and the first one that does not fail temporarily decides:
  if it takes the message the delivery succeeds with its reply, if it refuses for good no other
  host is asked and the failure is permanent; only when all of them fail temporarily (or there is
  none) the delivery fails temporarily and is kept for a retry.\<close>

theorem first_decisive_host:
  assumes "last_err = None \<or> (\<exists>e. last_err = Some e \<and> \<not> is_permanent e)"
  shows "case dropWhile (\<lambda>h. \<exists>e. deliver_to h = Inl e \<and> \<not> is_permanent e) hosts of
      [] \<Rightarrow> \<exists>e. try_hosts deliver_to hosts last_err dn = Inl e \<and> \<not> is_permanent e
    | h # _ \<Rightarrow> (case deliver_to h of
          Inr resp \<Rightarrow> try_hosts deliver_to hosts last_err dn = Inr resp
        | Inl _ \<Rightarrow> \<exists>e. try_hosts deliver_to hosts last_err dn = Inl e \<and> is_permanent e)"
  using assms
proof (induction deliver_to hosts last_err dn rule: try_hosts.induct)
  case (1 deliver_to last_err dn)
  then show ?case by (auto simp: is_permanent_def temp_error_def)
next
  case (2 deliver_to h hs last_err dn)
  show ?case
  proof (cases "deliver_to h")
    case (Inr resp)
    then show ?thesis by simp
  next
    case (Inl e)
    note d = this
    show ?thesis
    proof (cases "as_delivery_error e")
      case None
      then have np: "\<not> is_permanent e" "\<not> is_permanent (temp_error t)" for t
        by (simp_all add: is_permanent_def temp_error_def)
      have dw: "dropWhile (\<lambda>h. \<exists>e. deliver_to h = Inl e \<and> \<not> is_permanent e) (h # hs) =
          dropWhile (\<lambda>h. \<exists>e. deliver_to h = Inl e \<and> \<not> is_permanent e) hs"
        using d np by simp
      have step: "try_hosts deliver_to (h # hs) last_err dn =
          try_hosts deliver_to hs (Some (temp_error (''delivery to '' @ h @ '' failed: '' @ error_text e))) dn"
        using d None by simp
      show ?thesis unfolding step dw by (rule 2(1) [OF d None]) (use np in simp)
    next
      case (Some p)
      obtain perm code msg where p: "p = (perm, code, msg)" by (cases p)
      show ?thesis
      proof (cases perm)
        case True
        with Some p have "is_permanent e" "is_permanent (Delivery_Error perm code msg)"
          by (simp_all add: is_permanent_def)
        with d Some p True show ?thesis by simp
      next
        case False
        then have np: "\<not> is_permanent e" "\<not> is_permanent (Delivery_Error perm code msg)"
          using Some p by (simp_all add: is_permanent_def)
        have dw: "dropWhile (\<lambda>h. \<exists>e. deliver_to h = Inl e \<and> \<not> is_permanent e) (h # hs) =
            dropWhile (\<lambda>h. \<exists>e. deliver_to h = Inl e \<and> \<not> is_permanent e) hs"
          using d np by simp
        have step: "try_hosts deliver_to (h # hs) last_err dn =
            try_hosts deliver_to hs (Some (Delivery_Error perm code msg)) dn"
          using d Some p False by simp
        show ?thesis unfolding step dw by (rule 2(2) [OF d Some p [symmetric] refl False]) (use np in simp)
      qed
    qed
  qed
qed

lemma first_decisive_host_witness:
  "try_hosts (\<lambda>h. if h = ''b'' then Inr ''ok'' else Inl (temp_error ''busy'')) [''a'', ''b'', ''c''] None ''y'' = Inr ''ok''"
  using first_decisive_host [of None "\<lambda>h. if h = ''b'' then Inr ''ok'' else Inl (temp_error ''busy'')" "[''a'', ''b'', ''c'']" "''y''"]
  by (simp add: is_permanent_def temp_error_def)

text \<open>Delivery through a smarthost on the implicit-TLS port needs a greeting in the clear: the
  greeting is read before the handshake, so with a server that says nothing until TLS is up (as
  servers on port 465 do) nothing is ever sent and the delivery fails.\<close>

theorem implicit_tls_waits_for_clear_greeting:
  assumes "dial (dial_network parse_ip (ml_ip_family m) host) host port = Some c" and "cn_in c = []"
  shows "\<exists>e. smtp_transaction m parse_ip dial host port True False username password from_addr to data insecure = (Inl e, [])"
  using assms
  by (simp add: smtp_transaction_def smtp_session_def setup_session_def bnd_def expect_reply_def read_response_def)

lemma implicit_tls_waits_for_clear_greeting_witness:
  "\<exists>e. smtp_transaction (new_mailer ''us'') (\<lambda>_. None) (\<lambda>_ _ _. Some (sample_server\<lparr>cn_in := []\<rparr>)) ''mx'' 465
     True False ''u'' ''p'' ''a@x'' ''b@y'' ''hi'' False = (Inl e, [])"
  by (rule implicit_tls_waits_for_clear_greeting [where c = "sample_server\<lparr>cn_in := []\<rparr>"]) simp_all

end
