(* ===== verification/Manager_Run.thy ===== *)
theory Manager_Run
  imports Mailer "HOL-Library.Multiset"
begin

text \<open>
  The delivery manager as it runs: \<open>NewManager\<close>, \<open>Start\<close>, \<open>Stop\<close> and \<open>kickWorker\<close> of
  \<open>internal/outbound/manager.go\<close>. The dispatcher and the workers are a machine whose events are the points
  where a goroutine waits (a channel, a semaphore, a statement); it refines the delivery system of
  \<open>Outbound_Manager\<close>. A submission wakes the dispatcher, \<open>Stop\<close> returns with every claimed item attempted,
  and an item that was being sent when the program ended is never taken up again.
\<close>

section \<open>Construction\<close>

definition manager_mailer :: "outbound_config \<Rightarrow> string \<Rightarrow> mailer" where
  "manager_mailer cfg hostname = (new_mailer hostname)\<lparr>ml_ip_family := oc_ip_family cfg,
     ml_relay := (if oc_relay_host cfg \<noteq> []
                  then Some (oc_relay_host cfg, oc_relay_port cfg, oc_relay_user cfg, oc_relay_password cfg,
                             oc_relay_starttls cfg, oc_relay_tls_insecure cfg)
                  else None)\<rparr>"

definition worker_count :: "outbound_config \<Rightarrow> nat" where
  "worker_count cfg = (if oc_workers cfg \<le> 1 then 1 else nat (oc_workers cfg))"

definition channel_size :: "outbound_config \<Rightarrow> nat" where
  "channel_size cfg = nat (dispatch_batch_size cfg)"

definition poll_interval :: "outbound_config \<Rightarrow> duration" where
  "poll_interval cfg =
     (let interval = int64 (oc_poll_interval cfg * second) in if interval \<le> 0 then 15 * second else interval)"

definition status_text :: "outbound_status \<Rightarrow> string" where
  \<comment> \<open>the Chinese labels\<close>
  "status_text st =
     (case st of
        Pending \<Rightarrow> utf8 [229, 190, 133, 229, 143, 145, 233, 128, 129]
      | Sending \<Rightarrow> utf8 [229, 143, 145, 233, 128, 129, 228, 184, 173]
      | Sent \<Rightarrow> utf8 [229, 183, 178, 233, 128, 129, 232, 190, 190]
      | Deferred \<Rightarrow> utf8 [231, 173, 137, 229, 190, 133, 233, 135, 141, 232, 175, 149]
      | Failed \<Rightarrow> utf8 [229, 164, 177, 232, 180, 165]
      | Canceled \<Rightarrow> utf8 [229, 183, 178, 229, 143, 150, 230, 182, 136])"

text \<open>The interval of the ticker is positive, as \<open>time.NewTicker\<close> demands.\<close>

lemma poll_interval_pos: "0 < poll_interval cfg"
  by (simp add: poll_interval_def Let_def)

text \<open>The mailer goes through the relay exactly if the configuration names one, as \<open>deliver_key\<close> assumes.\<close>

lemma manager_mailer_relay:
  "(case ml_relay (manager_mailer cfg hostname) of Some relay \<Rightarrow> fst relay \<noteq> [] | None \<Rightarrow> False) \<longleftrightarrow> oc_relay_host cfg \<noteq> []"
  by (simp add: manager_mailer_def)

section \<open>The goroutines\<close>

datatype dispatcher =
    Scan_Next                                              \<comment> \<open>about to read the queue\<close>
  | Claiming "outbound_message list"
  | Putting outbound_message "outbound_message list"       \<comment> \<open>a claimed item waits for room in the channel\<close>
  | At_Select
  | Returned

datatype worker = Idle | Acquiring outbound_message | Delivering outbound_message | Exited

record manager_state =
  mr_db :: db
  mr_lim :: "nat \<Rightarrow> user_window option"
  mr_kick :: bool                              \<comment> \<open>the channel with one place\<close>
  mr_stop :: bool                              \<comment> \<open>closed\<close>
  mr_disp :: dispatcher
  mr_jobs :: "outbound_message list"
  mr_closed :: bool                            \<comment> \<open>the channels \<open>jobs\<close> and \<open>done\<close>\<close>
  mr_workers :: "worker list"
  mr_sems :: "string \<Rightarrow> nat"
  mr_claimed :: "outbound_message list"        \<comment> \<open>history only: no step reads the last two\<close>
  mr_tried :: "outbound_message list"

record delivery_env =
  de_fmt_time :: "gotime \<Rightarrow> string"
  de_hostname :: string
  de_parse_addr :: "string \<Rightarrow> string option"
  de_signer :: signer

type_synonym transport = "string \<Rightarrow> string \<Rightarrow> string \<Rightarrow> go_error + string"

datatype manager_event =
    Read gotime | Claim_Next | Put | Batch_Done | Tick | Take_Kick | Take_Stop
  | Take nat | Acquire nat | Attempt nat gotime transport | Exit nat
  | Submit gotime string "user option" string string string
  | Admin_Retry gotime nat | Admin_Cancel gotime nat | Admin_Delete nat | Call_Stop

datatype 'a outcome = Blocked | Panicked | Next 'a

definition manager_start :: "outbound_config \<Rightarrow> db \<Rightarrow> manager_state" where
  "manager_start cfg s = \<lparr>mr_db = s, mr_lim = Map.empty, mr_kick = False, mr_stop = False, mr_disp = Scan_Next,
     mr_jobs = [], mr_closed = False, mr_workers = replicate (worker_count cfg) Idle, mr_sems = (\<lambda>_. 0),
     mr_claimed = [], mr_tried = []\<rparr>"

definition dispatcher_step :: "outbound_config \<Rightarrow> manager_event \<Rightarrow> manager_state \<Rightarrow> manager_state outcome" where
  \<comment> \<open>\<open>processDue\<close> in the loop of the dispatcher\<close>
  "dispatcher_step cfg ev st =
     (case (ev, mr_disp st) of
        (Read now, Scan_Next) \<Rightarrow>
          (case outbound_list_due now (dispatch_batch_size cfg) (mr_db st) of
             (Inl _, s) \<Rightarrow> Next (st\<lparr>mr_db := s, mr_disp := At_Select\<rparr>)
           | (Inr items, s) \<Rightarrow> Next (st\<lparr>mr_db := s, mr_disp := Claiming items\<rparr>))
      | (Claim_Next, Claiming (m # ms)) \<Rightarrow>
          (case outbound_claim (o_id m) (mr_db st) of
             (r, s) \<Rightarrow>
               if r = Inr True
               then Next (st\<lparr>mr_db := s, mr_disp := Putting (m\<lparr>o_status := Sending\<rparr>) ms,
                             mr_claimed := mr_claimed st @ [m\<lparr>o_status := Sending\<rparr>]\<rparr>)
               else Next (st\<lparr>mr_db := s, mr_disp := Claiming ms\<rparr>))
      | (Put, Putting j ms) \<Rightarrow>
          if mr_closed st then Panicked
          else if length (mr_jobs st) < channel_size cfg
          then Next (st\<lparr>mr_jobs := mr_jobs st @ [j], mr_disp := Claiming ms\<rparr>)
          else Blocked
      | (Batch_Done, Claiming []) \<Rightarrow> Next (st\<lparr>mr_disp := At_Select\<rparr>)
      | (Tick, At_Select) \<Rightarrow> Next (st\<lparr>mr_disp := Scan_Next\<rparr>)
      | (Take_Kick, At_Select) \<Rightarrow> if mr_kick st then Next (st\<lparr>mr_kick := False, mr_disp := Scan_Next\<rparr>) else Blocked
      | (Take_Stop, At_Select) \<Rightarrow>
          if \<not> mr_stop st then Blocked
          else if mr_closed st then Panicked
          else Next (st\<lparr>mr_closed := True, mr_disp := Returned\<rparr>)
      | _ \<Rightarrow> Blocked)"

definition release_blocks :: "outbound_config \<Rightarrow> string \<Rightarrow> (string \<Rightarrow> nat) \<Rightarrow> bool" where
  \<comment> \<open>\<open><-sem\<close> on an empty channel\<close>
  "release_blocks cfg key sems \<longleftrightarrow> 0 < oc_max_concurrent_per_domain cfg \<and> sems key = 0"

definition worker_step ::
  "delivery_env \<Rightarrow> outbound_config \<Rightarrow> manager_event \<Rightarrow> nat \<Rightarrow> manager_state \<Rightarrow> manager_state outcome" where
  \<comment> \<open>worker \<open>i\<close>: the loop over the channel, with \<open>deliverOne\<close> between \<open>acquireDomain\<close> and the release\<close>
  "worker_step en cfg ev i st =
     (if i \<ge> length (mr_workers st) then Blocked
      else case (ev, mr_workers st ! i) of
        (Take _, Idle) \<Rightarrow>
          (case mr_jobs st of
             [] \<Rightarrow> Blocked
           | j # js \<Rightarrow> Next (st\<lparr>mr_jobs := js, mr_workers := (mr_workers st)[i := Acquiring j]\<rparr>))
      | (Acquire _, Acquiring j) \<Rightarrow>
          (case acquire_domain cfg (o_to_addr j) (mr_sems st) of
             None \<Rightarrow> Blocked
           | Some sems \<Rightarrow> Next (st\<lparr>mr_sems := sems, mr_workers := (mr_workers st)[i := Delivering j]\<rparr>))
      | (Attempt _ now deliver, Delivering j) \<Rightarrow>
          if release_blocks cfg (o_to_addr j) (mr_sems st) then Blocked
          else (case deliver_one cfg (de_fmt_time en) (de_hostname en) deliver now j (mr_db st) of
                  (_, s) \<Rightarrow> Next (st\<lparr>mr_db := s, mr_sems := release_domain cfg (o_to_addr j) (mr_sems st),
                                    mr_workers := (mr_workers st)[i := Idle], mr_tried := mr_tried st @ [j]\<rparr>))
      | (Exit _, Idle) \<Rightarrow>
          if mr_jobs st = [] \<and> mr_closed st then Next (st\<lparr>mr_workers := (mr_workers st)[i := Exited]\<rparr>) else Blocked
      | _ \<Rightarrow> Blocked)"

definition manager_step ::
  "delivery_env \<Rightarrow> outbound_config \<Rightarrow> manager_event \<Rightarrow> manager_state \<Rightarrow> manager_state outcome" where
  \<comment> \<open>the remaining events are calls from other goroutines; they never wait, and \<open>kickWorker\<close> is their last act\<close>
  "manager_step en cfg ev st =
     (case ev of
        Take i \<Rightarrow> worker_step en cfg ev i st
      | Acquire i \<Rightarrow> worker_step en cfg ev i st
      | Attempt i _ _ \<Rightarrow> worker_step en cfg ev i st
      | Exit i \<Rightarrow> worker_step en cfg ev i st
      | Submit now uuid sender from_addr to raw \<Rightarrow>
          (case enqueue cfg (de_parse_addr en) (de_signer en) now uuid sender from_addr to raw (mr_lim st, mr_db st) of
             (r, lim', s) \<Rightarrow> Next (st\<lparr>mr_lim := lim', mr_db := s, mr_kick := mr_kick st \<or> \<not> isl r\<rparr>))
      | Admin_Retry now i \<Rightarrow>
          (case manager_retry now i (mr_db st) of (r, s) \<Rightarrow> Next (st\<lparr>mr_db := s, mr_kick := mr_kick st \<or> \<not> isl r\<rparr>))
      | Admin_Cancel now i \<Rightarrow>
          (case manager_cancel now i (mr_db st) of (_, s) \<Rightarrow> Next (st\<lparr>mr_db := s\<rparr>))
      | Admin_Delete i \<Rightarrow> (case outbound_delete i (mr_db st) of (_, s) \<Rightarrow> Next (st\<lparr>mr_db := s\<rparr>))
      | Call_Stop \<Rightarrow> Next (st\<lparr>mr_stop := True\<rparr>)
      | _ \<Rightarrow> dispatcher_step cfg ev st)"

fun manager_run ::
  "delivery_env \<Rightarrow> outbound_config \<Rightarrow> manager_event list \<Rightarrow> manager_state \<Rightarrow> manager_state option" where
  "manager_run en cfg [] st = Some st"
| "manager_run en cfg (ev # evs) st =
     (case manager_step en cfg ev st of Next st' \<Rightarrow> manager_run en cfg evs st' | _ \<Rightarrow> None)"

definition stop_returns :: "manager_state \<Rightarrow> bool" where
  \<comment> \<open>\<open><-m.done\<close> and \<open>m.wg.Wait()\<close>\<close>
  "stop_returns st \<longleftrightarrow> mr_closed st \<and> mr_disp st = Returned \<and> list_all (\<lambda>w. w = Exited) (mr_workers st)"

section \<open>The invariant\<close>

lemma sum_list_map_update:
  fixes f :: "'a \<Rightarrow> 'b::comm_monoid_add"
  assumes "i < length xs"
  shows "sum_list (map f (xs[i := x])) + f (xs ! i) = sum_list (map f xs) + f x"
  using assms
proof (induction xs arbitrary: i)
  case (Cons y ys)
  show ?case
  proof (cases i)
    case 0
    then show ?thesis by (simp add: ac_simps)
  next
    case (Suc k)
    with Cons show ?thesis by (simp add: add.assoc)
  qed
qed simp

fun held :: "worker \<Rightarrow> outbound_message multiset" where
  "held (Acquiring j) = {#j#}"
| "held (Delivering j) = {#j#}"
| "held _ = {#}"

fun busy :: "string \<Rightarrow> worker \<Rightarrow> nat" where
  "busy k (Delivering j) = (if o_to_addr j = k then 1 else 0)"
| "busy k _ = 0"

fun waiting_to_put :: "dispatcher \<Rightarrow> outbound_message list" where
  "waiting_to_put (Putting j _) = [j]"
| "waiting_to_put _ = []"

definition jobs_held :: "manager_state \<Rightarrow> outbound_message multiset" where
  "jobs_held st = sum_list (map held (mr_workers st))"

definition sems_exact :: "outbound_config \<Rightarrow> (string \<Rightarrow> nat) \<Rightarrow> worker list \<Rightarrow> bool" where
  "sems_exact cfg sems ws \<longleftrightarrow> 0 < oc_max_concurrent_per_domain cfg \<longrightarrow>
     (\<forall>k. sems k = sum_list (map (busy k) ws) \<and> int (sems k) \<le> oc_max_concurrent_per_domain cfg)"

definition run_inv :: "outbound_config \<Rightarrow> manager_state \<Rightarrow> bool" where
  "run_inv cfg st \<longleftrightarrow> (mr_closed st \<longleftrightarrow> mr_disp st = Returned) \<and> length (mr_workers st) = worker_count cfg \<and>
     length (mr_jobs st) \<le> channel_size cfg \<and>
     mset (mr_claimed st) = mset (mr_tried st) + mset (mr_jobs st) + jobs_held st + mset (waiting_to_put (mr_disp st)) \<and>
     (Exited \<in> set (mr_workers st) \<longrightarrow> mr_jobs st = [] \<and> mr_closed st) \<and> sems_exact cfg (mr_sems st) (mr_workers st)"

lemma worker_count_pos: "0 < worker_count cfg"
  by (simp add: worker_count_def)

lemma channel_size_pos: "0 < channel_size cfg"
  by (simp add: channel_size_def dispatch_batch_size_def)

lemma idle_workers [simp]:
  "sum_list (map held (replicate n Idle)) = {#}" "sum_list (map (busy k) (replicate n Idle)) = 0"
  by (induction n) simp_all

lemma start_inv: "run_inv cfg (manager_start cfg s)"
  using worker_count_pos [of cfg]
  by (auto simp: run_inv_def manager_start_def jobs_held_def sems_exact_def simp del: map_replicate)

lemmas outcome_splits = if_splits prod.splits sum.splits option.splits list.splits

lemma dispatcher_step_cases:
  assumes "dispatcher_step cfg ev st = Next st'"
  obtains (read) now r s where "ev = Read now" "mr_disp st = Scan_Next"
      "outbound_list_due now (dispatch_batch_size cfg) (mr_db st) = (r, s)"
      "st' = st\<lparr>mr_db := s, mr_disp := (case r of Inl _ \<Rightarrow> At_Select | Inr items \<Rightarrow> Claiming items)\<rparr>"
    | (won) m ms s where "ev = Claim_Next" "mr_disp st = Claiming (m # ms)" "outbound_claim (o_id m) (mr_db st) = (Inr True, s)"
      "st' = st\<lparr>mr_db := s, mr_disp := Putting (m\<lparr>o_status := Sending\<rparr>) ms,
                mr_claimed := mr_claimed st @ [m\<lparr>o_status := Sending\<rparr>]\<rparr>"
    | (lost) m ms r s where "ev = Claim_Next" "mr_disp st = Claiming (m # ms)" "outbound_claim (o_id m) (mr_db st) = (r, s)"
      "r \<noteq> Inr True" "st' = st\<lparr>mr_db := s, mr_disp := Claiming ms\<rparr>"
    | (put) j ms where "ev = Put" "mr_disp st = Putting j ms" "\<not> mr_closed st" "length (mr_jobs st) < channel_size cfg"
      "st' = st\<lparr>mr_jobs := mr_jobs st @ [j], mr_disp := Claiming ms\<rparr>"
    | (batch_done) "ev = Batch_Done" "mr_disp st = Claiming []" "st' = st\<lparr>mr_disp := At_Select\<rparr>"
    | (tick) "ev = Tick" "mr_disp st = At_Select" "st' = st\<lparr>mr_disp := Scan_Next\<rparr>"
    | (kick) "ev = Take_Kick" "mr_disp st = At_Select" "mr_kick st" "st' = st\<lparr>mr_kick := False, mr_disp := Scan_Next\<rparr>"
    | (stop) "ev = Take_Stop" "mr_disp st = At_Select" "mr_stop st" "\<not> mr_closed st"
      "st' = st\<lparr>mr_closed := True, mr_disp := Returned\<rparr>"
proof (cases ev)
  case (Read now)
  with assms read show ?thesis
    by (cases "mr_disp st"; cases "outbound_list_due now (dispatch_batch_size cfg) (mr_db st)")
       (auto simp: dispatcher_step_def split: sum.splits)
next
  case Claim_Next
  with assms won lost show ?thesis
    by (cases "mr_disp st") (auto simp: dispatcher_step_def split: list.splits prod.splits if_splits)
next
  case Put
  with assms put show ?thesis by (cases "mr_disp st") (auto simp: dispatcher_step_def split: if_splits)
next
  case Batch_Done
  with assms batch_done show ?thesis by (cases "mr_disp st") (auto simp: dispatcher_step_def split: list.splits)
next
  case Tick
  with assms tick show ?thesis by (cases "mr_disp st") (auto simp: dispatcher_step_def)
next
  case Take_Kick
  with assms kick show ?thesis by (cases "mr_disp st") (auto simp: dispatcher_step_def split: if_splits)
next
  case Take_Stop
  with assms stop show ?thesis by (cases "mr_disp st") (auto simp: dispatcher_step_def split: if_splits)
qed (use assms in \<open>simp_all add: dispatcher_step_def\<close>)

lemma dispatcher_step_inv:
  assumes "run_inv cfg st" and "dispatcher_step cfg ev st = Next st'"
  shows "run_inv cfg st'"
  using assms(2) assms(1)
  by (cases rule: dispatcher_step_cases) (auto simp: run_inv_def jobs_held_def split: sum.splits)

lemma dispatcher_never_panics: "run_inv cfg st \<Longrightarrow> dispatcher_step cfg ev st \<noteq> Panicked"
  by (cases ev; cases "mr_disp st")
     (auto simp: dispatcher_step_def run_inv_def split: outcome_splits)

lemma worker_step_cases:
  assumes "worker_step en cfg ev i st = Next st'"
  obtains (take) j js where "i < length (mr_workers st)" "mr_workers st ! i = Idle" "mr_jobs st = j # js"
      "st' = st\<lparr>mr_jobs := js, mr_workers := (mr_workers st)[i := Acquiring j]\<rparr>"
    | (acquire) j sems where "i < length (mr_workers st)" "mr_workers st ! i = Acquiring j"
      "acquire_domain cfg (o_to_addr j) (mr_sems st) = Some sems"
      "st' = st\<lparr>mr_sems := sems, mr_workers := (mr_workers st)[i := Delivering j]\<rparr>"
    | (attempt) n now deliver j j' s where "ev = Attempt n now deliver" "i < length (mr_workers st)"
      "mr_workers st ! i = Delivering j"
      "deliver_one cfg (de_fmt_time en) (de_hostname en) deliver now j (mr_db st) = (j', s)"
      "st' = st\<lparr>mr_db := s, mr_sems := release_domain cfg (o_to_addr j) (mr_sems st),
                mr_workers := (mr_workers st)[i := Idle], mr_tried := mr_tried st @ [j]\<rparr>"
    | (exit) "i < length (mr_workers st)" "mr_workers st ! i = Idle" "mr_jobs st = []" "mr_closed st"
      "st' = st\<lparr>mr_workers := (mr_workers st)[i := Exited]\<rparr>"
  using assms by (cases ev; cases "mr_workers st ! i") (auto simp: worker_step_def split: outcome_splits)

lemma jobs_held_update:
  assumes "i < length (mr_workers st)"
  shows "sum_list (map held ((mr_workers st)[i := w])) + held (mr_workers st ! i) = jobs_held st + held w"
  using sum_list_map_update [OF assms, of held w] by (simp add: jobs_held_def)

lemma busy_update:
  assumes "i < length ws"
  shows "sum_list (map (busy k) (ws[i := w])) + busy k (ws ! i) = sum_list (map (busy k) ws) + busy k w"
  by (rule sum_list_map_update [OF assms])

lemma sems_exact_keep:
  assumes "sems_exact cfg sems ws" and "i < length ws" and "\<And>k. busy k w = busy k (ws ! i)"
  shows "sems_exact cfg sems (ws[i := w])"
  using assms(1) busy_update [OF assms(2), of _ w] assms(3) by (simp add: sems_exact_def) metis

lemma sems_exact_acquire:
  assumes "sems_exact cfg sems ws" and "i < length ws" and "ws ! i = Acquiring j"
    and "acquire_domain cfg (o_to_addr j) sems = Some sems'"
  shows "sems_exact cfg sems' (ws[i := Delivering j])"
  using assms busy_update [OF assms(2), of _ "Delivering j"]
  by (auto simp: sems_exact_def acquire_domain_def fun_upd_def split: if_splits)

lemma sems_exact_release:
  assumes "sems_exact cfg sems ws" and "i < length ws" and "ws ! i = Delivering j"
  shows "sems_exact cfg (release_domain cfg (o_to_addr j) sems) (ws[i := Idle])"
proof -
  define ws' where "ws' = ws[i := Idle]"
  have u: "sum_list (map (busy k) ws) = sum_list (map (busy k) ws') + (if o_to_addr j = k then 1 else 0)" for k
    using busy_update [OF assms(2), of k Idle] assms(3) by (simp add: ws'_def)
  have "release_domain cfg (o_to_addr j) sems k = sum_list (map (busy k) ws') \<and>
      int (release_domain cfg (o_to_addr j) sems k) \<le> oc_max_concurrent_per_domain cfg"
    if "0 < oc_max_concurrent_per_domain cfg" for k
  proof -
    have "sems k = sum_list (map (busy k) ws)" "int (sems k) \<le> oc_max_concurrent_per_domain cfg"
      using assms(1) that unfolding sems_exact_def by blast+
    with u [of k] that show ?thesis by (auto simp: release_domain_def)
  qed
  then show ?thesis unfolding sems_exact_def ws'_def by blast
qed

lemma worker_step_inv:
  assumes "run_inv cfg st" and "worker_step en cfg ev i st = Next st'"
  shows "run_inv cfg st'"
  using assms(2)
proof (cases rule: worker_step_cases)
  case (take j js)
  have "sems_exact cfg (mr_sems st') (mr_workers st')"
    using sems_exact_keep [OF _ take(1)] assms(1) take by (simp add: run_inv_def)
  with take assms(1) jobs_held_update [OF take(1), of "Acquiring j"] show ?thesis
    by (auto simp: run_inv_def jobs_held_def in_set_conv_nth nth_list_update split: if_splits)
next
  case (acquire j sems)
  have "sems_exact cfg (mr_sems st') (mr_workers st')"
    using sems_exact_acquire [OF _ acquire(1-3)] assms(1) acquire by (simp add: run_inv_def)
  with acquire assms(1) jobs_held_update [OF acquire(1), of "Delivering j"] show ?thesis
    by (auto simp: run_inv_def jobs_held_def in_set_conv_nth nth_list_update split: if_splits)
next
  case (attempt n now deliver j j' s)
  have "sems_exact cfg (mr_sems st') (mr_workers st')"
    using sems_exact_release [OF _ attempt(2,3)] assms(1) attempt by (simp add: run_inv_def)
  with attempt assms(1) jobs_held_update [OF attempt(2), of Idle] show ?thesis
    by (auto simp: run_inv_def jobs_held_def in_set_conv_nth nth_list_update split: if_splits)
next
  case exit
  have "sems_exact cfg (mr_sems st') (mr_workers st')"
    using sems_exact_keep [OF _ exit(1)] assms(1) exit by (simp add: run_inv_def)
  with exit assms(1) jobs_held_update [OF exit(1), of Exited] show ?thesis
    by (auto simp: run_inv_def jobs_held_def)
qed

lemma worker_step_never_panics: "worker_step en cfg ev i st \<noteq> Panicked"
  by (cases ev; cases "mr_workers st ! i") (auto simp: worker_step_def split: outcome_splits)

lemma manager_step_inv:
  assumes "run_inv cfg st" and "manager_step en cfg ev st = Next st'"
  shows "run_inv cfg st'"
proof -
  have "run_inv cfg (st\<lparr>mr_lim := l, mr_db := s, mr_kick := k\<rparr>)" "run_inv cfg (st\<lparr>mr_db := s, mr_kick := k\<rparr>)"
    "run_inv cfg (st\<lparr>mr_db := s\<rparr>)" "run_inv cfg (st\<lparr>mr_stop := True\<rparr>)" for l s k
    using assms(1) by (auto simp: run_inv_def jobs_held_def)
  with assms show ?thesis
    by (cases ev) (auto simp: manager_step_def split: prod.splits dest: worker_step_inv dispatcher_step_inv)
qed

lemma manager_step_never_panics: "run_inv cfg st \<Longrightarrow> manager_step en cfg ev st \<noteq> Panicked"
  by (cases ev) (auto simp: manager_step_def worker_step_never_panics dispatcher_never_panics split: prod.splits)

lemma manager_run_inv: "run_inv cfg st \<Longrightarrow> manager_run en cfg evs st = Some st' \<Longrightarrow> run_inv cfg st'"
  by (induction evs arbitrary: st) (auto split: outcome.splits dest: manager_step_inv)

lemma manager_run_append:
  "manager_run en cfg (evs @ evs') st = Option.bind (manager_run en cfg evs st) (manager_run en cfg evs')"
  by (induction evs arbitrary: st) (auto split: outcome.splits)

section \<open>Progress\<close>

fun dispatcher_left :: "outbound_config \<Rightarrow> dispatcher \<Rightarrow> nat" where
  "dispatcher_left cfg Scan_Next = 3 + 6 * channel_size cfg"
| "dispatcher_left cfg (Claiming ms) = 2 + 6 * length ms"
| "dispatcher_left cfg (Putting j ms) = 7 + 6 * length ms"
| "dispatcher_left cfg At_Select = 1"
| "dispatcher_left cfg Returned = 0"

fun worker_left :: "worker \<Rightarrow> nat" where
  "worker_left Idle = 1"
| "worker_left (Acquiring j) = 3"
| "worker_left (Delivering j) = 2"
| "worker_left Exited = 0"

definition steps_left :: "outbound_config \<Rightarrow> manager_state \<Rightarrow> nat" where
  "steps_left cfg st = dispatcher_left cfg (mr_disp st) + 4 * length (mr_jobs st) + sum_list (map worker_left (mr_workers st))"

lemma worker_left_update:
  assumes "i < length ws"
  shows "sum_list (map worker_left (ws[i := w])) + worker_left (ws ! i) = sum_list (map worker_left ws) + worker_left w"
  by (rule sum_list_map_update [OF assms])

lemma worker_step_left:
  assumes "worker_step en cfg ev i st = Next st'"
  shows "steps_left cfg st' < steps_left cfg st"
  using assms
proof (cases rule: worker_step_cases)
  case (take j js)
  then show ?thesis using worker_left_update [OF take(1), of "Acquiring j"] by (simp add: steps_left_def)
next
  case (acquire j sems)
  then show ?thesis using worker_left_update [OF acquire(1), of "Delivering j"] by (simp add: steps_left_def)
next
  case (attempt n now deliver j j' s)
  then show ?thesis using worker_left_update [OF attempt(2), of Idle] by (simp add: steps_left_def)
next
  case exit
  then show ?thesis using worker_left_update [OF exit(1), of Exited] by (simp add: steps_left_def)
qed

lemma due_batch_length:
  "outbound_list_due now (dispatch_batch_size cfg) s = (Inr items, s') \<Longrightarrow> length items \<le> channel_size cfg"
  by (auto simp: outbound_list_due_def stmt_results Let_def channel_size_def dispatch_batch_size_def)

fun closing :: "manager_event \<Rightarrow> bool" where
  "closing Tick = False"
| "closing Take_Kick = False"
| "closing (Submit _ _ _ _ _ _) = False"
| "closing (Admin_Retry _ _) = False"
| "closing (Admin_Cancel _ _) = False"
| "closing (Admin_Delete _) = False"
| "closing Call_Stop = False"
| "closing _ = True"

lemma dispatcher_step_left:
  assumes "dispatcher_step cfg ev st = Next st'" and "closing ev"
  shows "steps_left cfg st' < steps_left cfg st"
  using assms
  by (cases ev; cases "mr_disp st")
     (auto simp: dispatcher_step_def steps_left_def split: outcome_splits dest!: due_batch_length)

text \<open>Every event of the goroutines themselves, other than a new turn of the dispatcher, uses up a step.\<close>

lemma manager_step_left:
  assumes "manager_step en cfg ev st = Next st'" and "closing ev"
  shows "steps_left cfg st' < steps_left cfg st"
  using assms
  by (cases ev) (auto simp: manager_step_def split: prod.splits dest: worker_step_left dispatcher_step_left)

fun unprompted :: "gotime \<Rightarrow> transport \<Rightarrow> manager_event \<Rightarrow> bool" where
  \<comment> \<open>closing events with a given clock and transport\<close>
  "unprompted now net (Read t) = (t = now)"
| "unprompted now net (Attempt i t d) = (t = now \<and> d = net)"
| "unprompted now net ev = closing ev"

lemma unprompted_closing: "unprompted now net ev \<Longrightarrow> closing ev"
  by (cases ev) simp_all

definition can_go_on :: "delivery_env \<Rightarrow> outbound_config \<Rightarrow> gotime \<Rightarrow> transport \<Rightarrow> manager_state \<Rightarrow> bool" where
  "can_go_on en cfg now net st \<longleftrightarrow> (\<exists>ev st'. unprompted now net ev \<and> manager_step en cfg ev st = Next st')"

lemma can_go_onI: "manager_step en cfg ev st = Next st' \<Longrightarrow> unprompted now net ev \<Longrightarrow> can_go_on en cfg now net st"
  by (auto simp: can_go_on_def)

lemma sems_exactD:
  "run_inv cfg st \<Longrightarrow> 0 < oc_max_concurrent_per_domain cfg \<Longrightarrow> mr_sems st k = sum_list (map (busy k) (mr_workers st))"
  unfolding run_inv_def sems_exact_def by blast

lemma delivering_goes_on:
  assumes "run_inv cfg st" and "i < length (mr_workers st)" and "mr_workers st ! i = Delivering j"
  shows "can_go_on en cfg now net st"
proof -
  have "\<not> release_blocks cfg (o_to_addr j) (mr_sems st)"
  proof (cases "0 < oc_max_concurrent_per_domain cfg")
    case True
    have "busy (o_to_addr j) (mr_workers st ! i) \<le> mr_sems st (o_to_addr j)"
      unfolding sems_exactD [OF assms(1) True] using assms(2) by (intro member_le_sum_list) auto
    with assms(3) show ?thesis by (simp add: release_blocks_def)
  qed (simp add: release_blocks_def)
  moreover obtain j' s where "deliver_one cfg (de_fmt_time en) (de_hostname en) net now j (mr_db st) = (j', s)" by fastforce
  ultimately show ?thesis using assms(2,3)
    by (intro can_go_onI [where ev = "Attempt i now net"]) (simp_all add: manager_step_def worker_step_def)
qed

lemma busy_worker: "0 < sum_list (map (busy k) ws) \<Longrightarrow> \<exists>i j. i < length ws \<and> ws ! i = Delivering j"
proof -
  assume "0 < sum_list (map (busy k) ws)"
  then have "\<not> (\<forall>n \<in> set (map (busy k) ws). n = 0)" by (metis less_irrefl_nat sum_list_eq_0_iff)
  then obtain w where w: "w \<in> set ws" "busy k w \<noteq> 0" by auto
  from w(2) obtain j where "w = Delivering j" by (cases w) auto
  with w(1) show ?thesis by (auto simp: in_set_conv_nth)
qed

lemma acquiring_goes_on:
  assumes "run_inv cfg st" and "i < length (mr_workers st)" and "mr_workers st ! i = Acquiring j"
  shows "can_go_on en cfg now net st"
proof (cases "acquire_domain cfg (o_to_addr j) (mr_sems st)")
  case None
  then have lim: "0 < oc_max_concurrent_per_domain cfg" "0 < mr_sems st (o_to_addr j)"
    by (auto simp: acquire_domain_def split: if_splits)
  then have "0 < sum_list (map (busy (o_to_addr j)) (mr_workers st))" using sems_exactD [OF assms(1)] by metis
  then show ?thesis using busy_worker delivering_goes_on [OF assms(1)] by blast
next
  case (Some sems)
  with assms(2,3) show ?thesis
    by (intro can_go_onI [where ev = "Acquire i"]) (simp_all add: manager_step_def worker_step_def)
qed

lemma worker_goes_on:
  assumes "run_inv cfg st" and "i < length (mr_workers st)" and "mr_workers st ! i \<noteq> Exited"
    and "mr_jobs st \<noteq> [] \<or> mr_closed st"
  shows "can_go_on en cfg now net st"
proof (cases "mr_workers st ! i")
  case Idle
  show ?thesis
  proof (cases "mr_jobs st")
    case Nil
    with Idle assms show ?thesis
      by (intro can_go_onI [where ev = "Exit i"]) (simp_all add: manager_step_def worker_step_def)
  next
    case (Cons j js)
    with Idle assms show ?thesis
      by (intro can_go_onI [where ev = "Take i"]) (simp_all add: manager_step_def worker_step_def)
  qed
qed (use assms delivering_goes_on acquiring_goes_on in auto)

lemma scan_goes_on: "mr_disp st = Scan_Next \<Longrightarrow> can_go_on en cfg now net st"
  by (cases "outbound_list_due now (dispatch_batch_size cfg) (mr_db st)"; cases "fst (outbound_list_due now (dispatch_batch_size cfg) (mr_db st))")
     (auto intro!: can_go_onI [where ev = "Read now"] simp: manager_step_def dispatcher_step_def)

text \<open>The dispatcher itself never waits for ever: when the channel is full there is a worker that can move.\<close>

lemma dispatcher_goes_on:
  assumes "run_inv cfg st" and "mr_disp st \<noteq> Returned" and "mr_disp st = At_Select \<Longrightarrow> mr_stop st"
  shows "can_go_on en cfg now net st"
proof (cases "mr_disp st")
  case Scan_Next
  then show ?thesis by (rule scan_goes_on)
next
  case (Claiming ms)
  show ?thesis
  proof (cases ms)
    case Nil
    with Claiming show ?thesis
      by (intro can_go_onI [where ev = Batch_Done]) (simp_all add: manager_step_def dispatcher_step_def)
  next
    case (Cons m ns)
    obtain r s where "outbound_claim (o_id m) (mr_db st) = (r, s)" by fastforce
    with Claiming Cons show ?thesis
      by (cases "r = Inr True"; intro can_go_onI [where ev = Claim_Next])
         (simp_all add: manager_step_def dispatcher_step_def)
  qed
next
  case (Putting j ms)
  then have op: "\<not> mr_closed st" using assms(1) by (simp add: run_inv_def)
  show ?thesis
  proof (cases "length (mr_jobs st) < channel_size cfg")
    case True
    with Putting op show ?thesis
      by (intro can_go_onI [where ev = Put]) (simp_all add: manager_step_def dispatcher_step_def)
  next
    case False
    then have jobs: "mr_jobs st \<noteq> []" using channel_size_pos [of cfg] by auto
    have "0 < length (mr_workers st)" "Exited \<notin> set (mr_workers st)"
      using assms(1) jobs worker_count_pos [of cfg] by (auto simp: run_inv_def)
    moreover from this have "mr_workers st ! 0 \<noteq> Exited" by (metis nth_mem)
    ultimately show ?thesis using worker_goes_on [OF assms(1), of 0] jobs by blast
  qed
next
  case At_Select
  with assms have "mr_stop st" "\<not> mr_closed st" by (auto simp: run_inv_def)
  with At_Select show ?thesis
    by (intro can_go_onI [where ev = Take_Stop]) (simp_all add: manager_step_def dispatcher_step_def)
qed (use assms in simp)

lemma stop_goes_on:
  assumes "run_inv cfg st" and "mr_stop st" and "\<not> stop_returns st"
  shows "can_go_on en cfg now net st"
proof (cases "mr_disp st = Returned")
  case True
  with assms(1,3) have "mr_closed st" "\<exists>i. i < length (mr_workers st) \<and> mr_workers st ! i \<noteq> Exited"
    by (auto simp: run_inv_def stop_returns_def list_all_length)
  then show ?thesis using worker_goes_on [OF assms(1)] by blast
qed (use dispatcher_goes_on assms in blast)

lemma stop_stays: "manager_step en cfg ev st = Next st' \<Longrightarrow> mr_stop st \<Longrightarrow> mr_stop st'"
  by (cases ev) (auto simp: manager_step_def elim!: worker_step_cases dispatcher_step_cases split: prod.splits sum.splits)

lemma drain:
  assumes "run_inv cfg st" and "mr_stop st"
  shows "\<exists>evs st'. list_all (unprompted now net) evs \<and> length evs \<le> steps_left cfg st \<and>
    manager_run en cfg evs st = Some st' \<and> stop_returns st'"
  using assms
proof (induction "steps_left cfg st" arbitrary: st rule: less_induct)
  case less
  show ?case
  proof (cases "stop_returns st")
    case True
    then show ?thesis by (intro exI [of _ "[]"] exI [of _ st]) simp
  next
    case False
    then obtain ev st1 where ev: "unprompted now net ev" "manager_step en cfg ev st = Next st1"
      using stop_goes_on less.prems by (metis can_go_on_def)
    have dec: "steps_left cfg st1 < steps_left cfg st"
      using manager_step_left [OF ev(2)] unprompted_closing [OF ev(1)] by blast
    obtain evs st' where "list_all (unprompted now net) evs" "length evs \<le> steps_left cfg st1"
      "manager_run en cfg evs st1 = Some st'" "stop_returns st'"
      using less.hyps [OF dec manager_step_inv [OF less.prems(1) ev(2)] stop_stays [OF ev(2) less.prems(2)]] by blast
    with ev dec show ?thesis by (intro exI [of _ "ev # evs"] exI [of _ st']) auto
  qed
qed

lemma all_tried:
  assumes "run_inv cfg st" and "stop_returns st"
  shows "mset (mr_tried st) = mset (mr_claimed st)"
proof -
  have w: "Exited \<in> set (mr_workers st)"
    using assms worker_count_pos [of cfg] by (cases "mr_workers st") (auto simp: run_inv_def stop_returns_def)
  have "list_all (\<lambda>w. w = Exited) ws \<Longrightarrow> sum_list (map held ws) = {#}" for ws by (induction ws) simp_all
  with w assms show ?thesis by (simp add: run_inv_def stop_returns_def jobs_held_def)
qed

section \<open>Waking the dispatcher\<close>

definition signalled :: "manager_state \<Rightarrow> bool" where
  "signalled st \<longleftrightarrow> mr_kick st \<or> mr_disp st = Scan_Next"

lemma signalled_step:
  assumes "manager_step en cfg ev st = Next st'" and "signalled st" and "\<And>t. ev \<noteq> Read t"
  shows "signalled st'"
  using assms
  by (cases ev)
     (auto simp: signalled_def manager_step_def elim!: worker_step_cases dispatcher_step_cases split: prod.splits sum.splits)

lemma signalled_run:
  assumes "manager_run en cfg evs st = Some st'" and "signalled st" and "\<And>t. Read t \<notin> set evs"
  shows "signalled st'"
  using assms
proof (induction evs arbitrary: st)
  case (Cons ev evs)
  then obtain st1 where st1: "manager_step en cfg ev st = Next st1" "manager_run en cfg evs st1 = Some st'"
    by (auto split: outcome.splits)
  with Cons.prems have "signalled st1" by (auto intro: signalled_step)
  with Cons.IH st1(2) Cons.prems(3) show ?case by (metis list.set_intros(2))
qed simp

lemma scan_happens: "mr_disp st = Scan_Next \<Longrightarrow> \<exists>st'. manager_step en cfg (Read t) st = Next st'"
  by (cases "outbound_list_due t (dispatch_batch_size cfg) (mr_db st)")
     (auto simp: manager_step_def dispatcher_step_def split: sum.splits)

lemma signal_is_served:
  assumes "run_inv cfg st" and "signalled st" and "mr_disp st \<noteq> Returned"
  shows "\<exists>evs st'. list_all (\<lambda>ev. unprompted now net ev \<or> ev = Take_Kick) evs \<and> Take_Stop \<notin> set evs \<and>
    length evs \<le> steps_left cfg st \<and> manager_run en cfg (evs @ [Read now]) st = Some st'"
  using assms
proof (induction "steps_left cfg st" arbitrary: st rule: less_induct)
  case less
  consider "mr_disp st = Scan_Next" | "mr_disp st = At_Select" | "mr_disp st \<noteq> Scan_Next" "mr_disp st \<noteq> At_Select" by blast
  then show ?case
  proof cases
    case 1
    then obtain st' where "manager_step en cfg (Read now) st = Next st'" using scan_happens by blast
    then show ?thesis by (intro exI [of _ "[]"] exI [of _ st']) simp
  next
    case 2
    let ?st1 = "st\<lparr>mr_kick := False, mr_disp := Scan_Next\<rparr>"
    have "manager_step en cfg Take_Kick st = Next ?st1"
      using 2 less.prems(2) by (simp add: signalled_def manager_step_def dispatcher_step_def)
    moreover obtain st' where "manager_step en cfg (Read now) ?st1 = Next st'"
      using scan_happens [of ?st1 en cfg now] by auto
    ultimately show ?thesis using 2
      by (intro exI [of _ "[Take_Kick]"] exI [of _ st']) (simp add: steps_left_def)
  next
    case 3
    then obtain ev st1 where ev: "unprompted now net ev" "manager_step en cfg ev st = Next st1"
      using dispatcher_goes_on [OF less.prems(1,3)] by (metis can_go_on_def)
    have nr: "ev \<noteq> Read t" "ev \<noteq> Take_Stop" for t
      using ev(2) 3 by (cases "mr_disp st"; auto simp: manager_step_def dispatcher_step_def)+
    have dec: "steps_left cfg st1 < steps_left cfg st"
      using manager_step_left [OF ev(2)] unprompted_closing [OF ev(1)] by blast
    have "mr_disp st1 \<noteq> Returned"
      using ev(2) nr less.prems(3)
      by (cases ev; cases "mr_disp st")
         (auto simp: manager_step_def dispatcher_step_def elim!: worker_step_cases split: outcome_splits)
    then obtain evs st' where "list_all (\<lambda>ev. unprompted now net ev \<or> ev = Take_Kick) evs" "Take_Stop \<notin> set evs"
      "length evs \<le> steps_left cfg st1" "manager_run en cfg (evs @ [Read now]) st1 = Some st'"
      using less.hyps [OF dec manager_step_inv [OF less.prems(1) ev(2)]] signalled_step [OF ev(2) less.prems(2) nr(1)] by blast
    with ev dec nr show ?thesis by (intro exI [of _ "ev # evs"] exI [of _ st']) auto
  qed
qed

section \<open>The machine refines the delivery system\<close>

fun to_claim :: "dispatcher \<Rightarrow> outbound_message list" where
  "to_claim (Claiming ms) = ms"
| "to_claim (Putting j ms) = ms"
| "to_claim _ = []"

definition abstracts :: "outbound_message multiset \<Rightarrow> manager_state \<Rightarrow> delivery_system \<Rightarrow> bool" where
  \<comment> \<open>the first argument is what workers hold that are not part of this run\<close>
  "abstracts P st ds \<longleftrightarrow> ds_db ds = mr_db st \<and> ds_snap ds 0 = to_claim (mr_disp st) \<and>
     ds_jobs ds = mr_jobs st @ waiting_to_put (mr_disp st) \<and> mset (ds_work ds) = jobs_held st + P"

definition flight :: "manager_state \<Rightarrow> nat multiset" where
  \<comment> \<open>the ids in the channel, before it and with the workers\<close>
  "flight st = image_mset o_id (mset (mr_jobs st @ waiting_to_put (mr_disp st)) + jobs_held st)"

lemma abstracts_flight: "abstracts P st ds \<Longrightarrow> mset (in_flight ds) = flight st + image_mset o_id P"
  by (simp add: abstracts_def in_flight_def flight_def)

fun idle_retries :: "delivery_env \<Rightarrow> outbound_config \<Rightarrow> nat set \<Rightarrow> manager_event list \<Rightarrow> manager_state \<Rightarrow> bool" where
  \<comment> \<open>an administrator retries only items that are not on their way, and none of the given ones\<close>
  "idle_retries en cfg S [] st = True"
| "idle_retries en cfg S (ev # evs) st =
     ((case ev of Admin_Retry now i \<Rightarrow> i \<notin># flight st \<and> i \<notin> S | _ \<Rightarrow> True) \<and>
      (case manager_step en cfg ev st of Next st' \<Rightarrow> idle_retries en cfg S evs st' | _ \<Rightarrow> True))"

lemma worker_step_simulated:
  assumes "worker_step en cfg ev i st = Next st'" and "abstracts P st ds"
  shows "\<exists>ds'. (dstep cfg)\<^sup>*\<^sup>* ds ds' \<and> abstracts P st' ds'"
  using assms(1)
proof (cases rule: worker_step_cases)
  case (take j js)
  let ?ds = "ds\<lparr>ds_jobs := js @ waiting_to_put (mr_disp st), ds_work := j # ds_work ds\<rparr>"
  have "dstep cfg ds ?ds" using take(3) assms(2) by (intro dstep.take_job) (simp add: abstracts_def)
  moreover have "abstracts P st' ?ds"
    using take assms(2) jobs_held_update [OF take(1), of "Acquiring j"] by (simp add: abstracts_def jobs_held_def)
  ultimately show ?thesis by blast
next
  case (acquire j sems)
  have "abstracts P st' ds"
    using acquire assms(2) jobs_held_update [OF acquire(1), of "Delivering j"] by (simp add: abstracts_def jobs_held_def)
  then show ?thesis by blast
next
  case (attempt n now deliver j j' s)
  let ?ds = "ds\<lparr>ds_work := remove1 j (ds_work ds), ds_db := s\<rparr>"
  have upd: "jobs_held st = add_mset j (sum_list (map held ((mr_workers st)[i := Idle])))"
    using jobs_held_update [OF attempt(2), of Idle] attempt(3) by simp
  then have "j \<in># mset (ds_work ds)" using assms(2) by (simp add: abstracts_def)
  then have "j \<in> set (ds_work ds)" by simp
  then have "dstep cfg ds ?ds" using attempt(4) assms(2) by (intro dstep.attempt) (simp_all add: abstracts_def)
  moreover have "abstracts P st' ?ds"
    using attempt assms(2) upd by (simp add: abstracts_def) (simp add: jobs_held_def)
  ultimately show ?thesis by blast
next
  case exit
  have "abstracts P st' ds"
    using exit assms(2) jobs_held_update [OF exit(1), of Exited] by (simp add: abstracts_def jobs_held_def)
  then show ?thesis by blast
qed

lemma dispatcher_step_simulated:
  assumes "dispatcher_step cfg ev st = Next st'" and "abstracts P st ds"
  shows "\<exists>ds'. (dstep cfg)\<^sup>*\<^sup>* ds ds' \<and> abstracts P st' ds'"
proof -
  have stay: ?thesis if "abstracts P st' ds" using that by blast
  have one: ?thesis if "dstep cfg ds ds'" "abstracts P st' ds'" for ds' using that by blast
  note abs = assms(2) [unfolded abstracts_def jobs_held_def]
  from assms(1) show ?thesis
  proof (cases rule: dispatcher_step_cases)
    case (read now r s)
    with abs have "outbound_list_due now (dispatch_batch_size cfg) (ds_db ds) = (r, s)" by simp
    from dstep.scan [OF this, of 0] show ?thesis
      by (rule one) (use read abs in \<open>auto simp: abstracts_def jobs_held_def split: sum.splits\<close>)
  next
    case (won m ms s)
    with abs have "ds_snap ds 0 = m # ms" "outbound_claim (o_id m) (ds_db ds) = (Inr True, s)" by simp_all
    from dstep.claim [OF this] show ?thesis
      by (rule one) (use won abs in \<open>auto simp: abstracts_def jobs_held_def\<close>)
  next
    case (lost m ms r s)
    with abs have "ds_snap ds 0 = m # ms" "outbound_claim (o_id m) (ds_db ds) = (r, s)" by simp_all
    from dstep.claim [OF this] show ?thesis
      by (rule one) (use lost abs in \<open>auto simp: abstracts_def jobs_held_def\<close>)
  qed (use abs in \<open>auto intro!: stay simp: abstracts_def jobs_held_def\<close>)
qed

lemma abstracts_db: "abstracts P st ds \<Longrightarrow> ds_db ds = mr_db st"
  by (simp add: abstracts_def)

lemma abstracts_call:
  assumes "abstracts P st ds" and "mr_db st' = s" and "mr_disp st' = mr_disp st" and "mr_jobs st' = mr_jobs st"
    and "mr_workers st' = mr_workers st"
  shows "abstracts P st' (ds\<lparr>ds_db := s\<rparr>)"
  using assms by (simp add: abstracts_def jobs_held_def)

lemma manager_step_simulated:
  assumes "manager_step en cfg ev st = Next st'" and "abstracts P st ds"
    and "\<And>now i. ev = Admin_Retry now i \<Longrightarrow> i \<notin># flight st \<and> i \<notin># image_mset o_id P"
  shows "\<exists>ds'. (dstep cfg)\<^sup>*\<^sup>* ds ds' \<and> abstracts P st' ds'"
proof -
  note db = abstracts_db [OF assms(2)]
  have one: "dstep cfg ds ds' \<Longrightarrow> abstracts P st' ds' \<Longrightarrow> ?thesis" for ds' by blast
  show ?thesis
  proof (cases ev)
    case (Submit now uuid sender a b raw)
    obtain r l s where e: "enqueue cfg (de_parse_addr en) (de_signer en) now uuid sender a b raw (mr_lim st, ds_db ds) = (r, l, s)"
      using prod_cases3 by blast
    show ?thesis
      using one [OF dstep.submit [OF e]] assms(1) abstracts_call [OF assms(2), of st' s] e Submit
      by (auto simp: manager_step_def db)
  next
    case (Admin_Retry now i)
    have "i \<notin> set (in_flight ds)"
      using assms(3) [OF Admin_Retry] abstracts_flight [OF assms(2)] by (metis set_mset_mset union_iff)
    moreover obtain r s where e: "manager_retry now i (ds_db ds) = (r, s)" by fastforce
    ultimately show ?thesis
      using one [OF dstep.retry_idle [OF _ e]] assms(1) abstracts_call [OF assms(2), of st' s] Admin_Retry
      by (auto simp: manager_step_def db)
  next
    case (Admin_Cancel now i)
    obtain r s where e: "manager_cancel now i (ds_db ds) = (r, s)" by fastforce
    with Admin_Cancel show ?thesis
      using one [OF dstep.cancel [OF e]] assms(1) abstracts_call [OF assms(2), of st' s]
      by (auto simp: manager_step_def db)
  next
    case (Admin_Delete i)
    obtain r s where e: "outbound_delete i (ds_db ds) = (r, s)" by fastforce
    with Admin_Delete show ?thesis
      using one [OF dstep.remove [OF e]] assms(1) abstracts_call [OF assms(2), of st' s]
      by (auto simp: manager_step_def db)
  next
    case Call_Stop
    then show ?thesis using assms(1,2) by (auto simp: manager_step_def abstracts_def jobs_held_def)
  qed (use assms worker_step_simulated dispatcher_step_simulated in \<open>auto simp: manager_step_def\<close>)
qed

text \<open>A simulation that carries the invariant of the delivery system, and the history of claims with it.\<close>

lemma manager_step_claimed:
  assumes "manager_step en cfg ev st = Next st'"
  shows "set (mr_claimed st') \<subseteq> set (mr_claimed st) \<union> set (waiting_to_put (mr_disp st'))"
  using assms
  by (cases ev) (auto simp: manager_step_def elim!: worker_step_cases dispatcher_step_cases split: prod.splits sum.splits)

lemma manager_run_simulated:
  assumes "manager_run en cfg evs st = Some st'" and "idle_retries en cfg S evs st" and "o_id ` set_mset P \<subseteq> S"
    and "abstracts P st ds" and "delivery_inv ds" and "o_id ` set (mr_claimed st) \<inter> o_id ` set_mset P = {}"
  shows "\<exists>ds'. (dstep cfg)\<^sup>*\<^sup>* ds ds' \<and> abstracts P st' ds' \<and> delivery_inv ds' \<and>
    o_id ` set (mr_claimed st') \<inter> o_id ` set_mset P = {}"
  using assms
proof (induction evs arbitrary: st ds)
  case Nil
  then show ?case by auto
next
  case (Cons ev evs)
  then obtain st1 where st1: "manager_step en cfg ev st = Next st1" "manager_run en cfg evs st1 = Some st'"
    by (auto split: outcome.splits)
  have "\<And>now i. ev = Admin_Retry now i \<Longrightarrow> i \<notin># flight st \<and> i \<notin># image_mset o_id P"
    and idle: "idle_retries en cfg S evs st1" using Cons.prems(2,3) st1 by auto
  then obtain ds1 where ds1: "(dstep cfg)\<^sup>*\<^sup>* ds ds1" "abstracts P st1 ds1"
    using manager_step_simulated [OF st1(1) Cons.prems(4)] by blast
  from ds1(1) Cons.prems(5) have inv: "delivery_inv ds1"
    by (induction rule: rtranclp_induct) (auto intro: dstep_inv)
  then have "distinct (in_flight ds1)" by (simp add: delivery_inv_def)
  then have "o_id ` set (waiting_to_put (mr_disp st1)) \<inter> o_id ` set_mset P = {}"
    using ds1(2) by (force simp: abstracts_def in_flight_def simp flip: set_mset_mset)
  then have "o_id ` set (mr_claimed st1) \<inter> o_id ` set_mset P = {}"
    using manager_step_claimed [OF st1(1)] Cons.prems(6) by blast
  with Cons.IH [OF st1(2) idle Cons.prems(3) ds1(2) inv] ds1(1) show ?case by (meson rtranclp_trans)
qed

lemma start_abstracts:
  "abstracts (mset ws) (manager_start cfg s) \<lparr>ds_db = s, ds_snap = (\<lambda>_. []), ds_jobs = [], ds_work = ws\<rparr>"
  by (simp add: abstracts_def manager_start_def jobs_held_def del: map_replicate)

lemma start_claimed: "mr_claimed (manager_start cfg s) = []"
  by (simp add: manager_start_def)

lemma claim_stays:
  assumes "manager_step en cfg ev st = Next st'"
  shows "set (mr_claimed st) \<subseteq> set (mr_claimed st')"
  using assms
  by (cases ev) (auto simp: manager_step_def elim!: worker_step_cases dispatcher_step_cases split: prod.splits sum.splits)

lemma claims_grow: "manager_run en cfg evs st = Some st' \<Longrightarrow> set (mr_claimed st) \<subseteq> set (mr_claimed st')"
  by (induction evs arbitrary: st) (auto split: outcome.splits dest!: claim_stays)

section \<open>Properties of the running manager\<close>

text \<open>C16: the goroutines implement the delivery system, so no message is ever with two workers. However
  the dispatcher, the workers, submissions and the administrator interleave after \<open>Start\<close>, and whichever
  statements fail, the run is one of the abstract delivery system on the same stores, and each item is
  at most once in the channel, before it or with a worker, and cannot be claimed while it is. The
  administrator may retry everything but an item that is on its way.\<close>

theorem manager_refines_delivery:
  assumes "wf_outbound s" and "manager_run en cfg evs (manager_start cfg s) = Some st"
    and "idle_retries en cfg {} evs (manager_start cfg s)"
  shows "(\<exists>ds. (dstep cfg)\<^sup>*\<^sup>* \<lparr>ds_db = s, ds_snap = (\<lambda>_. []), ds_jobs = [], ds_work = []\<rparr> ds \<and> abstracts {#} st ds) \<and>
    (\<forall>i. count (flight st) i \<le> 1 \<and> (i \<in># flight st \<longrightarrow> \<not> fst (try_claim i (mr_db st))))"
proof -
  have "delivery_inv \<lparr>ds_db = s, ds_snap = (\<lambda>_. []), ds_jobs = [], ds_work = []\<rparr>"
    using assms(1) by (simp add: delivery_inv_def in_flight_def)
  from manager_run_simulated [OF assms(2,3) _ _ this, of "{#}"] start_abstracts [of "[]"] start_claimed
  obtain ds where ds: "(dstep cfg)\<^sup>*\<^sup>* \<lparr>ds_db = s, ds_snap = (\<lambda>_. []), ds_jobs = [], ds_work = []\<rparr> ds"
    "abstracts {#} st ds" "delivery_inv ds" by auto
  have "mset (in_flight ds) = flight st" using abstracts_flight [OF ds(2)] by simp
  then have "count (flight st) i = count (mset (in_flight ds)) i" "i \<in># flight st \<longleftrightarrow> i \<in> set (in_flight ds)" for i
    by (simp_all flip: set_mset_mset)
  with ds outq.claim_open abstracts_db [OF ds(2)] show ?thesis
    by (auto simp: delivery_inv_def distinct_count_atmost_1)
qed

definition sample_delivery_env :: delivery_env where
  "sample_delivery_env = \<lparr>de_fmt_time = (\<lambda>_. []), de_hostname = ''mx'', de_parse_addr = (\<lambda>_. Some ''bob@y''),
     de_signer = (\<lambda>raw _ _ _. Some raw)\<rparr>"

definition sample_manager_run :: "manager_event list \<Rightarrow> outbound_message list \<Rightarrow> manager_state option" where
  "sample_manager_run evs items =
     manager_run sample_delivery_env sample_config evs (manager_start sample_config (sample_queue items))"

theorem manager_refines_delivery_witness:
  "\<exists>st. sample_manager_run [Read 0, Claim_Next, Put, Take 0] [sample_item 1 Pending] = Some st \<and>
    flight st = {#1#} \<and> \<not> fst (try_claim 1 (mr_db st))"
proof -
  let ?evs = "[Read 0, Claim_Next, Put, Take 0]"
  let ?ws = "Acquiring ((sample_item 1 Pending)\<lparr>o_status := Sending\<rparr>) # replicate (worker_count sample_config - 1) Idle"
  have "map_option (\<lambda>st. (mr_jobs st, mr_disp st = Claiming [], mr_workers st = ?ws)) (sample_manager_run ?evs [sample_item 1 Pending])
      = Some ([], True, True)"
    by code_simp
  then obtain st where st: "sample_manager_run ?evs [sample_item 1 Pending] = Some st" "mr_jobs st = []"
    "mr_disp st = Claiming []" "mr_workers st = ?ws" by auto
  then have fl: "flight st = {#1#}" by (simp add: flight_def jobs_held_def del: map_replicate)
  have "wf_outbound (sample_queue [sample_item 1 Pending])" by (simp add: wf_outbound_def wf_rows_def)
  moreover have "idle_retries sample_delivery_env sample_config {} ?evs (manager_start sample_config (sample_queue [sample_item 1 Pending]))"
    by (simp split: outcome.splits)
  ultimately have "\<not> fst (try_claim 1 (mr_db st))"
    using manager_refines_delivery st(1) fl unfolding sample_manager_run_def by (metis union_single_eq_member add_mset_add_single)
  with st(1) fl show ?thesis by blast
qed

text \<open>C17: \<open>Stop\<close> cannot hang and loses nothing. In every state that a run reaches, no goroutine sends on
  or closes a closed channel. Once \<open>Stop\<close> has been called, whatever transport answers (as long as it
  answers), the goroutines can go on to the end by themselves, in a number of steps that the state bounds;
  and whenever they have ended, the deliveries attempted are exactly the items claimed.\<close>

theorem stop_drains:
  assumes "manager_run en cfg evs (manager_start cfg s) = Some st"
  shows "manager_step en cfg ev st \<noteq> Panicked \<and>
    (stop_returns st \<longrightarrow> mset (mr_tried st) = mset (mr_claimed st)) \<and>
    (mr_stop st \<longrightarrow> (\<exists>evs' st'. list_all (unprompted now net) evs' \<and> length evs' \<le> steps_left cfg st \<and>
       manager_run en cfg evs' st = Some st' \<and> stop_returns st' \<and> mset (mr_tried st') = mset (mr_claimed st')))"
proof -
  have inv: "run_inv cfg st" by (rule manager_run_inv [OF start_inv assms])
  with manager_step_never_panics all_tried drain [of cfg st now net en] manager_run_inv [OF inv] show ?thesis by blast
qed

theorem stop_drains_witness:
  "\<exists>st evs' st'. sample_manager_run [Read 0, Claim_Next, Call_Stop] [sample_item 1 Pending] = Some st \<and>
     list_all (unprompted 5 (\<lambda>_ _ _. Inr ''ok'')) evs' \<and>
     manager_run sample_delivery_env sample_config evs' st = Some st' \<and> stop_returns st' \<and>
     1 \<in> o_id ` set (mr_tried st')"
proof -
  have "map_option (\<lambda>st. (mr_stop st, map o_id (mr_claimed st)))
      (sample_manager_run [Read 0, Claim_Next, Call_Stop] [sample_item 1 Pending]) = Some (True, [1])"
    by code_simp
  then obtain st where st: "sample_manager_run [Read 0, Claim_Next, Call_Stop] [sample_item 1 Pending] = Some st" "mr_stop st"
    "1 \<in> o_id ` set (mr_claimed st)" by (auto simp flip: set_map)
  from stop_drains [OF st(1) [unfolded sample_manager_run_def]] st(2) obtain evs' st' where
    e: "list_all (unprompted 5 (\<lambda>_ _ _. Inr ''ok'')) evs'" "manager_run sample_delivery_env sample_config evs' st = Some st'"
      "stop_returns st'" "mset (mr_tried st') = mset (mr_claimed st')" by blast
  have "1 \<in> o_id ` set (mr_tried st')"
    using st(3) claims_grow [OF e(2)] mset_eq_setD [OF e(4)] by auto
  with st(1) e show ?thesis by blast
qed

text \<open>C18: a submission is not overlooked. From the moment that \<open>Enqueue\<close> has accepted a message until the
  dispatcher next reads the queue, whatever happens in between, the dispatcher can get to that read by
  itself in a bounded number of steps, without the clock (\<open>Tick\<close>) and without taking the branch that ends
  it, unless it has already returned. A kick that finds the channel full is therefore never missed.\<close>

theorem submission_wakes_dispatcher:
  assumes "manager_run en cfg evs (manager_start cfg s) = Some st"
    and "enqueue cfg (de_parse_addr en) (de_signer en) now uuid sender a b raw (mr_lim st, mr_db st) = (Inr m, l, s')"
    and "manager_run en cfg (Submit now uuid sender a b raw # evs') st = Some st'"
    and "\<And>t. Read t \<notin> set evs'" and "mr_disp st' \<noteq> Returned"
  shows "\<exists>evs'' st''. list_all (\<lambda>ev. unprompted later net ev \<or> ev = Take_Kick) evs'' \<and> Take_Stop \<notin> set evs'' \<and>
    length evs'' \<le> steps_left cfg st' \<and> manager_run en cfg (evs'' @ [Read later]) st' = Some st''"
proof -
  let ?st1 = "st\<lparr>mr_lim := l, mr_db := s', mr_kick := True\<rparr>"
  have step: "manager_step en cfg (Submit now uuid sender a b raw) st = Next ?st1"
    using assms(2) by (simp add: manager_step_def)
  then have run: "manager_run en cfg evs' ?st1 = Some st'" using assms(3) by simp
  have "run_inv cfg st'" by (rule manager_run_inv [OF manager_run_inv [OF start_inv assms(1)] assms(3)])
  moreover have "signalled st'" by (rule signalled_run [OF run _ assms(4)]) (simp add: signalled_def)
  ultimately show ?thesis using signal_is_served assms(5) by blast
qed

theorem submission_wakes_dispatcher_witness:
  "\<exists>st evs'' st''. sample_manager_run [Read 0, Submit 0 ''u'' None ''ann@x.org'' [] ''hi'', Batch_Done] [] = Some st \<and>
     mr_disp st = At_Select \<and> Take_Stop \<notin> set evs'' \<and>
     manager_run sample_delivery_env sample_config (evs'' @ [Read 7]) st = Some st''"
proof -
  let ?sub = "Submit 0 ''u'' None ''ann@x.org'' [] ''hi''"
  let ?st0 = "(manager_start sample_config (sample_queue []))\<lparr>mr_disp := Claiming []\<rparr>"
  have run0: "manager_run sample_delivery_env sample_config [Read 0] (manager_start sample_config (sample_queue [])) = Some ?st0"
    by (simp add: manager_step_def dispatcher_step_def manager_start_def outbound_list_due_def table_simps Let_def)
  obtain m l s' where e: "enqueue sample_config (\<lambda>_. Some ''bob@y'') (\<lambda>raw _ _ _. Some raw) 0 ''u'' None ''ann@x.org'' [] ''hi''
      (mr_lim ?st0, mr_db ?st0) = (Inr m, l, s')"
    using sample_enqueue [of 0 "[]" Map.empty] by (auto simp: manager_start_def) (metis prod.collapse)
  let ?st1 = "?st0\<lparr>mr_lim := l, mr_db := s', mr_kick := True, mr_disp := At_Select\<rparr>"
  have run1: "manager_run sample_delivery_env sample_config [?sub, Batch_Done] ?st0 = Some ?st1"
    using e by (simp add: manager_step_def dispatcher_step_def sample_delivery_env_def)
  have run: "sample_manager_run [Read 0, ?sub, Batch_Done] [] = Some ?st1"
    using run0 run1 manager_run_append [of sample_delivery_env sample_config "[Read 0]" "[?sub, Batch_Done]"]
    by (simp only: sample_manager_run_def append_Cons append_Nil bind.simps)
  have "\<exists>evs'' st''. list_all (\<lambda>ev. unprompted 7 (\<lambda>_ _ _. Inr []) ev \<or> ev = Take_Kick) evs'' \<and> Take_Stop \<notin> set evs'' \<and>
      length evs'' \<le> steps_left sample_config ?st1 \<and> manager_run sample_delivery_env sample_config (evs'' @ [Read 7]) ?st1 = Some st''"
    by (rule submission_wakes_dispatcher [OF run0 _ run1]) (use e in \<open>simp_all add: sample_delivery_env_def\<close>)
  with run show ?thesis by auto
qed

section \<open>Items that nobody works on\<close>

text \<open>A row that is neither open for a claim nor with a worker: what the steps of the manager make of it.\<close>

definition untouched :: "nat \<Rightarrow> manager_state \<Rightarrow> bool" where
  "untouched i st \<longleftrightarrow> wf_outbound (mr_db st) \<and> i < db_next (mr_db st) TOutbound \<and> \<not> is_open i (mr_db st) \<and>
     i \<notin> o_id ` set (mr_claimed st) \<and>
     (\<forall>j \<in># flight st. j \<noteq> i \<and> 0 < j \<and> j < db_next (mr_db st) TOutbound)"

lemma untouchedI:
  assumes "untouched i st" and "wf_outbound (mr_db st')" and "db_next (mr_db st) TOutbound \<le> db_next (mr_db st') TOutbound"
    and "is_open i (mr_db st') \<Longrightarrow> is_open i (mr_db st)" and "mr_claimed st' = mr_claimed st"
    and "set_mset (flight st') \<subseteq> set_mset (flight st)"
  shows "untouched i st'"
  using assms unfolding untouched_def by (metis dual_order.strict_trans1 subsetD)

lemma same_tables_outbound:
  assumes "tables s' = tables s"
  shows "wf_outbound s' = wf_outbound s" "db_next s' = db_next s" "is_open i s' = is_open i s"
  by (simp_all add: wf_outbound_def is_open_def status_of_def outbound_row_def tables_eqD(4) [OF assms]
      tables_eqD(10) [OF assms])

lemma same_row_open: "outbound_row i s' = outbound_row i s \<Longrightarrow> is_open i s' = is_open i s"
  by (simp add: is_open_def status_of_def)

lemma worker_flight:
  assumes "worker_step en cfg ev k st = Next st'"
  shows "set_mset (flight st') \<subseteq> set_mset (flight st)" and "mr_claimed st' = mr_claimed st"
proof -
  have "flight st' \<subseteq># flight st \<and> mr_claimed st' = mr_claimed st"
    using assms
  proof (cases rule: worker_step_cases)
    case (take j js)
    then have "flight st' = flight st"
      using jobs_held_update [OF take(1), of "Acquiring j"] by (simp add: flight_def jobs_held_def)
    with take show ?thesis by simp
  next
    case (acquire j sems)
    then have "jobs_held st' = jobs_held st"
      using jobs_held_update [OF acquire(1), of "Delivering j"] by (simp add: jobs_held_def)
    then have "flight st' = flight st" using acquire by (simp add: flight_def)
    with acquire show ?thesis by simp
  next
    case (attempt n now deliver j j' s)
    then have "jobs_held st = add_mset j (jobs_held st')"
      using jobs_held_update [OF attempt(2), of Idle] by (simp add: jobs_held_def)
    then have "flight st = add_mset (o_id j) (flight st')" using attempt by (simp add: flight_def)
    with attempt show ?thesis by simp
  next
    case exit
    then have "jobs_held st' = jobs_held st"
      using jobs_held_update [OF exit(1), of Exited] by (simp add: jobs_held_def)
    then have "flight st' = flight st" using exit by (simp add: flight_def)
    with exit show ?thesis by simp
  qed
  then show "set_mset (flight st') \<subseteq> set_mset (flight st)" and "mr_claimed st' = mr_claimed st"
    by (auto dest: set_mset_mono)
qed

lemma delivering_in_flight:
  assumes "k < length (mr_workers st)" and "mr_workers st ! k = Delivering j"
  shows "o_id j \<in># flight st"
proof -
  have "j \<in># jobs_held st" using jobs_held_update [OF assms(1), of Idle] assms(2) by (simp add: insert_DiffM2 flip: union_single_eq_member) (metis union_single_eq_member)
  then show ?thesis by (auto simp: flight_def)
qed

lemma worker_step_untouched:
  assumes "worker_step en cfg ev k st = Next st'" and "untouched i st"
  shows "untouched i st'"
proof (rule untouchedI [OF assms(2)])
  note f = worker_flight [OF assms(1)]
  show "set_mset (flight st') \<subseteq> set_mset (flight st)" "mr_claimed st' = mr_claimed st" by (fact f)+
  have "wf_outbound (mr_db st') \<and> db_next (mr_db st') TOutbound = db_next (mr_db st) TOutbound \<and>
      (is_open i (mr_db st') \<longrightarrow> is_open i (mr_db st))"
    using assms(1)
  proof (cases rule: worker_step_cases)
    case (attempt n now deliver j j' s)
    have j: "o_id j \<noteq> i" "0 < o_id j" "o_id j < db_next (mr_db st) TOutbound"
      using delivering_in_flight [OF attempt(2,3)] assms(2) by (auto simp: untouched_def)
    have "wf_outbound (mr_db st)" using assms(2) by (simp add: untouched_def)
    note d = deliver_one_result [OF this j(2,3) attempt(4)]
    have "outbound_row i s = outbound_row i (mr_db st)" unfolding d(3) using j(1) by simp
    from same_row_open [OF this] d(2,4) attempt(5) show ?thesis by simp
  qed (use assms(2) in \<open>simp_all add: untouched_def\<close>)
  then show "wf_outbound (mr_db st')" "db_next (mr_db st) TOutbound \<le> db_next (mr_db st') TOutbound"
    "is_open i (mr_db st') \<Longrightarrow> is_open i (mr_db st)" by auto
qed

lemma outbound_claim_next: "outbound_claim j s = (r, s') \<Longrightarrow> db_next s' = db_next s"
  by (auto simp: outbound_claim_def db_stmt_def set_sending_def split: if_splits)

lemma dispatcher_step_untouched:
  assumes "dispatcher_step cfg ev st = Next st'" and "untouched i st"
  shows "untouched i st'"
  using assms(1)
proof (cases rule: dispatcher_step_cases)
  case (read now r s)
  have "tables s = tables (mr_db st)" using read(3) by (auto simp: outbound_list_due_def db_query_def db_stmt_def split: if_splits)
  note t = same_tables_outbound [OF this]
  have "flight st' = flight st" by (cases r) (simp_all add: read(2,4) flight_def jobs_held_def)
  then show ?thesis
    using assms(2) by (intro untouchedI [OF assms(2)]) (simp_all add: read(4) t untouched_def)
next
  case (won m ms s)
  have wf: "wf_outbound (mr_db st)" using assms(2) by (simp add: untouched_def)
  note c = outbound_claim_result [OF wf won(3)]
  from c(2) have "is_open (o_id m) (mr_db st)" by (simp add: is_open_def)
  then obtain row where row: "outbound_row (o_id m) (mr_db st) = Some row" by (auto simp: is_open_row)
  have m: "o_id m \<noteq> i" using \<open>is_open (o_id m) (mr_db st)\<close> assms(2) by (auto simp: untouched_def)
  have fl: "flight st' = add_mset (o_id m) (flight st)" using won(2,4) by (simp add: flight_def jobs_held_def)
  have o: "is_open i s = is_open i (mr_db st)" by (rule same_row_open, rule c(4)) (use m in simp)
  have db: "mr_db st' = s" and cl: "o_id ` set (mr_claimed st') = insert (o_id m) (o_id ` set (mr_claimed st))"
    using won(4) by simp_all
  from outbound_row_bounds [OF wf row] have b: "0 < o_id m" "o_id m < db_next (mr_db st) TOutbound" by simp_all
  show ?thesis
    using assms(2) m c(1) b unfolding untouched_def db cl fl o outbound_claim_next [OF won(3)] by auto
next
  case (lost m ms r s)
  have wf: "wf_outbound (mr_db st)" using assms(2) by (simp add: untouched_def)
  note c = outbound_claim_result [OF wf lost(3)]
  have "is_open i s = is_open i (mr_db st)"
    using c(3) [OF lost(4)] c(4) [of i] by (cases "i = o_id m") (simp_all add: is_open_def status_of_def)
  then show ?thesis
    using lost c(1) outbound_claim_next [OF lost(3)]
    by (intro untouchedI [OF assms(2)]) (simp_all add: flight_def jobs_held_def)
qed (use assms(2) in \<open>auto simp: untouched_def flight_def jobs_held_def\<close>)

lemma manager_step_untouched:
  assumes "manager_step en cfg ev st = Next st'" and "untouched i st" and "\<And>now. ev \<noteq> Admin_Retry now i"
  shows "untouched i st'"
proof -
  have wf: "wf_outbound (mr_db st)" and i: "i < db_next (mr_db st) TOutbound"
    using assms(2) by (simp_all add: untouched_def)
  have fl: "flight (st\<lparr>mr_lim := l, mr_db := s, mr_kick := k\<rparr>) = flight st"
    "flight (st\<lparr>mr_db := s, mr_kick := k\<rparr>) = flight st" "flight (st\<lparr>mr_db := s\<rparr>) = flight st"
    "flight (st\<lparr>mr_stop := True\<rparr>) = flight st" for l s k
    by (simp_all add: flight_def jobs_held_def)
  show ?thesis
  proof (cases ev)
    case (Submit now uuid sender a b raw)
    obtain r l s where e: "enqueue cfg (de_parse_addr en) (de_signer en) now uuid sender a b raw (mr_lim st, mr_db st) = (r, l, s)"
      by (metis prod.collapse)
    note fr = enqueue_frame [OF wf e]
    have st': "st' = st\<lparr>mr_lim := l, mr_db := s, mr_kick := mr_kick st \<or> \<not> isl r\<rparr>"
      using assms(1) Submit e by (simp add: manager_step_def)
    show ?thesis
      using fr(1,2) same_row_open [OF fr(3) [OF i]] by (intro untouchedI [OF assms(2)]) (simp_all add: st' fl)
  next
    case (Admin_Retry now j)
    then have "i \<noteq> j" using assms(3) by blast
    obtain r s where e: "manager_retry now j (mr_db st) = (r, s)" by (cases "manager_retry now j (mr_db st)")
    show ?thesis
      using assms(1) Admin_Retry e manager_retry_frame [OF wf e, of i] \<open>i \<noteq> j\<close>
      by (intro untouchedI [OF assms(2)]) (auto simp: manager_step_def fl)
  next
    case (Admin_Cancel now j)
    obtain r s where e: "manager_cancel now j (mr_db st) = (r, s)" by (cases "manager_cancel now j (mr_db st)")
    show ?thesis
      using assms(1) Admin_Cancel e manager_cancel_frame [OF wf e, of i]
      by (intro untouchedI [OF assms(2)]) (auto simp: manager_step_def fl)
  next
    case (Admin_Delete j)
    obtain r s where e: "outbound_delete j (mr_db st) = (r, s)" by (cases "outbound_delete j (mr_db st)")
    note d = outbound_delete_frame [OF wf e]
    have "is_open i s \<Longrightarrow> is_open i (mr_db st)"
      using d(3) [of i] by (auto simp: is_open_def status_of_def split: if_splits)
    then show ?thesis
      using assms(1) Admin_Delete e d(1,2)
      by (intro untouchedI [OF assms(2)]) (auto simp: manager_step_def fl)
  next
    case Call_Stop
    with assms(1) wf show ?thesis by (intro untouchedI [OF assms(2)]) (auto simp: manager_step_def fl)
  qed (use assms(1,2) in \<open>auto simp: manager_step_def intro: worker_step_untouched dispatcher_step_untouched\<close>)
qed

lemma manager_run_untouched:
  "manager_run en cfg evs st = Some st' \<Longrightarrow> untouched i st \<Longrightarrow> \<forall>now. Admin_Retry now i \<notin> set evs \<Longrightarrow> untouched i st'"
proof (induction evs arbitrary: st)
  case Nil
  then show ?case by simp
next
  case (Cons ev evs)
  then obtain st1 where s: "manager_step en cfg ev st = Next st1" "manager_run en cfg evs st1 = Some st'"
    by (auto split: outcome.splits)
  have "untouched i st1" using Cons.prems(3) by (intro manager_step_untouched [OF s(1) Cons.prems(2)]) auto
  then show ?case using Cons.IH [OF s(2)] Cons.prems(3) by simp
qed

text \<open>C19: what a crash leaves behind stays behind. A row that is marked as being sent when the program
  starts is not claimed by any run, whatever is submitted, cancelled, deleted or retried besides and however
  long it lasts, and is not open for a claim at the end either, as long as the administrator does not
  retry this row by hand.\<close>

theorem interrupted_items_stay:
  assumes "wf_outbound s" and "outbound_row i s = Some m" and "o_status m = Sending"
    and "manager_run en cfg evs (manager_start cfg s) = Some st"
    and "list_all (\<lambda>ev. case ev of Admin_Retry now j \<Rightarrow> j \<noteq> i | _ \<Rightarrow> True) evs"
  shows "i \<notin> o_id ` set (mr_claimed st) \<and> i \<notin># flight st \<and> \<not> fst (try_claim i (mr_db st))"
proof -
  have "flight (manager_start cfg s) = {#}"
    by (simp add: flight_def manager_start_def jobs_held_def del: map_replicate)
  then have "untouched i (manager_start cfg s)"
    using assms(1-3) outbound_row_bounds [OF assms(1,2)]
    by (simp add: untouched_def is_open_row) (simp add: manager_start_def is_open_row)
  moreover have "\<forall>now. Admin_Retry now i \<notin> set evs" using assms(5) by (auto simp: list_all_iff)
  ultimately have u: "untouched i st" by (rule manager_run_untouched [OF assms(4)])
  then have "\<not> fst (try_claim i (mr_db st))" using outq.claim_open by (auto simp: untouched_def)
  with u show ?thesis by (auto simp: untouched_def)
qed

theorem interrupted_items_stay_witness:
  "\<exists>st. sample_manager_run [Read 9, Batch_Done, Tick, Read 10] [sample_item 1 Sending] = Some st \<and>
     mr_disp st = Claiming [] \<and> \<not> fst (try_claim 1 (mr_db st))"
proof -
  let ?evs = "[Read 9, Batch_Done, Tick, Read 10]" and ?db = "sample_queue [sample_item 1 Sending]"
  have "map_option (\<lambda>st. mr_disp st = Claiming []) (sample_manager_run ?evs [sample_item 1 Sending]) = Some True"
    by code_simp
  then obtain st where st: "sample_manager_run ?evs [sample_item 1 Sending] = Some st" "mr_disp st = Claiming []" by auto
  have "wf_outbound ?db" "outbound_row 1 ?db = Some (sample_item 1 Sending)"
    by (simp_all add: wf_outbound_def wf_rows_def outbound_row_def)
  then show ?thesis
    using interrupted_items_stay [of ?db 1 "sample_item 1 Sending" sample_delivery_env sample_config ?evs st] st
    by (simp add: sample_manager_run_def)
qed

end
