(* ===== verification/Imap_Service.thy ===== *)
theory Imap_Service
  imports Mailbox_Store Protocol_Common
begin

text \<open>
  The mailbox service (\<open>internal/imap_server/service.go\<close>) that the IMAP sessions and the web pages
  share: one definition per method of \<open>MailboxService\<close>. The randomness that a fresh UIDVALIDITY takes
  is an argument. What follows shows that no sequence of folder operations can lose a message, break
  the folder names or remove a system folder, and that a move touches the mail of its own user only.
\<close>

section \<open>Operations\<close>

record folder_info =
  fi_name :: string
  fi_special_use :: string
  fi_subscribed :: bool
  fi_total :: int
  fi_unseen :: int

definition svc_list_all :: "nat \<Rightarrow> db \<Rightarrow> mailbox list result \<times> db" where
  "svc_list_all uid s =
     (case mailboxes_ensure_system uid s of
        (Inl e, s1) \<Rightarrow> (Inl e, s1)
      | (Inr _, s1) \<Rightarrow> mailboxes_list uid s1)"

definition or_zero :: "int result \<Rightarrow> int" where
  \<comment> \<open>a count whose error is only logged\<close>
  "or_zero r = (case r of Inl _ \<Rightarrow> 0 | Inr n \<Rightarrow> n)"

fun folder_infos :: "nat \<Rightarrow> mailbox list \<Rightarrow> db \<Rightarrow> folder_info list \<times> db" where
  "folder_infos uid [] s = ([], s)"
| "folder_infos uid (mb # mbs) s =
     (let (tot, s1) = mails_count uid (mb_name mb) s;
          (unseen, s2) = mails_count_unread uid (mb_name mb) s1;
          (infos, s3) = folder_infos uid mbs s2
      in (\<lparr>fi_name = mb_name mb, fi_special_use = mb_special_use mb, fi_subscribed = mb_is_subscribed mb,
           fi_total = or_zero tot, fi_unseen = or_zero unseen\<rparr> # infos, s3))"

definition svc_list :: "nat \<Rightarrow> db \<Rightarrow> folder_info list result \<times> db" where
  "svc_list uid s =
     (case svc_list_all uid s of
        (Inl e, s1) \<Rightarrow> (Inl e, s1)
      | (Inr mbs, s1) \<Rightarrow> (let (infos, s2) = folder_infos uid mbs s1 in (Inr infos, s2)))"

definition svc_canonical :: "nat \<Rightarrow> string \<Rightarrow> db \<Rightarrow> string option \<times> db" where
  "svc_canonical uid name0 s =
     (let name = trim_space name0
      in if name = [] then (None, s)
         else case mailboxes_ensure_system uid s of
             (Inl _, s1) \<Rightarrow> (None, s1)
           | (Inr _, s1) \<Rightarrow>
               if equal_fold name ''INBOX'' then (Some ''INBOX'', s1)
               else (case mailboxes_get_by_name uid name s1 of
                       (Inl _, s2) \<Rightarrow> (None, s2)
                     | (Inr mb, s2) \<Rightarrow> (Some (mb_name mb), s2)))"

definition svc_messages :: "nat \<Rightarrow> string \<Rightarrow> int \<Rightarrow> int \<Rightarrow> db \<Rightarrow> (message list \<times> int) result \<times> db" where
  "svc_messages = mails_list"

datatype imap_flag = Flag_Seen | Flag_Flagged | Flag_Deleted | Flag_Answered | Flag_Draft | Flag_Wildcard | Flag_Other string

record select_data =
  sd_flags :: "imap_flag list"
  sd_permanent_flags :: "imap_flag list"
  sd_num_messages :: u32
  sd_uid_next :: u32
  sd_uid_validity :: u32

definition svc_select :: "u32 option \<Rightarrow> nat \<Rightarrow> string \<Rightarrow> db \<Rightarrow> select_data result \<times> db" where
  "svc_select rnd uid name s =
     (case mails_list_all uid name s of
        (Inl e, s1) \<Rightarrow> (Inl e, s1)
      | (Inr msgs, s1) \<Rightarrow>
          (case mails_max_id uid name s1 of
             (Inl e, s2) \<Rightarrow> (Inl e, s2)
           | (Inr max_id, s2) \<Rightarrow>
               (let (v, s3) = uid_validity rnd uid name s2;
                    flags = [Flag_Answered, Flag_Flagged, Flag_Deleted, Flag_Seen, Flag_Draft]
                in (Inr \<lparr>sd_flags = flags, sd_permanent_flags = flags @ [Flag_Wildcard],
                         sd_num_messages = of_nat (length msgs), sd_uid_next = of_nat (max_id + 1),
                         sd_uid_validity = (case v of Inl _ \<Rightarrow> 1 | Inr x \<Rightarrow> x)\<rparr>, s3))))"

record status_options =
  so_num_messages :: bool
  so_num_unseen :: bool
  so_num_deleted :: bool
  so_size :: bool
  so_num_recent :: bool
  so_uid_next :: bool
  so_uid_validity :: bool

record status_data =
  st_mailbox :: string
  st_num_messages :: "u32 option"
  st_num_unseen :: "u32 option"
  st_num_deleted :: "u32 option"
  st_size :: "int option"
  st_num_recent :: "u32 option"
  st_uid_next :: u32
  st_uid_validity :: u32

definition count_flag :: "(message \<Rightarrow> bool) \<Rightarrow> message list \<Rightarrow> u32" where
  "count_flag P msgs = of_nat (length (filter P msgs))"

definition status_counts :: "(gotime \<Rightarrow> string) \<Rightarrow> string \<Rightarrow> status_options \<Rightarrow> message list \<Rightarrow> status_data" where
  "status_counts fmt_date name o' msgs =
     \<lparr>st_mailbox = name,
      st_num_messages = (if so_num_messages o' then Some (of_nat (length msgs)) else None),
      st_num_unseen = (if so_num_unseen o' then Some (count_flag (\<lambda>m. \<not> m_is_read m) msgs) else None),
      st_num_deleted = (if so_num_deleted o' then Some (count_flag m_is_deleted msgs) else None),
      st_size = (if so_size o' then Some (sum_list (map (\<lambda>m. int (length (build_raw_message fmt_date m))) msgs)) else None),
      st_num_recent = (if so_num_recent o' then Some 0 else None),
      st_uid_next = 0, st_uid_validity = 0\<rparr>"

definition svc_status ::
  "(gotime \<Rightarrow> string) \<Rightarrow> u32 option \<Rightarrow> nat \<Rightarrow> string \<Rightarrow> status_options \<Rightarrow> db \<Rightarrow> status_data result \<times> db" where
  "svc_status fmt_date rnd uid name o' s =
     (case mails_list_all uid name s of
        (Inl e, s1) \<Rightarrow> (Inl e, s1)
      | (Inr msgs, s1) \<Rightarrow>
          (let d0 = status_counts fmt_date name o' msgs
           in case (if so_uid_next o' then mails_max_id uid name s1 else (Inr 0, s1)) of
                (Inl e, s2) \<Rightarrow> (Inl e, s2)
              | (Inr max_id, s2) \<Rightarrow>
                  (let d1 = (if so_uid_next o' then d0\<lparr>st_uid_next := of_nat (max_id + 1)\<rparr> else d0)
                   in if \<not> so_uid_validity o' then (Inr d1, s2)
                      else (case uid_validity rnd uid name s2 of
                              (Inl e, s3) \<Rightarrow> (Inl e, s3)
                            | (Inr v, s3) \<Rightarrow> (Inr (d1\<lparr>st_uid_validity := v\<rparr>), s3)))))"

text \<open>\<open>validateMailboxName\<close>; the loop over runes finds control characters, which are single bytes.\<close>

definition validate_mailbox_name :: "string \<Rightarrow> err option" where
  "validate_mailbox_name name =
     (if name = [] \<or> length name > 64 then Some ErrMailboxInvalid
      else if contains name ''/'' \<or> name = ''.'' \<or> name = ''..'' then Some ErrMailboxInvalid
      else if \<exists>c \<in> set name. (of_char c :: nat) < 0x20 \<or> (of_char c :: nat) = 0x7f then Some ErrMailboxInvalid
      else None)"

definition svc_create :: "nat \<Rightarrow> string \<Rightarrow> db \<Rightarrow> unit result \<times> db" where
  "svc_create uid name0 s =
     (let name = trim_space name0
      in case validate_mailbox_name name of
           Some e \<Rightarrow> (Inl e, s)
         | None \<Rightarrow>
             if equal_fold name ''INBOX'' then (Inl ErrMailboxExists, s)
             else (case mailboxes_ensure_system uid s of
                     (Inl e, s1) \<Rightarrow> (Inl e, s1)
                   | (Inr _, s1) \<Rightarrow>
                       (case mailboxes_get_by_name uid name s1 of
                          (Inr _, s2) \<Rightarrow> (Inl ErrMailboxExists, s2)
                        | (Inl _, s2) \<Rightarrow>
                            mailboxes_create \<lparr>mb_id = 0, mb_user_id = uid, mb_name = name, mb_special_use = [],
                              mb_is_subscribed = True\<rparr> s2)))"

definition svc_delete :: "nat \<Rightarrow> string \<Rightarrow> db \<Rightarrow> unit result \<times> db" where
  "svc_delete uid name0 s =
     (case svc_canonical uid name0 s of
        (None, s1) \<Rightarrow> (Inl ErrMailboxNotFound, s1)
      | (Some name, s1) \<Rightarrow>
          if is_system_mailbox_name name then (Inl ErrMailboxSystem, s1) else mailboxes_delete uid name s1)"

definition svc_rename :: "nat \<Rightarrow> string \<Rightarrow> string \<Rightarrow> db \<Rightarrow> unit result \<times> db" where
  "svc_rename uid old0 new0 s =
     (case svc_canonical uid old0 s of
        (None, s1) \<Rightarrow> (Inl ErrMailboxNotFound, s1)
      | (Some old, s1) \<Rightarrow>
          if is_system_mailbox_name old then (Inl ErrMailboxSystem, s1)
          else
            (let new = trim_space new0
             in case validate_mailbox_name new of
                  Some e \<Rightarrow> (Inl e, s1)
                | None \<Rightarrow>
                    if equal_fold new ''INBOX'' \<or> is_system_mailbox_name new then (Inl ErrMailboxInvalid, s1)
                    else (case mailboxes_get_by_name uid new s1 of
                            (Inr _, s2) \<Rightarrow> (Inl ErrMailboxExists, s2)
                          | (Inl _, s2) \<Rightarrow> mailboxes_rename uid old new s2)))"

definition svc_set_subscribed :: "nat \<Rightarrow> string \<Rightarrow> bool \<Rightarrow> db \<Rightarrow> unit result \<times> db" where
  "svc_set_subscribed uid name0 b s =
     (case svc_canonical uid name0 s of
        (None, s1) \<Rightarrow> (Inl ErrMailboxNotFound, s1)
      | (Some name, s1) \<Rightarrow> mailboxes_set_subscribed uid name b s1)"

fun move_loop :: "nat \<Rightarrow> string \<Rightarrow> nat list \<Rightarrow> db \<Rightarrow> unit result \<times> db" where
  "move_loop uid dest [] s = (Inr (), s)"
| "move_loop uid dest (i # ids) s =
     (case mails_get_by_id i s of
        (Inl _, s1) \<Rightarrow> move_loop uid dest ids s1
      | (Inr m, s1) \<Rightarrow>
          if m_user_id m \<noteq> uid then move_loop uid dest ids s1
          else (case mails_move_to_folder i dest s1 of
                  (Inl e, s2) \<Rightarrow> (Inl e, s2)
                | (Inr _, s2) \<Rightarrow> move_loop uid dest ids s2))"

definition svc_move :: "nat \<Rightarrow> nat list \<Rightarrow> string \<Rightarrow> db \<Rightarrow> unit result \<times> db" where
  \<comment> \<open>the canonical name is computed but the messages go to the name as given\<close>
  "svc_move uid ids dest s =
     (if ids = [] then (Inr (), s)
      else case svc_canonical uid dest s of
          (None, s1) \<Rightarrow> (Inl ErrMailboxNotFound, s1)
        | (Some _, s1) \<Rightarrow> move_loop uid dest ids s1)"

fun purge_collect :: "nat \<Rightarrow> string \<Rightarrow> nat list \<Rightarrow> db \<Rightarrow> message list \<times> db" where
  "purge_collect uid name [] s = ([], s)"
| "purge_collect uid name (i # ids) s =
     (case mails_get_by_id i s of
        (Inl _, s1) \<Rightarrow> purge_collect uid name ids s1
      | (Inr m, s1) \<Rightarrow>
          if m_user_id m \<noteq> uid \<or> m_folder m \<noteq> name then purge_collect uid name ids s1
          else (let (ms, s2) = purge_collect uid name ids s1 in (m # ms, s2)))"

definition svc_purge :: "nat \<Rightarrow> string \<Rightarrow> nat list \<Rightarrow> db \<Rightarrow> message list result \<times> db" where
  \<comment> \<open>the ids given are deleted, not those of the messages that passed the filter\<close>
  "svc_purge uid name ids0 s =
     (let step = (\<lambda>ids msgs s1.
            if ids = [] then (Inr [], s1)
            else case mails_delete_many ids s1 of (Inl e, s2) \<Rightarrow> (Inl e, s2) | (Inr _, s2) \<Rightarrow> (Inr msgs, s2))
      in if ids0 = [] then
           (case mails_list_all uid name s of
              (Inl e, s1) \<Rightarrow> (Inl e, s1)
            | (Inr msgs, s1) \<Rightarrow> step (map m_id msgs) msgs s1)
         else (let (msgs, s1) = purge_collect uid name ids0 s in step ids0 msgs s1))"

datatype mailbox_attr = Attr_Sent | Attr_Drafts | Attr_Trash

definition mailbox_attrs :: "mailbox \<Rightarrow> mailbox_attr list" where
  "mailbox_attrs mb =
     (if mb_special_use mb = ''Sent'' then [Attr_Sent]
      else if mb_special_use mb = ''Drafts'' then [Attr_Drafts]
      else if mb_special_use mb = ''Trash'' then [Attr_Trash]
      else [])"

section \<open>Folder names\<close>

definition name_ok :: "string \<Rightarrow> bool" where
  \<comment> \<open>what a folder name has to be, said of its bytes\<close>
  "name_ok n \<longleftrightarrow> n \<noteq> [] \<and> length n \<le> 64 \<and> n \<noteq> ''.'' \<and> n \<noteq> ''..'' \<and> CHR ''/'' \<notin> set n \<and>
     (\<forall>c \<in> set n. 32 \<le> (of_char c :: nat) \<and> (of_char c :: nat) \<noteq> 127) \<and>
     (\<forall>r \<in> set space_runes. \<not> has_prefix r n \<and> \<not> has_suffix r n) \<and>
     (map lower_char n = ''inbox'' \<longrightarrow> n = ''INBOX'')"

lemma validated_name_ok:
  assumes "validate_mailbox_name (trim_space n) = None" and "\<not> equal_fold (trim_space n) ''INBOX'' \<or> trim_space n = ''INBOX''"
  shows "name_ok (trim_space n)"
proof -
  have "equal_fold (trim_space n) ''INBOX''" if "map lower_char (trim_space n) = ''inbox''"
  proof -
    have "to_lower ''INBOX'' = ''inbox''" by code_simp
    with that show ?thesis by (simp add: equal_fold_def to_lower_def)
  qed
  moreover have "contains (trim_space n) ''/'' \<longleftrightarrow> CHR ''/'' \<in> set (trim_space n)" by (rule contains_char)
  ultimately show ?thesis
    using assms trim_space_no_space [of _ n] unfolding name_ok_def validate_mailbox_name_def
    by (auto split: if_splits simp: not_less)
qed

lemma name_ok_system: "n \<in> system_names \<Longrightarrow> name_ok n"
proof -
  assume "n \<in> system_names"
  then have "n \<in> {''INBOX'', ''Sent'', ''Drafts'', ''Trash''}" by (auto simp: system_names_def system_mailboxes_def)
  moreover have "trim_space n = n" if "n \<in> {''INBOX'', ''Sent'', ''Drafts'', ''Trash''}"
    using that by (auto simp: trim_space_graph ascii_graph_def)
  moreover have "validate_mailbox_name ''INBOX'' = None" "validate_mailbox_name ''Sent'' = None"
    "validate_mailbox_name ''Drafts'' = None" "validate_mailbox_name ''Trash'' = None"
    "\<not> equal_fold ''Sent'' ''INBOX''" "\<not> equal_fold ''Drafts'' ''INBOX''" "\<not> equal_fold ''Trash'' ''INBOX''"
    by code_simp+
  ultimately show ?thesis using validated_name_ok [of n] by auto
qed

text \<open>What a folder operation keeps.\<close>

definition bare :: "message \<Rightarrow> message" where
  "bare m = m\<lparr>m_folder := []\<rparr>"

definition folders_kept :: "db \<Rightarrow> db \<Rightarrow> bool" where
  "folders_kept s s' \<longleftrightarrow> wf_db s' \<and> map bare (db_messages s') = map bare (db_messages s) \<and>
     (\<forall>v. \<forall>n \<in> mailbox_names v s'. n \<in> mailbox_names v s \<or> name_ok n) \<and>
     (\<forall>v. system_names \<inter> mailbox_names v s \<subseteq> mailbox_names v s')"

lemma folders_kept_refl: "wf_db s \<Longrightarrow> folders_kept s s"
  by (simp add: folders_kept_def)

lemma folders_kept_trans: "folders_kept s t \<Longrightarrow> folders_kept t u \<Longrightarrow> folders_kept s u"
  unfolding folders_kept_def by (simp, blast)

lemma folders_kept_wf: "folders_kept s s' \<Longrightarrow> wf_db s'"
  by (simp add: folders_kept_def)

lemma mailbox_names_keys:
  "mailbox_names v s = {n. (v, n) \<in> set (map (\<lambda>b. (mb_user_id b, mb_name b)) (db_mailboxes s))}"
  by (auto simp: mailbox_names_def)

lemma mailbox_names_tables: "tables s = tables t \<Longrightarrow> mailbox_names v s = mailbox_names v t"
  unfolding mailbox_names_def by (metis tables_simps(8))

lemma folders_kept_tables:
  assumes "wf_db s" and "tables s' = tables s"
  shows "folders_kept s s'"
proof -
  have "mailbox_names v s' = mailbox_names v s" for v using assms(2) by (rule mailbox_names_tables)
  moreover have "db_messages s' = db_messages s" using assms(2) by (metis tables_simps(3))
  moreover have "wf_db s'" using assms wf_db_cong by blast
  ultimately show ?thesis by (simp add: folders_kept_def)
qed

lemma ensure_system_kept:
  assumes "mailboxes_ensure_system uid s = (r, s')" and "wf_db s"
  shows "folders_kept s s'"
proof -
  note e = ensure_system_spec [OF assms(2,1)]
  have "n \<in> mailbox_names v s \<or> name_ok n" if "n \<in> mailbox_names v s'" for v n
    using that e(4) e(6) name_ok_system by (cases "v = uid") auto
  moreover have "mailbox_names v s \<subseteq> mailbox_names v s'" for v
    using e(4) e(5) by (cases "v = uid") auto
  ultimately show ?thesis using e(1,2) by (auto simp: folders_kept_def)
qed

lemma get_by_name_tables: "mailboxes_get_by_name uid n s = (r, s') \<Longrightarrow> tables s' = tables s"
  by (auto simp: mailboxes_get_by_name_def db_first_def db_stmt_def split: if_splits)

lemma canonical_kept:
  assumes "svc_canonical uid n s = (r, s')" and "wf_db s"
  shows "folders_kept s s'"
proof -
  obtain q s1 where e: "mailboxes_ensure_system uid s = (q, s1)" by (cases "mailboxes_ensure_system uid s")
  note k = ensure_system_kept [OF e assms(2)]
  obtain z s2 where g: "mailboxes_get_by_name uid (trim_space n) s1 = (z, s2)"
    by (cases "mailboxes_get_by_name uid (trim_space n) s1")
  have "folders_kept s s2"
    using k folders_kept_tables [OF _ get_by_name_tables [OF g]] folders_kept_trans unfolding folders_kept_def by blast
  with assms e g k folders_kept_refl [OF assms(2)] show ?thesis
    by (auto simp: svc_canonical_def Let_def split: if_splits sum.splits)
qed

lemma canonical_name:
  assumes "svc_canonical uid n0 s = (Some n, s')" and "wf_db s"
  shows "n \<in> mailbox_names uid s'"
proof -
  obtain q s1 where e: "mailboxes_ensure_system uid s = (q, s1)" by (cases "mailboxes_ensure_system uid s")
  from assms(1) e obtain x where q: "q = Inr x" by (cases q) (auto simp: svc_canonical_def Let_def split: if_splits)
  have "system_names \<subseteq> mailbox_names uid s1" using ensure_system_spec(7) [OF assms(2) e] q by simp
  then have "''INBOX'' \<in> mailbox_names uid s1" by (auto simp: system_names_def system_mailboxes_def)
  then show ?thesis
    using assms(1) e q
    by (auto simp: svc_canonical_def Let_def mailboxes_get_by_name_def db_first_def db_stmt_def mailbox_names_has has_mailbox_def
        split: if_splits sum.splits option.splits dest!: find_Some_iff)
qed

lemma create_kept:
  assumes "svc_create uid n0 s = (r, s')" and "wf_db s"
  shows "folders_kept s s'"
proof -
  let ?n = "trim_space n0"
  obtain q s1 where e: "mailboxes_ensure_system uid s = (q, s1)" by (cases "mailboxes_ensure_system uid s")
  note k1 = ensure_system_kept [OF e assms(2)]
  obtain z s2 where g: "mailboxes_get_by_name uid ?n s1 = (z, s2)" by (cases "mailboxes_get_by_name uid ?n s1")
  have k2: "folders_kept s s2"
    using k1 folders_kept_tables [OF _ get_by_name_tables [OF g]] folders_kept_trans unfolding folders_kept_def by blast
  let ?mb = "\<lparr>mb_id = 0, mb_user_id = uid, mb_name = ?n, mb_special_use = [], mb_is_subscribed = True\<rparr>"
  obtain y s3 where c: "mailboxes_create ?mb s2 = (y, s3)" by (cases "mailboxes_create ?mb s2")
  have k3: "folders_kept s s3" if ok: "validate_mailbox_name ?n = None" "\<not> equal_fold ?n ''INBOX''"
  proof -
    have w: "wf_db s2" using k2 by (simp add: folders_kept_def)
    have "folders_kept s2 s3"
    proof (cases y)
      case (Inl x)
      with c have "s3 = tick s2" by (auto dest: mailboxes_create_Inl)
      with w show ?thesis by (simp add: folders_kept_tables)
    next
      case (Inr x)
      with c have s3: "s3 = insert_mailbox (new_mailbox ?mb s2) (tick s2)" by (auto simp: mailboxes_create_Inr)
      have "wf_db s3" using w c by (rule mailboxes_create_wf)
      moreover have "name_ok ?n" using ok by (simp add: validated_name_ok)
      ultimately show ?thesis by (auto simp: folders_kept_def s3 mailbox_names_insert)
    qed
    with k2 show ?thesis by (rule folders_kept_trans)
  qed
  from assms(1) e g c k1 k2 k3 folders_kept_refl [OF assms(2)] show ?thesis
    by (auto simp: svc_create_def Let_def split: if_splits sum.splits option.splits)
qed

lemma delete_kept:
  assumes "svc_delete uid n0 s = (r, s')" and "wf_db s"
  shows "folders_kept s s'"
proof -
  obtain q s1 where c: "svc_canonical uid n0 s = (q, s1)" by (cases "svc_canonical uid n0 s")
  note k1 = canonical_kept [OF c assms(2)]
  have "folders_kept s1 s2" if d: "mailboxes_delete uid n s1 = (y, s2)" and n: "\<not> is_system_mailbox_name n" for n y s2
  proof (cases y)
    case (Inl x)
    with d have "tables s2 = tables s1" unfolding mailboxes_delete_def by (intro db_transaction_Inl) simp
    with folders_kept_wf [OF k1] show ?thesis by (simp add: folders_kept_tables)
  next
    case (Inr x)
    note t = mailboxes_delete_Inr(2) [OF d [unfolded Inr]]
    have "wf_db s2" using k1 d by (auto simp: folders_kept_def intro: mailboxes_delete_wf)
    moreover have "db_messages s2 = db_messages s1" using tables_eqD(3) [OF t] by simp
    moreover have "mailbox_names v s2 = mailbox_names v s1 - (if v = uid then {n} else {})" for v
      using tables_eqD(8) [OF t] by (auto simp: mailbox_names_def has_mailbox_def)
    moreover have "n \<notin> system_names" using n by (simp add: is_system_mailbox_name_def system_names_def)
    ultimately show ?thesis by (auto simp: folders_kept_def)
  qed
  from assms(1) c k1 this folders_kept_trans [OF k1] show ?thesis
    by (auto simp: svc_delete_def split: option.splits if_splits)
qed

lemma set_subscribed_kept:
  assumes "svc_set_subscribed uid n0 b s = (r, s')" and "wf_db s"
  shows "folders_kept s s'"
proof -
  obtain q s1 where c: "svc_canonical uid n0 s = (q, s1)" by (cases "svc_canonical uid n0 s")
  note k1 = canonical_kept [OF c assms(2)]
  let ?f = "\<lambda>n x. if has_mailbox uid n x then x\<lparr>mb_is_subscribed := b\<rparr> else x"
  have "folders_kept s1 s2" if d: "mailboxes_set_subscribed uid n b s1 = (y, s2)" for n y s2
  proof (cases "fault s1")
    case True
    with d have "s2 = tick s1" by (auto simp: mailboxes_set_subscribed_def db_exec_def db_stmt_def)
    with folders_kept_wf [OF k1] show ?thesis by (simp add: folders_kept_tables)
  next
    case False
    with d have s2: "s2 = (tick s1)\<lparr>db_mailboxes := map (?f n) (db_mailboxes s1)\<rparr>"
      by (auto simp: mailboxes_set_subscribed_def db_exec_def db_stmt_def)
    have w: "wf_db s1" using k1 by (simp add: folders_kept_def)
    have key: "map (\<lambda>x. (mb_user_id x, mb_name x)) (map (?f n) (db_mailboxes s1)) = map (\<lambda>x. (mb_user_id x, mb_name x)) (db_mailboxes s1)"
      by simp
    then have "wf_db s2" using w unfolding wf_db_def s2 by (simp add: wf_rows_map del: map_map)
    moreover have "mailbox_names v s2 = mailbox_names v s1" for v
      unfolding mailbox_names_keys using key by (simp add: s2 del: map_map)
    ultimately show ?thesis by (simp add: folders_kept_def s2)
  qed
  from assms(1) c k1 this folders_kept_trans [OF k1] show ?thesis
    by (auto simp: svc_set_subscribed_def split: option.splits)
qed

lemma rename_kept:
  assumes "svc_rename uid o0 n0 s = (r, s')" and "wf_db s"
  shows "folders_kept s s'"
proof -
  let ?n = "trim_space n0"
  obtain q s1 where c: "svc_canonical uid o0 s = (q, s1)" by (cases "svc_canonical uid o0 s")
  note k1 = canonical_kept [OF c assms(2)]
  obtain z s2 where g: "mailboxes_get_by_name uid ?n s1 = (z, s2)" by (cases "mailboxes_get_by_name uid ?n s1")
  have k2: "folders_kept s s2"
    using k1 folders_kept_tables [OF _ get_by_name_tables [OF g]] folders_kept_trans unfolding folders_kept_def by blast
  have "folders_kept s2 s3"
    if d: "mailboxes_rename uid old ?n s2 = (y, s3)" and o': "\<not> is_system_mailbox_name old"
      and n: "validate_mailbox_name ?n = None" "\<not> equal_fold ?n ''INBOX''" for old y s3
  proof (cases y)
    case (Inl x)
    with d have "tables s3 = tables s2" unfolding mailboxes_rename_def by (intro db_transaction_Inl) simp
    with folders_kept_wf [OF k2] show ?thesis by (simp add: folders_kept_tables)
  next
    case (Inr x)
    note t = mailboxes_rename_Inr(1) [OF d [unfolded Inr]]
    have "wf_db s3" using k2 d by (auto simp: folders_kept_def intro: mailboxes_rename_wf)
    moreover have "map bare (db_messages s3) = map bare (db_messages s2)"
      using tables_eqD(3) [OF t] by (simp add: renamed_def bare_def)
    moreover have names: "mailbox_names v s3 \<subseteq> mailbox_names v s2 \<union> {?n}"
      "mailbox_names v s2 - {old} \<subseteq> mailbox_names v s3" for v
      using tables_eqD(8) [OF t] by (auto simp: mailbox_names_def has_mailbox_def renamed_def image_iff)
    moreover have "old \<notin> system_names" using o' by (simp add: is_system_mailbox_name_def system_names_def)
    moreover have "name_ok ?n" using n by (simp add: validated_name_ok)
    ultimately show ?thesis unfolding folders_kept_def by blast
  qed
  from assms(1) c g k1 k2 this folders_kept_trans [OF k2] show ?thesis
    by (auto simp: svc_rename_def Let_def split: option.splits if_splits sum.splits)
qed

lemma ensure_loop_faults: "db_faults s = [] \<Longrightarrow> db_faults (snd (ensure_loop uid have ds s)) = []"
  by (induction ds arbitrary: s) (auto simp: mailboxes_create_def db_stmt_def insert_mailbox_def split: prod.splits sum.splits)

lemma canonical_frame:
  assumes "svc_canonical uid n s = (r, s')" and "wf_db s"
  shows "db_messages s' = db_messages s" and "db_faults s = [] \<Longrightarrow> db_faults s' = []"
proof -
  obtain q s1 where e: "mailboxes_ensure_system uid s = (q, s1)" by (cases "mailboxes_ensure_system uid s")
  have m1: "db_messages s1 = db_messages s" using ensure_system_spec(2) [OF assms(2) e] .
  have f1: "db_faults s1 = []" if "db_faults s = []"
    using e that ensure_loop_faults by (simp add: mailboxes_ensure_system_def table_simps) (metis snd_conv)
  obtain z s2 where g: "mailboxes_get_by_name uid (trim_space n) s1 = (z, s2)"
    by (cases "mailboxes_get_by_name uid (trim_space n) s1")
  have s2: "s2 = tick s1" using g by (cases z) (auto simp: mailboxes_get_by_name_def stmt_results)
  from assms(1) e g m1 f1 show "db_messages s' = db_messages s" and "db_faults s = [] \<Longrightarrow> db_faults s' = []"
    by (auto simp: svc_canonical_def Let_def s2 split: if_splits sum.splits)
qed

section \<open>Any sequence of folder operations\<close>

datatype folder_op =
    Op_List
  | Op_Canonical string
  | Op_Create string
  | Op_Delete string
  | Op_Rename string string
  | Op_Subscribe string bool

definition folder_step :: "nat \<Rightarrow> folder_op \<Rightarrow> db \<Rightarrow> db" where
  "folder_step uid c s =
     (case c of
        Op_List \<Rightarrow> snd (svc_list uid s)
      | Op_Canonical n \<Rightarrow> snd (svc_canonical uid n s)
      | Op_Create n \<Rightarrow> snd (svc_create uid n s)
      | Op_Delete n \<Rightarrow> snd (svc_delete uid n s)
      | Op_Rename a b \<Rightarrow> snd (svc_rename uid a b s)
      | Op_Subscribe n b \<Rightarrow> snd (svc_set_subscribed uid n b s))"

lemma folder_infos_tables: "tables (snd (folder_infos uid mbs s)) = tables s"
proof (induction mbs arbitrary: s)
  case Nil
  show ?case by simp
next
  case (Cons mb mbs)
  show ?case
    by (simp add: Let_def split_beta Cons.IH mails_count_def mails_count_unread_def)
qed

lemma list_kept:
  assumes "wf_db s"
  shows "folders_kept s (snd (svc_list uid s))"
proof -
  obtain q s1 where e: "mailboxes_ensure_system uid s = (q, s1)" by (cases "mailboxes_ensure_system uid s")
  note k1 = ensure_system_kept [OF e assms]
  have l: "tables (snd (mailboxes_list uid t)) = tables t" for t
    by (auto simp: mailboxes_list_def db_query_def db_stmt_def split: prod.splits sum.splits)
  have "tables (snd (svc_list uid s)) = tables s1"
    using e l [of s1] folder_infos_tables [of uid _ "snd (mailboxes_list uid s1)"]
    by (auto simp: svc_list_def svc_list_all_def Let_def split: prod.splits sum.splits) (metis snd_conv)
  with folders_kept_trans [OF k1 folders_kept_tables [OF folders_kept_wf [OF k1]]] show ?thesis by blast
qed

lemma folder_step_kept: "wf_db s \<Longrightarrow> folders_kept s (folder_step uid c s)"
  by (cases c; simp only: folder_step_def folder_op.case)
    (metis list_kept canonical_kept create_kept delete_kept rename_kept set_subscribed_kept prod.collapse)+

definition run_folder_ops :: "(nat \<times> folder_op) list \<Rightarrow> db \<Rightarrow> db" where
  "run_folder_ops cs s = fold (\<lambda>(uid, c). folder_step uid c) cs s"

lemma run_folder_ops_kept: "wf_db s \<Longrightarrow> folders_kept s (run_folder_ops cs s)"
proof (induction cs arbitrary: s)
  case Nil
  then show ?case by (simp add: run_folder_ops_def folders_kept_refl)
next
  case (Cons c cs)
  obtain uid x where c: "c = (uid, x)" by (cases c)
  note k = folder_step_kept [OF Cons.prems, of uid x]
  from folders_kept_trans [OF k Cons.IH [OF folders_kept_wf [OF k]]] show ?case
    by (simp add: c run_folder_ops_def)
qed

text \<open>C14: folder management keeps mail and the name space. Whatever folder operations the users call, in
  any order and with any failing statements, no message is lost, added or changed but for the folder
  it is in; system folders that exist stay; every new folder name is valid (not empty, at most 64
  bytes, neither \<open>.\<close> nor \<open>..\<close>, no slash, no control character, no white space at either end) and none
  is another spelling of INBOX; no user has two folders of one name.\<close>

theorem folder_operations_safe:
  assumes "wf_db s"
  shows "map bare (db_messages (run_folder_ops cs s)) = map bare (db_messages s) \<and>
    (\<forall>uid. system_names \<inter> mailbox_names uid s \<subseteq> mailbox_names uid (run_folder_ops cs s) \<and>
       mailbox_names uid (run_folder_ops cs s) \<subseteq> mailbox_names uid s \<union> {n. name_ok n}) \<and>
    distinct (map (\<lambda>b. (mb_user_id b, mb_name b)) (db_mailboxes (run_folder_ops cs s)))"
  using run_folder_ops_kept [OF assms, of cs] unfolding folders_kept_def wf_db_def by blast

lemma folder_operations_safe_witness:
  "db_messages (run_folder_ops [(7, Op_Create ''Work''), (7, Op_Rename ''Work'' ''inbox''), (7, Op_Delete ''INBOX'')]
     (sample_mails [sample_message 1 7 ''INBOX''])) \<noteq> []"
proof -
  have "wf_db (sample_mails [sample_message 1 7 ''INBOX''])" by (rule wf_sample_mails) (simp add: wf_rows_def)
  from folder_operations_safe [OF this, of "[(7, Op_Create ''Work''), (7, Op_Rename ''Work'' ''inbox''), (7, Op_Delete ''INBOX'')]"]
  show ?thesis by auto
qed

section \<open>Canonical names\<close>

lemma ensure_loop_ok:
  "db_faults s = [] \<Longrightarrow> distinct (map fst ds) \<Longrightarrow> (\<forall>d \<in> set ds. fst d \<in> have \<or> fst d \<notin> mailbox_names uid s) \<Longrightarrow>
   fst (ensure_loop uid have ds s) = Inr () \<and> db_faults (snd (ensure_loop uid have ds s)) = []"
proof (induction ds arbitrary: s)
  case Nil
  then show ?case by simp
next
  case (Cons d ds)
  show ?case
  proof (cases "fst d \<in> have")
    case True
    with Cons show ?thesis by simp
  next
    case False
    let ?s1 = "insert_mailbox (new_mailbox (system_mailbox uid d) s) s"
    have u: "mb_user_id (system_mailbox uid d) = uid" "mb_name (system_mailbox uid d) = fst d"
      by (simp_all add: system_mailbox_def)
    have "mailboxes_create (system_mailbox uid d) s = (Inr (), ?s1)"
      using False Cons.prems(1,3) by (simp add: mailboxes_create_Inr u)
    moreover have "fst e \<in> have \<or> fst e \<notin> mailbox_names uid ?s1" if e: "e \<in> set ds" for e
    proof -
      have "fst e \<noteq> fst d" using Cons.prems(2) imageI [OF e, of fst] by (metis distinct.simps(2) list.set_map list.simps(9))
      then show ?thesis using e Cons.prems(3) by (simp add: mailbox_names_insert u)
    qed
    ultimately show ?thesis using Cons.IH [of ?s1] False Cons.prems(1,2) by simp
  qed
qed

lemma ensure_system_ok:
  assumes "db_faults s = []"
  shows "fst (mailboxes_ensure_system uid s) = Inr ()" and "db_faults (snd (mailboxes_ensure_system uid s)) = []"
proof -
  let ?have = "set (map mb_name (filter (\<lambda>b. mb_user_id b = uid) (db_mailboxes s)))"
  have "distinct (map fst system_mailboxes)" by (simp add: system_mailboxes_def)
  moreover have "\<forall>d \<in> set system_mailboxes. fst d \<in> ?have \<or> fst d \<notin> mailbox_names uid s"
    by (auto simp: mailbox_names_def)
  ultimately have "fst (ensure_loop uid ?have system_mailboxes s) = Inr () \<and>
      db_faults (snd (ensure_loop uid ?have system_mailboxes s)) = []" using assms by (intro ensure_loop_ok)
  then show "fst (mailboxes_ensure_system uid s) = Inr ()" and "db_faults (snd (mailboxes_ensure_system uid s)) = []"
    using assms by (simp_all add: mailboxes_ensure_system_def table_simps)
qed

lemma canonical_value:
  assumes "wf_db s" and "db_faults s = []"
  shows "fst (svc_canonical uid n s) =
    (if trim_space n = [] then None
     else if equal_fold (trim_space n) ''INBOX'' then Some ''INBOX''
     else if trim_space n \<in> mailbox_names uid s \<union> system_names then Some (trim_space n) else None)"
proof -
  obtain q s1 where e: "mailboxes_ensure_system uid s = (q, s1)" by (cases "mailboxes_ensure_system uid s")
  note k = ensure_system_spec [OF assms(1) e]
  have ok: "q = Inr ()" "db_faults s1 = []" using ensure_system_ok [OF assms(2), of uid] e by simp_all
  then have names: "mailbox_names uid s1 = mailbox_names uid s \<union> system_names" using k(5-7) by auto
  have find: "find (has_mailbox uid m) (db_mailboxes s1) = None \<longleftrightarrow> m \<notin> mailbox_names uid s1" for m
    by (auto simp: find_None_iff_all mailbox_names_has)
  have "mailboxes_get_by_name uid m s1 = (case find (has_mailbox uid m) (db_mailboxes s1) of
      None \<Rightarrow> Inl ErrRecordNotFound | Some b \<Rightarrow> Inr b, s1)" for m
    using ok(2) by (simp add: mailboxes_get_by_name_def table_simps)
  moreover have "mb_name b = m" if "find (has_mailbox uid m) (db_mailboxes s1) = Some b" for m b
    using that by (auto simp: has_mailbox_def dest!: find_Some_iff)
  ultimately have "(case mailboxes_get_by_name uid m s1 of (Inl _, s2) \<Rightarrow> (None, s2) | (Inr mb, s2) \<Rightarrow> (Some (mb_name mb), s2)) =
      (if m \<in> mailbox_names uid s1 then Some m else None, s1)" for m
    using find [of m] by (cases "find (has_mailbox uid m) (db_mailboxes s1)") simp_all
  then show ?thesis using e ok(1) by (simp add: svc_canonical_def Let_def names)
qed

text \<open>Which folder a name means. When no statement fails, a name that is blank means no folder, any
  spelling of INBOX means INBOX, and any other name means the folder of exactly that name (after
  trimming), which must exist or be a system folder.\<close>

theorem canonical_exact:
  assumes "wf_db s" and "db_faults s = []"
  shows "fst (svc_canonical uid n s) =
    (if trim_space n = [] then None
     else if equal_fold (trim_space n) ''INBOX'' then Some ''INBOX''
     else if trim_space n \<in> mailbox_names uid s \<union> system_names then Some (trim_space n) else None)"
  using assms by (rule canonical_value)

lemma canonical_exact_witness:
  "fst (svc_canonical 7 ''inbox'' (sample_mails [])) = Some ''INBOX'' \<and> fst (svc_canonical 7 ''work'' (sample_mails [])) = None"
proof -
  have wf: "wf_db (sample_mails [])" by (rule wf_sample_mails) (simp add: wf_rows_def)
  have t: "trim_space ''inbox'' = ''inbox''" "trim_space ''work'' = ''work''"
    by (simp_all add: trim_space_graph ascii_graph_def)
  have "equal_fold ''inbox'' ''INBOX''" "\<not> equal_fold ''work'' ''INBOX''" by code_simp+
  moreover have "''work'' \<notin> system_names" by (auto simp: system_names_def system_mailboxes_def)
  ultimately show ?thesis
    using canonical_exact [OF wf, of 7 "''inbox''"] canonical_exact [OF wf, of 7 "''work''"]
    by (simp add: t mailbox_names_def sample_mails_def empty_db_def)
qed

section \<open>Moving and purging\<close>

definition refiled :: "nat \<Rightarrow> string \<Rightarrow> nat set \<Rightarrow> message \<Rightarrow> message" where
  "refiled uid dest I m = (if m_user_id m = uid \<and> m_id m \<in> I then m\<lparr>m_folder := dest\<rparr> else m)"

lemma refiled_none [simp]: "refiled uid dest {} = id"
  by (auto simp: refiled_def)

lemma refiled_step:
  assumes "\<And>m. m \<in> set ms \<Longrightarrow> m_id m = i \<Longrightarrow> m_user_id m = uid"
  shows "map (refiled uid dest I) (map (\<lambda>m. if m_id m = i then m\<lparr>m_folder := dest\<rparr> else m) ms) =
    map (refiled uid dest (insert i I)) ms"
  using assms by (auto simp: refiled_def)

lemma move_loop_spec:
  "wf_db s \<Longrightarrow> move_loop uid dest ids s = (r, s') \<Longrightarrow>
   \<exists>I. I \<subseteq> set ids \<and> db_messages s' = map (refiled uid dest I) (db_messages s) \<and>
     (db_faults s = [] \<longrightarrow> r = Inr () \<and> db_messages s' = map (refiled uid dest (set ids)) (db_messages s))"
proof (induction ids arbitrary: s)
  case Nil
  then show ?case by (intro exI [of _ "{}"]) simp
next
  case (Cons i ids)
  obtain q s1 where g: "mails_get_by_id i s = (q, s1)" by (cases "mails_get_by_id i s")
  have t1: "s1 = tick s" using g by (cases q) (auto simp: mails_get_by_id_def stmt_results)
  have wf1: "wf_db s1" using Cons.prems(1) t1 by simp
  have skip: ?case if l: "move_loop uid dest ids s1 = (r, s')"
    and n: "db_faults s = [] \<Longrightarrow> \<forall>m \<in> set (db_messages s). m_id m = i \<longrightarrow> m_user_id m \<noteq> uid"
  proof -
    from Cons.IH [OF wf1 l] obtain I where I: "I \<subseteq> set ids" "db_messages s' = map (refiled uid dest I) (db_messages s)"
      "db_faults s1 = [] \<longrightarrow> r = Inr () \<and> db_messages s' = map (refiled uid dest (set ids)) (db_messages s)"
      by (auto simp: t1)
    have "map (refiled uid dest (set ids)) (db_messages s) = map (refiled uid dest (set (i # ids))) (db_messages s)"
      if "db_faults s = []" using n [OF that] by (auto simp: refiled_def)
    with I show ?thesis by (intro exI [of _ I]) (auto simp: t1)
  qed
  show ?case
  proof (cases q)
    case (Inl e)
    have "move_loop uid dest ids s1 = (r, s')" using Cons.prems(2) g Inl by simp
    moreover have "db_faults s = [] \<Longrightarrow> \<forall>m \<in> set (db_messages s). m_id m = i \<longrightarrow> m_user_id m \<noteq> uid"
      using g Inl by (auto simp: mails_get_by_id_def table_simps find_None_iff_all split: option.splits)
    ultimately show ?thesis by (rule skip)
  next
    case (Inr m)
    from g Inr have m: "m \<in> set (db_messages s)" "m_id m = i"
      by (auto simp: mails_get_by_id_def stmt_results dest!: find_Some_iff)
    have u: "x = m" if "x \<in> set (db_messages s)" "m_id x = i" for x
      using wf_rows_unique [of m_id "db_next s TMessages" "db_messages s" x m] that m Cons.prems(1) by (simp add: wf_db_def)
    show ?thesis
    proof (cases "m_user_id m = uid")
      case False
      have "move_loop uid dest ids s1 = (r, s')" using Cons.prems(2) g Inr False by simp
      moreover have "\<forall>x \<in> set (db_messages s). m_id x = i \<longrightarrow> m_user_id x \<noteq> uid" using u False by blast
      ultimately show ?thesis by (intro skip)
    next
      case True
      obtain z s2 where mv: "mails_move_to_folder i dest s1 = (z, s2)" by (cases "mails_move_to_folder i dest s1")
      show ?thesis
      proof (cases z)
        case (Inl e)
        with mv have s2: "s2 = tick s1" "fault s1" by (auto simp: mails_move_to_folder_def stmt_results)
        with Cons.prems(2) g Inr True mv Inl show ?thesis by (intro exI [of _ "{}"]) (auto simp: t1)
      next
        case (Inr y)
        with mv have s2: "s2 = upd_messages (\<lambda>m. m_id m = i) (\<lambda>m. m\<lparr>m_folder := dest\<rparr>) (tick s1)"
          by (auto simp: mails_move_to_folder_def stmt_results)
        have "wf_db s2" using wf1 by (simp add: s2 wf_upd_messages)
        moreover have "move_loop uid dest ids s2 = (r, s')" using Cons.prems(2) g \<open>q = Inr m\<close> True mv Inr by simp
        ultimately obtain I where I: "I \<subseteq> set ids" "db_messages s' = map (refiled uid dest I) (db_messages s2)"
          "db_faults s2 = [] \<longrightarrow> r = Inr () \<and> db_messages s' = map (refiled uid dest (set ids)) (db_messages s2)"
          using Cons.IH by blast
        have "map (refiled uid dest J) (db_messages s2) = map (refiled uid dest (insert i J)) (db_messages s)" for J
        proof -
          have "m_user_id x = uid" if "x \<in> set (db_messages s)" "m_id x = i" for x using u [OF that] True by simp
          from refiled_step [OF this] show ?thesis unfolding s2 t1 by (simp only: upd_messages_simps tick_simps)
        qed
        then show ?thesis using I by (intro exI [of _ "insert i I"]) (auto simp: s2 t1)
      qed
    qed
  qed
qed

text \<open>Moving mail touches the caller's own messages and nothing but their folder. Whatever ids are given
  and whatever statement fails, messages of other users and messages not named stay as they are; when
  nothing fails the move happens exactly when the target folder exists, and then every named message of
  the caller is in it.\<close>

theorem move_touches_own_mail:
  assumes "wf_db s" and "svc_move uid ids dest s = (r, s')"
  shows "(\<exists>I. I \<subseteq> set ids \<and> db_messages s' = map (refiled uid dest I) (db_messages s)) \<and>
    (r = Inr () \<and> db_faults s = [] \<longrightarrow> db_messages s' = map (refiled uid dest (set ids)) (db_messages s)) \<and>
    (db_faults s = [] \<and> ids \<noteq> [] \<longrightarrow> r = (if fst (svc_canonical uid dest s) = None then Inl ErrMailboxNotFound else Inr ()))"
proof (cases "ids = []")
  case True
  with assms(2) have "r = Inr ()" "s' = s" by (auto simp: svc_move_def)
  with True show ?thesis by (auto intro: exI [of _ "{}"])
next
  case False
  obtain q s1 where c: "svc_canonical uid dest s = (q, s1)" by (cases "svc_canonical uid dest s")
  have wf1: "wf_db s1" using canonical_kept [OF c assms(1)] by (rule folders_kept_wf)
  have m1: "db_messages s1 = db_messages s" and f1: "db_faults s = [] \<Longrightarrow> db_faults s1 = []"
    using canonical_frame [OF c assms(1)] by simp_all
  show ?thesis
  proof (cases q)
    case None
    with assms(2) c False m1 show ?thesis by (auto simp: svc_move_def intro: exI [of _ "{}"])
  next
    case (Some n)
    with assms(2) c False have "move_loop uid dest ids s1 = (r, s')" by (simp add: svc_move_def)
    from move_loop_spec [OF wf1 this] obtain I where "I \<subseteq> set ids" "db_messages s' = map (refiled uid dest I) (db_messages s)"
      "db_faults s1 = [] \<longrightarrow> r = Inr () \<and> db_messages s' = map (refiled uid dest (set ids)) (db_messages s)"
      unfolding m1 by blast
    with c Some f1 show ?thesis by auto
  qed
qed

lemma move_touches_own_mail_witness:
  "db_messages (snd (svc_move 7 [1, 2] ''Trash'' (sample_mails [sample_message 1 7 ''INBOX'', sample_message 2 8 ''INBOX'']))) =
     [sample_message 1 7 ''Trash'', sample_message 2 8 ''INBOX'']"
proof -
  let ?s = "sample_mails [sample_message 1 7 ''INBOX'', sample_message 2 8 ''INBOX'']"
  have wf: "wf_db ?s" by (rule wf_sample_mails) (simp add: wf_rows_def)
  have "trim_space ''Trash'' = ''Trash''" by (simp add: trim_space_graph ascii_graph_def)
  moreover have "''Trash'' \<in> system_names" by (simp add: system_names_def system_mailboxes_def)
  moreover have f: "db_faults ?s = []" by simp
  ultimately have c: "fst (svc_canonical 7 ''Trash'' ?s) \<noteq> None" using canonical_value [OF wf] by simp
  obtain r s' where m: "svc_move 7 [1, 2] ''Trash'' ?s = (r, s')" by (metis prod.collapse)
  from move_touches_own_mail [OF wf m] c f have "db_messages s' = map (refiled 7 ''Trash'' {1, 2}) (db_messages ?s)" by simp
  then show ?thesis unfolding m by (simp add: refiled_def sample_mails_def sample_message_def)
qed

text \<open>
  \<open>Purge\<close> filters the messages it reports by owner and folder but deletes every id it is given.
\<close>

lemma purge_ignores_owner:
  assumes "db_faults s = []" and "ids \<noteq> []"
  shows "db_messages (snd (svc_purge uid name ids s)) = filter (\<lambda>m. m_id m \<notin> set ids) (db_messages s)"
proof -
  have c: "snd (purge_collect uid name js s) = s" for js
    using assms(1) by (induction js) (auto simp: mails_get_by_id_def table_simps Let_def split: prod.splits sum.splits option.splits)
  obtain ms s1 where p: "purge_collect uid name ids s = (ms, s1)" by (cases "purge_collect uid name ids s")
  with c [of ids] have "s1 = s" by simp
  with p assms show ?thesis
    by (simp add: svc_purge_def mails_delete_many_def table_simps del_messages_def Let_def)
qed

end
