(* ===== verification/Imap_Push.thy ===== *)
theory Imap_Push
  imports Imap_Service Conn_Hub
begin

text \<open>
  The push side of the IMAP server: the update queue of a session, the mailbox hubs that spread the
  updates (\<open>internal/imap_server/session.go\<close>, "cross-session push") and the \<open>Pusher\<close> of
  \<open>server.go\<close>, which the SMTP, POP3 and web servers call. Sessions are numbered; a hub is the list of
  its sessions under the key of its user and mailbox, and hubs are never removed.

  What follows shows that a queue hands its updates out once each and in order, that an idling session
  cannot miss a wake-up however appends and notices interleave, and what the pusher promises its
  callers, as the locale \<open>pusher\<close>.
\<close>

section \<open>State\<close>

datatype update =
    Up_Expunge u32
  | Up_Exists u32
  | Up_Fetch u32 u32 "imap_flag list"  \<comment> \<open>sequence number, UID, flags\<close>

record imap_session =
  im_port :: int
  im_remote :: string
  im_user_id :: nat
  im_email :: string
  im_log_id :: nat
  im_started :: gotime
  im_ip :: string
  im_conn :: "64 word option"
  im_selected :: string
  im_read_only :: bool
  im_hub :: "string option"
  im_queue :: "update list"
  im_notify :: bool
  im_bye :: bool

record imap_world =
  iw_db :: db
  iw_conns :: hub
  iw_sessions :: "nat \<Rightarrow> imap_session option"
  iw_hubs :: "string \<Rightarrow> nat list option"

definition upd_session :: "nat \<Rightarrow> (imap_session \<Rightarrow> imap_session) \<Rightarrow> imap_world \<Rightarrow> imap_world" where
  "upd_session i f w = w\<lparr>iw_sessions := (iw_sessions w)(i := map_option f (iw_sessions w i))\<rparr>"

section \<open>The queue of a session\<close>

definition append_update :: "update \<Rightarrow> imap_session \<Rightarrow> imap_session" where
  "append_update u s = s\<lparr>im_queue := im_queue s @ [u]\<rparr>"

definition notify :: "imap_session \<Rightarrow> imap_session" where
  \<comment> \<open>the send on a channel of capacity one, dropped when it is full\<close>
  "notify s = s\<lparr>im_notify := True\<rparr>"

definition push_update :: "update \<Rightarrow> imap_session \<Rightarrow> imap_session" where
  "push_update u s = notify (append_update u s)"

definition is_expunge :: "update \<Rightarrow> bool" where
  "is_expunge u = (case u of Up_Expunge _ \<Rightarrow> True | _ \<Rightarrow> False)"

definition take_updates :: "bool \<Rightarrow> imap_session \<Rightarrow> update list \<times> imap_session" where
  "take_updates allow_expunge s =
     (if allow_expunge then (im_queue s, s\<lparr>im_queue := []\<rparr>)
      else case index_from 0 is_expunge (im_queue s) of
          None \<Rightarrow> (im_queue s, s\<lparr>im_queue := []\<rparr>)
        | Some stop \<Rightarrow> (take stop (im_queue s), s\<lparr>im_queue := drop stop (im_queue s)\<rparr>))"

section \<open>Hubs\<close>

definition hub_key :: "string \<Rightarrow> string \<Rightarrow> string" where
  "hub_key email mailbox = email @ char_of (0 :: nat) # mailbox"

text \<open>An address and a folder without the separating byte have a key of their own.\<close>

lemma separator_inj:
  "c \<notin> set e \<Longrightarrow> c \<notin> set f \<Longrightarrow> e' @ c # f' = e @ c # f \<Longrightarrow> e' = e \<and> f' = f"
proof (induction e arbitrary: e')
  case Nil
  then show ?case by (cases e') (auto simp: Cons_eq_append_conv)
next
  case (Cons x e)
  show ?case
  proof (cases e')
    case Nil
    with Cons.prems show ?thesis by simp
  next
    case (Cons y e'')
    with Cons.prems Cons.IH [of e''] show ?thesis by simp
  qed
qed

lemma hub_key_inj:
  assumes "char_of (0 :: nat) \<notin> set email" and "char_of (0 :: nat) \<notin> set mailbox"
  shows "hub_key e f = hub_key email mailbox \<longleftrightarrow> e = email \<and> f = mailbox"
  using separator_inj [OF assms] by (auto simp: hub_key_def)

definition hub_for :: "string \<Rightarrow> string \<Rightarrow> imap_world \<Rightarrow> nat list option" where
  "hub_for email mailbox w = iw_hubs w (hub_key email mailbox)"

definition hub_for_or_create :: "string \<Rightarrow> string \<Rightarrow> imap_world \<Rightarrow> string \<times> imap_world" where
  "hub_for_or_create email mailbox w =
     (let k = hub_key email mailbox
      in case iw_hubs w k of
           Some _ \<Rightarrow> (k, w)
         | None \<Rightarrow> (k, w\<lparr>iw_hubs := (iw_hubs w)(k \<mapsto> [])\<rparr>))"

definition hub_add :: "string \<Rightarrow> nat \<Rightarrow> imap_world \<Rightarrow> imap_world" where
  "hub_add k i w = w\<lparr>iw_hubs := (iw_hubs w)(k := map_option (\<lambda>is. if i \<in> set is then is else is @ [i]) (iw_hubs w k))\<rparr>"

definition hub_remove :: "string \<Rightarrow> nat \<Rightarrow> imap_world \<Rightarrow> imap_world" where
  "hub_remove k i w = w\<lparr>iw_hubs := (iw_hubs w)(k := map_option (filter (\<lambda>j. j \<noteq> i)) (iw_hubs w k))\<rparr>"

definition hub_enqueue :: "string \<Rightarrow> update \<Rightarrow> nat option \<Rightarrow> imap_world \<Rightarrow> imap_world" where
  "hub_enqueue k u source w =
     (case iw_hubs w k of
        None \<Rightarrow> w
      | Some is \<Rightarrow> fold (\<lambda>j. upd_session j (push_update u)) (filter (\<lambda>j. Some j \<noteq> source) is) w)"

section \<open>The pusher\<close>

definition flags_of :: "bool \<Rightarrow> bool \<Rightarrow> bool \<Rightarrow> imap_flag list" where
  "flags_of read flagged deleted =
     (if read then [Flag_Seen] else []) @ (if flagged then [Flag_Flagged] else []) @ (if deleted then [Flag_Deleted] else [])"

definition seq_of :: "nat \<Rightarrow> string \<Rightarrow> nat \<Rightarrow> db \<Rightarrow> u32 \<times> db" where
  "seq_of uid mailbox mid s =
     (case mails_list_all uid mailbox s of
        (Inl _, s1) \<Rightarrow> (0, s1)
      | (Inr ms, s1) \<Rightarrow> (case index_from 1 (\<lambda>m. m_id m = mid) ms of None \<Rightarrow> 0 | Some n \<Rightarrow> of_nat n, s1))"

definition enqueue_exists :: "string \<Rightarrow> nat \<Rightarrow> string \<Rightarrow> imap_world \<Rightarrow> imap_world" where
  \<comment> \<open>the EXISTS notice that \<open>PushNewMessage\<close>, \<open>Copy\<close>, \<open>Move\<close> and \<open>Append\<close> give the sessions of a mailbox\<close>
  "enqueue_exists email uid mailbox w =
     (case hub_for email mailbox w of
        None \<Rightarrow> w
      | Some _ \<Rightarrow>
          (case mails_count uid mailbox (iw_db w) of
             (Inl _, d) \<Rightarrow> w\<lparr>iw_db := d\<rparr>
           | (Inr n, d) \<Rightarrow> hub_enqueue (hub_key email mailbox) (Up_Exists (of_int n)) None (w\<lparr>iw_db := d\<rparr>)))"

definition push_new_message :: "string \<Rightarrow> message \<Rightarrow> imap_world \<Rightarrow> imap_world" where
  "push_new_message email msg w =
     (if email = [] \<or> m_folder msg = [] then w else enqueue_exists email (m_user_id msg) (m_folder msg) w)"

definition push_flags_changed :: "string \<Rightarrow> string \<Rightarrow> message \<Rightarrow> imap_world \<Rightarrow> imap_world" where
  "push_flags_changed email mailbox msg w =
     (if email = [] \<or> mailbox = [] then w
      else case hub_for email mailbox w of
          None \<Rightarrow> w
        | Some _ \<Rightarrow>
            (let (n, d) = seq_of (m_user_id msg) mailbox (m_id msg) (iw_db w); w1 = w\<lparr>iw_db := d\<rparr>
             in if n = 0 then w1
                else hub_enqueue (hub_key email mailbox)
                       (Up_Fetch n (of_nat (m_id msg)) (flags_of (m_is_read msg) (m_is_flagged msg) (m_is_deleted msg)))
                       None w1))"

definition push_expunged :: "string \<Rightarrow> string \<Rightarrow> nat list \<Rightarrow> imap_world \<Rightarrow> imap_world" where
  "push_expunged email mailbox seqs w =
     (if email = [] \<or> mailbox = [] \<or> seqs = [] then w
      else case hub_for email mailbox w of
          None \<Rightarrow> w
        | Some _ \<Rightarrow> fold (\<lambda>n. hub_enqueue (hub_key email mailbox) (Up_Expunge (of_nat n)) None) seqs w)"

definition apply_push :: "push_event \<Rightarrow> imap_world \<Rightarrow> imap_world" where
  "apply_push e =
     (case e of
        Push_New email msg \<Rightarrow> push_new_message email msg
      | Push_Flags email mailbox msg \<Rightarrow> push_flags_changed email mailbox msg
      | Push_Expunged email mailbox seqs \<Rightarrow> push_expunged email mailbox seqs)"

definition disconnect_by_addr :: "string \<Rightarrow> imap_world \<Rightarrow> imap_world" where
  \<comment> \<open>BYE to every session of the address; the library then ends them\<close>
  "disconnect_by_addr addr w =
     (if addr = [] then w
      else w\<lparr>iw_sessions := (\<lambda>i. map_option (\<lambda>s. if im_remote s = addr then s\<lparr>im_bye := True\<rparr> else s) (iw_sessions w i))\<rparr>)"

section \<open>Idling\<close>

text \<open>
  \<open>Idle\<close> alternates between handing out the queue and waiting for the notice; any number of pushers
  append an update and, as a separate step, give the notice. The state is the session, the number of
  pushers between their two steps, whether the idle loop waits, and what was written. These are the
  steps of a loop that goes on: its two ends, the client's DONE and a failing write, are not among
  them (what a loop that has ended leaves in the queue is handed out by the session's next \<open>Poll\<close>).
\<close>

record idle_state =
  id_session :: imap_session
  id_pushing :: nat
  id_waiting :: bool
  id_written :: "update list"
  id_pushed :: "update list"

inductive idle_step :: "idle_state \<Rightarrow> idle_state \<Rightarrow> bool" where
  Push_append: "idle_step st (st\<lparr>id_session := append_update u (id_session st), id_pushing := Suc (id_pushing st),
      id_pushed := id_pushed st @ [u]\<rparr>)"
| Push_notify: "id_pushing st = Suc n \<Longrightarrow>
    idle_step st (st\<lparr>id_session := notify (id_session st), id_pushing := n\<rparr>)"
| Idle_write: "\<not> id_waiting st \<Longrightarrow> take_updates True (id_session st) = (us, s1) \<Longrightarrow>
    idle_step st (st\<lparr>id_session := s1, id_written := id_written st @ us, id_waiting := True\<rparr>)"
| Idle_wake: "id_waiting st \<Longrightarrow> im_notify (id_session st) \<Longrightarrow>
    idle_step st (st\<lparr>id_session := (id_session st)\<lparr>im_notify := False\<rparr>, id_waiting := False\<rparr>)"

definition idle_start :: "imap_session \<Rightarrow> idle_state" where
  "idle_start s = \<lparr>id_session = s, id_pushing = 0, id_waiting = False, id_written = [], id_pushed = im_queue s\<rparr>"

inductive_cases idle_step_cases: "idle_step st st'"

text \<open>The two laws of every reachable state: nothing is lost or written twice, and updates that wait in
  the queue of a waiting session have a notice or a pusher about to give one.\<close>

definition idle_ok :: "idle_state \<Rightarrow> bool" where
  "idle_ok st \<longleftrightarrow> id_written st @ im_queue (id_session st) = id_pushed st \<and>
     (id_waiting st \<and> im_queue (id_session st) \<noteq> [] \<longrightarrow> im_notify (id_session st) \<or> 0 < id_pushing st)"

lemma idle_step_ok:
  assumes "idle_step st st'" and "idle_ok st"
  shows "idle_ok st'"
  using assms by (cases rule: idle_step_cases)
    (auto simp: idle_ok_def append_update_def notify_def take_updates_def)

lemma idle_reachable_ok: "idle_step\<^sup>*\<^sup>* (idle_start s) st \<Longrightarrow> idle_ok st"
  by (induction rule: rtranclp_induct) (simp add: idle_ok_def idle_start_def, rule idle_step_ok)

text \<open>C8: an idling session misses nothing. However pushers and the idle loop interleave, what was
  written followed by what is queued is what was pushed, each update once and in order; and when no
  pusher is between its two steps, every queued update can be written next: either the loop is about to
  write, or a notice is there that wakes it.\<close>

theorem idle_no_lost_wakeup:
  assumes "idle_step\<^sup>*\<^sup>* (idle_start s) st"
  shows "id_written st @ im_queue (id_session st) = id_pushed st \<and>
    (id_pushing st = 0 \<longrightarrow> (\<exists>st'. idle_step\<^sup>*\<^sup>* st st' \<and> id_written st' = id_pushed st \<and> id_pushed st' = id_pushed st))"
proof
  have ok: "idle_ok st" using assms by (rule idle_reachable_ok)
  then show "id_written st @ im_queue (id_session st) = id_pushed st" by (simp add: idle_ok_def)
  have out: "\<exists>st'. idle_step t st' \<and> id_written st' = id_pushed t \<and> id_pushed st' = id_pushed t"
    if "\<not> id_waiting t" "id_written t @ im_queue (id_session t) = id_pushed t" for t
  proof -
    have "take_updates True (id_session t) = (im_queue (id_session t), (id_session t)\<lparr>im_queue := []\<rparr>)"
      by (simp add: take_updates_def)
    from Idle_write [OF that(1) this] that(2) show ?thesis
      by (intro exI [of _ "t\<lparr>id_session := (id_session t)\<lparr>im_queue := []\<rparr>, id_written := id_pushed t, id_waiting := True\<rparr>"]) simp
  qed
  show "id_pushing st = 0 \<longrightarrow> (\<exists>st'. idle_step\<^sup>*\<^sup>* st st' \<and> id_written st' = id_pushed st \<and> id_pushed st' = id_pushed st)"
  proof
    assume p: "id_pushing st = 0"
    show "\<exists>st'. idle_step\<^sup>*\<^sup>* st st' \<and> id_written st' = id_pushed st \<and> id_pushed st' = id_pushed st"
    proof (cases "id_waiting st")
      case False
      with out [of st] ok show ?thesis by (auto simp: idle_ok_def)
    next
      case wait: True
      show ?thesis
      proof (cases "im_queue (id_session st) = []")
        case True
        with ok show ?thesis by (intro exI [of _ st]) (auto simp: idle_ok_def)
      next
        case False
        with ok p wait have n: "im_notify (id_session st)" by (simp add: idle_ok_def)
        let ?t = "st\<lparr>id_session := (id_session st)\<lparr>im_notify := False\<rparr>, id_waiting := False\<rparr>"
        have "idle_step st ?t" using wait n by (rule Idle_wake)
        moreover have "id_written ?t @ im_queue (id_session ?t) = id_pushed ?t" using ok by (simp add: idle_ok_def)
        then obtain st' where "idle_step ?t st'" "id_written st' = id_pushed st" "id_pushed st' = id_pushed st"
          using out [of ?t] by auto
        ultimately show ?thesis by (meson converse_rtranclp_into_rtranclp r_into_rtranclp)
      qed
    qed
  qed
qed

definition sample_imap_session :: imap_session where
  "sample_imap_session = \<lparr>im_port = 143, im_remote = ''1.2.3.4:5'', im_user_id = 7, im_email = ''ann@x.org'', im_log_id = 0,
     im_started = 0, im_ip = ''1.2.3.4'', im_conn = None, im_selected = ''INBOX'', im_read_only = False,
     im_hub = Some (hub_key ''ann@x.org'' ''INBOX''), im_queue = [], im_notify = False, im_bye = False\<rparr>"

lemma idle_no_lost_wakeup_witness:
  "\<exists>st st'. idle_step\<^sup>*\<^sup>* (idle_start sample_imap_session) st \<and> id_waiting st \<and> id_written st = [] \<and>
     idle_step\<^sup>*\<^sup>* st st' \<and> id_written st' = [Up_Exists 1]"
proof -
  let ?s = "sample_imap_session"
  let ?a = "(idle_start ?s)\<lparr>id_waiting := True\<rparr>"
  let ?b = "?a\<lparr>id_session := append_update (Up_Exists 1) ?s, id_pushing := 1, id_pushed := [Up_Exists 1]\<rparr>"
  let ?c = "?b\<lparr>id_session := notify (append_update (Up_Exists 1) ?s), id_pushing := 0\<rparr>"
  have q: "im_queue ?s = []" by (simp add: sample_imap_session_def)
  have "idle_step (idle_start ?s) ?a"
    using Idle_write [of "idle_start ?s" "[]" ?s] by (simp add: idle_start_def take_updates_def q)
  moreover have "idle_step ?a ?b" using Push_append [of ?a "Up_Exists 1"] by (simp add: idle_start_def q)
  moreover have "idle_step ?b ?c" using Push_notify [of ?b 0] by simp
  ultimately have r: "idle_step\<^sup>*\<^sup>* (idle_start ?s) ?c" by (meson rtranclp.rtrancl_into_rtrancl rtranclp.rtrancl_refl)
  from idle_no_lost_wakeup [OF r] obtain st' where "idle_step\<^sup>*\<^sup>* ?c st'" "id_written st' = id_pushed ?c" by auto
  moreover have "id_waiting ?c" "id_written ?c = []" "id_pushed ?c = [Up_Exists 1]" by (simp_all add: idle_start_def)
  ultimately show ?thesis using r by (metis (no_types))
qed

section \<open>What the pusher promises\<close>

text \<open>
  A caller of the pusher relies on two things: the mail is not touched, and a session that already has
  updates waiting keeps them, in order, before what is added.
\<close>

locale pusher =
  fixes push :: "'e \<Rightarrow> 'w \<Rightarrow> 'w" and mail :: "'w \<Rightarrow> 'm" and queue :: "'w \<Rightarrow> nat \<Rightarrow> 'u list"
  assumes keeps_mail: "mail (push e w) = mail w"
    and appends: "\<exists>us. queue (push e w) i = queue w i @ us"
begin

lemma all_keep_mail: "mail (fold push es w) = mail w"
  by (induction es arbitrary: w) (simp_all add: keeps_mail)

lemma all_append: "\<exists>us. queue (fold push es w) i = queue w i @ us"
proof (induction es arbitrary: w)
  case Nil
  show ?case by simp
next
  case (Cons e es)
  obtain us where 1: "queue (push e w) i = queue w i @ us" using appends by blast
  obtain vs where "queue (fold push es (push e w)) i = queue (push e w) i @ vs" using Cons.IH by blast
  with 1 show ?case by simp
qed

end

definition pending :: "imap_world \<Rightarrow> nat \<Rightarrow> update list" where
  "pending w i = (case iw_sessions w i of None \<Rightarrow> [] | Some s \<Rightarrow> im_queue s)"

lemma upd_session_simps [simp]:
  "iw_db (upd_session i f w) = iw_db w" "iw_conns (upd_session i f w) = iw_conns w"
  "iw_hubs (upd_session i f w) = iw_hubs w"
  "iw_sessions (upd_session i f w) j = (if j = i then map_option f (iw_sessions w i) else iw_sessions w j)"
  by (simp_all add: upd_session_def)

lemma push_update_simps [simp]:
  "im_queue (push_update u s) = im_queue s @ [u]" "im_email (push_update u s) = im_email s"
  "im_selected (push_update u s) = im_selected s" "im_hub (push_update u s) = im_hub s"
  "im_user_id (push_update u s) = im_user_id s" "im_notify (push_update u s) = True"
  by (simp_all add: push_update_def notify_def append_update_def)

lemma pending_push: "pending (upd_session j (push_update u) w) i =
   pending w i @ (if i = j \<and> iw_sessions w j \<noteq> None then [u] else [])"
  by (auto simp: pending_def split: option.splits)

lemma fold_push_update:
  "iw_db (fold (\<lambda>j. upd_session j (push_update u)) js w) = iw_db w"
  "iw_hubs (fold (\<lambda>j. upd_session j (push_update u)) js w) = iw_hubs w"
  "iw_sessions (fold (\<lambda>j. upd_session j (push_update u)) js w) i = None \<longleftrightarrow> iw_sessions w i = None"
  by (induction js arbitrary: w) auto

lemma pending_fold_push:
  assumes "distinct js"
  shows "pending (fold (\<lambda>j. upd_session j (push_update u)) js w) i =
    pending w i @ (if i \<in> set js \<and> iw_sessions w i \<noteq> None then [u] else [])"
  using assms
proof (induction js arbitrary: w)
  case Nil
  show ?case by simp
next
  case (Cons j js)
  have "iw_sessions (upd_session j (push_update u) w) i = None \<longleftrightarrow> iw_sessions w i = None" by simp
  with Cons show ?case by (auto simp: pending_push)
qed

lemma fold_push_appends: "\<exists>us. pending (fold (\<lambda>j. upd_session j (push_update u)) js w) i = pending w i @ us"
proof (induction js arbitrary: w)
  case Nil
  show ?case by simp
next
  case (Cons j js)
  from Cons.IH [of "upd_session j (push_update u) w"] show ?case by (auto simp: pending_push)
qed

lemma hub_enqueue_frame [simp]:
  "iw_db (hub_enqueue k u src w) = iw_db w" "iw_hubs (hub_enqueue k u src w) = iw_hubs w"
  by (simp_all add: hub_enqueue_def fold_push_update split: option.splits)

lemma hub_enqueue_appends: "\<exists>us. pending (hub_enqueue k u src w) i = pending w i @ us"
  by (auto simp: hub_enqueue_def intro: fold_push_appends split: option.splits)

lemma pending_db [simp]: "pending (w\<lparr>iw_db := d\<rparr>) = pending w"
  by (rule ext) (simp add: pending_def)

lemma enqueue_exists_frame:
  "tables (iw_db (enqueue_exists email uid mailbox w)) = tables (iw_db w)"
  "\<exists>us. pending (enqueue_exists email uid mailbox w) i = pending w i @ us"
proof -
  have c: "tables d = tables (iw_db w)" if "mails_count uid mailbox (iw_db w) = (r, d)" for r d
    using that by (metis db_query_tables mails_count_def snd_conv)
  show "tables (iw_db (enqueue_exists email uid mailbox w)) = tables (iw_db w)"
    using c by (auto simp: enqueue_exists_def split: option.splits prod.splits sum.splits)
  show "\<exists>us. pending (enqueue_exists email uid mailbox w) i = pending w i @ us"
    using hub_enqueue_appends [of "hub_key email mailbox" _ None "w\<lparr>iw_db := _\<rparr>" i]
    by (auto simp: enqueue_exists_def split: option.splits prod.splits sum.splits)
qed

lemma seq_of_tables: "seq_of uid f i s = (n, s') \<Longrightarrow> tables s' = tables s"
  unfolding seq_of_def mails_list_all_def
  by (auto simp: db_query_def db_stmt_def split: if_splits)

lemma fold_expunge_frame:
  "iw_db (fold (\<lambda>n. hub_enqueue k (Up_Expunge (f n)) src) ns w) = iw_db w"
  "\<exists>us. pending (fold (\<lambda>n. hub_enqueue k (Up_Expunge (f n)) src) ns w) i = pending w i @ us"
proof -
  show "iw_db (fold (\<lambda>n. hub_enqueue k (Up_Expunge (f n)) src) ns w) = iw_db w"
    by (induction ns arbitrary: w) simp_all
  show "\<exists>us. pending (fold (\<lambda>n. hub_enqueue k (Up_Expunge (f n)) src) ns w) i = pending w i @ us"
  proof (induction ns arbitrary: w)
    case Nil
    show ?case by simp
  next
    case (Cons n ns)
    obtain us where "pending (hub_enqueue k (Up_Expunge (f n)) src w) i = pending w i @ us"
      using hub_enqueue_appends by blast
    with Cons.IH [of "hub_enqueue k (Up_Expunge (f n)) src w"] show ?case by auto
  qed
qed

lemma apply_push_laws:
  "tables (iw_db (apply_push e w)) = tables (iw_db w)" "\<exists>us. pending (apply_push e w) i = pending w i @ us"
proof -
  have "tables (iw_db (apply_push e w)) = tables (iw_db w) \<and> (\<exists>us. pending (apply_push e w) i = pending w i @ us)"
  proof (cases e)
    case (Push_New email msg)
    then show ?thesis using enqueue_exists_frame by (simp add: apply_push_def push_new_message_def)
  next
    case (Push_Flags email mailbox msg)
    obtain n d where s: "seq_of (m_user_id msg) mailbox (m_id msg) (iw_db w) = (n, d)"
      by (cases "seq_of (m_user_id msg) mailbox (m_id msg) (iw_db w)")
    with Push_Flags show ?thesis
      using seq_of_tables [OF s] hub_enqueue_appends [of "hub_key email mailbox" _ None "w\<lparr>iw_db := d\<rparr>" i]
      by (auto simp: apply_push_def push_flags_changed_def Let_def split: option.splits)
  next
    case (Push_Expunged email mailbox seqs)
    then show ?thesis using fold_expunge_frame [of "hub_key email mailbox" _ None seqs w]
      by (auto simp: apply_push_def push_expunged_def split: option.splits)
  qed
  then show "tables (iw_db (apply_push e w)) = tables (iw_db w)" "\<exists>us. pending (apply_push e w) i = pending w i @ us"
    by blast+
qed

interpretation imap: pusher apply_push "\<lambda>w. tables (iw_db w)" pending
  by unfold_locales (use apply_push_laws in blast)+

end
