(* ===== verification/Imap_Session.thy ===== *)
theory Imap_Session
  imports Imap_Push Mail_Util
begin

text \<open>
  The IMAP session (\<open>internal/imap_server/session.go\<close>): one definition per command of the interface
  that the library \<open>go-imap\<close> drives, over the world of \<open>Imap_Push\<close>. The library reads the wire,
  resolves nothing of a number set ("*" is the bound 0) and calls one command at a time per session. A
  connection that breaks while responses are written is the budget \<open>k\<close> of writes that succeed
  (\<open>None\<close>: all of them). The MIME extraction of a message and the randomness of a fresh UIDVALIDITY are
  parameters.
\<close>

section \<open>Types\<close>

record address =
  ad_name :: string
  ad_mailbox :: string
  ad_host :: string

record envelope =
  en_date :: gotime
  en_subject :: string
  en_from :: "address list"
  en_sender :: "address list"
  en_reply_to :: "address list"
  en_to :: "address list"
  en_cc :: "address list"
  en_message_id :: string

datatype body_structure =
    Parsed_Structure string
  | Text_Plain_Structure u32 int  \<comment> \<open>size and number of lines, all else fixed\<close>

datatype fetch_item =
    Item_Uid u32
  | Item_Flags "imap_flag list"
  | Item_Size int
  | Item_Internal_Date gotime
  | Item_Envelope envelope
  | Item_Body_Structure body_structure
  | Item_Body_Section string string

datatype response =
    Resp_List "mailbox_attr list" string
  | Resp_Fetch u32 "fetch_item list"
  | Resp_Expunge u32
  | Resp_Exists u32
  | Resp_Copy u32 "u32 list" "u32 list"  \<comment> \<open>UIDVALIDITY, source and destination UIDs\<close>

datatype imap_error =
    Auth_Refused
  | No_Such_Mailbox
  | Mailbox_Read_Only
  | Response_No err     \<comment> \<open>\<open>imapNoResponse\<close>\<close>
  | Store_Error err
  | Write_Failed
  | Body_Unreadable
  | Body_Unparsable

text \<open>What the MIME library extracts from the raw text of a message.\<close>

record extractors =
  ex_envelope :: "string \<Rightarrow> envelope option"          \<comment> \<open>\<open>None\<close>: the header does not parse\<close>
  ex_structure :: "string \<Rightarrow> body_structure option"
  ex_section :: "string \<Rightarrow> string \<Rightarrow> string"
  ex_addresses :: "string \<Rightarrow> (string \<times> string) list option"

record imap_server =
  is_cfg :: imap_config
  is_ban :: ban_config
  is_check_pw :: "string \<Rightarrow> string \<Rightarrow> bool"
  is_fmt_date :: "gotime \<Rightarrow> string"
  is_mime :: mime_env
  is_extract :: extractors

text \<open>Reads of the session's fields.\<close>

definition of_session :: "(imap_session \<Rightarrow> 'a) \<Rightarrow> 'a \<Rightarrow> nat \<Rightarrow> imap_world \<Rightarrow> 'a" where
  "of_session f d i w = (case iw_sessions w i of None \<Rightarrow> d | Some s \<Rightarrow> f s)"

definition current_user_id :: "nat \<Rightarrow> imap_world \<Rightarrow> nat" where
  "current_user_id = of_session im_user_id 0"

definition current_email :: "nat \<Rightarrow> imap_world \<Rightarrow> string" where
  "current_email = of_session im_email []"

definition current_mailbox :: "nat \<Rightarrow> imap_world \<Rightarrow> string" where
  "current_mailbox = of_session im_selected []"

definition is_read_only :: "nat \<Rightarrow> imap_world \<Rightarrow> bool" where
  "is_read_only = of_session im_read_only False"

definition hub_for_selected :: "nat \<Rightarrow> imap_world \<Rightarrow> string option" where
  "hub_for_selected = of_session im_hub None"

definition on_db :: "(db \<Rightarrow> 'a \<times> db) \<Rightarrow> imap_world \<Rightarrow> 'a \<times> imap_world" where
  "on_db f w = (let (r, d) = f (iw_db w) in (r, w\<lparr>iw_db := d\<rparr>))"

definition write_all :: "nat option \<Rightarrow> 'r list \<Rightarrow> 'r list \<times> bool" where
  \<comment> \<open>what is written before the connection breaks, and whether that is everything\<close>
  "write_all k rs = (case k of None \<Rightarrow> (rs, True) | Some n \<Rightarrow> (take n rs, length rs \<le> n))"

section \<open>Begin and end of a session\<close>

definition new_imap_session :: "int \<Rightarrow> string \<Rightarrow> gotime \<Rightarrow> imap_session" where
  "new_imap_session port remote now =
     \<lparr>im_port = port, im_remote = remote, im_user_id = 0, im_email = [], im_log_id = 0, im_started = now, im_ip = [],
      im_conn = None, im_selected = [], im_read_only = False, im_hub = None, im_queue = [], im_notify = False, im_bye = False\<rparr>"

definition open_session :: "int \<Rightarrow> string \<Rightarrow> gotime \<Rightarrow> nat \<Rightarrow> imap_world \<Rightarrow> imap_world" where
  \<comment> \<open>the session factory of the listener\<close>
  "open_session port remote now i w =
     w\<lparr>iw_sessions := (iw_sessions w)(i \<mapsto> new_imap_session port remote now)\<rparr>"

definition leave_hub :: "nat \<Rightarrow> imap_world \<Rightarrow> imap_world" where
  \<comment> \<open>take the session out of its hub, if it is in one\<close>
  "leave_hub i w =
     (case hub_for_selected i w of
        None \<Rightarrow> w
      | Some k \<Rightarrow> hub_remove k i (upd_session i (\<lambda>s. s\<lparr>im_hub := None\<rparr>) w))"

definition imap_close :: "gotime \<Rightarrow> nat \<Rightarrow> imap_world \<Rightarrow> imap_world" where
  "imap_close now i w0 =
     (let w = leave_hub i w0;
          w1 = (case of_session im_conn None i w of None \<Rightarrow> w | Some c \<Rightarrow> w\<lparr>iw_conns := conn_close c (iw_conns w)\<rparr>);
          lid = of_session im_log_id 0 i w;
          w2 = (if lid \<noteq> 0
                then w1\<lparr>iw_db := snd (logs_update_duration lid ((now - of_session im_started 0 i w) div 1000000) (iw_db w1))\<rparr>
                else w1)
      in w2\<lparr>iw_sessions := (iw_sessions w2)(i := None)\<rparr>)"

definition record_login :: "gotime \<Rightarrow> int \<Rightarrow> string \<Rightarrow> string \<Rightarrow> bool \<Rightarrow> string \<Rightarrow> string \<Rightarrow> db \<Rightarrow> nat \<times> db" where
  "record_login now port ip username success fail_reason detail s =
     (case logs_create now \<lparr>p_id = 0, p_protocol = ''imap'', p_port = port, p_client_ip = ip, p_username = username,
             p_success = success, p_fail_reason = fail_reason, p_detail = detail, p_msg_count = 0, p_duration_ms = 0,
             p_created_at = now\<rparr> s of
        (Inl _, s1) \<Rightarrow> (0, s1)
      | (Inr lid, s1) \<Rightarrow> (lid, s1))"

definition login_email :: "user \<Rightarrow> db \<Rightarrow> string \<times> db" where
  "login_email u s =
     (case domains_get_by_id (u_domain_id u) s of
        (Inl _, s1) \<Rightarrow> (u_username u @ ''@'', s1)
      | (Inr d, s1) \<Rightarrow> (u_username u @ ''@'' @ d_name d, s1))"

definition imap_login ::
  "imap_server \<Rightarrow> gotime \<Rightarrow> bool \<Rightarrow> string \<Rightarrow> string \<Rightarrow> nat \<Rightarrow> imap_world \<Rightarrow> imap_error option \<times> imap_world" where
  "imap_login srv now tls username password i w =
     (let remote = of_session im_remote [] i w;
          port = of_session im_port 0 i w;
          ip = client_ip_from_addr (Some remote)
      in case bans_is_banned now ip (iw_db w) of
           (Some _, d1) \<Rightarrow>
             (Some Auth_Refused, w\<lparr>iw_db := snd (record_login now port ip username False ((''IP'' @ utf8 [229, 183, 178, 232, 162, 171, 229, 176, 129, 231, 166, 129])) ((utf8 [232, 174, 164, 232, 175, 129, 232, 162, 171, 230, 139, 146, 231, 187, 157, 239, 188, 136] @ ''IP '' @ utf8 [229, 183, 178, 229, 176, 129, 231, 166, 129, 239, 188, 137])) d1)\<rparr>)
         | (None, d1) \<Rightarrow>
             (case guarded_login (is_check_pw srv) (is_ban srv) now ip username password d1 of
                (None, d2) \<Rightarrow>
                  (Some Auth_Refused, w\<lparr>iw_db := snd (record_login now port ip username False ((utf8 [231, 148, 168, 230, 136, 183, 229, 144, 141, 230, 136, 150, 229, 175, 134, 231, 160, 129, 233, 148, 153, 232, 175, 175])) ((''LOGIN '' @ utf8 [229, 164, 177, 232, 180, 165])) d2)\<rparr>)
              | (Some u, d2) \<Rightarrow>
                  (let (email, d3) = login_email u d2;
                       (lid, d4) = record_login now port ip username True [] ((''LOGIN '' @ utf8 [230, 136, 144, 229, 138, 159])) d3;
                       (c, h1) = hub_register now ''imap'' ip port tls (iw_conns w);
                       h2 = conn_set_user now email c h1;
                       h3 = (if remote \<noteq> [] then conn_set_disconnect i c h2 else h2)
                   in (None, upd_session i (\<lambda>s. s\<lparr>im_user_id := u_id u, im_email := email, im_log_id := lid, im_ip := ip,
                               im_conn := Some c\<rparr>) (w\<lparr>iw_db := d4, iw_conns := h3\<rparr>)))))"

section \<open>Folders\<close>

datatype pat_token = Pat_Any | Pat_Level | Pat_Lit char

definition pattern_tokens :: "string \<Rightarrow> pat_token list" where
  \<comment> \<open>the regular expression that \<open>matchPattern\<close> builds: \<open>.*\<close>, \<open>[^/]*\<close> and quoted characters\<close>
  "pattern_tokens p = map (\<lambda>c. if c = CHR ''*'' then Pat_Any else if c = CHR ''%'' then Pat_Level else Pat_Lit c) p"

fun tokens_match :: "pat_token list \<Rightarrow> string \<Rightarrow> bool" where
  "tokens_match [] s = (s = [])"
| "tokens_match (Pat_Lit c # ts) s = (case s of [] \<Rightarrow> False | x # xs \<Rightarrow> x = c \<and> tokens_match ts xs)"
| "tokens_match (Pat_Any # ts) [] = tokens_match ts []"
| "tokens_match (Pat_Any # ts) (x # xs) =
     (tokens_match ts (x # xs) \<or> x \<noteq> CHR 0x0A \<and> tokens_match (Pat_Any # ts) xs)"
| "tokens_match (Pat_Level # ts) [] = tokens_match ts []"
| "tokens_match (Pat_Level # ts) (x # xs) =
     (tokens_match ts (x # xs) \<or> x \<noteq> CHR ''/'' \<and> tokens_match (Pat_Level # ts) xs)"

definition match_pattern :: "string \<Rightarrow> string \<Rightarrow> bool" where
  "match_pattern name p =
     tokens_match (pattern_tokens p) (if equal_fold name ''INBOX'' then to_upper name else name)"

definition match_any_pattern :: "string \<Rightarrow> string list \<Rightarrow> bool" where
  "match_any_pattern name ps = list_ex (match_pattern name) ps"

definition imap_list ::
  "nat option \<Rightarrow> string \<Rightarrow> string list \<Rightarrow> bool \<Rightarrow> nat \<Rightarrow> imap_world \<Rightarrow> imap_error option \<times> response list \<times> imap_world" where
  \<comment> \<open>the reference name is not used\<close>
  "imap_list k ref patterns subscribed_only i w =
     (let (r, w1) = on_db (svc_list_all (current_user_id i w)) w
      in case r of
           Inl e \<Rightarrow> (Some (Store_Error e), [], w1)
         | Inr mbs \<Rightarrow>
             (let (out, whole) = write_all k (map (\<lambda>mb. Resp_List (mailbox_attrs mb) (mb_name mb))
                     (filter (\<lambda>mb. (\<not> subscribed_only \<or> mb_is_subscribed mb) \<and> match_any_pattern (mb_name mb) patterns) mbs))
              in (if whole then None else Some Write_Failed, out, w1)))"

definition imap_no_response :: "unit result \<Rightarrow> imap_error option" where
  "imap_no_response r = (case r of Inl e \<Rightarrow> Some (Response_No e) | Inr _ \<Rightarrow> None)"

definition no_response :: "unit result \<times> imap_world \<Rightarrow> imap_error option \<times> imap_world" where
  "no_response rw = (imap_no_response (fst rw), snd rw)"

definition imap_create :: "string \<Rightarrow> nat \<Rightarrow> imap_world \<Rightarrow> imap_error option \<times> imap_world" where
  "imap_create mailbox i w = no_response (on_db (svc_create (current_user_id i w) mailbox) w)"

definition imap_delete :: "string \<Rightarrow> nat \<Rightarrow> imap_world \<Rightarrow> imap_error option \<times> imap_world" where
  "imap_delete mailbox i w = no_response (on_db (svc_delete (current_user_id i w) mailbox) w)"

definition imap_rename :: "string \<Rightarrow> string \<Rightarrow> nat \<Rightarrow> imap_world \<Rightarrow> imap_error option \<times> imap_world" where
  "imap_rename mailbox new_name i w = no_response (on_db (svc_rename (current_user_id i w) mailbox new_name) w)"

definition imap_subscribe :: "string \<Rightarrow> nat \<Rightarrow> imap_world \<Rightarrow> imap_error option \<times> imap_world" where
  "imap_subscribe mailbox i w = no_response (on_db (svc_set_subscribed (current_user_id i w) mailbox True) w)"

definition imap_unsubscribe :: "string \<Rightarrow> nat \<Rightarrow> imap_world \<Rightarrow> imap_error option \<times> imap_world" where
  "imap_unsubscribe mailbox i w = no_response (on_db (svc_set_subscribed (current_user_id i w) mailbox False) w)"

section \<open>Selecting\<close>

definition canonical_mailbox_name :: "string \<Rightarrow> nat \<Rightarrow> imap_world \<Rightarrow> string option \<times> imap_world" where
  "canonical_mailbox_name name i w = on_db (svc_canonical (current_user_id i w) name) w"

definition imap_select ::
  "u32 option \<Rightarrow> string \<Rightarrow> bool \<Rightarrow> nat \<Rightarrow> imap_world \<Rightarrow> (imap_error + select_data) \<times> imap_world" where
  "imap_select rnd mailbox read_only i w =
     (case canonical_mailbox_name mailbox i w of
        (None, w1) \<Rightarrow> (Inl No_Such_Mailbox, w1)
      | (Some name, w1) \<Rightarrow>
          (case on_db (svc_select rnd (current_user_id i w1) name) w1 of
             (Inl e, w2) \<Rightarrow> (Inl (Store_Error e), w2)
           | (Inr data, w2) \<Rightarrow>
               (let w3 = leave_hub i w2;
                    (key, w4) = hub_for_or_create (current_email i w3) name w3;
                    w5 = hub_add key i w4
                in (Inr data, upd_session i (\<lambda>s. s\<lparr>im_selected := name, im_read_only := read_only, im_hub := Some key\<rparr>) w5))))"

definition imap_unselect :: "nat \<Rightarrow> imap_world \<Rightarrow> imap_world" where
  "imap_unselect i w =
     upd_session i (\<lambda>s. s\<lparr>im_hub := None, im_selected := [], im_read_only := False, im_queue := []\<rparr>) (leave_hub i w)"

definition imap_status ::
  "imap_server \<Rightarrow> u32 option \<Rightarrow> string \<Rightarrow> status_options \<Rightarrow> nat \<Rightarrow> imap_world \<Rightarrow> (imap_error + status_data) \<times> imap_world" where
  "imap_status srv rnd mailbox o' i w =
     (case canonical_mailbox_name mailbox i w of
        (None, w1) \<Rightarrow> (Inl No_Such_Mailbox, w1)
      | (Some name, w1) \<Rightarrow>
          (case on_db (svc_status (is_fmt_date srv) rnd (current_user_id i w1) name o') w1 of
             (Inl e, w2) \<Rightarrow> (Inl (Store_Error e), w2)
           | (Inr d, w2) \<Rightarrow> (Inr d, w2)))"

section \<open>Number sets\<close>

datatype num_set = Seq_Set "(u32 \<times> u32) list" | Uid_Set "(u32 \<times> u32) list"

definition in_range :: "u32 \<Rightarrow> u32 \<Rightarrow> u32 \<times> u32 \<Rightarrow> bool" where
  "in_range upper n r =
     (let stop = (if snd r = 0 then upper else snd r) in fst r \<le> n \<and> n \<le> stop)"

fun num_set_contains :: "num_set \<Rightarrow> u32 \<Rightarrow> u32 \<Rightarrow> u32 \<Rightarrow> u32 \<Rightarrow> bool" where
  "num_set_contains (Seq_Set rs) seq uid max_seq max_uid = list_ex (in_range max_seq seq) rs"
| "num_set_contains (Uid_Set rs) seq uid max_seq max_uid = list_ex (in_range max_uid uid) rs"

definition uid_of :: "message \<Rightarrow> u32" where
  "uid_of m = of_nat (m_id m)"

definition max_uid :: "message list \<Rightarrow> u32" where
  "max_uid ms = foldl (\<lambda>a m. if uid_of m > a then uid_of m else a) 0 ms"

definition numbered :: "message list \<Rightarrow> (u32 \<times> message) list" where
  \<comment> \<open>the messages of a folder with their sequence numbers\<close>
  "numbered ms = zip (map of_nat [1..<Suc (length ms)]) ms"

definition picked :: "num_set \<Rightarrow> message list \<Rightarrow> (u32 \<times> message) list" where
  "picked ns ms =
     filter (\<lambda>(seq, m). num_set_contains ns seq (uid_of m) (of_nat (length ms)) (max_uid ms)) (numbered ms)"

definition selected_messages :: "nat \<Rightarrow> imap_world \<Rightarrow> message list result \<times> imap_world" where
  "selected_messages i w = on_db (mails_list_all (current_user_id i w) (current_mailbox i w)) w"

section \<open>Fetching\<close>

definition message_raw_data :: "imap_server \<Rightarrow> message \<Rightarrow> string" where
  "message_raw_data srv m = (if m_raw_data m \<noteq> [] then m_raw_data m else build_raw_message (is_fmt_date srv) m)"

definition fallback_body_structure :: "string \<Rightarrow> body_structure" where
  "fallback_body_structure raw =
     Text_Plain_Structure (of_nat (length raw))
       (int (length (filter (\<lambda>c. c = CHR 0x0A) raw)) + (if raw \<noteq> [] \<and> last raw \<noteq> CHR 0x0A then 1 else 0))"

definition parse_address_list :: "(string \<Rightarrow> (string \<times> string) list option) \<Rightarrow> string \<Rightarrow> address list" where
  "parse_address_list parse s =
     (if s = [] then []
      else case parse s of
          None \<Rightarrow> [\<lparr>ad_name = [], ad_mailbox = s, ad_host = []\<rparr>]
        | Some as \<Rightarrow>
            map (\<lambda>(name, a). case split_n2 CHR ''@'' a of
                   mb # rest \<Rightarrow> \<lparr>ad_name = name, ad_mailbox = mb, ad_host = (case rest of [] \<Rightarrow> [] | h # _ \<Rightarrow> h)\<rparr>
                 | [] \<Rightarrow> \<lparr>ad_name = name, ad_mailbox = [], ad_host = []\<rparr>) as)"

definition envelope_from_db :: "imap_server \<Rightarrow> message \<Rightarrow> envelope" where
  "envelope_from_db srv m =
     (let addrs = parse_address_list (ex_addresses (is_extract srv))
      in \<lparr>en_date = m_date m, en_subject = m_subject m, en_from = addrs (m_from_addr m), en_sender = addrs (m_from_addr m),
          en_reply_to = addrs (m_from_addr m), en_to = addrs (m_to_addr m), en_cc = addrs (m_cc_addr m),
          en_message_id = m_message_id m\<rparr>)"

record fetch_options =
  fo_uid :: bool
  fo_flags :: bool
  fo_size :: bool
  fo_internal_date :: bool
  fo_envelope :: bool
  fo_body_structure :: bool
  fo_sections :: "string list"

definition fetch_message :: "imap_server \<Rightarrow> fetch_options \<Rightarrow> u32 \<times> message \<Rightarrow> response" where
  "fetch_message srv o' sm =
     (let (seq, m) = sm; raw = message_raw_data srv m; ex = is_extract srv
      in Resp_Fetch seq
           ((if fo_uid o' then [Item_Uid (uid_of m)] else []) @
            (if fo_flags o' then [Item_Flags (flags_of (m_is_read m) (m_is_flagged m) (m_is_deleted m))] else []) @
            (if fo_size o' then [Item_Size (int (length raw))] else []) @
            (if fo_internal_date o' then [Item_Internal_Date (if m_created_at m = 0 then m_date m else m_created_at m)] else []) @
            (if fo_envelope o'
             then [Item_Envelope (case ex_envelope ex raw of None \<Rightarrow> envelope_from_db srv m | Some e \<Rightarrow> e)] else []) @
            (if fo_body_structure o'
             then [Item_Body_Structure (case ex_structure ex raw of None \<Rightarrow> fallback_body_structure raw | Some b \<Rightarrow> b)] else []) @
            map (\<lambda>sec. Item_Body_Section sec (ex_section ex raw sec)) (fo_sections o')))"

definition imap_fetch ::
  "imap_server \<Rightarrow> nat option \<Rightarrow> num_set \<Rightarrow> fetch_options \<Rightarrow> nat \<Rightarrow> imap_world \<Rightarrow> imap_error option \<times> response list \<times> imap_world" where
  "imap_fetch srv k ns o' i w =
     (case selected_messages i w of
        (Inl e, w1) \<Rightarrow> (Some (Store_Error e), [], w1)
      | (Inr ms, w1) \<Rightarrow>
          (let (out, whole) = write_all k (map (fetch_message srv o') (picked ns ms))
           in (if whole then None else Some Write_Failed, out, w1)))"

section \<open>Searching\<close>

datatype criteria =
  Criteria (cr_flag: "imap_flag list") (cr_not_flag: "imap_flag list") (cr_since: gotime) (cr_before: gotime)
    (cr_header: "(string \<times> string) list") (cr_larger: int) (cr_smaller: int) (cr_body: "string list")
    (cr_text: "string list") (cr_not: "criteria list") (cr_or: "(criteria \<times> criteria) list")

definition flag_holds :: "message \<Rightarrow> imap_flag \<Rightarrow> bool" where
  \<comment> \<open>a flag the criteria ask for; the server keeps neither \<open>\Answered\<close> nor \<open>\Draft\<close>, other flags are passed over\<close>
  "flag_holds m f =
     (case f of Flag_Seen \<Rightarrow> m_is_read m | Flag_Flagged \<Rightarrow> m_is_flagged m | Flag_Deleted \<Rightarrow> m_is_deleted m
        | Flag_Answered \<Rightarrow> False | Flag_Draft \<Rightarrow> False | _ \<Rightarrow> True)"

definition not_flag_holds :: "message \<Rightarrow> imap_flag \<Rightarrow> bool" where
  "not_flag_holds m f =
     (case f of Flag_Seen \<Rightarrow> \<not> m_is_read m | Flag_Flagged \<Rightarrow> \<not> m_is_flagged m | Flag_Deleted \<Rightarrow> \<not> m_is_deleted m
        | _ \<Rightarrow> True)"

definition contains_fold :: "string \<Rightarrow> string \<Rightarrow> bool" where
  "contains_fold s v = contains (to_lower s) (to_lower v)"

definition header_holds :: "message \<Rightarrow> string \<times> string \<Rightarrow> bool" where
  "header_holds m kv =
     (let k = to_lower (fst kv)
      in if k = ''subject'' then contains_fold (m_subject m) (snd kv)
         else if k = ''from'' then contains_fold (m_from_addr m) (snd kv)
         else if k = ''to'' then contains_fold (m_to_addr m) (snd kv)
         else if k = ''cc'' then contains_fold (m_cc_addr m) (snd kv)
         else True)"

definition body_text :: "message \<Rightarrow> string" where
  "body_text m = m_text_body m @ '' '' @ m_html_body m"

definition all_text :: "message \<Rightarrow> string" where
  "all_text m = m_subject m @ '' '' @ m_from_addr m @ '' '' @ m_to_addr m @ '' '' @ m_text_body m @ '' '' @ m_html_body m"

fun matches_criteria :: "imap_server \<Rightarrow> message \<Rightarrow> criteria \<Rightarrow> bool" where
  "matches_criteria srv m (Criteria fs nfs since before hs larger smaller body txt nots ors) =
     (list_all (flag_holds m) fs \<and> list_all (not_flag_holds m) nfs \<and>
      (since = 0 \<or> \<not> m_date m < since) \<and> (before = 0 \<or> m_date m < before) \<and>
      list_all (header_holds m) hs \<and>
      (let raw_size = int (length (message_raw_data srv m))
       in \<not> (larger > 0 \<and> raw_size \<le> larger) \<and> \<not> (smaller > 0 \<and> raw_size \<ge> smaller)) \<and>
      list_all (contains_fold (body_text m)) body \<and> list_all (contains_fold (all_text m)) txt \<and>
      (\<forall>c \<in> set nots. \<not> matches_criteria srv m c) \<and>
      (\<forall>(c, d) \<in> set ors. matches_criteria srv m c \<or> matches_criteria srv m d))"

definition imap_search ::
  "imap_server \<Rightarrow> bool \<Rightarrow> criteria \<Rightarrow> nat \<Rightarrow> imap_world \<Rightarrow> (imap_error + u32 list) \<times> imap_world" where
  \<comment> \<open>the numbers added to the result set: UIDs or sequence numbers\<close>
  "imap_search srv by_uid cr i w =
     (case selected_messages i w of
        (Inl e, w1) \<Rightarrow> (Inl (Store_Error e), w1)
      | (Inr ms, w1) \<Rightarrow>
          (let hits = filter (\<lambda>(seq, m). matches_criteria srv m cr) (numbered ms)
           in (Inr (map (\<lambda>(seq, m). if by_uid then uid_of m else seq) hits), w1)))"

section \<open>Storing flags\<close>

datatype store_op = Flags_Set | Flags_Add | Flags_Del

definition new_flag :: "store_op \<Rightarrow> imap_flag list \<Rightarrow> imap_flag \<Rightarrow> bool option" where
  "new_flag op flags f =
     (case op of
        Flags_Set \<Rightarrow> Some (f \<in> set flags)
      | Flags_Add \<Rightarrow> if f \<in> set flags then Some True else None
      | Flags_Del \<Rightarrow> if f \<in> set flags then Some False else None)"

definition changed_ids :: "(message \<Rightarrow> bool) \<Rightarrow> bool option \<Rightarrow> bool \<Rightarrow> message list \<Rightarrow> nat list" where
  \<comment> \<open>the messages whose flag is to become \<open>b\<close> and is not \<open>b\<close> yet\<close>
  "changed_ids get new b ms = (if new = Some b then map m_id (filter (\<lambda>m. get m \<noteq> b) ms) else [])"

definition first_error :: "unit result list \<Rightarrow> err option" where
  "first_error rs = (case List.map_filter (\<lambda>r. case r of Inl e \<Rightarrow> Some e | Inr _ \<Rightarrow> None) rs of [] \<Rightarrow> None | e # _ \<Rightarrow> Some e)"

definition store_flags :: "store_op \<Rightarrow> imap_flag list \<Rightarrow> message list \<Rightarrow> db \<Rightarrow> err option \<times> db" where
  "store_flags op flags ms s =
     (let rd = new_flag op flags Flag_Seen; fl = new_flag op flags Flag_Flagged; dl = new_flag op flags Flag_Deleted;
          (r1, s1) = mails_set_read_states (changed_ids m_is_read rd True ms) True s;
          (r2, s2) = mails_set_read_states (changed_ids m_is_read rd False ms) False s1;
          (r3, s3) = mails_set_flagged_states (changed_ids m_is_flagged fl True ms) True s2;
          (r4, s4) = mails_set_flagged_states (changed_ids m_is_flagged fl False ms) False s3;
          (r5, s5) = mails_set_deleted_states (changed_ids m_is_deleted dl True ms) True s4;
          (r6, s6) = mails_set_deleted_states (changed_ids m_is_deleted dl False ms) False s5
      in (first_error [r1, r2, r3, r4, r5, r6], s6))"

definition flags_after :: "store_op \<Rightarrow> imap_flag list \<Rightarrow> message \<Rightarrow> imap_flag list" where
  "flags_after op flags m =
     (let val = (\<lambda>old new. case new of None \<Rightarrow> old | Some b \<Rightarrow> b)
      in flags_of (val (m_is_read m) (new_flag op flags Flag_Seen)) (val (m_is_flagged m) (new_flag op flags Flag_Flagged))
           (val (m_is_deleted m) (new_flag op flags Flag_Deleted)))"

definition announce_flags :: "string option \<Rightarrow> nat \<Rightarrow> store_op \<Rightarrow> imap_flag list \<Rightarrow> (u32 \<times> message) list \<Rightarrow> imap_world \<Rightarrow> imap_world" where
  "announce_flags hub i op flags changes w =
     (case hub of
        None \<Rightarrow> w
      | Some key \<Rightarrow>
          fold (\<lambda>(seq, m). hub_enqueue key (Up_Fetch seq (uid_of m) (flags_after op flags m)) (Some i)) changes w)"

definition imap_store ::
  "nat option \<Rightarrow> num_set \<Rightarrow> store_op \<Rightarrow> bool \<Rightarrow> imap_flag list \<Rightarrow> nat \<Rightarrow> imap_world \<Rightarrow>
   imap_error option \<times> response list \<times> imap_world" where
  \<comment> \<open>a failed statement or write is remembered, but every change is still announced\<close>
  "imap_store k ns op silent flags i w =
     (if is_read_only i w then (Some Mailbox_Read_Only, [], w)
      else case selected_messages i w of
          (Inl e, w1) \<Rightarrow> (Some (Store_Error e), [], w1)
        | (Inr ms, w1) \<Rightarrow>
            (let changes = picked ns ms;
                 (err, w2) = on_db (store_flags op flags (map snd changes)) w1;
                 (out, whole) = (if silent then ([], True)
                    else write_all k (map (\<lambda>(seq, m). Resp_Fetch seq [Item_Uid (uid_of m), Item_Flags (flags_after op flags m)]) changes));
                 w3 = announce_flags (hub_for_selected i w2) i op flags changes w2
             in (case err of Some e \<Rightarrow> Some (Store_Error e) | None \<Rightarrow> if whole then None else Some Write_Failed, out, w3)))"

section \<open>Copying, moving, deleting\<close>

definition copy_of :: "nat \<Rightarrow> string \<Rightarrow> message \<Rightarrow> message" where
  \<comment> \<open>the row \<open>Copy\<close> creates: not deleted, and with a new arrival time\<close>
  "copy_of uid dest m = m\<lparr>m_id := 0, m_user_id := uid, m_folder := dest, m_is_deleted := False, m_created_at := 0\<rparr>"

fun copy_loop :: "gotime \<Rightarrow> nat \<Rightarrow> string \<Rightarrow> message list \<Rightarrow> db \<Rightarrow> (u32 \<times> u32) list \<times> db" where
  "copy_loop now uid dest [] s = ([], s)"
| "copy_loop now uid dest (m # ms) s =
     (case mails_create now (copy_of uid dest m) s of
        (Inl _, s1) \<Rightarrow> copy_loop now uid dest ms s1
      | (Inr c, s1) \<Rightarrow> (let (us, s2) = copy_loop now uid dest ms s1 in ((uid_of m, uid_of c) # us, s2)))"

definition copy_validity :: "u32 option \<Rightarrow> nat \<Rightarrow> string \<Rightarrow> imap_world \<Rightarrow> u32 \<times> imap_world" where
  "copy_validity rnd uid dest w =
     (let (v, w1) = on_db (uid_validity rnd uid dest) w in (case v of Inl _ \<Rightarrow> 0 | Inr x \<Rightarrow> x, w1))"

definition imap_copy ::
  "gotime \<Rightarrow> u32 option \<Rightarrow> num_set \<Rightarrow> string \<Rightarrow> nat \<Rightarrow> imap_world \<Rightarrow> (imap_error + response) \<times> imap_world" where
  "imap_copy now rnd ns dest i w =
     (case canonical_mailbox_name dest i w of
        (None, w1) \<Rightarrow> (Inl No_Such_Mailbox, w1)
      | (Some name, w1) \<Rightarrow>
          (let uid = current_user_id i w1
           in case selected_messages i w1 of
                (Inl e, w2) \<Rightarrow> (Inl (Store_Error e), w2)
              | (Inr ms, w2) \<Rightarrow>
                  (let (us, w3) = on_db (copy_loop now uid name (map snd (picked ns ms))) w2;
                       w4 = enqueue_exists (current_email i w3) uid name w3;
                       (v, w5) = copy_validity rnd uid name w4
                   in (Inr (Resp_Copy v (map fst us) (map snd us)), w5))))"

fun move_each :: "string \<Rightarrow> (u32 \<times> message) list \<Rightarrow> db \<Rightarrow> (u32 \<times> u32) list \<times> db" where
  \<comment> \<open>the sequence numbers and UIDs of the messages that could be moved\<close>
  "move_each dest [] s = ([], s)"
| "move_each dest ((seq, m) # sms) s =
     (case mails_move_to_folder (m_id m) dest s of
        (Inl _, s1) \<Rightarrow> move_each dest sms s1
      | (Inr _, s1) \<Rightarrow> (let (us, s2) = move_each dest sms s1 in ((seq, uid_of m) # us, s2)))"

definition enqueue_expunges :: "string option \<Rightarrow> nat \<Rightarrow> u32 list \<Rightarrow> imap_world \<Rightarrow> imap_world" where
  "enqueue_expunges hub i seqs w =
     (case hub of None \<Rightarrow> w | Some key \<Rightarrow> fold (\<lambda>n. hub_enqueue key (Up_Expunge n) (Some i)) seqs w)"

definition imap_move ::
  "nat option \<Rightarrow> u32 option \<Rightarrow> num_set \<Rightarrow> string \<Rightarrow> nat \<Rightarrow> imap_world \<Rightarrow> imap_error option \<times> response list \<times> imap_world" where
  "imap_move k rnd ns dest i w =
     (if is_read_only i w then (Some Mailbox_Read_Only, [], w)
      else case canonical_mailbox_name dest i w of
          (None, w1) \<Rightarrow> (Some No_Such_Mailbox, [], w1)
        | (Some name, w1) \<Rightarrow>
            (let uid = current_user_id i w1
             in case selected_messages i w1 of
                  (Inl e, w2) \<Rightarrow> (Some (Store_Error e), [], w2)
                | (Inr ms, w2) \<Rightarrow>
                    (let (us, w3) = on_db (move_each name (picked ns ms)) w2;
                         (v, w4) = copy_validity rnd uid name w3;
                         (out, whole) = write_all k (Resp_Copy v (map snd us) (map snd us) # map (Resp_Expunge \<circ> fst) us)
                     in if \<not> whole then (Some Write_Failed, out, w4)
                        else (None, out,
                              enqueue_exists (current_email i w4) uid name
                                (enqueue_expunges (hub_for_selected i w4) i (map fst us) w4)))))"

definition imap_expunge ::
  "nat option \<Rightarrow> (u32 \<Rightarrow> bool) option \<Rightarrow> nat \<Rightarrow> imap_world \<Rightarrow> imap_error option \<times> response list \<times> imap_world" where
  \<comment> \<open>\<open>uids\<close> is the membership test of the UID set of UID EXPUNGE\<close>
  "imap_expunge k uids i w =
     (if is_read_only i w then (Some Mailbox_Read_Only, [], w)
      else case selected_messages i w of
          (Inl e, w1) \<Rightarrow> (Some (Store_Error e), [], w1)
        | (Inr ms, w1) \<Rightarrow>
            (let targets = filter (\<lambda>(seq, m). m_is_deleted m \<and> (case uids of None \<Rightarrow> True | Some P \<Rightarrow> P (uid_of m))) (numbered ms)
             in if targets = [] then (None, [], w1)
                else case on_db (mails_delete_many (map (m_id \<circ> snd) targets)) w1 of
                    (Inl e, w2) \<Rightarrow> (Some (Store_Error e), [], w2)
                  | (Inr _, w2) \<Rightarrow>
                      (let (out, whole) = write_all k (map (Resp_Expunge \<circ> fst) targets)
                       in if \<not> whole then (Some Write_Failed, out, w2)
                          else (None, out, enqueue_expunges (hub_for_selected i w2) i (map fst targets) w2))))"

section \<open>Appending\<close>

record append_options =
  ao_time :: gotime
  ao_flags :: "imap_flag list"

fun append_parts :: "charset_table \<Rightarrow> mime_part list \<Rightarrow> string \<times> string \<Rightarrow> string \<times> string" where
  \<comment> \<open>text and HTML body; attachments are not stored, and a part read in part counts\<close>
  "append_parts cs [] th = th"
| "append_parts cs (Broken_Part # ps) th = th"
| "append_parts cs (Attachment_Part name ct body # ps) th = append_parts cs ps th"
| "append_parts cs (Inline_Part ct charset buf whole # ps) (t, h) =
     (let decoded = decode_charset cs buf (case charset of None \<Rightarrow> [] | Some c \<Rightarrow> c)
      in append_parts cs ps
           (if has_prefix ''text/plain'' ct then (decoded, h) else if has_prefix ''text/html'' ct then (t, decoded) else (t, h)))"

definition append_message ::
  "imap_server \<Rightarrow> gotime \<Rightarrow> nat \<Rightarrow> string \<Rightarrow> append_options \<Rightarrow> string \<Rightarrow> mail_reader \<Rightarrow> message" where
  "append_message srv now uid folder o' data mr =
     (let h = mr_header mr; addr = format_address_list (me_decode_header (is_mime srv)) h;
          (t, html) = append_parts (me_charsets (is_mime srv)) (mr_parts mr) ([], [])
      in \<lparr>m_id = 0, m_user_id = uid, m_message_id = hd_message_id h, m_folder = folder, m_from_addr = addr ''From'',
          m_to_addr = addr ''To'', m_cc_addr = addr ''Cc'', m_subject = hd_subject h,
          m_text_body = (if t = [] \<and> html = [] then data else t), m_html_body = html, m_raw_data = data,
          m_is_read = Flag_Seen \<in> set (ao_flags o'), m_is_flagged = Flag_Flagged \<in> set (ao_flags o'),
          m_is_deleted = Flag_Deleted \<in> set (ao_flags o'),
          m_date = (if hd_date h \<noteq> 0 then hd_date h else if ao_time o' \<noteq> 0 then ao_time o' else now), m_created_at = 0\<rparr>)"

definition imap_append ::
  "imap_server \<Rightarrow> gotime \<Rightarrow> u32 option \<Rightarrow> string \<Rightarrow> string option \<Rightarrow> append_options \<Rightarrow> nat \<Rightarrow> imap_world \<Rightarrow>
   (imap_error + u32 \<times> u32) \<times> imap_world" where
  \<comment> \<open>the UID and the UIDVALIDITY of the new message\<close>
  "imap_append srv now rnd mailbox body o' i w =
     (case canonical_mailbox_name mailbox i w of
        (None, w1) \<Rightarrow> (Inl No_Such_Mailbox, w1)
      | (Some name, w1) \<Rightarrow>
          (let uid = current_user_id i w1
           in case body of
                None \<Rightarrow> (Inl Body_Unreadable, w1)
              | Some data \<Rightarrow>
                  (case me_create_reader (is_mime srv) data of
                     None \<Rightarrow> (Inl Body_Unparsable, w1)
                   | Some mr \<Rightarrow>
                       (case on_db (mails_create now (append_message srv now uid name o' data mr)) w1 of
                          (Inl e, w2) \<Rightarrow> (Inl (Store_Error e), w2)
                        | (Inr m, w2) \<Rightarrow>
                            (let w3 = enqueue_exists (current_email i w2) uid name w2;
                                 (v, w4) = copy_validity rnd uid name w3
                             in (Inr (uid_of m, v), w4))))))"

section \<open>Handing out updates\<close>

definition write_updates :: "nat option \<Rightarrow> update list \<Rightarrow> response list \<times> bool" where
  "write_updates k us =
     write_all k (map (\<lambda>u. case u of Up_Expunge n \<Rightarrow> Resp_Expunge n | Up_Exists n \<Rightarrow> Resp_Exists n
                                 | Up_Fetch seq uid fl \<Rightarrow> Resp_Fetch seq [Item_Uid uid, Item_Flags fl]) us)"

definition imap_poll :: "nat option \<Rightarrow> bool \<Rightarrow> nat \<Rightarrow> imap_world \<Rightarrow> imap_error option \<times> response list \<times> imap_world" where
  "imap_poll k allow_expunge i w =
     (case iw_sessions w i of
        None \<Rightarrow> (None, [], w)
      | Some s \<Rightarrow>
          (let (us, s1) = take_updates allow_expunge s; (out, whole) = write_updates k us
           in (if whole then None else Some Write_Failed, out, w\<lparr>iw_sessions := (iw_sessions w)(i \<mapsto> s1)\<rparr>)))"

section \<open>Patterns\<close>

text \<open>
  The wildcards of LIST as RFC 3501 explains them: the name is cut into as many pieces as the pattern
  has characters, an asterisk takes any piece, a percent sign any piece without the hierarchy
  separator, and any other character itself. (No folder name holds a line feed.)
\<close>

definition piece_ok :: "char \<Rightarrow> string \<Rightarrow> bool" where
  "piece_ok c piece \<longleftrightarrow>
     (if c = CHR ''*'' then CHR 0x0A \<notin> set piece else if c = CHR ''%'' then CHR ''/'' \<notin> set piece else piece = [c])"

definition wildcard_match :: "string \<Rightarrow> string \<Rightarrow> bool" where
  "wildcard_match p name \<longleftrightarrow> (\<exists>pieces. name = concat pieces \<and> list_all2 piece_ok p pieces)"

lemma wildcard_Nil: "wildcard_match [] name \<longleftrightarrow> name = []"
  by (auto simp: wildcard_match_def)

lemma wildcard_Cons:
  "wildcard_match (c # p) name \<longleftrightarrow> (\<exists>piece rest. name = piece @ rest \<and> piece_ok c piece \<and> wildcard_match p rest)"
proof
  assume "wildcard_match (c # p) name"
  then obtain piece pieces where "name = concat (piece # pieces)" "piece_ok c piece" "list_all2 piece_ok p pieces"
    by (auto simp: wildcard_match_def list_all2_Cons1)
  then show "\<exists>piece rest. name = piece @ rest \<and> piece_ok c piece \<and> wildcard_match p rest"
    by (intro exI [of _ piece] exI [of _ "concat pieces"]) (auto simp: wildcard_match_def)
next
  assume "\<exists>piece rest. name = piece @ rest \<and> piece_ok c piece \<and> wildcard_match p rest"
  then obtain piece pieces where "name = piece @ concat pieces" "piece_ok c piece" "list_all2 piece_ok p pieces"
    by (auto simp: wildcard_match_def)
  then show "wildcard_match (c # p) name"
    unfolding wildcard_match_def by (intro exI [of _ "piece # pieces"]) simp
qed

lemma tokens_match_run:
  assumes "\<And>s. tokens_match ts s \<longleftrightarrow> P s"
  shows "tokens_match (Pat_Any # ts) s \<longleftrightarrow> (\<exists>a b. s = a @ b \<and> CHR 0x0A \<notin> set a \<and> P b)"
    and "tokens_match (Pat_Level # ts) s \<longleftrightarrow> (\<exists>a b. s = a @ b \<and> CHR ''/'' \<notin> set a \<and> P b)"
proof -
  have split: "(\<exists>a b. x # xs = a @ b \<and> z \<notin> set a \<and> P b) \<longleftrightarrow> P (x # xs) \<or> x \<noteq> z \<and> (\<exists>a b. xs = a @ b \<and> z \<notin> set a \<and> P b)"
    (is "?l \<longleftrightarrow> ?r") for x xs and z :: char
  proof
    assume ?l
    then obtain a b where ab: "x # xs = a @ b" "z \<notin> set a" "P b" by blast
    then show ?r by (cases a) auto
  next
    assume ?r
    then show ?l
    proof (elim disjE conjE exE)
      assume "P (x # xs)"
      then show ?l by (intro exI [of _ "[]"] exI [of _ "x # xs"]) simp
    next
      fix a b assume "x \<noteq> z" "xs = a @ b" "z \<notin> set a" "P b"
      then show ?l by (intro exI [of _ "x # a"] exI [of _ b]) simp
    qed
  qed
  show "tokens_match (Pat_Any # ts) s \<longleftrightarrow> (\<exists>a b. s = a @ b \<and> CHR 0x0A \<notin> set a \<and> P b)"
    by (induction s) (simp_all add: assms split)
  show "tokens_match (Pat_Level # ts) s \<longleftrightarrow> (\<exists>a b. s = a @ b \<and> CHR ''/'' \<notin> set a \<and> P b)"
    by (induction s) (simp_all add: assms split)
qed

lemma tokens_match_wildcard: "tokens_match (pattern_tokens p) s \<longleftrightarrow> wildcard_match p s"
proof (induction p arbitrary: s)
  case Nil
  show ?case by (simp add: pattern_tokens_def wildcard_Nil)
next
  case (Cons c p)
  have tl: "pattern_tokens (c # p) =
      (if c = CHR ''*'' then Pat_Any else if c = CHR ''%'' then Pat_Level else Pat_Lit c) # pattern_tokens p"
    by (simp add: pattern_tokens_def)
  note run = tokens_match_run [OF Cons.IH]
  consider "c = CHR ''*''" | "c = CHR ''%''" | "c \<noteq> CHR ''*''" "c \<noteq> CHR ''%''" by blast
  then show ?case
  proof cases
    case 1
    then have "pattern_tokens (c # p) = Pat_Any # pattern_tokens p" using tl by simp
    then show ?thesis unfolding wildcard_Cons using run(1) [of s] 1 by (simp add: piece_ok_def)
  next
    case 2
    then have "pattern_tokens (c # p) = Pat_Level # pattern_tokens p" using tl by simp
    then show ?thesis unfolding wildcard_Cons using run(2) [of s] 2 by (simp add: piece_ok_def)
  next
    case 3
    then have "pattern_tokens (c # p) = Pat_Lit c # pattern_tokens p" using tl by simp
    then show ?thesis unfolding wildcard_Cons using Cons.IH 3 by (auto simp: piece_ok_def split: list.splits)
  qed
qed

text \<open>C13: what the matcher of LIST patterns computes. A folder is listed for a pattern exactly when its
  name can be cut into pieces that the characters of the pattern take one by one: an asterisk any
  piece, a percent sign any piece without a slash, every other character itself. The name of the inbox
  is put in upper case first, in whatever spelling it comes, but the pattern is not: the pattern
  \<open>inbox\<close> does not list INBOX, although RFC 3501 and the comment of \<open>matchPattern\<close> have INBOX match
  without regard to case. (Names and patterns are valid UTF-8, for which matching byte by byte and
  rune by rune is the same.)\<close>

theorem match_pattern_wildcard:
  "(match_pattern name p \<longleftrightarrow> wildcard_match p (if equal_fold name ''INBOX'' then ''INBOX'' else name)) \<and>
   \<not> match_pattern ''INBOX'' ''inbox''"
proof
  show "\<not> match_pattern ''INBOX'' ''inbox''" by code_simp
next
  have "to_upper name = ''INBOX''" if "equal_fold name ''INBOX''"
  proof -
    have "to_upper (to_lower name) = to_upper name"
      by (simp add: to_upper_def to_lower_def upper_char_def lower_char_def Let_def)
    moreover have "to_lower name = ''inbox''" using that by (simp add: equal_fold_def) code_simp
    moreover have "to_upper ''inbox'' = ''INBOX''" by code_simp
    ultimately show ?thesis by simp
  qed
  then show "match_pattern name p \<longleftrightarrow> wildcard_match p (if equal_fold name ''INBOX'' then ''INBOX'' else name)"
    by (simp add: match_pattern_def tokens_match_wildcard)
qed

section \<open>Number sets\<close>

lemma map_snd_numbered [simp]: "map snd (numbered ms) = ms"
  by (simp add: numbered_def del: upt_Suc)

lemma foldl_max_ge: "(a :: u32) \<le> foldl (\<lambda>a m. if f m > a then f m else a) a ms"
  by (induction ms arbitrary: a) (auto, meson dual_order.trans less_imp_le)

lemma max_uid_ge: "m \<in> set ms \<Longrightarrow> uid_of m \<le> max_uid ms"
proof -
  have "m \<in> set ms \<Longrightarrow> uid_of m \<le> foldl (\<lambda>a m. if uid_of m > a then uid_of m else a) a ms" for a
  proof (induction ms arbitrary: a)
    case Nil
    then show ?case by simp
  next
    case (Cons x ms)
    show ?case
    proof (cases "m = x")
      case True
      have "uid_of x \<le> (if uid_of x > a then uid_of x else a)" by auto
      also have "\<dots> \<le> foldl (\<lambda>a m. if uid_of m > a then uid_of m else a) (if uid_of x > a then uid_of x else a) ms"
        by (rule foldl_max_ge)
      finally show ?thesis using True by simp
    next
      case False
      with Cons show ?thesis by simp
    qed
  qed
  then show "m \<in> set ms \<Longrightarrow> uid_of m \<le> max_uid ms" by (simp add: max_uid_def)
qed

text \<open>The number set "*" names the whole folder. The library hands over "*", the last message, as the
  range from 0 to 0; the upper 0 is read as the last number, but the lower 0 as no bound at all, so
  every message of the folder is picked, by sequence number and by UID, instead of the last one.\<close>

theorem star_picks_everything:
  "length ms < 2 ^ 32 \<Longrightarrow>
   map snd (picked (Seq_Set [(0, 0)]) ms) = ms \<and> map snd (picked (Uid_Set [(0, 0)]) ms) = ms"
proof
  assume l: "length ms < 2 ^ 32"
  have "(of_nat n :: u32) \<le> of_nat (length ms)" if "n \<le> length ms" for n
    using that l by (simp add: of_nat_word_less_eq_iff take_bit_nat_eq_self)
  then have "\<forall>(seq, m) \<in> set (numbered ms). num_set_contains (Seq_Set [(0, 0)]) seq (uid_of m) (of_nat (length ms)) (max_uid ms)"
    by (auto simp: numbered_def in_range_def dest!: set_zip_leftD)
  then have "picked (Seq_Set [(0, 0)]) ms = numbered ms" unfolding picked_def by (intro filter_True) auto
  then show "map snd (picked (Seq_Set [(0, 0)]) ms) = ms" by simp
  have "\<forall>(seq, m) \<in> set (numbered ms). num_set_contains (Uid_Set [(0, 0)]) seq (uid_of m) (of_nat (length ms)) (max_uid ms)"
    by (auto simp: numbered_def in_range_def max_uid_ge dest!: set_zip_rightD)
  then have "picked (Uid_Set [(0, 0)]) ms = numbered ms" unfolding picked_def by (intro filter_True) auto
  then show "map snd (picked (Uid_Set [(0, 0)]) ms) = ms" by simp
qed

lemma star_picks_everything_witness:
  "map m_id (map snd (picked (Seq_Set [(0, 0)]) [sample_message 4 7 ''INBOX'', sample_message 9 7 ''INBOX''])) = [4, 9]"
  using star_picks_everything [of "[sample_message 4 7 ''INBOX'', sample_message 9 7 ''INBOX'']"] by simp

section \<open>What the client makes of EXPUNGE\<close>

text \<open>
  A client follows RFC 3501: an EXPUNGE response removes the message with that number at once, and the
  later messages move down by one before the next response.
\<close>

definition expunge_at :: "nat \<Rightarrow> 'a list \<Rightarrow> 'a list" where
  "expunge_at n xs = take (n - 1) xs @ drop n xs"

definition client_view :: "response list \<Rightarrow> 'a list \<Rightarrow> 'a list" where
  "client_view rs view = fold (\<lambda>r v. case r of Resp_Expunge n \<Rightarrow> expunge_at (unat n) v | _ \<Rightarrow> v) rs view"

lemma fold_expunge_at_before:
  "\<forall>n \<in> set ns. j < n - 1 \<Longrightarrow> j < length v \<Longrightarrow> j < length (fold expunge_at ns v) \<and> fold expunge_at ns v ! j = v ! j"
proof (induction ns arbitrary: v)
  case Nil
  then show ?case by simp
next
  case (Cons n ns)
  then have "j < length (expunge_at n v) \<and> expunge_at n v ! j = v ! j" by (auto simp: expunge_at_def nth_append)
  with Cons show ?case by simp
qed

definition spots :: "('a \<Rightarrow> bool) \<Rightarrow> 'a list \<Rightarrow> nat list" where
  \<comment> \<open>the numbers, from 1 and ascending, of the elements with a property\<close>
  "spots P xs = map fst (filter (\<lambda>(n, x). P x) (zip [1..<Suc (length xs)] xs))"

lemma spots_nth: "n \<in> set (spots P xs) \<longleftrightarrow> 1 \<le> n \<and> n \<le> length xs \<and> P (xs ! (n - 1))"
proof
  assume "n \<in> set (spots P xs)"
  then obtain x where "(n, x) \<in> set (zip [1..<Suc (length xs)] xs)" "P x" by (auto simp: spots_def)
  then obtain j where "j < length xs" "n = [1..<Suc (length xs)] ! j" "x = xs ! j"
    by (auto simp: set_zip simp del: upt_Suc)
  then show "1 \<le> n \<and> n \<le> length xs \<and> P (xs ! (n - 1))" using \<open>P x\<close> by (simp del: upt_Suc)
next
  assume a: "1 \<le> n \<and> n \<le> length xs \<and> P (xs ! (n - 1))"
  then have "(n, xs ! (n - 1)) \<in> set (zip [1..<Suc (length xs)] xs)"
    by (auto simp: set_zip simp del: upt_Suc intro!: exI [of _ "n - 1"])
  with a show "n \<in> set (spots P xs)" by (force simp: spots_def)
qed

lemma spots_strict: "sorted_wrt (<) (spots P xs)"
proof -
  have "sorted_wrt (\<lambda>a b. fst a < fst b) (zip [1..<Suc (length xs)] xs)"
    by (simp add: sorted_wrt_iff_nth_less del: upt_Suc)
  then show ?thesis by (simp add: spots_def sorted_wrt_map sorted_wrt_filter del: upt_Suc)
qed

lemma length_spots: "length (spots P xs) = length (filter P xs)"
proof -
  have "filter P xs = filter P (map snd (zip [1..<Suc (length xs)] xs))" by (simp del: upt_Suc)
  also have "\<dots> = map snd (filter (P \<circ> snd) (zip [1..<Suc (length xs)] xs))" by (simp only: filter_map)
  finally show ?thesis by (simp add: spots_def comp_def case_prod_unfold del: upt_Suc)
qed

lemma fold_expunge_at_spots: "fold expunge_at (spots P xs) xs = filter (\<lambda>x. \<not> P x) xs \<longleftrightarrow> length (filter P xs) \<le> 1"
proof (cases "spots P xs")
  case Nil
  then have "filter P xs = []" using length_spots [of P xs] by simp
  moreover from this have "filter (\<lambda>x. \<not> P x) xs = xs" by (simp add: filter_empty_conv)
  ultimately show ?thesis using Nil by simp
next
  case (Cons s rest)
  note s1 = Cons
  show ?thesis
  proof (cases rest)
    case Nil
    then have "length (filter P xs) = 1" using length_spots [of P xs] s1 by simp
    then obtain m where "filter P xs = [m]" by (auto simp: length_Suc_conv)
    then obtain as bs where y: "xs = as @ m # bs" "P m" "\<forall>a \<in> set as. \<not> P a" "[] = filter P bs"
      unfolding filter_eq_Cons_iff by blast
    have "\<forall>b \<in> set bs. \<not> P b" using y(4) [symmetric] by (simp add: filter_empty_conv)
    note x = y(1-3) this
    have "Suc (length as) \<in> set (spots P xs)" using x(2) by (simp add: spots_nth x(1))
    then have "s = Suc (length as)" using s1 Nil by simp
    moreover have "filter (\<lambda>x. \<not> P x) xs = as @ bs" using x by (simp add: filter_id_conv)
    ultimately show ?thesis using s1 Nil x(1) \<open>length (filter P xs) = 1\<close> by (simp add: expunge_at_def)
  next
    case (Cons t ts)
    have st: "s < t" "\<forall>n \<in> set ts. t < n" using spots_strict [of P xs] s1 Cons by auto
    have t: "1 \<le> s" "t \<le> length xs" "P (xs ! (t - 1))"
      using spots_nth [of s P xs] spots_nth [of t P xs] s1 Cons by auto
    have j: "t - 2 < length (expunge_at s xs)" "expunge_at s xs ! (t - 2) = xs ! (t - 1)"
      using st(1) t(1,2) by (auto simp: expunge_at_def nth_append min_def)
    have "\<forall>n \<in> set (t # ts). t - 2 < n - 1" using st t(1) by auto
    from fold_expunge_at_before [OF this j(1)] have "xs ! (t - 1) \<in> set (fold expunge_at (spots P xs) xs)"
      using s1 Cons j(2) by (metis fold_simps(2) nth_mem)
    then have "fold expunge_at (spots P xs) xs \<noteq> filter (\<lambda>x. \<not> P x) xs" using t(3) by auto
    moreover have "length (filter P xs) > 1" using length_spots [of P xs] s1 Cons by simp
    ultimately show ?thesis by simp
  qed
qed

lemma on_db_same [simp]: "w\<lparr>iw_db := iw_db w\<rparr> = w"
  by simp

lemma selected_messages_ok:
  "wf_db (iw_db w) \<Longrightarrow> db_faults (iw_db w) = [] \<Longrightarrow>
   selected_messages i w = (Inr (folder_view (current_user_id i w) (current_mailbox i w) (iw_db w)), w)"
  by (simp add: selected_messages_def on_db_def mails_list_all_ok)

lemma client_view_expunges:
  "\<forall>n \<in> set ns. n < 2 ^ 32 \<Longrightarrow> client_view (map (Resp_Expunge \<circ> of_nat) ns) v = fold expunge_at ns v"
  by (induction ns arbitrary: v) (simp_all add: client_view_def unsigned_of_nat take_bit_nat_eq_self)

lemma targets_spots:
  "map fst (filter (\<lambda>(seq, m). P m) (numbered ms)) = map of_nat (spots P ms)"
  "map snd (filter (\<lambda>(seq, m). P m) (numbered ms)) = filter P ms"
proof -
  have z: "numbered ms = map (\<lambda>(n, m). (of_nat n, m)) (zip [1..<Suc (length ms)] ms)"
    by (simp add: numbered_def zip_map1 del: upt_Suc)
  show "map fst (filter (\<lambda>(seq, m). P m) (numbered ms)) = map of_nat (spots P ms)"
    unfolding z spots_def by (simp add: filter_map comp_def case_prod_unfold del: upt_Suc)
  have "filter P (map snd (numbered ms)) = map snd (filter (P \<circ> snd) (numbered ms))" by (simp only: filter_map)
  then show "map snd (filter (\<lambda>(seq, m). P m) (numbered ms)) = filter P ms"
    by (simp add: comp_def case_prod_unfold)
qed

definition doomed :: "(u32 \<Rightarrow> bool) option \<Rightarrow> message \<Rightarrow> bool" where
  "doomed uids m \<longleftrightarrow> m_is_deleted m \<and> (case uids of None \<Rightarrow> True | Some P \<Rightarrow> P (uid_of m))"

lemma enqueue_expunges_db [simp]: "iw_db (enqueue_expunges hub i seqs w) = iw_db w"
proof -
  have "iw_db (fold (\<lambda>n. hub_enqueue key (Up_Expunge n) (Some i)) seqs w) = iw_db w" for key
    by (induction seqs arbitrary: w) simp_all
  then show ?thesis by (simp add: enqueue_expunges_def split: option.splits)
qed

lemma filter_ids:
  assumes "distinct (map m_id ms)"
  shows "filter (\<lambda>m. m_id m \<notin> m_id ` {x \<in> set ms. P x}) ms = filter (\<lambda>m. \<not> P m) ms"
proof (rule filter_cong [OF refl])
  fix m assume "m \<in> set ms"
  then show "m_id m \<notin> m_id ` {x \<in> set ms. P x} \<longleftrightarrow> \<not> P m"
    using assms by (auto simp: distinct_map dest: inj_onD)
qed

lemma imap_expunge_ok:
  assumes "wf_db (iw_db w)" and "db_faults (iw_db w) = []" and "\<not> is_read_only i w"
    and "imap_expunge None uids i w = (r, out, w')"
    and view_def: "view = folder_view (current_user_id i w) (current_mailbox i w) (iw_db w)"
  shows "r = None \<and> out = map (Resp_Expunge \<circ> of_nat) (spots (doomed uids) view) \<and>
    folder_view (current_user_id i w) (current_mailbox i w) (iw_db w') = filter (\<lambda>m. \<not> doomed uids m) view"
proof -
  let ?t = "filter (\<lambda>(seq, m). m_is_deleted m \<and> (case uids of None \<Rightarrow> True | Some P \<Rightarrow> P (uid_of m))) (numbered view)"
  have t: "?t = filter (\<lambda>(seq, m). doomed uids m) (numbered view)"
    by (rule filter_cong) (auto simp: doomed_def)
  note ts = targets_spots [of "doomed uids" view]
  have d: "distinct (map m_id view)" unfolding view_def using assms(1) by (rule folder_view_distinct)
  show ?thesis
  proof (cases "?t = []")
    case True
    then have "filter (doomed uids) view = []" using ts(2) t by simp
    then have "filter (\<lambda>m. \<not> doomed uids m) view = view" by (simp add: filter_empty_conv)
    moreover have "spots (doomed uids) view = []" using ts(1) t True by simp
    ultimately show ?thesis
      using assms True by (simp add: imap_expunge_def selected_messages_ok view_def)
  next
    case False
    let ?ids = "map (m_id \<circ> snd) ?t"
    have ids: "set ?ids = m_id ` {m \<in> set view. doomed uids m}"
    proof -
      have "?ids = map m_id (filter (doomed uids) view)" using ts(2) unfolding t by (metis map_map)
      then show ?thesis by simp
    qed
    have fv: "folder_view (current_user_id i w) (current_mailbox i w) (del_messages (\<lambda>m. m_id m \<in> set ?ids) (iw_db w)) =
        filter (\<lambda>m. m_id m \<notin> set ?ids) view"
      by (simp add: folder_view_def view_def del_messages_def) (metis (no_types, lifting) conj_commute)
    have "mails_delete_many ?ids (iw_db w) = (Inr (), del_messages (\<lambda>m. m_id m \<in> set ?ids) (iw_db w))"
      using False assms(2) by (simp add: mails_delete_many_def table_simps)
    moreover have "map (Resp_Expunge \<circ> fst) ?t = map (Resp_Expunge \<circ> of_nat) (spots (doomed uids) view)"
      using ts(1) unfolding t by (metis map_map)
    ultimately show ?thesis
      using assms False fv filter_ids [OF d, of "doomed uids"]
      unfolding ids view_def [symmetric]
      by (auto simp: imap_expunge_def selected_messages_ok view_def [symmetric] on_db_def write_all_def Let_def)
  qed
qed

text \<open>C30: after an EXPUNGE of several messages the client is wrong. \<open>Expunge\<close> sends the numbers the
  messages had before any was removed, in ascending order, where the protocol counts each response on
  the list as the earlier ones have left it. A client that follows the protocol ends with the server's
  list of messages exactly when at most one message was removed; otherwise it drops the wrong ones.\<close>

theorem expunge_desynchronizes_client:
  assumes "wf_db (iw_db w)" and "db_faults (iw_db w) = []" and "\<not> is_read_only i w"
    and "imap_expunge None uids i w = (r, out, w')"
    and "length (folder_view (current_user_id i w) (current_mailbox i w) (iw_db w)) < 2 ^ 32"
  shows "client_view out (folder_view (current_user_id i w) (current_mailbox i w) (iw_db w)) =
      folder_view (current_user_id i w) (current_mailbox i w) (iw_db w') \<longleftrightarrow>
    length (folder_view (current_user_id i w) (current_mailbox i w) (iw_db w)) \<le>
      Suc (length (folder_view (current_user_id i w) (current_mailbox i w) (iw_db w')))"
proof -
  let ?v = "folder_view (current_user_id i w) (current_mailbox i w) (iw_db w)"
  note x = imap_expunge_ok [OF assms(1-4) refl]
  have "\<forall>n \<in> set (spots (doomed uids) ?v). n < 2 ^ 32" using assms(5) by (auto simp: spots_nth)
  then have "client_view out ?v = fold expunge_at (spots (doomed uids) ?v) ?v" using x by (simp add: client_view_expunges)
  moreover have "length ?v = length (filter (doomed uids) ?v) + length (filter (\<lambda>m. \<not> doomed uids m) ?v)"
    by (simp add: sum_length_filter_compl)
  ultimately show ?thesis using x fold_expunge_at_spots [of "doomed uids" ?v] by auto
qed

definition sample_imap_world :: "message list \<Rightarrow> imap_world" where
  "sample_imap_world ms = \<lparr>iw_db = sample_mails ms, iw_conns = new_hub, iw_sessions = [2 \<mapsto> sample_imap_session],
     iw_hubs = [hub_key ''ann@x.org'' ''INBOX'' \<mapsto> [2]]\<rparr>"

lemma sample_imap_world_simps [simp]:
  "iw_db (sample_imap_world ms) = sample_mails ms" "current_user_id 2 (sample_imap_world ms) = 7"
  "current_mailbox 2 (sample_imap_world ms) = ''INBOX''" "is_read_only 2 (sample_imap_world ms) = False"
  by (simp_all add: sample_imap_world_def sample_imap_session_def current_user_id_def current_mailbox_def
      is_read_only_def of_session_def)

definition deleted_message :: "nat \<Rightarrow> message" where
  "deleted_message i = (sample_message i 7 ''INBOX'')\<lparr>m_is_deleted := True\<rparr>"

lemma expunge_desynchronizes_client_witness:
  "\<exists>r out w'. imap_expunge None None 2 (sample_imap_world [deleted_message 4, deleted_message 5, sample_message 6 7 ''INBOX'']) = (r, out, w') \<and>
     folder_view 7 ''INBOX'' (iw_db w') = [sample_message 6 7 ''INBOX''] \<and>
     client_view out [deleted_message 4, deleted_message 5, sample_message 6 7 ''INBOX''] \<noteq> [sample_message 6 7 ''INBOX'']"
proof -
  let ?ms = "[deleted_message 4, deleted_message 5, sample_message 6 7 ''INBOX'']"
  let ?w = "sample_imap_world ?ms"
  obtain r out w' where x: "imap_expunge None None 2 ?w = (r, out, w')" by (metis prod.collapse)
  have wf: "wf_db (iw_db ?w)"
    unfolding sample_imap_world_simps by (rule wf_sample_mails) (simp add: wf_rows_def deleted_message_def)
  have v: "folder_view 7 ''INBOX'' (iw_db ?w) = ?ms"
    by (simp add: folder_view_def in_folder_def sample_mails_def deleted_message_def sample_message_def)
  have "filter (\<lambda>m. \<not> doomed None m) ?ms = [sample_message 6 7 ''INBOX'']"
    by (simp add: doomed_def deleted_message_def)
  then have after: "folder_view 7 ''INBOX'' (iw_db w') = [sample_message 6 7 ''INBOX'']"
    using imap_expunge_ok [OF wf _ _ x refl] v by simp
  from expunge_desynchronizes_client [OF wf _ _ x] v after
  have "client_view out ?ms \<noteq> [sample_message 6 7 ''INBOX'']" by simp
  with x after show ?thesis by blast
qed

end
