(* ===== verification/Imap_Runs.thy ===== *)
theory Imap_Runs
  imports Imap_Session
begin

text \<open>
  What holds of every run of the IMAP server: any number of sessions that open, log in, give commands in
  any order and end, with notices of the other servers in between. Each user's mail is out of reach of
  the sessions of other users, and a mailbox hub holds exactly the sessions that have the mailbox
  selected, so that a notice of new mail reaches them and no one else.
\<close>

section \<open>Commands\<close>

datatype imap_command =
    Cmd_Login bool string string
  | Cmd_List string "string list" bool
  | Cmd_Create string
  | Cmd_Delete string
  | Cmd_Rename string string
  | Cmd_Subscribe string
  | Cmd_Unsubscribe string
  | Cmd_Select string bool
  | Cmd_Unselect
  | Cmd_Status string status_options
  | Cmd_Fetch num_set fetch_options
  | Cmd_Search bool criteria
  | Cmd_Store num_set store_op bool "imap_flag list"
  | Cmd_Copy num_set string
  | Cmd_Move num_set string
  | Cmd_Expunge "(u32 \<Rightarrow> bool) option"
  | Cmd_Append string "string option" append_options
  | Cmd_Poll bool

definition run_command ::
  "imap_server \<Rightarrow> gotime \<Rightarrow> u32 option \<Rightarrow> nat option \<Rightarrow> imap_command \<Rightarrow> nat \<Rightarrow> imap_world \<Rightarrow> imap_world" where
  "run_command srv now rnd k c i w =
     (case c of
        Cmd_Login tls u p \<Rightarrow> snd (imap_login srv now tls u p i w)
      | Cmd_List ref ps sub \<Rightarrow> snd (snd (imap_list k ref ps sub i w))
      | Cmd_Create n \<Rightarrow> snd (imap_create n i w)
      | Cmd_Delete n \<Rightarrow> snd (imap_delete n i w)
      | Cmd_Rename a b \<Rightarrow> snd (imap_rename a b i w)
      | Cmd_Subscribe n \<Rightarrow> snd (imap_subscribe n i w)
      | Cmd_Unsubscribe n \<Rightarrow> snd (imap_unsubscribe n i w)
      | Cmd_Select n ro \<Rightarrow> snd (imap_select rnd n ro i w)
      | Cmd_Unselect \<Rightarrow> imap_unselect i w
      | Cmd_Status n o' \<Rightarrow> snd (imap_status srv rnd n o' i w)
      | Cmd_Fetch ns o' \<Rightarrow> snd (snd (imap_fetch srv k ns o' i w))
      | Cmd_Search by_uid cr \<Rightarrow> snd (imap_search srv by_uid cr i w)
      | Cmd_Store ns op silent fl \<Rightarrow> snd (snd (imap_store k ns op silent fl i w))
      | Cmd_Copy ns dest \<Rightarrow> snd (imap_copy now rnd ns dest i w)
      | Cmd_Move ns dest \<Rightarrow> snd (snd (imap_move k rnd ns dest i w))
      | Cmd_Expunge uids \<Rightarrow> snd (snd (imap_expunge k uids i w))
      | Cmd_Append n body o' \<Rightarrow> snd (imap_append srv now rnd n body o' i w)
      | Cmd_Poll allow \<Rightarrow> snd (snd (imap_poll k allow i w)))"

section \<open>The mail of other users\<close>

definition others :: "nat \<Rightarrow> db \<Rightarrow> message list" where
  "others uid s = filter (\<lambda>m. m_user_id m \<noteq> uid) (db_messages s)"

definition mail_table :: "db \<Rightarrow> message list \<times> nat" where
  "mail_table s = (db_messages s, db_next s TMessages)"

definition wf_mail :: "db \<Rightarrow> bool" where
  "wf_mail s \<longleftrightarrow> wf_rows m_id (db_next s TMessages) (db_messages s)"

definition spares :: "nat \<Rightarrow> db \<Rightarrow> db \<Rightarrow> bool" where
  \<comment> \<open>from \<open>s\<close> to \<open>s'\<close> only mail of the user changed, and the message table is still well-formed\<close>
  "spares uid s s' \<longleftrightarrow> (wf_mail s \<longrightarrow> wf_mail s' \<and> others uid s' = others uid s)"

lemma spares_refl [simp, intro]: "spares uid s s"
  by (simp add: spares_def)

lemma spares_trans: "spares uid s t \<Longrightarrow> spares uid t u \<Longrightarrow> spares uid s u"
  by (auto simp: spares_def)

lemma spares_mail: "mail_table s' = mail_table s \<Longrightarrow> spares uid s s'"
  by (simp add: spares_def wf_mail_def others_def mail_table_def)

lemma spares_left: "mail_table t = mail_table s \<Longrightarrow> spares uid t u = spares uid s u"
  by (simp add: spares_def wf_mail_def others_def mail_table_def)

lemma mail_table_tables: "tables s' = tables s \<Longrightarrow> mail_table s' = mail_table s"
  unfolding mail_table_def by (metis tables_simps(3,10))

lemma mail_table_but: "but_ledgers s' = but_ledgers s \<Longrightarrow> mail_table s' = mail_table s"
  using but_ledgersD [of s' s] by (simp add: mail_table_def)

lemma mail_table_tick [simp]: "mail_table (tick s) = mail_table s"
  by (simp add: mail_table_def)

text \<open>Statements on rows chosen by id, when the ids are those of the user's own messages.\<close>

definition own_ids :: "nat \<Rightarrow> nat set \<Rightarrow> db \<Rightarrow> bool" where
  "own_ids uid I s \<longleftrightarrow> (\<forall>m \<in> set (db_messages s). m_id m \<in> I \<longrightarrow> m_user_id m = uid)"

lemma own_ids_subset: "own_ids uid I s \<Longrightarrow> J \<subseteq> I \<Longrightarrow> own_ids uid J s"
  by (auto simp: own_ids_def)

lemma own_ids_mail: "mail_table s' = mail_table s \<Longrightarrow> own_ids uid I s' = own_ids uid I s"
  by (simp add: own_ids_def mail_table_def)

lemma filter_map_cond_skip:
  "(\<And>x. x \<in> set xs \<Longrightarrow> P x \<Longrightarrow> \<not> Q x \<and> \<not> Q (f x)) \<Longrightarrow> filter Q (map (\<lambda>x. if P x then f x else x) xs) = filter Q xs"
  by (induction xs) auto

lemma upd_own:
  assumes "own_ids uid I s" and "\<And>m. P m \<Longrightarrow> m_id m \<in> I" and "\<And>m. m_id (f m) = m_id m" and "\<And>m. m_user_id (f m) = m_user_id m"
  shows "spares uid s (upd_messages P f s)" and "own_ids uid J s \<Longrightarrow> own_ids uid J (upd_messages P f s)"
proof -
  have "others uid (upd_messages P f s) = others uid s"
    unfolding others_def upd_messages_simps using assms(1,2,4) by (intro filter_map_cond_skip) (auto simp: own_ids_def)
  then show "spares uid s (upd_messages P f s)" using assms(3) by (simp add: spares_def wf_mail_def wf_rows_map)
  show "own_ids uid J s \<Longrightarrow> own_ids uid J (upd_messages P f s)" using assms(3,4) by (auto simp: own_ids_def)
qed

lemma own_ids_listed:
  assumes "wf_mail s" and "set ms \<subseteq> {m \<in> set (db_messages s). m_user_id m = uid}"
  shows "own_ids uid (m_id ` set ms) s"
  unfolding own_ids_def
proof (intro ballI impI)
  fix m assume m: "m \<in> set (db_messages s)" "m_id m \<in> m_id ` set ms"
  then obtain x where x: "x \<in> set (db_messages s)" "m_user_id x = uid" "m_id m = m_id x" using assms(2) by auto
  then have "m = x" using wf_rows_unique [OF assms(1) [unfolded wf_mail_def] m(1)] by blast
  with x(2) show "m_user_id m = uid" by simp
qed

section \<open>Every command spares the others\<close>

lemma mailboxes_create_mail: "mailboxes_create mb s = (r, s') \<Longrightarrow> mail_table s' = mail_table s"
  by (auto simp: mailboxes_create_def db_stmt_def insert_mailbox_def mail_table_def split: if_splits)

lemma ensure_loop_mail: "ensure_loop uid have ds s = (r, s') \<Longrightarrow> mail_table s' = mail_table s"
proof (induction ds arbitrary: s)
  case Nil
  then show ?case by simp
next
  case (Cons d ds)
  then show ?case by (auto split: if_splits prod.splits sum.splits dest!: mailboxes_create_mail)
qed

lemma ensure_system_mail: "mailboxes_ensure_system uid s = (r, s') \<Longrightarrow> mail_table s' = mail_table s"
  by (auto simp: mailboxes_ensure_system_def db_query_def db_stmt_def split: if_splits dest!: ensure_loop_mail)

lemma list_all_mail: "svc_list_all uid s = (r, s') \<Longrightarrow> mail_table s' = mail_table s"
  by (auto simp: svc_list_all_def mailboxes_list_def db_query_def db_stmt_def
      split: prod.splits sum.splits if_splits dest!: ensure_system_mail)

lemma get_by_name_mail: "mailboxes_get_by_name uid n s = (r, s') \<Longrightarrow> mail_table s' = mail_table s"
  by (rule mail_table_tables) (rule get_by_name_tables)

lemma canonical_mail: "svc_canonical uid n s = (r, s') \<Longrightarrow> mail_table s' = mail_table s"
  by (auto simp: svc_canonical_def Let_def split: prod.splits sum.splits if_splits
      dest!: ensure_system_mail get_by_name_mail)

lemma create_mail: "svc_create uid n s = (r, s') \<Longrightarrow> mail_table s' = mail_table s"
  by (auto simp: svc_create_def Let_def split: prod.splits sum.splits if_splits option.splits
      dest!: ensure_system_mail get_by_name_mail mailboxes_create_mail)

lemma mailboxes_delete_mail: "mailboxes_delete uid n s = (r, s') \<Longrightarrow> mail_table s' = mail_table s"
proof (cases r)
  case (Inl e)
  assume "mailboxes_delete uid n s = (r, s')"
  with Inl have "tables s' = tables s" unfolding mailboxes_delete_def by (intro db_transaction_Inl) simp
  then show ?thesis by (rule mail_table_tables)
next
  case (Inr x)
  assume "mailboxes_delete uid n s = (r, s')"
  with Inr have "tables s' = tables (del_mailbox_states uid n (del_mailbox uid n (tick s)))" by (simp add: mailboxes_delete_Inr(2))
  from mail_table_tables [OF this] show ?thesis by (simp add: mail_table_def del_mailbox_states_def del_mailbox_def)
qed

lemma delete_mail: "svc_delete uid n s = (r, s') \<Longrightarrow> mail_table s' = mail_table s"
  by (auto simp: svc_delete_def split: prod.splits if_splits option.splits dest!: canonical_mail mailboxes_delete_mail)

lemma set_subscribed_mail: "svc_set_subscribed uid n b s = (r, s') \<Longrightarrow> mail_table s' = mail_table s"
  by (auto simp: svc_set_subscribed_def mailboxes_set_subscribed_def db_exec_def db_stmt_def mail_table_def
      split: prod.splits if_splits option.splits dest!: canonical_mail)

lemma mailboxes_rename_spares: "mailboxes_rename uid old new s = (r, s') \<Longrightarrow> spares uid s s'"
proof (cases r)
  case (Inl e)
  assume "mailboxes_rename uid old new s = (r, s')"
  with Inl have "tables s' = tables s" unfolding mailboxes_rename_def by (intro db_transaction_Inl) simp
  then show ?thesis by (intro spares_mail mail_table_tables)
next
  case (Inr x)
  assume "mailboxes_rename uid old new s = (r, s')"
  with Inr have t: "tables s' = tables (renamed uid old new s)" by (simp add: mailboxes_rename_Inr(1))
  let ?u = "upd_messages (in_folder uid old) (\<lambda>m. m\<lparr>m_folder := new\<rparr>) s"
  have "mail_table s' = mail_table ?u"
    using mail_table_tables [OF t] by (simp add: mail_table_def renamed_def del_mailbox_states_def ren_mailbox_def upd_messages_def)
  moreover have "others uid ?u = others uid s"
    unfolding others_def upd_messages_simps by (intro filter_map_cond_skip) (auto simp: in_folder_def)
  ultimately show ?thesis by (simp add: spares_def wf_mail_def others_def mail_table_def wf_rows_map)
qed

lemma rename_spares:
  assumes "svc_rename uid a b s = (r, s')"
  shows "spares uid s s'"
proof -
  obtain q s1 where c: "svc_canonical uid a s = (q, s1)" by (cases "svc_canonical uid a s")
  obtain z s2 where g: "mailboxes_get_by_name uid (trim_space b) s1 = (z, s2)"
    by (cases "mailboxes_get_by_name uid (trim_space b) s1")
  have 1: "spares uid s s1" using canonical_mail [OF c] by (rule spares_mail)
  have 2: "spares uid s s2" using canonical_mail [OF c] get_by_name_mail [OF g] by (intro spares_mail) simp
  have "spares uid s s3" if "mailboxes_rename uid old new s2 = (y, s3)" for old new y s3
    using spares_trans [OF 2 mailboxes_rename_spares [OF that]] .
  with assms c g 1 2 show ?thesis
    by (auto simp: svc_rename_def Let_def split: sum.splits if_splits option.splits)
qed

lemma uid_validity_mail: "uid_validity rnd uid f s = (r, s') \<Longrightarrow> mail_table s' = mail_table s"
  using uid_validity_frame by (simp add: mail_table_def)

lemma mails_list_all_mail: "mails_list_all uid f s = (r, s') \<Longrightarrow> mail_table s' = mail_table s"
  by (rule mail_table_tables) (metis db_query_tables mails_list_all_def snd_conv)

lemma mails_max_id_mail: "mails_max_id uid f s = (r, s') \<Longrightarrow> mail_table s' = mail_table s"
  by (rule mail_table_tables) (metis db_query_tables mails_max_id_def snd_conv)

lemma select_mail: "svc_select rnd uid n s = (r, s') \<Longrightarrow> mail_table s' = mail_table s"
  by (auto simp: svc_select_def Let_def split: prod.splits sum.splits
      dest!: mails_list_all_mail mails_max_id_mail uid_validity_mail)

lemma status_mail: "svc_status fd rnd uid n o' s = (r, s') \<Longrightarrow> mail_table s' = mail_table s"
  by (auto simp: svc_status_def Let_def split: prod.splits sum.splits if_splits
      dest!: mails_list_all_mail mails_max_id_mail uid_validity_mail)


lemma mails_create_spares:
  assumes "mails_create now msg s = (r, s')" and "m_user_id msg = uid"
  shows "spares uid s s'"
proof (cases r)
  case (Inl e)
  with assms(1) show ?thesis by (intro spares_mail mail_table_tables) (simp add: mails_create_Inl)
next
  case (Inr m)
  with assms(1) have "m = new_message now msg s" "s' = insert_message m (tick s)" by (simp_all add: mails_create_Inr)
  then show ?thesis using assms(2) by (simp add: spares_def wf_mail_def others_def insert_message_def wf_rows_insert)
qed

lemma copy_loop_spares: "copy_loop now uid dest ms s = (us, s') \<Longrightarrow> spares uid s s'"
proof (induction ms arbitrary: us s)
  case Nil
  then show ?case by simp
next
  case (Cons m ms)
  obtain r s1 where c: "mails_create now (copy_of uid dest m) s = (r, s1)" by (cases "mails_create now (copy_of uid dest m) s")
  have 1: "spares uid s s1" using c by (rule mails_create_spares) (simp add: copy_of_def)
  obtain vs where "copy_loop now uid dest ms s1 = (vs, s')"
    using Cons.prems c by (cases r; cases "copy_loop now uid dest ms s1") (auto simp: Let_def)
  from spares_trans [OF 1 Cons.IH [OF this]] show ?case .
qed

lemma exec_upd_own:
  assumes "db_exec (upd_messages P f) s = (r, s')" and "own_ids uid I s" and "\<And>m. P m \<Longrightarrow> m_id m \<in> I"
    and "\<And>m. m_id (f m) = m_id m" and "\<And>m. m_user_id (f m) = m_user_id m"
  shows "spares uid s s' \<and> own_ids uid I s'"
proof (cases "fault s")
  case True
  with assms(1) have "s' = tick s" by (simp add: db_exec_def db_stmt_def)
  then show ?thesis using assms(2) by (simp add: spares_mail own_ids_def)
next
  case False
  with assms(1) have s': "s' = upd_messages P f (tick s)" by (simp add: db_exec_def db_stmt_def)
  have o': "own_ids uid I (tick s)" using assms(2) by (simp add: own_ids_def)
  from upd_own [OF this assms(3-5)] o' show ?thesis unfolding s' by (simp add: spares_left [symmetric, of "tick s" s])
qed

lemma move_each_spares:
  "move_each dest sms s = (us, s') \<Longrightarrow> own_ids uid (m_id ` snd ` set sms) s \<Longrightarrow> spares uid s s'"
proof (induction sms arbitrary: us s)
  case Nil
  then show ?case by simp
next
  case (Cons sm sms)
  obtain seq m where sm: "sm = (seq, m)" by (cases sm)
  obtain r s1 where c: "mails_move_to_folder (m_id m) dest s = (r, s1)" by (cases "mails_move_to_folder (m_id m) dest s")
  have 1: "spares uid s s1 \<and> own_ids uid (m_id ` snd ` set (sm # sms)) s1"
    using c [unfolded mails_move_to_folder_def] Cons.prems(2) by (rule exec_upd_own) (auto simp: sm)
  obtain vs where "move_each dest sms s1 = (vs, s')"
    using Cons.prems(1) c by (cases r; cases "move_each dest sms s1") (auto simp: Let_def sm)
  from Cons.IH [OF this] 1 show ?case by (auto intro: spares_trans own_ids_subset)
qed

lemma set_states_spares:
  assumes "own_ids uid I s" and "set ids \<subseteq> I"
  shows "mails_set_read_states ids b s = (r, s') \<Longrightarrow> spares uid s s' \<and> own_ids uid I s'"
    and "mails_set_flagged_states ids b s = (r, s') \<Longrightarrow> spares uid s s' \<and> own_ids uid I s'"
    and "mails_set_deleted_states ids b s = (r, s') \<Longrightarrow> spares uid s s' \<and> own_ids uid I s'"
  unfolding mails_set_read_states_def mails_set_flagged_states_def mails_set_deleted_states_def
  using assms by (auto split: if_splits dest!: exec_upd_own [where uid = uid and I = I])

lemma store_flags_spares:
  assumes "store_flags op flags ms s = (r, s')" and "own_ids uid (m_id ` set ms) s"
  shows "spares uid s s'"
proof -
  let ?I = "m_id ` set ms" and ?rd = "new_flag op flags Flag_Seen" and ?fl = "new_flag op flags Flag_Flagged"
    and ?dl = "new_flag op flags Flag_Deleted"
  have sub: "set (changed_ids g n b ms) \<subseteq> ?I" for g n b by (auto simp: changed_ids_def)
  obtain r1 s1 where 1: "mails_set_read_states (changed_ids m_is_read ?rd True ms) True s = (r1, s1)" by (metis prod.collapse)
  obtain r2 s2 where 2: "mails_set_read_states (changed_ids m_is_read ?rd False ms) False s1 = (r2, s2)" by (metis prod.collapse)
  obtain r3 s3 where 3: "mails_set_flagged_states (changed_ids m_is_flagged ?fl True ms) True s2 = (r3, s3)" by (metis prod.collapse)
  obtain r4 s4 where 4: "mails_set_flagged_states (changed_ids m_is_flagged ?fl False ms) False s3 = (r4, s4)" by (metis prod.collapse)
  obtain r5 s5 where 5: "mails_set_deleted_states (changed_ids m_is_deleted ?dl True ms) True s4 = (r5, s5)" by (metis prod.collapse)
  obtain r6 s6 where 6: "mails_set_deleted_states (changed_ids m_is_deleted ?dl False ms) False s5 = (r6, s6)" by (metis prod.collapse)
  have o1: "spares uid s s1" "own_ids uid ?I s1" using set_states_spares(1) [OF assms(2) sub 1] by simp_all
  have o2: "spares uid s1 s2" "own_ids uid ?I s2" using set_states_spares(1) [OF o1(2) sub 2] by simp_all
  have o3: "spares uid s2 s3" "own_ids uid ?I s3" using set_states_spares(2) [OF o2(2) sub 3] by simp_all
  have o4: "spares uid s3 s4" "own_ids uid ?I s4" using set_states_spares(2) [OF o3(2) sub 4] by simp_all
  have o5: "spares uid s4 s5" "own_ids uid ?I s5" using set_states_spares(3) [OF o4(2) sub 5] by simp_all
  have o6: "spares uid s5 s6" using set_states_spares(3) [OF o5(2) sub 6] by simp
  have "s' = s6" using assms(1) by (simp add: store_flags_def 1 2 3 4 5 6 Let_def)
  then show ?thesis using o1(1) o2(1) o3(1) o4(1) o5(1) o6 by (blast intro: spares_trans)
qed

lemma delete_many_spares:
  assumes "mails_delete_many ids s = (r, s')" and "own_ids uid I s" and "set ids \<subseteq> I"
  shows "spares uid s s'"
proof (cases "ids = [] \<or> fault s")
  case True
  with assms(1) have "mail_table s' = mail_table s" by (auto simp: mails_delete_many_def db_exec_def db_stmt_def split: if_splits)
  then show ?thesis by (rule spares_mail)
next
  case False
  with assms(1) have s': "s' = del_messages (\<lambda>m. m_id m \<in> set ids) (tick s)"
    by (simp add: mails_delete_many_def db_exec_def db_stmt_def)
  have "filter (\<lambda>m. m_id m \<notin> set ids \<and> m_user_id m \<noteq> uid) (db_messages s) = filter (\<lambda>m. m_user_id m \<noteq> uid) (db_messages s)"
    using assms(2,3) by (intro filter_cong) (auto simp: own_ids_def)
  then show ?thesis by (simp add: spares_def wf_mail_def others_def s' del_messages_def wf_rows_filter)
qed

lemma on_db_result: "on_db f w = (r, w') \<Longrightarrow> f (iw_db w) = (r, iw_db w') \<and> w' = w\<lparr>iw_db := iw_db w'\<rparr>"
  by (auto simp: on_db_def Let_def split: prod.splits)

lemma of_session_db [simp]:
  "of_session f d i (w\<lparr>iw_db := s\<rparr>) = of_session f d i w"
  by (simp add: of_session_def)

lemma current_db [simp]:
  "current_user_id i (w\<lparr>iw_db := s\<rparr>) = current_user_id i w" "current_mailbox i (w\<lparr>iw_db := s\<rparr>) = current_mailbox i w"
  "current_email i (w\<lparr>iw_db := s\<rparr>) = current_email i w" "hub_for_selected i (w\<lparr>iw_db := s\<rparr>) = hub_for_selected i w"
  by (simp_all add: current_user_id_def current_mailbox_def current_email_def hub_for_selected_def)

lemma canonical_name_result:
  assumes "canonical_mailbox_name n i w = (r, w')"
  shows "mail_table (iw_db w') = mail_table (iw_db w)" and "\<exists>d. w' = w\<lparr>iw_db := d\<rparr>"
  using on_db_result [OF assms [unfolded canonical_mailbox_name_def]] canonical_mail by blast+

lemma selected_result:
  assumes "selected_messages i w = (r, w')"
  shows "mail_table (iw_db w') = mail_table (iw_db w)" and "\<exists>d. w' = w\<lparr>iw_db := d\<rparr>"
    and "r = Inr ms \<Longrightarrow> set ms \<subseteq> {m \<in> set (db_messages (iw_db w')). m_user_id m = current_user_id i w}"
proof -
  note o' = on_db_result [OF assms [unfolded selected_messages_def]]
  then have l: "mails_list_all (current_user_id i w) (current_mailbox i w) (iw_db w) = (r, iw_db w')" by blast
  from mails_list_all_mail [OF l] show m: "mail_table (iw_db w') = mail_table (iw_db w)" .
  show "\<exists>d. w' = w\<lparr>iw_db := d\<rparr>" using o' by blast
  show "r = Inr ms \<Longrightarrow> set ms \<subseteq> {m \<in> set (db_messages (iw_db w')). m_user_id m = current_user_id i w}"
    using l m by (auto simp: mails_list_all_def stmt_results mail_table_def in_folder_def)
qed

lemma selected_own:
  assumes "selected_messages i w = (Inr ms, w')" and "wf_mail (iw_db w)"
  shows "own_ids (current_user_id i w) (m_id ` set ms) (iw_db w')"
proof -
  have "wf_mail (iw_db w')" using assms(2) selected_result(1) [OF assms(1)] by (simp add: wf_mail_def mail_table_def)
  from own_ids_listed [OF this selected_result(3) [OF assms(1) refl]] show ?thesis .
qed

lemma picked_subset: "snd ` set (filter P (numbered ms)) \<subseteq> set ms" "snd ` set (picked ns ms) \<subseteq> set ms"
  by (auto simp: picked_def numbered_def dest: set_zip_rightD)

lemma enqueue_exists_mail [simp]: "mail_table (iw_db (enqueue_exists e u f w)) = mail_table (iw_db w)"
  by (rule mail_table_tables) (rule enqueue_exists_frame(1))

lemma copy_validity_mail: "copy_validity rnd uid f w = (v, w') \<Longrightarrow> mail_table (iw_db w') = mail_table (iw_db w)"
  by (auto simp: copy_validity_def Let_def split: prod.splits dest!: on_db_result uid_validity_mail)

lemma hub_frames [simp]:
  "iw_db (hub_remove k i w) = iw_db w" "iw_db (hub_add k i w) = iw_db w" "iw_db (leave_hub i w) = iw_db w"
  by (simp_all add: hub_remove_def hub_add_def leave_hub_def split: option.splits)

lemma hub_for_or_create_db: "hub_for_or_create e f w = (k, w') \<Longrightarrow> iw_db w' = iw_db w"
  by (auto simp: hub_for_or_create_def Let_def split: option.splits)

lemma announce_flags_db [simp]: "iw_db (announce_flags hub i op fl cs w) = iw_db w"
proof -
  have "iw_db (fold (\<lambda>(seq, m). hub_enqueue key (Up_Fetch seq (uid_of m) (flags_after op fl m)) (Some i)) cs w) = iw_db w" for key
    by (induction cs arbitrary: w) (auto split: prod.splits)
  then show ?thesis by (simp add: announce_flags_def split: option.splits)
qed

lemma login_mail: "mail_table (iw_db (snd (imap_login srv now tls u p i w))) = mail_table (iw_db w)"
proof -
  have r: "mail_table (snd (record_login n pt ip us b f d s)) = mail_table s" for n pt ip us b f d s
    by (rule mail_table_but) (auto simp: record_login_def logs_create_but split: prod.splits sum.splits dest: arg_cong [of _ _ snd])
  have b: "mail_table (snd (bans_is_banned n ip s)) = mail_table s" for n ip s
    by (rule mail_table_tables) (auto simp: bans_is_banned_def split: prod.splits sum.splits dest!: arg_cong [of _ _ snd])
  have g: "mail_table (snd (guarded_login c bc n ip us pw s)) = mail_table s" for c bc n ip us pw s
    by (rule mail_table_but) simp
  have e: "mail_table (snd (login_email us s)) = mail_table s" for us s
    by (auto simp: login_email_def domains_get_by_id_def stmt_results split: prod.splits sum.splits)
  let ?ip = "client_ip_from_addr (Some (of_session im_remote [] i w))"
  obtain q d1 where 1: "bans_is_banned now ?ip (iw_db w) = (q, d1)" by (metis prod.collapse)
  obtain z d2 where 2: "guarded_login (is_check_pw srv) (is_ban srv) now ?ip u p d1 = (z, d2)" by (metis prod.collapse)
  have d1: "mail_table d1 = mail_table (iw_db w)" using b [of now ?ip "iw_db w"] 1 by simp
  have d2: "mail_table d2 = mail_table (iw_db w)" using g [of "is_check_pw srv" "is_ban srv" now ?ip u p d1] 2 d1 by simp
  show ?thesis
  proof (cases q)
    case (Some x)
    with 1 d1 r show ?thesis by (simp add: imap_login_def Let_def)
  next
    case None
    show ?thesis
    proof (cases z)
      case None
      with \<open>q = None\<close> 1 2 d2 r show ?thesis by (simp add: imap_login_def Let_def)
    next
      case (Some v)
      obtain em d3 where 3: "login_email v d2 = (em, d3)" by (metis prod.collapse)
      have "mail_table (snd (record_login a pt ip us x f d d3)) = mail_table (iw_db w)" for a pt ip us x f d
        using r [of a pt ip us x f d d3] e [of v d2] 3 d2 by simp
      with \<open>q = None\<close> Some 1 2 3 show ?thesis by (simp add: imap_login_def Let_def split_beta)
    qed
  qed
qed

text \<open>Each command, by the session of a user, spares the mail of all others.\<close>

lemma store_spares: "spares (current_user_id i w) (iw_db w) (iw_db (snd (snd (imap_store k ns op silent fl i w))))"
proof (cases "is_read_only i w")
  case True
  then show ?thesis by (simp add: imap_store_def)
next
  case False
  obtain r w1 where s: "selected_messages i w = (r, w1)" by (cases "selected_messages i w")
  have 1: "spares (current_user_id i w) (iw_db w) (iw_db w1)" using selected_result(1) [OF s] by (rule spares_mail)
  show ?thesis
  proof (cases r)
    case (Inl e)
    with s False 1 show ?thesis by (simp add: imap_store_def)
  next
    case (Inr ms)
    let ?c = "picked ns ms"
    obtain e w2 where f: "on_db (store_flags op fl (map snd ?c)) w1 = (e, w2)" by (cases "on_db (store_flags op fl (map snd ?c)) w1")
    note st = on_db_result [OF f, THEN conjunct1]
    have 2: "spares (current_user_id i w) (iw_db w) (iw_db w2)" 
    proof (cases "wf_mail (iw_db w)")
      case True
      have "own_ids (current_user_id i w) (m_id ` set (map snd ?c)) (iw_db w1)"
        by (intro own_ids_subset [OF selected_own [OF s [unfolded Inr] True]]) (use picked_subset(2) [of ns ms] in auto)
      from spares_trans [OF 1 store_flags_spares [OF st this]] show ?thesis .
    qed (simp add: spares_def)
    have "iw_db (snd (snd (imap_store k ns op silent fl i w))) = iw_db w2"
      using False s Inr f by (simp add: imap_store_def Let_def split_beta)
    with 2 show ?thesis by simp
  qed
qed

lemma move_spares: "spares (current_user_id i w) (iw_db w) (iw_db (snd (snd (imap_move k rnd ns dest i w))))"
proof (cases "is_read_only i w")
  case True
  then show ?thesis by (simp add: imap_move_def)
next
  case False
  obtain q w1 where c: "canonical_mailbox_name dest i w = (q, w1)" by (cases "canonical_mailbox_name dest i w")
  obtain d where d: "w1 = w\<lparr>iw_db := d\<rparr>" using canonical_name_result(2) [OF c] by blast
  have u: "current_user_id i w1 = current_user_id i w" by (simp add: d)
  have 1: "spares (current_user_id i w) (iw_db w) (iw_db w1)" using canonical_name_result(1) [OF c] by (rule spares_mail)
  obtain r w2 where s: "selected_messages i w1 = (r, w2)" by (cases "selected_messages i w1")
  have 2: "spares (current_user_id i w) (iw_db w1) (iw_db w2)" using selected_result(1) [OF s] by (rule spares_mail)
  show ?thesis
  proof (cases q)
    case None
    with c False 1 show ?thesis by (simp add: imap_move_def)
  next
    case (Some name)
    show ?thesis
    proof (cases r)
      case (Inl e)
      with c s False Some spares_trans [OF 1 2] show ?thesis by (simp add: imap_move_def Let_def)
    next
      case (Inr ms)
      let ?c = "picked ns ms"
      obtain us w3 where f: "on_db (move_each name ?c) w2 = (us, w3)" by (cases "on_db (move_each name ?c) w2")
      note st = on_db_result [OF f, THEN conjunct1]
      have 3: "spares (current_user_id i w) (iw_db w1) (iw_db w3)"
      proof (cases "wf_mail (iw_db w1)")
        case True
        have "own_ids (current_user_id i w) (m_id ` snd ` set ?c) (iw_db w2)"
          by (intro own_ids_subset [OF selected_own [OF s [unfolded Inr] True, unfolded u]])
            (use picked_subset(2) [of ns ms] in auto)
        from spares_trans [OF 2 move_each_spares [OF st this]] show ?thesis .
      qed (simp add: spares_def)
      obtain v w4 where v: "copy_validity rnd (current_user_id i w1) name w3 = (v, w4)"
        by (cases "copy_validity rnd (current_user_id i w1) name w3")
      have "mail_table (iw_db (snd (snd (imap_move k rnd ns dest i w)))) = mail_table (iw_db w4)"
        using False c Some s Inr f v by (simp add: imap_move_def Let_def split_beta)
      then have "spares (current_user_id i w) (iw_db w3) (iw_db (snd (snd (imap_move k rnd ns dest i w))))"
        using copy_validity_mail [OF v] by (intro spares_mail) simp
      then show ?thesis using 1 3 by (blast intro: spares_trans)
    qed
  qed
qed

lemma expunge_spares: "spares (current_user_id i w) (iw_db w) (iw_db (snd (snd (imap_expunge k uids i w))))"
proof (cases "is_read_only i w")
  case True
  then show ?thesis by (simp add: imap_expunge_def)
next
  case False
  obtain r w1 where s: "selected_messages i w = (r, w1)" by (cases "selected_messages i w")
  have 1: "spares (current_user_id i w) (iw_db w) (iw_db w1)" using selected_result(1) [OF s] by (rule spares_mail)
  show ?thesis
  proof (cases r)
    case (Inl e)
    with s False 1 show ?thesis by (simp add: imap_expunge_def)
  next
    case (Inr ms)
    let ?t = "filter (\<lambda>(seq, m). m_is_deleted m \<and> (case uids of None \<Rightarrow> True | Some P \<Rightarrow> P (uid_of m))) (numbered ms)"
    obtain q w2 where f: "on_db (mails_delete_many (map (m_id \<circ> snd) ?t)) w1 = (q, w2)"
      by (cases "on_db (mails_delete_many (map (m_id \<circ> snd) ?t)) w1")
    note st = on_db_result [OF f, THEN conjunct1]
    have 2: "spares (current_user_id i w) (iw_db w) (iw_db w2)"
    proof (cases "wf_mail (iw_db w)")
      case True
      have "set (map (m_id \<circ> snd) ?t) \<subseteq> m_id ` set ms" using picked_subset(1) [of _ ms] by fastforce
      from spares_trans [OF 1 delete_many_spares [OF st selected_own [OF s [unfolded Inr] True] this]] show ?thesis .
    qed (simp add: spares_def)
    have "iw_db (snd (snd (imap_expunge k uids i w))) = (if ?t = [] then iw_db w1 else iw_db w2)"
      using False s Inr f by (simp add: imap_expunge_def Let_def split_beta split: sum.splits)
    with 1 2 show ?thesis by simp
  qed
qed

lemma copy_spares: "spares (current_user_id i w) (iw_db w) (iw_db (snd (imap_copy now rnd ns dest i w)))"
proof -
  obtain q w1 where c: "canonical_mailbox_name dest i w = (q, w1)" by (cases "canonical_mailbox_name dest i w")
  obtain d where d: "w1 = w\<lparr>iw_db := d\<rparr>" using canonical_name_result(2) [OF c] by blast
  have u: "current_user_id i w1 = current_user_id i w" by (simp add: d)
  have 1: "spares (current_user_id i w) (iw_db w) (iw_db w1)" using canonical_name_result(1) [OF c] by (rule spares_mail)
  obtain r w2 where s: "selected_messages i w1 = (r, w2)" by (cases "selected_messages i w1")
  have 2: "spares (current_user_id i w) (iw_db w) (iw_db w2)" using spares_trans [OF 1 spares_mail [OF selected_result(1) [OF s]]] .
  show ?thesis
  proof (cases q)
    case None
    with c 1 show ?thesis by (simp add: imap_copy_def)
  next
    case (Some name)
    show ?thesis
    proof (cases r)
      case (Inl e)
      with c s Some 2 show ?thesis by (simp add: imap_copy_def Let_def)
    next
      case (Inr ms)
      let ?f = "copy_loop now (current_user_id i w1) name (map snd (picked ns ms))"
      obtain us w3 where f: "on_db ?f w2 = (us, w3)" by (cases "on_db ?f w2")
      have 3: "spares (current_user_id i w) (iw_db w2) (iw_db w3)"
        using copy_loop_spares [OF on_db_result [OF f, THEN conjunct1]] u by simp
      let ?w4 = "enqueue_exists (current_email i w3) (current_user_id i w1) name w3"
      obtain v w5 where v: "copy_validity rnd (current_user_id i w1) name ?w4 = (v, w5)"
        by (cases "copy_validity rnd (current_user_id i w1) name ?w4")
      have "iw_db (snd (imap_copy now rnd ns dest i w)) = iw_db w5"
        using c Some s Inr f v by (simp add: imap_copy_def Let_def)
      then have "spares (current_user_id i w) (iw_db w3) (iw_db (snd (imap_copy now rnd ns dest i w)))"
        using copy_validity_mail [OF v] by (intro spares_mail) simp
      then show ?thesis using 2 3 by (blast intro: spares_trans)
    qed
  qed
qed

lemma append_spares: "spares (current_user_id i w) (iw_db w) (iw_db (snd (imap_append srv now rnd n body o' i w)))"
proof -
  obtain q w1 where c: "canonical_mailbox_name n i w = (q, w1)" by (cases "canonical_mailbox_name n i w")
  obtain d where d: "w1 = w\<lparr>iw_db := d\<rparr>" using canonical_name_result(2) [OF c] by blast
  have u: "current_user_id i w1 = current_user_id i w" by (simp add: d)
  have 1: "spares (current_user_id i w) (iw_db w) (iw_db w1)" using canonical_name_result(1) [OF c] by (rule spares_mail)
  have 2: "spares (current_user_id i w) (iw_db w) (iw_db w2)"
    if "on_db (mails_create now (append_message srv now (current_user_id i w1) name o' data mr)) w1 = (r, w2)" for name data mr r w2
    using spares_trans [OF 1 mails_create_spares [OF on_db_result [OF that, THEN conjunct1]]]
    by (simp add: append_message_def Let_def u split: prod.splits)
  have 3: "spares (current_user_id i w) (iw_db w) (iw_db w4)"
    if "on_db (mails_create now (append_message srv now (current_user_id i w1) name o' data mr)) w1 = (r, w2)"
      and "copy_validity rnd (current_user_id i w1) name (enqueue_exists e (current_user_id i w1) name w2) = (v, w4)" for name data mr r w2 e v w4
    using spares_trans [OF 2 [OF that(1)] spares_mail] copy_validity_mail [OF that(2)] by simp
  show ?thesis
    using c 1 2 3 by (auto simp: imap_append_def Let_def split: option.splits prod.splits sum.splits)
qed

lemma no_response_spares:
  assumes "\<And>r s'. f (iw_db w) = (r, s') \<Longrightarrow> spares uid (iw_db w) s'"
  shows "spares uid (iw_db w) (iw_db (snd (no_response (on_db f w))))"
  using assms by (cases "f (iw_db w)") (simp add: no_response_def on_db_def)

lemma read_spares:
  assumes "selected_messages i w = (r, w1)"
  shows "spares (current_user_id i w) (iw_db w) (iw_db w1)"
  using selected_result(1) [OF assms] by (rule spares_mail)

lemma select_spares: "spares (current_user_id i w) (iw_db w) (iw_db (snd (imap_select rnd n ro i w)))"
proof -
  obtain q w1 where c: "canonical_mailbox_name n i w = (q, w1)" by (cases "canonical_mailbox_name n i w")
  note m1 = canonical_name_result(1) [OF c]
  show ?thesis
  proof (cases q)
    case None
    with c m1 show ?thesis by (simp add: imap_select_def spares_mail)
  next
    case (Some name)
    obtain r w2 where s: "on_db (svc_select rnd (current_user_id i w1) name) w1 = (r, w2)"
      by (cases "on_db (svc_select rnd (current_user_id i w1) name) w1")
    have m2: "mail_table (iw_db w2) = mail_table (iw_db w)"
      using select_mail [OF on_db_result [OF s, THEN conjunct1]] m1 by simp
    obtain k w3 where h: "hub_for_or_create (current_email i (leave_hub i w2)) name (leave_hub i w2) = (k, w3)"
      by (cases "hub_for_or_create (current_email i (leave_hub i w2)) name (leave_hub i w2)")
    have "iw_db w3 = iw_db w2" using hub_for_or_create_db [OF h] by simp
    with c Some s h m2 show ?thesis by (cases r) (simp_all add: imap_select_def Let_def spares_mail)
  qed
qed

lemma status_spares: "spares (current_user_id i w) (iw_db w) (iw_db (snd (imap_status srv rnd n o' i w)))"
proof -
  obtain q w1 where c: "canonical_mailbox_name n i w = (q, w1)" by (cases "canonical_mailbox_name n i w")
  note m1 = canonical_name_result(1) [OF c]
  show ?thesis
  proof (cases q)
    case None
    with c m1 show ?thesis by (simp add: imap_status_def spares_mail)
  next
    case (Some name)
    obtain r w2 where s: "on_db (svc_status (is_fmt_date srv) rnd (current_user_id i w1) name o') w1 = (r, w2)"
      by (cases "on_db (svc_status (is_fmt_date srv) rnd (current_user_id i w1) name o') w1")
    have m2: "mail_table (iw_db w2) = mail_table (iw_db w)"
      using status_mail [OF on_db_result [OF s, THEN conjunct1]] m1 by simp
    with c Some s show ?thesis by (cases r) (simp_all add: imap_status_def spares_mail)
  qed
qed

lemma run_command_spares: "spares (current_user_id i w) (iw_db w) (iw_db (run_command srv now rnd k c i w))"
proof (cases c)
  case (Cmd_Login tls u p)
  then show ?thesis using login_mail by (simp add: run_command_def spares_mail)
next
  case (Cmd_List ref ps sub)
  then show ?thesis
    by (auto simp: run_command_def imap_list_def Let_def split: prod.splits sum.splits
        dest!: on_db_result intro!: spares_mail list_all_mail)
next
  case (Cmd_Create n)
  then show ?thesis unfolding run_command_def imap_create_def
    by (simp, intro no_response_spares spares_mail create_mail)
next
  case (Cmd_Delete n)
  then show ?thesis unfolding run_command_def imap_delete_def
    by (simp, intro no_response_spares spares_mail delete_mail)
next
  case (Cmd_Rename a b)
  then show ?thesis unfolding run_command_def imap_rename_def
    by (simp, intro no_response_spares rename_spares)
next
  case (Cmd_Subscribe n)
  then show ?thesis unfolding run_command_def imap_subscribe_def
    by (simp, intro no_response_spares spares_mail set_subscribed_mail)
next
  case (Cmd_Unsubscribe n)
  then show ?thesis unfolding run_command_def imap_unsubscribe_def
    by (simp, intro no_response_spares spares_mail set_subscribed_mail)
next
  case (Cmd_Fetch ns o')
  then show ?thesis
    by (auto simp: run_command_def imap_fetch_def Let_def split: prod.splits sum.splits intro: read_spares)
next
  case (Cmd_Search by_uid cr)
  then show ?thesis
    by (auto simp: run_command_def imap_search_def Let_def split: prod.splits sum.splits intro: read_spares)
next
  case (Cmd_Poll allow)
  then show ?thesis by (auto simp: run_command_def imap_poll_def Let_def split: option.splits prod.splits)
qed (simp_all add: run_command_def select_spares status_spares store_spares move_spares expunge_spares copy_spares
    append_spares imap_unselect_def)

text \<open>C3: no IMAP command reaches the mail of another user. Whatever command a session gives, with whatever
  arguments, failing statements and broken writes, the messages of every user but the one the session is
  logged in as stay exactly as they are, and the message table keeps its order and unique ids. (A
  session that is not logged in counts as user 0, which is the id of no account.)\<close>

theorem imap_command_isolated:
  assumes "wf_mail (iw_db w)" and "v \<noteq> current_user_id i w"
  shows "wf_mail (iw_db (run_command srv now rnd k c i w)) \<and>
    filter (\<lambda>m. m_user_id m = v) (db_messages (iw_db (run_command srv now rnd k c i w))) =
      filter (\<lambda>m. m_user_id m = v) (db_messages (iw_db w))"
proof -
  let ?w = "run_command srv now rnd k c i w"
  have s: "wf_mail (iw_db ?w)" "others (current_user_id i w) (iw_db ?w) = others (current_user_id i w) (iw_db w)"
    using run_command_spares [of i w srv now rnd k c] assms(1) by (simp_all add: spares_def)
  have "filter (\<lambda>m. m_user_id m = v) (db_messages t) = filter (\<lambda>m. m_user_id m = v) (others (current_user_id i w) t)" for t
    unfolding others_def using assms(2) by (simp, intro filter_cong) auto
  with s show ?thesis by simp
qed

definition sample_imap_server :: imap_server where
  "sample_imap_server = \<lparr>is_cfg = \<lparr>ic_addr = '':143'', ic_tls_addr = [], ic_tls_cert = [], ic_tls_key = []\<rparr>,
     is_ban = \<lparr>bc_max_fail_attempts = 5, bc_ban_duration_min = 30\<rparr>, is_check_pw = (=), is_fmt_date = (\<lambda>_. ''today''),
     is_mime = \<lparr>me_create_reader = (\<lambda>_. None), me_charsets = (\<lambda>_. None), me_decode_header = Some\<rparr>,
     is_extract = \<lparr>ex_envelope = (\<lambda>_. None), ex_structure = (\<lambda>_. None), ex_section = (\<lambda>_ _. []), ex_addresses = (\<lambda>_. None)\<rparr>\<rparr>"

lemma imap_command_isolated_witness:
  "filter (\<lambda>m. m_user_id m = 8) (db_messages (iw_db (run_command sample_imap_server 0 None None
     (Cmd_Store (Uid_Set [(0, 0)]) Flags_Add False [Flag_Deleted]) 2
     (sample_imap_world [sample_message 4 7 ''INBOX'', sample_message 5 8 ''INBOX''])))) = [sample_message 5 8 ''INBOX'']"
proof -
  let ?w = "sample_imap_world [sample_message 4 7 ''INBOX'', sample_message 5 8 ''INBOX'']"
  have "wf_mail (iw_db ?w)" "(8::nat) \<noteq> current_user_id 2 ?w"
    by (simp_all add: wf_mail_def wf_rows_def sample_mails_def)
  from imap_command_isolated [OF this] show ?thesis by (simp add: sample_mails_def)
qed

section \<open>Who is in a hub\<close>

text \<open>
  A session's seat: the hub it is in, its user and its mailbox. The hubs and the seats are what a command
  must keep in step; most commands leave both alone.
\<close>

definition seat :: "imap_world \<Rightarrow> nat \<Rightarrow> (string option \<times> string \<times> string) option" where
  "seat w i = map_option (\<lambda>s. (im_hub s, im_email s, im_selected s)) (iw_sessions w i)"

definition places :: "imap_world \<Rightarrow> (string \<Rightarrow> nat list option) \<times> (nat \<Rightarrow> (string option \<times> string \<times> string) option)" where
  "places w = (iw_hubs w, seat w)"

definition hub_ok :: "imap_world \<Rightarrow> bool" where
  "hub_ok w \<longleftrightarrow>
     (\<forall>k i. (\<exists>is. iw_hubs w k = Some is \<and> i \<in> set is) \<longleftrightarrow> (\<exists>e f. seat w i = Some (Some k, e, f))) \<and>
     (\<forall>k is. iw_hubs w k = Some is \<longrightarrow> distinct is) \<and>
     (\<forall>i k e f. seat w i = Some (Some k, e, f) \<longrightarrow> k = hub_key e f)"

lemma hub_ok_places: "places w' = places w \<Longrightarrow> hub_ok w' = hub_ok w"
  by (simp add: hub_ok_def places_def)

lemma places_db [simp]: "places (w\<lparr>iw_db := d\<rparr>) = places w" "places (w\<lparr>iw_conns := h\<rparr>) = places w"
  by (simp_all add: places_def seat_def fun_eq_iff)

lemma places_upd:
  "(\<And>s. im_hub (f s) = im_hub s \<and> im_email (f s) = im_email s \<and> im_selected (f s) = im_selected s) \<Longrightarrow>
   places (upd_session i f w) = places w"
  by (auto simp: places_def seat_def fun_eq_iff option.map_comp comp_def)

lemma places_hub_enqueue [simp]: "places (hub_enqueue k u src w) = places w"
proof -
  have "places (fold (\<lambda>j. upd_session j (push_update u)) js w) = places w" for js
    by (induction js arbitrary: w) (simp_all add: places_upd)
  then show ?thesis by (simp add: hub_enqueue_def split: option.splits)
qed

lemma places_fold: "(\<And>x w. places (f x w) = places w) \<Longrightarrow> places (fold f xs w) = places w"
  by (induction xs arbitrary: w) simp_all

lemma places_enqueue_exists [simp]: "places (enqueue_exists e u f w) = places w"
  by (simp add: enqueue_exists_def split: option.splits prod.splits sum.splits)

lemma places_enqueue_expunges [simp]: "places (enqueue_expunges hub i seqs w) = places w"
  by (simp add: enqueue_expunges_def places_fold split: option.splits)

lemma places_announce [simp]: "places (announce_flags hub i op fl cs w) = places w"
  by (auto simp: announce_flags_def intro!: places_fold split: option.splits prod.splits)

lemma places_apply_push [simp]: "places (apply_push e w) = places w"
  by (auto simp: apply_push_def push_new_message_def push_flags_changed_def push_expunged_def Let_def
      intro!: places_fold split: push_event.splits option.splits prod.splits)

lemma places_snd_on_db [simp]: "places (snd (on_db f w)) = places w"
  by (simp add: on_db_def split_beta)

lemma places_on_db: "on_db f w = (r, w') \<Longrightarrow> places w' = places w"
  by (metis places_snd_on_db snd_conv)

lemma places_canonical: "canonical_mailbox_name n i w = (q, w1) \<Longrightarrow> places w1 = places w"
  unfolding canonical_mailbox_name_def by (rule places_on_db)

lemma places_selected: "selected_messages i w = (q, w1) \<Longrightarrow> places w1 = places w"
  unfolding selected_messages_def by (rule places_on_db)

lemma places_validity [simp]: "places (snd (copy_validity rnd uid f w)) = places w"
  by (simp add: copy_validity_def Let_def split_beta)

lemma places_no_response: "places (snd (no_response (on_db f w))) = places w"
  by (cases "on_db f w") (simp add: no_response_def places_on_db)

lemma places_poll: "places (snd (snd (imap_poll k allow i w))) = places w"
  by (auto simp: imap_poll_def take_updates_def places_def seat_def fun_eq_iff Let_def split: option.splits prod.splits if_splits)

text \<open>The commands that move nobody.\<close>

definition sedentary :: "imap_command \<Rightarrow> bool" where
  "sedentary c = (case c of Cmd_Login _ _ _ \<Rightarrow> False | Cmd_Select _ _ \<Rightarrow> False | Cmd_Unselect \<Rightarrow> False | _ \<Rightarrow> True)"

lemma places_store: "places (snd (snd (imap_store k ns op silent fl i w))) = places w"
proof -
  obtain r w1 where s: "selected_messages i w = (r, w1)" by (cases "selected_messages i w")
  show ?thesis using places_selected [OF s] by (cases r) (simp_all add: imap_store_def s Let_def split_beta)
qed

lemma places_move: "places (snd (snd (imap_move k rnd ns dest i w))) = places w"
proof -
  obtain q w1 where c: "canonical_mailbox_name dest i w = (q, w1)" by (cases "canonical_mailbox_name dest i w")
  obtain r w2 where s: "selected_messages i w1 = (r, w2)" by (cases "selected_messages i w1")
  have 2: "places w2 = places w" using places_canonical [OF c] places_selected [OF s] by simp
  show ?thesis using 2 places_canonical [OF c]
    by (cases q; cases r) (simp_all add: imap_move_def c s Let_def split_beta)
qed

lemma places_expunge: "places (snd (snd (imap_expunge k uids i w))) = places w"
proof -
  obtain r w1 where s: "selected_messages i w = (r, w1)" by (cases "selected_messages i w")
  show ?thesis using places_selected [OF s]
    by (cases r) (simp_all add: imap_expunge_def s Let_def split_beta split: sum.splits)
qed

lemma places_copy: "places (snd (imap_copy now rnd ns dest i w)) = places w"
proof -
  obtain q w1 where c: "canonical_mailbox_name dest i w = (q, w1)" by (cases "canonical_mailbox_name dest i w")
  obtain r w2 where s: "selected_messages i w1 = (r, w2)" by (cases "selected_messages i w1")
  have 2: "places w2 = places w" using places_canonical [OF c] places_selected [OF s] by simp
  show ?thesis using 2 places_canonical [OF c]
    by (cases q; cases r) (simp_all add: imap_copy_def c s Let_def split_beta)
qed

lemma places_append: "places (snd (imap_append srv now rnd n body o' i w)) = places w"
proof -
  obtain q w1 where c: "canonical_mailbox_name n i w = (q, w1)" by (cases "canonical_mailbox_name n i w")
  show ?thesis using places_canonical [OF c]
    by (auto simp: imap_append_def c Let_def split_beta split: option.splits sum.splits)
qed

lemma places_sedentary:
  assumes "sedentary c"
  shows "places (run_command srv now rnd k c i w) = places w"
proof (cases c)
  case (Cmd_List ref ps sub)
  then show ?thesis
    by (auto simp: run_command_def imap_list_def Let_def split: prod.splits sum.splits dest: places_on_db)
next
  case (Cmd_Status n o')
  then show ?thesis
    by (auto simp: run_command_def imap_status_def Let_def split: prod.splits sum.splits option.splits
        dest!: places_on_db places_canonical)
next
  case (Cmd_Fetch ns o')
  then show ?thesis
    by (auto simp: run_command_def imap_fetch_def Let_def split: prod.splits sum.splits dest: places_selected)
next
  case (Cmd_Search by_uid cr)
  then show ?thesis
    by (auto simp: run_command_def imap_search_def Let_def split: prod.splits sum.splits dest: places_selected)
qed (use assms in \<open>simp_all add: sedentary_def run_command_def imap_create_def imap_delete_def imap_rename_def imap_subscribe_def
    imap_unsubscribe_def places_no_response places_store places_move places_expunge places_copy places_append places_poll\<close>)

lemma hub_okI:
  assumes "\<And>k i. (\<exists>is. iw_hubs w k = Some is \<and> i \<in> set is) \<longleftrightarrow> (\<exists>e f. seat w i = Some (Some k, e, f))"
    and "\<And>k is. iw_hubs w k = Some is \<Longrightarrow> distinct is"
    and "\<And>i k e f. seat w i = Some (Some k, e, f) \<Longrightarrow> k = hub_key e f"
  shows "hub_ok w"
  using assms by (auto simp: hub_ok_def)

lemma hub_okD:
  assumes "hub_ok w"
  shows "(\<exists>is. iw_hubs w k = Some is \<and> i \<in> set is) \<longleftrightarrow> (\<exists>e f. seat w i = Some (Some k, e, f))"
    and "iw_hubs w k = Some is \<Longrightarrow> distinct is"
    and "seat w i = Some (Some k, e, f) \<Longrightarrow> k = hub_key e f"
  using assms by (auto simp: hub_ok_def)

lemma seat_upd: "seat (upd_session i g w) j =
    (if j = i then map_option (\<lambda>s. (im_hub (g s), im_email (g s), im_selected (g s))) (iw_sessions w i) else seat w j)"
  by (simp add: seat_def option.map_comp comp_def)

text \<open>Leaving, joining, and changes of a session that is in no hub.\<close>

lemma leave_hub_ok:
  assumes "hub_ok w"
  shows "hub_ok (leave_hub i w)" and "hub_for_selected i (leave_hub i w) = None"
    and "map_option im_email (iw_sessions (leave_hub i w) i) = map_option im_email (iw_sessions w i)"
proof -
  let ?w = "leave_hub i w"
  have "hub_ok ?w \<and> hub_for_selected i ?w = None \<and> map_option im_email (iw_sessions ?w i) = map_option im_email (iw_sessions w i)"
  proof (cases "hub_for_selected i w")
    case None
    then show ?thesis using assms by (simp add: leave_hub_def)
  next
    case (Some k)
    then obtain s where s: "iw_sessions w i = Some s" "im_hub s = Some k"
      by (auto simp: hub_for_selected_def of_session_def split: option.splits)
    have hubs: "iw_hubs ?w l = (if l = k then map_option (filter (\<lambda>j. j \<noteq> i)) (iw_hubs w k) else iw_hubs w l)" for l
      using Some by (simp add: leave_hub_def hub_remove_def)
    have "iw_sessions ?w = iw_sessions (upd_session i (\<lambda>s. s\<lparr>im_hub := None\<rparr>) w)"
      using Some by (simp add: leave_hub_def hub_remove_def)
    then have seats: "seat ?w j = (if j = i then Some (None, im_email s, im_selected s) else seat w j)" for j
      by (simp add: seat_def s)
    have si: "seat w i = Some (Some k, im_email s, im_selected s)" by (simp add: seat_def s)
    have "hub_ok ?w"
    proof (rule hub_okI)
      fix l j
      show "(\<exists>is. iw_hubs ?w l = Some is \<and> j \<in> set is) \<longleftrightarrow> (\<exists>e f. seat ?w j = Some (Some l, e, f))"
      proof (cases "j = i")
        case True
        have "\<not> (\<exists>is. iw_hubs w l = Some is \<and> i \<in> set is)" if "l \<noteq> k"
          using hub_okD(1) [OF assms, of l i] si that by auto
        then show ?thesis using True by (auto simp: hubs seats)
      next
        case False
        then show ?thesis using hub_okD(1) [OF assms, of l j] by (auto simp: hubs seats)
      qed
    next
      fix l "is" assume "iw_hubs ?w l = Some is"
      then show "distinct is" using hub_okD(2) [OF assms] by (auto simp: hubs split: if_splits)
    next
      fix j l e f assume "seat ?w j = Some (Some l, e, f)"
      then show "l = hub_key e f" using hub_okD(3) [OF assms] by (auto simp: seats split: if_splits)
    qed
    moreover have "hub_for_selected i ?w = None" using seats [of i]
      by (auto simp: seat_def hub_for_selected_def of_session_def split: option.splits)
    ultimately show ?thesis using Some s by (simp add: leave_hub_def hub_remove_def)
  qed
  then show "hub_ok ?w" "hub_for_selected i ?w = None"
    "map_option im_email (iw_sessions ?w i) = map_option im_email (iw_sessions w i)" by blast+
qed

lemma unseated:
  assumes "hub_for_selected i w = None"
  shows "seat w i \<noteq> Some (Some k, e, f)"
  using assms by (auto simp: hub_for_selected_def of_session_def seat_def split: option.splits)

lemma unseated_change:
  assumes "hub_ok w" and "hub_for_selected i w = None"
    and "iw_hubs w' = iw_hubs w" and "\<And>j. j \<noteq> i \<Longrightarrow> seat w' j = seat w j" and "\<And>k e f. seat w' i \<noteq> Some (Some k, e, f)"
  shows "hub_ok w'"
proof (rule hub_okI)
  fix k j
  show "(\<exists>is. iw_hubs w' k = Some is \<and> j \<in> set is) \<longleftrightarrow> (\<exists>e f. seat w' j = Some (Some k, e, f))"
    using hub_okD(1) [OF assms(1), of k j] unseated [OF assms(2)] assms(3-5) by (cases "j = i") auto
next
  fix k "is" assume "iw_hubs w' k = Some is"
  then show "distinct is" using hub_okD(2) [OF assms(1)] assms(3) by simp
next
  fix j k e f assume "seat w' j = Some (Some k, e, f)"
  then show "k = hub_key e f" using hub_okD(3) [OF assms(1), of j k e f] assms(4,5) by (cases "j = i") auto
qed

lemma join_ok:
  assumes "hub_ok w" and "hub_for_selected i w = None" and "iw_sessions w i = Some s"
    and "hub_for_or_create (im_email s) f w = (k, w1)"
  shows "hub_ok (upd_session i (\<lambda>s. s\<lparr>im_selected := f, im_read_only := ro, im_hub := Some k\<rparr>) (hub_add k i w1))"
proof -
  let ?g = "\<lambda>s. s\<lparr>im_selected := f, im_read_only := ro, im_hub := Some k\<rparr>"
  let ?w = "upd_session i ?g (hub_add k i w1)"
  have k: "k = hub_key (im_email s) f" using assms(4) by (auto simp: hub_for_or_create_def Let_def split: option.splits)
  have sess: "iw_sessions w1 = iw_sessions w" using assms(4) by (auto simp: hub_for_or_create_def Let_def split: option.splits)
  define old where "old = (case iw_hubs w k of None \<Rightarrow> [] | Some is \<Rightarrow> is)"
  have h1: "iw_hubs w1 = (iw_hubs w)(k \<mapsto> old)"
    using assms(4) by (auto simp: hub_for_or_create_def Let_def old_def split: option.splits)
  have nin: "i \<notin> set old"
    using hub_okD(1) [OF assms(1), of k i] unseated [OF assms(2)] by (auto simp: old_def split: option.splits)
  have hubs: "iw_hubs (hub_add k i w1) l = (if l = k then Some (old @ [i]) else iw_hubs w l)" for l
    using nin by (simp add: hub_add_def h1)
  have seats: "seat ?w j = (if j = i then Some (Some k, im_email s, f) else seat w j)" for j
    unfolding seat_upd using assms(3) by (simp add: hub_add_def sess seat_def)
  show ?thesis
  proof (rule hub_okI)
    fix l j
    show "(\<exists>is. iw_hubs ?w l = Some is \<and> j \<in> set is) \<longleftrightarrow> (\<exists>e f. seat ?w j = Some (Some l, e, f))"
    proof (cases "j = i")
      case True
      have "\<not> (\<exists>is. iw_hubs w l = Some is \<and> i \<in> set is)"
        using hub_okD(1) [OF assms(1), of l i] unseated [OF assms(2)] by auto
      then show ?thesis using True by (auto simp: hubs seats)
    next
      case False
      then show ?thesis using hub_okD(1) [OF assms(1), of l j] by (auto simp: hubs seats old_def split: option.splits)
    qed
  next
    fix l "is" assume "iw_hubs ?w l = Some is"
    then show "distinct is" using hub_okD(2) [OF assms(1)] nin by (auto simp: hubs old_def split: if_splits option.splits)
  next
    fix j l e g assume "seat ?w j = Some (Some l, e, g)"
    then have "j = i \<and> l = k \<and> e = im_email s \<and> g = f \<or> seat w j = Some (Some l, e, g)"
      unfolding seats by (auto split: if_splits)
    then show "l = hub_key e g" using hub_okD(3) [OF assms(1), of j l e g] k by blast
  qed
qed

lemma select_ok:
  assumes "hub_ok w" and "iw_sessions w i \<noteq> None"
  shows "hub_ok (snd (imap_select rnd n ro i w))"
proof -
  obtain q w1 where c: "canonical_mailbox_name n i w = (q, w1)" by (cases "canonical_mailbox_name n i w")
  have p1: "hub_ok w1" using hub_ok_places [OF places_canonical [OF c]] assms(1) by simp
  have s1: "iw_sessions w1 = iw_sessions w" using canonical_name_result(2) [OF c] by auto
  show ?thesis
  proof (cases q)
    case None
    with c p1 show ?thesis by (simp add: imap_select_def)
  next
    case (Some name)
    obtain r w2 where f: "on_db (svc_select rnd (current_user_id i w1) name) w1 = (r, w2)"
      by (cases "on_db (svc_select rnd (current_user_id i w1) name) w1")
    have p2: "hub_ok w2" using hub_ok_places [OF places_on_db [OF f]] p1 by simp
    have s2: "iw_sessions w2 = iw_sessions w" using on_db_result [OF f] s1 by (metis imap_world.select_convs(3) imap_world.surjective imap_world.update_convs(1))
    let ?w3 = "leave_hub i w2"
    note l = leave_hub_ok [OF p2, of i]
    obtain s where s: "iw_sessions ?w3 i = Some s" using l(3) s2 assms(2) by (cases "iw_sessions ?w3 i") auto
    obtain k w4 where h: "hub_for_or_create (current_email i ?w3) name ?w3 = (k, w4)"
      by (cases "hub_for_or_create (current_email i ?w3) name ?w3")
    have "current_email i ?w3 = im_email s" by (simp add: current_email_def of_session_def s)
    with h have "hub_for_or_create (im_email s) name ?w3 = (k, w4)" by simp
    from join_ok [OF l(1,2) s this] c Some f h p2 show ?thesis by (cases r) (simp_all add: imap_select_def Let_def)
  qed
qed

lemma unselect_ok: "hub_ok w \<Longrightarrow> hub_ok (imap_unselect i w)"
  unfolding imap_unselect_def
  by (rule unseated_change [OF leave_hub_ok(1,2)]) (auto simp: seat_upd)

lemma close_ok: "hub_ok w \<Longrightarrow> hub_ok (imap_close now i w)"
  unfolding imap_close_def Let_def
  by (rule unseated_change [OF leave_hub_ok(1,2)]) (auto simp: seat_def split: option.splits)

lemma login_ok:
  assumes "hub_ok w" and "hub_for_selected i w = None"
  shows "hub_ok (snd (imap_login srv now tls u p i w))"
proof -
  let ?w = "snd (imap_login srv now tls u p i w)"
  have "(\<exists>d. ?w = w\<lparr>iw_db := d\<rparr>) \<or> (\<exists>d h v e lid ip c. ?w = upd_session i (\<lambda>s. s\<lparr>im_user_id := v, im_email := e, im_log_id := lid,
      im_ip := ip, im_conn := c\<rparr>) (w\<lparr>iw_db := d, iw_conns := h\<rparr>))"
    unfolding imap_login_def Let_def by (simp split: prod.splits option.splits, blast)
  then show ?thesis
  proof (elim disjE exE)
    fix d assume "?w = w\<lparr>iw_db := d\<rparr>"
    then show ?thesis using assms(1) hub_ok_places [of ?w w] by simp
  next
    fix d h v e lid ip c
    assume w: "?w = upd_session i (\<lambda>s. s\<lparr>im_user_id := v, im_email := e, im_log_id := lid,
      im_ip := ip, im_conn := c\<rparr>) (w\<lparr>iw_db := d, iw_conns := h\<rparr>)"
    show ?thesis
    proof (rule unseated_change [OF assms])
      show "iw_hubs ?w = iw_hubs w" unfolding w by simp
      show "seat ?w j = seat w j" if "j \<noteq> i" for j unfolding w seat_upd using that by (simp add: seat_def)
      show "seat ?w i \<noteq> Some (Some k, e, f)" for k e f unfolding w seat_upd
        using unseated [OF assms(2)] by (auto simp: seat_def)
    qed
  qed
qed

section \<open>Reachable worlds\<close>

text \<open>
  Sessions open and end, give commands, and the other servers change the database and call the pusher,
  in any order. The library gives a command only to an open session, and LOGIN only while no mailbox is
  selected.
\<close>

definition allowed :: "imap_command \<Rightarrow> nat \<Rightarrow> imap_world \<Rightarrow> bool" where
  "allowed c i w \<longleftrightarrow> iw_sessions w i \<noteq> None \<and>
     (case c of Cmd_Login _ _ _ \<Rightarrow> hub_for_selected i w = None | _ \<Rightarrow> True)"

inductive imap_reach :: "imap_server \<Rightarrow> imap_world \<Rightarrow> bool" for srv where
  Boot: "iw_sessions w = (\<lambda>_. None) \<Longrightarrow> iw_hubs w = (\<lambda>_. None) \<Longrightarrow> imap_reach srv w"
| Accept: "imap_reach srv w \<Longrightarrow> iw_sessions w i = None \<Longrightarrow> imap_reach srv (open_session port remote now i w)"
| Command: "imap_reach srv w \<Longrightarrow> allowed c i w \<Longrightarrow> imap_reach srv (run_command srv now rnd k c i w)"
| End: "imap_reach srv w \<Longrightarrow> imap_reach srv (imap_close now i w)"
| Pushed: "imap_reach srv w \<Longrightarrow> imap_reach srv (apply_push e w)"
| Kicked: "imap_reach srv w \<Longrightarrow> imap_reach srv (disconnect_by_addr addr w)"
| Elsewhere: "imap_reach srv w \<Longrightarrow> imap_reach srv (w\<lparr>iw_db := d, iw_conns := h\<rparr>)"

lemma open_ok:
  assumes "hub_ok w" and "iw_sessions w i = None"
  shows "hub_ok (open_session port remote now i w)"
proof (rule unseated_change [OF assms(1)])
  show "hub_for_selected i w = None" by (simp add: hub_for_selected_def of_session_def assms(2))
qed (simp_all add: open_session_def seat_def new_imap_session_def)

lemma run_command_ok:
  assumes "hub_ok w" and "allowed c i w"
  shows "hub_ok (run_command srv now rnd k c i w)"
proof (cases "sedentary c")
  case True
  with hub_ok_places [OF places_sedentary] assms(1) show ?thesis by blast
next
  case False
  with assms show ?thesis
    by (cases c) (auto simp: sedentary_def run_command_def allowed_def intro: login_ok select_ok unselect_ok)
qed

lemma reach_hub_ok: "imap_reach srv w \<Longrightarrow> hub_ok w"
proof (induction rule: imap_reach.induct)
  case (Boot w)
  then show ?case by (auto intro!: hub_okI simp: seat_def)
next
  case (Kicked w addr)
  have "places (disconnect_by_addr addr w) = places w"
    by (auto simp: disconnect_by_addr_def places_def seat_def fun_eq_iff option.map_comp comp_def intro!: option.map_cong)
  with Kicked show ?case using hub_ok_places by blast
next
  case (Pushed w e)
  then show ?case using hub_ok_places [OF places_apply_push] by blast
next
  case (Elsewhere w h d)
  have "places (w\<lparr>iw_db := d, iw_conns := h\<rparr>) = places w" by (simp add: places_def seat_def fun_eq_iff)
  with Elsewhere show ?case using hub_ok_places by blast
qed (auto intro: open_ok run_command_ok close_ok)

text \<open>C7: a notice of new mail reaches exactly the sessions that show the mailbox. In every reachable state
  of the server, when mail is announced for an address and a folder (neither with a NUL byte) and no
  statement fails, each session that is logged in with that address and has that folder selected gets
  one more update, the current number of messages, at the end of its queue; every other session's
  queue, of another user or with another folder or none selected, stays as it was, and so do the
  tables.\<close>

theorem new_mail_reaches_selected:
  assumes "imap_reach srv w" and "db_faults (iw_db w) = []" and "email \<noteq> []" and "m_folder msg \<noteq> []"
    and "char_of (0 :: nat) \<notin> set email" and "char_of (0 :: nat) \<notin> set (m_folder msg)"
  shows "(\<forall>i. pending (push_new_message email msg w) i =
      pending w i @
        (if \<exists>s. iw_sessions w i = Some s \<and> im_hub s \<noteq> None \<and> im_email s = email \<and> im_selected s = m_folder msg
         then [Up_Exists (of_nat (length (folder_view (m_user_id msg) (m_folder msg) (iw_db w))))] else [])) \<and>
    iw_db (push_new_message email msg w) = iw_db w"
proof -
  let ?k = "hub_key email (m_folder msg)"
  have ok: "hub_ok w" using assms(1) by (rule reach_hub_ok)
  note inj = hub_key_inj [OF assms(5,6)]
  have mem: "(\<exists>s. iw_sessions w i = Some s \<and> im_hub s \<noteq> None \<and> im_email s = email \<and> im_selected s = m_folder msg) \<longleftrightarrow>
      (\<exists>is. iw_hubs w ?k = Some is \<and> i \<in> set is)" for i
  proof
    assume "\<exists>s. iw_sessions w i = Some s \<and> im_hub s \<noteq> None \<and> im_email s = email \<and> im_selected s = m_folder msg"
    then obtain s k where s: "iw_sessions w i = Some s" "im_hub s = Some k" "hub_key (im_email s) (im_selected s) = ?k" by auto
    then have seat: "seat w i = Some (Some k, im_email s, im_selected s)" by (simp add: seat_def)
    from hub_okD(3) [OF ok seat] s(3) have "k = ?k" by simp
    with hub_okD(1) [OF ok, of k i] seat show "\<exists>is. iw_hubs w ?k = Some is \<and> i \<in> set is" by blast
  next
    assume "\<exists>is. iw_hubs w ?k = Some is \<and> i \<in> set is"
    with hub_okD(1) [OF ok, of ?k i] obtain e f where seat: "seat w i = Some (Some ?k, e, f)" by blast
    from hub_okD(3) [OF ok this] have "e = email" "f = m_folder msg" using inj [of e f] by auto
    with seat show "\<exists>s. iw_sessions w i = Some s \<and> im_hub s \<noteq> None \<and> im_email s = email \<and> im_selected s = m_folder msg"
      by (auto simp: seat_def)
  qed
  have count: "mails_count u f (iw_db w) = (Inr (int (length (folder_view u f (iw_db w)))), iw_db w)" for u f
    using assms(2) by (simp add: mails_count_def table_simps folder_view_def)
  show ?thesis
  proof (cases "iw_hubs w ?k")
    case None
    then show ?thesis using mem assms(3,4)
      by (simp add: push_new_message_def enqueue_exists_def hub_for_def)
  next
    case (Some js)
    have d: "distinct js" using hub_okD(2) [OF ok Some] .
    have alive: "i \<in> set js \<Longrightarrow> iw_sessions w i \<noteq> None" for i using mem [of i] Some by auto
    have e: "push_new_message email msg w = fold (\<lambda>j. upd_session j (push_update (Up_Exists (of_nat (length
        (folder_view (m_user_id msg) (m_folder msg) (iw_db w))))))) js w"
      using assms(3,4) Some
      by (simp add: push_new_message_def enqueue_exists_def hub_for_def count hub_enqueue_def)
    show ?thesis unfolding e pending_fold_push [OF d] mem using alive Some by (auto simp: fold_push_update)
  qed
qed

text \<open>A run with one session: it connects, logs in and selects its INBOX.\<close>

lemma sample_authenticated:
  "guarded_login (=) bc now ''1.2.3.4'' ''ann@x.org'' ''pw'' sample_accounts =
     (Some (with_domain sample_accounts (sample_user 1 ''ann'' 1)), sample_accounts)"
proof -
  have find: "users_get_by_email ''ann@x.org'' sample_accounts =
      (Inr (with_domain sample_accounts (sample_user 1 ''ann'' 1)), sample_accounts)"
    by (simp add: users_get_by_email_def split_n2_def index_byte_def db_first_def db_stmt_def
        sample_accounts_def empty_db_def in_domain_def sample_user_def sample_domain_def zero_domain_def
        preload_domain_def preload_domains_def with_domain_def domain_of_def db_query_def)
  have "users_authenticate_login (=) ''ann@x.org'' ''pw'' sample_accounts =
      (Inr (with_domain sample_accounts (sample_user 1 ''ann'' 1)), sample_accounts)"
    by (simp add: users_authenticate_login_def users_authenticate_def find contains_def has_prefix_def
        check_account_def) (simp add: sample_user_def)
  moreover have "bans_reset_fail ip sample_accounts = (Inr (), sample_accounts)" for ip
    by (simp add: bans_reset_fail_def db_exec_def db_stmt_def del_bans_def sample_accounts_def empty_db_def)
  ultimately show ?thesis by (simp add: guarded_login_def)
qed

lemma sample_login_email:
  "login_email (with_domain sample_accounts (sample_user 1 ''ann'' 1)) sample_accounts = (''ann@x.org'', sample_accounts)"
  by (simp add: login_email_def domains_get_by_id_def db_first_def db_stmt_def sample_accounts_def empty_db_def
      sample_user_def sample_domain_def zero_domain_def with_domain_def)

definition fresh_server :: imap_world where
  "fresh_server = \<lparr>iw_db = sample_accounts, iw_conns = new_hub, iw_sessions = (\<lambda>_. None), iw_hubs = (\<lambda>_. None)\<rparr>"

lemma sample_logs_in:
  assumes "w = open_session 143 ''1.2.3.4:5'' 0 2 fresh_server"
  shows "\<exists>s. iw_sessions (run_command sample_imap_server 0 None None (Cmd_Login False ''ann@x.org'' ''pw'') 2 w) 2 = Some s \<and>
    im_email s = ''ann@x.org'' \<and> im_queue s = []"
proof -
  have ip: "client_ip_from_addr (Some ''1.2.3.4:5'') = ''1.2.3.4''" by code_simp
  have db: "iw_db w = sample_accounts" "of_session im_remote [] 2 w = ''1.2.3.4:5''"
    by (simp_all add: assms open_session_def fresh_server_def of_session_def new_imap_session_def)
  have b: "bans_is_banned 0 ''1.2.3.4'' sample_accounts = (None, sample_accounts)"
    by (simp add: bans_is_banned_def db_first_def db_stmt_def sample_accounts_def empty_db_def)
  have g: "guarded_login (is_check_pw sample_imap_server) bc 0 ''1.2.3.4'' ''ann@x.org'' ''pw'' sample_accounts =
      (Some (with_domain sample_accounts (sample_user 1 ''ann'' 1)), sample_accounts)" for bc
    by (simp add: sample_imap_server_def sample_authenticated)
  show ?thesis
    by (simp add: run_command_def imap_login_def Let_def split_beta db ip b g sample_login_email del: One_nat_def)
      (simp add: assms upd_session_def open_session_def new_imap_session_def)
qed

lemma sample_selects:
  assumes "iw_sessions w 2 = Some s" and "iw_db w = sample_accounts"
  shows "\<exists>t. iw_sessions (run_command sample_imap_server 0 None None (Cmd_Select ''INBOX'' False) 2 w) 2 = Some t \<and>
    im_email t = im_email s \<and> im_selected t = ''INBOX'' \<and> im_hub t \<noteq> None"
proof -
  let ?u = "current_user_id 2 w"
  have ok: "db_faults sample_accounts = []" by (simp add: sample_accounts_def empty_db_def)
  have inbox: "trim_space ''INBOX'' = ''INBOX''" "equal_fold ''INBOX'' ''INBOX''" by code_simp+
  obtain q d where e: "mailboxes_ensure_system ?u sample_accounts = (q, d)" by (metis prod.collapse)
  have d: "q = Inr ()" "db_faults d = []" using ensure_system_ok [OF ok, of ?u] e by simp_all
  have "fst (svc_canonical ?u ''INBOX'' sample_accounts) = Some ''INBOX''"
    using canonical_value [OF wf_sample_accounts ok, of ?u "''INBOX''"] inbox by simp
  moreover have "snd (svc_canonical ?u ''INBOX'' sample_accounts) = d"
    using inbox e d by (simp add: svc_canonical_def Let_def)
  ultimately have c: "canonical_mailbox_name ''INBOX'' 2 w = (Some ''INBOX'', w\<lparr>iw_db := d\<rparr>)"
    using assms(2) by (simp add: canonical_mailbox_name_def on_db_def split_beta)
  obtain data d' where "svc_select None ?u ''INBOX'' d = (Inr data, d')"
    using d(2) by (simp add: svc_select_def mails_list_all_def mails_max_id_def table_simps split_beta)
  with c have r: "run_command sample_imap_server 0 None None (Cmd_Select ''INBOX'' False) 2 w =
      (let w3 = leave_hub 2 (w\<lparr>iw_db := d'\<rparr>);
           (key, w4) = hub_for_or_create (current_email 2 w3) ''INBOX'' w3
       in upd_session 2 (\<lambda>s. s\<lparr>im_selected := ''INBOX'', im_read_only := False, im_hub := Some key\<rparr>) (hub_add key 2 w4))"
    by (simp add: run_command_def imap_select_def on_db_def split_beta Let_def)
  have "iw_sessions (leave_hub 2 (w\<lparr>iw_db := d'\<rparr>)) 2 = Some (s\<lparr>im_hub := None\<rparr>) \<or>
      iw_sessions (leave_hub 2 (w\<lparr>iw_db := d'\<rparr>)) 2 = Some s"
    using assms(1) by (auto simp: leave_hub_def hub_remove_def upd_session_def split: option.splits)
  then show ?thesis
    unfolding r by (auto simp: Let_def hub_for_or_create_def hub_add_def upd_session_def split: option.splits)
qed

lemma new_mail_reaches_selected_witness:
  "\<exists>w. imap_reach sample_imap_server w \<and>
     pending (push_new_message ''ann@x.org'' (sample_message 6 7 ''INBOX'') w) 2 = pending w 2 @ [Up_Exists 2]"
proof -
  let ?run = "\<lambda>c. run_command sample_imap_server 0 None None c 2"
  let ?login = "Cmd_Login False ''ann@x.org'' ''pw''"
  define w1 where "w1 = open_session 143 ''1.2.3.4:5'' 0 2 fresh_server"
  define w2 where "w2 = (?run ?login w1)\<lparr>iw_db := sample_accounts, iw_conns := new_hub\<rparr>"
  define w3 where "w3 = (?run (Cmd_Select ''INBOX'' False) w2)\<lparr>iw_db := sample_mails [sample_message 5 7 ''INBOX'',
      sample_message 6 7 ''INBOX''], iw_conns := new_hub\<rparr>"
  obtain s where s: "iw_sessions w2 2 = Some s" "im_email s = ''ann@x.org''"
    using sample_logs_in [OF w1_def] by (auto simp: w2_def)
  have "iw_db w2 = sample_accounts" by (simp add: w2_def)
  from sample_selects [OF s(1) this] obtain t where t: "iw_sessions w3 2 = Some t" "im_email t = ''ann@x.org''"
      "im_selected t = ''INBOX''" "im_hub t \<noteq> None"
    using s(2) by (auto simp: w3_def)
  have "imap_reach sample_imap_server fresh_server" by (rule Boot) (simp_all add: fresh_server_def)
  then have r1: "imap_reach sample_imap_server w1"
    unfolding w1_def by (rule Accept) (simp add: fresh_server_def)
  have "allowed ?login 2 w1"
    by (simp add: allowed_def w1_def open_session_def hub_for_selected_def of_session_def new_imap_session_def)
  then have "imap_reach sample_imap_server w2" unfolding w2_def by (intro Elsewhere Command r1)
  moreover have "allowed (Cmd_Select ''INBOX'' False) 2 w2" using s(1) by (simp add: allowed_def)
  ultimately have r3: "imap_reach sample_imap_server w3" unfolding w3_def by (intro Elsewhere Command)
  have v: "length (folder_view 7 ''INBOX'' (iw_db w3)) = 2"
    by (simp add: w3_def folder_view_def in_folder_def sample_mails_def sample_message_def)
  have f: "db_faults (iw_db w3) = []" by (simp add: w3_def sample_mails_def empty_db_def)
  have z: "char_of (0 :: nat) \<notin> set ''ann@x.org''" "char_of (0 :: nat) \<notin> set ''INBOX''" by code_simp+
  have m: "m_folder (sample_message 6 7 ''INBOX'') = ''INBOX''" "m_user_id (sample_message 6 7 ''INBOX'') = 7"
    by (simp_all add: sample_message_def)
  note reaches = new_mail_reaches_selected [OF r3 f, of "''ann@x.org''" "sample_message 6 7 ''INBOX''", unfolded m]
  have "pending (push_new_message ''ann@x.org'' (sample_message 6 7 ''INBOX'') w3) 2 = pending w3 2 @ [Up_Exists 2]"
    using reaches [OF _ _ z, THEN conjunct1, THEN spec, of 2] t v by simp
  with r3 show ?thesis by blast
qed

end
