(* ===== verification/Web_Keys.thy ===== *)
theory Web_Keys
  imports Go_Strings
begin

text \<open>
  The texts of the web pages (\<open>internal/web\<close>). The program writes them in Chinese and looks the
  translation up under the text itself; each constant is the Chinese text by its bytes, with the
  English entry of \<open>internal/i18n/catalog.go\<close> beside it.
\<close>

definition k_forbidden :: string where
  \<comment> \<open>Access denied\<close>
  "k_forbidden = utf8 [231, 166, 129, 230, 173, 162, 232, 174, 191, 233, 151, 174]"

definition k_admin_required :: string where
  \<comment> \<open>Access denied: administrator privileges required\<close>
  "k_admin_required = utf8 [231, 166, 129, 230, 173, 162, 232, 174, 191, 233, 151, 174, 239, 188, 154, 233, 156, 128, 232, 166, 129, 231, 174, 161, 231, 144, 134, 229, 145, 152, 230, 157, 131, 233, 153, 144]"

definition k_bad_mail_id :: string where
  \<comment> \<open>Invalid message ID\<close>
  "k_bad_mail_id = utf8 [230, 151, 160, 230, 149, 136, 231, 154, 132, 233, 130, 174, 228, 187, 182] @ ''ID''"

definition k_bad_domain_id :: string where
  \<comment> \<open>Invalid domain ID\<close>
  "k_bad_domain_id = utf8 [230, 151, 160, 230, 149, 136, 231, 154, 132, 229, 159, 159, 229, 144, 141] @ ''ID''"

definition k_bad_user_id :: string where
  \<comment> \<open>Invalid user ID\<close>
  "k_bad_user_id = utf8 [230, 151, 160, 230, 149, 136, 231, 154, 132, 231, 148, 168, 230, 136, 183] @ ''ID''"

definition k_bad_attachment_id :: string where
  \<comment> \<open>Invalid attachment ID\<close>
  "k_bad_attachment_id = utf8 [230, 151, 160, 230, 149, 136, 231, 154, 132, 233, 153, 132, 228, 187, 182] @ ''ID''"

definition k_bad_queue_id :: string where
  \<comment> \<open>Invalid queue ID\<close>
  "k_bad_queue_id = utf8 [230, 151, 160, 230, 149, 136, 231, 154, 132, 233, 152, 159, 229, 136, 151] @ ''ID''"

definition k_bad_conn_id :: string where
  \<comment> \<open>Invalid connection ID\<close>
  "k_bad_conn_id = utf8 [230, 151, 160, 230, 149, 136, 231, 154, 132, 232, 191, 158, 230, 142, 165] @ ''ID''"

definition k_bad_record_id :: string where
  \<comment> \<open>Invalid record ID\<close>
  "k_bad_record_id = utf8 [230, 151, 160, 230, 149, 136, 231, 154, 132, 232, 174, 176, 229, 189, 149] @ ''ID''"

definition k_no_domain :: string where
  \<comment> \<open>Domain does not exist\<close>
  "k_no_domain = utf8 [229, 159, 159, 229, 144, 141, 228, 184, 141, 229, 173, 152, 229, 156, 168]"

definition k_no_user :: string where
  \<comment> \<open>User does not exist\<close>
  "k_no_user = utf8 [231, 148, 168, 230, 136, 183, 228, 184, 141, 229, 173, 152, 229, 156, 168]"

definition k_no_mailbox :: string where
  \<comment> \<open>Mailbox does not exist\<close>
  "k_no_mailbox = utf8 [233, 130, 174, 231, 174, 177, 228, 184, 141, 229, 173, 152, 229, 156, 168]"

definition k_no_mail :: string where
  \<comment> \<open>Message does not exist\<close>
  "k_no_mail = utf8 [233, 130, 174, 228, 187, 182, 228, 184, 141, 229, 173, 152, 229, 156, 168]"

definition k_no_attachment :: string where
  \<comment> \<open>Attachment does not exist\<close>
  "k_no_attachment = utf8 [233, 153, 132, 228, 187, 182, 228, 184, 141, 229, 173, 152, 229, 156, 168]"

definition k_no_connection :: string where
  \<comment> \<open>Connection does not exist or is disconnected\<close>
  "k_no_connection = utf8 [232, 191, 158, 230, 142, 165, 228, 184, 141, 229, 173, 152, 229, 156, 168, 230, 136, 150, 229, 183, 178, 230, 150, 173, 229, 188, 128]"

definition k_read_attachment_failed :: string where
  \<comment> \<open>Failed to read attachment\<close>
  "k_read_attachment_failed = utf8 [232, 175, 187, 229, 143, 150, 233, 153, 132, 228, 187, 182, 229, 164, 177, 232, 180, 165]"

definition k_hash_failed :: string where
  \<comment> \<open>Failed to encrypt password\<close>
  "k_hash_failed = utf8 [229, 175, 134, 231, 160, 129, 229, 138, 160, 229, 175, 134, 229, 164, 177, 232, 180, 165]"

definition k_session_not_saved :: string where
  \<comment> \<open>Failed to save session, please retry\<close>
  "k_session_not_saved = utf8 [228, 188, 154, 232, 175, 157, 228, 191, 157, 229, 173, 152, 229, 164, 177, 232, 180, 165, 239, 188, 140, 232, 175, 183, 233, 135, 141, 232, 175, 149]"

definition k_user_disabled :: string where
  \<comment> \<open>User is disabled\<close>
  "k_user_disabled = utf8 [231, 148, 168, 230, 136, 183, 229, 183, 178, 232, 162, 171, 231, 166, 129, 231, 148, 168]"

definition k_outbound_missing :: string where
  \<comment> \<open>Outbound service is unavailable\<close>
  "k_outbound_missing = utf8 [229, 164, 150, 229, 143, 145, 230, 156, 141, 229, 138, 161, 228, 184, 141, 229, 143, 175, 231, 148, 168]"

definition k_outbound_disabled :: string where
  \<comment> \<open>Outbound delivery is not enabled\<close>
  "k_outbound_disabled = utf8 [229, 164, 150, 233, 131, 168, 230, 138, 149, 233, 128, 146, 230, 156, 170, 229, 144, 175, 231, 148, 168]"

definition k_oauth_disabled :: string where
  \<comment> \<open>OAuth2 is not enabled\<close>
  "k_oauth_disabled = ''OAuth2 '' @ utf8 [230, 156, 170, 229, 144, 175, 231, 148, 168]"

definition k_oauth_unavailable :: string where
  \<comment> \<open>OAuth2 login is temporarily unavailable, please try again later\<close>
  "k_oauth_unavailable = ''OAuth2 '' @ utf8 [231, 153, 187, 229, 189, 149, 230, 154, 130, 228, 184, 141, 229, 143, 175, 231, 148, 168, 239, 188, 140, 232, 175, 183, 231, 168, 141, 229, 144, 142, 233, 135, 141, 232, 175, 149]"

definition k_oauth_state :: string where
  \<comment> \<open>OAuth2 state validation failed, please log in again\<close>
  "k_oauth_state = ''OAuth2 state '' @ utf8 [230, 160, 161, 233, 170, 140, 229, 164, 177, 232, 180, 165, 239, 188, 140, 232, 175, 183, 233, 135, 141, 230, 150, 176, 229, 143, 145, 232, 181, 183, 231, 153, 187, 229, 189, 149]"

definition k_oauth_no_code :: string where
  \<comment> \<open>Missing OAuth2 authorization code\<close>
  "k_oauth_no_code = ''OAuth2 '' @ utf8 [230, 142, 136, 230, 157, 131, 231, 160, 129, 231, 188, 186, 229, 164, 177]"

definition k_oauth_failed :: string where
  \<comment> \<open>OAuth2 authentication failed. Please retry or contact the administrator\<close>
  "k_oauth_failed = ''OAuth2 '' @ utf8 [232, 174, 164, 232, 175, 129, 229, 164, 177, 232, 180, 165, 239, 188, 140, 232, 175, 183, 233, 135, 141, 232, 175, 149, 230, 136, 150, 232, 129, 148, 231, 179, 187, 231, 174, 161, 231, 144, 134, 229, 145, 152]"

definition k_oauth_unknown :: string where
  \<comment> \<open>OAuth2 account is not linked to this system. Contact the administrator\<close>
  "k_oauth_unknown = ''OAuth2 '' @ utf8 [232, 180, 166, 229, 143, 183, 230, 156, 170, 230, 142, 165, 229, 133, 165, 230, 156, 172, 231, 179, 187, 231, 187, 159, 239, 188, 140, 232, 175, 183, 232, 129, 148, 231, 179, 187, 231, 174, 161, 231, 144, 134, 229, 145, 152]"

definition k_ldap_unknown :: string where
  \<comment> \<open>LDAP account is not linked to this system. Contact the administrator\<close>
  "k_ldap_unknown = ''LDAP '' @ utf8 [232, 180, 166, 229, 143, 183, 230, 156, 170, 230, 142, 165, 229, 133, 165, 230, 156, 172, 231, 179, 187, 231, 187, 159, 239, 188, 140, 232, 175, 183, 232, 129, 148, 231, 179, 187, 231, 174, 161, 231, 144, 134, 229, 145, 152]"

definition k_ldap_missing :: string where
  \<comment> \<open>Please enter your LDAP username and password\<close>
  "k_ldap_missing = utf8 [232, 175, 183, 232, 190, 147, 229, 133, 165] @ ''LDAP'' @ utf8 [231, 148, 168, 230, 136, 183, 229, 144, 141, 229, 146, 140, 229, 175, 134, 231, 160, 129]"

definition k_ldap_failed :: string where
  \<comment> \<open>LDAP authentication failed. %d attempts remaining\<close>
  "k_ldap_failed = ''LDAP '' @ utf8 [232, 174, 164, 232, 175, 129, 229, 164, 177, 232, 180, 165, 239, 188, 140, 232, 191, 152, 229, 137, 169] @ '' %d '' @ utf8 [230, 172, 161, 229, 176, 157, 232, 175, 149, 230, 156, 186, 228, 188, 154]"

definition k_login_missing :: string where
  \<comment> \<open>Please enter your email and password\<close>
  "k_login_missing = utf8 [232, 175, 183, 232, 190, 147, 229, 133, 165, 233, 130, 174, 231, 174, 177, 229, 146, 140, 229, 175, 134, 231, 160, 129]"

definition k_login_failed :: string where
  \<comment> \<open>Incorrect username or password. %d attempts remaining\<close>
  "k_login_failed = utf8 [231, 148, 168, 230, 136, 183, 229, 144, 141, 230, 136, 150, 229, 175, 134, 231, 160, 129, 233, 148, 153, 232, 175, 175, 239, 188, 140, 232, 191, 152, 229, 137, 169] @ '' %d '' @ utf8 [230, 172, 161, 229, 176, 157, 232, 175, 149, 230, 156, 186, 228, 188, 154]"

definition k_login_reason :: string where
  \<comment> \<open>Too many failed login attempts\<close>
  "k_login_reason = utf8 [231, 153, 187, 229, 189, 149, 229, 164, 177, 232, 180, 165, 230, 172, 161, 230, 149, 176, 232, 191, 135, 229, 164, 154]"

definition k_ldap_reason :: string where
  \<comment> \<open>Too many LDAP login failures\<close>
  "k_ldap_reason = ''LDAP '' @ utf8 [231, 153, 187, 229, 189, 149, 229, 164, 177, 232, 180, 165, 230, 172, 161, 230, 149, 176, 232, 191, 135, 229, 164, 154]"

definition k_list_failed :: string where
  \<comment> \<open>Failed to load messages: %v\<close>
  "k_list_failed = utf8 [229, 138, 160, 232, 189, 189, 233, 130, 174, 228, 187, 182, 229, 136, 151, 232, 161, 168, 229, 164, 177, 232, 180, 165] @ '': %v''"

definition k_no_recipient :: string where
  \<comment> \<open>Please enter a recipient\<close>
  "k_no_recipient = utf8 [232, 175, 183, 232, 190, 147, 229, 133, 165, 230, 148, 182, 228, 187, 182, 228, 186, 186]"

definition k_quota_check_failed :: string where
  \<comment> \<open>Quota check failed, please try again later\<close>
  "k_quota_check_failed = utf8 [233, 133, 141, 233, 162, 157, 230, 163, 128, 230, 159, 165, 229, 164, 177, 232, 180, 165, 239, 188, 140, 232, 175, 183, 231, 168, 141, 229, 144, 142, 233, 135, 141, 232, 175, 149]"

definition k_over_quota :: string where
  \<comment> \<open>Attachments exceed the quota. Used %s / total %s\<close>
  "k_over_quota = utf8 [233, 153, 132, 228, 187, 182, 232, 182, 133, 229, 135, 186, 233, 133, 141, 233, 162, 157, 233, 153, 144, 229, 136, 182, 227, 128, 130, 229, 183, 178, 231, 148, 168] @ '' %s / '' @ utf8 [230, 128, 187, 233, 133, 141, 233, 162, 157] @ '' %s''"

definition k_too_many_external :: string where
  \<comment> \<open>Too many external recipients: maximum %d\<close>
  "k_too_many_external = utf8 [229, 164, 150, 233, 131, 168, 230, 148, 182, 228, 187, 182, 228, 186, 186, 232, 191, 135, 229, 164, 154, 239, 188, 154, 230, 156, 128, 229, 164, 154] @ '' %d '' @ utf8 [228, 184, 170]"

definition k_queue_failed :: string where
  \<comment> \<open>Failed to enqueue outbound mail (%s): %v\<close>
  "k_queue_failed = utf8 [229, 164, 150, 229, 143, 145, 233, 130, 174, 228, 187, 182, 229, 133, 165, 233, 152, 159, 229, 164, 177, 232, 180, 165] @ '' (%s): %v''"

definition k_deliver_failed :: string where
  \<comment> \<open>Failed to deliver mail: %v\<close>
  "k_deliver_failed = utf8 [230, 138, 149, 233, 128, 146, 233, 130, 174, 228, 187, 182, 229, 164, 177, 232, 180, 165] @ '': %v''"

definition k_save_failed :: string where
  \<comment> \<open>Failed to save mail: %v\<close>
  "k_save_failed = utf8 [228, 191, 157, 229, 173, 152, 233, 130, 174, 228, 187, 182, 229, 164, 177, 232, 180, 165] @ '': %v''"

definition k_delete_failed :: string where
  \<comment> \<open>Delete failed\<close>
  "k_delete_failed = utf8 [229, 136, 160, 233, 153, 164, 229, 164, 177, 232, 180, 165]"

definition k_restore_failed :: string where
  \<comment> \<open>Restore failed\<close>
  "k_restore_failed = utf8 [230, 129, 162, 229, 164, 141, 229, 164, 177, 232, 180, 165]"

definition k_empty_failed :: string where
  \<comment> \<open>Failed to empty folder: %v\<close>
  "k_empty_failed = utf8 [230, 184, 133, 231, 169, 186, 230, 150, 135, 228, 187, 182, 229, 164, 185, 229, 164, 177, 232, 180, 165] @ '': %v''"

definition k_language_failed :: string where
  \<comment> \<open>Failed to save language preference\<close>
  "k_language_failed = utf8 [232, 175, 173, 232, 168, 128, 229, 129, 143, 229, 165, 189, 228, 191, 157, 229, 173, 152, 229, 164, 177, 232, 180, 165]"

definition k_language_saved :: string where
  \<comment> \<open>Language preference saved\<close>
  "k_language_saved = utf8 [232, 175, 173, 232, 168, 128, 229, 129, 143, 229, 165, 189, 229, 183, 178, 228, 191, 157, 229, 173, 152]"

definition k_wrong_password :: string where
  \<comment> \<open>Current password is incorrect\<close>
  "k_wrong_password = utf8 [229, 189, 147, 229, 137, 141, 229, 175, 134, 231, 160, 129, 228, 184, 141, 230, 173, 163, 231, 161, 174]"

definition k_empty_password :: string where
  \<comment> \<open>New password cannot be empty\<close>
  "k_empty_password = utf8 [230, 150, 176, 229, 175, 134, 231, 160, 129, 228, 184, 141, 232, 131, 189, 228, 184, 186, 231, 169, 186]"

definition k_password_mismatch :: string where
  \<comment> \<open>The two passwords do not match\<close>
  "k_password_mismatch = utf8 [228, 184, 164, 230, 172, 161, 232, 190, 147, 229, 133, 165, 231, 154, 132, 229, 175, 134, 231, 160, 129, 228, 184, 141, 228, 184, 128, 232, 135, 180]"

definition k_password_failed :: string where
  \<comment> \<open>Failed to update password\<close>
  "k_password_failed = utf8 [229, 175, 134, 231, 160, 129, 230, 155, 180, 230, 150, 176, 229, 164, 177, 232, 180, 165]"

definition k_password_changed :: string where
  \<comment> \<open>Password changed successfully\<close>
  "k_password_changed = utf8 [229, 175, 134, 231, 160, 129, 228, 191, 174, 230, 148, 185, 230, 136, 144, 229, 138, 159]"

definition k_ban_failed :: string where
  \<comment> \<open>Ban failed: %v\<close>
  "k_ban_failed = utf8 [229, 176, 129, 231, 166, 129, 229, 164, 177, 232, 180, 165] @ '': %v''"

definition k_manual_ban :: string where
  \<comment> \<open>Banned manually by admin (connection disconnected)\<close>
  "k_manual_ban = utf8 [231, 174, 161, 231, 144, 134, 229, 145, 152, 230, 137, 139, 229, 138, 168, 229, 176, 129, 231, 166, 129, 239, 188, 136, 232, 191, 158, 230, 142, 165, 230, 150, 173, 229, 188, 128, 239, 188, 137]"

definition k_unban_failed :: string where
  \<comment> \<open>Unban failed: %v\<close>
  "k_unban_failed = utf8 [232, 167, 163, 229, 176, 129, 229, 164, 177, 232, 180, 165] @ '': %v''"

definition k_domains_failed :: string where
  \<comment> \<open>Failed to load domains: %v\<close>
  "k_domains_failed = utf8 [229, 138, 160, 232, 189, 189, 229, 159, 159, 229, 144, 141, 229, 136, 151, 232, 161, 168, 229, 164, 177, 232, 180, 165] @ '': %v''"

definition k_domain_name_missing :: string where
  \<comment> \<open>Please enter a domain name\<close>
  "k_domain_name_missing = utf8 [232, 175, 183, 232, 190, 147, 229, 133, 165, 229, 159, 159, 229, 144, 141]"

definition k_domain_create_failed :: string where
  \<comment> \<open>Failed to create domain: %v\<close>
  "k_domain_create_failed = utf8 [229, 136, 155, 229, 187, 186, 229, 159, 159, 229, 144, 141, 229, 164, 177, 232, 180, 165] @ '': %v''"

definition k_domain_update_failed :: string where
  \<comment> \<open>Failed to update domain: %v\<close>
  "k_domain_update_failed = utf8 [230, 155, 180, 230, 150, 176, 229, 159, 159, 229, 144, 141, 229, 164, 177, 232, 180, 165] @ '': %v''"

definition k_domain_delete_failed :: string where
  \<comment> \<open>Failed to delete domain: %v\<close>
  "k_domain_delete_failed = utf8 [229, 136, 160, 233, 153, 164, 229, 159, 159, 229, 144, 141, 229, 164, 177, 232, 180, 165] @ '': %v''"

definition k_caddy_ok :: string where
  \<comment> \<open>Certificate fetched from Caddy and saved to the domain TLS directory; TLS enabled and hot-reloaded, no restart needed.\<close>
  "k_caddy_ok = utf8 [226, 156, 133] @ '' '' @ utf8 [229, 183, 178, 228, 187, 142] @ '' Caddy '' @ utf8 [232, 142, 183, 229, 143, 150, 232, 175, 129, 228, 185, 166, 229, 185, 182, 228, 191, 157, 229, 173, 152, 229, 136, 176, 229, 159, 159, 229, 144, 141] @ '' TLS '' @ utf8 [231, 155, 174, 229, 189, 149, 239, 188, 140, 229, 144, 140, 230, 151, 182, 229, 183, 178, 229, 144, 175, 231, 148, 168, 232, 175, 165, 229, 159, 159, 229, 144, 141, 231, 154, 132] @ '' TLS'' @ utf8 [239, 188, 155, 232, 175, 129, 228, 185, 166, 229, 183, 178, 231, 131, 173, 229, 138, 160, 232, 189, 189, 239, 188, 140, 230, 151, 160, 233, 156, 128, 233, 135, 141, 229, 144, 175, 230, 156, 141, 229, 138, 161, 227, 128, 130]"

definition k_caddy_failed :: string where
  \<comment> \<open>Failed to fetch certificate from Caddy: %v\<close>
  "k_caddy_failed = utf8 [228, 187, 142] @ '' Caddy '' @ utf8 [232, 142, 183, 229, 143, 150, 232, 175, 129, 228, 185, 166, 229, 164, 177, 232, 180, 165] @ '': %v''"

definition k_tls_dir_failed :: string where
  \<comment> \<open>Failed to create TLS directory: %v\<close>
  "k_tls_dir_failed = utf8 [229, 136, 155, 229, 187, 186] @ '' TLS '' @ utf8 [232, 175, 129, 228, 185, 166, 231, 155, 174, 229, 189, 149, 229, 164, 177, 232, 180, 165] @ '': %v''"

definition k_tls_cert_failed :: string where
  \<comment> \<open>Failed to save TLS certificate: %v\<close>
  "k_tls_cert_failed = utf8 [228, 191, 157, 229, 173, 152] @ '' TLS '' @ utf8 [229, 133, 172, 233, 146, 165, 232, 175, 129, 228, 185, 166, 229, 164, 177, 232, 180, 165] @ '': %v''"

definition k_tls_key_failed :: string where
  \<comment> \<open>Failed to save TLS private key: %v\<close>
  "k_tls_key_failed = utf8 [228, 191, 157, 229, 173, 152] @ '' TLS '' @ utf8 [231, 167, 129, 233, 146, 165, 229, 164, 177, 232, 180, 165] @ '': %v''"

definition k_domain_record_failed :: string where
  \<comment> \<open>Failed to update domain record: %v\<close>
  "k_domain_record_failed = utf8 [230, 155, 180, 230, 150, 176, 229, 159, 159, 229, 144, 141, 232, 174, 176, 229, 189, 149, 229, 164, 177, 232, 180, 165] @ '': %v''"

definition k_tls_required :: string where
  \<comment> \<open>TLS private key and certificate are required to enable TLS\<close>
  "k_tls_required = utf8 [229, 144, 175, 231, 148, 168] @ '' TLS '' @ utf8 [230, 151, 182, 229, 191, 133, 233, 161, 187, 229, 161, 171, 229, 134, 153] @ '' TLS '' @ utf8 [231, 167, 129, 233, 146, 165, 229, 146, 140, 229, 133, 172, 233, 146, 165, 232, 175, 129, 228, 185, 166]"

definition k_tls_both :: string where
  \<comment> \<open>TLS private key and certificate must be provided together\<close>
  "k_tls_both = ''TLS '' @ utf8 [231, 167, 129, 233, 146, 165, 229, 146, 140, 229, 133, 172, 233, 146, 165, 232, 175, 129, 228, 185, 166, 229, 191, 133, 233, 161, 187, 229, 144, 140, 230, 151, 182, 229, 161, 171, 229, 134, 153]"

definition k_tls_invalid :: string where
  \<comment> \<open>Invalid TLS certificate or private key: %v\<close>
  "k_tls_invalid = ''TLS '' @ utf8 [232, 175, 129, 228, 185, 166, 230, 136, 150, 231, 167, 129, 233, 146, 165, 230, 151, 160, 230, 149, 136] @ '': %v''"

definition k_users_failed :: string where
  \<comment> \<open>Failed to load users: %v\<close>
  "k_users_failed = utf8 [229, 138, 160, 232, 189, 189, 231, 148, 168, 230, 136, 183, 229, 136, 151, 232, 161, 168, 229, 164, 177, 232, 180, 165] @ '': %v''"

definition k_fields_missing :: string where
  \<comment> \<open>Please fill in all required fields\<close>
  "k_fields_missing = utf8 [232, 175, 183, 229, 161, 171, 229, 134, 153, 230, 137, 128, 230, 156, 137, 229, 191, 133, 229, 161, 171, 229, 173, 151, 230, 174, 181]"

definition k_user_create_failed :: string where
  \<comment> \<open>Failed to create user: %v\<close>
  "k_user_create_failed = utf8 [229, 136, 155, 229, 187, 186, 231, 148, 168, 230, 136, 183, 229, 164, 177, 232, 180, 165] @ '': %v''"

definition k_user_update_failed :: string where
  \<comment> \<open>Failed to update user: %v\<close>
  "k_user_update_failed = utf8 [230, 155, 180, 230, 150, 176, 231, 148, 168, 230, 136, 183, 229, 164, 177, 232, 180, 165] @ '': %v''"

definition k_user_delete_failed :: string where
  \<comment> \<open>Failed to delete user: %v\<close>
  "k_user_delete_failed = utf8 [229, 136, 160, 233, 153, 164, 231, 148, 168, 230, 136, 183, 229, 164, 177, 232, 180, 165] @ '': %v''"

definition k_delete_self :: string where
  \<comment> \<open>You cannot delete your own account\<close>
  "k_delete_self = utf8 [228, 184, 141, 232, 131, 189, 229, 136, 160, 233, 153, 164, 232, 135, 170, 229, 183, 177, 231, 154, 132, 232, 180, 166, 230, 136, 183]"

definition k_bans_failed :: string where
  \<comment> \<open>Failed to load blacklist: %v\<close>
  "k_bans_failed = utf8 [229, 138, 160, 232, 189, 189, 233, 187, 145, 229, 144, 141, 229, 141, 149, 229, 164, 177, 232, 180, 165] @ '': %v''"

definition k_logs_failed :: string where
  \<comment> \<open>Failed to load protocol logs: %v\<close>
  "k_logs_failed = utf8 [229, 138, 160, 232, 189, 189, 229, 141, 143, 232, 174, 174, 230, 151, 165, 229, 191, 151, 229, 164, 177, 232, 180, 165] @ '': %v''"

definition k_queue_list_failed :: string where
  \<comment> \<open>Failed to load outbound queue: %v\<close>
  "k_queue_list_failed = utf8 [229, 138, 160, 232, 189, 189, 229, 164, 150, 229, 143, 145, 233, 152, 159, 229, 136, 151, 229, 164, 177, 232, 180, 165] @ '': %v''"

definition k_retry_failed :: string where
  \<comment> \<open>Retry failed: %v\<close>
  "k_retry_failed = utf8 [233, 135, 141, 232, 175, 149, 229, 164, 177, 232, 180, 165] @ '': %v''"

definition k_cancel_failed :: string where
  \<comment> \<open>Cancel failed: %v\<close>
  "k_cancel_failed = utf8 [229, 143, 150, 230, 182, 136, 229, 164, 177, 232, 180, 165] @ '': %v''"

definition k_inbox :: string where
  \<comment> \<open>Inbox\<close>
  "k_inbox = utf8 [230, 148, 182, 228, 187, 182, 231, 174, 177]"

definition k_sent :: string where
  \<comment> \<open>Sent\<close>
  "k_sent = utf8 [229, 183, 178, 229, 143, 145, 233, 128, 129]"

definition k_drafts :: string where
  \<comment> \<open>Drafts\<close>
  "k_drafts = utf8 [232, 141, 137, 231, 168, 191, 231, 174, 177]"

definition k_trash :: string where
  \<comment> \<open>Trash\<close>
  "k_trash = utf8 [229, 183, 178, 229, 136, 160, 233, 153, 164]"

definition k_am :: string where
  \<comment> \<open>AM\<close>
  "k_am = utf8 [228, 184, 138, 229, 141, 136]"

definition k_pm :: string where
  \<comment> \<open>PM\<close>
  "k_pm = utf8 [228, 184, 139, 229, 141, 136]"

end
