(* ===== verification/Web_Text.thy ===== *)
theory Web_Text
  imports Complex_Main Mail_Util Web_Keys
begin

text \<open>
  What the web pages show of texts, sizes and addresses: the choice of the interface language and the
  translation of a text (\<open>internal/i18n/i18n.go\<close>, \<open>internal/web/handlers/i18n.go\<close>), and the template
  functions of \<open>internal/web/server.go\<close>. The catalogues of translations are arguments of the model, so
  what is proved holds for all of them; so is \<open>strconv.ParseFloat\<close> for the weights of an
  \<open>Accept-Language\<close> header. Case mapping is the one of the prelude, ASCII only.
\<close>

section \<open>Languages\<close>

record lang_env =
  le_en :: "string \<Rightarrow> string option"
  le_ja :: "string \<Rightarrow> string option"
  le_parse_float :: "string \<Rightarrow> rat option"

definition supported :: "string \<Rightarrow> bool" where
  "supported lang \<longleftrightarrow> lang \<in> {''en'', ''zh'', ''ja''}"

definition cut_at :: "char \<Rightarrow> string \<Rightarrow> string" where
  "cut_at c s = (case index_byte c s of None \<Rightarrow> s | Some i \<Rightarrow> take i s)"

definition normalize_lang :: "string \<Rightarrow> string" where
  \<comment> \<open>the language of a browser's tag, empty if it is none of the three\<close>
  "normalize_lang tag0 =
     (let tag = cut_at CHR ''_'' (cut_at CHR ''-'' (to_lower (trim_space tag0)))
      in if tag = ''zh'' \<or> tag = ''zh-hans'' \<or> tag = ''zh-hant'' then ''zh''
         else if tag = ''ja'' then ''ja''
         else if tag = ''en'' then ''en''
         else [])"

definition tag_weight :: "lang_env \<Rightarrow> string \<Rightarrow> string \<times> rat" where
  \<comment> \<open>one element of the header: the tag and its \<open>q\<close>, 1 by default; the last valid one counts\<close>
  "tag_weight le part =
     (case index_byte CHR '';'' part of
        None \<Rightarrow> (part, 1)
      | Some i \<Rightarrow>
          (trim_space (take i part),
           foldl (\<lambda>q param.
               if has_prefix ''q='' param
               then (case le_parse_float le (drop 2 param) of None \<Rightarrow> q | Some v \<Rightarrow> v) else q)
             1 (map trim_space (split_on CHR '';'' (drop (Suc i) part)))))"

definition from_accept_language :: "lang_env \<Rightarrow> string \<Rightarrow> string" where
  "from_accept_language le header =
     (let parts = filter (\<lambda>p. p \<noteq> []) (map trim_space (split_on CHR '','' header));
          entries = filter (\<lambda>(lang, q). lang \<noteq> [])
                      (map (\<lambda>p. let (tag, q) = tag_weight le p in (normalize_lang tag, q)) parts)
      in case find (\<lambda>(lang, q). q > 0) (sort_key (\<lambda>(lang, q). - q) entries) of
           None \<Rightarrow> ''en''
         | Some (lang, q) \<Rightarrow> lang)"

definition resolve_lang :: "lang_env \<Rightarrow> string \<Rightarrow> string \<Rightarrow> string" where
  "resolve_lang le pref accept = (if supported pref then pref else from_accept_language le accept)"

definition translate :: "lang_env \<Rightarrow> string \<Rightarrow> string \<Rightarrow> string" where
  "translate le lang key =
     (let in_en = (case le_en le key of None \<Rightarrow> key | Some s \<Rightarrow> s)
      in if normalize_lang lang = ''zh'' then key
         else if normalize_lang lang = ''ja'' then (case le_ja le key of Some s \<Rightarrow> s | None \<Rightarrow> in_en)
         else in_en)"

datatype fmt_arg = F_Int int | F_Str string

definition fmt_value :: "fmt_arg \<Rightarrow> string" where
  "fmt_value a = (case a of F_Int i \<Rightarrow> show_int i | F_Str s \<Rightarrow> s)"

definition fmt_typed :: "fmt_arg \<Rightarrow> string" where
  "fmt_typed a = (case a of F_Int i \<Rightarrow> ''int='' @ show_int i | F_Str s \<Rightarrow> ''string='' @ s)"

definition fmt_verb :: "char \<Rightarrow> fmt_arg \<Rightarrow> string" where
  "fmt_verb v a =
     (if v = CHR ''v'' \<or> v = CHR ''d'' \<and> (\<exists>i. a = F_Int i) \<or> v = CHR ''s'' \<and> (\<exists>s. a = F_Str s) then fmt_value a
      else ''%!'' @ [v] @ ''('' @ fmt_typed a @ '')'')"

lemma fmt_verb_code [code]:
  "fmt_verb v a =
     (if v = CHR ''v'' \<or> v = (case a of F_Int i \<Rightarrow> CHR ''d'' | F_Str s \<Rightarrow> CHR ''s'') then fmt_value a
      else ''%!'' @ [v] @ ''('' @ fmt_typed a @ '')'')"
  by (cases a) (auto simp: fmt_verb_def)

fun sprintf :: "string \<Rightarrow> fmt_arg list \<Rightarrow> string" where
  \<comment> \<open>\<open>fmt.Sprintf\<close> with the verbs of the catalogue (\<open>%d\<close>, \<open>%s\<close>, \<open>%v\<close>, \<open>%%\<close>)\<close>
  "sprintf [] as = (if as = [] then [] else ''%!(EXTRA '' @ join '', '' (map fmt_typed as) @ '')'')"
| "sprintf [c] as =
     (if c = CHR ''%'' then ''%!(NOVERB)'' else [c]) @
     (if as = [] then [] else ''%!(EXTRA '' @ join '', '' (map fmt_typed as) @ '')'')"
| "sprintf (c # d # cs) as =
     (if c \<noteq> CHR ''%'' then c # sprintf (d # cs) as
      else if d = CHR ''%'' then CHR ''%'' # sprintf cs as
      else case as of
          [] \<Rightarrow> ''%!'' @ [d] @ ''(MISSING)'' @ sprintf cs []
        | a # as' \<Rightarrow> fmt_verb d a @ sprintf cs as')"

definition translate_fmt :: "lang_env \<Rightarrow> string \<Rightarrow> string \<Rightarrow> fmt_arg list \<Rightarrow> string" where
  "translate_fmt le lang key as = sprintf (translate le lang key) as"

definition norm_lang :: "string \<Rightarrow> string" where
  \<comment> \<open>a language preference from a form\<close>
  "norm_lang v = (if v \<in> {''auto'', ''en'', ''zh'', ''ja''} then v else ''auto'')"

definition html_lang :: "string \<Rightarrow> string" where
  "html_lang lang =
     (if normalize_lang lang = ''zh'' then ''zh-CN'' else if normalize_lang lang = ''ja'' then ''ja'' else ''en'')"

definition folder_label :: "lang_env \<Rightarrow> string \<Rightarrow> string \<Rightarrow> string" where
  "folder_label le lang name =
     (if name = ''INBOX'' then translate le lang k_inbox
      else if name = ''Sent'' then translate le lang k_sent
      else if name = ''Drafts'' then translate le lang k_drafts
      else if name = ''Trash'' then translate le lang k_trash
      else name)"

section \<open>Sizes\<close>

text \<open>\<open>float64(b)\<close>: the 53 leading bits, halves to the even side.\<close>

definition round_half_even :: "nat \<Rightarrow> nat \<Rightarrow> nat" where
  "round_half_even a b =
     (let q = a div b; r = a mod b in if 2 * r < b \<or> 2 * r = b \<and> even q then q else q + 1)"

fun bit_length :: "nat \<Rightarrow> nat" where
  "bit_length n = (if n = 0 then 0 else Suc (bit_length (n div 2)))"

declare bit_length.simps [simp del]

definition float53 :: "nat \<Rightarrow> nat" where
  "float53 n = (if bit_length n \<le> 53 then n
                else round_half_even n (2 ^ (bit_length n - 53)) * 2 ^ (bit_length n - 53))"

function unit_loop :: "int \<Rightarrow> int \<Rightarrow> nat \<Rightarrow> int \<times> nat" where
  "unit_loop n d e = (if n \<ge> 1024 then unit_loop (n div 1024) (d * 1024) (Suc e) else (d, e))"
  by pat_completeness auto
termination
  by (relation "measure (\<lambda>(n, d, e). nat n)") auto

declare unit_loop.simps [simp del]

definition unit_letters :: string where "unit_letters = ''KMGTPE''"

definition format_bytes :: "int \<Rightarrow> string option" where
  \<comment> \<open>\<open>None\<close>: the index into the unit letters is out of range\<close>
  "format_bytes b =
     (if b < 1024 then Some (show_int b @ '' B'')
      else let (d, e) = unit_loop (b div 1024) 1024 0;
               tenths = round_half_even (10 * float53 (nat b)) (nat d)
           in if e < length unit_letters
              then Some (show_nat (tenths div 10) @ ''.'' @ show_nat (tenths mod 10) @ '' '' @ [unit_letters ! e] @ ''B'')
              else None)"

section \<open>Addresses and labels\<close>

definition mail_name :: "string \<Rightarrow> string" where
  "mail_name s0 =
     (let s = trim_space s0
      in case index_byte CHR ''<'' s of
           None \<Rightarrow> s
         | Some i \<Rightarrow>
             (let q = (\<lambda>c. c \<in> {CHR 0x22, CHR 0x27, CHR '' ''});
                  name = rev (dropWhile q (rev (dropWhile q (trim_space (take i s)))))
              in if name \<noteq> [] then name
                 else case index_byte CHR ''>'' s of
                     None \<Rightarrow> s
                   | Some j \<Rightarrow> if j > i then drop (Suc i) (take j s) else s))"

definition mail_email :: "string \<Rightarrow> string" where
  "mail_email s =
     (case index_byte CHR ''<'' s of
        None \<Rightarrow> trim_space s
      | Some i \<Rightarrow>
          (case index_byte CHR ''>'' s of
             None \<Rightarrow> trim_space s
           | Some j \<Rightarrow> if j > i then drop (Suc i) (take j s) else trim_space s))"

text \<open>The runes of a text: the number of bytes and the code point of the first, 1 and U+FFFD if they are not UTF-8.\<close>

fun in_ranges :: "(nat \<times> nat) list \<Rightarrow> nat list \<Rightarrow> bool" where
  "in_ranges [] bs = True"
| "in_ranges ((lo, hi) # ps) [] = False"
| "in_ranges ((lo, hi) # ps) (b # bs) = (lo \<le> b \<and> b \<le> hi \<and> in_ranges ps bs)"

definition rune_width :: "string \<Rightarrow> nat" where
  \<comment> \<open>0 for the empty text\<close>
  "rune_width s =
     (case s of
        [] \<Rightarrow> 0
      | c # cs \<Rightarrow>
          (case utf8_lead (of_char c) of
             None \<Rightarrow> 1
           | Some ps \<Rightarrow> if in_ranges ps (map of_char cs) then Suc (length ps) else 1))"

definition rune_code :: "string \<Rightarrow> nat" where
  "rune_code s =
     (let bs = map of_char (take (rune_width s) s) :: nat list
      in case bs of
           [a] \<Rightarrow> if a < 128 then a else 0xFFFD
         | [a, b] \<Rightarrow> (a - 0xC0) * 64 + (b - 0x80)
         | [a, b, c] \<Rightarrow> ((a - 0xE0) * 64 + (b - 0x80)) * 64 + (c - 0x80)
         | [a, b, c, d] \<Rightarrow> (((a - 0xF0) * 64 + (b - 0x80)) * 64 + (c - 0x80)) * 64 + (d - 0x80)
         | _ \<Rightarrow> 0xFFFD)"

definition rune_text :: "string \<Rightarrow> string" where
  \<comment> \<open>the first rune, encoded again\<close>
  "rune_text s =
     (if rune_width s = 1 \<and> (of_char (hd s) :: nat) \<ge> 128 then utf8 [0xEF, 0xBF, 0xBD] else take (rune_width s) s)"

lemma rune_width_le: "rune_width s \<le> length s"
proof -
  have "in_ranges ps bs \<Longrightarrow> length ps \<le> length bs" for ps bs
    by (induction ps bs rule: in_ranges.induct) auto
  from this [of _ "map of_char (tl s)"] show ?thesis
    by (cases s) (auto simp: rune_width_def split: option.splits)
qed

lemma rune_width_pos: "s \<noteq> [] \<Longrightarrow> 0 < rune_width s"
  by (cases s) (auto simp: rune_width_def split: option.splits)

function rune_starts :: "string \<Rightarrow> string list" where
  \<comment> \<open>the rest of the text at each of its runes\<close>
  "rune_starts s = (if s = [] then [] else s # rune_starts (drop (rune_width s) s))"
  by pat_completeness auto
termination
  using rune_width_pos rune_width_le
  by (relation "measure length") (auto simp: diff_less)

declare rune_starts.simps [simp del]

definition initial :: "string \<Rightarrow> string" where
  "initial s0 = (let s = trim_space s0 in if s = [] then ''?'' else to_upper (rune_text s))"

definition truncate :: "string \<Rightarrow> nat \<Rightarrow> string" where
  "truncate s0 n =
     (let s = join '' '' (str_fields s0); rs = rune_starts s
      in if length rs \<le> n then s else concat (map rune_text (take n rs)) @ utf8 [0xE2, 0x80, 0xA6])"

definition avatar_hue :: "string \<Rightarrow> nat" where
  "avatar_hue s = foldl (\<lambda>h r. (h * 31 + rune_code r) mod 360) 0 (rune_starts s)"

definition avatar_style :: "string \<Rightarrow> string" where
  "avatar_style s =
     (let h = show_nat (avatar_hue s)
      in ''background:hsl('' @ h @ '',78%,92%);color:hsl('' @ h @ '',72%,36%)'')"

section \<open>Times\<close>

text \<open>
  The civil fields of an instant in the display zone are an argument (the zone data are not under
  \<open>src/\<close>): \<open>inWebTZ\<close> applied by the caller.
\<close>

record civil =
  cv_year :: int
  cv_month :: nat
  cv_day :: nat
  cv_year_day :: nat
  cv_hour :: nat
  cv_minute :: nat
  cv_second :: nat

definition two_digits :: "nat \<Rightarrow> string" where
  "two_digits n = (if n < 10 then CHR ''0'' # show_nat n else show_nat n)"

definition month_day :: "civil \<Rightarrow> string" where
  "month_day t = two_digits (cv_month t) @ ''-'' @ two_digits (cv_day t)"

definition iso_date :: "civil \<Rightarrow> string" where
  \<comment> \<open>layout \<open>2006-01-02\<close>, years of four digits\<close>
  "iso_date t = show_int (cv_year t) @ ''-'' @ month_day t"

definition period_of :: "lang_env \<Rightarrow> string \<Rightarrow> nat \<Rightarrow> string \<times> nat" where
  "period_of le lang h =
     (translate le lang (if h \<ge> 12 then k_pm else k_am), if h mod 12 = 0 then 12 else h mod 12)"

definition clock12 :: "lang_env \<Rightarrow> string \<Rightarrow> civil \<Rightarrow> string" where
  "clock12 le lang t =
     (let (period, h) = period_of le lang (cv_hour t) in period @ '' '' @ show_nat h @ '':'' @ two_digits (cv_minute t))"

definition short_date :: "lang_env \<Rightarrow> string \<Rightarrow> civil \<Rightarrow> civil \<Rightarrow> string" where
  "short_date le lang now t =
     (if cv_year t = cv_year now \<and> cv_year_day t = cv_year_day now then clock12 le lang t
      else if cv_year t = cv_year now then month_day t @ '' '' @ clock12 le lang t
      else iso_date t @ '' '' @ clock12 le lang t)"

definition time12 :: "lang_env \<Rightarrow> string \<Rightarrow> civil \<Rightarrow> string" where
  "time12 le lang t = iso_date t @ '' '' @ clock12 le lang t @ '':'' @ two_digits (cv_second t)"

definition time12m :: "lang_env \<Rightarrow> string \<Rightarrow> civil \<Rightarrow> string" where
  "time12m le lang t = iso_date t @ '' '' @ clock12 le lang t"

definition fixed_timezone :: "string \<Rightarrow> (string \<times> int) option" where
  \<comment> \<open>the name and the offset in seconds\<close>
  "fixed_timezone s0 =
     (let s = trim_space s0;
          (sign, rest0) = (if has_prefix ''+'' s then (1, drop 1 s) else if has_prefix ''-'' s then (- 1, drop 1 s) else (1, s));
          rest = (if has_prefix ''UTC'' (to_upper rest0) then trim_space (drop 3 rest0) else rest0);
          parts = split_n2 CHR '':'' rest;
          zone = (\<lambda>h m. let offset = sign * (h * 3600 + m * 60)
                        in (''UTC'' @ show_int (if offset < 0 then - (- offset div 3600) else offset div 3600), offset))
      in case atoi (trim_space (hd parts)) of
           None \<Rightarrow> None
         | Some h \<Rightarrow>
             if h < 0 \<or> h > 23 then None
             else case tl parts of
                 [m0] \<Rightarrow>
                   (case atoi (trim_space m0) of
                      None \<Rightarrow> None
                    | Some m \<Rightarrow> if m < 0 \<or> m > 59 then None else Some (zone h m))
               | _ \<Rightarrow> Some (zone h 0))"

section \<open>The unit loop ends, and the unit exists\<close>

lemma unit_loop_result:
  assumes "n = b div 1024 ^ Suc k" "1 \<le> n" "d = 1024 ^ Suc k"
  shows "\<exists>e \<ge> k. unit_loop n d k = (1024 ^ Suc e, e) \<and> 1 \<le> b div 1024 ^ Suc e \<and> b div 1024 ^ Suc e < 1024"
  using assms
proof (induction n d k rule: unit_loop.induct)
  case (1 n d k)
  show ?case
  proof (cases "n \<ge> 1024")
    case True
    have "n div 1024 = b div 1024 ^ Suc (Suc k)"
      unfolding 1(2) power_Suc [of _ "Suc k"] mult.commute [of 1024 "1024 ^ Suc k"] by (rule zdiv_zmult2_eq [symmetric]) simp
    moreover have "1 \<le> n div 1024" using True by (simp add: pos_imp_zdiv_pos_iff int_one_le_iff_zero_less)
    ultimately obtain e where "e \<ge> Suc k" "unit_loop (n div 1024) (d * 1024) (Suc k) = (1024 ^ Suc e, e)"
      "1 \<le> b div 1024 ^ Suc e \<and> b div 1024 ^ Suc e < 1024"
      using 1(1) [OF True] 1(4) by (auto simp: mult.commute)
    with True show ?thesis by (intro exI [of _ e]) (simp add: unit_loop.simps [of n])
  next
    case False
    then have "unit_loop n d k = (d, k)" by (simp add: unit_loop.simps [of n])
    with False 1(2-4) show ?thesis by (intro exI [of _ k]) simp
  qed
qed

lemma less_by_quotient: "b div (d :: int) < 1024 \<Longrightarrow> 0 < d \<Longrightarrow> b < 1024 * d"
  by (metis linorder_not_less mult.commute nonzero_mult_div_cancel_left order_less_irrefl zdiv_mono1)

text \<open>A size always has a unit. For every size of an \<open>int64\<close> from one kilobyte on, the loop of
  \<open>formatBytes\<close> ends with the divisor \<open>1024 ^ (e + 1)\<close> that brings the size between 1 and 1024, its
  exponent is one of the six units, and the divisor never exceeds the size, so that it does not overflow
  and the index into \<open>"KMGTPE"\<close> cannot panic.\<close>

theorem format_bytes_unit:
  assumes "1024 \<le> b" "b < 2 ^ 63"
  shows "\<exists>e < 6. unit_loop (b div 1024) 1024 0 = (1024 ^ Suc e, e) \<and>
           1024 ^ Suc e \<le> b \<and> b < 1024 * 1024 ^ Suc e \<and> format_bytes b \<noteq> None"
proof -
  have "1 \<le> b div 1024" using assms(1) by (simp add: pos_imp_zdiv_pos_iff int_one_le_iff_zero_less)
  then obtain e where l: "unit_loop (b div 1024) 1024 0 = (1024 ^ Suc e, e)"
    and r: "1 \<le> b div 1024 ^ Suc e" "b div 1024 ^ Suc e < 1024"
    using unit_loop_result [of "b div 1024" b 0 1024] by auto
  have lo: "1024 ^ Suc e \<le> b"
    using r(1) by (metis int_one_le_iff_zero_less pos_imp_zdiv_pos_iff zero_less_numeral zero_less_power)
  have hi: "b < 1024 * 1024 ^ Suc e"
    using r(2) by (rule less_by_quotient) simp
  have e: "e < 6"
  proof (rule ccontr)
    assume "\<not> e < 6"
    then have "(1024 :: int) ^ Suc 6 \<le> 1024 ^ Suc e" by (intro power_increasing) auto
    with lo assms(2) show False by simp
  qed
  with l assms(1) have "format_bytes b \<noteq> None" by (simp add: format_bytes_def unit_letters_def Let_def)
  with l lo hi e show ?thesis by blast
qed

theorem format_bytes_unit_witness:
  "(\<exists>e < 6. unit_loop (5368709120 div 1024) 1024 0 = (1024 ^ Suc e, e) \<and>
      1024 ^ Suc e \<le> (5368709120 :: int) \<and> (5368709120 :: int) < 1024 * 1024 ^ Suc e \<and> format_bytes 5368709120 \<noteq> None) \<and>
   unit_loop (5368709120 div 1024) 1024 0 = (1024 ^ 3, 2)"
proof (intro conjI)
  show "\<exists>e < 6. unit_loop (5368709120 div 1024) 1024 0 = (1024 ^ Suc e, e) \<and>
      1024 ^ Suc e \<le> (5368709120 :: int) \<and> (5368709120 :: int) < 1024 * 1024 ^ Suc e \<and> format_bytes 5368709120 \<noteq> None"
    by (rule format_bytes_unit) simp_all
qed (simp add: unit_loop.simps)

end
