(* ===== verification/Web_Outgoing.thy ===== *)
theory Web_Outgoing
  imports Web_Text Mailer Attachment_Storage Protocol_Common
begin

text \<open>
  The message that the compose page builds from its form (\<open>buildOutgoingMessage\<close> and its helpers in
  \<open>internal/web/handlers/mail.go\<close>), with the encoders of Go's package \<open>mime\<close> that it calls. What the
  user types ends up in header fields: no input may add a field or a line.
\<close>

section \<open>Encoders of package \<open>mime\<close>\<close>

definition printable :: "char \<Rightarrow> bool" where
  "printable c \<longleftrightarrow> (let n = (of_char c :: nat) in 32 \<le> n \<and> n \<le> 126)"

definition needs_encoding :: "string \<Rightarrow> bool" where
  "needs_encoding s \<longleftrightarrow> \<not> list_all (\<lambda>c. printable c \<or> c = CHR 0x09) s"

definition hex_upper :: "nat \<Rightarrow> char" where
  "hex_upper n = char_of (if n < 10 then 48 + n else 55 + n)"

definition hex_escape :: "char \<Rightarrow> char \<Rightarrow> string" where
  "hex_escape m c = [m, hex_upper ((of_char c :: nat) div 16), hex_upper ((of_char c :: nat) mod 16)]"

definition q_plain :: "char \<Rightarrow> bool" where
  "q_plain c \<longleftrightarrow> printable c \<and> c \<notin> {CHR ''='', CHR ''?'', CHR ''_''}"

definition q_char :: "char \<Rightarrow> string" where
  "q_char c = (if c = CHR '' '' then ''_'' else if q_plain c then [c] else hex_escape CHR ''='' c)"

function q_words :: "nat \<Rightarrow> string \<Rightarrow> string" where
  \<comment> \<open>the body of an encoded word, split when it passes 63 characters; a rune is never split\<close>
  "q_words len s =
     (case s of
        [] \<Rightarrow> []
      | c # cs \<Rightarrow>
          (let (w, n) = (if q_plain c then (1, 1) else (rune_width s, 3 * rune_width s));
               split = len + n > 63
           in (if split then ''?= =?utf-8?q?'' else []) @ concat (map q_char (take w s)) @
              q_words (if split then n else len + n) (drop w s)))"
  by pat_completeness auto
termination
  by (relation "measure (\<lambda>(len, s). length s)")
    (auto split: if_splits intro: rune_width_pos [THEN diff_less] simp: rune_width_pos)

declare q_words.simps [simp del]

definition q_encode :: "string \<Rightarrow> string" where
  \<comment> \<open>\<open>mime.QEncoding.Encode("utf-8", s)\<close>\<close>
  "q_encode s = (if needs_encoding s then ''=?utf-8?q?'' @ q_words 0 s @ ''?='' else s)"

definition t_special :: "char \<Rightarrow> bool" where
  "t_special c \<longleftrightarrow> c \<in> set (''()<>@,;:/[]?='' @ [CHR 0x22, CHR 0x5C])"

definition is_token :: "string \<Rightarrow> bool" where
  "is_token s \<longleftrightarrow> s \<noteq> [] \<and> list_all (\<lambda>c. printable c \<and> c \<noteq> CHR '' '' \<and> \<not> t_special c) s"

definition param_value :: "string \<Rightarrow> string" where
  \<comment> \<open>one parameter's \<open>=value\<close>: percent-encoded, a token, or quoted\<close>
  "param_value v =
     (if needs_encoding v then
        ''*=utf-8'' @ [CHR 0x27, CHR 0x27] @
        concat (map (\<lambda>c. if \<not> printable c \<or> c \<in> {CHR '' '', CHR ''*'', CHR 0x27, CHR ''%''} \<or> t_special c
                         then hex_escape CHR ''%'' c else [c]) v)
      else if is_token v then CHR ''='' # v
      else ''='' @ [CHR 0x22] @
        concat (map (\<lambda>c. if c \<in> {CHR 0x22, CHR 0x5C} then [CHR 0x5C, c] else [c]) v) @ [CHR 0x22])"

definition format_media_type :: "string \<Rightarrow> string \<Rightarrow> string \<Rightarrow> string" where
  \<comment> \<open>\<open>mime.FormatMediaType\<close> with one parameter; empty for a type or a name that is no token\<close>
  "format_media_type t attr v =
     (let ok = (case split_n2 CHR ''/'' t of [major, sub] \<Rightarrow> is_token major \<and> is_token sub | _ \<Rightarrow> is_token t)
      in if \<not> ok \<or> \<not> is_token attr then [] else to_lower t @ ''; '' @ to_lower attr @ param_value v)"

section \<open>The message\<close>

record pending_attachment =
  at_filename :: string
  at_content_type :: string
  at_data :: string

definition sanitize_header_field :: "string \<Rightarrow> string" where
  "sanitize_header_field s = remove_char CHR 0x00 (remove_char CHR 0x0A (remove_char CHR 0x0D s))"

definition encode_subject :: "string \<Rightarrow> string" where
  "encode_subject s = q_encode (sanitize_header_field s)"

definition format_content_disposition :: "string \<Rightarrow> string" where
  "format_content_disposition filename = format_media_type ''attachment'' ''filename'' filename"

function wrap76 :: "string \<Rightarrow> string" where
  "wrap76 enc = (if length enc > 76 then take 76 enc @ crlf @ wrap76 (drop 76 enc) else enc)"
  by pat_completeness auto
termination by (relation "measure length") auto

declare wrap76.simps [simp del]

definition base64_line_wrap :: "string \<Rightarrow> string" where
  "base64_line_wrap data = wrap76 (base64 data)"

definition mime_types :: "(string \<times> string) list" where
  "mime_types =
     [(''.txt'', ''text/plain''), (''.html'', ''text/html''), (''.htm'', ''text/html''), (''.pdf'', ''application/pdf''),
      (''.doc'', ''application/msword''),
      (''.docx'', ''application/vnd.openxmlformats-officedocument.wordprocessingml.document''),
      (''.xls'', ''application/vnd.ms-excel''),
      (''.xlsx'', ''application/vnd.openxmlformats-officedocument.spreadsheetml.sheet''),
      (''.png'', ''image/png''), (''.jpg'', ''image/jpeg''), (''.jpeg'', ''image/jpeg''), (''.gif'', ''image/gif''),
      (''.zip'', ''application/zip''), (''.rar'', ''application/x-rar-compressed''), (''.csv'', ''text/csv'')]"

definition content_type_of :: "string \<Rightarrow> string" where
  "content_type_of filename =
     (case map_of mime_types (to_lower (path_ext filename)) of
        None \<Rightarrow> ''application/octet-stream'' | Some ct \<Rightarrow> ct)"

definition quoted :: "string \<Rightarrow> string" where
  "quoted s = CHR 0x22 # s @ [CHR 0x22]"

definition header_section :: "string \<Rightarrow> string \<Rightarrow> string \<Rightarrow> string \<Rightarrow> string \<Rightarrow> string \<Rightarrow> string" where
  "header_section from to cc subject mid date =
     text_header ''From'' (sanitize_header_field from) @
     text_header ''To'' (sanitize_header_field to) @
     (if cc \<noteq> [] then text_header ''Cc'' (sanitize_header_field cc) else []) @
     text_header ''Subject'' (encode_subject subject) @
     text_header ''Message-ID'' mid @
     text_header ''Date'' date @
     text_header ''MIME-Version'' ''1.0''"

definition body_part :: "string \<Rightarrow> string \<Rightarrow> string \<Rightarrow> string" where
  "body_part boundary body html =
     (if html \<noteq> [] then
        text_header ''Content-Type'' (''multipart/alternative; boundary='' @ quoted boundary) @ crlf @
        ''--'' @ boundary @ crlf @ text_header ''Content-Type'' ''text/plain; charset=utf-8'' @ crlf @ body @
        crlf @ ''--'' @ boundary @ crlf @ text_header ''Content-Type'' ''text/html; charset=utf-8'' @ crlf @ html @
        crlf @ ''--'' @ boundary @ ''--'' @ crlf
      else text_header ''Content-Type'' ''text/plain; charset=utf-8'' @ crlf @ body @ crlf)"

definition attachment_part :: "string \<Rightarrow> pending_attachment \<Rightarrow> string" where
  "attachment_part boundary a =
     ''--'' @ boundary @ crlf @
     text_header ''Content-Type'' (format_media_type (at_content_type a) ''name'' (at_filename a)) @
     text_header ''Content-Transfer-Encoding'' ''base64'' @
     text_header ''Content-Disposition'' (format_content_disposition (at_filename a)) @ crlf @
     base64_line_wrap (at_data a) @ crlf"

text \<open>The library's UUIDs are handed out in the order of the calls: the Message-ID, then the boundaries.\<close>

definition build_outgoing_message ::
  "string \<Rightarrow> string \<Rightarrow> string \<Rightarrow> string \<Rightarrow> string \<Rightarrow> string \<Rightarrow> string \<Rightarrow> pending_attachment list \<Rightarrow> disk \<Rightarrow>
   (string \<times> string) \<times> disk" where
  "build_outgoing_message date from to cc subject body html atts dk =
     (let (u0, dk0) = next_uuid dk;
          mid = ''<'' @ u0 @ ''@mail_go>'';
          (u1, dk1) = (if atts \<noteq> [] then next_uuid dk0 else ([], dk0));
          outer = ''----=_Mixed_'' @ u1;
          (u2, dk2) = (if html \<noteq> [] then next_uuid dk1 else ([], dk1));
          body_text = body_part (''----=_Part_'' @ u2) body html
      in ((mid,
           header_section from to cc subject mid date @
           (if atts \<noteq> [] then
              text_header ''Content-Type'' (''multipart/mixed; boundary='' @ quoted outer) @ crlf @
              ''--'' @ outer @ crlf @ body_text @ concat (map (attachment_part outer) atts) @
              ''--'' @ outer @ ''--'' @ crlf
            else body_text)), dk2))"

section \<open>Reading the header back\<close>

fun take_line :: "string \<Rightarrow> string \<times> string" where
  \<comment> \<open>a line and the rest after its CRLF\<close>
  "take_line [] = ([], [])"
| "take_line [c] = ([c], [])"
| "take_line (c # d # s) =
     (if c = CHR 0x0D \<and> d = CHR 0x0A then ([], s) else let (l, r) = take_line (d # s) in (c # l, r))"

lemma take_line_length: "length (snd (take_line s)) \<le> length s"
  by (induction s rule: take_line.induct) (auto split: prod.splits)

lemma take_line_shrinks: "fst (take_line s) \<noteq> [] \<Longrightarrow> length (snd (take_line s)) < length s"
proof (induction s rule: take_line.induct)
  case (3 c d s)
  then show ?case using take_line_length [of "d # s"] by (auto split: prod.splits if_splits)
qed simp_all

function header_lines :: "string \<Rightarrow> string list" where
  \<comment> \<open>the lines before the first empty one\<close>
  "header_lines s =
     (if fst (take_line s) = [] then [] else fst (take_line s) # header_lines (snd (take_line s)))"
  by pat_completeness auto
termination by (relation "measure length") (auto simp: take_line_shrinks)

declare header_lines.simps [simp del]

lemma take_line_append: "CHR 0x0D \<notin> set l \<Longrightarrow> take_line (l @ crlf @ r) = (l, r)"
proof (induction l)
  case Nil
  then show ?case by (simp add: crlf_def)
next
  case (Cons c l)
  then have "take_line (l @ crlf @ r) = (l, r)" "c \<noteq> CHR 0x0D" by auto
  moreover obtain d t where "l @ crlf @ r = d # t" by (cases "l @ crlf @ r") (auto simp: crlf_def)
  ultimately show ?case by simp
qed

lemma header_lines_header:
  assumes "CHR 0x0D \<notin> set k" and "CHR 0x0D \<notin> set v"
  shows "header_lines (text_header k v @ r) = (k @ '': '' @ v) # header_lines r"
  using take_line_append [of "k @ '': '' @ v" r] assms by (simp add: text_header_def header_lines.simps [of "_ @ _"])

lemma header_lines_line:
  assumes "CHR 0x0D \<notin> set l" and "l \<noteq> []"
  shows "header_lines (l @ crlf @ r) = l # header_lines r"
  using take_line_append [OF assms(1), of r] assms(2) by (simp add: header_lines.simps [of "_ @ _"])

lemma header_lines_end [simp]: "header_lines (crlf @ r) = []"
  by (simp add: header_lines.simps crlf_def)

section \<open>No input makes a line\<close>

definition clean_char :: "char \<Rightarrow> bool" where
  \<comment> \<open>no carriage return, no line feed, no NUL\<close>
  "clean_char c \<longleftrightarrow> c \<notin> {CHR 0x00, CHR 0x0A, CHR 0x0D}"

definition clean :: "string \<Rightarrow> bool" where
  "clean s \<longleftrightarrow> list_all clean_char s"

lemma clean_simps [simp]:
  "clean []" "clean (c # s) \<longleftrightarrow> clean_char c \<and> clean s" "clean (s @ t) \<longleftrightarrow> clean s \<and> clean t"
  by (simp_all add: clean_def)

lemma clean_concat_map: "(\<And>c. clean_char c \<Longrightarrow> clean (f c)) \<Longrightarrow> clean s \<Longrightarrow> clean (concat (map f s))"
  by (induction s) auto

lemma clean_concat_map_all: "(\<And>c. clean (f c)) \<Longrightarrow> clean (concat (map f s))"
  by (induction s) auto

lemma clean_no_cr: "clean s \<Longrightarrow> CHR 0x0D \<notin> set s"
  by (auto simp: clean_def clean_char_def list_all_iff)

lemma printable_clean: "printable c \<Longrightarrow> clean_char c"
  by (auto simp: printable_def clean_char_def Let_def)

lemma tab_clean: "clean_char (CHR 0x09)"
  by (simp add: clean_char_def)

lemma plain_clean: "\<not> needs_encoding s \<Longrightarrow> clean s"
  unfolding needs_encoding_def clean_def list_all_iff using printable_clean tab_clean by blast

lemma hex_upper_clean: "n < 16 \<Longrightarrow> clean_char (hex_upper n)"
  by (auto simp: clean_char_def hex_upper_def char_of_eq_iff take_bit_nat_eq_self split: if_splits)

lemma hex_escape_clean: "clean_char m \<Longrightarrow> clean (hex_escape m c)"
proof -
  have "(of_char c :: nat) div 16 < 16" using nat_of_char_less_256 [of c] by (simp add: less_mult_imp_div_less)
  then show "clean_char m \<Longrightarrow> clean (hex_escape m c)"
    by (simp add: hex_escape_def hex_upper_clean)
qed

lemma q_char_clean: "clean (q_char c)"
proof -
  have "clean_char CHR ''_''" "clean_char CHR ''=''" by (simp_all add: clean_char_def)
  with hex_escape_clean [of "CHR ''=''" c] printable_clean [of c] show ?thesis
    by (simp add: q_char_def q_plain_def)
qed

lemma q_words_clean: "clean (q_words len s)"
proof (induction len s rule: q_words.induct)
  case (1 len s)
  show ?case
  proof (cases s)
    case Nil
    then show ?thesis by (simp add: q_words.simps)
  next
    case (Cons c cs)
    define w where "w = (if q_plain c then 1 else rune_width s)"
    define n where "n = (if q_plain c then 1 else 3 * rune_width s)"
    have wn: "(if q_plain c then (1, 1) else (rune_width s, 3 * rune_width s)) = (w, n)"
      by (simp add: w_def n_def)
    have "clean (q_words (if len + n > 63 then n else len + n) (drop w s))"
      by (rule "1.IH" [OF Cons wn [symmetric] refl refl])
    moreover have "clean (concat (map q_char (take w s)))"
      by (rule clean_concat_map_all) (rule q_char_clean)
    moreover have "clean ''?= =?utf-8?q?''" by (simp add: clean_char_def)
    ultimately show ?thesis using Cons wn by (subst q_words.simps) (simp add: Let_def)
  qed
qed

lemma q_encode_clean: "clean s \<Longrightarrow> clean (q_encode s)"
  using q_words_clean [of 0 s] by (simp add: q_encode_def clean_char_def)

lemma sanitize_clean: "clean (sanitize_header_field s)"
  by (auto simp: clean_def clean_char_def list_all_iff sanitize_header_field_def remove_char_def)

lemma token_clean: "is_token s \<Longrightarrow> clean s"
  unfolding is_token_def clean_def list_all_iff using printable_clean by blast

definition percent_char :: "char \<Rightarrow> string" where
  "percent_char c = (if \<not> printable c \<or> c \<in> {CHR '' '', CHR ''*'', CHR 0x27, CHR ''%''} \<or> t_special c
     then hex_escape CHR ''%'' c else [c])"

definition quote_char :: "char \<Rightarrow> string" where
  "quote_char c = (if c \<in> {CHR 0x22, CHR 0x5C} then [CHR 0x5C, c] else [c])"

lemma percent_char_clean: "clean (percent_char c)"
  using hex_escape_clean [of "CHR ''%''" c] printable_clean [of c] by (simp add: percent_char_def clean_char_def)

lemma quote_char_clean: "clean_char c \<Longrightarrow> clean (quote_char c)"
  by (simp add: quote_char_def clean_char_def)

lemma param_value_clean: "clean (param_value v)"
proof -
  have lit: "clean_char CHR ''=''" "clean_char CHR 0x22" "clean (''*=utf-8'' @ [CHR 0x27, CHR 0x27])"
    by (simp_all add: clean_char_def)
  have "clean (concat (map percent_char v))" by (rule clean_concat_map_all) (rule percent_char_clean)
  moreover have "\<not> needs_encoding v \<Longrightarrow> clean (concat (map quote_char v))"
    using plain_clean clean_concat_map quote_char_clean by blast
  ultimately show ?thesis using token_clean [of v] lit
    unfolding param_value_def percent_char_def [symmetric] quote_char_def [symmetric] by simp
qed

lemma lower_char_clean: "clean_char c \<Longrightarrow> clean_char (lower_char c)"
proof -
  assume c: "clean_char c"
  show "clean_char (lower_char c)"
  proof (cases "65 \<le> (of_char c :: nat) \<and> (of_char c :: nat) \<le> 90")
    case True
    then show ?thesis by (auto simp: lower_char_def Let_def clean_char_def char_of_eq_iff take_bit_nat_eq_self)
  next
    case False
    then have "lower_char c = c" unfolding lower_char_def Let_def by (rule if_not_P)
    with c show ?thesis by simp
  qed
qed

lemma to_lower_clean: "clean s \<Longrightarrow> clean (to_lower s)"
  unfolding clean_def list_all_iff to_lower_def using lower_char_clean by auto

lemma split_n2_clean: "split_n2 CHR ''/'' t = [a, b] \<Longrightarrow> clean a \<Longrightarrow> clean b \<Longrightarrow> clean t"
proof -
  assume s: "split_n2 CHR ''/'' t = [a, b]" and ab: "clean a" "clean b"
  from s obtain i where i: "index_byte CHR ''/'' t = Some i" "a = take i t" "b = drop (Suc i) t"
    by (auto simp: split_n2_def split: option.splits)
  from index_byte_Some [OF i(1)] have "t = a @ CHR ''/'' # b" using i(2,3) id_take_nth_drop [of i t] by simp
  moreover have "clean_char CHR ''/''" by (simp add: clean_char_def)
  ultimately show "clean t" using ab by simp
qed

lemma format_media_type_clean: "clean (format_media_type t a v)"
proof (cases "(case split_n2 CHR ''/'' t of [major, sub] \<Rightarrow> is_token major \<and> is_token sub | _ \<Rightarrow> is_token t) \<and> is_token a")
  case True
  then have "clean t" using token_clean split_n2_clean [of t] by (auto split: list.splits)
  moreover have "clean ''; ''" by (simp add: clean_char_def)
  ultimately show ?thesis using True param_value_clean [of v] to_lower_clean token_clean [of a]
    by (simp add: format_media_type_def Let_def)
next
  case False
  then show ?thesis by (auto simp: format_media_type_def Let_def)
qed

section \<open>The header of an outgoing message\<close>

lemma uuid_clean:
  assumes "uuid_text u"
  shows "clean u"
proof -
  have "c = CHR ''-'' \<or> hex_lower c" if c: "c \<in> set u" for c
  proof -
    from c obtain i where "i < 36" "c = u ! i" using assms by (auto simp: uuid_text_def in_set_conv_nth)
    with assms show ?thesis unfolding uuid_text_def by (cases "i \<in> {8, 13, 18, 23}") auto
  qed
  moreover have "clean_char c" if "c = CHR ''-'' \<or> hex_lower c" for c
    using that by (auto simp: clean_char_def hex_lower_def Let_def)
  ultimately show ?thesis unfolding clean_def list_all_iff by blast
qed

lemma next_uuid_clean:
  assumes "\<forall>u \<in> set (take (Suc n) (disk_uuids dk)). uuid_text u" and "length (disk_uuids dk) \<ge> Suc n"
    and "next_uuid dk = (u, dk')"
  shows "clean u \<and> (\<forall>u \<in> set (take n (disk_uuids dk')). uuid_text u) \<and> length (disk_uuids dk') \<ge> n"
  using assms uuid_clean by (cases "disk_uuids dk") (auto simp: next_uuid_def)

lemma uuids_clean:
  assumes "\<forall>u \<in> set (take 3 (disk_uuids dk)). uuid_text u" and "length (disk_uuids dk) \<ge> 3"
    and "next_uuid dk = (u0, dk0)" and "(if P then next_uuid dk0 else ([], dk0)) = (u1, dk1)"
    and "(if Q then next_uuid dk1 else ([], dk1)) = (u2, dk2)"
  shows "clean u0 \<and> clean u1 \<and> clean u2"
proof -
  have 0: "clean u0 \<and> (\<forall>u \<in> set (take 2 (disk_uuids dk0)). uuid_text u) \<and> length (disk_uuids dk0) \<ge> 2"
    using next_uuid_clean [of 2 dk u0 dk0] assms(1-3) by (simp add: numeral_3_eq_3 numeral_2_eq_2)
  have 1: "clean u1 \<and> (\<forall>u \<in> set (take 1 (disk_uuids dk1)). uuid_text u) \<and> length (disk_uuids dk1) \<ge> 1"
    using next_uuid_clean [of 1 dk0 u1 dk1] 0 assms(4)
    by (cases P) (auto simp: numeral_2_eq_2 dest: in_set_takeD set_take_subset_set_take [THEN subsetD, rotated])
  have "clean u2" using next_uuid_clean [of 0 dk1 u2 dk2] 1 assms(5) by (cases Q) auto
  with 0 1 show ?thesis by blast
qed

definition outgoing_fields :: "string \<Rightarrow> string \<Rightarrow> string \<Rightarrow> string \<Rightarrow> string \<Rightarrow> string \<Rightarrow> string list" where
  "outgoing_fields from to cc subject mid date =
     [''From: '' @ sanitize_header_field from, ''To: '' @ sanitize_header_field to] @
     (if cc \<noteq> [] then [''Cc: '' @ sanitize_header_field cc] else []) @
     [''Subject: '' @ encode_subject subject, ''Message-ID: '' @ mid, ''Date: '' @ date, ''MIME-Version: 1.0'']"

lemma header_section_lines:
  assumes "clean mid" and "clean date"
  shows "header_lines (header_section from to cc subject mid date @ r) =
    outgoing_fields from to cc subject mid date @ header_lines r"
proof -
  note field = clean_no_cr [OF sanitize_clean] clean_no_cr [OF q_encode_clean [OF sanitize_clean]]
    clean_no_cr [OF assms(1)] clean_no_cr [OF assms(2)]
  show ?thesis
    by (simp add: header_section_def outgoing_fields_def header_lines_header field encode_subject_def)
qed

lemma body_part_lines:
  assumes "clean boundary"
  shows "\<exists>ct. header_lines (body_part boundary body html @ r) = [''Content-Type: '' @ ct] \<and> clean ct"
proof -
  define ct where "ct = (if html = [] then ''text/plain; charset=utf-8'' else ''multipart/alternative; boundary='' @ quoted boundary)"
  obtain t where t: "body_part boundary body html @ r = text_header ''Content-Type'' ct @ crlf @ t"
    by (cases "html = []") (auto simp: body_part_def ct_def)
  have "clean ct" using assms by (simp add: ct_def quoted_def clean_char_def)
  then show ?thesis unfolding t by (auto simp: header_lines_header clean_no_cr)
qed

lemma attachment_part_lines:
  assumes "clean boundary"
  shows "header_lines (attachment_part boundary a @ r) =
    [''--'' @ boundary, ''Content-Type: '' @ format_media_type (at_content_type a) ''name'' (at_filename a),
     ''Content-Transfer-Encoding: base64'', ''Content-Disposition: '' @ format_content_disposition (at_filename a)]"
proof -
  note field = clean_no_cr [OF format_media_type_clean] clean_no_cr [OF assms]
  have "header_lines ((''--'' @ boundary) @ crlf @ t) = (''--'' @ boundary) # header_lines t" for t
    using field by (intro header_lines_line) auto
  then show ?thesis
    by (simp add: attachment_part_def header_lines_header field format_content_disposition_def)
qed

text \<open>The composed message with its two boundaries as arguments.\<close>

definition composed_text ::
  "string \<Rightarrow> string \<Rightarrow> string \<Rightarrow> string \<Rightarrow> string \<Rightarrow> string \<Rightarrow> pending_attachment list \<Rightarrow>
   string \<Rightarrow> string \<Rightarrow> string \<Rightarrow> string \<Rightarrow> string" where
  "composed_text from to cc subject mid date atts outer part body html =
     header_section from to cc subject mid date @
      (if atts \<noteq> [] then text_header ''Content-Type'' (''multipart/mixed; boundary='' @ quoted outer) @ crlf @
         ''--'' @ outer @ crlf @ body_part part body html @ concat (map (attachment_part outer) atts) @
         ''--'' @ outer @ ''--'' @ crlf
       else body_part part body html)"

lemma build_composed:
  assumes "build_outgoing_message date from to cc subject body html atts dk = ((mid, raw), dk')"
    and "\<forall>u \<in> set (take 3 (disk_uuids dk)). uuid_text u" and "length (disk_uuids dk) \<ge> 3"
  obtains outer part where "clean mid" "clean outer" "clean part"
    "raw = composed_text from to cc subject mid date atts outer part body html"
proof -
  obtain u0 dk0 where u0: "next_uuid dk = (u0, dk0)" by fastforce
  obtain u1 dk1 where u1: "(if atts \<noteq> [] then next_uuid dk0 else ([], dk0)) = (u1, dk1)" by fastforce
  obtain u2 dk2 where u2: "(if html \<noteq> [] then next_uuid dk1 else ([], dk1)) = (u2, dk2)" by fastforce
  have "clean u0" "clean u1" "clean u2" using uuids_clean [OF assms(2,3) u0 u1 u2] by simp_all
  with assms(1) u0 u1 u2 show ?thesis
    by (intro that [of "''----=_Mixed_'' @ u1" "''----=_Part_'' @ u2"])
       (auto simp: build_outgoing_message_def composed_text_def Let_def clean_char_def)
qed

lemma composed_header:
  assumes "clean mid" and "clean date" and "clean outer" and "clean part"
  shows "\<exists>ct. header_lines (composed_text from to cc subject mid date atts outer part body html) =
      outgoing_fields from to cc subject mid date @ [''Content-Type: '' @ ct] \<and>
    list_all clean (header_lines (composed_text from to cc subject mid date atts outer part body html))"
proof -
  have "clean (''multipart/mixed; boundary='' @ quoted outer)" using assms(3) by (simp add: quoted_def clean_char_def)
  then have "\<exists>ct. header_lines (composed_text from to cc subject mid date atts outer part body html) =
      outgoing_fields from to cc subject mid date @ [''Content-Type: '' @ ct] \<and> clean ct"
    unfolding composed_text_def header_section_lines [OF assms(1,2)]
    using body_part_lines [OF assms(4), of body html "[]"] by (auto simp: header_lines_header clean_no_cr)
  moreover have "list_all clean (outgoing_fields from to cc subject mid date)"
    using assms(1,2) sanitize_clean q_encode_clean [OF sanitize_clean]
    by (simp add: outgoing_fields_def encode_subject_def clean_char_def)
  moreover have "clean ''Content-Type: ''" by (simp add: clean_char_def)
  ultimately show ?thesis by auto
qed

lemma composed_attachment:
  assumes "a \<in> set atts"
  shows "\<exists>pre post. composed_text from to cc subject mid date atts outer part body html = pre @ attachment_part outer a @ post"
proof -
  from assms obtain xs ys where at: "atts = xs @ a # ys" by (meson split_list)
  let ?h = "header_section from to cc subject mid date @
    text_header ''Content-Type'' (''multipart/mixed; boundary='' @ quoted outer) @ crlf @ ''--'' @ outer @ crlf @ body_part part body html"
  have "composed_text from to cc subject mid date atts outer part body html =
      (?h @ concat (map (attachment_part outer) xs)) @ attachment_part outer a @
      concat (map (attachment_part outer) ys) @ ''--'' @ outer @ ''--'' @ crlf"
    using at by (simp add: composed_text_def)
  then show ?thesis by blast
qed

text \<open>C31: what a user types adds no header. Whatever is typed as sender, recipients, copies, subject, body
  and attachment names, a reader of the composed message finds exactly the fields the program writes
  (From, To, Cc if given, Subject, Message-ID, Date, MIME-Version and one Content-Type), each free of
  carriage returns, line feeds and NULs; and the header of each attachment part is exactly its boundary,
  its type, its encoding and its disposition, as clean.\<close>

theorem outgoing_headers_exact:
  assumes "build_outgoing_message date from to cc subject body html atts dk = ((mid, raw), dk')"
    and "\<forall>u \<in> set (take 3 (disk_uuids dk)). uuid_text u" and "length (disk_uuids dk) \<ge> 3" and "clean date"
  shows "\<exists>ct boundary. header_lines raw = outgoing_fields from to cc subject mid date @ [''Content-Type: '' @ ct] \<and>
    list_all clean (header_lines raw) \<and>
    (\<forall>a \<in> set atts. \<exists>pre post. raw = pre @ attachment_part boundary a @ post \<and>
       header_lines (attachment_part boundary a @ post) =
         [''--'' @ boundary, ''Content-Type: '' @ format_media_type (at_content_type a) ''name'' (at_filename a),
          ''Content-Transfer-Encoding: base64'', ''Content-Disposition: '' @ format_content_disposition (at_filename a)] \<and>
       list_all clean (header_lines (attachment_part boundary a @ post)))"
proof -
  obtain outer part where c: "clean mid" "clean outer" "clean part"
    and raw: "raw = composed_text from to cc subject mid date atts outer part body html"
    by (rule build_composed [OF assms(1-3)])
  have "list_all clean [''--'' @ outer, ''Content-Type: '' @ format_media_type (at_content_type a) ''name'' (at_filename a),
      ''Content-Transfer-Encoding: base64'', ''Content-Disposition: '' @ format_content_disposition (at_filename a)]" for a
    using c(2) by (simp add: format_media_type_clean format_content_disposition_def clean_char_def)
  then have parts: "\<forall>a \<in> set atts. \<exists>pre post. raw = pre @ attachment_part outer a @ post \<and>
       header_lines (attachment_part outer a @ post) =
         [''--'' @ outer, ''Content-Type: '' @ format_media_type (at_content_type a) ''name'' (at_filename a),
          ''Content-Transfer-Encoding: base64'', ''Content-Disposition: '' @ format_content_disposition (at_filename a)] \<and>
       list_all clean (header_lines (attachment_part outer a @ post))"
    unfolding attachment_part_lines [OF c(2)] raw using composed_attachment by blast
  from composed_header [OF c(1) assms(4) c(2,3)] obtain ct where
    "header_lines raw = outgoing_fields from to cc subject mid date @ [''Content-Type: '' @ ct]" "list_all clean (header_lines raw)"
    unfolding raw by blast
  with parts show ?thesis by (intro exI [of _ ct] exI [of _ outer]) simp
qed

lemma sample_uuid_text: "uuid_text ''01234567-89ab-cdef-0123-456789abcdef''"
proof -
  have "\<forall>i < 36. if i \<in> {8, 13, 18, 23} then ''01234567-89ab-cdef-0123-456789abcdef'' ! i = CHR ''-''
      else hex_lower (''01234567-89ab-cdef-0123-456789abcdef'' ! i)"
    by (simp add: All_less_Suc numeral_eq_Suc hex_lower_def)
  then show ?thesis by (simp add: uuid_text_def)
qed

definition sample_uuids :: disk where
  "sample_uuids = \<lparr>disk_files = Map.empty, disk_faults = [],
     disk_uuids = replicate 3 ''01234567-89ab-cdef-0123-456789abcdef''\<rparr>"

lemma outgoing_headers_exact_witness:
  "\<exists>mid raw dk'. build_outgoing_message ''today'' ''a@x'' ''b@y'' [] (''hi'' @ crlf @ ''Bcc: c@z'') ''body'' []
       [\<lparr>at_filename = ''a.txt'' @ crlf, at_content_type = ''text/plain'', at_data = ''hi''\<rparr>] sample_uuids = ((mid, raw), dk') \<and>
     header_lines raw ! 2 = ''Subject: hiBcc: c@z'' \<and> length (header_lines raw) = 7"
proof -
  let ?a = "\<lparr>at_filename = ''a.txt'' @ crlf, at_content_type = ''text/plain'', at_data = ''hi''\<rparr>"
  obtain mid raw dk' where b: "build_outgoing_message ''today'' ''a@x'' ''b@y'' [] (''hi'' @ crlf @ ''Bcc: c@z'') ''body'' []
       [?a] sample_uuids = ((mid, raw), dk')" by (metis prod.collapse)
  have u: "\<forall>u \<in> set (take 3 (disk_uuids sample_uuids)). uuid_text u" "length (disk_uuids sample_uuids) \<ge> 3"
    using sample_uuid_text by (simp_all add: sample_uuids_def)
  have "clean ''today''" by (simp add: clean_char_def)
  from outgoing_headers_exact [OF b u this] obtain ct where
    "header_lines raw = outgoing_fields ''a@x'' ''b@y'' [] (''hi'' @ crlf @ ''Bcc: c@z'') mid ''today'' @ [''Content-Type: '' @ ct]"
    by blast
  moreover have "encode_subject (''hi'' @ crlf @ ''Bcc: c@z'') = ''hiBcc: c@z''" by code_simp
  ultimately show ?thesis using b by (simp add: outgoing_fields_def)
qed

section \<open>Attachments survive their encoding\<close>

definition b64_val :: "char \<Rightarrow> nat" where
  "b64_val c =
     (let n = of_char c in
      if 65 \<le> n \<and> n \<le> 90 then n - 65 else if 97 \<le> n \<and> n \<le> 122 then n - 71
      else if 48 \<le> n \<and> n \<le> 57 then n + 4 else if n = 43 then 62 else 63)"

fun base64_decode :: "string \<Rightarrow> string" where
  \<comment> \<open>the reference decoder of RFC 4648, on text that is well formed\<close>
  "base64_decode (a # b # c # d # s) =
     (let p = b64_val a; q = b64_val b; r = b64_val c; t = b64_val d
      in char_of (p * 4 + q div 16) #
         (if c = CHR ''='' then []
          else char_of (q mod 16 * 16 + r div 4) #
            (if d = CHR ''='' then [] else char_of (r mod 4 * 64 + t) # base64_decode s)))"
| "base64_decode s = []"

definition mime_decode :: "string \<Rightarrow> string" where
  \<comment> \<open>a MIME reader skips the line breaks\<close>
  "mime_decode s = base64_decode (filter (\<lambda>c. c \<notin> {CHR 0x0D, CHR 0x0A}) s)"

definition b64_code :: "nat \<Rightarrow> nat" where
  "b64_code n = (if n < 26 then 65 + n else if n < 52 then 71 + n else if n < 62 then n - 4 else if n = 62 then 43 else 47)"

lemma of_char_b64: "n < 64 \<Longrightarrow> (of_char (b64_char n) :: nat) = b64_code n"
  by (simp add: b64_char_def b64_code_def take_bit_nat_eq_self)

lemma b64_val_char: "n < 64 \<Longrightarrow> b64_val (b64_char n) = n"
  unfolding b64_val_def of_char_b64 Let_def b64_code_def by auto

lemma b64_char_alphabet:
  assumes "n < 64"
  shows "b64_char n \<notin> {CHR ''='', CHR 0x0D, CHR 0x0A}"
proof -
  have "b64_code n \<notin> {61, 13, 10}" using assms by (auto simp: b64_code_def split: if_splits)
  with of_char_b64 [OF assms] show ?thesis by auto
qed

lemma sextet_ranges:
  fixes x y z :: nat
  assumes "x < 256" "y < 256" "z < 256"
  shows "x div 4 < 64" "x mod 4 * 16 < 64" "x mod 4 * 16 + y div 16 < 64" "y mod 16 * 4 < 64"
    "y mod 16 * 4 + z div 64 < 64" "z mod 64 < 64"
proof -
  have "x div 4 < 64" "y div 16 < 16" "z div 64 < 4" using assms by (simp_all add: less_mult_imp_div_less)
  moreover have "x mod 4 < 4" "y mod 16 < 16" by simp_all
  ultimately show "x div 4 < 64" "x mod 4 * 16 < 64" "x mod 4 * 16 + y div 16 < 64" "y mod 16 * 4 < 64"
    "y mod 16 * 4 + z div 64 < 64" "z mod 64 < 64" by linarith+
qed

lemmas sextets = sextet_ranges [OF nat_of_char_less_256 nat_of_char_less_256 nat_of_char_less_256]

lemma octets:
  fixes x y z :: nat
  assumes "y < 256" "z < 256"
  shows "(x mod 4 * 16 + y div 16) div 16 = x mod 4" "(x mod 4 * 16 + y div 16) mod 16 = y div 16"
    "(y mod 16 * 4 + z div 64) div 4 = y mod 16" "(y mod 16 * 4 + z div 64) mod 4 = z div 64"
proof -
  have "y div 16 < 16" "z div 64 < 4" using assms by (simp_all add: less_mult_imp_div_less)
  then show "(x mod 4 * 16 + y div 16) div 16 = x mod 4" "(x mod 4 * 16 + y div 16) mod 16 = y div 16"
    "(y mod 16 * 4 + z div 64) div 4 = y mod 16" "(y mod 16 * 4 + z div 64) mod 4 = z div 64" by simp_all
qed

lemmas char_octets = octets [OF nat_of_char_less_256 nat_of_char_less_256]

lemma char_parts:
  "char_of (of_char b div 16 mod 16 * 16 + of_char b mod 16 :: nat) = b"
  "char_of (of_char b div 64 mod 4 * 64 + of_char b mod 64 :: nat) = b"
proof -
  have "(of_char b :: nat) div 16 < 16" "(of_char b :: nat) div 64 < 4"
    using nat_of_char_less_256 [of b] by (simp_all add: less_mult_imp_div_less)
  then show "char_of (of_char b div 16 mod 16 * 16 + of_char b mod 16 :: nat) = b"
    "char_of (of_char b div 64 mod 4 * 64 + of_char b mod 64 :: nat) = b" by simp_all
qed

lemma base64_decode_encode: "base64_decode (base64 s) = s"
proof (induction s rule: base64.induct)
  case (4 a b c s)
  show ?case using b64_char_alphabet [OF sextets(5) [of b c]] b64_char_alphabet [OF sextets(6) [of c]] 4
    by (simp add: Let_def b64_val_char sextets char_octets char_parts)
next
  case (3 a b)
  show ?case using b64_char_alphabet [OF sextets(4) [of b]] by (simp add: Let_def b64_val_char sextets char_octets char_parts)
qed (simp_all add: Let_def b64_val_char sextets)

lemma base64_alphabet: "c \<in> set (base64 s) \<Longrightarrow> c \<notin> {CHR 0x0D, CHR 0x0A}"
proof (induction s rule: base64.induct)
  case (2 a)
  with b64_char_alphabet [OF sextets(1) [of a]] b64_char_alphabet [OF sextets(2) [of a]]
  show ?case by (auto simp: Let_def)
next
  case (3 a b)
  with b64_char_alphabet [OF sextets(1) [of a]] b64_char_alphabet [OF sextets(3) [of a b]]
    b64_char_alphabet [OF sextets(4) [of b]]
  show ?case by (auto simp: Let_def)
next
  case (4 a b c' s)
  with b64_char_alphabet [OF sextets(1) [of a]] b64_char_alphabet [OF sextets(3) [of a b]]
    b64_char_alphabet [OF sextets(5) [of b c']] b64_char_alphabet [OF sextets(6) [of c']]
  show ?case by (auto simp: Let_def)
qed simp

lemma wrap76_unwrap:
  "\<forall>c \<in> set s. P c \<Longrightarrow> \<not> P (CHR 0x0D) \<Longrightarrow> \<not> P (CHR 0x0A) \<Longrightarrow> filter P (wrap76 s) = s"
proof (induction s rule: wrap76.induct)
  case (1 enc)
  show ?case
  proof (cases "length enc > 76")
    case True
    have "filter P (take 76 enc) = take 76 enc" using 1(2) by (auto simp: filter_id_conv dest: in_set_takeD)
    moreover have "filter P (wrap76 (drop 76 enc)) = drop 76 enc"
      using 1 True by (auto dest: in_set_dropD)
    ultimately show ?thesis using True 1(3,4) by (simp add: wrap76.simps [of enc] crlf_def)
  next
    case False
    with 1(2) show ?thesis by (simp add: wrap76.simps [of enc])
  qed
qed

lemma wrap76_lines:
  "CHR 0x0A \<notin> set s \<Longrightarrow> l \<in> set (split_on CHR 0x0A (wrap76 s)) \<Longrightarrow> length l \<le> 77"
proof (induction s rule: wrap76.induct)
  case (1 enc)
  show ?case
  proof (cases "length enc > 76")
    case True
    have "wrap76 enc = (take 76 enc @ [CHR 0x0D]) @ CHR 0x0A # wrap76 (drop 76 enc)"
      using True by (simp add: wrap76.simps [of enc] crlf_def)
    moreover have "CHR 0x0A \<notin> set (take 76 enc @ [CHR 0x0D])" using 1(2) by (auto dest: in_set_takeD)
    ultimately have "split_on CHR 0x0A (wrap76 enc) = (take 76 enc @ [CHR 0x0D]) # split_on CHR 0x0A (wrap76 (drop 76 enc))"
      by (metis split_on_append)
    with 1 True show ?thesis by (auto dest: in_set_dropD)
  next
    case False
    with 1 show ?thesis by (simp add: wrap76.simps [of enc] split_on_single)
  qed
qed

text \<open>C32: an attachment arrives as it was sent. Decoding the text of an attachment part, as a MIME reader
  does, gives the bytes back, whatever they are; and no line of it is longer than 76 characters and its
  carriage return, as RFC 2045 demands.\<close>

theorem attachment_survives:
  "mime_decode (base64_line_wrap data) = data \<and>
   list_all (\<lambda>l. length l \<le> 77) (split_on CHR 0x0A (base64_line_wrap data))"
proof -
  have a: "\<forall>c \<in> set (base64 data). c \<notin> {CHR 0x0D, CHR 0x0A}" using base64_alphabet by blast
  then have "filter (\<lambda>c. c \<notin> {CHR 0x0D, CHR 0x0A}) (wrap76 (base64 data)) = base64 data"
    by (intro wrap76_unwrap) auto
  moreover have "CHR 0x0A \<notin> set (base64 data)" using a by blast
  ultimately show ?thesis
    unfolding mime_decode_def base64_line_wrap_def list_all_iff
    by (metis base64_decode_encode wrap76_lines)
qed

end
