(* ===== verification/Caddy_Cert.thy ===== *)
theory Caddy_Cert
  imports Attachment_Storage "HOL-Library.List_Lexorder" "HOL-Library.Char_ord"
begin

text \<open>
  The import of certificates from a Caddy server on the same machine
  (\<open>internal/caddycert/caddycert.go\<close>). The file system is read only and is an argument, as are the
  X.509 library, the user's home directory and Go's \<open>%q\<close>. What follows shows what a certificate
  that is found is worth.
\<close>

section \<open>Files and certificates\<close>

datatype fs_error = Fs_Not_Exist | Fs_Permission | Fs_Other

datatype fs_node = Fs_Dir | Fs_File

record caddy_env =
  cy_stat :: "string \<Rightarrow> fs_error + fs_node"
  cy_read_dir :: "string \<Rightarrow> fs_error + (string \<times> bool) list"  \<comment> \<open>names in order; whether a directory\<close>
  cy_read_file :: "string \<Rightarrow> fs_error + string"
  cy_home :: "string option"
  cy_user :: string
  cy_quote :: "string \<Rightarrow> string"
  cy_leaf :: "string \<Rightarrow> string \<Rightarrow> string option"       \<comment> \<open>the leaf of a pair of certificate chain and key\<close>
  cy_not_after :: "string \<Rightarrow> gotime"
  cy_covers :: "string \<Rightarrow> string \<Rightarrow> bool"             \<comment> \<open>\<open>VerifyHostname\<close>\<close>

record caddy_cert =
  cc_cert_pem :: string
  cc_key_pem :: string
  cc_source :: string

definition path_base :: "string \<Rightarrow> string" where
  \<comment> \<open>\<open>filepath.Base\<close>\<close>
  "path_base p =
     (if p = [] then ''.''
      else let q = rev (dropWhile (\<lambda>c. c = slash) (rev p))
           in if q = [] then ''/'' else case last_index_byte slash q of None \<Rightarrow> q | Some i \<Rightarrow> drop (Suc i) q)"

definition valid_pair :: "caddy_env \<Rightarrow> gotime \<Rightarrow> string \<Rightarrow> string \<Rightarrow> string \<Rightarrow> bool" where
  "valid_pair cy now cert key domain =
     (case cy_leaf cy cert key of
        None \<Rightarrow> False
      | Some leaf \<Rightarrow> \<not> now > cy_not_after cy leaf \<and> cy_covers cy leaf domain)"

section \<open>The search\<close>

datatype found = Found caddy_cert | Invalid "string list" | Search_Failed fs_error

definition related_name :: "string \<Rightarrow> string \<Rightarrow> bool" where
  "related_name name domain \<longleftrightarrow>
     trim_suffix (''.'' @ domain) name = domain \<or> name = domain \<or>
     has_prefix ''*.'' name \<and> has_suffix (drop 1 name) domain"

definition read_domain_dir :: "caddy_env \<Rightarrow> gotime \<Rightarrow> string \<Rightarrow> string \<Rightarrow> found" where
  "read_domain_dir cy now dir domain =
     (let name = path_base dir;
          cert_path = path_join dir (name @ ''.crt'');
          key_path = path_join dir (name @ ''.key'')
      in case cy_read_file cy cert_path of
           Inl e \<Rightarrow> if e = Fs_Not_Exist then Invalid [] else Search_Failed e
         | Inr cert \<Rightarrow>
             (case cy_read_file cy key_path of
                Inl e \<Rightarrow> if e = Fs_Not_Exist then Invalid [] else Search_Failed e
              | Inr key \<Rightarrow>
                  if \<not> valid_pair cy now cert key domain
                  then Invalid (if related_name name domain then [cert_path] else [])
                  else Found \<lparr>cc_cert_pem = cert, cc_key_pem = key, cc_source = cert_path\<rparr>))"

fun search_dirs :: "caddy_env \<Rightarrow> gotime \<Rightarrow> string \<Rightarrow> string list \<Rightarrow> found" where
  \<comment> \<open>the first certificate in the directories, or the files that were of no use\<close>
  "search_dirs cy now domain [] = Invalid []"
| "search_dirs cy now domain (d # ds) =
     (case read_domain_dir cy now d domain of
        Invalid bad \<Rightarrow>
          (case search_dirs cy now domain ds of Invalid rest \<Rightarrow> Invalid (bad @ rest) | r \<Rightarrow> r)
      | r \<Rightarrow> r)"

definition sub_dirs :: "string \<Rightarrow> (string \<times> bool) list \<Rightarrow> string list" where
  "sub_dirs dir es = map (\<lambda>(name, _). path_join dir name) (filter snd es)"

fun scan_cas :: "caddy_env \<Rightarrow> gotime \<Rightarrow> string \<Rightarrow> string list \<Rightarrow> found" where
  "scan_cas cy now domain [] = Invalid []"
| "scan_cas cy now domain (ca # cas) =
     (case cy_read_dir cy ca of
        Inl e \<Rightarrow> Search_Failed e
      | Inr es \<Rightarrow>
          (case search_dirs cy now domain (sub_dirs ca es) of
             Invalid bad \<Rightarrow> (case scan_cas cy now domain cas of Invalid rest \<Rightarrow> Invalid (bad @ rest) | r \<Rightarrow> r)
           | r \<Rightarrow> r))"

definition search_root :: "caddy_env \<Rightarrow> gotime \<Rightarrow> string \<Rightarrow> string \<Rightarrow> found" where
  "search_root cy now domain root =
     (let certs_dir = (if path_base root \<noteq> ''certificates'' then path_join root ''certificates'' else root)
      in case cy_stat cy certs_dir of
           Inl e \<Rightarrow> if e = Fs_Not_Exist then Invalid [] else Search_Failed e
         | Inr node \<Rightarrow>
             if node \<noteq> Fs_Dir then Invalid []
             else case cy_read_dir cy certs_dir of
                 Inl e \<Rightarrow> Search_Failed e
               | Inr es \<Rightarrow>
                   (let cas = sub_dirs certs_dir es
                    in case search_dirs cy now domain (map (\<lambda>ca. path_join ca domain) cas) of
                         Invalid direct \<Rightarrow>
                           (case scan_cas cy now domain cas of
                              Invalid scanned \<Rightarrow> Invalid (sort (direct @ scanned))
                            | r \<Rightarrow> r)
                       | r \<Rightarrow> r))"

definition default_data_dirs :: "string list" where
  "default_data_dirs =
     [''/var/lib/caddy/.local/share/caddy'', ''/root/.local/share/caddy'', ''/home/caddy/.local/share/caddy'']"

fun add_roots :: "string list \<Rightarrow> string list \<Rightarrow> string list" where
  \<comment> \<open>cleaned, without trailing slashes, each once\<close>
  "add_roots seen [] = []"
| "add_roots seen (p # ps) =
     (let q = rev (dropWhile (\<lambda>c. c = slash) (rev (path_clean p)))
      in if q = [] \<or> q \<in> set seen then add_roots seen ps else q # add_roots (q # seen) ps)"

definition data_roots :: "caddy_env \<Rightarrow> string list \<Rightarrow> string list" where
  "data_roots cy dirs =
     add_roots [] (dirs @ default_data_dirs @
       (case cy_home cy of None \<Rightarrow> [] | Some h \<Rightarrow> if h = [] then [] else [path_join h ''.local/share/caddy'']))"

fun fetch_roots ::
  "caddy_env \<Rightarrow> gotime \<Rightarrow> string \<Rightarrow> string list \<Rightarrow> caddy_cert option \<times> string list \<times> string list" where
  \<comment> \<open>the certificate; else the useless files and the roots that may not be read\<close>
  "fetch_roots cy now domain [] = (None, [], [])"
| "fetch_roots cy now domain (root # roots) =
     (case search_root cy now domain root of
        Found c \<Rightarrow> (Some c, [], [])
      | Search_Failed e \<Rightarrow>
          (let (r, seen, denied) = fetch_roots cy now domain roots
           in (r, seen, if e = Fs_Permission then root # denied else denied))
      | Invalid bad \<Rightarrow>
          (let (r, seen, denied) = fetch_roots cy now domain roots in (r, bad @ seen, denied)))"

definition fetch_cert :: "caddy_env \<Rightarrow> gotime \<Rightarrow> string \<Rightarrow> string list \<Rightarrow> string + caddy_cert" where
  "fetch_cert cy now domain0 dirs =
     (let domain = to_lower (trim_space domain0)
      in if domain = [] then Inl (utf8 [229, 159, 159, 229, 144, 141, 228, 184, 186, 231, 169, 186])
         else case fetch_roots cy now domain (data_roots cy dirs) of
             (Some c, _, _) \<Rightarrow> Inr c
           | (None, seen, denied) \<Rightarrow>
               Inl ((utf8 [229, 156, 168] @ '' Caddy '' @ utf8 [232, 175, 129, 228, 185, 166, 229, 173, 152, 229, 130, 168, 228, 184, 173, 230, 156, 170, 230, 137, 190, 229, 136, 176, 229, 159, 159, 229, 144, 141] @ '' '') @ cy_quote cy domain @ ('' '' @ utf8 [231, 154, 132, 232, 175, 129, 228, 185, 166, 239, 188, 136, 232, 175, 183, 231, 161, 174, 232, 174, 164] @ '' Caddy '' @ utf8 [229, 183, 178, 228, 184, 186, 232, 175, 165, 229, 159, 159, 229, 144, 141, 231, 173, 190, 229, 143, 145, 232, 175, 129, 228, 185, 166, 239, 188, 137]) @
                 (if seen \<noteq> [] then (utf8 [239, 188, 155, 229, 143, 145, 231, 142, 176, 231, 155, 184, 229, 133, 179, 230, 150, 135, 228, 187, 182, 228, 189, 134, 232, 175, 129, 228, 185, 166, 230, 151, 160, 230, 149, 136] @ ''/'' @ utf8 [229, 183, 178, 232, 191, 135, 230, 156, 159] @ ''/'' @ utf8 [228, 184, 141, 229, 140, 185, 233, 133, 141, 229, 159, 159, 229, 144, 141] @ '': '') @ join (utf8 [227, 128, 129]) seen else []) @
                 (if denied \<noteq> []
                  then (utf8 [239, 188, 155, 229, 143, 166, 230, 156, 137, 231, 155, 174, 229, 189, 149, 229, 155, 160, 230, 157, 131, 233, 153, 144, 228, 184, 141, 232, 182, 179, 230, 156, 170, 232, 131, 189, 230, 163, 128, 230, 159, 165] @ '': '') @ join (utf8 [227, 128, 129]) denied @
                       (utf8 [239, 188, 140, 229, 143, 175, 232, 191, 144, 232, 161, 140] @ '' install.sh '' @ utf8 [231, 154, 132] @ '' setup-caddy-cert '' @ utf8 [230, 142, 136, 228, 186, 136] @ '' '') @ cy_user cy @ ('' '' @ utf8 [231, 148, 168, 230, 136, 183, 232, 175, 187, 229, 143, 150, 230, 157, 131, 233, 153, 144])
                  else [])))"

section \<open>What a certificate that is found is worth\<close>

definition trustworthy :: "caddy_env \<Rightarrow> gotime \<Rightarrow> string \<Rightarrow> caddy_cert \<Rightarrow> bool" where
  \<comment> \<open>the pair fits, has not expired and covers the domain, and both files are the ones on disk\<close>
  "trustworthy cy now domain c \<longleftrightarrow>
     (\<exists>leaf. cy_leaf cy (cc_cert_pem c) (cc_key_pem c) = Some leaf \<and> now \<le> cy_not_after cy leaf \<and> cy_covers cy leaf domain) \<and>
     cy_read_file cy (cc_source c) = Inr (cc_cert_pem c) \<and>
     (\<exists>dir. cc_source c = path_join dir (path_base dir @ ''.crt'') \<and>
        cy_read_file cy (path_join dir (path_base dir @ ''.key'')) = Inr (cc_key_pem c))"

lemma read_domain_dir_found: "read_domain_dir cy now dir domain = Found c \<Longrightarrow> trustworthy cy now domain c"
  unfolding read_domain_dir_def Let_def
  by (auto simp: trustworthy_def valid_pair_def split: sum.splits if_splits option.splits)

lemma search_dirs_found: "search_dirs cy now domain ds = Found c \<Longrightarrow> trustworthy cy now domain c"
  by (induction ds) (auto split: found.splits intro: read_domain_dir_found)

lemma scan_cas_found: "scan_cas cy now domain cas = Found c \<Longrightarrow> trustworthy cy now domain c"
  by (induction cas) (auto split: found.splits sum.splits intro: search_dirs_found)

lemma search_root_found: "search_root cy now domain root = Found c \<Longrightarrow> trustworthy cy now domain c"
  unfolding search_root_def Let_def
  by (auto split: found.splits sum.splits if_splits intro: search_dirs_found scan_cas_found)

lemma fetch_roots_found: "fetch_roots cy now domain roots = (Some c, x) \<Longrightarrow> trustworthy cy now domain c"
  by (induction roots arbitrary: x) (auto simp: Let_def split: found.splits prod.splits intro: search_root_found)

text \<open>C33: an imported certificate can be served. Whatever the file system holds, what \<open>Fetch\<close> gives for a
  domain is the contents of a certificate file and of the key file beside it, and they form a pair that
  has not expired and covers the domain.\<close>

theorem fetched_cert_trustworthy:
  assumes "fetch_cert cy now domain dirs = Inr c"
  shows "trustworthy cy now (to_lower (trim_space domain)) c"
proof -
  from assms obtain x where "fetch_roots cy now (to_lower (trim_space domain)) (data_roots cy dirs) = (Some c, x)"
    by (auto simp: fetch_cert_def Let_def split: if_splits prod.splits option.splits)
  then show ?thesis by (rule fetch_roots_found)
qed

definition sample_caddy :: caddy_env where
  "sample_caddy = \<lparr>cy_stat = (\<lambda>p. if p = ''/c/certificates'' then Inr Fs_Dir else Inl Fs_Not_Exist),
     cy_read_dir = (\<lambda>p. if p = ''/c/certificates'' then Inr [(''acme'', True)]
                        else if p = ''/c/certificates/acme'' then Inr [(''*.b.org'', True)] else Inl Fs_Other),
     cy_read_file = (\<lambda>p. if p = ''/c/certificates/acme/*.b.org/*.b.org.crt'' then Inr ''CERT''
                         else if p = ''/c/certificates/acme/*.b.org/*.b.org.key'' then Inr ''KEY'' else Inl Fs_Not_Exist),
     cy_home = None, cy_user = ''mail'', cy_quote = id,
     cy_leaf = (\<lambda>c k. if c = ''CERT'' \<and> k = ''KEY'' then Some ''*.b.org'' else None),
     cy_not_after = (\<lambda>_. 9), cy_covers = (\<lambda>l d. has_suffix (drop 1 l) d)\<rparr>"

lemma fetched_cert_trustworthy_witness:
  "\<exists>c. fetch_cert sample_caddy 5 '' Mail.B.org'' [''/c''] = Inr c \<and> cc_cert_pem c = ''CERT'' \<and>
     trustworthy sample_caddy 5 (to_lower (trim_space '' Mail.B.org'')) c"
proof -
  have f: "fetch_cert sample_caddy 5 '' Mail.B.org'' [''/c''] =
      Inr \<lparr>cc_cert_pem = ''CERT'', cc_key_pem = ''KEY'', cc_source = ''/c/certificates/acme/*.b.org/*.b.org.crt''\<rparr>"
    by code_simp
  from fetched_cert_trustworthy [OF f] f show ?thesis by simp
qed

text \<open>An empty directory is not ignored. The comment says that empty items of the list are skipped, but
  \<open>filepath.Clean\<close> turns the empty path into the current directory, which is then searched.\<close>

theorem empty_data_dir_searched: "\<exists>roots. data_roots cy ([] # dirs) = ''.'' # roots"
proof -
  have "path_clean [] = ''.''" by code_simp
  then show ?thesis by (simp add: data_roots_def Let_def)
qed

end
