(* ===== verification/Web_Common.thy ===== *)
theory Web_Common
  imports "HOL-Library.AList" Smtp_Server Imap_Service Web_Outgoing Caddy_Cert
begin

text \<open>
  What the handlers of the web interface share: requests, cookie sessions and responses; the
  middlewares of \<open>internal/web/middleware\<close>; the helpers of \<open>internal/web/handlers\<close> that read a
  request. The router, the template engine and the cookie store are third-party code: a request comes
  with the session its cookie carries (the cookie is signed), a page is the name of its template with
  the data it is given, and a location is the text handed to \<open>c.Redirect\<close>.
\<close>

section \<open>Requests and responses\<close>

datatype session_value = S_Uint nat | S_Int int | S_Int64 int | S_Uint64 nat | S_Float rat | S_Str string | S_Bool bool

type_synonym session = "(string \<times> session_value) list"

record uploaded_file =
  uf_name :: string
  uf_size :: int
  uf_content :: "string option"  \<comment> \<open>\<open>None\<close>: it cannot be opened or read\<close>

record request =
  rq_path :: string
  rq_ip :: string                              \<comment> \<open>\<open>c.ClientIP()\<close>\<close>
  rq_accept_language :: string
  rq_referer :: string
  rq_query :: "(string \<times> string) list"
  rq_form :: "(string \<times> string) list"
  rq_files :: "uploaded_file list option"      \<comment> \<open>\<open>None\<close>: the form is not a multipart form\<close>
  rq_state_cookie :: "string option"           \<comment> \<open>the OAuth2 state\<close>
  rq_session :: session
  rq_session_saves :: bool                     \<comment> \<open>whether the cookie store can write the session\<close>

definition field_value :: "string \<Rightarrow> (string \<times> string) list \<Rightarrow> string" where
  \<comment> \<open>\<open>c.Query\<close> and \<open>c.PostForm\<close>: the first value, empty without one\<close>
  "field_value k kvs = (case map_of kvs k of None \<Rightarrow> [] | Some v \<Rightarrow> v)"

abbreviation query :: "request \<Rightarrow> string \<Rightarrow> string" where "query q k \<equiv> field_value k (rq_query q)"
abbreviation post_form :: "request \<Rightarrow> string \<Rightarrow> string" where "post_form q k \<equiv> field_value k (rq_form q)"

datatype web_value =
    V_Str string | V_Int int | V_Bool bool | V_Time gotime
  | V_User "user option" | V_Users "user list" | V_Domain domain | V_Domains "domain list"
  | V_Message message | V_Messages "message list" | V_Attachments "attachment list"
  | V_Folders "folder_info list" | V_Queue "outbound_message list" | V_Counts "(outbound_status \<times> int) list"
  | V_Ban "ban_entry option" | V_Bans "(ban_entry \<times> bool) list" | V_Logs "protocol_log list"
  | V_Stats log_stats | V_Conns "hub_conn list" | V_Strs "(string \<times> string) list" | V_Status_Text

type_synonym page_data = "(string \<times> web_value) list"

datatype body =
    Redirect string              \<comment> \<open>the location\<close>
  | Text string
  | Page string page_data        \<comment> \<open>the template and its data\<close>
  | Blob string string           \<comment> \<open>content type and bytes\<close>

record response =
  rs_status :: nat
  rs_headers :: "(string \<times> string) list"
  rs_body :: body
  rs_session :: "session option"        \<comment> \<open>the session written back to the cookie\<close>
  rs_state_cookie :: "(string \<times> int) option"    \<comment> \<open>the OAuth2 state cookie that is set: value and \<open>Max-Age\<close>\<close>

definition plain_response :: "nat \<Rightarrow> body \<Rightarrow> response" where
  "plain_response st b = \<lparr>rs_status = st, rs_headers = [], rs_body = b, rs_session = None, rs_state_cookie = None\<rparr>"

definition redirect :: "string \<Rightarrow> response" where
  "redirect loc = plain_response 302 (Redirect loc)"

section \<open>The server\<close>

text \<open>
  Configuration and third-party code: the stores' parameters, the texts of errors (\<open>%v\<close>), bcrypt, the
  catalogue of translations, LDAP and OAuth2, key generation, PEM and TLS, and the display zone.
\<close>

record ldap_env =
  ld_dial :: "string \<Rightarrow> bool"
  ld_start_tls :: bool
  ld_bind :: "string \<Rightarrow> string \<Rightarrow> bool"                        \<comment> \<open>DN and password\<close>
  ld_escape :: "string \<Rightarrow> string"
  ld_search :: "string \<Rightarrow> string \<Rightarrow> (string \<times> string) list option"  \<comment> \<open>base and filter; DNs with their \<open>mail\<close>\<close>

record oauth_env =
  oa_google :: "string \<times> string"                               \<comment> \<open>the endpoints: authorization and token URLs\<close>
  oa_github :: "string \<times> string"
  oa_code_url :: "auth_config \<Rightarrow> string \<times> string \<Rightarrow> string \<Rightarrow> string"
  oa_exchange :: "auth_config \<Rightarrow> string \<times> string \<Rightarrow> string \<Rightarrow> string option"  \<comment> \<open>the token for a code\<close>
  oa_get :: "string \<Rightarrow> string \<Rightarrow> string option"                 \<comment> \<open>token and URL; the body\<close>
  oa_json_email :: "string \<Rightarrow> string option"
  oa_json_emails :: "string \<Rightarrow> (string \<times> bool) list option"     \<comment> \<open>addresses, and which are primary\<close>
  oa_random :: "nat list option"                               \<comment> \<open>the bytes \<open>rand.Read\<close> gives\<close>

record web_env =
  we_auth :: auth_config
  we_ban :: ban_config
  we_base_dir :: string
  we_tls_dir :: string
  we_caddy_dir :: string
  we_outbound :: "outbound_config option"
  we_pusher :: bool
  we_range :: "nat \<Rightarrow> hub_conn list \<Rightarrow> hub_conn list"  \<comment> \<open>the order of the \<open>k\<close>-th loop of a request over the hub's map\<close>
  we_log_keep_days :: int
  we_lang :: lang_env
  we_check_pw :: "string \<Rightarrow> string \<Rightarrow> bool"
  we_hash_pw :: "string \<Rightarrow> string option"
  we_parse_addr :: "string \<Rightarrow> string option"
  we_sign :: signer
  we_fmt_date :: "gotime \<Rightarrow> string"            \<comment> \<open>\<open>time.RFC1123Z\<close>\<close>
  we_day_start :: "gotime \<Rightarrow> gotime"           \<comment> \<open>midnight in the display zone\<close>
  we_parse_date :: "string \<Rightarrow> gotime option"
  we_days_before :: "int \<Rightarrow> gotime \<Rightarrow> gotime"  \<comment> \<open>\<open>AddDate(0, 0, -n)\<close>\<close>
  we_err :: "err \<Rightarrow> string"
  we_enqueue_err :: "enqueue_error \<Rightarrow> string"
  we_file_err :: "storage_error \<Rightarrow> string"
  we_ldap :: ldap_env
  we_oauth :: oauth_env
  we_rsa_key :: "string option"                             \<comment> \<open>a fresh RSA key\<close>
  we_pkcs1 :: "string \<Rightarrow> string"                           \<comment> \<open>its private part, DER\<close>
  we_pkix :: "string \<Rightarrow> string option"                     \<comment> \<open>its public part, DER\<close>
  we_pem_encode :: "string \<Rightarrow> string \<Rightarrow> string"
  we_pem_decode :: "string \<Rightarrow> string option"
  we_key_pair_err :: "string \<Rightarrow> string \<Rightarrow> string option"   \<comment> \<open>\<open>tls.X509KeyPair\<close>\<close>
  we_caddy :: caddy_env
  we_query_escape :: "string \<Rightarrow> string"
  we_sql_len :: "string \<Rightarrow> int"

text \<open>The world is the one of the SMTP server: database, disk, rate limits, connections, pushes.\<close>

type_synonym web_world = smtp_world

definition web_db :: "(db \<Rightarrow> 'a \<times> db) \<Rightarrow> web_world \<Rightarrow> 'a \<times> web_world" where
  "web_db f w = (let (r, d) = f (sw_db w) in (r, w\<lparr>sw_db := d\<rparr>))"

definition web_push :: "web_env \<Rightarrow> push_event \<Rightarrow> web_world \<Rightarrow> web_world" where
  "web_push we e w = (if we_pusher we then w\<lparr>sw_pushed := sw_pushed w @ [e]\<rparr> else w)"

text \<open>What the middlewares leave in the gin context.\<close>

record ctx =
  cx_req :: request
  cx_lang :: "string option"
  cx_user :: "user option"
  cx_user_id :: nat
  cx_session :: session

definition lang_of :: "web_env \<Rightarrow> ctx \<Rightarrow> string" where
  "lang_of we cx =
     (case cx_lang cx of
        Some l \<Rightarrow> if supported l then l else from_accept_language (we_lang we) (rq_accept_language (cx_req cx))
      | None \<Rightarrow> from_accept_language (we_lang we) (rq_accept_language (cx_req cx)))"

definition tr :: "web_env \<Rightarrow> ctx \<Rightarrow> string \<Rightarrow> string" where
  "tr we cx key = translate (we_lang we) (lang_of we cx) key"

definition trf :: "web_env \<Rightarrow> ctx \<Rightarrow> string \<Rightarrow> fmt_arg list \<Rightarrow> string" where
  "trf we cx key as = translate_fmt (we_lang we) (lang_of we cx) key as"

definition with_lang :: "web_env \<Rightarrow> ctx \<Rightarrow> page_data \<Rightarrow> page_data" where
  "with_lang we cx data = data @ [(''Lang'', V_Str (lang_of we cx))]"

definition page :: "nat \<Rightarrow> string \<Rightarrow> web_env \<Rightarrow> ctx \<Rightarrow> page_data \<Rightarrow> response" where
  "page st name we cx data = plain_response st (Page name (with_lang we cx data))"

definition text_page :: "nat \<Rightarrow> string \<Rightarrow> response" where
  "text_page st msg = plain_response st (Text msg)"

section \<open>Reading a request\<close>

definition get_page_param :: "request \<Rightarrow> string \<Rightarrow> int \<Rightarrow> int" where
  "get_page_param q key default_val =
     (if query q key = [] then default_val
      else case atoi (query q key) of None \<Rightarrow> default_val | Some p \<Rightarrow> if p < 1 then default_val else p)"

definition form_int_or_default :: "request \<Rightarrow> string \<Rightarrow> int \<Rightarrow> int" where
  "form_int_or_default q key default_val =
     (if post_form q key = [] then default_val
      else case atoi (post_form q key) of None \<Rightarrow> default_val | Some n \<Rightarrow> n)"

definition form_uint_or_default :: "request \<Rightarrow> string \<Rightarrow> nat \<Rightarrow> nat" where
  "form_uint_or_default q key default_val =
     (if post_form q key = [] then default_val
      else case parse_uint (post_form q key) of None \<Rightarrow> default_val | Some n \<Rightarrow> n)"

definition safe_redirect_path :: "string \<Rightarrow> string" where
  "safe_redirect_path referer =
     (if referer = [] \<or> \<not> has_prefix ''/'' referer \<or> has_prefix ''//'' referer then [] else referer)"

definition total_pages :: "int \<Rightarrow> int \<Rightarrow> int" where
  \<comment> \<open>the number of pages, as every list page computes it\<close>
  "total_pages tot sz =
     (let n = (if tot mod sz > 0 then tot div sz + 1 else tot div sz) in if n < 1 then 0 else n)"

section \<open>Middlewares\<close>

definition unix_time :: "int \<Rightarrow> gotime" where
  \<comment> \<open>\<open>time.Unix(n, 0)\<close>: 1970 is 719162 days after the zero time\<close>
  "unix_time n = (719162 * 86400 + n) * second"

definition to_unix :: "gotime \<Rightarrow> int" where
  "to_unix t = t div second - 719162 * 86400"

definition rat_trunc :: "rat \<Rightarrow> int" where
  "rat_trunc r = (if r \<ge> 0 then \<lfloor>r\<rfloor> else - \<lfloor>- r\<rfloor>)"

definition uint64 :: "int \<Rightarrow> nat" where
  "uint64 i = nat (i mod 2 ^ 64)"

definition session_int64 :: "session_value option \<Rightarrow> int option" where
  "session_int64 v =
     (case v of
        Some (S_Int64 n) \<Rightarrow> Some n
      | Some (S_Int n) \<Rightarrow> Some n
      | Some (S_Uint n) \<Rightarrow> Some (int64 (int n))
      | Some (S_Uint64 n) \<Rightarrow> Some (int64 (int n))
      | Some (S_Float r) \<Rightarrow> Some (rat_trunc r)
      | _ \<Rightarrow> None)"

definition session_user_id :: "session_value \<Rightarrow> nat option" where
  "session_user_id v =
     (case v of
        S_Uint n \<Rightarrow> Some n
      | S_Int n \<Rightarrow> Some (uint64 n)
      | S_Int64 n \<Rightarrow> Some (uint64 n)
      | S_Float r \<Rightarrow> Some (uint64 (rat_trunc r))
      | _ \<Rightarrow> None)"

definition session_absolute_max_age :: duration where "session_absolute_max_age = 7 * 24 * hour"
definition session_sliding_refresh :: duration where "session_sliding_refresh = 12 * hour"

definition save_session :: "request \<Rightarrow> session \<Rightarrow> response \<Rightarrow> response" where
  "save_session q s r = (if rq_session_saves q then r\<lparr>rs_session := Some s\<rparr> else r)"

definition session_set :: "string \<Rightarrow> session_value \<Rightarrow> session \<Rightarrow> session" where
  "session_set k v s = AList.update k v s"

definition ban_middleware :: "web_env \<Rightarrow> gotime \<Rightarrow> request \<Rightarrow> web_world \<Rightarrow> response option \<times> web_world" where
  "ban_middleware we now q w =
     (case web_db (bans_is_banned now (rq_ip q)) w of
        (Some entry, w1) \<Rightarrow>
          (let lang = from_accept_language (we_lang we) (rq_accept_language q)
           in (Some (plain_response 403 (Page ''banned'' [(''entry'', V_Ban (Some entry)), (''Lang'', V_Str lang)])), w1))
      | (None, w1) \<Rightarrow> (None, w1))"

definition sq :: "string \<Rightarrow> string" where
  \<comment> \<open>a keyword of a policy stands in single quotes\<close>
  "sq s = CHR 0x27 # s @ [CHR 0x27]"

definition security_csp :: string where
  "security_csp =
     ''default-src '' @ sq ''self'' @ ''; script-src '' @ sq ''self'' @ '' '' @ sq ''unsafe-inline'' @
     ''; style-src '' @ sq ''self'' @ '' '' @ sq ''unsafe-inline'' @ ''; img-src '' @ sq ''self'' @ '' data: https:; '' @
     ''connect-src '' @ sq ''self'' @ ''; object-src '' @ sq ''none'' @ ''; base-uri '' @ sq ''self'' @ ''; '' @
     ''form-action '' @ sq ''self'' @ ''; frame-ancestors '' @ sq ''none''"

definition security_headers :: "(string \<times> string) list" where
  "security_headers =
     [(''Strict-Transport-Security'', ''max-age=31536000; includeSubDomains''),
      (''X-Frame-Options'', ''DENY''),
      (''X-Content-Type-Options'', ''nosniff''),
      (''Referrer-Policy'', ''strict-origin-when-cross-origin''),
      (''Content-Security-Policy'', security_csp)]"

definition to_login :: "request \<Rightarrow> response" where
  \<comment> \<open>the session is cleared and the user has to log in\<close>
  "to_login q = save_session q [] (redirect ''/login'')"

definition auth_middleware ::
  "web_env \<Rightarrow> gotime \<Rightarrow> request \<Rightarrow> web_world \<Rightarrow> (response + ctx \<times> session option) \<times> web_world" where
  \<comment> \<open>the response that ends the request, or the context with the session it has written back\<close>
  "auth_middleware we now q w =
     (case map_of (rq_session q) ''userID'' of
        None \<Rightarrow> (Inl (redirect ''/login''), w)
      | Some v \<Rightarrow>
          (let elapsed = map_option (\<lambda>n. now - unix_time n) (session_int64 (map_of (rq_session q) ''loginAt''));
               late = (case elapsed of None \<Rightarrow> False | Some e \<Rightarrow> e > session_absolute_max_age);
               refresh = (case elapsed of None \<Rightarrow> False | Some e \<Rightarrow> e > session_sliding_refresh);
               sess = (if refresh then session_set ''loginAt'' (S_Int64 (to_unix now)) (rq_session q) else rq_session q);
               saved = (if refresh \<and> rq_session_saves q then Some sess else None)
           in if late then (Inl (to_login q), w)
              else case session_user_id v of
                None \<Rightarrow> (Inl (to_login q), w)
              | Some i \<Rightarrow>
                  (case web_db (users_get_by_id i) w of
                     (Inl _, w1) \<Rightarrow> (Inl (to_login q), w1)
                   | (Inr u, w1) \<Rightarrow>
                       if u_must_change_password u \<and> rq_path q \<noteq> ''/settings'' \<and> rq_path q \<noteq> ''/logout''
                       then (Inl ((redirect ''/settings?force=1'')\<lparr>rs_session := saved\<rparr>), w1)
                       else (Inr (\<lparr>cx_req = q,
                                   cx_lang = Some (resolve_lang (we_lang we) (u_language u) (rq_accept_language q)),
                                   cx_user = Some u, cx_user_id = i, cx_session = sess\<rparr>, saved), w1))))"

definition admin_middleware :: "web_env \<Rightarrow> ctx \<Rightarrow> response option" where
  "admin_middleware we cx =
     (case cx_user cx of
        None \<Rightarrow> Some (text_page 403 (tr we cx k_forbidden))
      | Some u \<Rightarrow> if u_is_admin u then None else Some (text_page 403 (tr we cx k_admin_required)))"

section \<open>Lemmas\<close>

lemma web_db_eq: "web_db f w = (fst (f (sw_db w)), w\<lparr>sw_db := snd (f (sw_db w))\<rparr>)"
  by (simp add: web_db_def split_beta)

lemma web_push_simps [simp]:
  "sw_db (web_push we e w) = sw_db w" "sw_disk (web_push we e w) = sw_disk w"
  "sw_limits (web_push we e w) = sw_limits w" "sw_hub (web_push we e w) = sw_hub w"
  by (simp_all add: web_push_def)

section \<open>A concrete server\<close>

definition sample_env :: web_env where
  "sample_env =
     \<lparr>we_auth = cf_auth (default_config False), we_ban = cf_ban (default_config False), we_base_dir = ''/data'',
      we_tls_dir = ''/data/tls/domains'', we_caddy_dir = [], we_outbound = None, we_pusher = True, we_range = (\<lambda>_ cs. cs), we_log_keep_days = 7,
      we_lang = \<lparr>le_en = Map.empty, le_ja = Map.empty, le_parse_float = Map.empty\<rparr>,
      we_check_pw = (=), we_hash_pw = Some, we_parse_addr = Some, we_sign = (\<lambda>_ _ _ _. None),
      we_fmt_date = (\<lambda>_. ''today''), we_day_start = id, we_parse_date = Map.empty, we_days_before = (\<lambda>n t. t - n * 24 * hour),
      we_err = (\<lambda>_. ''error''), we_enqueue_err = (\<lambda>_. ''error''), we_file_err = (\<lambda>_. ''error''),
      we_ldap = \<lparr>ld_dial = (\<lambda>_. True), ld_start_tls = True, ld_bind = (\<lambda>dn pw. pw = ''pw''), ld_escape = id,
                 ld_search = (\<lambda>_ _. Some [(''cn=ann'', ''ann@x.org'')])\<rparr>,
      we_oauth = \<lparr>oa_google = ([], []), oa_github = ([], []), oa_code_url = (\<lambda>_ _ s. s), oa_exchange = (\<lambda>_ _ c. Some c),
                  oa_get = (\<lambda>_ _. None), oa_json_email = Map.empty, oa_json_emails = Map.empty, oa_random = Some (replicate 16 7)\<rparr>,
      we_rsa_key = None, we_pkcs1 = id, we_pkix = Some, we_pem_encode = (\<lambda>_ x. x), we_pem_decode = Some,
      we_key_pair_err = (\<lambda>_ _. None), we_caddy = sample_caddy, we_query_escape = id, we_sql_len = (\<lambda>s. int (length s))\<rparr>"

definition sample_site :: "db \<Rightarrow> web_world" where
  "sample_site d = \<lparr>sw_db = d, sw_disk = sample_disk, sw_limits = Map.empty, sw_hub = new_hub, sw_pushed = []\<rparr>"

definition sample_request :: "string \<Rightarrow> session \<Rightarrow> (string \<times> string) list \<Rightarrow> request" where
  "sample_request path sess form =
     \<lparr>rq_path = path, rq_ip = ''10.0.0.9'', rq_accept_language = ''en'', rq_referer = [], rq_query = [], rq_form = form,
      rq_files = None, rq_state_cookie = None, rq_session = sess, rq_session_saves = True\<rparr>"

end
