(* ===== verification/Web_Mail.thy ===== *)
theory Web_Mail
  imports Web_Common
begin

text \<open>
  The handlers of the mail pages (\<open>internal/web/handlers/mail.go\<close>), one definition per method of
  \<open>MailHandler\<close>; \<open>now\<close> is the reading of the clock. What follows shows that a handler changes nothing
  but the mail of its user, apart from the copies that a sent message leaves in other inboxes, what a
  deletion frees, and what a refused message keeps reserved.
\<close>

section \<open>Folders and pages\<close>

definition folders_for :: "nat \<Rightarrow> web_world \<Rightarrow> folder_info list \<times> web_world" where
  "folders_for uid w =
     (case web_db (svc_list uid) w of (Inl _, w1) \<Rightarrow> ([], w1) | (Inr infos, w1) \<Rightarrow> (infos, w1))"

definition user_email :: "user \<Rightarrow> string" where
  "user_email u = u_username u @ ''@'' @ d_name (u_domain u)"

definition user_email_of :: "ctx \<Rightarrow> string" where
  "user_email_of cx = (case cx_user cx of None \<Rightarrow> [] | Some u \<Rightarrow> user_email u)"

fun position_of :: "nat \<Rightarrow> message list \<Rightarrow> nat option" where
  "position_of i [] = None"
| "position_of i (m # ms) = (if m_id m = i then Some 0 else map_option Suc (position_of i ms))"

definition seq_of_folder :: "nat \<Rightarrow> string \<Rightarrow> nat \<Rightarrow> web_world \<Rightarrow> nat \<times> web_world" where
  "seq_of_folder uid folder i w =
     (case web_db (mails_list_all uid folder) w of
        (Inl _, w1) \<Rightarrow> (0, w1)
      | (Inr msgs, w1) \<Rightarrow>
          (case position_of i msgs of None \<Rightarrow> (0, w1) | Some k \<Rightarrow> (unat (of_nat (k + 1) :: u32), w1)))"

fun purge_files :: "web_env \<Rightarrow> nat \<Rightarrow> attachment list \<Rightarrow> web_world \<Rightarrow> web_world" where
  \<comment> \<open>the files and the quota of the attachments of one message; errors are ignored\<close>
  "purge_files we uid [] w = w"
| "purge_files we uid (a # as) w =
     (let (_, dk) = storage_delete (we_base_dir we) (a_file_path a) (sw_disk w);
          (_, w1) = web_db (users_update_used_bytes uid (- a_file_size a)) (w\<lparr>sw_disk := dk\<rparr>)
      in purge_files we uid as w1)"

fun purge_attachments :: "web_env \<Rightarrow> nat \<Rightarrow> message list \<Rightarrow> web_world \<Rightarrow> web_world" where
  "purge_attachments we uid [] w = w"
| "purge_attachments we uid (m # ms) w =
     (let (r, w1) = web_db (attachments_list_by_message (m_id m)) w;
          w2 = purge_files we uid (case r of Inl _ \<Rightarrow> [] | Inr as \<Rightarrow> as) w1;
          (_, w3) = web_db (attachments_delete_by_message (m_id m)) w2
      in purge_attachments we uid ms w3)"

definition purge_messages :: "web_env \<Rightarrow> nat \<Rightarrow> message list \<Rightarrow> web_world \<Rightarrow> web_world" where
  "purge_messages we uid msgs w = snd (web_db (mails_delete_many (map m_id msgs)) (purge_attachments we uid msgs w))"

definition web_folder :: "web_env \<Rightarrow> ctx \<Rightarrow> string \<Rightarrow> web_world \<Rightarrow> response \<times> web_world" where
  "web_folder we cx name0 w =
     (case web_db (svc_canonical (cx_user_id cx) name0) w of
        (None, w1) \<Rightarrow> (text_page 404 (tr we cx k_no_mailbox), w1)
      | (Some name, w1) \<Rightarrow>
          (let pg = get_page_param (cx_req cx) ''page'' 1
           in case web_db (svc_messages (cx_user_id cx) name pg 20) w1 of
                (Inl e, w2) \<Rightarrow> (text_page 500 (trf we cx k_list_failed [F_Str (we_err we e)]), w2)
              | (Inr (messages, tot), w2) \<Rightarrow>
                  (let (folders, w3) = folders_for (cx_user_id cx) w2
                   in (page 200 ''folder'' we cx
                         [(''currentUser'', V_User (cx_user cx)), (''messages'', V_Messages messages),
                          (''total'', V_Int tot), (''page'', V_Int pg), (''pageSize'', V_Int 20),
                          (''totalPages'', V_Int (total_pages tot 20)), (''folder'', V_Str name),
                          (''activeFolder'', V_Str name), (''isTrash'', V_Bool (name = ''Trash'')),
                          (''folders'', V_Folders folders)], w3))))"

definition web_view :: "web_env \<Rightarrow> ctx \<Rightarrow> string \<Rightarrow> web_world \<Rightarrow> response \<times> web_world" where
  "web_view we cx id_param w =
     (case parse_uint id_param of
        None \<Rightarrow> (text_page 400 (tr we cx k_bad_mail_id), w)
      | Some i \<Rightarrow>
          (case web_db (mails_get_by_id i) w of
             (Inl _, w1) \<Rightarrow> (text_page 404 (tr we cx k_no_mail), w1)
           | (Inr msg, w1) \<Rightarrow>
               if m_user_id msg \<noteq> cx_user_id cx then (text_page 403 (tr we cx k_forbidden), w1)
               else
                 (let (r, w2) = web_db (attachments_list_by_message i) w1;
                      w3 = (if m_is_read msg then w2 else snd (web_db (mails_mark_read i) w2));
                      (folders, w4) = folders_for (cx_user_id cx) w3
                  in (page 200 ''view'' we cx
                        [(''currentUser'', V_User (cx_user cx)), (''message'', V_Message (msg\<lparr>m_is_read := True\<rparr>)),
                         (''attachments'', V_Attachments (case r of Inl _ \<Rightarrow> [] | Inr as \<Rightarrow> as)),
                         (''activeFolder'', V_Str (m_folder msg)), (''inTrash'', V_Bool (m_folder msg = ''Trash'')),
                         (''folders'', V_Folders folders)], w4))))"

section \<open>Sending\<close>

definition web_compose :: "web_env \<Rightarrow> ctx \<Rightarrow> web_world \<Rightarrow> response \<times> web_world" where
  "web_compose we cx w =
     (let (r, w1) = web_db (users_get_by_id (cx_user_id cx)) w;
          (used, quota) = (case r of Inl _ \<Rightarrow> (0, 0) | Inr u \<Rightarrow> (u_used_bytes u, u_quota_bytes u));
          (folders, w2) = folders_for (cx_user_id cx) w1
      in (page 200 ''compose'' we cx
            [(''currentUser'', V_User (cx_user cx)), (''activeFolder'', V_Str ''compose''), (''error'', V_Str []),
             (''to'', V_Str (query (cx_req cx) ''to'')), (''subject'', V_Str (query (cx_req cx) ''subject'')),
             (''bodyContent'', V_Str []), (''usedBytes'', V_Int used), (''quotaBytes'', V_Int quota),
             (''folders'', V_Folders folders)], w2))"

text \<open>The form of a message as it was submitted.\<close>

record compose_form =
  fm_to :: string
  fm_subject :: string
  fm_body :: string
  fm_html :: string
  fm_cc :: string

definition read_form :: "request \<Rightarrow> compose_form" where
  "read_form q = \<lparr>fm_to = post_form q ''to'', fm_subject = post_form q ''subject'', fm_body = post_form q ''body'',
     fm_html = post_form q ''html_body'', fm_cc = post_form q ''cc''\<rparr>"

definition compose_page ::
  "nat \<Rightarrow> web_env \<Rightarrow> ctx \<Rightarrow> user \<Rightarrow> string \<Rightarrow> compose_form \<Rightarrow> int \<Rightarrow> int \<Rightarrow> web_world \<Rightarrow> response \<times> web_world" where
  "compose_page st we cx u msg fm used quota w =
     (let (folders, w1) = folders_for (cx_user_id cx) w
      in (page st ''compose'' we cx
            [(''currentUser'', V_User (Some u)), (''activeFolder'', V_Str ''compose''), (''error'', V_Str msg),
             (''to'', V_Str (fm_to fm)), (''subject'', V_Str (fm_subject fm)), (''cc'', V_Str (fm_cc fm)),
             (''bodyContent'', V_Str (fm_html fm)), (''usedBytes'', V_Int used), (''quotaBytes'', V_Int quota),
             (''folders'', V_Folders folders)], w1))"

definition compose_error ::
  "nat \<Rightarrow> web_env \<Rightarrow> ctx \<Rightarrow> user \<Rightarrow> string \<Rightarrow> compose_form \<Rightarrow> web_world \<Rightarrow> response \<times> web_world" where
  \<comment> \<open>the page with \<open>composeData\<close>\<close>
  "compose_error st we cx u msg fm w = compose_page st we cx u msg fm (u_used_bytes u) (u_quota_bytes u) w"

definition size_text :: "int \<Rightarrow> string" where
  \<comment> \<open>no size of an \<open>int64\<close> is without a unit\<close>
  "size_text b = (case format_bytes b of None \<Rightarrow> [] | Some s \<Rightarrow> s)"

fun read_uploads :: "nat \<Rightarrow> uploaded_file list \<Rightarrow> web_world \<Rightarrow> pending_attachment list \<times> web_world" where
  \<comment> \<open>a file that cannot be read gives its share of the quota back\<close>
  "read_uploads uid [] w = ([], w)"
| "read_uploads uid (f # fs) w =
     (case uf_content f of
        None \<Rightarrow> read_uploads uid fs (snd (web_db (users_update_used_bytes uid (- uf_size f)) w))
      | Some data \<Rightarrow>
          (let (as, w1) = read_uploads uid fs w
           in (\<lparr>at_filename = uf_name f, at_content_type = content_type_of (uf_name f), at_data = data\<rparr> # as, w1)))"

definition address_separator :: "char \<Rightarrow> bool" where
  "address_separator c \<longleftrightarrow> c \<in> {CHR '','', CHR '';'', CHR 0x0A, CHR 0x0D, CHR 0x09, CHR '' ''}"

fun fields_where :: "(char \<Rightarrow> bool) \<Rightarrow> string \<Rightarrow> string \<Rightarrow> string list" where
  \<comment> \<open>\<open>strings.FieldsFunc\<close> with the field read so far, reversed\<close>
  "fields_where P acc [] = (if acc = [] then [] else [rev acc])"
| "fields_where P acc (c # s) =
     (if P c then (if acc = [] then [] else [rev acc]) @ fields_where P [] s else fields_where P (c # acc) s)"

definition parse_address_input :: "string \<Rightarrow> string list" where
  "parse_address_input s = filter (\<lambda>a. a \<noteq> []) (map trim_space (fields_where address_separator [] s))"

fun split_recipients :: "string list \<Rightarrow> web_world \<Rightarrow> user list \<times> string list \<times> web_world" where
  \<comment> \<open>the accounts of this server, and the addresses that are none\<close>
  "split_recipients [] w = ([], [], w)"
| "split_recipients (rcpt # rs) w =
     (case web_db (users_get_by_email rcpt) w of
        (Inl _, w1) \<Rightarrow> (let (us, ext, w2) = split_recipients rs w1 in (us, rcpt # ext, w2))
      | (Inr u, w1) \<Rightarrow> (let (us, ext, w2) = split_recipients rs w1 in (u # us, ext, w2)))"

fun web_queue ::
  "web_env \<Rightarrow> outbound_config \<Rightarrow> gotime \<Rightarrow> user \<Rightarrow> string \<Rightarrow> string \<Rightarrow> string list \<Rightarrow> web_world \<Rightarrow>
   (string \<times> enqueue_error) option \<times> web_world" where
  "web_queue we cfg now u from_addr raw [] w = (None, w)"
| "web_queue we cfg now u from_addr raw (rcpt # rs) w =
     (let (uuid, dk) = next_uuid (sw_disk w)
      in case enqueue cfg (we_parse_addr we) (we_sign we) now uuid (Some u) from_addr rcpt raw (sw_limits w, sw_db w) of
           (Inl e, lm, d) \<Rightarrow> (Some (rcpt, e), w\<lparr>sw_disk := dk, sw_limits := lm, sw_db := d\<rparr>)
         | (Inr _, lm, d) \<Rightarrow>
             web_queue we cfg now u from_addr raw rs (w\<lparr>sw_disk := dk, sw_limits := lm, sw_db := d\<rparr>))"

definition composed_row :: "nat \<Rightarrow> string \<Rightarrow> string \<Rightarrow> string \<Rightarrow> string \<Rightarrow> gotime \<Rightarrow> compose_form \<Rightarrow> bool \<Rightarrow> message" where
  "composed_row uid folder mid from_addr raw now fm read =
     \<lparr>m_id = 0, m_user_id = uid, m_message_id = mid, m_folder = folder, m_from_addr = from_addr, m_to_addr = fm_to fm,
      m_cc_addr = fm_cc fm, m_subject = fm_subject fm, m_text_body = fm_body fm, m_html_body = fm_html fm,
      m_raw_data = raw, m_is_read = read, m_is_flagged = False, m_is_deleted = False, m_date = now, m_created_at = 0\<rparr>"

fun web_deliver ::
  "web_env \<Rightarrow> gotime \<Rightarrow> string \<Rightarrow> string \<Rightarrow> string \<Rightarrow> compose_form \<Rightarrow> user list \<Rightarrow> web_world \<Rightarrow> err option \<times> web_world" where
  \<comment> \<open>one unread copy in the inbox of each local recipient, until a copy cannot be stored\<close>
  "web_deliver we now mid from_addr raw fm [] w = (None, w)"
| "web_deliver we now mid from_addr raw fm (u # us) w =
     (case web_db (mails_create now (composed_row (u_id u) ''INBOX'' mid from_addr raw now fm False)) w of
        (Inl e, w1) \<Rightarrow> (Some e, w1)
      | (Inr m, w1) \<Rightarrow> web_deliver we now mid from_addr raw fm us (web_push we (Push_New (user_email u) m) w1))"

fun save_uploads :: "web_env \<Rightarrow> nat \<Rightarrow> nat \<Rightarrow> pending_attachment list \<Rightarrow> web_world \<Rightarrow> web_world" where
  \<comment> \<open>files and records of the attachments; one that fails gives its share of the quota back\<close>
  "save_uploads we uid mid [] w = w"
| "save_uploads we uid mid (a # as) w =
     (let refund = (\<lambda>w. snd (web_db (users_update_used_bytes uid (- int (length (at_data a)))) w))
      in case storage_save (we_base_dir we) (at_filename a) (at_data a) (sw_disk w) of
           (Inl _, dk) \<Rightarrow> save_uploads we uid mid as (refund (w\<lparr>sw_disk := dk\<rparr>))
         | (Inr path, dk) \<Rightarrow>
             (case web_db (attachments_create
                     \<lparr>a_id = 0, a_message_id = mid, a_file_name = at_filename a, a_file_path = path,
                      a_content_type = at_content_type a, a_file_size = int (length (at_data a))\<rparr>)
                   (w\<lparr>sw_disk := dk\<rparr>) of
                (Inl _, w1) \<Rightarrow> save_uploads we uid mid as (refund w1)
              | (Inr _, w1) \<Rightarrow> save_uploads we uid mid as w1))"

definition store_sent ::
  "web_env \<Rightarrow> gotime \<Rightarrow> ctx \<Rightarrow> user \<Rightarrow> compose_form \<Rightarrow> pending_attachment list \<Rightarrow> string \<Rightarrow> string \<Rightarrow> user list \<Rightarrow>
   web_world \<Rightarrow> response \<times> web_world" where
  \<comment> \<open>the end of \<open>DoSend\<close>: the local copies, the copy in \<open>Sent\<close>, its attachments\<close>
  "store_sent we now cx u fm atts mid raw us w =
     (case web_deliver we now mid (user_email u) raw fm us w of
        (Some e, w1) \<Rightarrow> compose_error 500 we cx u (trf we cx k_deliver_failed [F_Str (we_err we e)]) fm w1
      | (None, w1) \<Rightarrow>
          (case web_db (mails_create now (composed_row (cx_user_id cx) ''Sent'' mid (user_email u) raw now fm True)) w1 of
             (Inl e, w2) \<Rightarrow> compose_error 500 we cx u (trf we cx k_save_failed [F_Str (we_err we e)]) fm w2
           | (Inr m, w2) \<Rightarrow> (redirect ''/sent'', save_uploads we (cx_user_id cx) (m_id m) atts w2)))"

definition send_message ::
  "web_env \<Rightarrow> gotime \<Rightarrow> ctx \<Rightarrow> user \<Rightarrow> compose_form \<Rightarrow> pending_attachment list \<Rightarrow> web_world \<Rightarrow> response \<times> web_world" where
  \<comment> \<open>\<open>DoSend\<close> from the building of the message on\<close>
  "send_message we now cx u fm atts w =
     (let ((mid, raw), dk) = build_outgoing_message (we_fmt_date we now) (user_email u) (fm_to fm) (fm_cc fm)
             (fm_subject fm) (fm_body fm) (fm_html fm) atts (sw_disk w);
          (us, ext, w1) = split_recipients (parse_address_input (fm_to fm) @ parse_address_input (fm_cc fm))
             (w\<lparr>sw_disk := dk\<rparr>)
      in if ext = [] then store_sent we now cx u fm atts mid raw us w1
         else case we_outbound we of
             None \<Rightarrow> compose_error 400 we cx u (tr we cx k_outbound_disabled) fm w1
           | Some cfg \<Rightarrow>
               if \<not> manager_enabled cfg then compose_error 400 we cx u (tr we cx k_outbound_disabled) fm w1
               else if oc_max_recipients cfg > 0 \<and> int (length ext) > oc_max_recipients cfg
               then compose_error 400 we cx u (trf we cx k_too_many_external [F_Int (oc_max_recipients cfg)]) fm w1
               else case web_queue we cfg now u (user_email u) raw ext w1 of
                   (Some (rcpt, e), w2) \<Rightarrow>
                     compose_error 400 we cx u (trf we cx k_queue_failed [F_Str rcpt, F_Str (we_enqueue_err we e)]) fm w2
                 | (None, w2) \<Rightarrow> store_sent we now cx u fm atts mid raw us w2)"

definition over_quota ::
  "web_env \<Rightarrow> ctx \<Rightarrow> user \<Rightarrow> compose_form \<Rightarrow> web_world \<Rightarrow> response \<times> web_world" where
  "over_quota we cx u fm w =
     (let (r, w1) = web_db (users_get_by_id (cx_user_id cx)) w;
          v = (case r of Inl _ \<Rightarrow> u | Inr v \<Rightarrow> v)
      in compose_page 400 we cx u
           (trf we cx k_over_quota [F_Str (size_text (u_used_bytes v)), F_Str (size_text (u_quota_bytes v))])
           fm (u_used_bytes v) (u_quota_bytes v) w1)"

definition web_send :: "web_env \<Rightarrow> gotime \<Rightarrow> ctx \<Rightarrow> user \<Rightarrow> web_world \<Rightarrow> response \<times> web_world" where
  \<comment> \<open>\<open>DoSend\<close>; the user is \<open>currentUser\<close> of the context\<close>
  "web_send we now cx u w =
     (let fm = read_form (cx_req cx);
          files = (case rq_files (cx_req cx) of None \<Rightarrow> [] | Some fs \<Rightarrow> fs)
      in if fm_to fm = [] then compose_error 400 we cx u (tr we cx k_no_recipient) fm w
         else if files = [] then send_message we now cx u fm [] w
         else case web_db (users_try_reserve_quota (cx_user_id cx) (sum_list (map uf_size files))) w of
             (Inl _, w1) \<Rightarrow> compose_error 500 we cx u (tr we cx k_quota_check_failed) fm w1
           | (Inr False, w1) \<Rightarrow> over_quota we cx u fm w1
           | (Inr True, w1) \<Rightarrow>
               (let (atts, w2) = read_uploads (cx_user_id cx) files w1 in send_message we now cx u fm atts w2))"

section \<open>Messages\<close>

definition bare_message :: "nat \<Rightarrow> string \<Rightarrow> message" where
  \<comment> \<open>\<open>&db.Message{UserID: uid, Folder: folder}\<close>\<close>
  "bare_message uid folder =
     \<lparr>m_id = 0, m_user_id = uid, m_message_id = [], m_folder = folder, m_from_addr = [], m_to_addr = [], m_cc_addr = [],
      m_subject = [], m_text_body = [], m_html_body = [], m_raw_data = [], m_is_read = False, m_is_flagged = False,
      m_is_deleted = False, m_date = 0, m_created_at = 0\<rparr>"

definition push_for :: "web_env \<Rightarrow> ctx \<Rightarrow> (string \<Rightarrow> push_event list) \<Rightarrow> web_world \<Rightarrow> web_world" where
  \<comment> \<open>the notifications to the user's own clients\<close>
  "push_for we cx es w = (if user_email_of cx = [] then w else fold (web_push we) (es (user_email_of cx)) w)"

definition back_to :: "ctx \<Rightarrow> string \<Rightarrow> response" where
  "back_to cx fallback =
     (let referer = safe_redirect_path (rq_referer (cx_req cx)) in redirect (if referer = [] then fallback else referer))"

definition own_message ::
  "web_env \<Rightarrow> ctx \<Rightarrow> string \<Rightarrow> (message \<Rightarrow> web_world \<Rightarrow> response \<times> web_world) \<Rightarrow> web_world \<Rightarrow> response \<times> web_world" where
  \<comment> \<open>how \<open>Delete\<close>, \<open>Restore\<close>, \<open>Purge\<close> and \<open>MarkRead\<close> begin: the message of the path, if it is the user's\<close>
  "own_message we cx id_param act w =
     (case parse_uint id_param of
        None \<Rightarrow> (text_page 400 (tr we cx k_bad_mail_id), w)
      | Some i \<Rightarrow>
          (case web_db (mails_get_by_id i) w of
             (Inl _, w1) \<Rightarrow> (text_page 403 (tr we cx k_forbidden), w1)
           | (Inr msg, w1) \<Rightarrow>
               if m_user_id msg \<noteq> cx_user_id cx then (text_page 403 (tr we cx k_forbidden), w1) else act msg w1))"

definition purge_one :: "web_env \<Rightarrow> ctx \<Rightarrow> message \<Rightarrow> web_world \<Rightarrow> web_world" where
  "purge_one we cx msg w =
     (let (sq_no, w1) = seq_of_folder (cx_user_id cx) (m_folder msg) (m_id msg) w;
          w2 = purge_messages we (cx_user_id cx) [msg] w1
      in push_for we cx (\<lambda>email. [Push_Expunged email (m_folder msg) [sq_no]]) w2)"

definition web_delete :: "web_env \<Rightarrow> ctx \<Rightarrow> string \<Rightarrow> web_world \<Rightarrow> response \<times> web_world" where
  "web_delete we cx id_param =
     own_message we cx id_param (\<lambda>msg w.
       if m_folder msg = ''Trash'' then (back_to cx (''/folder/'' @ m_folder msg), purge_one we cx msg w)
       else
         (let (sq_no, w1) = seq_of_folder (cx_user_id cx) (m_folder msg) (m_id msg) w
          in case web_db (svc_move (cx_user_id cx) [m_id msg] ''Trash'') w1 of
               (Inl _, w2) \<Rightarrow> (text_page 500 (tr we cx k_delete_failed), w2)
             | (Inr _, w2) \<Rightarrow>
                 (back_to cx (''/folder/'' @ m_folder msg),
                  push_for we cx (\<lambda>email. [Push_Expunged email (m_folder msg) [sq_no],
                                         Push_New email (bare_message (cx_user_id cx) ''Trash'')]) w2)))"

definition web_restore :: "web_env \<Rightarrow> ctx \<Rightarrow> string \<Rightarrow> web_world \<Rightarrow> response \<times> web_world" where
  "web_restore we cx id_param =
     own_message we cx id_param (\<lambda>msg w.
       if m_folder msg \<noteq> ''Trash'' then (redirect (''/folder/'' @ m_folder msg), w)
       else
         (let (sq_no, w1) = seq_of_folder (cx_user_id cx) ''Trash'' (m_id msg) w
          in case web_db (svc_move (cx_user_id cx) [m_id msg] ''INBOX'') w1 of
               (Inl _, w2) \<Rightarrow> (text_page 500 (tr we cx k_restore_failed), w2)
             | (Inr _, w2) \<Rightarrow>
                 (redirect ''/folder/Trash'',
                  push_for we cx (\<lambda>email. [Push_Expunged email ''Trash'' [sq_no],
                                         Push_New email (bare_message (cx_user_id cx) ''INBOX'')]) w2)))"

definition web_purge :: "web_env \<Rightarrow> ctx \<Rightarrow> string \<Rightarrow> web_world \<Rightarrow> response \<times> web_world" where
  "web_purge we cx id_param =
     own_message we cx id_param (\<lambda>msg w. (back_to cx (''/folder/'' @ m_folder msg), purge_one we cx msg w))"

definition web_empty_folder :: "web_env \<Rightarrow> ctx \<Rightarrow> string \<Rightarrow> web_world \<Rightarrow> response \<times> web_world" where
  "web_empty_folder we cx name0 w =
     (case web_db (svc_canonical (cx_user_id cx) name0) w of
        (None, w1) \<Rightarrow> (text_page 404 (tr we cx k_no_mailbox), w1)
      | (Some name, w1) \<Rightarrow>
          (case web_db (mails_list_all (cx_user_id cx) name) w1 of
             (Inl e, w2) \<Rightarrow> (text_page 500 (trf we cx k_empty_failed [F_Str (we_err we e)]), w2)
           | (Inr msgs, w2) \<Rightarrow>
               (let w3 = purge_messages we (cx_user_id cx) msgs w2
                in (redirect (''/folder/'' @ name),
                    push_for we cx (\<lambda>email. [Push_Expunged email name
                      (map (\<lambda>i. unat (of_nat (i + 1) :: u32)) [0..<length msgs])]) w3))))"

definition web_mark_read :: "web_env \<Rightarrow> ctx \<Rightarrow> string \<Rightarrow> web_world \<Rightarrow> response \<times> web_world" where
  "web_mark_read we cx id_param =
     own_message we cx id_param (\<lambda>msg w.
       let (_, w1) = web_db (mails_mark_read (m_id msg)) w
       in (back_to cx ''/folder/INBOX'',
           web_push we (Push_Flags (user_email_of cx) (m_folder msg) (msg\<lparr>m_is_read := True\<rparr>)) w1))"

definition serve_attachment :: "web_env \<Rightarrow> ctx \<Rightarrow> attachment \<Rightarrow> web_world \<Rightarrow> response \<times> web_world" where
  \<comment> \<open>the file of an attachment as a download\<close>
  "serve_attachment we cx att w =
     (case storage_read (we_base_dir we) (a_file_path att) (sw_disk w) of
        (Inl _, dk) \<Rightarrow> (text_page 500 (tr we cx k_read_attachment_failed), w\<lparr>sw_disk := dk\<rparr>)
      | (Inr data, dk) \<Rightarrow>
          ((plain_response 200 (Blob (a_content_type att) data))
             \<lparr>rs_headers := [(''Content-Disposition'', format_content_disposition (a_file_name att))]\<rparr>,
           w\<lparr>sw_disk := dk\<rparr>))"

definition web_download :: "web_env \<Rightarrow> ctx \<Rightarrow> string \<Rightarrow> web_world \<Rightarrow> response \<times> web_world" where
  "web_download we cx id_param w =
     (case parse_uint id_param of
        None \<Rightarrow> (text_page 400 (tr we cx k_bad_attachment_id), w)
      | Some i \<Rightarrow>
          (case web_db (attachments_get_by_id i) w of
             (Inl _, w1) \<Rightarrow> (text_page 404 (tr we cx k_no_attachment), w1)
           | (Inr att, w1) \<Rightarrow>
               (case web_db (mails_get_by_id (a_message_id att)) w1 of
                  (Inl _, w2) \<Rightarrow> (text_page 403 (tr we cx k_forbidden), w2)
                | (Inr msg, w2) \<Rightarrow>
                    if m_user_id msg \<noteq> cx_user_id cx then (text_page 403 (tr we cx k_forbidden), w2)
                    else serve_attachment we cx att w2)))"

section \<open>Settings\<close>

definition web_settings :: "web_env \<Rightarrow> ctx \<Rightarrow> web_world \<Rightarrow> response \<times> web_world" where
  "web_settings we cx w =
     (let (folders, w1) = folders_for (cx_user_id cx) w
      in (page 200 ''settings'' we cx
            [(''currentUser'', V_User (cx_user cx)), (''activeFolder'', V_Str ''settings''), (''error'', V_Str []),
             (''success'', V_Str []), (''mustChange'', V_Bool (query (cx_req cx) ''force'' = ''1'')),
             (''folders'', V_Folders folders)], w1))"

definition settings_page ::
  "nat \<Rightarrow> web_env \<Rightarrow> ctx \<Rightarrow> user \<Rightarrow> string \<Rightarrow> string \<Rightarrow> web_world \<Rightarrow> response \<times> web_world" where
  "settings_page st we cx u err_msg success w =
     (let (folders, w1) = folders_for (cx_user_id cx) w
      in (page st ''settings'' we cx
            [(''currentUser'', V_User (Some u)), (''activeFolder'', V_Str ''settings''), (''error'', V_Str err_msg),
             (''success'', V_Str success), (''folders'', V_Folders folders)], w1))"

definition web_update_settings :: "web_env \<Rightarrow> ctx \<Rightarrow> user \<Rightarrow> web_world \<Rightarrow> response \<times> web_world" where
  "web_update_settings we cx u w =
     (let q = cx_req cx;
          lang = post_form q ''language'';
          old_password = post_form q ''old_password'';
          new_password = post_form q ''new_password'';
          fail = (\<lambda>st key. settings_page st we cx u (tr we cx key) [])
      in if lang \<noteq> [] \<and> old_password = [] then
           (case web_db (users_update_language (cx_user_id cx) lang) w of
              (Inl _, w1) \<Rightarrow> fail 500 k_language_failed w1
            | (Inr _, w1) \<Rightarrow> settings_page 200 we cx u [] (tr we cx k_language_saved) w1)
         else if \<not> we_check_pw we (u_password_hash u) old_password then fail 400 k_wrong_password w
         else if new_password = [] then fail 400 k_empty_password w
         else if new_password \<noteq> post_form q ''confirm_password'' then fail 400 k_password_mismatch w
         else case we_hash_pw we new_password of
             None \<Rightarrow> fail 500 k_hash_failed w
           | Some hashed \<Rightarrow>
               (case web_db (users_update_password (cx_user_id cx) hashed) w of
                  (Inl _, w1) \<Rightarrow> fail 500 k_password_failed w1
                | (Inr _, w1) \<Rightarrow> settings_page 200 we cx u [] (tr we cx k_password_changed) w1))"

end
