(* ===== verification/Web_Isolation.thy ===== *)
theory Web_Isolation
  imports Web_Mail
begin

text \<open>
  What a request of the mail pages may change. The relation \<open>confined\<close> says it for one user; every
  handler of \<open>Web_Mail\<close> keeps to it, whatever the request, the failing statements and the files.
\<close>

section \<open>Guarantees of stateful code\<close>

text \<open>
  A relation between the states before and after, kept by doing nothing and by doing one thing after the
  other, is kept by code that is put together from steps that keep it.
\<close>

locale guarantee =
  fixes R :: "'s \<Rightarrow> 's \<Rightarrow> bool"
  assumes R_refl: "R s s" and R_trans: "R s t \<Longrightarrow> R t u \<Longrightarrow> R s u"
begin

lemma on_pair: "R s t \<Longrightarrow> R s (snd (x, t))"
  by simp

lemma on_step: "R s (snd p) \<Longrightarrow> (\<And>a t. p = (a, t) \<Longrightarrow> R t (snd (F a t))) \<Longrightarrow> R s (snd (case_prod F p))"
  by (cases p) (auto intro: R_trans)

lemma on_sum:
  "(\<And>e. r = Inl e \<Longrightarrow> R s (snd (A e))) \<Longrightarrow> (\<And>x. r = Inr x \<Longrightarrow> R s (snd (B x))) \<Longrightarrow> R s (snd (case_sum A B r))"
  by (cases r) simp_all

lemma on_option:
  "(r = None \<Longrightarrow> R s (snd A)) \<Longrightarrow> (\<And>x. r = Some x \<Longrightarrow> R s (snd (B x))) \<Longrightarrow> R s (snd (case_option A B r))"
  by (cases r) simp_all

lemma on_if: "(c \<Longrightarrow> R s (snd p)) \<Longrightarrow> (\<not> c \<Longrightarrow> R s (snd q)) \<Longrightarrow> R s (snd (if c then p else q))"
  by simp

lemma on_bool: "(c \<Longrightarrow> R s (snd p)) \<Longrightarrow> (\<not> c \<Longrightarrow> R s (snd q)) \<Longrightarrow> R s (snd (case c of True \<Rightarrow> p | False \<Rightarrow> q))"
  by (cases c) simp_all

lemma on_tuple: "(\<And>a b. v = (a, b) \<Longrightarrow> R s (snd (F a b))) \<Longrightarrow> R s (snd (case_prod F v))"
  by (cases v) simp

lemmas steps = on_pair on_step on_sum on_option on_if on_bool R_refl

end

section \<open>The relation\<close>

definition foreign :: "nat \<Rightarrow> db \<Rightarrow> message list" where
  "foreign uid s = filter (\<lambda>m. m_user_id m \<noteq> uid) (db_messages s)"

definition sound_mail :: "db \<Rightarrow> bool" where
  "sound_mail s \<longleftrightarrow> wf_rows m_id (db_next s TMessages) (db_messages s)"

definition personal :: "nat \<Rightarrow> user \<Rightarrow> user" where
  \<comment> \<open>an account without what its owner may change: usage, password and language\<close>
  "personal uid u =
     (if u_id u = uid then u\<lparr>u_used_bytes := 0, u_password_hash := [], u_must_change_password := False, u_language := []\<rparr>
      else u)"

definition foreign_attachments :: "nat \<Rightarrow> db \<Rightarrow> attachment list" where
  "foreign_attachments uid s = filter (\<lambda>a. a_message_id a \<in> m_id ` set (foreign uid s)) (db_attachments s)"

definition fixed_tables ::
  "nat \<Rightarrow> db \<Rightarrow> domain list \<times> user list \<times> ban_entry list \<times> protocol_log list \<times> mailbox_state list \<times> mailbox list" where
  "fixed_tables uid s = (db_domains s, map (personal uid) (db_users s), db_bans s, db_logs s, db_mailbox_states s,
     filter (\<lambda>b. mb_user_id b \<noteq> uid) (db_mailboxes s))"

definition unread_inbox :: "message \<Rightarrow> bool" where
  "unread_inbox m \<longleftrightarrow> m_folder m = ''INBOX'' \<and> \<not> m_is_read m"

definition confined :: "nat \<Rightarrow> db \<Rightarrow> db \<Rightarrow> bool" where
  "confined uid s s' \<longleftrightarrow> (sound_mail s \<longrightarrow>
     sound_mail s' \<and> fixed_tables uid s' = fixed_tables uid s \<and>
     (\<exists>new. foreign uid s' = foreign uid s @ new \<and> list_all unread_inbox new) \<and>
     set (foreign_attachments uid s) \<subseteq> set (db_attachments s') \<and>
     (\<exists>new. db_outbound s' = db_outbound s @ new \<and> list_all (\<lambda>x. o_user_id x = uid) new))"

lemma confined_refl [simp, intro]: "confined uid s s"
  by (auto simp: confined_def foreign_attachments_def intro: exI [of _ "[]"])

lemma confined_trans:
  assumes "confined uid s t" and "confined uid t u"
  shows "confined uid s u"
  unfolding confined_def
proof (intro impI)
  assume "sound_mail s"
  with assms(1) obtain n1 q1 where 1: "sound_mail t" "fixed_tables uid t = fixed_tables uid s"
    "foreign uid t = foreign uid s @ n1" "list_all unread_inbox n1"
    "set (foreign_attachments uid s) \<subseteq> set (db_attachments t)"
    "db_outbound t = db_outbound s @ q1" "list_all (\<lambda>x. o_user_id x = uid) q1"
    unfolding confined_def by blast
  with assms(2) obtain n2 q2 where 2: "sound_mail u" "fixed_tables uid u = fixed_tables uid t"
    "foreign uid u = foreign uid t @ n2" "list_all unread_inbox n2"
    "set (foreign_attachments uid t) \<subseteq> set (db_attachments u)"
    "db_outbound u = db_outbound t @ q2" "list_all (\<lambda>x. o_user_id x = uid) q2"
    unfolding confined_def by blast
  have "set (foreign_attachments uid s) \<subseteq> set (foreign_attachments uid t)"
    using 1(3,5) by (auto simp: foreign_attachments_def)
  with 2(5) have "set (foreign_attachments uid s) \<subseteq> set (db_attachments u)" by blast
  moreover have "foreign uid u = foreign uid s @ n1 @ n2" "db_outbound u = db_outbound s @ q1 @ q2"
    using 1(3,6) 2(3,6) by simp_all
  ultimately show "sound_mail u \<and> fixed_tables uid u = fixed_tables uid s \<and>
     (\<exists>new. foreign uid u = foreign uid s @ new \<and> list_all unread_inbox new) \<and>
     set (foreign_attachments uid s) \<subseteq> set (db_attachments u) \<and>
     (\<exists>new. db_outbound u = db_outbound s @ new \<and> list_all (\<lambda>x. o_user_id x = uid) new)"
    using 1(2,4,7) 2(1,2,4,7) by (auto intro!: exI [of _ "n1 @ n2"] exI [of _ "q1 @ q2"])
qed

lemma confined_frame:
  \<comment> \<open>a change that leaves the messages, the queue and the fixed tables alone\<close>
  assumes "db_messages t = db_messages s" "db_next t TMessages = db_next s TMessages" "fixed_tables uid t = fixed_tables uid s"
    "db_outbound t = db_outbound s" "set (foreign_attachments uid s) \<subseteq> set (db_attachments t)"
  shows "confined uid s t"
  unfolding confined_def using assms by (auto simp: sound_mail_def foreign_def intro: exI [of _ "[]"])

lemma foreign_attachments_subset: "set (foreign_attachments uid s) \<subseteq> set (db_attachments s)"
  by (auto simp: foreign_attachments_def)

lemma confined_tables:
  assumes "tables t = tables s"
  shows "confined uid s t"
proof -
  note e = tables_eqD [OF assms]
  show ?thesis
    by (rule confined_frame) (simp_all add: e fixed_tables_def foreign_attachments_def)
qed

lemma confined_tick [simp]: "confined uid (tick s) t = confined uid s t" "confined uid s (tick t) = confined uid s t"
  by (simp_all add: confined_def sound_mail_def fixed_tables_def foreign_def foreign_attachments_def)

lemma confined_query: "confined uid s (snd (db_query f s))"
  by (rule confined_tables) simp

lemma confined_first: "confined uid s (snd (db_first f s))"
  by (rule confined_tables) simp

lemma confined_exec:
  assumes "confined uid s (f (tick s))"
  shows "confined uid s (snd (db_exec f s))"
  using assms by (simp add: db_exec_def db_stmt_def confined_tables)

section \<open>The statements\<close>

lemma confined_users:
  assumes "\<And>u. P u \<Longrightarrow> personal uid (f u) = personal uid u"
  shows "confined uid s (upd_users P f s)"
proof (rule confined_frame)
  have "map (personal uid) (db_users (upd_users P f s)) = map (personal uid) (db_users s)"
    using assms by (simp add: upd_users_def)
  then show "fixed_tables uid (upd_users P f s) = fixed_tables uid s" by (simp add: fixed_tables_def upd_users_def)
qed (simp_all add: upd_users_def foreign_attachments_def)

lemma confined_used_bytes: "confined uid s (snd (users_update_used_bytes uid n s))"
  unfolding users_update_used_bytes_def by (intro confined_exec confined_trans [OF _ confined_users]) (simp_all add: personal_def)

lemma confined_language: "confined uid s (snd (users_update_language uid l s))"
  unfolding users_update_language_def Let_def
  by (intro confined_exec confined_trans [OF _ confined_users]) (simp_all add: personal_def)

lemma confined_password: "confined uid s (snd (users_update_password uid h s))"
  unfolding users_update_password_def
  by (intro confined_exec confined_trans [OF _ confined_users]) (simp_all add: personal_def)

lemma confined_reserve: "confined uid s (snd (users_try_reserve_quota uid n s))"
proof -
  have "confined uid s (upd_users (\<lambda>u. u_id u = uid \<and> u_used_bytes u + n \<le> u_quota_bytes u)
      (\<lambda>u. u\<lparr>u_used_bytes := u_used_bytes u + n\<rparr>) (tick s))"
    by (intro confined_trans [OF _ confined_users]) (simp_all add: personal_def)
  then show ?thesis by (simp add: users_try_reserve_quota_def db_stmt_def Let_def confined_tables)
qed

lemma foreign_upd:
  assumes "\<And>m. m \<in> set (db_messages s) \<Longrightarrow> P m \<Longrightarrow> m_user_id m = uid" and "\<And>m. m_user_id (f m) = m_user_id m"
  shows "foreign uid (upd_messages P f s) = foreign uid s"
proof -
  have "filter Q (map (\<lambda>x. if P x then f x else x) xs) = filter Q xs"
    if "\<And>x. x \<in> set xs \<Longrightarrow> P x \<Longrightarrow> \<not> Q x \<and> \<not> Q (f x)" for Q xs
    using that by (induction xs) auto
  with assms show ?thesis by (simp add: foreign_def)
qed

definition owns :: "nat \<Rightarrow> nat set \<Rightarrow> db \<Rightarrow> bool" where
  "owns uid I s \<longleftrightarrow> (\<forall>m \<in> set (db_messages s). m_id m \<in> I \<longrightarrow> m_user_id m = uid)"

lemma owns_foreign: "owns uid I s \<longleftrightarrow> (\<forall>m \<in> set (foreign uid s). m_id m \<notin> I)"
  by (auto simp: owns_def foreign_def)

lemma owns_tick [simp]: "owns uid I (tick s) = owns uid I s"
  by (simp add: owns_def)

lemma confined_messages:
  assumes "owns uid I s" and "\<And>m. P m \<Longrightarrow> m_id m \<in> I" and "\<And>m. m_id (f m) = m_id m" and "\<And>m. m_user_id (f m) = m_user_id m"
  shows "confined uid s (upd_messages P f s)" and "owns uid I (upd_messages P f s)"
proof -
  have o': "foreign uid (upd_messages P f s) = foreign uid s"
    using assms by (intro foreign_upd) (auto simp: owns_def)
  then show "owns uid I (upd_messages P f s)" using assms(1) by (simp add: owns_foreign)
  have "sound_mail (upd_messages P f s)" if "sound_mail s"
    using that assms(3) by (simp add: sound_mail_def wf_rows_map)
  moreover have "set (foreign_attachments uid s) \<subseteq> set (db_attachments s)" by (rule foreign_attachments_subset)
  ultimately show "confined uid s (upd_messages P f s)"
    using o' unfolding confined_def by (auto simp: fixed_tables_def intro: exI [of _ "[]"])
qed

lemma confined_delete_messages:
  assumes "owns uid I s"
  shows "confined uid s (del_messages (\<lambda>m. m_id m \<in> I) s)"
proof -
  have "foreign uid (del_messages (\<lambda>m. m_id m \<in> I) s) = foreign uid s"
    using assms by (auto simp: foreign_def owns_def intro!: filter_cong)
  moreover have "sound_mail (del_messages (\<lambda>m. m_id m \<in> I) s)" if "sound_mail s"
    using that by (simp add: sound_mail_def wf_rows_filter)
  moreover have "set (foreign_attachments uid s) \<subseteq> set (db_attachments s)" by (rule foreign_attachments_subset)
  ultimately show ?thesis unfolding confined_def by (auto simp: fixed_tables_def intro: exI [of _ "[]"])
qed

lemma confined_insert_message:
  assumes "m_user_id m = uid \<or> unread_inbox m" and "m_id m = db_next s TMessages"
  shows "confined uid s (insert_message m s)"
proof -
  have "sound_mail (insert_message m s)" if "sound_mail s"
    using that assms(2) by (simp add: sound_mail_def insert_message_def wf_rows_insert)
  moreover have "set (foreign_attachments uid s) \<subseteq> set (db_attachments s)" by (rule foreign_attachments_subset)
  ultimately show ?thesis using assms(1) unfolding confined_def
    by (auto simp: fixed_tables_def foreign_def)
qed

lemma confined_create:
  assumes "m_user_id m = uid \<or> m_folder m = ''INBOX'' \<and> \<not> m_is_read m"
  shows "confined uid s (snd (mails_create now m s))"
  using assms
  by (auto simp: mails_create_def db_stmt_def Let_def confined_tables new_message_def unread_inbox_def
      intro!: confined_trans [OF _ confined_insert_message])

interpretation conf: guarantee "confined uid" for uid
  by unfold_locales (auto intro: confined_trans)

section \<open>Folders\<close>

lemma confined_insert_mailbox: "mb_user_id mb = uid \<Longrightarrow> confined uid s (insert_mailbox (new_mailbox mb t) s)"
  by (rule confined_frame) (simp_all add: insert_mailbox_def new_mailbox_def fixed_tables_def foreign_attachments_def)

lemma confined_mailboxes_create: "mb_user_id mb = uid \<Longrightarrow> confined uid s (snd (mailboxes_create mb s))"
  using confined_insert_mailbox [of mb uid "tick s"]
  by (auto simp: mailboxes_create_def db_stmt_def confined_tables Let_def)

lemma confined_ensure_loop: "confined uid s (snd (ensure_loop uid have ds s))"
proof (induction ds arbitrary: s)
  case (Cons d ds)
  have "confined uid s (snd (mailboxes_create (system_mailbox uid d) s))" for s
    by (rule confined_mailboxes_create) (simp add: system_mailbox_def)
  with Cons show ?case unfolding ensure_loop.simps by (intro conf.steps)
qed simp

lemma confined_ensure_system: "confined uid s (snd (mailboxes_ensure_system uid s))"
  unfolding mailboxes_ensure_system_def by (intro conf.steps confined_query confined_ensure_loop)

lemma confined_folder_infos: "confined uid s (snd (folder_infos v mbs s))"
proof (induction mbs arbitrary: s)
  case (Cons mb mbs)
  then show ?case unfolding folder_infos.simps Let_def mails_count_def mails_count_unread_def
    by (intro conf.steps confined_query)
qed simp

lemma confined_svc_list: "confined uid s (snd (svc_list uid s))"
  unfolding svc_list_def svc_list_all_def mailboxes_list_def Let_def
  by (intro conf.steps confined_ensure_system confined_query confined_folder_infos)

lemma confined_canonical: "confined uid s (snd (svc_canonical uid n s))"
  unfolding svc_canonical_def mailboxes_get_by_name_def Let_def
  by (intro conf.steps confined_ensure_system confined_first)

lemma read_own:
  assumes "mails_get_by_id i s = (Inr m, s1)" and "m_user_id m = uid" and "sound_mail s"
  shows "owns uid {i} s1" and "m_id m = i" and "m \<in> set (db_messages s1)"
proof -
  from assms(1) have f: "find (\<lambda>m. m_id m = i) (db_messages s1) = Some m" and t: "tables s1 = tables s"
    by (auto simp: mails_get_by_id_def stmt_results)
  then show m: "m_id m = i" "m \<in> set (db_messages s1)" using find_Some_iff [of _ _ m] by auto
  have "sound_mail s1" using assms(3) tables_eqD [OF t] by (simp add: sound_mail_def)
  with m assms(2) show "owns uid {i} s1"
    using wf_rows_unique [OF \<open>sound_mail s1\<close> [unfolded sound_mail_def]] by (fastforce simp: owns_def)
qed

lemma confined_unsound: "\<not> sound_mail s \<Longrightarrow> confined uid s t"
  by (simp add: confined_def)

lemma confined_read: "confined uid s (snd (mails_get_by_id i s))"
  by (simp add: mails_get_by_id_def confined_first)

lemma confined_move_loop: "confined uid s (snd (move_loop uid dest ids s))"
proof (induction ids arbitrary: s)
  case (Cons i ids)
  have "confined uid s1 (snd (mails_move_to_folder i dest s1))"
    if g: "mails_get_by_id i s = (Inr m, s1)" "m_user_id m = uid" and "sound_mail s" for m s1
    unfolding mails_move_to_folder_def using read_own(1) [OF that]
    by (intro confined_exec confined_trans [OF _ confined_messages(1)]) auto
  then have "confined uid s1 (snd (mails_move_to_folder i dest s1))"
    if "mails_get_by_id i s = (Inr m, s1)" "m_user_id m = uid" "sound_mail s" for m s1 using that by blast
  with Cons show ?case
    by (cases "sound_mail s") (auto simp: confined_unsound intro!: conf.steps confined_read)
qed simp

lemma confined_svc_move: "confined uid s (snd (svc_move uid ids dest s))"
  unfolding svc_move_def by (intro conf.steps confined_canonical confined_move_loop)

section \<open>Handlers that read or set one row\<close>

abbreviation confined_web :: "nat \<Rightarrow> web_world \<Rightarrow> web_world \<Rightarrow> bool" where
  "confined_web uid w w' \<equiv> confined uid (sw_db w) (sw_db w')"

interpretation webc: guarantee "confined_web uid" for uid
  by unfold_locales (auto intro: confined_trans)

lemma confined_web_db: "confined uid (sw_db w) (snd (f (sw_db w))) \<Longrightarrow> confined_web uid w (snd (web_db f w))"
  by (simp add: web_db_eq)

lemma confined_reads:
  "confined uid s (snd (mails_list_all v n s))"
  "confined uid s (snd (mails_list v n p z s))"
  "confined uid s (snd (svc_messages v n p z s))"
  "confined uid s (snd (attachments_list_by_message i s))"
  "confined uid s (snd (attachments_get_by_id i s))"
  "confined uid s (snd (users_get_by_id i s))"
  "confined uid s (snd (users_get_by_email e s))"
  unfolding mails_list_all_def attachments_list_by_message_def attachments_get_by_id_def svc_messages_def mails_list_def
  by (intro conf.steps confined_query confined_first confined_tables users_get_by_id_tables users_get_by_email_tables)+

lemmas confined_ops = confined_web_db confined_read confined_reads confined_svc_list confined_canonical
  confined_svc_move confined_used_bytes confined_language confined_password confined_reserve

lemma confined_folders_for: "confined_web uid w (snd (folders_for uid w))"
  unfolding folders_for_def by (intro webc.steps confined_ops)

lemma confined_folder: "confined_web (cx_user_id cx) w (snd (web_folder we cx n w))"
  unfolding web_folder_def Let_def by (intro webc.steps confined_ops confined_folders_for webc.on_tuple)

lemma confined_mark_read: "owns uid {i} s \<Longrightarrow> confined uid s (snd (mails_mark_read i s))"
  unfolding mails_mark_read_def mails_mark_read_state_def
  by (intro confined_exec confined_trans [OF _ confined_messages(1)]) auto

lemma web_read_own:
  assumes "web_db (mails_get_by_id i) w = (Inr m, w1)" and "m_user_id m = uid" and "sound_mail (sw_db w)"
  shows "owns uid {m_id m} (sw_db w1)" and "m_id m = i" and "sound_mail (sw_db w1)"
proof -
  from assms(1) have g: "mails_get_by_id i (sw_db w) = (Inr m, sw_db w1)" by (auto simp: web_db_def split: prod.splits)
  from read_own [OF this assms(2,3)] show "owns uid {m_id m} (sw_db w1)" "m_id m = i" by simp_all
  from g have "tables (sw_db w1) = tables (sw_db w)" by (auto simp: mails_get_by_id_def stmt_results)
  from tables_eqD [OF this] show "sound_mail (sw_db w1)" using assms(3) by (simp add: sound_mail_def)
qed

lemma owns_tables: "tables t = tables s \<Longrightarrow> owns uid I t = owns uid I s"
  unfolding owns_def by (metis tables_simps(3))

lemma attachments_list_tables: "web_db (attachments_list_by_message i) w = (r, w1) \<Longrightarrow> tables (sw_db w1) = tables (sw_db w)"
  by (auto simp: web_db_eq attachments_list_by_message_def)

lemma confined_view: "confined_web (cx_user_id cx) w (snd (web_view we cx p w))"
proof (cases "sound_mail (sw_db w)")
  case True
  let ?uid = "cx_user_id cx"
  have "confined_web ?uid w2 (snd (web_db (mails_mark_read i) w2))"
    if "web_db (mails_get_by_id i) w = (Inr m, w1)" "\<not> m_user_id m \<noteq> ?uid"
      "web_db (attachments_list_by_message i) w1 = (r, w2)" for i m r w1 w2
    using web_read_own [OF that(1) _ True] that(2) owns_tables [OF attachments_list_tables [OF that(3)]]
    by (intro confined_web_db confined_mark_read) auto
  then have r: "confined_web ?uid w2 (if m_is_read m then w2 else snd (web_db (mails_mark_read i) w2))"
    if "web_db (mails_get_by_id i) w = (Inr m, w1)" "\<not> m_user_id m \<noteq> ?uid"
      "web_db (attachments_list_by_message i) w1 = (r, w2)" for i m r w1 w2
    using that by simp
  then show ?thesis
    unfolding web_view_def Let_def
    by (intro webc.steps confined_ops) (auto split del: if_split intro!: webc.R_trans [OF r confined_folders_for])
qed (simp add: confined_unsound)

lemma confined_compose: "confined_web (cx_user_id cx) w (snd (web_compose we cx w))"
  unfolding web_compose_def Let_def by (intro webc.steps confined_ops confined_folders_for webc.on_tuple)

lemma confined_settings: "confined_web (cx_user_id cx) w (snd (web_settings we cx w))"
  unfolding web_settings_def Let_def by (intro webc.steps confined_ops confined_folders_for)

lemma confined_settings_page: "confined_web (cx_user_id cx) w (snd (settings_page st we cx u e m w))"
  unfolding settings_page_def Let_def by (intro webc.steps confined_folders_for)

lemma confined_update_settings: "confined_web (cx_user_id cx) w (snd (web_update_settings we cx u w))"
  unfolding web_update_settings_def Let_def by (intro webc.steps confined_ops confined_settings_page)

lemma serve_attachment_db: "sw_db (snd (serve_attachment we cx a w)) = sw_db w"
  by (auto simp: serve_attachment_def split: prod.splits sum.splits)

lemma confined_download: "confined_web (cx_user_id cx) w (snd (web_download we cx p w))"
  unfolding web_download_def by (intro webc.steps confined_ops) (simp add: serve_attachment_db)

section \<open>Deleting\<close>

definition quiet :: "nat \<Rightarrow> web_world \<Rightarrow> web_world \<Rightarrow> bool" where
  \<comment> \<open>confined, and the messages are as they were\<close>
  "quiet uid w w' \<longleftrightarrow> confined_web uid w w' \<and> db_messages (sw_db w') = db_messages (sw_db w)"

interpretation quietc: guarantee "quiet uid" for uid
  by unfold_locales (auto simp: quiet_def intro: confined_trans)

lemma quiet_confined: "quiet uid w w' \<Longrightarrow> confined_web uid w w'"
  by (simp add: quiet_def)

lemma quiet_owns: "quiet uid w w' \<Longrightarrow> owns v I (sw_db w') = owns v I (sw_db w)"
  by (simp add: quiet_def owns_def)

lemma owns_subset: "owns uid I s \<Longrightarrow> J \<subseteq> I \<Longrightarrow> owns uid J s"
  by (auto simp: owns_def)

lemma quiet_tables: "tables (sw_db w') = tables (sw_db w) \<Longrightarrow> quiet uid w w'"
  unfolding quiet_def using confined_tables tables_eqD(3) by blast

lemma quiet_used_bytes: "quiet uid w (snd (web_db (users_update_used_bytes uid n) w))"
proof -
  have "db_messages (snd (users_update_used_bytes uid n s)) = db_messages s" for s
    by (simp add: users_update_used_bytes_def db_exec_def db_stmt_def upd_users_def)
  moreover have "confined_web uid w (snd (web_db (users_update_used_bytes uid n) w))"
    by (intro confined_web_db confined_used_bytes)
  ultimately show ?thesis by (simp add: quiet_def web_db_eq)
qed

lemma quiet_list_attachments: "quiet uid w (snd (web_db (attachments_list_by_message i) w))"
  by (rule quiet_tables) (simp add: web_db_eq attachments_list_by_message_def)

lemma quiet_purge_files: "quiet uid w (purge_files we uid as w)"
proof (induction as arbitrary: w)
  case (Cons a as)
  obtain x dk where d: "storage_delete (we_base_dir we) (a_file_path a) (sw_disk w) = (x, dk)"
    by (cases "storage_delete (we_base_dir we) (a_file_path a) (sw_disk w)")
  have "quiet uid w (w\<lparr>sw_disk := dk\<rparr>)" by (rule quiet_tables) simp
  from quietc.R_trans [OF quietc.R_trans [OF this quiet_used_bytes] Cons.IH]
  show ?case by (simp add: d split_beta)
qed (simp add: quietc.R_refl)

lemma quiet_delete_attachments:
  assumes "owns uid {i} (sw_db w)"
  shows "quiet uid w (snd (web_db (attachments_delete_by_message i) w))"
proof -
  let ?t = "(sw_db w)\<lparr>db_attachments := filter (\<lambda>a. a_message_id a \<noteq> i) (db_attachments (sw_db w))\<rparr>"
  have "confined uid (sw_db w) ?t"
    using assms by (intro confined_frame) (auto simp: fixed_tables_def foreign_attachments_def owns_foreign)
  then have "confined uid (sw_db w) (snd (attachments_delete_by_message i (sw_db w)))"
    unfolding attachments_delete_by_message_def by (intro confined_exec) (simp add: tick_def confined_def sound_mail_def
      fixed_tables_def foreign_def foreign_attachments_def)
  moreover have "db_messages (snd (attachments_delete_by_message i s)) = db_messages s" for s
    by (simp add: attachments_delete_by_message_def db_exec_def db_stmt_def)
  ultimately show ?thesis by (simp add: quiet_def web_db_eq)
qed

lemma quiet_purge_attachments:
  "owns uid (m_id ` set ms) (sw_db w) \<Longrightarrow> quiet uid w (purge_attachments we uid ms w)"
proof (induction ms arbitrary: w)
  case (Cons m ms)
  obtain r w1 where l: "web_db (attachments_list_by_message (m_id m)) w = (r, w1)"
    by (cases "web_db (attachments_list_by_message (m_id m)) w")
  let ?w2 = "purge_files we uid (case r of Inl _ \<Rightarrow> [] | Inr as \<Rightarrow> as) w1"
  let ?w3 = "snd (web_db (attachments_delete_by_message (m_id m)) ?w2)"
  have "quiet uid w w1" using quiet_list_attachments [of uid w "m_id m"] l by simp
  from quietc.R_trans [OF this quiet_purge_files] have q2: "quiet uid w ?w2" .
  have "owns uid {m_id m} (sw_db ?w2)" unfolding quiet_owns [OF q2] using Cons.prems by (rule owns_subset) simp
  from quietc.R_trans [OF q2 quiet_delete_attachments [OF this]] have q3: "quiet uid w ?w3" .
  have "owns uid (m_id ` set ms) (sw_db ?w3)" unfolding quiet_owns [OF q3] using Cons.prems by (rule owns_subset) auto
  from quietc.R_trans [OF q3 Cons.IH [OF this]] show ?case by (simp add: l split_beta)
qed (simp add: quietc.R_refl)

lemma confined_purge_messages:
  assumes "owns uid (m_id ` set ms) (sw_db w)"
  shows "confined_web uid w (purge_messages we uid ms w)"
proof -
  let ?w1 = "purge_attachments we uid ms w"
  note q = quiet_purge_attachments [OF assms, of we]
  have "owns uid (set (map m_id ms)) (tick (sw_db ?w1))" using quiet_owns [OF q] assms by simp
  from confined_delete_messages [OF this]
  have "confined uid (sw_db ?w1) (snd (mails_delete_many (map m_id ms) (sw_db ?w1)))"
    unfolding mails_delete_many_def by (auto intro: confined_exec)
  then have "confined_web uid ?w1 (snd (web_db (mails_delete_many (map m_id ms)) ?w1))" by (rule confined_web_db)
  from webc.R_trans [OF quiet_confined [OF q] this] show ?thesis by (simp add: purge_messages_def)
qed

lemma seq_quiet: "quiet uid w (snd (seq_of_folder v n i w))"
  by (rule quiet_tables)
    (auto simp: seq_of_folder_def web_db_eq mails_list_all_def split: prod.splits sum.splits option.splits)

lemma push_for_db [simp]: "sw_db (push_for we cx es w) = sw_db w"
proof -
  have "sw_db (fold (web_push we) xs w) = sw_db w" for xs w by (induction xs arbitrary: w) simp_all
  then show ?thesis by (simp add: push_for_def)
qed

lemma confined_purge_one:
  assumes "owns (cx_user_id cx) {m_id m} (sw_db w)"
  shows "confined_web (cx_user_id cx) w (purge_one we cx m w)"
proof -
  obtain n w1 where s: "seq_of_folder (cx_user_id cx) (m_folder m) (m_id m) w = (n, w1)"
    by (cases "seq_of_folder (cx_user_id cx) (m_folder m) (m_id m) w")
  then have q: "quiet (cx_user_id cx) w w1" using seq_quiet [of "cx_user_id cx" w "cx_user_id cx" "m_folder m" "m_id m"] by simp
  have "owns (cx_user_id cx) (m_id ` set [m]) (sw_db w1)" using assms quiet_owns [OF q] by simp
  from webc.R_trans [OF quiet_confined [OF q] confined_purge_messages [OF this]] show ?thesis
    by (simp add: purge_one_def s)
qed

lemma confined_own_message:
  assumes "\<And>m w. owns (cx_user_id cx) {m_id m} (sw_db w) \<Longrightarrow> confined_web (cx_user_id cx) w (snd (act m w))"
  shows "confined_web (cx_user_id cx) w (snd (own_message we cx p act w))"
proof (cases "sound_mail (sw_db w)")
  case True
  show ?thesis unfolding own_message_def
    by (intro webc.steps confined_ops) (auto intro!: assms web_read_own(1) [OF _ _ True])
qed (simp add: confined_unsound)

lemma confined_moved:
  "confined_web uid w (snd (case seq_of_folder uid n i w of (k, w1) \<Rightarrow>
     case web_db (svc_move uid ids dest) w1 of (Inl e, w2) \<Rightarrow> (a e, w2) | (Inr _, w2) \<Rightarrow> (b, push_for we cx (es k) w2)))"
proof -
  have "confined_web uid w (snd (seq_of_folder uid n i w))" by (rule quiet_confined [OF seq_quiet])
  then show ?thesis by (intro webc.steps confined_ops) simp_all
qed

lemma confined_delete: "confined_web (cx_user_id cx) w (snd (web_delete we cx p w))"
  unfolding web_delete_def Let_def
  by (intro confined_own_message webc.on_if webc.on_pair confined_purge_one confined_moved)

lemma confined_restore: "confined_web (cx_user_id cx) w (snd (web_restore we cx p w))"
  unfolding web_restore_def Let_def
  by (intro confined_own_message webc.on_if webc.on_pair webc.R_refl confined_moved)

lemma confined_purge: "confined_web (cx_user_id cx) w (snd (web_purge we cx p w))"
  unfolding web_purge_def by (intro confined_own_message webc.on_pair confined_purge_one)

lemma confined_mark_read_page: "confined_web (cx_user_id cx) w (snd (web_mark_read we cx p w))"
  unfolding web_mark_read_def Let_def
  by (intro confined_own_message webc.steps confined_web_db confined_mark_read) simp_all

lemma confined_empty_folder: "confined_web (cx_user_id cx) w (snd (web_empty_folder we cx n w))"
proof (cases "sound_mail (sw_db w)")
  case True
  let ?uid = "cx_user_id cx"
  have "owns ?uid (m_id ` set ms) (sw_db w2)"
    if c: "web_db (svc_canonical ?uid n) w = (r, w1)" and l: "web_db (mails_list_all ?uid name) w1 = (Inr ms, w2)" for r w1 name ms w2
  proof -
    have "confined_web ?uid w (snd (web_db (svc_canonical ?uid n) w))" by (intro confined_ops)
    with c have "confined_web ?uid w w1" by simp
    then have s1: "sound_mail (sw_db w1)" using True by (simp add: confined_def)
    have l1: "mails_list_all ?uid name (sw_db w1) = (Inr ms, sw_db w2)" using l by (auto simp: web_db_def split: prod.splits)
    then have "tables (sw_db w2) = tables (sw_db w1)" by (auto simp: mails_list_all_def stmt_results)
    from tables_eqD [OF this] have t: "db_messages (sw_db w2) = db_messages (sw_db w1)" by simp
    from l1 have "set ms = {m \<in> set (db_messages (sw_db w1)). m_user_id m = ?uid \<and> m_folder m = name}"
      by (auto simp: mails_list_all_def stmt_results in_folder_def)
    then show ?thesis
      using wf_rows_unique [OF s1 [unfolded sound_mail_def]] t by (fastforce simp: owns_def)
  qed
  then show ?thesis unfolding web_empty_folder_def Let_def
    by (intro webc.steps confined_ops) (auto intro: confined_purge_messages)
qed (simp add: confined_unsound)

section \<open>Sending\<close>

lemma confined_world: "sw_db w' = sw_db w \<Longrightarrow> confined_web uid w w'"
  by simp

lemma confined_compose_page: "confined_web (cx_user_id cx) w (snd (compose_page st we cx u msg fm a b w))"
  unfolding compose_page_def Let_def by (intro webc.steps confined_folders_for)

lemma confined_compose_error: "confined_web (cx_user_id cx) w (snd (compose_error st we cx u msg fm w))"
  unfolding compose_error_def by (rule confined_compose_page)

lemma confined_over_quota: "confined_web (cx_user_id cx) w (snd (over_quota we cx u fm w))"
  unfolding over_quota_def Let_def by (intro webc.steps confined_ops confined_compose_page)

lemma confined_read_uploads: "confined_web uid w (snd (read_uploads uid fs w))"
proof (induction fs arbitrary: w)
  case (Cons f fs)
  have "confined_web uid w (snd (web_db (users_update_used_bytes uid (- uf_size f)) w))" by (intro confined_ops)
  with Cons show ?case by (auto simp: Let_def split_beta split: option.splits intro: webc.R_trans)
qed simp

lemma confined_split: "split_recipients rs w = (us, ext, w') \<Longrightarrow> confined_web uid w w'"
proof (induction rs arbitrary: w us ext w')
  case (Cons r rs)
  obtain q w1 where g: "web_db (users_get_by_email r) w = (q, w1)" by (cases "web_db (users_get_by_email r) w")
  obtain us1 ext1 w2 where h: "split_recipients rs w1 = (us1, ext1, w2)" by (cases "split_recipients rs w1")
  have "confined_web uid w (snd (web_db (users_get_by_email r) w))" by (intro confined_ops)
  with g have "confined_web uid w w1" by simp
  from webc.R_trans [OF this Cons.IH [OF h]] show ?case using Cons.prems g h by (cases q) auto
qed simp

lemma confined_enqueue:
  assumes "enqueue cfg pa sign now uuid (Some u) a b raw (lm, s) = (r, lm', s')" and "u_id u = uid"
  shows "confined uid s s'"
proof -
  have "confined uid s (insert_outbound m t)" if t: "tables t = tables s" and o': "o_user_id m = uid" for m t
  proof -
    have "db_messages t = db_messages s" "db_next t TMessages = db_next s TMessages" "db_outbound t = db_outbound s"
      "db_attachments t = db_attachments s" "fixed_tables uid t = fixed_tables uid s"
      using tables_eqD [OF t] by (simp_all add: fixed_tables_def)
    then show ?thesis using o' foreign_attachments_subset [of uid s] unfolding confined_def
      by (auto simp: insert_outbound_def sound_mail_def foreign_def fixed_tables_def)
  qed
  with enqueue_cases [OF assms(1)] assms(2) show ?thesis by (auto simp: user_id_or_zero_def confined_tables)
qed

lemma confined_web_queue:
  "u_id u = uid \<Longrightarrow> confined_web uid w (snd (web_queue we cfg now u a raw rs w))"
proof (induction rs arbitrary: w)
  case (Cons r rs)
  obtain uuid dk where k: "next_uuid (sw_disk w) = (uuid, dk)" by (cases "next_uuid (sw_disk w)")
  obtain q lm d where e: "enqueue cfg (we_parse_addr we) (we_sign we) now uuid (Some u) a r raw (sw_limits w, sw_db w) = (q, lm, d)"
    by (cases "enqueue cfg (we_parse_addr we) (we_sign we) now uuid (Some u) a r raw (sw_limits w, sw_db w)")
  have c: "confined uid (sw_db w) d" using e Cons.prems by (rule confined_enqueue)
  have "confined uid d (sw_db (snd (web_queue we cfg now u a raw rs (w\<lparr>sw_disk := dk, sw_limits := lm, sw_db := d\<rparr>))))"
    using Cons.IH [OF Cons.prems, of "w\<lparr>sw_disk := dk, sw_limits := lm, sw_db := d\<rparr>"] by simp
  with c e k show ?case by (cases q) (auto intro: confined_trans)
qed simp

lemma confined_web_create:
  "m_user_id m = uid \<or> m_folder m = ''INBOX'' \<and> \<not> m_is_read m \<Longrightarrow> confined_web uid w (snd (web_db (mails_create now m) w))"
  by (intro confined_web_db confined_create)

lemma confined_web_deliver: "confined_web uid w (snd (web_deliver we now mid a raw fm us w))"
proof (induction us arbitrary: w)
  case (Cons u us)
  let ?w1 = "snd (web_db (mails_create now (composed_row (u_id u) ''INBOX'' mid a raw now fm False)) w)"
  have c: "confined_web uid w ?w1" by (rule confined_web_create) (simp add: composed_row_def)
  have "confined_web uid w (snd (web_deliver we now mid a raw fm us (web_push we e ?w1)))" for e
    using webc.R_trans [OF c, of "snd (web_deliver we now mid a raw fm us (web_push we e ?w1))"]
      Cons.IH [of "web_push we e ?w1"] by simp
  with c show ?case by (auto split: prod.splits sum.splits)
qed simp

lemma confined_attachments_create: "confined uid s (snd (attachments_create a s))"
proof -
  let ?a = "a\<lparr>a_id := db_next s TAttachments\<rparr>"
  let ?t = "(tick s)\<lparr>db_attachments := db_attachments s @ [?a], db_next := (db_next s)(TAttachments := Suc (db_next s TAttachments))\<rparr>"
  have "confined uid (tick s) ?t"
    by (rule confined_frame) (auto simp: fixed_tables_def foreign_attachments_def)
  then show ?thesis by (simp add: attachments_create_def db_stmt_def Let_def confined_tables)
qed

lemma confined_save_uploads: "confined_web uid w (save_uploads we uid mid as w)"
proof (induction as arbitrary: w)
  case (Cons a as)
  have refund: "confined_web uid w (snd (web_db (users_update_used_bytes uid n) w))" for n w by (intro confined_ops)
  obtain r dk where s: "storage_save (we_base_dir we) (at_filename a) (at_data a) (sw_disk w) = (r, dk)"
    by (cases "storage_save (we_base_dir we) (at_filename a) (at_data a) (sw_disk w)")
  have d: "confined_web uid w (w\<lparr>sw_disk := dk\<rparr>)" by simp
  have on: "confined_web uid w (save_uploads we uid mid as w')" if "confined_web uid w w'" for w'
    using webc.R_trans [OF that Cons.IH] .
  show ?case
  proof (cases r)
    case (Inl e)
    then show ?thesis using on [OF webc.R_trans [OF d refund]] s by simp
  next
    case (Inr path)
    let ?rec = "\<lparr>a_id = 0, a_message_id = mid, a_file_name = at_filename a, a_file_path = path,
                      a_content_type = at_content_type a, a_file_size = int (length (at_data a))\<rparr>"
    obtain q w1 where c: "web_db (attachments_create ?rec) (w\<lparr>sw_disk := dk\<rparr>) = (q, w1)"
      by (cases "web_db (attachments_create ?rec) (w\<lparr>sw_disk := dk\<rparr>)")
    have "confined_web uid (w\<lparr>sw_disk := dk\<rparr>) (snd (web_db (attachments_create ?rec) (w\<lparr>sw_disk := dk\<rparr>)))"
      by (intro confined_web_db confined_attachments_create)
    with c have "confined_web uid w w1" by simp
    note k = on [OF this] on [OF webc.R_trans [OF this refund]]
    show ?thesis
    proof (cases q)
      case (Inl e)
      with s \<open>r = Inr path\<close> c k(2) show ?thesis by simp
    next
      case (Inr x)
      with s \<open>r = Inr path\<close> c k(1) show ?thesis by simp
    qed
  qed
qed simp

lemma confined_store_sent:
  assumes "u_id u = cx_user_id cx"
  shows "confined_web (cx_user_id cx) w (snd (store_sent we now cx u fm atts mid raw us w))"
proof -
  have c: "confined_web (cx_user_id cx) w (snd (web_db (mails_create now (composed_row (cx_user_id cx) ''Sent'' mid a raw now fm True)) w))" for w a
    by (rule confined_web_create) (simp add: composed_row_def)
  show ?thesis unfolding store_sent_def
    by (intro webc.steps confined_web_deliver confined_compose_error c confined_save_uploads)
qed

lemma confined_send_message:
  assumes "u_id u = cx_user_id cx"
  shows "confined_web (cx_user_id cx) w (snd (send_message we now cx u fm atts w))"
proof -
  obtain mid raw dk where b: "build_outgoing_message (we_fmt_date we now) (user_email u) (fm_to fm) (fm_cc fm)
             (fm_subject fm) (fm_body fm) (fm_html fm) atts (sw_disk w) = ((mid, raw), dk)"
    by (metis prod.collapse)
  obtain us ext w1 where s: "split_recipients (parse_address_input (fm_to fm) @ parse_address_input (fm_cc fm)) (w\<lparr>sw_disk := dk\<rparr>) = (us, ext, w1)"
    by (metis prod.collapse)
  from confined_split [OF s, of "cx_user_id cx"] have c: "confined_web (cx_user_id cx) w w1" by simp
  show ?thesis unfolding send_message_def b s Let_def prod.case
    by (rule webc.R_trans [OF c])
      (intro webc.steps webc.on_if webc.on_option confined_compose_error confined_store_sent assms confined_web_queue webc.on_tuple)
qed

lemma confined_send:
  assumes "u_id u = cx_user_id cx"
  shows "confined_web (cx_user_id cx) w (snd (web_send we now cx u w))"
  unfolding web_send_def Let_def
  by (intro webc.steps confined_compose_error confined_send_message confined_ops confined_over_quota confined_read_uploads assms)

end
