(* ===== verification/Web_Admin.thy ===== *)
theory Web_Admin
  imports Web_Mail
begin

text \<open>
  The administration pages (\<open>internal/web/handlers/admin.go\<close>), one definition per method of
  \<open>AdminHandler\<close>. Certificate files are written to the same disk as the attachments; key generation,
  PEM and the X.509 library are parameters of \<open>web_env\<close>.
\<close>

section \<open>Connections and the dashboard\<close>

definition ignore :: "'b \<Rightarrow> 'a result \<Rightarrow> ('a \<Rightarrow> 'b) \<Rightarrow> 'b" where
  \<comment> \<open>a result whose error is dropped: the value left is the given one\<close>
  "ignore z r f = (case r of Inl _ \<Rightarrow> z | Inr x \<Rightarrow> f x)"

definition with_id ::
  "web_env \<Rightarrow> ctx \<Rightarrow> string \<Rightarrow> string \<Rightarrow> (nat \<Rightarrow> web_world \<Rightarrow> response \<times> web_world) \<Rightarrow> web_world \<Rightarrow> response \<times> web_world" where
  \<comment> \<open>how the handlers with an id in their path begin\<close>
  "with_id we cx key id_param act w =
     (case parse_uint id_param of None \<Rightarrow> (text_page 400 (tr we cx key), w) | Some i \<Rightarrow> act i w)"

definition manual_ban_duration :: duration where "manual_ban_duration = 180 * 24 * hour"

definition disconnect_connection ::
  "web_env \<Rightarrow> gotime \<Rightarrow> ctx \<Rightarrow> string \<Rightarrow> web_world \<Rightarrow> (response \<times> nat list) \<times> web_world" where
  \<comment> \<open>with the sockets that are closed; the protocol servers notice and leave the hub\<close>
  "disconnect_connection we now cx id_param w =
     (case parse_uint id_param of
        None \<Rightarrow> ((text_page 400 (tr we cx k_bad_conn_id), []), w)
      | Some i \<Rightarrow>
          (case hub_get (of_nat i) (sw_hub w) of
             None \<Rightarrow> ((text_page 404 (tr we cx k_no_connection), []), w)
           | Some conn \<Rightarrow>
               (case web_db (bans_ban_ip now (hc_ip conn) k_manual_ban manual_ban_duration) w of
                  (Inl e, w1) \<Rightarrow> ((text_page 500 (trf we cx k_ban_failed [F_Str (we_err we e)]), []), w1)
                | (Inr _, w1) \<Rightarrow>
                    ((redirect ''/admin/connections'', snd (hub_disconnect_by_ip (we_range we 0) (hc_ip conn) (sw_hub w1))), w1))))"

definition list_connections :: "web_env \<Rightarrow> gotime \<Rightarrow> ctx \<Rightarrow> web_world \<Rightarrow> response \<times> web_world" where
  "list_connections we now cx w =
     (let conns = hub_list (we_range we 0) (sw_hub w);
          count = (\<lambda>p. case hub_counts (we_range we 1) (sw_hub w) p of None \<Rightarrow> 0 | Some n \<Rightarrow> n)
      in (page 200 ''admin_connections'' we cx
            [(''currentUser'', V_User (cx_user cx)), (''conns'', V_Conns conns), (''total'', V_Int (int (length conns))),
             (''smtpCount'', V_Int (count ''smtp'')), (''imapCount'', V_Int (count ''imap'')),
             (''pop3Count'', V_Int (count ''pop3'')), (''now'', V_Time now), (''activeFolder'', V_Str ''connections'')], w))"

fun run_counts :: "(db \<Rightarrow> int result \<times> db) list \<Rightarrow> web_world \<Rightarrow> int list \<times> web_world" where
  \<comment> \<open>statements whose errors count as 0\<close>
  "run_counts [] w = ([], w)"
| "run_counts (f # fs) w =
     (let (r, w1) = web_db f w; (ns, w2) = run_counts fs w1 in (or_zero r # ns, w2))"

definition dashboard_names :: "string list" where
  "dashboard_names = [''totalMails'', ''inboxCount'', ''sentCount'', ''draftsCount'', ''trashCount'', ''totalSize'',
     ''inboxSize'', ''sentSize'', ''todayReceived'', ''todaySent'', ''weekReceived'', ''weekSent'']"

definition dashboard_counts :: "web_env \<Rightarrow> gotime \<Rightarrow> (db \<Rightarrow> int result \<times> db) list" where
  "dashboard_counts we now =
     (let today = we_day_start we now; week = we_days_before we 7 now
      in [mails_count_all, mails_count_by_folder ''INBOX'', mails_count_by_folder ''Sent'',
          mails_count_by_folder ''Drafts'', mails_count_by_folder ''Trash'', mails_total_size (we_sql_len we),
          mails_total_size_by_folder (we_sql_len we) ''INBOX'', mails_total_size_by_folder (we_sql_len we) ''Sent'',
          mails_count_by_folder_since ''INBOX'' today, mails_count_by_folder_since ''Sent'' today,
          mails_count_by_folder_since ''INBOX'' week, mails_count_by_folder_since ''Sent'' week])"

definition dashboard :: "web_env \<Rightarrow> gotime \<Rightarrow> ctx \<Rightarrow> web_world \<Rightarrow> response \<times> web_world" where
  "dashboard we now cx w =
     (let (ds, w1) = web_db (domains_list 1 1) w;
          (us, w2) = web_db (users_list_all 1 1) w1;
          (ns, w3) = run_counts (dashboard_counts we now) w2;
          (bs, w4) = web_db (bans_list 1 1000) w3;
          ban_count = ignore 0 bs (\<lambda>(rows, _). int (length (filter (\<lambda>b. b_expires_at b > now) rows)))
      in (page 200 ''admin_dashboard'' we cx
            ([(''currentUser'', V_User (cx_user cx)), (''domainCount'', V_Int (ignore 0 ds snd)),
              (''userCount'', V_Int (ignore 0 us snd))] @ zip dashboard_names (map V_Int ns) @
             [(''banCount'', V_Int ban_count), (''activeFolder'', V_Str ''admin'')]), w4))"

section \<open>Domains\<close>

definition list_domains :: "web_env \<Rightarrow> ctx \<Rightarrow> web_world \<Rightarrow> response \<times> web_world" where
  "list_domains we cx w =
     (let pg = get_page_param (cx_req cx) ''page'' 1
      in case web_db (domains_list pg 20) w of
           (Inl e, w1) \<Rightarrow> (text_page 500 (trf we cx k_domains_failed [F_Str (we_err we e)]), w1)
         | (Inr (domains, tot), w1) \<Rightarrow>
             (page 200 ''admin_domains'' we cx
                [(''currentUser'', V_User (cx_user cx)), (''domains'', V_Domains domains), (''total'', V_Int tot),
                 (''page'', V_Int pg), (''pageSize'', V_Int 20), (''totalPages'', V_Int (total_pages tot 20)),
                 (''activeFolder'', V_Str ''domains'')], w1))"

definition new_domain_form :: "nat \<Rightarrow> web_env \<Rightarrow> ctx \<Rightarrow> string \<Rightarrow> domain \<Rightarrow> response" where
  "new_domain_form st we cx msg d =
     page st ''admin_domain_form'' we cx
       [(''currentUser'', V_User (cx_user cx)), (''activeFolder'', V_Str ''domains''), (''error'', V_Str msg),
        (''isEdit'', V_Bool False), (''domain'', V_Domain d)]"

definition form_domain :: "request \<Rightarrow> domain" where
  "form_domain q = zero_domain\<lparr>d_name := post_form q ''name'', d_smtp_port := form_int_or_default q ''smtp_port'' 25,
     d_imap_port := form_int_or_default q ''imap_port'' 143, d_pop3_port := form_int_or_default q ''pop3_port'' 110,
     d_tls_enabled := (post_form q ''tls_enabled'' = ''on'')\<rparr>"

definition generate_key_pair :: "web_env \<Rightarrow> (string \<times> string) option" where
  \<comment> \<open>PEM texts of the private and the public key\<close>
  "generate_key_pair we =
     (case we_rsa_key we of
        None \<Rightarrow> None
      | Some key \<Rightarrow>
          map_option (\<lambda>pub. (we_pem_encode we ''RSA PRIVATE KEY'' (we_pkcs1 we key), we_pem_encode we ''PUBLIC KEY'' pub))
            (we_pkix we key))"

definition dkim_dns_record :: "web_env \<Rightarrow> string \<Rightarrow> string" where
  "dkim_dns_record we pem =
     (if pem = [] then []
      else case we_pem_decode we pem of None \<Rightarrow> [] | Some bytes \<Rightarrow> ''v=DKIM1; k=rsa; p='' @ base64 bytes)"

definition with_dkim_keys :: "web_env \<Rightarrow> domain \<Rightarrow> domain" where
  \<comment> \<open>a fresh key pair; a failure is only logged\<close>
  "with_dkim_keys we d =
     (case generate_key_pair we of
        None \<Rightarrow> d
      | Some (priv, pub) \<Rightarrow> d\<lparr>d_dkim_selector := ''default'', d_dkim_private_key := priv, d_dkim_public_key := pub\<rparr>)"

definition create_domain :: "web_env \<Rightarrow> ctx \<Rightarrow> web_world \<Rightarrow> response \<times> web_world" where
  "create_domain we cx w =
     (let d = form_domain (cx_req cx)
      in if d_name d = [] then (new_domain_form 400 we cx (tr we cx k_domain_name_missing) d, w)
         else case web_db (domains_create (with_dkim_keys we d)) w of
             (Inl e, w1) \<Rightarrow>
               (new_domain_form 400 we cx (trf we cx k_domain_create_failed [F_Str (we_err we e)]) (with_dkim_keys we d), w1)
           | (Inr _, w1) \<Rightarrow> (redirect ''/admin/domains'', w1))"

definition with_domain_row ::
  "web_env \<Rightarrow> ctx \<Rightarrow> string \<Rightarrow> (domain \<Rightarrow> web_world \<Rightarrow> response \<times> web_world) \<Rightarrow> web_world \<Rightarrow> response \<times> web_world" where
  \<comment> \<open>how the handlers of one domain begin\<close>
  "with_domain_row we cx id_param act =
     with_id we cx k_bad_domain_id id_param (\<lambda>i w.
       case web_db (domains_get_by_id i) w of
         (Inl _, w1) \<Rightarrow> (text_page 404 (tr we cx k_no_domain), w1)
       | (Inr d, w1) \<Rightarrow> act d w1)"

definition disk_read :: "string \<Rightarrow> disk \<Rightarrow> string option \<times> disk" where
  \<comment> \<open>\<open>os.ReadFile\<close>\<close>
  "disk_read p dk = (case disk_fails dk of (True, dk1) \<Rightarrow> (None, dk1) | (False, dk1) \<Rightarrow> (disk_files dk1 p, dk1))"

definition disk_mkdir :: "disk \<Rightarrow> bool \<times> disk" where
  \<comment> \<open>\<open>os.MkdirAll\<close>: whether it succeeds\<close>
  "disk_mkdir dk = (let (f, dk1) = disk_fails dk in (\<not> f, dk1))"

definition disk_write :: "string \<Rightarrow> string \<Rightarrow> disk \<Rightarrow> bool \<times> disk" where
  "disk_write p data dk =
     (case disk_fails dk of
        (True, dk1) \<Rightarrow> (False, dk1)
      | (False, dk1) \<Rightarrow> (True, dk1\<lparr>disk_files := (disk_files dk1)(p \<mapsto> data)\<rparr>))"

definition read_tls_cert :: "string \<Rightarrow> web_world \<Rightarrow> string \<times> web_world" where
  "read_tls_cert path w =
     (if path = [] then ([], w)
      else let (r, dk) = disk_read path (sw_disk w) in ((case r of None \<Rightarrow> [] | Some x \<Rightarrow> x), w\<lparr>sw_disk := dk\<rparr>))"

definition tls_configured :: "domain \<Rightarrow> bool" where
  "tls_configured d \<longleftrightarrow> d_tls_cert_path d \<noteq> [] \<and> d_tls_key_path d \<noteq> []"

definition edit_domain :: "web_env \<Rightarrow> ctx \<Rightarrow> string \<Rightarrow> web_world \<Rightarrow> response \<times> web_world" where
  "edit_domain we cx id_param =
     with_domain_row we cx id_param (\<lambda>d w.
       let err = query (cx_req cx) ''caddy_err'';
           (msg, kind) = (if err \<noteq> [] then (err, ''error'')
                          else if query (cx_req cx) ''caddy_ok'' = ''1'' then (tr we cx k_caddy_ok, ''success'')
                          else ([], []));
           (cert, w1) = read_tls_cert (d_tls_cert_path d) w
       in (page 200 ''admin_domain_form'' we cx
             [(''currentUser'', V_User (cx_user cx)), (''activeFolder'', V_Str ''domains''), (''error'', V_Str []),
              (''isEdit'', V_Bool True), (''domain'', V_Domain d), (''tlsPublicCert'', V_Str cert),
              (''tlsCertConfigured'', V_Bool (tls_configured d)), (''caddyMsg'', V_Str msg), (''caddyMsgType'', V_Str kind)], w1))"

definition normalize_pem :: "string \<Rightarrow> string" where
  "normalize_pem s = map (\<lambda>c. if c = CHR 0x0D then CHR 0x0A else c) (replace_crlf s)"

definition tls_dir_of :: "web_env \<Rightarrow> domain \<Rightarrow> string" where
  "tls_dir_of we d = path_join (we_tls_dir we) (show_nat (d_id d))"

definition write_tls_files ::
  "web_env \<Rightarrow> domain \<Rightarrow> string \<Rightarrow> string \<Rightarrow> web_world \<Rightarrow> (string + domain) \<times> web_world" where
  \<comment> \<open>directory, certificate, key; the text key of the first step that fails, or the domain with the paths\<close>
  "write_tls_files we d cert key w =
     (let cert_path = path_join (tls_dir_of we d) ''cert.pem''; key_path = path_join (tls_dir_of we d) ''key.pem''
      in case disk_mkdir (sw_disk w) of
           (False, dk1) \<Rightarrow> (Inl k_tls_dir_failed, w\<lparr>sw_disk := dk1\<rparr>)
         | (True, dk1) \<Rightarrow>
             (case disk_write cert_path cert dk1 of
                (False, dk2) \<Rightarrow> (Inl k_tls_cert_failed, w\<lparr>sw_disk := dk2\<rparr>)
              | (True, dk2) \<Rightarrow>
                  (case disk_write key_path key dk2 of
                     (False, dk3) \<Rightarrow> (Inl k_tls_key_failed, w\<lparr>sw_disk := dk3\<rparr>)
                   | (True, dk3) \<Rightarrow> (Inr (d\<lparr>d_tls_cert_path := cert_path, d_tls_key_path := key_path\<rparr>), w\<lparr>sw_disk := dk3\<rparr>))))"

definition file_error_text :: "web_env \<Rightarrow> string \<Rightarrow> string" where
  \<comment> \<open>the \<open>%v\<close> of the failed step\<close>
  "file_error_text we key = we_file_err we (if key = k_tls_dir_failed then Mkdir_Failed else Write_Failed)"

definition handle_domain_tls_update ::
  "web_env \<Rightarrow> ctx \<Rightarrow> domain \<Rightarrow> string \<Rightarrow> string \<Rightarrow> web_world \<Rightarrow> (string + domain) \<times> web_world" where
  "handle_domain_tls_update we cx d cert0 key0 w =
     (let cert = normalize_pem (trim_space cert0); key = normalize_pem (trim_space key0)
      in if \<not> d_tls_enabled d then (Inr d, w)
         else if cert = [] \<and> key = [] then
           (if tls_configured d then (Inr d, w) else (Inl (tr we cx k_tls_required), w))
         else
           (let (old, w1) = (if tls_configured d \<and> key = [] then read_tls_cert (d_tls_cert_path d) w else ([], w))
            in if tls_configured d \<and> key = [] \<and> normalize_pem (trim_space old) = cert then (Inr d, w1)
               else if cert = [] \<or> key = [] then (Inl (tr we cx k_tls_both), w1)
               else case we_key_pair_err we cert key of
                   Some e \<Rightarrow> (Inl (trf we cx k_tls_invalid [F_Str e]), w1)
                 | None \<Rightarrow>
                     (case write_tls_files we d (cert @ [CHR 0x0A]) (key @ [CHR 0x0A]) w1 of
                        (Inl k, w2) \<Rightarrow> (Inl (trf we cx k [F_Str (file_error_text we k)]), w2)
                      | (Inr d', w2) \<Rightarrow> (Inr d', w2))))"

definition domain_form_error :: "web_env \<Rightarrow> ctx \<Rightarrow> domain \<Rightarrow> string \<Rightarrow> string \<Rightarrow> web_world \<Rightarrow> response \<times> web_world" where
  "domain_form_error we cx d msg cert w =
     (let (shown, w1) = (if cert = [] then read_tls_cert (d_tls_cert_path d) w else (cert, w))
      in (page 400 ''admin_domain_form'' we cx
            [(''currentUser'', V_User (cx_user cx)), (''activeFolder'', V_Str ''domains''), (''error'', V_Str msg),
             (''isEdit'', V_Bool True), (''domain'', V_Domain d), (''tlsPublicCert'', V_Str shown),
             (''tlsCertConfigured'', V_Bool (tls_configured d))], w1))"

definition update_domain :: "web_env \<Rightarrow> ctx \<Rightarrow> string \<Rightarrow> web_world \<Rightarrow> response \<times> web_world" where
  "update_domain we cx id_param =
     with_domain_row we cx id_param (\<lambda>d0 w.
       let q = cx_req cx;
           d = d0\<lparr>d_smtp_port := form_int_or_default q ''smtp_port'' (d_smtp_port d0),
                  d_imap_port := form_int_or_default q ''imap_port'' (d_imap_port d0),
                  d_pop3_port := form_int_or_default q ''pop3_port'' (d_pop3_port d0),
                  d_tls_enabled := (post_form q ''tls_enabled'' = ''on'')\<rparr>;
           key = trim_space (post_form q ''tls_private_key'');
           cert = trim_space (post_form q ''tls_public_cert'')
       in case handle_domain_tls_update we cx d cert key w of
            (Inl msg, w1) \<Rightarrow> domain_form_error we cx d msg cert w1
          | (Inr d1, w1) \<Rightarrow>
              (let d2 = (if post_form q ''regenerate_dkim'' = ''on'' then with_dkim_keys we d1 else d1)
               in case web_db (domains_update d2) w1 of
                    (Inl e, w2) \<Rightarrow>
                      domain_form_error we cx d2 (trf we cx k_domain_update_failed [F_Str (we_err we e)]) cert w2
                  | (Inr _, w2) \<Rightarrow> (redirect ''/admin/domains'', w2)))"

definition caddy_cert_roots :: "web_env \<Rightarrow> string list" where
  "caddy_cert_roots we = [path_join (path_dir (we_tls_dir we)) ''caddy'', we_caddy_dir we]"

definition fetch_caddy_cert :: "web_env \<Rightarrow> gotime \<Rightarrow> ctx \<Rightarrow> string \<Rightarrow> web_world \<Rightarrow> response \<times> web_world" where
  "fetch_caddy_cert we now cx id_param =
     with_domain_row we cx id_param (\<lambda>d w.
       let edit_url = ''/admin/domains/'' @ show_nat (d_id d) @ ''/edit'';
           fail = (\<lambda>key e. redirect (edit_url @ ''?caddy_err='' @ we_query_escape we (trf we cx key [F_Str e])))
       in case fetch_cert (we_caddy we) now (d_name d) (caddy_cert_roots we) of
            Inl e \<Rightarrow> (fail k_caddy_failed e, w)
          | Inr c \<Rightarrow>
              (case write_tls_files we d (cc_cert_pem c) (cc_key_pem c) w of
                 (Inl k, w1) \<Rightarrow> (fail k (file_error_text we k), w1)
               | (Inr d1, w1) \<Rightarrow>
                   (case web_db (domains_update (d1\<lparr>d_tls_enabled := True\<rparr>)) w1 of
                      (Inl e, w2) \<Rightarrow> (fail k_domain_record_failed (we_err we e), w2)
                    | (Inr _, w2) \<Rightarrow> (redirect (edit_url @ ''?caddy_ok=1''), w2))))"

definition delete_domain :: "web_env \<Rightarrow> ctx \<Rightarrow> string \<Rightarrow> web_world \<Rightarrow> response \<times> web_world" where
  "delete_domain we cx id_param =
     with_id we cx k_bad_domain_id id_param (\<lambda>i w.
       case web_db (domains_delete i) w of
         (Inl e, w1) \<Rightarrow> (text_page 500 (trf we cx k_domain_delete_failed [F_Str (we_err we e)]), w1)
       | (Inr _, w1) \<Rightarrow> (redirect ''/admin/domains'', w1))"

definition dns_hint :: "web_env \<Rightarrow> ctx \<Rightarrow> string \<Rightarrow> web_world \<Rightarrow> response \<times> web_world" where
  "dns_hint we cx id_param =
     with_domain_row we cx id_param (\<lambda>d w.
       (page 200 ''admin_dns_hint'' we cx
          [(''currentUser'', V_User (cx_user cx)), (''activeFolder'', V_Str ''domains''), (''domain'', V_Domain d),
           (''dkimRecord'', V_Str (dkim_dns_record we (d_dkim_public_key d)))], w))"

section \<open>Accounts\<close>

definition all_domains :: "web_world \<Rightarrow> domain list \<times> web_world" where
  \<comment> \<open>the first thousand, for the form\<close>
  "all_domains w = (let (r, w1) = web_db (domains_list 1 1000) w in (ignore [] r fst, w1))"

definition list_users :: "web_env \<Rightarrow> ctx \<Rightarrow> web_world \<Rightarrow> response \<times> web_world" where
  "list_users we cx w =
     (let pg = get_page_param (cx_req cx) ''page'' 1
      in case web_db (users_list_all pg 20) w of
           (Inl e, w1) \<Rightarrow> (text_page 500 (trf we cx k_users_failed [F_Str (we_err we e)]), w1)
         | (Inr (us, tot), w1) \<Rightarrow>
             (let (domains, w2) = all_domains w1
              in (page 200 ''admin_users'' we cx
                    [(''currentUser'', V_User (cx_user cx)), (''users'', V_Users us), (''domains'', V_Domains domains),
                     (''total'', V_Int tot), (''page'', V_Int pg), (''pageSize'', V_Int 20),
                     (''totalPages'', V_Int (total_pages tot 20)), (''activeFolder'', V_Str ''users'')], w2)))"

definition zero_user :: user where
  "zero_user = \<lparr>u_id = 0, u_username = [], u_password_hash = [], u_domain_id = 0, u_domain = zero_domain,
     u_quota_bytes = 0, u_used_bytes = 0, u_is_active = False, u_is_admin = False, u_must_change_password = False,
     u_language = []\<rparr>"

definition user_form ::
  "nat \<Rightarrow> web_env \<Rightarrow> ctx \<Rightarrow> string \<Rightarrow> bool \<Rightarrow> user \<Rightarrow> web_world \<Rightarrow> response \<times> web_world" where
  "user_form st we cx msg edit u w =
     (let (domains, w1) = all_domains w
      in (page st ''admin_user_form'' we cx
            [(''currentUser'', V_User (cx_user cx)), (''activeFolder'', V_Str ''users''), (''error'', V_Str msg),
             (''isEdit'', V_Bool edit), (''domains'', V_Domains domains), (''user'', V_User (Some u))], w1))"

definition new_user_form :: "web_env \<Rightarrow> ctx \<Rightarrow> web_world \<Rightarrow> response \<times> web_world" where
  "new_user_form we cx = user_form 200 we cx [] False zero_user"

definition gigabytes :: "int \<Rightarrow> int" where
  \<comment> \<open>a quota in bytes, in an \<open>int64\<close>\<close>
  "gigabytes n = int64 (n * 1073741824)"

definition create_user :: "web_env \<Rightarrow> ctx \<Rightarrow> web_world \<Rightarrow> response \<times> web_world" where
  "create_user we cx w =
     (let q = cx_req cx;
          username = post_form q ''username'';
          password = post_form q ''password'';
          domain_id = form_uint_or_default q ''domain_id'' 0;
          quota_gb = form_int_or_default q ''quota_gb'' 5;
          admin = (post_form q ''is_admin'' = ''on'');
          shown = zero_user\<lparr>u_username := username, u_domain_id := domain_id, u_is_admin := admin\<rparr>
      in if username = [] \<or> password = [] \<or> domain_id = 0
         then user_form 400 we cx (tr we cx k_fields_missing) False shown w
         else case we_hash_pw we password of
             None \<Rightarrow> user_form 500 we cx (tr we cx k_hash_failed) False shown w
           | Some hashed \<Rightarrow>
               (let u = shown\<lparr>u_password_hash := hashed, u_quota_bytes := gigabytes quota_gb, u_is_active := True,
                              u_language := norm_lang (post_form q ''language'')\<rparr>
                in case web_db (users_create u) w of
                     (Inl e, w1) \<Rightarrow> user_form 400 we cx (trf we cx k_user_create_failed [F_Str (we_err we e)]) False u w1
                   | (Inr _, w1) \<Rightarrow> (redirect ''/admin/users'', w1)))"

definition delete_user :: "web_env \<Rightarrow> ctx \<Rightarrow> user \<Rightarrow> string \<Rightarrow> web_world \<Rightarrow> response \<times> web_world" where
  \<comment> \<open>the user is \<open>currentUser\<close> of the context\<close>
  "delete_user we cx me id_param =
     with_id we cx k_bad_user_id id_param (\<lambda>i w.
       if u_id me = i then (text_page 400 (tr we cx k_delete_self), w)
       else case web_db (users_delete i) w of
           (Inl e, w1) \<Rightarrow> (text_page 500 (trf we cx k_user_delete_failed [F_Str (we_err we e)]), w1)
         | (Inr _, w1) \<Rightarrow> (redirect ''/admin/users'', w1))"

definition with_user_row ::
  "web_env \<Rightarrow> ctx \<Rightarrow> string \<Rightarrow> (user \<Rightarrow> web_world \<Rightarrow> response \<times> web_world) \<Rightarrow> web_world \<Rightarrow> response \<times> web_world" where
  "with_user_row we cx id_param act =
     with_id we cx k_bad_user_id id_param (\<lambda>i w.
       case web_db (users_get_by_id i) w of
         (Inl _, w1) \<Rightarrow> (text_page 404 (tr we cx k_no_user), w1)
       | (Inr u, w1) \<Rightarrow> act u w1)"

definition edit_user :: "web_env \<Rightarrow> ctx \<Rightarrow> string \<Rightarrow> web_world \<Rightarrow> response \<times> web_world" where
  "edit_user we cx id_param = with_user_row we cx id_param (user_form 200 we cx [] True)"

definition quot :: "int \<Rightarrow> int \<Rightarrow> int" where
  \<comment> \<open>Go's \<open>/\<close> truncates toward zero\<close>
  "quot a b = (if a < 0 then - (- a div b) else a div b)"

definition edited_user :: "request \<Rightarrow> user \<Rightarrow> user" where
  \<comment> \<open>the form applied to the row as it was read, the password apart\<close>
  "edited_user q u =
     u\<lparr>u_username := (if post_form q ''username'' \<noteq> [] then post_form q ''username'' else u_username u),
       u_domain_id := form_uint_or_default q ''domain_id'' (u_domain_id u),
       u_quota_bytes := gigabytes (form_int_or_default q ''quota_gb'' (quot (u_quota_bytes u) 1073741824)),
       u_is_active := (post_form q ''is_active'' = ''on''),
       u_is_admin := (post_form q ''is_admin'' = ''on''),
       u_language := (if post_form q ''language'' \<noteq> [] then norm_lang (post_form q ''language'') else u_language u)\<rparr>"

definition store_user :: "web_env \<Rightarrow> ctx \<Rightarrow> user \<Rightarrow> web_world \<Rightarrow> response \<times> web_world" where
  "store_user we cx u w =
     (case web_db (users_update u) w of
        (Inl e, w1) \<Rightarrow> user_form 400 we cx (trf we cx k_user_update_failed [F_Str (we_err we e)]) True u w1
      | (Inr _, w1) \<Rightarrow> (redirect ''/admin/users'', w1))"

definition update_user :: "web_env \<Rightarrow> ctx \<Rightarrow> string \<Rightarrow> web_world \<Rightarrow> response \<times> web_world" where
  "update_user we cx id_param =
     with_user_row we cx id_param (\<lambda>u0 w.
       let u = edited_user (cx_req cx) u0; password = post_form (cx_req cx) ''password''
       in if password = [] then store_user we cx u w
          else case we_hash_pw we password of
              None \<Rightarrow> user_form 500 we cx (tr we cx k_hash_failed) True u w
            | Some hashed \<Rightarrow>
                store_user we cx (u\<lparr>u_password_hash := hashed, u_must_change_password := True\<rparr>) w)"

section \<open>Bans\<close>

definition list_bans :: "web_env \<Rightarrow> gotime \<Rightarrow> ctx \<Rightarrow> web_world \<Rightarrow> response \<times> web_world" where
  "list_bans we now cx w =
     (let pg = get_page_param (cx_req cx) ''page'' 1
      in case web_db (bans_list pg 20) w of
           (Inl e, w1) \<Rightarrow> (text_page 500 (trf we cx k_bans_failed [F_Str (we_err we e)]), w1)
         | (Inr (bans, tot), w1) \<Rightarrow>
             (page 200 ''admin_bans'' we cx
                [(''currentUser'', V_User (cx_user cx)),
                 (''rows'', V_Bans (map (\<lambda>b. (b, b_expires_at b > now)) bans)), (''total'', V_Int tot),
                 (''page'', V_Int pg), (''pageSize'', V_Int 20), (''totalPages'', V_Int (total_pages tot 20)),
                 (''activeFolder'', V_Str ''bans'')], w1))"

definition unban_ip :: "web_env \<Rightarrow> ctx \<Rightarrow> string \<Rightarrow> web_world \<Rightarrow> response \<times> web_world" where
  "unban_ip we cx id_param =
     with_id we cx k_bad_record_id id_param (\<lambda>i w.
       case web_db (bans_delete i) w of
         (Inl e, w1) \<Rightarrow> (text_page 500 (trf we cx k_unban_failed [F_Str (we_err we e)]), w1)
       | (Inr _, w1) \<Rightarrow> (redirect ''/admin/bans'', w1))"

section \<open>Protocol logs\<close>

definition cleanup_logs :: "web_env \<Rightarrow> gotime \<Rightarrow> web_world \<Rightarrow> web_world" where
  "cleanup_logs we now w = snd (web_db (logs_cleanup_before (we_days_before we (we_log_keep_days we) now)) w)"

definition parse_date_query :: "web_env \<Rightarrow> string \<Rightarrow> gotime" where
  "parse_date_query we s = (if s = [] then 0 else case we_parse_date we s of None \<Rightarrow> 0 | Some t \<Rightarrow> t)"

definition read_log_filter :: "web_env \<Rightarrow> request \<Rightarrow> log_filter" where
  "read_log_filter we q =
     (let ok = query q ''success''; to = parse_date_query we (query q ''to'')
      in \<lparr>lf_protocol = query q ''protocol'',
          lf_success = (if ok = ''success'' then Some True else if ok = ''fail'' then Some False else None),
          lf_ip = trim_space (query q ''ip''), lf_username = trim_space (query q ''username''),
          lf_from = parse_date_query we (query q ''from''),
          lf_to = (if to = 0 then 0 else we_days_before we (- 1) to)\<rparr>)"

definition filter_links :: "web_env \<Rightarrow> request \<Rightarrow> log_filter \<Rightarrow> (string \<times> string) list" where
  "filter_links we q f =
     map (\<lambda>(k, v). (k, we_query_escape we v))
       [(''protocol'', lf_protocol f), (''success'', query q ''success''), (''ip'', lf_ip f),
        (''username'', lf_username f), (''from'', query q ''from''), (''to'', query q ''to'')]"

definition list_protocol_logs :: "web_env \<Rightarrow> gotime \<Rightarrow> ctx \<Rightarrow> web_world \<Rightarrow> response \<times> web_world" where
  "list_protocol_logs we now cx w =
     (let w0 = cleanup_logs we now w;
          pg = get_page_param (cx_req cx) ''page'' 1;
          f = read_log_filter we (cx_req cx)
      in case web_db (logs_list pg 50 f) w0 of
           (Inl e, w1) \<Rightarrow> (text_page 500 (trf we cx k_logs_failed [F_Str (we_err we e)]), w1)
         | (Inr (logs, tot), w1) \<Rightarrow>
             (let (today, w2) = web_db (logs_count_stats (we_day_start we now)) w1;
                  (every, w3) = web_db (logs_count_stats 0) w2
              in (page 200 ''admin_protocol_logs'' we cx
                    [(''currentUser'', V_User (cx_user cx)), (''logs'', V_Logs logs), (''total'', V_Int tot),
                     (''page'', V_Int pg), (''pageSize'', V_Int 50), (''totalPages'', V_Int (total_pages tot 50)),
                     (''filter'', V_Strs (filter_links we (cx_req cx) f)),
                     (''todayStats'', V_Stats (ignore Map.empty today id)), (''allStats'', V_Stats (ignore Map.empty every id)),
                     (''keepDays'', V_Int (we_log_keep_days we)), (''activeFolder'', V_Str ''protocol-logs'')], w3)))"

definition cleanup_protocol_logs :: "web_env \<Rightarrow> gotime \<Rightarrow> web_world \<Rightarrow> response \<times> web_world" where
  "cleanup_protocol_logs we now w = (redirect ''/admin/protocol-logs'', cleanup_logs we now w)"

section \<open>Mail\<close>

definition list_mails :: "web_env \<Rightarrow> ctx \<Rightarrow> web_world \<Rightarrow> response \<times> web_world" where
  "list_mails we cx w =
     (let pg = get_page_param (cx_req cx) ''page'' 1;
          folder = query (cx_req cx) ''folder''
      in case web_db (if folder \<noteq> [] then mails_list_by_folder folder pg 20 else mails_list_everything pg 20) w of
           (Inl e, w1) \<Rightarrow> (text_page 500 (trf we cx k_list_failed [F_Str (we_err we e)]), w1)
         | (Inr (messages, tot), w1) \<Rightarrow>
             (page 200 ''admin_mails'' we cx
                [(''currentUser'', V_User (cx_user cx)), (''messages'', V_Messages messages), (''total'', V_Int tot),
                 (''page'', V_Int pg), (''pageSize'', V_Int 20), (''totalPages'', V_Int (total_pages tot 20)),
                 (''folder'', V_Str folder), (''activeFolder'', V_Str ''mails'')], w1))"

definition admin_view_mail :: "web_env \<Rightarrow> ctx \<Rightarrow> string \<Rightarrow> web_world \<Rightarrow> response \<times> web_world" where
  "admin_view_mail we cx id_param =
     with_id we cx k_bad_mail_id id_param (\<lambda>i w.
       case web_db (mails_get_by_id i) w of
         (Inl _, w1) \<Rightarrow> (text_page 404 (tr we cx k_no_mail), w1)
       | (Inr msg, w1) \<Rightarrow>
           (let (r, w2) = web_db (attachments_list_by_message i) w1
            in (page 200 ''admin_mail_view'' we cx
                  [(''currentUser'', V_User (cx_user cx)), (''message'', V_Message msg),
                   (''attachments'', V_Attachments (ignore [] r id)), (''activeFolder'', V_Str ''mails'')], w2)))"

definition admin_download :: "web_env \<Rightarrow> ctx \<Rightarrow> string \<Rightarrow> web_world \<Rightarrow> response \<times> web_world" where
  "admin_download we cx id_param =
     with_id we cx k_bad_attachment_id id_param (\<lambda>i w.
       case web_db (attachments_get_by_id i) w of
         (Inl _, w1) \<Rightarrow> (text_page 404 (tr we cx k_no_attachment), w1)
       | (Inr att, w1) \<Rightarrow> serve_attachment we cx att w1)"

section \<open>The outbound queue\<close>

definition status_names :: "(outbound_status \<times> string) list" where
  "status_names = [(Pending, ''pending''), (Sending, ''sending''), (Sent, ''sent''), (Deferred, ''deferred''),
     (Failed, ''failed''), (Canceled, ''canceled'')]"

definition no_rows :: "db \<Rightarrow> ('a list \<times> int) result \<times> db" where
  \<comment> \<open>a list and its count, both empty: two statements\<close>
  "no_rows s =
     (case db_query (\<lambda>_. ()) s of
        (Inl e, s1) \<Rightarrow> (Inl e, s1)
      | (Inr _, s1) \<Rightarrow>
          (case db_query (\<lambda>_. ()) s1 of (Inl e, s2) \<Rightarrow> (Inl e, s2) | (Inr _, s2) \<Rightarrow> (Inr ([], 0), s2)))"

definition list_outbound :: "web_env \<Rightarrow> ctx \<Rightarrow> web_world \<Rightarrow> response \<times> web_world" where
  \<comment> \<open>a status that is none of the six matches no row\<close>
  "list_outbound we cx w =
     (let pg = get_page_param (cx_req cx) ''page'' 1;
          status = query (cx_req cx) ''status'';
          wanted = map_option fst (find (\<lambda>(st, n). n = status) status_names);
          listing = (if status \<noteq> [] \<and> wanted = None then no_rows else outbound_list pg 20 wanted)
      in case web_db listing w of
           (Inl e, w1) \<Rightarrow> (text_page 500 (trf we cx k_queue_list_failed [F_Str (we_err we e)]), w1)
         | (Inr (items, tot), w1) \<Rightarrow>
             (let sts = [Pending, Deferred, Sent, Failed];
                  (ns, w2) = run_counts (map outbound_count_by_status sts) w1
              in (page 200 ''admin_outbound'' we cx
                    [(''currentUser'', V_User (cx_user cx)), (''items'', V_Queue items), (''total'', V_Int tot),
                     (''page'', V_Int pg), (''pageSize'', V_Int 20), (''totalPages'', V_Int (total_pages tot 20)),
                     (''status'', V_Str status), (''statCounts'', V_Counts (zip sts ns)), (''statusText'', V_Status_Text),
                     (''activeFolder'', V_Str ''outbound'')], w2)))"

definition retry_outbound :: "web_env \<Rightarrow> gotime \<Rightarrow> ctx \<Rightarrow> string \<Rightarrow> web_world \<Rightarrow> response \<times> web_world" where
  "retry_outbound we now cx id_param =
     with_id we cx k_bad_queue_id id_param (\<lambda>i w.
       if we_outbound we = None then (text_page 500 (tr we cx k_outbound_missing), w)
       else case web_db (manager_retry now i) w of
           (Inl e, w1) \<Rightarrow> (text_page 500 (trf we cx k_retry_failed [F_Str (we_err we e)]), w1)
         | (Inr _, w1) \<Rightarrow> (redirect ''/admin/outbound'', w1))"

definition cancel_outbound :: "web_env \<Rightarrow> gotime \<Rightarrow> ctx \<Rightarrow> string \<Rightarrow> web_world \<Rightarrow> response \<times> web_world" where
  "cancel_outbound we now cx id_param =
     with_id we cx k_bad_queue_id id_param (\<lambda>i w.
       if we_outbound we = None then (text_page 500 (tr we cx k_outbound_missing), w)
       else case web_db (manager_cancel now i) w of
           (Inl e, w1) \<Rightarrow> (text_page 500 (trf we cx k_cancel_failed [F_Str (we_err we e)]), w1)
         | (Inr _, w1) \<Rightarrow> (redirect ''/admin/outbound'', w1))"

end
