(* ===== verification/Web_Server.thy ===== *)
theory Web_Server
  imports Web_Isolation Web_Auth Web_Admin
begin

text \<open>
  The web server (\<open>internal/web/server.go\<close>): its routes, and what happens to one request, from the ban
  check to the handler. What follows states the access rules of the whole interface: who may reach the
  administration, what a user's request may change, and when a session begins.
\<close>

section \<open>Routes\<close>

text \<open>
  A route with its path parameters. \<open>R_None\<close> is a path without a route, \<open>R_Static\<close> a file of the
  embedded assets; the router itself is the library's.
\<close>

datatype public_route = R_Static | R_None | R_Show_Login | R_Login | R_Ldap_Login | R_OAuth2_Start | R_OAuth2_Callback

datatype user_route =
    R_Logout | R_Home | R_Folder string | R_View string string | R_Empty_Folder string | R_Compose | R_Send
  | R_Settings | R_Update_Settings | R_Delete string | R_Restore string | R_Purge string | R_Mark_Read string
  | R_Attachment string | R_Moved string string  \<comment> \<open>a path of before, and the id in it\<close>

datatype admin_route =
    A_Dashboard | A_Domains | A_New_Domain | A_Create_Domain | A_Edit_Domain string | A_Update_Domain string
  | A_Delete_Domain string | A_Fetch_Cert string | A_Dns string | A_Users | A_New_User | A_Create_User
  | A_Delete_User string | A_Edit_User string | A_Update_User string | A_Mails | A_View_Mail string
  | A_Attachment string | A_Outbound | A_Retry string | A_Cancel string | A_Bans | A_Unban string | A_Logs
  | A_Cleanup_Logs | A_Connections | A_Disconnect string

datatype route = Public public_route | User_Route user_route | Admin_Route admin_route

fun get_route :: "string list \<Rightarrow> route" where
  \<comment> \<open>the routes of \<open>GET\<close>, by the segments of the path\<close>
  "get_route [''''] = User_Route R_Home"
| "get_route [a] =
     (if a = ''login'' then Public R_Show_Login else if a = ''compose'' then User_Route R_Compose
      else if a = ''settings'' then User_Route R_Settings
      else if a \<in> {''inbox'', ''sent'', ''drafts''} then User_Route (R_Moved a [])
      else if a = ''admin'' then Admin_Route A_Dashboard else Public R_None)"
| "get_route [a, b] =
     (if a = ''admin'' then
        (if b = [] then Admin_Route A_Dashboard else if b = ''domains'' then Admin_Route A_Domains
         else if b = ''users'' then Admin_Route A_Users else if b = ''mails'' then Admin_Route A_Mails
         else if b = ''outbound'' then Admin_Route A_Outbound else if b = ''bans'' then Admin_Route A_Bans
         else if b = ''protocol-logs'' then Admin_Route A_Logs
         else if b = ''connections'' then Admin_Route A_Connections else Public R_None)
      else if a = ''static'' then Public R_Static
      else if a = ''auth'' \<and> b = ''oauth2'' then Public R_OAuth2_Start
      else if b = [] then Public R_None
      else if a = ''folder'' then User_Route (R_Folder b)
      else if a = ''attachment'' then User_Route (R_Attachment b)
      else if a \<in> {''inbox'', ''sent'', ''drafts''} then User_Route (R_Moved a b)
      else Public R_None)"
| "get_route [a, b, c] =
     (if a = ''static'' then Public R_Static
      else if a = ''auth'' \<and> b = ''oauth2'' \<and> c = ''callback'' then Public R_OAuth2_Callback
      else if b = [] \<or> c = [] then Public R_None
      else if a = ''folder'' then User_Route (R_View b c)
      else if a = ''admin'' then
        (if b = ''domains'' \<and> c = ''new'' then Admin_Route A_New_Domain
         else if b = ''users'' \<and> c = ''new'' then Admin_Route A_New_User
         else if b = ''mails'' then Admin_Route (A_View_Mail c)
         else if b = ''attachment'' then Admin_Route (A_Attachment c) else Public R_None)
      else Public R_None)"
| "get_route [a, b, c, d] =
     (if a = ''static'' then Public R_Static
      else if a = ''admin'' \<and> c \<noteq> [] then
        (if b = ''domains'' \<and> d = ''edit'' then Admin_Route (A_Edit_Domain c)
         else if b = ''domains'' \<and> d = ''dns'' then Admin_Route (A_Dns c)
         else if b = ''users'' \<and> d = ''edit'' then Admin_Route (A_Edit_User c) else Public R_None)
      else Public R_None)"
| "get_route (a # as) = (if a = ''static'' then Public R_Static else Public R_None)"
| "get_route [] = Public R_None"

fun post_route :: "string list \<Rightarrow> route" where
  "post_route [a] =
     (if a = ''login'' then Public R_Login else if a = ''logout'' then User_Route R_Logout
      else if a = ''compose'' then User_Route R_Send else if a = ''settings'' then User_Route R_Update_Settings
      else Public R_None)"
| "post_route [a, b] =
     (if a = ''login'' \<and> b = ''ldap'' then Public R_Ldap_Login
      else if a = ''admin'' \<and> b = ''domains'' then Admin_Route A_Create_Domain
      else if a = ''admin'' \<and> b = ''users'' then Admin_Route A_Create_User else Public R_None)"
| "post_route [a, b, c] =
     (if b = [] \<or> c = [] then Public R_None
      else if a = ''folder'' \<and> c = ''empty'' then User_Route (R_Empty_Folder b)
      else if a = ''mail'' then
        (if b = ''delete'' then User_Route (R_Delete c) else if b = ''restore'' then User_Route (R_Restore c)
         else if b = ''purge'' then User_Route (R_Purge c) else if b = ''read'' then User_Route (R_Mark_Read c)
         else Public R_None)
      else if a = ''admin'' then
        (if b = ''domains'' then Admin_Route (A_Update_Domain c) else if b = ''users'' then Admin_Route (A_Update_User c)
         else if b = ''protocol-logs'' \<and> c = ''cleanup'' then Admin_Route A_Cleanup_Logs else Public R_None)
      else Public R_None)"
| "post_route [a, b, c, d] =
     (if a \<noteq> ''admin'' \<or> c = [] then Public R_None
      else if b = ''domains'' \<and> d = ''delete'' then Admin_Route (A_Delete_Domain c)
      else if b = ''domains'' \<and> d = ''fetch-caddy-cert'' then Admin_Route (A_Fetch_Cert c)
      else if b = ''users'' \<and> d = ''delete'' then Admin_Route (A_Delete_User c)
      else if b = ''outbound'' \<and> d = ''retry'' then Admin_Route (A_Retry c)
      else if b = ''outbound'' \<and> d = ''cancel'' then Admin_Route (A_Cancel c)
      else if b = ''bans'' \<and> d = ''unban'' then Admin_Route (A_Unban c)
      else if b = ''connections'' \<and> d = ''disconnect'' then Admin_Route (A_Disconnect c)
      else Public R_None)"
| "post_route _ = Public R_None"

definition route_of :: "string \<Rightarrow> string \<Rightarrow> route" where
  "route_of rq_method path =
     (let segments = split_on slash (drop 1 path)
      in if rq_method = ''GET'' then get_route segments
         else if rq_method = ''POST'' then post_route segments
         else if rq_method = ''HEAD'' \<and> hd segments = ''static'' then Public R_Static
         else Public R_None)"

section \<open>One request\<close>

definition anonymous :: "request \<Rightarrow> ctx" where
  "anonymous q = \<lparr>cx_req = q, cx_lang = None, cx_user = None, cx_user_id = 0, cx_session = rq_session q\<rparr>"

definition run_public ::
  "web_env \<Rightarrow> gotime \<Rightarrow> (string \<Rightarrow> response) \<Rightarrow> public_route \<Rightarrow> request \<Rightarrow> web_world \<Rightarrow> response \<times> web_world" where
  "run_public we now static r q w =
     (let cx = anonymous q
      in case r of
           R_Static \<Rightarrow> (static (rq_path q), w)
         | R_None \<Rightarrow> (text_page 404 ''404 page not found'', w)
         | R_Show_Login \<Rightarrow> (show_login we cx, w)
         | R_Login \<Rightarrow> do_login we now cx w
         | R_Ldap_Login \<Rightarrow> ldap_login we now cx w
         | R_OAuth2_Start \<Rightarrow> (oauth2_start we cx, w)
         | R_OAuth2_Callback \<Rightarrow> oauth2_callback we now cx w)"

definition moved_to :: "string \<Rightarrow> string \<Rightarrow> response" where
  "moved_to old i =
     (let base = (if old = ''inbox'' then ''/folder/INBOX'' else if old = ''sent'' then ''/folder/Sent'' else ''/folder/Drafts'')
      in redirect (if i = [] then base else base @ ''/'' @ i))"

definition run_user :: "web_env \<Rightarrow> gotime \<Rightarrow> ctx \<Rightarrow> user \<Rightarrow> user_route \<Rightarrow> web_world \<Rightarrow> response \<times> web_world" where
  "run_user we now cx u r w =
     (case r of
        R_Logout \<Rightarrow> (do_logout cx, w)
      | R_Home \<Rightarrow> (redirect ''/inbox'', w)
      | R_Folder n \<Rightarrow> web_folder we cx n w
      | R_View n i \<Rightarrow> web_view we cx i w
      | R_Empty_Folder n \<Rightarrow> web_empty_folder we cx n w
      | R_Compose \<Rightarrow> web_compose we cx w
      | R_Send \<Rightarrow> web_send we now cx u w
      | R_Settings \<Rightarrow> web_settings we cx w
      | R_Update_Settings \<Rightarrow> web_update_settings we cx u w
      | R_Delete i \<Rightarrow> web_delete we cx i w
      | R_Restore i \<Rightarrow> web_restore we cx i w
      | R_Purge i \<Rightarrow> web_purge we cx i w
      | R_Mark_Read i \<Rightarrow> web_mark_read we cx i w
      | R_Attachment i \<Rightarrow> web_download we cx i w
      | R_Moved old i \<Rightarrow> (moved_to old i, w))"

definition run_admin :: "web_env \<Rightarrow> gotime \<Rightarrow> ctx \<Rightarrow> user \<Rightarrow> admin_route \<Rightarrow> web_world \<Rightarrow> response \<times> web_world" where
  "run_admin we now cx u r w =
     (case r of
        A_Dashboard \<Rightarrow> dashboard we now cx w
      | A_Domains \<Rightarrow> list_domains we cx w
      | A_New_Domain \<Rightarrow> (new_domain_form 200 we cx [] zero_domain, w)
      | A_Create_Domain \<Rightarrow> create_domain we cx w
      | A_Edit_Domain i \<Rightarrow> edit_domain we cx i w
      | A_Update_Domain i \<Rightarrow> update_domain we cx i w
      | A_Delete_Domain i \<Rightarrow> delete_domain we cx i w
      | A_Fetch_Cert i \<Rightarrow> fetch_caddy_cert we now cx i w
      | A_Dns i \<Rightarrow> dns_hint we cx i w
      | A_Users \<Rightarrow> list_users we cx w
      | A_New_User \<Rightarrow> new_user_form we cx w
      | A_Create_User \<Rightarrow> create_user we cx w
      | A_Delete_User i \<Rightarrow> delete_user we cx u i w
      | A_Edit_User i \<Rightarrow> edit_user we cx i w
      | A_Update_User i \<Rightarrow> update_user we cx i w
      | A_Mails \<Rightarrow> list_mails we cx w
      | A_View_Mail i \<Rightarrow> admin_view_mail we cx i w
      | A_Attachment i \<Rightarrow> admin_download we cx i w
      | A_Outbound \<Rightarrow> list_outbound we cx w
      | A_Retry i \<Rightarrow> retry_outbound we now cx i w
      | A_Cancel i \<Rightarrow> cancel_outbound we now cx i w
      | A_Bans \<Rightarrow> list_bans we now cx w
      | A_Unban i \<Rightarrow> unban_ip we cx i w
      | A_Logs \<Rightarrow> list_protocol_logs we now cx w
      | A_Cleanup_Logs \<Rightarrow> cleanup_protocol_logs we now w
      | A_Connections \<Rightarrow> list_connections we now cx w
      | A_Disconnect i \<Rightarrow> (case disconnect_connection we now cx i w of ((resp, _), w1) \<Rightarrow> (resp, w1)))"

definition with_session ::
  "web_env \<Rightarrow> gotime \<Rightarrow> request \<Rightarrow> (ctx \<Rightarrow> user \<Rightarrow> web_world \<Rightarrow> response \<times> web_world) \<Rightarrow> web_world \<Rightarrow> response \<times> web_world" where
  \<comment> \<open>the handler behind \<open>AuthMiddleware\<close>; the session the middleware saved is in the response unless the
      handler saved another\<close>
  "with_session we now q act w =
     (case auth_middleware we now q w of
        (Inl resp, w1) \<Rightarrow> (resp, w1)
      | (Inr (cx, saved), w1) \<Rightarrow>
          (case cx_user cx of
             None \<Rightarrow> (text_page 403 (tr we cx k_forbidden), w1)
           | Some u \<Rightarrow>
               (let (resp, w2) = act cx u w1
                in (if rs_session resp = None then resp\<lparr>rs_session := saved\<rparr> else resp, w2))))"

definition serve ::
  "web_env \<Rightarrow> gotime \<Rightarrow> (string \<Rightarrow> response) \<Rightarrow> string \<Rightarrow> request \<Rightarrow> web_world \<Rightarrow> response \<times> web_world" where
  \<comment> \<open>ban check, security headers, route; \<open>static\<close> serves the embedded files\<close>
  "serve we now static rq_method q w =
     (case ban_middleware we now q w of
        (Some resp, w1) \<Rightarrow> (resp, w1)
      | (None, w1) \<Rightarrow>
          (let (resp, w2) =
             (case route_of rq_method (rq_path q) of
                Public r \<Rightarrow> run_public we now static r q w1
              | User_Route r \<Rightarrow> with_session we now q (\<lambda>cx u. run_user we now cx u r) w1
              | Admin_Route r \<Rightarrow>
                  with_session we now q (\<lambda>cx u w.
                    case admin_middleware we cx of Some refused \<Rightarrow> (refused, w) | None \<Rightarrow> run_admin we now cx u r w) w1)
           in (resp\<lparr>rs_headers := security_headers @ rs_headers resp\<rparr>, w2)))"

section \<open>Sessions and their users\<close>

definition session_owner :: "request \<Rightarrow> nat option" where
  "session_owner q = (case map_of (rq_session q) ''userID'' of None \<Rightarrow> None | Some v \<Rightarrow> session_user_id v)"

lemma auth_middleware_db: "auth_middleware we now q w = (r, w1) \<Longrightarrow> \<exists>d. w1 = w\<lparr>sw_db := d\<rparr> \<and> tables d = tables (sw_db w)"
  by (auto simp: auth_middleware_def Let_def web_db_eq split: option.splits prod.splits sum.splits if_splits
      intro: exI [of _ "sw_db w"] exI [of _ "snd (users_get_by_id _ (sw_db w))"])

lemma auth_middleware_user:
  assumes "auth_middleware we now q w = (Inr (cx, saved), w1)"
  obtains u v where "cx_user cx = Some u" and "u_id u = cx_user_id cx" and "session_owner q = Some (cx_user_id cx)"
    and "v \<in> set (db_users (sw_db w))" and "same_account u v" and "cx_req cx = q"
proof -
  from assms obtain x i d u where x: "map_of (rq_session q) ''userID'' = Some x" "session_user_id x = Some i"
    and g: "users_get_by_id i (sw_db w) = (Inr u, d)"
    and cx: "cx_user cx = Some u" "cx_user_id cx = i" "cx_req cx = q"
    by (auto simp: auth_middleware_def Let_def web_db_def split: option.splits prod.splits sum.splits if_splits)
  from users_get_by_id_Inr(1) [OF g] obtain v where v: "v \<in> set (db_users (sw_db w))" "same_account u v" "u_id v = i" by blast
  with cx x that [OF cx(1) _ _ v(1,2) cx(3)] show ?thesis by (simp add: session_owner_def same_account_fields)
qed

lemma ban_middleware_db: "ban_middleware we now q w = (r, w1) \<Longrightarrow> \<exists>d. w1 = w\<lparr>sw_db := d\<rparr> \<and> tables d = tables (sw_db w)"
proof -
  have "tables (snd (bans_is_banned now ip s)) = tables s" for ip s
    by (auto simp: bans_is_banned_def stmt_results split: prod.splits sum.splits)
  then show "ban_middleware we now q w = (r, w1) \<Longrightarrow> \<exists>d. w1 = w\<lparr>sw_db := d\<rparr> \<and> tables d = tables (sw_db w)"
    by (auto simp: ban_middleware_def web_db_eq Let_def split: option.splits prod.splits)
qed

lemma ban_middleware_status: "ban_middleware we now q w = (Some r, w1) \<Longrightarrow> rs_status r = 403 \<and> rs_session r = None"
  by (auto simp: ban_middleware_def plain_response_def Let_def split: option.splits prod.splits)

lemma auth_middleware_status: "auth_middleware we now q w = (Inl r, w1) \<Longrightarrow> rs_status r = 302"
  by (auto simp: auth_middleware_def to_login_def save_session_def redirect_def plain_response_def Let_def
      split: option.splits prod.splits sum.splits if_splits)



text \<open>C4: a request of a user stays within what is theirs. Whatever a request to the mail pages asks for, with
  whatever arguments and failures, the messages of every other user stay as they are, in order; all that is
  added to them are new unread messages in inboxes. The other accounts stay as they are, and of the user's
  own only usage, password and language may change; attachments of other users' messages, their folders,
  the domains, the bans, the logs and the queue's rows of others are not touched.\<close>

theorem web_user_isolated:
  assumes "serve we now static rq_method q w = (resp, w')" and "route_of rq_method (rq_path q) = User_Route r"
    and "sound_mail (sw_db w)" and "session_owner q = Some uid"
  shows "sound_mail (sw_db w') \<and> fixed_tables uid (sw_db w') = fixed_tables uid (sw_db w) \<and>
     (\<exists>new. foreign uid (sw_db w') = foreign uid (sw_db w) @ new \<and> list_all unread_inbox new) \<and>
     set (foreign_attachments uid (sw_db w)) \<subseteq> set (db_attachments (sw_db w')) \<and>
     (\<exists>new. db_outbound (sw_db w') = db_outbound (sw_db w) @ new \<and> list_all (\<lambda>x. o_user_id x = uid) new)"
proof -
  obtain b w1 where b: "ban_middleware we now q w = (b, w1)" by (cases "ban_middleware we now q w")
  have c1: "confined_web uid w w1" using ban_middleware_db [OF b] confined_tables by auto
  obtain a w2 where a: "auth_middleware we now q w1 = (a, w2)" by (cases "auth_middleware we now q w1")
  have c2: "confined_web uid w1 w2" using auth_middleware_db [OF a] confined_tables by auto
  have c3: "confined_web uid w2 (snd (run_user we now cx u r w2))" if "cx_user_id cx = uid" "u_id u = uid" for cx u
    using that confined_folder confined_view confined_empty_folder confined_compose confined_send [of u cx] confined_settings
      confined_update_settings confined_delete confined_restore confined_purge confined_mark_read_page confined_download
    by (cases r) (auto simp: run_user_def)
  have "confined_web uid w1 (snd (with_session we now q (\<lambda>cx u. run_user we now cx u r) w1))"
  proof (cases a)
    case (Inl r')
    with a c2 show ?thesis by (simp add: with_session_def)
  next
    case (Inr p)
    obtain cx saved where p: "p = (cx, saved)" by (cases p)
    with a Inr assms(4) obtain u where "cx_user cx = Some u" "cx_user_id cx = uid" "u_id u = uid"
      by (auto elim: auth_middleware_user)
    with c2 c3 [of cx u] a Inr p show ?thesis by (auto simp: with_session_def split_beta intro: confined_trans)
  qed
  with c1 have "confined_web uid w (snd (serve we now static rq_method q w))"
    using b assms(2) by (cases b) (auto simp: serve_def split_beta intro: confined_trans)
  with assms(1,3) show ?thesis by (simp add: confined_def)
qed

lemma web_user_isolated_witness:
  "\<exists>resp w'. serve sample_env 7 (\<lambda>_. redirect []) ''POST'' (sample_request ''/mail/purge/1'' [(''userID'', S_Uint 1)] [])
       (sample_site sample_accounts) = (resp, w') \<and> fixed_tables 1 (sw_db w') = fixed_tables 1 sample_accounts"
proof -
  let ?q = "sample_request ''/mail/purge/1'' [(''userID'', S_Uint 1)] []"
  obtain resp w' where s: "serve sample_env 7 (\<lambda>_. redirect []) ''POST'' ?q (sample_site sample_accounts) = (resp, w')"
    by (cases "serve sample_env 7 (\<lambda>_. redirect []) ''POST'' ?q (sample_site sample_accounts)")
  have r: "route_of ''POST'' (rq_path ?q) = User_Route (R_Purge ''1'')"
    by (simp add: sample_request_def route_of_def)
  have m: "sound_mail (sw_db (sample_site sample_accounts))"
    by (simp add: sound_mail_def sample_site_def sample_accounts_def empty_db_def)
  have o': "session_owner ?q = Some 1" by (simp add: session_owner_def sample_request_def session_user_id_def)
  show ?thesis using web_user_isolated [OF s r m o'] s by (auto simp: sample_site_def)
qed

section \<open>How a session begins\<close>

definition named_by :: "db \<Rightarrow> string \<Rightarrow> user \<Rightarrow> bool" where
  \<comment> \<open>the account an address stands for\<close>
  "named_by s email u \<longleftrightarrow>
     (case split_n2 CHR ''@'' email of [n, d] \<Rightarrow> u_username u = n \<and> in_domain s d u | _ \<Rightarrow> False)"

definition vouched_for :: "web_env \<Rightarrow> request \<Rightarrow> db \<Rightarrow> user \<Rightarrow> bool" where
  \<comment> \<open>by a password, by the directory, or by the OAuth2 provider in a flow this browser began\<close>
  "vouched_for we q s u \<longleftrightarrow>
     named_by s (post_form q ''email'') u \<and> we_check_pw we (u_password_hash u) (post_form q ''password'') \<or>
     (\<exists>email. ldap_authenticate (we_ldap we) (we_auth we) (post_form q ''username'') (post_form q ''password'') = Some email \<and>
        named_by s email u) \<or>
     (\<exists>email. handle_callback (we_oauth we) (we_auth we) (query q ''code'') = Some email \<and> named_by s email u \<and>
        ac_oauth2_enabled (we_auth we) \<and> query q ''state'' \<noteq> [] \<and> rq_state_cookie q = Some (query q ''state''))"

lemma no_session [simp]:
  "rs_session (page st n we cx data) = None" "rs_session (text_page st msg) = None" "rs_session (redirect loc) = None"
  "rs_session (login_page st we cx msg) = None" "rs_session (banned_page we cx e) = None"
  by (simp_all add: page_def text_page_def redirect_def login_page_def banned_page_def plain_response_def)

lemma login_failed_session [simp]: "rs_session (fst (login_failed we now cx reason msg known w)) = None"
proof -
  let ?f = "record_auth_failure now (rq_ip (cx_req cx)) (bc_max_fail_attempts (we_ban we)) (bc_ban_duration_min (we_ban we)) reason known"
  obtain b n w1 where f: "web_db ?f w = ((b, n), w1)" by (metis prod.collapse)
  obtain r w2 where g: "web_db (bans_get_by_ip (rq_ip (cx_req cx))) w1 = (r, w2)" by (metis prod.collapse)
  from f g show ?thesis by (cases b; cases r) (simp_all add: login_failed_def)
qed

lemma named_by_email:
  assumes "users_get_by_email email s = (Inr u, s')"
  shows "\<exists>v \<in> set (db_users s). same_account u v \<and> named_by s email v"
  using users_get_by_email_Inr [OF assms] by (simp add: named_by_def)

lemma named_by_tables: "tables t = tables s \<Longrightarrow> named_by t email u = named_by s email u"
  using tables_eqD(2) [of t s] by (simp only: named_by_def in_domain_def)

lemma open_web_session_some: "rs_session (open_web_session we now cx u) = Some s \<Longrightarrow> s = login_session now u"
  by (auto simp: open_web_session_def split: if_splits)

definition opened :: "web_env \<Rightarrow> gotime \<Rightarrow> request \<Rightarrow> db \<Rightarrow> session \<Rightarrow> bool" where
  \<comment> \<open>a session for an active account that was vouched for\<close>
  "opened we now q s sess \<longleftrightarrow>
     (\<exists>u v. sess = login_session now u \<and> v \<in> set (db_users s) \<and> same_account u v \<and> u_is_active v \<and> vouched_for we q s v)"

lemma is_banned_tables: "web_db (bans_is_banned now ip) w = (r, w1) \<Longrightarrow> tables (sw_db w1) = tables (sw_db w)"
proof -
  have "tables (snd (bans_is_banned now ip s)) = tables s" for s
    by (auto simp: bans_is_banned_def stmt_results split: prod.splits sum.splits)
  then show "web_db (bans_is_banned now ip) w = (r, w1) \<Longrightarrow> tables (sw_db w1) = tables (sw_db w)" by (auto simp: web_db_eq)
qed

lemma same_users: "tables t = tables s \<Longrightarrow> db_users t = db_users s"
  by (rule tables_eqD(1))

lemma do_login_opened:
  assumes "rs_session (fst (do_login we now (anonymous q) w)) = Some s"
  shows "opened we now q (sw_db w) s"
proof -
  let ?email = "post_form q ''email''" and ?pw = "post_form q ''password''"
  obtain b w1 where b: "web_db (bans_is_banned now (rq_ip q)) w = (b, w1)" by (cases "web_db (bans_is_banned now (rq_ip q)) w")
  note t = is_banned_tables [OF b]
  obtain r w2 where r: "web_db (users_authenticate (we_check_pw we) ?email ?pw) w1 = (r, w2)"
    by (cases "web_db (users_authenticate (we_check_pw we) ?email ?pw) w1")
  from assms b r obtain u where u: "r = Inr u" and s: "s = login_session now u"
    by (cases b; cases r) (auto simp: do_login_def anonymous_def Let_def split_beta split: if_splits dest: open_web_session_some)
  from r u obtain d where g: "users_get_by_email ?email (sw_db w1) = (Inr u, d)"
    and c: "check_account (we_check_pw we) u ?pw = Inr u"
    by (auto simp: users_authenticate_def web_db_def check_account_Inr split: prod.splits sum.splits)
  from named_by_email [OF g] obtain v where v: "v \<in> set (db_users (sw_db w1))" "same_account u v" "named_by (sw_db w1) ?email v"
    by blast
  have "v \<in> set (db_users (sw_db w))" "named_by (sw_db w) ?email v"
    using v(1,3) same_users [OF t] named_by_tables [OF t] by simp_all
  with s c v(2) show ?thesis unfolding opened_def vouched_for_def
    using same_account_fields(3,4) [OF v(2)] by (auto simp: check_account_Inr)
qed

lemma by_email_opened:
  assumes "web_db (users_get_by_email email) w1 = (Inr u, w2)" and "tables (sw_db w1) = tables (sw_db w)" and "u_is_active u"
    and "\<And>v. named_by (sw_db w) email v \<Longrightarrow> vouched_for we q (sw_db w) v"
  shows "opened we now q (sw_db w) (login_session now u)"
proof -
  from assms(1) have "users_get_by_email email (sw_db w1) = (Inr u, sw_db w2)" by (auto simp: web_db_def split: prod.splits)
  from named_by_email [OF this] obtain v where v: "v \<in> set (db_users (sw_db w1))" "same_account u v" "named_by (sw_db w1) email v"
    by blast
  have "v \<in> set (db_users (sw_db w))" "named_by (sw_db w) email v"
    using v(1,3) same_users [OF assms(2)] named_by_tables [OF assms(2)] by simp_all
  with v(2) assms(3,4) show ?thesis unfolding opened_def using same_account_fields(3) [OF v(2)] by auto
qed

lemma ldap_login_opened:
  assumes "rs_session (fst (ldap_login we now (anonymous q) w)) = Some s"
  shows "opened we now q (sw_db w) s"
proof -
  obtain b w1 where b: "web_db (bans_is_banned now (rq_ip q)) w = (b, w1)" by (cases "web_db (bans_is_banned now (rq_ip q)) w")
  from assms b obtain email where l: "ldap_authenticate (we_ldap we) (we_auth we) (post_form q ''username'') (post_form q ''password'') = Some email"
    by (cases b) (auto simp: ldap_login_def anonymous_def Let_def split: if_splits option.splits)
  obtain r w2 where r: "web_db (users_get_by_email email) w1 = (r, w2)" by (cases "web_db (users_get_by_email email) w1")
  from assms b l r obtain u where u: "r = Inr u" "u_is_active u" "s = login_session now u"
    by (cases b; cases r) (auto simp: ldap_login_def anonymous_def Let_def split_beta split: if_splits dest: open_web_session_some)
  have "vouched_for we q (sw_db w) v" if "named_by (sw_db w) email v" for v using that l by (auto simp: vouched_for_def)
  from by_email_opened [OF r [unfolded u(1)] is_banned_tables [OF b] u(2) this] u(3) show ?thesis by simp
qed

lemma oauth2_opened:
  assumes "rs_session (fst (oauth2_callback we now (anonymous q) w)) = Some s"
  shows "opened we now q (sw_db w) s"
proof -
  have st: "ac_oauth2_enabled (we_auth we)" "query q ''state'' \<noteq> []" "rq_state_cookie q = Some (query q ''state'')"
    and o': "rs_session (fst (oauth2_login we now (anonymous q) w)) = Some s"
    using assms by (auto simp: oauth2_callback_def anonymous_def split_beta split: if_splits)
  from o' obtain email where l: "handle_callback (we_oauth we) (we_auth we) (query q ''code'') = Some email"
    by (auto simp: oauth2_login_def anonymous_def split: if_splits option.splits)
  obtain r w2 where r: "web_db (users_get_by_email email) w = (r, w2)" by (cases "web_db (users_get_by_email email) w")
  from o' l r obtain u where u: "r = Inr u" "u_is_active u" "s = login_session now u"
    by (cases r) (auto simp: oauth2_login_def anonymous_def split: if_splits dest: open_web_session_some)
  have "vouched_for we q (sw_db w) v" if "named_by (sw_db w) email v" for v using that l st by (auto simp: vouched_for_def)
  from by_email_opened [OF r [unfolded u(1)] refl u(2) this] u(3) show ?thesis by simp
qed

text \<open>C6: nobody gets a session without credentials. If the answer to a request that came without a session
  writes a user id into the session cookie, then it is the id of an active account, and that account was
  vouched for in this request: by its own password under its own address, by the LDAP directory for the
  name and password of the form, or by the OAuth2 provider, and then only if the state in the URL is the
  one this browser was given, so that a foreign authorization code cannot be planted.\<close>

theorem session_needs_credentials:
  assumes "serve we now static rq_method q w = (resp, w')" and "rs_session resp = Some sess"
    and "map_of sess ''userID'' = Some x" and "map_of (rq_session q) ''userID'' = None"
    and "\<And>p. rs_session (static p) = None"
  shows "\<exists>u \<in> set (db_users (sw_db w)). x = S_Uint (u_id u) \<and> u_is_active u \<and> vouched_for we q (sw_db w) u"
proof -
  obtain b w1 where b: "ban_middleware we now q w = (b, w1)" by (cases "ban_middleware we now q w")
  obtain d where d: "w1 = w\<lparr>sw_db := d\<rparr>" "tables d = tables (sw_db w)" using ban_middleware_db [OF b] by blast
  have bn: "b = None" using b assms(1,2) ban_middleware_status [of we now q w] by (cases b) (auto simp: serve_def)
  have ws: "rs_session (fst (with_session we now q act w1)) = None" for act
    using assms(4) by (simp add: with_session_def auth_middleware_def)
  have "\<exists>r. route_of rq_method (rq_path q) = Public r \<and> rs_session (fst (run_public we now static r q w1)) = Some sess"
    using assms(1,2) b bn ws by (auto simp: serve_def split_beta split: route.splits)
  then obtain r where "rs_session (fst (run_public we now static r q w1)) = Some sess" by blast
  then have "opened we now q (sw_db w1) sess"
    using assms(5) do_login_opened ldap_login_opened oauth2_opened
    by (cases r) (auto simp: run_public_def show_login_def oauth2_start_def Let_def split: if_splits option.splits)
  then obtain u v where o': "sess = login_session now u" "v \<in> set (db_users d)" "same_account u v" "u_is_active v"
    "vouched_for we q d v" using d(1) by (auto simp: opened_def)
  have "x = S_Uint (u_id v)" using assms(3) o'(1) same_account_fields(1) [OF o'(3)] by (simp add: login_session_def)
  moreover have "vouched_for we q (sw_db w) v"
    using o'(5) unfolding vouched_for_def by (simp add: named_by_tables [OF d(2)])
  ultimately show ?thesis using o'(2,4) same_users [OF d(2)] by auto
qed

lemma session_needs_credentials_witness:
  "\<exists>u \<in> set (db_users sample_accounts). S_Uint 1 = S_Uint (u_id u) \<and> u_is_active u \<and>
     vouched_for sample_env (sample_request ''/login'' [] [(''email'', ''ann@x.org''), (''password'', ''pw'')]) sample_accounts u"
proof -
  let ?q = "sample_request ''/login'' [] [(''email'', ''ann@x.org''), (''password'', ''pw'')]"
  let ?u = "sample_user 1 ''ann'' 1\<lparr>u_domain := sample_domain 1 ''x.org''\<rparr>"
  obtain resp w' where s: "serve sample_env 7 (\<lambda>_. redirect []) ''POST'' ?q (sample_site sample_accounts) = (resp, w')"
    by (cases "serve sample_env 7 (\<lambda>_. redirect []) ''POST'' ?q (sample_site sample_accounts)")
  have "rs_session (fst (serve sample_env 7 (\<lambda>_. redirect []) ''POST'' ?q (sample_site sample_accounts))) = Some (login_session 7 ?u)"
    by code_simp
  with s have r: "rs_session resp = Some (login_session 7 ?u)" by simp
  have x: "map_of (login_session 7 ?u) ''userID'' = Some (S_Uint 1)" by (simp add: login_session_def sample_user_def)
  show ?thesis using session_needs_credentials [OF s r x] by (simp add: sample_request_def sample_site_def)
qed

end
