(* ===== verification/Web_Delivery.thy ===== *)
theory Web_Delivery
  imports Web_Isolation
begin

text \<open>
  What the mail pages do for their user: a message that is sent reaches every recipient, one that is refused
  leaves no copy, and one that is purged frees its rows, its files and its share of the quota.
\<close>

section \<open>A message that is sent\<close>

definition is_copy ::
  "nat \<Rightarrow> string \<Rightarrow> string \<Rightarrow> string \<Rightarrow> string \<Rightarrow> gotime \<Rightarrow> compose_form \<Rightarrow> bool \<Rightarrow> message \<Rightarrow> bool" where
  "is_copy uid folder mid from_addr raw now fm read m \<longleftrightarrow>
     m = (composed_row uid folder mid from_addr raw now fm read)\<lparr>m_id := m_id m, m_created_at := m_created_at m\<rparr>"

definition account_at :: "db \<Rightarrow> string \<Rightarrow> user \<Rightarrow> bool" where
  \<comment> \<open>the account that is looked up is one with that address\<close>
  "account_at s email u \<longleftrightarrow>
     (\<exists>v \<in> set (db_users s). u_id u = u_id v \<and>
        (case split_n2 CHR ''@'' email of [n, d] \<Rightarrow> u_username v = n \<and> in_domain s d v | _ \<Rightarrow> False))"

fun routed :: "db \<Rightarrow> string list \<Rightarrow> user list \<Rightarrow> string list \<Rightarrow> bool" where
  \<comment> \<open>every recipient is the next account or the next external address\<close>
  "routed s [] us ext \<longleftrightarrow> us = [] \<and> ext = []"
| "routed s (r # rs) us ext \<longleftrightarrow>
     (case us of u # us' \<Rightarrow> account_at s r u \<and> routed s rs us' ext | [] \<Rightarrow> False) \<or>
     (case ext of e # ext' \<Rightarrow> e = r \<and> routed s rs us ext' | [] \<Rightarrow> False)"

definition signed_copy :: "signer \<Rightarrow> string \<Rightarrow> string \<Rightarrow> bool" where
  "signed_copy sign raw x \<longleftrightarrow> x = raw \<or> (\<exists>d sel key. sign raw d sel key = Some x)"

definition queued_copy :: "web_env \<Rightarrow> user \<Rightarrow> string \<Rightarrow> string \<Rightarrow> outbound_message \<Rightarrow> bool" where
  "queued_copy we u raw r m \<longleftrightarrow>
     we_parse_addr we (trim_space r) = Some (o_to_addr m) \<and> o_user_id m = u_id u \<and> o_from_addr m = user_email u \<and>
     o_status m = Pending \<and> signed_copy (we_sign we) raw (o_raw_data m)"

definition address_book :: "db \<Rightarrow> (nat \<times> string \<times> nat) list \<times> domain list" where
  "address_book s = (map (\<lambda>u. (u_id u, u_username u, u_domain_id u)) (db_users s), db_domains s)"

lemma address_book_tables: "tables s = tables t \<Longrightarrow> address_book s = address_book t"
  using tables_eqD(1,2) [of s t] by (simp add: address_book_def)

lemma account_at_cong:
  assumes "address_book s = address_book t"
  shows "account_at s = account_at t"
proof -
  have e: "account_at s r u \<longleftrightarrow> (case split_n2 CHR ''@'' r of
      [n, d] \<Rightarrow> (\<exists>did. (u_id u, n, did) \<in> set (fst (address_book s)) \<and> (\<exists>dm \<in> set (snd (address_book s)). d_id dm = did \<and> d_name dm = d))
    | _ \<Rightarrow> False)" for s r u
    by (auto simp: account_at_def in_domain_def address_book_def split: list.splits)
  show ?thesis by (intro ext) (simp only: e assms)
qed

lemma routed_cong:
  assumes "address_book s = address_book t"
  shows "routed s rs us ext = routed t rs us ext"
  by (induction rs arbitrary: us ext) (auto simp: account_at_cong [OF assms] split: list.splits)

lemma split_recipients_routed:
  assumes "split_recipients rs w = (us, ext, w')"
  shows "routed (sw_db w) rs us ext \<and> (\<exists>d. w' = w\<lparr>sw_db := d\<rparr> \<and> tables d = tables (sw_db w))"
  using assms
proof (induction rs arbitrary: w us ext w')
  case Nil
  then show ?case by (auto intro!: exI [of _ "sw_db w"])
next
  case (Cons r rs)
  obtain q d where q: "users_get_by_email r (sw_db w) = (q, d)" by (cases "users_get_by_email r (sw_db w)")
  then have t: "tables d = tables (sw_db w)" by (rule users_get_by_email_frame)
  obtain us' ext' w2 where s: "split_recipients rs (w\<lparr>sw_db := d\<rparr>) = (us', ext', w2)"
    by (cases "split_recipients rs (w\<lparr>sw_db := d\<rparr>)")
  from Cons.IH [OF s] obtain d' where ih: "routed (sw_db w) rs us' ext'" "w2 = w\<lparr>sw_db := d'\<rparr>" "tables d' = tables (sw_db w)"
    using t routed_cong [OF address_book_tables [OF t]] by auto
  show ?case
  proof (cases q)
    case (Inl e)
    with Cons.prems q s ih show ?thesis by (auto simp: web_db_def)
  next
    case (Inr u)
    have "account_at (sw_db w) r u" using users_get_by_email_Inr [OF q [unfolded Inr]] same_account_fields(1) by (fastforce simp: account_at_def)
    with Inr Cons.prems q s ih show ?thesis by (auto simp: web_db_def)
  qed
qed

lemma web_deliver_copies:
  assumes "web_deliver we now mid from_addr raw fm us w = (None, w')"
  shows "\<exists>copies. db_messages (sw_db w') = db_messages (sw_db w) @ copies \<and> db_outbound (sw_db w') = db_outbound (sw_db w) \<and>
     list_all2 (\<lambda>u m. is_copy (u_id u) ''INBOX'' mid from_addr raw now fm False m) us copies"
  using assms
proof (induction us arbitrary: w)
  case (Cons u us)
  let ?row = "composed_row (u_id u) ''INBOX'' mid from_addr raw now fm False"
  obtain m w1 where c: "web_db (mails_create now ?row) w = (Inr m, w1)"
    and r: "web_deliver we now mid from_addr raw fm us (web_push we (Push_New (user_email u) m) w1) = (None, w')"
    using Cons.prems by (auto split: prod.splits sum.splits)
  from c have m: "m = new_message now ?row (sw_db w)" and d: "sw_db w1 = insert_message m (tick (sw_db w))"
    by (auto simp: web_db_def mails_create_Inr split: prod.splits)
  have "is_copy (u_id u) ''INBOX'' mid from_addr raw now fm False m"
    unfolding m is_copy_def by (simp add: new_message_def composed_row_def)
  moreover from Cons.IH [OF r] obtain copies where
    "db_messages (sw_db w') = db_messages (sw_db w1) @ copies" "db_outbound (sw_db w') = db_outbound (sw_db w1)"
    "list_all2 (\<lambda>u m. is_copy (u_id u) ''INBOX'' mid from_addr raw now fm False m) us copies" by auto
  ultimately show ?case by (intro exI [of _ "m # copies"]) (simp add: d insert_message_def)
qed simp

lemma save_uploads_rows:
  "db_messages (sw_db (save_uploads we uid mid as w)) = db_messages (sw_db w) \<and>
   db_outbound (sw_db (save_uploads we uid mid as w)) = db_outbound (sw_db w)"
proof -
  have "db_messages (snd (users_update_used_bytes i n s)) = db_messages s \<and> db_outbound (snd (users_update_used_bytes i n s)) = db_outbound s"
    for i n s by (simp add: users_update_used_bytes_def db_exec_def db_stmt_def upd_users_def)
  moreover have "db_messages (snd (attachments_create a s)) = db_messages s \<and> db_outbound (snd (attachments_create a s)) = db_outbound s"
    for a s by (simp add: attachments_create_def db_stmt_def Let_def)
  ultimately show ?thesis
    by (induction as arbitrary: w) (auto simp: web_db_eq Let_def split: prod.splits sum.splits)
qed

lemma enqueue_raw:
  assumes "enqueue cfg pa sign now uuid u a b raw st = (Inr m, lim', s')"
  shows "signed_copy sign raw (o_raw_data m)"
  using assms
  by (auto simp: enqueue_def sign_for_sender_def signed_copy_def outbound_create_def db_stmt_def Let_def
      split: prod.splits option.splits sum.splits if_splits)

lemma web_queue_rows:
  assumes "web_queue we cfg now u (user_email u) raw rs w = (None, w')"
  shows "\<exists>rows. db_outbound (sw_db w') = db_outbound (sw_db w) @ rows \<and> db_messages (sw_db w') = db_messages (sw_db w) \<and>
     list_all2 (queued_copy we u raw) rs rows"
  using assms
proof (induction rs arbitrary: w)
  case (Cons r rs)
  obtain uuid dk where n: "next_uuid (sw_disk w) = (uuid, dk)" by (cases "next_uuid (sw_disk w)")
  obtain q lm d where e: "enqueue cfg (we_parse_addr we) (we_sign we) now uuid (Some u) (user_email u) r raw (sw_limits w, sw_db w) = (q, lm, d)"
    by (cases "enqueue cfg (we_parse_addr we) (we_sign we) now uuid (Some u) (user_email u) r raw (sw_limits w, sw_db w)")
  with Cons.prems n obtain m where q: "q = Inr m"
    and rest: "web_queue we cfg now u (user_email u) raw rs (w\<lparr>sw_disk := dk, sw_limits := lm, sw_db := d\<rparr>) = (None, w')"
    by (auto simp: Let_def split: sum.splits)
  from enqueue_cases [OF e] q obtain s2 where d: "d = insert_outbound m s2" "tables s2 = tables (sw_db w)"
    and m: "o_status m = Pending" "o_user_id m = u_id u" "o_from_addr m = user_email u"
      "we_parse_addr we (trim_space r) = Some (o_to_addr m)"
    by (auto simp: user_id_or_zero_def)
  have "queued_copy we u raw r m" using m enqueue_raw [OF e [unfolded q]] by (simp add: queued_copy_def)
  moreover from Cons.IH [OF rest] obtain rows where
    "db_outbound (sw_db w') = db_outbound d @ rows" "db_messages (sw_db w') = db_messages d"
    "list_all2 (queued_copy we u raw) rs rows" by auto
  ultimately show ?case using tables_eqD(3,4) [OF d(2)]
    by (intro exI [of _ "m # rows"]) (simp add: d(1) insert_outbound_def)
qed simp


lemma compose_error_status: "rs_status (fst (compose_error st we cx u msg fm w)) = st"
  by (simp add: compose_error_def compose_page_def page_def plain_response_def split_beta)

lemma store_sent_delivers:
  assumes "store_sent we now cx u fm atts mid raw us w = (resp, w')" and "rs_status resp = 302"
  shows "\<exists>copies sent. db_messages (sw_db w') = db_messages (sw_db w) @ copies @ [sent] \<and>
     db_outbound (sw_db w') = db_outbound (sw_db w) \<and>
     list_all2 (\<lambda>v m. is_copy (u_id v) ''INBOX'' mid (user_email u) raw now fm False m) us copies \<and>
     is_copy (cx_user_id cx) ''Sent'' mid (user_email u) raw now fm True sent"
proof -
  let ?row = "composed_row (cx_user_id cx) ''Sent'' mid (user_email u) raw now fm True"
  have err: "rs_status (fst (compose_error 500 we cx u msg fm w1)) \<noteq> 302" for msg w1 by (simp add: compose_error_status)
  obtain w1 where d: "web_deliver we now mid (user_email u) raw fm us w = (None, w1)"
    using assms err by (auto simp: store_sent_def split: prod.splits option.splits) (metis fst_conv)+
  then obtain m w2 where c: "web_db (mails_create now ?row) w1 = (Inr m, w2)"
    and w': "w' = save_uploads we (cx_user_id cx) (m_id m) atts w2"
    using assms err by (auto simp: store_sent_def split: prod.splits sum.splits) (metis fst_conv)+
  from c have m: "m = new_message now ?row (sw_db w1)" and s: "sw_db w2 = insert_message m (tick (sw_db w1))"
    by (auto simp: web_db_def mails_create_Inr split: prod.splits)
  have "is_copy (cx_user_id cx) ''Sent'' mid (user_email u) raw now fm True m"
    unfolding m is_copy_def by (simp add: new_message_def composed_row_def)
  with web_deliver_copies [OF d] show ?thesis
    by (auto simp: w' save_uploads_rows s insert_message_def)
qed

lemma send_message_delivers:
  assumes "send_message we now cx u fm atts w = (resp, w')" and "rs_status resp = 302"
  shows "\<exists>mid raw us ext copies sent rows dk.
     fst (build_outgoing_message (we_fmt_date we now) (user_email u) (fm_to fm) (fm_cc fm) (fm_subject fm) (fm_body fm)
            (fm_html fm) atts dk) = (mid, raw) \<and>
     routed (sw_db w) (parse_address_input (fm_to fm) @ parse_address_input (fm_cc fm)) us ext \<and>
     db_messages (sw_db w') = db_messages (sw_db w) @ copies @ [sent] \<and>
     list_all2 (\<lambda>v m. is_copy (u_id v) ''INBOX'' mid (user_email u) raw now fm False m) us copies \<and>
     is_copy (cx_user_id cx) ''Sent'' mid (user_email u) raw now fm True sent \<and>
     db_outbound (sw_db w') = db_outbound (sw_db w) @ rows \<and> list_all2 (queued_copy we u raw) ext rows"
proof -
  have bad: "compose_error 400 we cx u msg fm wx \<noteq> (resp, w')" for msg wx
    using compose_error_status [of 400 we cx u msg fm wx] assms(2) by auto
  obtain mid raw dk where b: "build_outgoing_message (we_fmt_date we now) (user_email u) (fm_to fm) (fm_cc fm)
      (fm_subject fm) (fm_body fm) (fm_html fm) atts (sw_disk w) = ((mid, raw), dk)" by (metis prod.collapse)
  obtain us ext w1 where sp: "split_recipients (parse_address_input (fm_to fm) @ parse_address_input (fm_cc fm)) (w\<lparr>sw_disk := dk\<rparr>)
      = (us, ext, w1)" by (metis prod.collapse)
  from split_recipients_routed [OF sp] have r: "routed (sw_db w) (parse_address_input (fm_to fm) @ parse_address_input (fm_cc fm)) us ext"
    and t: "tables (sw_db w1) = tables (sw_db w)" by auto
  have "\<exists>w2 rows. store_sent we now cx u fm atts mid raw us w2 = (resp, w') \<and> db_messages (sw_db w2) = db_messages (sw_db w1) \<and>
      db_outbound (sw_db w2) = db_outbound (sw_db w1) @ rows \<and> list_all2 (queued_copy we u raw) ext rows"
  proof (cases "ext = []")
    case True
    with assms(1) b sp show ?thesis by (intro exI [of _ w1] exI [of _ "[]"]) (simp add: send_message_def)
  next
    case False
    with assms(1) bad obtain cfg where cfg: "we_outbound we = Some cfg"
      using b sp by (cases "we_outbound we") (simp_all add: send_message_def)
    obtain q w2 where q: "web_queue we cfg now u (user_email u) raw ext w1 = (q, w2)" by (metis prod.collapse)
    note run = assms(1) [unfolded send_message_def b sp q prod.case Let_def cfg option.case if_not_P [OF False]]
    from run bad have q': "q = None" by (cases q) (simp_all add: q split: if_splits prod.splits)
    from run bad have "store_sent we now cx u fm atts mid raw us w2 = (resp, w')" by (simp add: q q' split: if_splits)
    with q'
      web_queue_rows [of we cfg now u raw ext w1 w2] q show ?thesis by auto
  qed
  then obtain w2 rows where ss: "store_sent we now cx u fm atts mid raw us w2 = (resp, w')"
    and w2: "db_messages (sw_db w2) = db_messages (sw_db w1)" "db_outbound (sw_db w2) = db_outbound (sw_db w1) @ rows"
      "list_all2 (queued_copy we u raw) ext rows" by blast
  from store_sent_delivers [OF ss assms(2)] obtain copies sent where
    "db_messages (sw_db w') = db_messages (sw_db w2) @ copies @ [sent]" "db_outbound (sw_db w') = db_outbound (sw_db w2)"
    "list_all2 (\<lambda>v m. is_copy (u_id v) ''INBOX'' mid (user_email u) raw now fm False m) us copies"
    "is_copy (cx_user_id cx) ''Sent'' mid (user_email u) raw now fm True sent" by blast
  with r w2 tables_eqD(3,4) [OF t] b show ?thesis
    by (intro exI [of _ mid] exI [of _ raw] exI [of _ us] exI [of _ ext] exI [of _ copies] exI [of _ sent] exI [of _ rows]
        exI [of _ "sw_disk w"]) simp
qed


lemma used_bytes_frame:
  "db_messages (snd (users_update_used_bytes i n s)) = db_messages s \<and> db_outbound (snd (users_update_used_bytes i n s)) = db_outbound s \<and>
   db_attachments (snd (users_update_used_bytes i n s)) = db_attachments s \<and>
   address_book (snd (users_update_used_bytes i n s)) = address_book s"
  by (simp add: users_update_used_bytes_def db_exec_def db_stmt_def upd_users_def address_book_def)

lemma reserve_frame:
  assumes "users_try_reserve_quota i n s = (r, s')"
  shows "db_messages s' = db_messages s \<and> db_outbound s' = db_outbound s \<and> db_attachments s' = db_attachments s \<and>
    address_book s' = address_book s"
  using assms
  by (auto simp: users_try_reserve_quota_def db_stmt_def upd_users_def address_book_def Let_def split: if_splits)

lemma read_uploads_frame:
  assumes "read_uploads uid fs w = (atts, w')"
  shows "db_messages (sw_db w') = db_messages (sw_db w) \<and> db_outbound (sw_db w') = db_outbound (sw_db w) \<and>
    db_attachments (sw_db w') = db_attachments (sw_db w) \<and> address_book (sw_db w') = address_book (sw_db w) \<and> sw_disk w' = sw_disk w"
  using assms
proof (induction fs arbitrary: w atts w')
  case (Cons f fs)
  show ?case
  proof (cases "uf_content f")
    case None
    with Cons.IH [OF Cons.prems [unfolded read_uploads.simps None option.case]] used_bytes_frame show ?thesis
      by (simp add: web_db_eq)
  next
    case (Some data)
    with Cons show ?thesis by (auto split: prod.splits)
  qed
qed simp

text \<open>C9: a mail that the web page reports as sent has gone to everyone. Whatever failures there were on the way,
  if the answer leads to the sent folder, then every address of the two fields is either an account, which
  has one new unread copy in its inbox, or has one new pending entry in the queue under its
  parsed address (signed or not), the sender has a read copy in \<open>Sent\<close>, all of them with the one
  message that was built from the form, and no other message is touched.\<close>

theorem web_send_delivers:
  assumes "web_send we now cx u w = (resp, w')" and "rs_status resp = 302"
  shows "let fm = read_form (cx_req cx) in \<exists>mid raw us ext copies sent rows atts dk.
     fst (build_outgoing_message (we_fmt_date we now) (user_email u) (fm_to fm) (fm_cc fm) (fm_subject fm) (fm_body fm)
            (fm_html fm) atts dk) = (mid, raw) \<and>
     routed (sw_db w) (parse_address_input (fm_to fm) @ parse_address_input (fm_cc fm)) us ext \<and>
     db_messages (sw_db w') = db_messages (sw_db w) @ copies @ [sent] \<and>
     list_all2 (\<lambda>v m. is_copy (u_id v) ''INBOX'' mid (user_email u) raw now fm False m) us copies \<and>
     is_copy (cx_user_id cx) ''Sent'' mid (user_email u) raw now fm True sent \<and>
     db_outbound (sw_db w') = db_outbound (sw_db w) @ rows \<and> list_all2 (queued_copy we u raw) ext rows"
proof -
  let ?fm = "read_form (cx_req cx)"
  let ?files = "case rq_files (cx_req cx) of None \<Rightarrow> [] | Some fs \<Rightarrow> fs"
  have bad: "compose_error st we cx u msg fm wx \<noteq> (resp, w')" if "st \<noteq> 302" for st msg fm wx
    using compose_error_status [of st we cx u msg fm wx] assms(2) that by auto
  have over: "over_quota we cx u fm wx \<noteq> (resp, w')" for fm wx
    using assms(2) by (auto simp: over_quota_def compose_page_def page_def plain_response_def split_beta Let_def)
  have "\<exists>atts w1. send_message we now cx u ?fm atts w1 = (resp, w') \<and> db_messages (sw_db w1) = db_messages (sw_db w) \<and>
      db_outbound (sw_db w1) = db_outbound (sw_db w) \<and> address_book (sw_db w1) = address_book (sw_db w)"
  proof (cases "fm_to ?fm = [] \<or> ?files = []")
    case True
    with assms(1) bad [of 400] show ?thesis
      by (intro exI [of _ "[]"] exI [of _ w]) (auto simp: web_send_def Let_def split: if_splits)
  next
    case False
    obtain q d where q: "users_try_reserve_quota (cx_user_id cx) (sum_list (map uf_size ?files)) (sw_db w) = (q, d)"
      by (metis prod.collapse)
    obtain atts w2 where r: "read_uploads (cx_user_id cx) ?files (w\<lparr>sw_db := d\<rparr>) = (atts, w2)" by (metis prod.collapse)
    from assms(1) False bad [of 500] over q r have "send_message we now cx u ?fm atts w2 = (resp, w')"
      by (simp add: web_send_def web_db_def Let_def split: sum.splits bool.splits)
    with reserve_frame [OF q] read_uploads_frame [OF r] show ?thesis by auto
  qed
  then obtain atts w1 where sm: "send_message we now cx u ?fm atts w1 = (resp, w')" and f: "db_messages (sw_db w1) = db_messages (sw_db w)"
    "db_outbound (sw_db w1) = db_outbound (sw_db w)" "address_book (sw_db w1) = address_book (sw_db w)" by blast
  show ?thesis using send_message_delivers [OF sm assms(2)] unfolding f(1,2) routed_cong [OF f(3)] Let_def by blast
qed


section \<open>A message that is refused\<close>

definition kept :: "web_world \<Rightarrow> web_world \<Rightarrow> bool" where
  "kept w w' \<longleftrightarrow> db_messages (sw_db w') = db_messages (sw_db w) \<and> db_attachments (sw_db w') = db_attachments (sw_db w) \<and>
     disk_files (sw_disk w') = disk_files (sw_disk w)"

interpretation keptc: guarantee kept
  by unfold_locales (auto simp: kept_def)

definition mail_kept :: "db \<Rightarrow> db \<Rightarrow> bool" where
  "mail_kept s t \<longleftrightarrow> db_messages t = db_messages s \<and> db_attachments t = db_attachments s"

interpretation keptd: guarantee mail_kept
  by unfold_locales (auto simp: mail_kept_def)

lemma mail_kept_tables: "tables t = tables s \<Longrightarrow> mail_kept s t"
  unfolding mail_kept_def using tables_eqD(3,7) [of t s] by simp

lemma kept_web_db: "mail_kept (sw_db w) (snd (f (sw_db w))) \<Longrightarrow> kept w (snd (web_db f w))"
  by (simp add: kept_def mail_kept_def web_db_eq)

lemma kept_ensure_loop: "mail_kept s (snd (ensure_loop uid have ds s))"
proof (induction ds arbitrary: s)
  case (Cons d ds)
  have "mail_kept s (snd (mailboxes_create mb s))" for mb s
    by (auto simp: mail_kept_def mailboxes_create_def db_stmt_def insert_mailbox_def Let_def)
  with Cons show ?case unfolding ensure_loop.simps by (intro keptd.steps)
qed (simp add: mail_kept_def)

lemma kept_query: "mail_kept s (snd (db_query f s))"
  by (simp add: mail_kept_tables)

lemma kept_svc_list: "mail_kept s (snd (svc_list uid s))"
proof -
  have "mail_kept s (snd (mailboxes_ensure_system uid s))" for s
    unfolding mailboxes_ensure_system_def by (intro keptd.steps kept_query kept_ensure_loop)
  moreover have "mail_kept s (snd (folder_infos v mbs s))" for v mbs s by (simp add: mail_kept_tables folder_infos_tables)
  ultimately show ?thesis unfolding svc_list_def svc_list_all_def mailboxes_list_def Let_def
    by (intro keptd.steps kept_query)
qed

lemma kept_folders_for: "kept w (snd (folders_for uid w))"
  unfolding folders_for_def by (intro keptc.steps kept_web_db kept_svc_list)

lemma kept_compose_page: "kept w (snd (compose_page st we cx u msg fm a b w))"
  unfolding compose_page_def Let_def by (intro keptc.steps kept_folders_for)

lemma kept_compose_error: "kept w (snd (compose_error st we cx u msg fm w))"
  unfolding compose_error_def by (rule kept_compose_page)

lemma kept_over_quota: "kept w (snd (over_quota we cx u fm w))"
  unfolding over_quota_def Let_def
  by (intro keptc.steps kept_web_db mail_kept_tables users_get_by_id_tables kept_compose_page)

lemma kept_web_queue: "web_queue we cfg now u from raw rs w = (r, w') \<Longrightarrow> kept w w'"
proof (induction rs arbitrary: w)
  case (Cons x rs)
  obtain uuid dk where n: "next_uuid (sw_disk w) = (uuid, dk)" by (cases "next_uuid (sw_disk w)")
  obtain q lm d where e: "enqueue cfg (we_parse_addr we) (we_sign we) now uuid (Some u) from x raw (sw_limits w, sw_db w) = (q, lm, d)"
    by (metis prod.collapse)
  let ?w1 = "w\<lparr>sw_disk := dk, sw_limits := lm, sw_db := d\<rparr>"
  have "disk_files dk = disk_files (sw_disk w)" using n by (auto simp: next_uuid_def split: list.splits)
  moreover have "mail_kept (sw_db w) d"
    using enqueue_cases [OF e]
  proof (elim disjE exE conjE)
    fix m s2 assume "tables s2 = tables (sw_db w)" "d = insert_outbound m s2"
    then show ?thesis using mail_kept_tables [of s2 "sw_db w"] by (simp add: mail_kept_def insert_outbound_def)
  qed (rule mail_kept_tables)
  ultimately have k: "kept w ?w1" by (simp add: kept_def mail_kept_def)
  have "w' = ?w1 \<or> web_queue we cfg now u from raw rs ?w1 = (r, w')" using Cons.prems n e by (auto split: sum.splits)
  with Cons.IH k keptc.R_trans show ?case by blast
qed (simp add: kept_def)

lemma build_files:
  assumes "build_outgoing_message fd f t c s b h as dk = (x, dk')"
  shows "disk_files dk' = disk_files dk"
  using assms by (auto simp: build_outgoing_message_def next_uuid_def Let_def split: prod.splits list.splits if_splits)

lemma store_sent_status:
  assumes "store_sent we now cx u fm atts mid raw us w = (resp, w')"
  shows "rs_status resp \<noteq> 400"
proof
  assume "rs_status resp = 400"
  then have bad: "compose_error 500 we cx u msg fm wx \<noteq> (resp, w')" for msg wx
    using compose_error_status [of 500 we cx u msg fm wx] by auto
  obtain r w1 where d: "web_deliver we now mid (user_email u) raw fm us w = (r, w1)" by (metis prod.collapse)
  obtain q w2 where c: "web_db (mails_create now (composed_row (cx_user_id cx) ''Sent'' mid (user_email u) raw now fm True)) w1 = (q, w2)"
    by (metis prod.collapse)
  show False
    using assms bad \<open>rs_status resp = 400\<close>
    by (cases r; cases q) (auto simp: store_sent_def d c redirect_def plain_response_def)
qed

lemma send_message_refused:
  assumes "send_message we now cx u fm atts w = (resp, w')" and "rs_status resp = 400"
  shows "kept w w'"
proof -
  obtain mid raw dk where b: "build_outgoing_message (we_fmt_date we now) (user_email u) (fm_to fm) (fm_cc fm)
      (fm_subject fm) (fm_body fm) (fm_html fm) atts (sw_disk w) = ((mid, raw), dk)" by (metis prod.collapse)
  obtain us ext w1 where sp: "split_recipients (parse_address_input (fm_to fm) @ parse_address_input (fm_cc fm)) (w\<lparr>sw_disk := dk\<rparr>)
      = (us, ext, w1)" by (metis prod.collapse)
  from split_recipients_routed [OF sp] obtain d where w1: "w1 = w\<lparr>sw_disk := dk, sw_db := d\<rparr>" "tables d = tables (sw_db w)" by auto
  then have k1: "kept w w1" using build_files [OF b] mail_kept_tables [OF w1(2)] by (simp add: kept_def mail_kept_def)
  have no: "store_sent we now cx u fm atts mid raw us wx \<noteq> (resp, w')" for wx using store_sent_status assms(2) by blast
  note err = keptc.R_trans [OF k1 kept_compose_error]
  obtain cfg where cfg: "we_outbound we = Some cfg" and ne: "ext \<noteq> []" if "\<not> kept w w'"
    using assms(1) no err [of 400 we cx u _ fm] b sp
    by (cases "we_outbound we"; cases "ext = []") (auto simp: send_message_def, metis snd_conv)
  show ?thesis
  proof (rule ccontr)
    assume nk: "\<not> kept w w'"
    obtain q w2 where q: "web_queue we cfg now u (user_email u) raw ext w1 = (q, w2)" by (metis prod.collapse)
    have bad: "compose_error 400 we cx u msg fm wx \<noteq> (resp, w')" if "kept w wx" for msg wx
      using keptc.R_trans [OF that kept_compose_error [of wx 400 we cx u msg fm]] nk by auto
    note k2 = keptc.R_trans [OF k1 kept_web_queue [OF q]]
    note run = assms(1) [unfolded send_message_def b sp q prod.case Let_def cfg [OF nk] option.case if_not_P [OF ne [OF nk]]]
    from run bad [OF k1] bad [OF k2] no show False
      by (cases q) (auto simp: q split: if_splits prod.splits)
  qed
qed

text \<open>A mail that is refused is not half delivered. If the answer is that the mail cannot be sent (no
  recipient, over the quota, no outbound service, too many recipients, an address that is not accepted, a
  limit that is reached), then no copy, no attachment record and no file has been stored.\<close>

theorem refused_send_stores_nothing:
  assumes "web_send we now cx u w = (resp, w')" and "rs_status resp = 400"
  shows "db_messages (sw_db w') = db_messages (sw_db w) \<and> db_attachments (sw_db w') = db_attachments (sw_db w) \<and>
    disk_files (sw_disk w') = disk_files (sw_disk w)"
proof -
  let ?fm = "read_form (cx_req cx)"
  let ?files = "case rq_files (cx_req cx) of None \<Rightarrow> [] | Some fs \<Rightarrow> fs"
  obtain q d where q: "users_try_reserve_quota (cx_user_id cx) (sum_list (map uf_size ?files)) (sw_db w) = (q, d)"
    by (metis prod.collapse)
  obtain atts w2 where r: "read_uploads (cx_user_id cx) ?files (w\<lparr>sw_db := d\<rparr>) = (atts, w2)" by (metis prod.collapse)
  have k1: "kept w (w\<lparr>sw_db := d\<rparr>)" using reserve_frame [OF q] by (simp add: kept_def)
  have k2: "kept w w2" using reserve_frame [OF q] read_uploads_frame [OF r] by (simp add: kept_def)
  have "kept w w'"
  proof (cases "fm_to ?fm = [] \<or> ?files = []")
    case True
    with assms(1) consider "compose_error 400 we cx u (tr we cx k_no_recipient) ?fm w = (resp, w')"
      | "send_message we now cx u ?fm [] w = (resp, w')"
      by (auto simp: web_send_def Let_def split: if_splits)
    then show ?thesis using send_message_refused assms(2) kept_compose_error by cases (metis snd_conv, blast)
  next
    case False
    with assms(1) q r consider "compose_error 500 we cx u (tr we cx k_quota_check_failed) ?fm (w\<lparr>sw_db := d\<rparr>) = (resp, w')"
      | "over_quota we cx u ?fm (w\<lparr>sw_db := d\<rparr>) = (resp, w')" | "send_message we now cx u ?fm atts w2 = (resp, w')"
      by (auto simp: web_send_def web_db_def Let_def split: sum.splits bool.splits)
    then show ?thesis
    proof cases
      case 1 then show ?thesis using keptc.R_trans [OF k1 kept_compose_error] by (metis snd_conv)
    next
      case 2 then show ?thesis using keptc.R_trans [OF k1 kept_over_quota] by (metis snd_conv)
    next
      case 3 show ?thesis by (rule keptc.R_trans [OF k2 send_message_refused [OF 3 assms(2)]])
    qed
  qed
  then show ?thesis by (simp add: kept_def)
qed


section \<open>A message that is purged\<close>

definition charge :: "nat \<Rightarrow> int \<Rightarrow> user \<Rightarrow> user" where
  "charge uid n u = (if u_id u = uid then u\<lparr>u_used_bytes := u_used_bytes u - n\<rparr> else u)"

lemma charge_twice: "charge uid m (charge uid n u) = charge uid (n + m) u"
  by (simp add: charge_def)

lemma charge_zero: "charge uid 0 = id"
  by (auto simp: charge_def fun_eq_iff)

definition stored_at :: "web_env \<Rightarrow> attachment list \<Rightarrow> string set" where
  "stored_at we as = {p. \<exists>a \<in> set as. full_path (we_base_dir we) (a_file_path a) = Inr p}"

definition without_files :: "string set \<Rightarrow> disk \<Rightarrow> disk" where
  "without_files P d = d\<lparr>disk_files := (\<lambda>p. if p \<in> P then None else disk_files d p)\<rparr>"

lemma without_files_faults [simp]: "disk_faults (without_files P d) = disk_faults d"
  by (simp add: without_files_def)

lemma purge_files_ok:
  assumes "db_faults (sw_db w) = []" and "disk_faults (sw_disk w) = []"
  shows "purge_files we uid as w = w\<lparr>sw_db := (sw_db w)\<lparr>db_users := map (charge uid (sum_list (map a_file_size as))) (db_users (sw_db w))\<rparr>,
     sw_disk := without_files (stored_at we as) (sw_disk w)\<rparr>"
  using assms
proof (induction as arbitrary: w)
  case Nil
  then show ?case by (simp add: charge_zero without_files_def stored_at_def)
next
  case (Cons a as)
  have d: "snd (storage_delete (we_base_dir we) (a_file_path a) (sw_disk w)) = without_files (stored_at we [a]) (sw_disk w)"
    using Cons.prems(2)
    by (auto simp: storage_delete_def disk_fails_def without_files_def stored_at_def fun_eq_iff split: sum.splits)
  have u: "snd (users_update_used_bytes uid (- a_file_size a) (sw_db w)) =
      (sw_db w)\<lparr>db_users := map (charge uid (a_file_size a)) (db_users (sw_db w))\<rparr>"
    using Cons.prems(1) by (simp add: users_update_used_bytes_def db_exec_ok upd_users_def charge_def)
  have f: "without_files P (without_files Q dk) = without_files (Q \<union> P) dk" for P Q dk
    by (auto simp: without_files_def fun_eq_iff)
  have s: "stored_at we [a] \<union> stored_at we as = stored_at we (a # as)" by (auto simp: stored_at_def)
  let ?w1 = "w\<lparr>sw_disk := without_files (stored_at we [a]) (sw_disk w),
      sw_db := (sw_db w)\<lparr>db_users := map (charge uid (a_file_size a)) (db_users (sw_db w))\<rparr>\<rparr>"
  have "purge_files we uid (a # as) w = purge_files we uid as ?w1"
    using d u by (simp add: web_db_eq split_beta Let_def)
  also have "\<dots> = w\<lparr>sw_db := (sw_db w)\<lparr>db_users := map (charge uid (sum_list (map a_file_size (a # as)))) (db_users (sw_db w))\<rparr>,
     sw_disk := without_files (stored_at we (a # as)) (sw_disk w)\<rparr>"
    using Cons.IH [of ?w1] Cons.prems by (simp add: f s charge_twice comp_def)
  finally show ?case .
qed

text \<open>C40: purging a message gives everything back. If no statement and no file operation fails, a user's purge of
  one of their messages removes that row and no other, the rows and files of its attachments and no others,
  and lowers the used bytes of that user, and of nobody else, by exactly their sizes.\<close>

theorem purge_frees_everything:
  assumes "web_purge we cx id_param w = (resp, w')" and "parse_uint id_param = Some i"
    and "find (\<lambda>m. m_id m = i) (db_messages (sw_db w)) = Some m" and "m_user_id m = cx_user_id cx"
    and "db_faults (sw_db w) = []" and "disk_faults (sw_disk w) = []"
  shows "let as = filter (\<lambda>a. a_message_id a = i) (db_attachments (sw_db w)) in
     db_messages (sw_db w') = filter (\<lambda>x. m_id x \<noteq> i) (db_messages (sw_db w)) \<and>
     db_attachments (sw_db w') = filter (\<lambda>a. a_message_id a \<noteq> i) (db_attachments (sw_db w)) \<and>
     db_users (sw_db w') = map (charge (cx_user_id cx) (sum_list (map a_file_size as))) (db_users (sw_db w)) \<and>
     disk_files (sw_disk w') = (\<lambda>p. if p \<in> stored_at we as then None else disk_files (sw_disk w) p)"
proof -
  let ?as = "filter (\<lambda>a. a_message_id a = i) (db_attachments (sw_db w))"
  let ?uid = "cx_user_id cx"
  have mi: "m_id m = i" using find_Some_iff [OF assms(3)] by simp
  have sq: "snd (seq_of_folder v f i w) = w" for v f
    using assms(5) by (simp add: seq_of_folder_def mails_list_all_def web_db_eq db_query_ok split: option.splits)
  have pf: "sw_db (push_for we cx es wx) = sw_db wx \<and> sw_disk (push_for we cx es wx) = sw_disk wx" for es wx
  proof -
    have "sw_db (fold (web_push we) xs wx) = sw_db wx \<and> sw_disk (fold (web_push we) xs wx) = sw_disk wx" for xs wx
      by (induction xs arbitrary: wx) simp_all
    then show ?thesis by (simp add: push_for_def)
  qed
  let ?w1 = "purge_attachments we ?uid [m] w"
  have w1: "?w1 = w\<lparr>sw_db := (sw_db w)\<lparr>db_users := map (charge ?uid (sum_list (map a_file_size ?as))) (db_users (sw_db w)),
        db_attachments := filter (\<lambda>a. a_message_id a \<noteq> i) (db_attachments (sw_db w))\<rparr>,
      sw_disk := without_files (stored_at we ?as) (sw_disk w)\<rparr>"
    using assms(5,6) mi
    by (simp add: web_db_eq attachments_list_by_message_def attachments_delete_by_message_def db_query_ok db_exec_ok purge_files_ok split_beta Let_def)
  have "sw_db w' = snd (mails_delete_many [i] (sw_db ?w1)) \<and> sw_disk w' = sw_disk ?w1"
    using assms(1-5) sq pf mi
    by (auto simp: web_purge_def own_message_def purge_one_def purge_messages_def mails_get_by_id_def db_first_ok web_db_eq split_beta Let_def
        simp del: purge_attachments.simps)
  then show ?thesis using assms(5)
    unfolding w1 by (simp add: mails_delete_many_def db_exec_ok del_messages_def without_files_def)
qed

section \<open>Examples\<close>

definition sample_ctx :: "(string \<times> string) list \<Rightarrow> uploaded_file list option \<Rightarrow> ctx" where
  "sample_ctx form files =
     \<lparr>cx_req = (sample_request ''/compose'' [] form)\<lparr>rq_files := files\<rparr>, cx_lang = None,
      cx_user = Some ((sample_user 1 ''ann'' 1)\<lparr>u_domain := sample_domain 1 ''x.org''\<rparr>), cx_user_id = 1, cx_session = []\<rparr>"

abbreviation sample_sender :: user where
  "sample_sender \<equiv> (sample_user 1 ''ann'' 1)\<lparr>u_domain := sample_domain 1 ''x.org''\<rparr>"

lemma sample_lookup:
  "users_get_by_email ''bob@x.org'' sample_accounts = (Inr ((sample_user 2 ''bob'' 1)\<lparr>u_domain := sample_domain 1 ''x.org''\<rparr>), sample_accounts)"
  "users_get_by_email ''eve@y.org'' sample_accounts = (Inl ErrRecordNotFound, sample_accounts)"
proof -
  have n: "split_n2 CHR ''@'' ''bob@x.org'' = [''bob'', ''x.org'']" "split_n2 CHR ''@'' ''eve@y.org'' = [''eve'', ''y.org'']"
    by code_simp+
  have f: "db_faults sample_accounts = []" by (simp add: sample_accounts_def empty_db_def)
  have p: "preload_domain u sample_accounts = (Inr (if u_domain_id u = 0 then u\<lparr>u_domain := zero_domain\<rparr> else with_domain sample_accounts u), sample_accounts)" for u
    by (simp add: preload_domain_def preload_domains_def db_query_ok f)
  have r: "find (\<lambda>u. u_username u = ''bob'' \<and> in_domain sample_accounts ''x.org'' u) (db_users sample_accounts) = Some (sample_user 2 ''bob'' 1)"
    "find (\<lambda>u. u_username u = ''eve'' \<and> in_domain sample_accounts ''y.org'' u) (db_users sample_accounts) = None"
    by (simp_all add: sample_accounts_def in_domain_def sample_user_def sample_domain_def)
  have "with_domain sample_accounts (sample_user 2 ''bob'' 1) = (sample_user 2 ''bob'' 1)\<lparr>u_domain := sample_domain 1 ''x.org''\<rparr>"
    "u_domain_id (sample_user 2 ''bob'' 1) \<noteq> 0"
    by (simp_all add: with_domain_def domain_of_def sample_accounts_def sample_user_def sample_domain_def)
  then show "users_get_by_email ''bob@x.org'' sample_accounts = (Inr ((sample_user 2 ''bob'' 1)\<lparr>u_domain := sample_domain 1 ''x.org''\<rparr>), sample_accounts)"
    "users_get_by_email ''eve@y.org'' sample_accounts = (Inl ErrRecordNotFound, sample_accounts)"
    using f by (simp_all add: users_get_by_email_def n db_first_ok p r del: One_nat_def)
qed

lemma sample_addresses:
  "parse_address_input ''bob@x.org'' = [''bob@x.org'']" "parse_address_input ''eve@y.org'' = [''eve@y.org'']"
  "parse_address_input [] = []"
proof -
  have "trim_space ''bob@x.org'' = ''bob@x.org''" "trim_space ''eve@y.org'' = ''eve@y.org''"
    by (rule trim_space_graph; simp add: ascii_graph_def)+
  then show "parse_address_input ''bob@x.org'' = [''bob@x.org'']" "parse_address_input ''eve@y.org'' = [''eve@y.org'']"
    "parse_address_input [] = []"
    by (simp_all add: parse_address_input_def address_separator_def)
qed

abbreviation sample_sending :: "string \<Rightarrow> response \<times> web_world" where
  "sample_sending to \<equiv> web_send sample_env 7 (sample_ctx [(''to'', to)] None) sample_sender (sample_site sample_accounts)"

lemma sample_form: "read_form (cx_req (sample_ctx [(''to'', to)] None)) = \<lparr>fm_to = to, fm_subject = [], fm_body = [], fm_html = [], fm_cc = []\<rparr>"
  by (simp add: read_form_def sample_ctx_def sample_request_def field_value_def)

lemma sample_ctx_simps:
  "rq_files (cx_req (sample_ctx form files)) = files" "cx_user_id (sample_ctx form files) = 1"
  "sw_db (sample_site d) = d" "sw_disk (sample_site d) = sample_disk"
  by (simp_all add: sample_ctx_def sample_site_def)

lemma web_send_delivers_witness:
  "\<exists>sent. sent \<in> set (db_messages (sw_db (snd (sample_sending ''bob@x.org'')))) \<and> m_folder sent = ''Sent''"
proof -
  have f: "db_faults sample_accounts = []" by (simp add: sample_accounts_def empty_db_def)
  obtain mid raw dk where b: "build_outgoing_message (we_fmt_date sample_env 7) (user_email sample_sender) ''bob@x.org'' [] [] [] [] [] sample_disk
      = ((mid, raw), dk)" by (metis prod.collapse)
  have "rs_status (fst (sample_sending ''bob@x.org'')) = 302"
    by (simp add: web_send_def sample_form sample_ctx_simps send_message_def b sample_addresses web_db_def sample_lookup
        store_sent_def mails_create_ok f insert_message_def redirect_def plain_response_def Let_def del: One_nat_def)
  from web_send_delivers [OF prod.collapse [symmetric] this, unfolded Let_def]
  obtain mid' raw' copies sent fm where
    m: "db_messages (sw_db (snd (sample_sending ''bob@x.org''))) = db_messages (sw_db (sample_site sample_accounts)) @ copies @ [sent]"
    and c: "is_copy (cx_user_id (sample_ctx [(''to'', ''bob@x.org'')] None)) ''Sent'' mid' (user_email sample_sender) raw' 7 fm True sent"
    by blast
  from arg_cong [OF c [unfolded is_copy_def], of m_folder] have "m_folder sent = ''Sent''" by (simp add: composed_row_def)
  with m show ?thesis by auto
qed

lemma refused_send_stores_nothing_witness:
  "db_messages (sw_db (snd (sample_sending ''eve@y.org''))) = db_messages (sw_db (sample_site sample_accounts))"
proof -
  obtain mid raw dk where b: "build_outgoing_message (we_fmt_date sample_env 7) (user_email sample_sender) ''eve@y.org'' [] [] [] [] [] sample_disk
      = ((mid, raw), dk)" by (metis prod.collapse)
  have "we_outbound sample_env = None" by (simp add: sample_env_def)
  then have "rs_status (fst (sample_sending ''eve@y.org'')) = 400"
    by (simp add: web_send_def sample_form sample_ctx_simps send_message_def b sample_addresses web_db_def sample_lookup
        compose_error_status Let_def del: One_nat_def)
  from refused_send_stores_nothing [OF prod.collapse [symmetric] this] show ?thesis by simp
qed

definition sample_mailbox_db :: db where
  "sample_mailbox_db = sample_accounts\<lparr>
     db_messages := [(bare_message 1 ''INBOX'')\<lparr>m_id := 5\<rparr>, (bare_message 2 ''INBOX'')\<lparr>m_id := 6\<rparr>],
     db_attachments := [\<lparr>a_id = 1, a_message_id = 5, a_file_name = ''f'', a_file_path = ''f'', a_content_type = [], a_file_size = 3\<rparr>]\<rparr>"

lemma purge_frees_everything_witness:
  "map m_id (db_messages (sw_db (snd (web_purge sample_env (sample_ctx [] None) (show_nat 5) (sample_site sample_mailbox_db))))) = [6]"
proof -
  let ?w = "sample_site sample_mailbox_db"
  have p: "parse_uint (show_nat 5) = Some 5" by (rule parse_uint_show) simp
  have f: "find (\<lambda>m. m_id m = 5) (db_messages (sw_db ?w)) = Some ((bare_message 1 ''INBOX'')\<lparr>m_id := 5\<rparr>)"
    by (simp add: sample_site_def sample_mailbox_db_def)
  have o': "m_user_id ((bare_message 1 ''INBOX'')\<lparr>m_id := 5\<rparr>) = cx_user_id (sample_ctx [] None)"
    by (simp add: bare_message_def sample_ctx_def)
  have n: "db_faults (sw_db ?w) = []" "disk_faults (sw_disk ?w) = []"
    by (simp_all add: sample_site_def sample_mailbox_db_def sample_accounts_def empty_db_def sample_disk_def)
  from purge_frees_everything [OF prod.collapse [symmetric] p f o' n, of sample_env] show ?thesis
    by (simp add: sample_site_def sample_mailbox_db_def Let_def)
qed

end
