(* ===== verification/Tls_Loader.thy ===== *)
theory Tls_Loader
  imports Account_Store
begin

text \<open>
  The certificates of the TLS listeners: the loader of \<open>internal/tlsutil/tlsutil.go\<close>, which looks for a
  newer certificate in every handshake, and the choice of the paths it looks at (\<open>tlsSource\<close> and
  \<open>newTLSCertLoader\<close> of \<open>main.go\<close>). A handshake carries the clock and what the disk showed to each of the
  calls that read it, so that a file may be replaced between any two of them. Whether two files are a
  valid pair is the parameter \<open>pair_ok\<close> (\<open>tls.X509KeyPair\<close>). Locks make the handshakes one after the other.
\<close>

section \<open>The loader\<close>

record disk_view =
  dv_file :: "string \<Rightarrow> string option"    \<comment> \<open>the contents, if the file can be read\<close>
  dv_mtime :: "string \<Rightarrow> gotime option"   \<comment> \<open>\<open>os.Stat\<close>\<close>

type_synonym key_pair = "string \<times> string"

record tls_loader =
  tl_cert_path :: string
  tl_key_path :: string
  tl_cert :: "key_pair option"
  tl_cert_mod :: gotime
  tl_key_mod :: gotime
  tl_last_try :: gotime

record handshake =
  hs_now :: gotime
  hs_seen :: disk_view       \<comment> \<open>the \<open>Stat\<close> calls of \<open>filesChanged\<close>\<close>
  hs_read_cert :: disk_view  \<comment> \<open>\<open>LoadX509KeyPair\<close> reads the certificate, then the key\<close>
  hs_read_key :: disk_view
  hs_stat :: disk_view       \<comment> \<open>the \<open>Stat\<close> calls of \<open>load\<close>\<close>

definition retry_interval :: duration where
  "retry_interval = 5 * second"

definition load_pair ::
  "(string \<Rightarrow> string \<Rightarrow> bool) \<Rightarrow> disk_view \<Rightarrow> disk_view \<Rightarrow> string \<Rightarrow> string \<Rightarrow> key_pair option" where
  \<comment> \<open>\<open>tls.LoadX509KeyPair\<close>\<close>
  "load_pair pair_ok dc dk cert_path key_path =
     (case (dv_file dc cert_path, dv_file dk key_path) of
        (Some c, Some k) \<Rightarrow> if pair_ok c k then Some (c, k) else None
      | _ \<Rightarrow> None)"

definition tls_load :: "(string \<Rightarrow> string \<Rightarrow> bool) \<Rightarrow> handshake \<Rightarrow> tls_loader \<Rightarrow> tls_loader option" where
  "tls_load pair_ok h l =
     (case load_pair pair_ok (hs_read_cert h) (hs_read_key h) (tl_cert_path l) (tl_key_path l) of
        None \<Rightarrow> None
      | Some p \<Rightarrow>
          Some (l\<lparr>tl_cert_mod := (case dv_mtime (hs_stat h) (tl_cert_path l) of Some t \<Rightarrow> t | None \<Rightarrow> tl_cert_mod l),
                  tl_key_mod := (case dv_mtime (hs_stat h) (tl_key_path l) of Some t \<Rightarrow> t | None \<Rightarrow> tl_key_mod l),
                  tl_cert := Some p\<rparr>))"

definition new_loader ::
  "(string \<Rightarrow> string \<Rightarrow> bool) \<Rightarrow> handshake \<Rightarrow> string \<Rightarrow> string \<Rightarrow> tls_loader option" where
  "new_loader pair_ok h cert_path key_path =
     (if cert_path = [] \<or> key_path = [] then None
      else tls_load pair_ok h
        \<lparr>tl_cert_path = cert_path, tl_key_path = key_path, tl_cert = None, tl_cert_mod = 0, tl_key_mod = 0,
         tl_last_try = 0\<rparr>)"

definition files_changed :: "disk_view \<Rightarrow> string \<Rightarrow> string \<Rightarrow> tls_loader \<Rightarrow> bool" where
  "files_changed dv cert_path key_path l =
     (case (dv_mtime dv cert_path, dv_mtime dv key_path) of
        (Some tc, Some tk) \<Rightarrow> tc \<noteq> tl_cert_mod l \<or> tk \<noteq> tl_key_mod l
      | _ \<Rightarrow> True)"

definition wants_reload :: "handshake \<Rightarrow> string \<Rightarrow> string \<Rightarrow> tls_loader \<Rightarrow> bool" where
  "wants_reload h cert_path key_path l \<longleftrightarrow>
     (cert_path \<noteq> tl_cert_path l \<or> key_path \<noteq> tl_key_path l \<or> files_changed (hs_seen h) cert_path key_path l) \<and>
     hs_now h - tl_last_try l \<ge> retry_interval"

definition reload ::
  "(string \<Rightarrow> string \<Rightarrow> bool) \<Rightarrow> handshake \<Rightarrow> string \<Rightarrow> string \<Rightarrow> tls_loader \<Rightarrow> tls_loader" where
  "reload pair_ok h cert_path key_path l =
     (let l1 = l\<lparr>tl_last_try := hs_now h, tl_cert_path := cert_path, tl_key_path := key_path\<rparr>
      in case tls_load pair_ok h l1 of None \<Rightarrow> l1 | Some l2 \<Rightarrow> l2\<lparr>tl_last_try := 0\<rparr>)"

definition get_certificate ::
  "(string \<Rightarrow> string \<Rightarrow> bool) \<Rightarrow> handshake \<Rightarrow> (string \<times> string) option \<Rightarrow> tls_loader \<Rightarrow> key_pair option \<times> tls_loader" where
  \<comment> \<open>the third argument is what the source answers, \<open>None\<close> without a source; the first result is
      \<open>None\<close> for the error that there is no certificate\<close>
  "get_certificate pair_ok h source l =
     (let (cert_path, key_path) = (case source of None \<Rightarrow> (tl_cert_path l, tl_key_path l) | Some p \<Rightarrow> p)
      in if cert_path = [] \<or> key_path = [] then (tl_cert l, l)
         else (let l' = (if wants_reload h cert_path key_path l then reload pair_ok h cert_path key_path l else l)
               in (tl_cert l', l')))"

section \<open>Where the paths come from\<close>

record path_cache =
  pc_last_check :: gotime
  pc_cached_cert :: string
  pc_cached_key :: string

definition new_path_cache :: path_cache where
  "new_path_cache = \<lparr>pc_last_check = 0, pc_cached_cert = [], pc_cached_key = []\<rparr>"

definition tls_source ::
  "string \<Rightarrow> string \<Rightarrow> gotime \<Rightarrow> path_cache \<Rightarrow> db \<Rightarrow> (string \<times> string) \<times> path_cache \<times> db" where
  "tls_source explicit_cert explicit_key now pc s =
     (if now - pc_last_check pc < 10 * second then ((pc_cached_cert pc, pc_cached_key pc), pc, s)
      else (let (found, s1) = (if explicit_cert \<noteq> [] \<and> explicit_key \<noteq> []
                               then ((explicit_cert, explicit_key), s)
                               else (case domains_first_tls s of
                                       (Inl _, s1) \<Rightarrow> (([], []), s1)
                                     | (Inr d, s1) \<Rightarrow> ((d_tls_cert_path d, d_tls_key_path d), s1)))
            in (found, \<lparr>pc_last_check = now, pc_cached_cert = fst found, pc_cached_key = snd found\<rparr>, s1)))"

definition new_tls_cert_loader ::
  "(string \<Rightarrow> string \<Rightarrow> bool) \<Rightarrow> handshake \<Rightarrow> string \<Rightarrow> string \<Rightarrow> string \<Rightarrow> string \<Rightarrow> tls_loader option" where
  \<comment> \<open>its source is \<open>tls_source explicit_cert explicit_key\<close>\<close>
  "new_tls_cert_loader pair_ok h explicit_cert explicit_key init_cert init_key =
     (if init_cert = [] \<or> init_key = [] then new_loader pair_ok h explicit_cert explicit_key
      else new_loader pair_ok h init_cert init_key)"

text \<open>The listener of one protocol: its loader and the cache of its source, over the shared database.\<close>

definition serve_handshake ::
  "(string \<Rightarrow> string \<Rightarrow> bool) \<Rightarrow> string \<times> string \<Rightarrow> handshake \<Rightarrow> tls_loader \<times> path_cache \<times> db \<Rightarrow>
   key_pair option \<times> tls_loader \<times> path_cache \<times> db" where
  "serve_handshake pair_ok explicit h = (\<lambda>(l, pc, s).
     let (paths, pc', s') = tls_source (fst explicit) (snd explicit) (hs_now h) pc s;
         (r, l') = get_certificate pair_ok h (Some paths) l
     in (r, l', pc', s'))"

fun serve_handshakes ::
  "(string \<Rightarrow> string \<Rightarrow> bool) \<Rightarrow> string \<times> string \<Rightarrow> (handshake \<times> db) list \<Rightarrow> tls_loader \<times> path_cache \<Rightarrow>
   key_pair option list" where
  \<comment> \<open>handshakes, each with the database as it finds it\<close>
  "serve_handshakes pair_ok explicit [] st = []"
| "serve_handshakes pair_ok explicit ((h, s) # hs) (l, pc) =
     (case serve_handshake pair_ok explicit h (l, pc, s) of
        (r, l', pc', _) \<Rightarrow> r # serve_handshakes pair_ok explicit hs (l', pc'))"

section \<open>A certificate once loaded\<close>

definition read_by :: "(string \<Rightarrow> string \<Rightarrow> bool) \<Rightarrow> handshake \<Rightarrow> key_pair \<Rightarrow> bool" where
  "read_by pair_ok h p \<longleftrightarrow> pair_ok (fst p) (snd p) \<and>
     Some (fst p) \<in> range (dv_file (hs_read_cert h)) \<and> Some (snd p) \<in> range (dv_file (hs_read_key h))"

definition holds_pair :: "(string \<Rightarrow> string \<Rightarrow> bool) \<Rightarrow> handshake set \<Rightarrow> tls_loader \<Rightarrow> bool" where
  "holds_pair pair_ok H l \<longleftrightarrow> (\<exists>p. \<exists>h \<in> H. tl_cert l = Some p \<and> read_by pair_ok h p)"

lemma holds_pair_mono: "holds_pair ok H l \<Longrightarrow> H \<subseteq> H' \<Longrightarrow> holds_pair ok H' l"
  by (auto simp: holds_pair_def)

lemma load_pair_Some:
  "load_pair ok dc dk cp kp = Some p \<longleftrightarrow> dv_file dc cp = Some (fst p) \<and> dv_file dk kp = Some (snd p) \<and> ok (fst p) (snd p)"
  by (cases p) (auto simp: load_pair_def split: option.splits)

lemma tls_load_holds: "tls_load ok h l = Some l' \<Longrightarrow> holds_pair ok {h} l'"
  unfolding tls_load_def holds_pair_def read_by_def
  by (auto simp: load_pair_Some split: option.splits) (metis rangeI)+

lemma reload_holds: "holds_pair ok H l \<Longrightarrow> holds_pair ok (insert h H) (reload ok h cp kp l)"
  by (auto simp: reload_def Let_def holds_pair_def dest!: tls_load_holds split: option.splits)

lemma get_certificate_holds:
  assumes "holds_pair ok H l" and "get_certificate ok h src l = (r, l')"
  shows "holds_pair ok (insert h H) l' \<and> r = tl_cert l'"
  using assms reload_holds [OF assms(1)] holds_pair_mono [OF assms(1), of "insert h H"]
  by (auto simp: get_certificate_def Let_def split: prod.splits if_splits)

lemma serve_handshakes_hold:
  assumes "holds_pair ok H l" and "i < length hs"
  shows "\<exists>p. \<exists>h \<in> H \<union> fst ` set (take (Suc i) hs).
     serve_handshakes ok explicit hs (l, pc) ! i = Some p \<and> read_by ok h p"
  using assms
proof (induction hs arbitrary: H l pc i)
  case (Cons x hs)
  obtain h s where x: "x = (h, s)" by (cases x)
  obtain r l' pc' s' where step: "serve_handshake ok explicit h (l, pc, s) = (r, l', pc', s')"
    by (cases "serve_handshake ok explicit h (l, pc, s)")
  then have now: "holds_pair ok (insert h H) l' \<and> r = tl_cert l'"
    by (auto simp: serve_handshake_def Let_def split: prod.splits intro!: get_certificate_holds [OF Cons.prems(1)])
  show ?case
  proof (cases i)
    case 0
    with now step x show ?thesis by (auto simp: holds_pair_def)
  next
    case (Suc j)
    then have "j < length hs" using Cons.prems(2) by simp
    from Cons.IH [OF conjunct1 [OF now] this] show ?thesis by (simp add: x step Suc)
  qed
qed simp

text \<open>C34: a listener that has a certificate keeps one. Once the loader has started, every handshake is
  answered, whatever happens to the files and the rows meanwhile, with a certificate and a key that belong
  together and were on the disk when this or an earlier handshake (or the start) read them; broken,
  half-written or missing files only delay the renewal.\<close>

theorem handshakes_never_fail:
  assumes "new_tls_cert_loader pair_ok h0 explicit_cert explicit_key init_cert init_key = Some l"
    and "i < length hs"
  shows "\<exists>c k. \<exists>h \<in> {h0} \<union> fst ` set (take (Suc i) hs).
     serve_handshakes pair_ok (explicit_cert, explicit_key) hs (l, new_path_cache) ! i = Some (c, k) \<and>
     pair_ok c k \<and> Some c \<in> range (dv_file (hs_read_cert h)) \<and> Some k \<in> range (dv_file (hs_read_key h))"
proof -
  have "holds_pair pair_ok {h0} l"
    using assms(1) by (auto simp: new_tls_cert_loader_def new_loader_def tls_load_holds split: if_splits)
  from serve_handshakes_hold [OF this assms(2)] show ?thesis
    unfolding read_by_def by (metis prod.collapse)
qed

section \<open>A renewed certificate\<close>

definition same_view :: "disk_view \<Rightarrow> handshake \<Rightarrow> bool" where
  \<comment> \<open>the disk does not change while the handshake looks at it\<close>
  "same_view dv h \<longleftrightarrow> hs_seen h = dv \<and> hs_read_cert h = dv \<and> hs_read_key h = dv \<and> hs_stat h = dv"

definition settled :: "disk_view \<Rightarrow> string \<Rightarrow> string \<Rightarrow> tls_loader \<Rightarrow> bool" where
  \<comment> \<open>the loader holds what the files hold, and knows it\<close>
  "settled dv cp kp l \<longleftrightarrow> tl_cert_path l = cp \<and> tl_key_path l = kp \<and> \<not> files_changed dv cp kp l \<and>
     (\<exists>c k. tl_cert l = Some (c, k) \<and> dv_file dv cp = Some c \<and> dv_file dv kp = Some k)"

definition outdated :: "disk_view \<Rightarrow> string \<Rightarrow> string \<Rightarrow> tls_loader \<Rightarrow> bool" where
  "outdated dv cp kp l \<longleftrightarrow> tl_cert_path l \<noteq> cp \<or> tl_key_path l \<noteq> kp \<or> files_changed dv cp kp l"

definition good_files :: "(string \<Rightarrow> string \<Rightarrow> bool) \<Rightarrow> disk_view \<Rightarrow> string \<Rightarrow> string \<Rightarrow> key_pair \<Rightarrow> bool" where
  "good_files pair_ok dv cp kp p \<longleftrightarrow> dv_file dv cp = Some (fst p) \<and> dv_file dv kp = Some (snd p) \<and> pair_ok (fst p) (snd p) \<and>
     dv_mtime dv cp \<noteq> None \<and> dv_mtime dv kp \<noteq> None"

lemma reload_good:
  assumes "good_files ok dv cp kp p" and "same_view dv h"
  shows "settled dv cp kp (reload ok h cp kp l) \<and> tl_cert (reload ok h cp kp l) = Some p \<and> tl_last_try (reload ok h cp kp l) = 0"
proof -
  obtain tc tk where t: "dv_mtime dv cp = Some tc" "dv_mtime dv kp = Some tk" using assms(1) by (auto simp: good_files_def)
  have "load_pair ok dv dv cp kp = Some p" using assms(1) by (auto simp: load_pair_Some good_files_def)
  then have "reload ok h cp kp l = l\<lparr>tl_last_try := 0, tl_cert_path := cp, tl_key_path := kp, tl_cert_mod := tc,
      tl_key_mod := tk, tl_cert := Some p\<rparr>"
    using assms(2) t by (simp add: reload_def tls_load_def same_view_def Let_def)
  with assms(1) t show ?thesis by (cases p) (simp add: settled_def files_changed_def good_files_def)
qed

lemma reload_paths: "tl_cert_path (reload ok h cp kp l) = cp \<and> tl_key_path (reload ok h cp kp l) = kp"
  by (auto simp: reload_def tls_load_def Let_def split: option.splits)

lemma reload_last_try: "tl_last_try (reload ok h cp kp l) \<in> {0, hs_now h}"
  by (auto simp: reload_def tls_load_def Let_def split: option.splits)

lemma settled_not_outdated: "settled dv cp kp l \<Longrightarrow> \<not> outdated dv cp kp l"
  by (simp add: settled_def outdated_def)

definition up_to_date :: "disk_view \<Rightarrow> string \<Rightarrow> string \<Rightarrow> gotime \<Rightarrow> tls_loader \<times> path_cache \<Rightarrow> bool" where
  \<comment> \<open>what holds from the moment \<open>t\<close> on when the files and rows changed: the cache may still be the old
      one for ten seconds, and a failed attempt with it may hold the loader up for five more\<close>
  "up_to_date dv cp kp t = (\<lambda>(l, pc).
     (settled dv cp kp l \<or> outdated dv cp kp l) \<and> tl_last_try l \<le> t + 10 * second \<and>
     (pc_last_check pc \<le> t \<or> pc_cached_cert pc = cp \<and> pc_cached_key pc = kp))"

lemma get_certificate_keeps:
  assumes "good_files ok dv cp kp p" and "same_view dv h"
    and "settled dv cp kp l \<or> outdated dv cp kp l" and "get_certificate ok h (Some (xc, xk)) l = (r, l')"
  shows "settled dv cp kp l' \<or> outdated dv cp kp l'"
proof (cases "l' = l")
  case False
  with assms(4) have l': "l' = reload ok h xc xk l" by (auto simp: get_certificate_def Let_def split: if_splits)
  show ?thesis
  proof (cases "xc = cp \<and> xk = kp")
    case True with reload_good [OF assms(1,2)] l' show ?thesis by simp
  next
    case False with reload_paths [of ok h xc xk l] l' show ?thesis by (auto simp: outdated_def)
  qed
qed (use assms(3) in simp)

lemma get_certificate_last_try:
  assumes "get_certificate ok h src l = (r, l')"
  shows "tl_last_try l' \<in> {0, tl_last_try l, hs_now h}"
  using assms reload_last_try by (fastforce simp: get_certificate_def Let_def split: prod.splits if_splits)

lemma get_certificate_new:
  assumes "good_files ok dv cp kp p" and "same_view dv h" and "cp \<noteq> []" "kp \<noteq> []"
    and "settled dv cp kp l \<or> outdated dv cp kp l" and "get_certificate ok h (Some (cp, kp)) l = (r, l')"
    and "hs_now h - tl_last_try l \<ge> retry_interval"
  shows "r = Some p"
proof (cases "outdated dv cp kp l")
  case True
  then have "wants_reload h cp kp l" using assms(2,7) by (auto simp: wants_reload_def outdated_def same_view_def)
  with assms(3,4,6) reload_good [OF assms(1,2)] show ?thesis by (auto simp: get_certificate_def)
next
  case False
  then have s: "settled dv cp kp l" using assms(5) by simp
  then have "\<not> wants_reload h cp kp l" using assms(2) False by (auto simp: wants_reload_def outdated_def same_view_def)
  with assms(3,4,6) have "r = tl_cert l" by (auto simp: get_certificate_def)
  with s assms(1) show ?thesis by (cases p) (auto simp: settled_def good_files_def)
qed

lemma get_certificate_try_new:
  assumes "good_files ok dv cp kp p" and "same_view dv h" and "cp \<noteq> []" "kp \<noteq> []"
    and "get_certificate ok h (Some (cp, kp)) l = (r, l')"
  shows "tl_last_try l' \<in> {0, tl_last_try l}"
proof -
  have "l' = l \<or> l' = reload ok h cp kp l"
    using assms(3-5) by (simp add: get_certificate_def Let_def split: if_splits)
  with reload_good [OF assms(1,2), of l] show ?thesis by auto
qed

definition finds :: "domain \<Rightarrow> db \<Rightarrow> bool" where
  \<comment> \<open>\<open>GetFirstTLSEnabledWithCert\<close> finds that domain\<close>
  "finds d s \<longleftrightarrow> db_faults s = [] \<and>
     find (\<lambda>d. d_tls_enabled d \<and> d_tls_cert_path d \<noteq> [] \<and> d_tls_key_path d \<noteq> []) (db_domains s) = Some d"

lemma finds_paths: "finds d s \<Longrightarrow> d_tls_cert_path d \<noteq> [] \<and> d_tls_key_path d \<noteq> []"
  by (auto simp: finds_def dest!: find_Some_iff)

lemma tls_source_finds:
  assumes "finds d s" and "tls_source [] [] now pc s = ((xc, xk), pc', s')"
  shows "now - pc_last_check pc < 10 * second \<and> pc' = pc \<and> xc = pc_cached_cert pc \<and> xk = pc_cached_key pc \<or>
     now - pc_last_check pc \<ge> 10 * second \<and> xc = d_tls_cert_path d \<and> xk = d_tls_key_path d \<and>
       pc_cached_cert pc' = xc \<and> pc_cached_key pc' = xk"
  using assms by (auto simp: tls_source_def domains_first_tls_def finds_def db_first_ok Let_def split: if_splits)

lemma handshake_step:
  assumes d: "finds d s" "cp = d_tls_cert_path d" "kp = d_tls_key_path d"
    and g: "good_files ok dv cp kp p" and v: "same_view dv h" and t: "0 \<le> t"
    and u: "up_to_date dv cp kp t (l, pc)"
    and step: "serve_handshake ok ([], []) h (l, pc, s) = (r, l', pc', s')"
  shows "up_to_date dv cp kp t (l', pc') \<and> (hs_now h \<ge> t + 15 * second \<longrightarrow> r = Some p)"
proof -
  obtain xc xk where src: "tls_source [] [] (hs_now h) pc s = ((xc, xk), pc', s')"
    and get: "get_certificate ok h (Some (xc, xk)) l = (r, l')"
    using step by (auto simp: serve_handshake_def Let_def split: prod.splits)
  have ne: "cp \<noteq> []" "kp \<noteq> []" using finds_paths [OF d(1)] d by auto
  have keep: "settled dv cp kp l' \<or> outdated dv cp kp l'" using get_certificate_keeps [OF g v _ get] u by (simp add: up_to_date_def)
  show ?thesis
  proof (cases "(xc, xk) = (cp, kp)")
    case True
    then have get': "get_certificate ok h (Some (cp, kp)) l = (r, l')" using get by simp
    have "tl_last_try l' \<le> t + 10 * second"
      using get_certificate_try_new [OF g v ne get'] u t by (auto simp: up_to_date_def)
    moreover have "pc_last_check pc' \<le> t \<or> pc_cached_cert pc' = cp \<and> pc_cached_key pc' = kp"
      using tls_source_finds [OF d(1) src] u True by (auto simp: up_to_date_def)
    moreover have "hs_now h \<ge> t + 15 * second \<Longrightarrow> r = Some p"
      using get_certificate_new [OF g v ne _ get'] u by (simp add: up_to_date_def retry_interval_def)
    ultimately show ?thesis using keep by (simp add: up_to_date_def)
  next
    case False
    with tls_source_finds [OF d(1) src] d u
    have old: "pc' = pc" "pc_last_check pc \<le> t" "hs_now h < t + 10 * second" by (auto simp: up_to_date_def)
    with get_certificate_last_try [OF get] u t have "tl_last_try l' \<le> t + 10 * second" by (auto simp: up_to_date_def)
    with keep old show ?thesis by (simp add: up_to_date_def)
  qed
qed

lemma handshakes_up_to_date:
  assumes "cp = d_tls_cert_path d" "kp = d_tls_key_path d"
    and "good_files ok dv cp kp p" and "0 \<le> t"
    and "list_all (\<lambda>(h, s). finds d s \<and> same_view dv h) hs" and "up_to_date dv cp kp t (l, pc)"
    and "i < length hs" and "hs_now (fst (hs ! i)) \<ge> t + 15 * second"
  shows "serve_handshakes ok ([], []) hs (l, pc) ! i = Some p"
  using assms(5-8)
proof (induction hs arbitrary: l pc i)
  case (Cons x hs)
  obtain h s where x: "x = (h, s)" by (cases x)
  obtain r l' pc' s' where step: "serve_handshake ok ([], []) h (l, pc, s) = (r, l', pc', s')"
    by (cases "serve_handshake ok ([], []) h (l, pc, s)")
  have h: "finds d s" "same_view dv h" using Cons.prems(1) x by simp_all
  from handshake_step [OF h(1) assms(1,2,3) h(2) assms(4) Cons.prems(2) step]
  have n: "up_to_date dv cp kp t (l', pc')" "hs_now h \<ge> t + 15 * second \<longrightarrow> r = Some p" by simp_all
  show ?case
  proof (cases i)
    case 0 with n x step Cons.prems(4) show ?thesis by simp
  next
    case (Suc j)
    with Cons.IH [OF _ n(1), of j] Cons.prems x step show ?thesis by simp
  qed
qed simp

text \<open>C35: an imported or renewed certificate is used within fifteen seconds, without a restart. If from the
  time \<open>t\<close> on the domain whose certificate is used, its two files and their times stay as they are, and the
  files are a valid pair that is not the one loaded before (another path, or another time of a file), then
  every handshake later than \<open>t\<close> by fifteen seconds or more is answered with that pair, whatever came
  before: ten seconds for the cached paths and five for an attempt that failed with them.\<close>

theorem import_reaches_handshakes:
  assumes "pc_last_check pc \<le> t" and "tl_last_try l \<le> t" and "0 \<le> t"
    and "tl_cert_path l \<noteq> d_tls_cert_path d \<or> tl_key_path l \<noteq> d_tls_key_path d \<or>
      dv_mtime dv (d_tls_cert_path d) \<noteq> Some (tl_cert_mod l) \<or> dv_mtime dv (d_tls_key_path d) \<noteq> Some (tl_key_mod l)"
    and "dv_file dv (d_tls_cert_path d) = Some c" and "dv_file dv (d_tls_key_path d) = Some k" and "pair_ok c k"
    and "dv_mtime dv (d_tls_cert_path d) \<noteq> None" and "dv_mtime dv (d_tls_key_path d) \<noteq> None"
    and "list_all (\<lambda>(h, s). finds d s \<and> same_view dv h) hs"
    and "i < length hs" and "hs_now (fst (hs ! i)) \<ge> t + 15 * second"
  shows "serve_handshakes pair_ok ([], []) hs (l, pc) ! i = Some (c, k)"
proof (rule handshakes_up_to_date [OF refl refl _ assms(3,10) _ assms(11,12)])
  show "good_files pair_ok dv (d_tls_cert_path d) (d_tls_key_path d) (c, k)"
    using assms(5-9) by (simp add: good_files_def)
  have "outdated dv (d_tls_cert_path d) (d_tls_key_path d) l"
    using assms(4,8,9) by (auto simp: outdated_def files_changed_def split: option.splits)
  with assms(1-3) show "up_to_date dv (d_tls_cert_path d) (d_tls_key_path d) t (l, pc)"
    by (simp add: up_to_date_def)
qed

text \<open>A file that is replaced between being read and being looked at is missed. \<open>load\<close> reads the pair
  first and the times of the files afterwards; a renewal in between leaves the loader with the old pair and
  the new times, so that it sees no change any more and serves the old certificate for as long as the files
  stay as they are.\<close>

theorem renewal_during_load_missed:
  assumes "tls_load pair_ok h0 l0 = Some l" and "hs_stat h0 = new"
    and "dv_mtime new (tl_cert_path l0) = Some tc" and "dv_mtime new (tl_key_path l0) = Some tk"
    and "same_view new h"
  shows "get_certificate pair_ok h None l =
     (load_pair pair_ok (hs_read_cert h0) (hs_read_key h0) (tl_cert_path l0) (tl_key_path l0), l)"
  using assms by (auto simp: tls_load_def get_certificate_def wants_reload_def files_changed_def same_view_def Let_def
      split: option.splits)

section \<open>Examples\<close>

definition sample_tls_domain :: domain where
  "sample_tls_domain = zero_domain\<lparr>d_id := 1, d_name := ''a.org'', d_tls_enabled := True, d_tls_cert_path := ''c'',
     d_tls_key_path := ''k''\<rparr>"

definition sample_view :: "string \<Rightarrow> gotime \<Rightarrow> disk_view" where
  \<comment> \<open>both files hold the text and have the time\<close>
  "sample_view x t = \<lparr>dv_file = (\<lambda>p. if p \<in> {''c'', ''k''} then Some x else None),
                      dv_mtime = (\<lambda>p. if p \<in> {''c'', ''k''} then Some t else None)\<rparr>"

definition sample_handshake :: "gotime \<Rightarrow> disk_view \<Rightarrow> handshake" where
  "sample_handshake t v = \<lparr>hs_now = t, hs_seen = v, hs_read_cert = v, hs_read_key = v, hs_stat = v\<rparr>"

definition sample_loader :: tls_loader where
  "sample_loader = \<lparr>tl_cert_path = ''c'', tl_key_path = ''k'', tl_cert = Some (''old'', ''old''), tl_cert_mod = 1,
     tl_key_mod = 1, tl_last_try = 0\<rparr>"

definition sample_tls_db :: db where
  "sample_tls_db = empty_db\<lparr>db_domains := [sample_tls_domain]\<rparr>"

theorem handshakes_never_fail_witness:
  "\<exists>c k. \<exists>h \<in> {sample_handshake 1 (sample_view ''old'' 1)} \<union>
         fst ` set (take (Suc 0) [(sample_handshake 2 (sample_view ''new'' 2), empty_db)]).
     serve_handshakes (=) ([], []) [(sample_handshake 2 (sample_view ''new'' 2), empty_db)]
       (sample_loader, new_path_cache) ! 0 = Some (c, k) \<and> c = k \<and>
     Some c \<in> range (dv_file (hs_read_cert h)) \<and> Some k \<in> range (dv_file (hs_read_key h))"
proof (rule handshakes_never_fail)
  show "new_tls_cert_loader (=) (sample_handshake 1 (sample_view ''old'' 1)) [] [] ''c'' ''k'' = Some sample_loader"
    by code_simp
  show "0 < length [(sample_handshake 2 (sample_view ''new'' 2), empty_db)]" by simp
qed

theorem import_reaches_handshakes_witness:
  "serve_handshakes (=) ([], [])
     [(sample_handshake (20 * second) (sample_view ''new'' 2), sample_tls_db)] (sample_loader, new_path_cache) ! 0
   = Some (''new'', ''new'')"
  by (rule import_reaches_handshakes [where t = 2 and d = sample_tls_domain and dv = "sample_view ''new'' 2"])
     (simp_all add: new_path_cache_def sample_loader_def sample_tls_domain_def sample_view_def sample_handshake_def
        sample_tls_db_def finds_def same_view_def empty_db_def)

theorem renewal_during_load_missed_witness:
  "get_certificate (=) (sample_handshake 9 (sample_view ''new'' 2)) None (sample_loader\<lparr>tl_cert_mod := 2, tl_key_mod := 2\<rparr>)
   = (Some (''old'', ''old''), sample_loader\<lparr>tl_cert_mod := 2, tl_key_mod := 2\<rparr>)"
proof -
  have "tls_load (=) ((sample_handshake 1 (sample_view ''old'' 1))\<lparr>hs_stat := sample_view ''new'' 2\<rparr>) sample_loader
      = Some (sample_loader\<lparr>tl_cert_mod := 2, tl_key_mod := 2\<rparr>)" by code_simp
  from renewal_during_load_missed [OF this, of "sample_view ''new'' 2" 2 2 "sample_handshake 9 (sample_view ''new'' 2)"]
  show ?thesis
    by (simp add: sample_handshake_def same_view_def sample_view_def sample_loader_def load_pair_def)
qed

end
