(* ===== verification/Startup.thy ===== *)
theory Startup
  imports Tls_Loader Config Log_Store Web_Text Outbound_Manager Attachment_Storage
begin

text \<open>
  The start of the program: \<open>main.go\<close> from the loaded configuration on, and \<open>NewWebServer\<close> of
  \<open>internal/web/server.go\<close>. Which certificate each protocol gets, the first account, and which services run.
  Key generation, X.509 and the outcomes of file operations are parameters; the disk maps paths to contents.
\<close>

section \<open>Certificates\<close>

type_synonym cert_files = "string \<Rightarrow> string option"

definition apply_tls_cert_paths :: "config \<Rightarrow> string \<Rightarrow> string \<Rightarrow> bool \<times> config" where
  "apply_tls_cert_paths cf cert key =
     (let s = cf_smtp cf; i = cf_imap cf; p = cf_pop3 cf;
          no_smtp = (sc_tls_cert s = [] \<and> sc_tls_key s = []);
          no_imap = (ic_tls_cert i = [] \<and> ic_tls_key i = []);
          no_pop3 = (pc_tls_cert p = [] \<and> pc_tls_key p = [])
      in (no_smtp \<or> no_imap \<or> no_pop3,
          cf\<lparr>cf_smtp := (if no_smtp then s\<lparr>sc_tls_cert := cert, sc_tls_key := key\<rparr> else s),
             cf_imap := (if no_imap then i\<lparr>ic_tls_cert := cert, ic_tls_key := key\<rparr> else i),
             cf_pop3 := (if no_pop3 then p\<lparr>pc_tls_cert := cert, pc_tls_key := key\<rparr> else p)\<rparr>))"

definition apply_domain_tls_config :: "config \<Rightarrow> db \<Rightarrow> config \<times> db" where
  "apply_domain_tls_config cf s =
     (case domains_first_tls s of
        (Inl _, s1) \<Rightarrow> (cf, s1)
      | (Inr d, s1) \<Rightarrow> (snd (apply_tls_cert_paths cf (d_tls_cert_path d) (d_tls_key_path d)), s1))"

datatype key_usage = Key_Encipherment | Digital_Signature

datatype ext_key_usage = Server_Auth

record cert_template =
  ct_serial :: nat
  ct_organization :: string
  ct_common_name :: string
  ct_not_before :: gotime
  ct_not_after :: gotime
  ct_key_usage :: "key_usage set"
  ct_ext_key_usage :: "ext_key_usage list"
  ct_constraints_valid :: bool
  ct_dns_names :: "string list"
  ct_ips :: "string list"

record self_signed_env =
  sg_now :: gotime
  sg_ten_years :: "gotime \<Rightarrow> gotime"                            \<comment> \<open>\<open>AddDate(10, 0, 0)\<close>\<close>
  sg_mkdir :: bool
  sg_rsa_key :: "string option"                                  \<comment> \<open>a fresh 2048-bit key, PKCS#1\<close>
  sg_serial :: "nat option"                                      \<comment> \<open>a random number below \<open>2 ^ 128\<close>\<close>
  sg_create :: "cert_template \<Rightarrow> string \<Rightarrow> string option"        \<comment> \<open>signed with its own key\<close>
  sg_pem :: "string \<Rightarrow> string \<Rightarrow> string"
  sg_open :: "string \<Rightarrow> bool"
  sg_write :: "string \<Rightarrow> string option"                          \<comment> \<open>\<open>Some part\<close> when it fails after that much\<close>
  sg_close :: "string \<Rightarrow> bool"

definition write_pem :: "self_signed_env \<Rightarrow> string \<Rightarrow> string \<Rightarrow> string \<Rightarrow> cert_files \<Rightarrow> bool \<times> cert_files" where
  "write_pem sg path type bytes disk =
     (if \<not> sg_open sg path then (False, disk)
      else case sg_write sg path of
             Some part \<Rightarrow> (False, disk(path \<mapsto> part))
           | None \<Rightarrow> (sg_close sg path, disk(path \<mapsto> sg_pem sg type bytes)))"

definition self_signed_template :: "self_signed_env \<Rightarrow> nat \<Rightarrow> string \<Rightarrow> cert_template" where
  "self_signed_template sg serial domain =
     (let name = (if domain = [] then ''localhost'' else domain)
      in \<lparr>ct_serial = serial, ct_organization = ''MailGo Self-Signed'', ct_common_name = name,
          ct_not_before = sg_now sg, ct_not_after = sg_ten_years sg (sg_now sg),
          ct_key_usage = {Key_Encipherment, Digital_Signature}, ct_ext_key_usage = [Server_Auth],
          ct_constraints_valid = True,
          ct_dns_names = [name, ''localhost''], ct_ips = [''127.0.0.1'', ''::1'']\<rparr>)"

definition ensure_self_signed_cert ::
  "self_signed_env \<Rightarrow> string \<Rightarrow> string \<Rightarrow> string \<Rightarrow> cert_files \<Rightarrow> bool \<times> cert_files" where
  "ensure_self_signed_cert sg cert_path key_path domain disk =
     (if disk cert_path \<noteq> None \<and> disk key_path \<noteq> None then (True, disk)
      else if \<not> sg_mkdir sg then (False, disk)
      else case (sg_rsa_key sg, sg_serial sg) of
        (Some key, Some serial) \<Rightarrow>
          (case sg_create sg (self_signed_template sg serial domain) key of
             None \<Rightarrow> (False, disk)
           | Some der \<Rightarrow>
               (case write_pem sg cert_path ''CERTIFICATE'' der disk of
                  (False, disk1) \<Rightarrow> (False, disk1)
                | (True, disk1) \<Rightarrow> write_pem sg key_path ''RSA PRIVATE KEY'' key disk1))
      | _ \<Rightarrow> (False, disk))"

definition self_signed_paths :: "config \<Rightarrow> string \<times> string" where
  "self_signed_paths cf =
     (path_join (stc_base_dir (cf_storage cf)) ''tls/self-signed/cert.pem'',
      path_join (stc_base_dir (cf_storage cf)) ''tls/self-signed/key.pem'')"

definition ensure_self_signed_tls_config :: "self_signed_env \<Rightarrow> config \<Rightarrow> cert_files \<Rightarrow> config \<times> cert_files" where
  "ensure_self_signed_tls_config sg cf disk =
     (if sc_tls_cert (cf_smtp cf) \<noteq> [] \<and> sc_tls_key (cf_smtp cf) \<noteq> [] \<and>
         ic_tls_cert (cf_imap cf) \<noteq> [] \<and> ic_tls_key (cf_imap cf) \<noteq> [] \<and>
         pc_tls_cert (cf_pop3 cf) \<noteq> [] \<and> pc_tls_key (cf_pop3 cf) \<noteq> []
      then (cf, disk)
      else (let (cert_path, key_path) = self_signed_paths cf
            in case ensure_self_signed_cert sg cert_path key_path (sc_domain (cf_smtp cf)) disk of
                 (False, disk1) \<Rightarrow> (cf, disk1)
               | (True, disk1) \<Rightarrow> (snd (apply_tls_cert_paths cf cert_path key_path), disk1)))"

section \<open>The first account\<close>

definition password_charset :: string where
  "password_charset = ''abcdefghijklmnopqrstuvwxyzABCDEFGHIJKLMNOPQRSTUVWXYZ0123456789''"

definition random_password :: "nat list option \<Rightarrow> int \<Rightarrow> string option" where
  \<comment> \<open>sixteen random bytes, or the fallback with the clock in nanoseconds; a negative index panics\<close>
  "random_password bytes unix_nano =
     (case bytes of
        Some bs \<Rightarrow> Some (map (\<lambda>b. password_charset ! (b mod length password_charset)) bs)
      | None \<Rightarrow>
          (let idx = map (\<lambda>i. let x = unix_nano div 2 ^ (i * 4); n = int (length password_charset)
                              in if x < 0 then - ((- x) mod n) else x mod n) [0..<16]
           in if \<exists>i \<in> set idx. i < 0 then None else Some (map (\<lambda>i. password_charset ! nat i) idx)))"

datatype admin_outcome = Admin_Exists | Admin_Failed | Admin_Created string bool  \<comment> \<open>whether generated\<close>

definition default_domain :: domain where
  "default_domain = zero_domain\<lparr>d_name := ''example.com'', d_smtp_port := 25, d_imap_port := 143, d_pop3_port := 110\<rparr>"

definition default_domain_row :: "db \<Rightarrow> domain result \<times> db" where
  "default_domain_row s =
     (case domains_get_by_name ''example.com'' s of
        (Inr d, s1) \<Rightarrow> (Inr d, s1)
      | (Inl _, s1) \<Rightarrow> domains_create default_domain s1)"

definition admin_row :: "string \<Rightarrow> nat \<Rightarrow> user" where
  "admin_row hashed did = \<lparr>u_id = 0, u_username = ''admin'', u_password_hash = hashed, u_domain_id = did,
     u_domain = zero_domain, u_quota_bytes = 5 * 1024 * 1024 * 1024, u_used_bytes = 0, u_is_active = True,
     u_is_admin = True, u_must_change_password = True, u_language = []\<rparr>"

definition ensure_admin_user ::
  "(string \<Rightarrow> string option) \<Rightarrow> string \<Rightarrow> string \<Rightarrow> db \<Rightarrow> admin_outcome \<times> db" where
  \<comment> \<open>\<open>bcrypt\<close>, the environment variable, the random password\<close>
  "ensure_admin_user hash_pw env_pw generated s =
     (case users_get_by_email ''admin@example.com'' s of
        (Inr _, s1) \<Rightarrow> (Admin_Exists, s1)
      | (Inl _, s1) \<Rightarrow>
          (case default_domain_row s1 of
             (Inl _, s2) \<Rightarrow> (Admin_Failed, s2)
           | (Inr d, s2) \<Rightarrow>
               (let pw = (if env_pw = [] then generated else env_pw)
                in case hash_pw pw of
                     None \<Rightarrow> (Admin_Failed, s2)
                   | Some hashed \<Rightarrow>
                       (case users_create (admin_row hashed (d_id d)) s2 of
                          (Inl _, s3) \<Rightarrow> (Admin_Failed, s3)
                        | (Inr _, s3) \<Rightarrow> (Admin_Created pw (env_pw = []), s3)))))"

section \<open>The web server and the log cleaner\<close>

datatype zone = Zone_Default | Zone_Named string | Zone_Fixed string int

datatype web_error = Bad_Key config_error | Bad_Timezone string

definition new_web_server :: "(string \<Rightarrow> bool) \<Rightarrow> web_config \<Rightarrow> web_error + zone" where
  \<comment> \<open>the argument is whether \<open>time.LoadLocation\<close> knows the name; the result is the display zone\<close>
  "new_web_server known_zone wc =
     (case validate_secret_key (wc_secret_key wc) of
        Some e \<Rightarrow> Inl (Bad_Key e)
      | None \<Rightarrow>
          if wc_timezone wc = [] then Inr Zone_Default
          else if known_zone (wc_timezone wc) then Inr (Zone_Named (wc_timezone wc))
          else case fixed_timezone (wc_timezone wc) of
                 Some (name, offset) \<Rightarrow> Inr (Zone_Fixed name offset)
               | None \<Rightarrow> Inl (Bad_Timezone (wc_timezone wc)))"

definition cleaner_round :: "(int \<Rightarrow> gotime \<Rightarrow> gotime) \<Rightarrow> int \<Rightarrow> gotime \<Rightarrow> db \<Rightarrow> db" where
  \<comment> \<open>one turn of the loop that runs every six hours; the first argument is \<open>AddDate(0, 0, -n)\<close>\<close>
  "cleaner_round days_before keep_days now s =
     (if keep_days \<le> 0 then s else snd (logs_cleanup_before (days_before keep_days now) s))"

section \<open>The program\<close>

datatype service =
    Outbound_Workers | Imap_Listener | Imaps_Listener | Smtp_Listener | Smtps_Listener | Submission_Listener
  | Pop3_Listener | Pop3s_Listener | Web_Listener | Log_Cleaner

record boot_env =
  be_hash_pw :: "string \<Rightarrow> string option"
  be_admin_pw :: string
  be_generated_pw :: string
  be_self_signed :: self_signed_env
  be_pair_ok :: "string \<Rightarrow> string \<Rightarrow> bool"
  be_load :: "cert_files \<Rightarrow> handshake"        \<comment> \<open>what the loaders find on that disk when they start\<close>
  be_known_zone :: "string \<Rightarrow> bool"

record running =
  rn_config :: config
  rn_smtp_tls :: "tls_loader option"
  rn_imap_tls :: "tls_loader option"
  rn_pop3_tls :: "tls_loader option"
  rn_services :: "service list"
  rn_zone :: zone

definition tls_services :: "string \<Rightarrow> string \<Rightarrow> tls_loader option \<Rightarrow> service list \<Rightarrow> service list" where
  \<comment> \<open>started when the paths are set; without a loader the start returns an error that is logged\<close>
  "tls_services cert key loader services = (if cert \<noteq> [] \<and> key \<noteq> [] \<and> loader \<noteq> None then services else [])"

definition boot :: "boot_env \<Rightarrow> config \<Rightarrow> db \<Rightarrow> cert_files \<Rightarrow> (web_error + running) \<times> db \<times> cert_files" where
  \<comment> \<open>\<open>main\<close> after the configuration is loaded and the database open\<close>
  "boot be cf s disk =
     (let (_, s1) = ensure_admin_user (be_hash_pw be) (be_admin_pw be) (be_generated_pw be) s;
          (cf1, s2) = apply_domain_tls_config cf s1;
          (cf2, disk2) = ensure_self_signed_tls_config (be_self_signed be) cf1 disk;
          loader = new_tls_cert_loader (be_pair_ok be) (be_load be disk2);
          smtp_tls = loader (sc_tls_cert (cf_smtp cf)) (sc_tls_key (cf_smtp cf))
                       (sc_tls_cert (cf_smtp cf2)) (sc_tls_key (cf_smtp cf2));
          imap_tls = loader (ic_tls_cert (cf_imap cf)) (ic_tls_key (cf_imap cf))
                       (ic_tls_cert (cf_imap cf2)) (ic_tls_key (cf_imap cf2));
          pop3_tls = loader (pc_tls_cert (cf_pop3 cf)) (pc_tls_key (cf_pop3 cf))
                       (pc_tls_cert (cf_pop3 cf2)) (pc_tls_key (cf_pop3 cf2));
          services =
            (if manager_enabled (cf_outbound cf2) then [Outbound_Workers] else []) @
            [Imap_Listener] @ tls_services (ic_tls_cert (cf_imap cf2)) (ic_tls_key (cf_imap cf2)) imap_tls [Imaps_Listener] @
            [Smtp_Listener] @ tls_services (sc_tls_cert (cf_smtp cf2)) (sc_tls_key (cf_smtp cf2)) smtp_tls
                                [Smtps_Listener, Submission_Listener] @
            [Pop3_Listener] @ tls_services (pc_tls_cert (cf_pop3 cf2)) (pc_tls_key (cf_pop3 cf2)) pop3_tls [Pop3s_Listener]
      in (case new_web_server (be_known_zone be) (cf_web cf2) of
            Inl e \<Rightarrow> Inl e
          | Inr z \<Rightarrow> Inr \<lparr>rn_config = cf2, rn_smtp_tls = smtp_tls, rn_imap_tls = imap_tls, rn_pop3_tls = pop3_tls,
                          rn_services = services @ [Web_Listener] @
                            (if wc_log_keep_days (cf_web cf2) > 0 then [Log_Cleaner] else []),
                          rn_zone = z\<rparr>,
          s2, disk2))"

section \<open>Which certificate a protocol gets\<close>

definition smtp_pair :: "config \<Rightarrow> string \<times> string" where
  "smtp_pair cf = (sc_tls_cert (cf_smtp cf), sc_tls_key (cf_smtp cf))"

definition imap_pair :: "config \<Rightarrow> string \<times> string" where
  "imap_pair cf = (ic_tls_cert (cf_imap cf), ic_tls_key (cf_imap cf))"

definition pop3_pair :: "config \<Rightarrow> string \<times> string" where
  "pop3_pair cf = (pc_tls_cert (cf_pop3 cf), pc_tls_key (cf_pop3 cf))"

lemmas pair_defs = smtp_pair_def imap_pair_def pop3_pair_def

definition chosen_pair :: "(string \<times> string) option \<Rightarrow> (string \<times> string) option \<Rightarrow> string \<times> string \<Rightarrow> string \<times> string" where
  \<comment> \<open>configured, else of a domain, else self-signed\<close>
  "chosen_pair domain self explicit =
     (if explicit \<noteq> ([], []) then explicit
      else case domain of Some p \<Rightarrow> p | None \<Rightarrow> (case self of Some p \<Rightarrow> p | None \<Rightarrow> ([], [])))"

definition domain_pair :: "db \<Rightarrow> (string \<times> string) option" where
  "domain_pair s = (case fst (domains_first_tls s) of Inl _ \<Rightarrow> None | Inr d \<Rightarrow> Some (d_tls_cert_path d, d_tls_key_path d))"

definition self_signed_pair :: "self_signed_env \<Rightarrow> config \<Rightarrow> cert_files \<Rightarrow> (string \<times> string) option" where
  "self_signed_pair sg cf disk =
     (if fst (ensure_self_signed_cert sg (fst (self_signed_paths cf)) (snd (self_signed_paths cf))
                (sc_domain (cf_smtp cf)) disk)
      then Some (self_signed_paths cf) else None)"

lemma apply_tls_cert_paths_pairs:
  assumes "apply_tls_cert_paths cf c k = (b, cf')"
  shows "smtp_pair cf' = (if smtp_pair cf = ([], []) then (c, k) else smtp_pair cf)"
    "imap_pair cf' = (if imap_pair cf = ([], []) then (c, k) else imap_pair cf)"
    "pop3_pair cf' = (if pop3_pair cf = ([], []) then (c, k) else pop3_pair cf)"
    "cf_web cf' = cf_web cf" "cf_storage cf' = cf_storage cf" "cf_outbound cf' = cf_outbound cf"
    "sc_domain (cf_smtp cf') = sc_domain (cf_smtp cf)"
  using assms by (auto simp: apply_tls_cert_paths_def pair_defs Let_def)

lemma domains_first_tls_paths:
  "domains_first_tls s = (Inr d, s') \<Longrightarrow> d_tls_cert_path d \<noteq> [] \<and> d_tls_key_path d \<noteq> []"
  by (auto simp: domains_first_tls_def stmt_results dest!: find_Some_iff)

lemma apply_domain_pairs:
  assumes "apply_domain_tls_config cf s = (cf1, s1)"
  shows "smtp_pair cf1 = chosen_pair (domain_pair s) None (smtp_pair cf)"
    "imap_pair cf1 = chosen_pair (domain_pair s) None (imap_pair cf)"
    "pop3_pair cf1 = chosen_pair (domain_pair s) None (pop3_pair cf)"
    "cf_web cf1 = cf_web cf" "cf_storage cf1 = cf_storage cf" "cf_outbound cf1 = cf_outbound cf"
    "sc_domain (cf_smtp cf1) = sc_domain (cf_smtp cf)"
  using assms apply_tls_cert_paths_pairs [OF surjective_pairing, of cf]
  by (auto simp: apply_domain_tls_config_def chosen_pair_def domain_pair_def split: prod.splits sum.splits)

lemma domain_pair_nonempty: "domain_pair s = Some (c, k) \<Longrightarrow> c \<noteq> [] \<and> k \<noteq> []"
  using domains_first_tls_paths [of s _ "snd (domains_first_tls s)"]
  by (auto simp: domain_pair_def prod_eq_iff split: sum.splits)

lemma self_signed_pairs:
  assumes "ensure_self_signed_tls_config sg cf1 disk = (cf2, disk2)"
  shows "smtp_pair cf2 = (if smtp_pair cf1 = ([], []) then chosen_pair None (self_signed_pair sg cf1 disk) ([], []) else smtp_pair cf1)"
    "imap_pair cf2 = (if imap_pair cf1 = ([], []) then chosen_pair None (self_signed_pair sg cf1 disk) ([], []) else imap_pair cf1)"
    "pop3_pair cf2 = (if pop3_pair cf1 = ([], []) then chosen_pair None (self_signed_pair sg cf1 disk) ([], []) else pop3_pair cf1)"
    "cf_web cf2 = cf_web cf1"
  using assms apply_tls_cert_paths_pairs [OF surjective_pairing, of cf1]
  by (auto simp: ensure_self_signed_tls_config_def chosen_pair_def self_signed_pair_def Let_def pair_defs
      split: prod.splits bool.splits if_splits)

definition loads :: "boot_env \<Rightarrow> cert_files \<Rightarrow> string \<times> string \<Rightarrow> bool" where
  "loads be disk p \<longleftrightarrow> fst p \<noteq> [] \<and> snd p \<noteq> [] \<and>
     load_pair (be_pair_ok be) (hs_read_cert (be_load be disk)) (hs_read_key (be_load be disk)) (fst p) (snd p) \<noteq> None"

lemma new_loader_some:
  "new_loader ok h c k \<noteq> None \<longleftrightarrow> c \<noteq> [] \<and> k \<noteq> [] \<and> load_pair ok (hs_read_cert h) (hs_read_key h) c k \<noteq> None"
  by (auto simp: new_loader_def tls_load_def split: option.splits)

lemma tls_service_runs:
  assumes "p = chosen_pair domain self explicit" and "x \<in> set services"
  shows "x \<in> set (tls_services (fst p) (snd p)
      (new_tls_cert_loader (be_pair_ok be) (be_load be disk) (fst explicit) (snd explicit) (fst p) (snd p)) services)
    \<longleftrightarrow> loads be disk p"
  using assms new_loader_some [of "be_pair_ok be" "be_load be disk" "fst p" "snd p"]
  by (auto simp: tls_services_def new_tls_cert_loader_def loads_def)

lemma tls_services_subset: "set (tls_services c k l xs) \<subseteq> set xs"
  by (auto simp: tls_services_def)

lemma chosen_pair_twice:
  "(if chosen_pair domain None e = ([], []) then chosen_pair None self ([], []) else chosen_pair domain None e)
   = chosen_pair (if domain = Some ([], []) then None else domain) self e"
  by (auto simp: chosen_pair_def split: option.splits)

abbreviation boot_choice :: "boot_env \<Rightarrow> config \<Rightarrow> db \<Rightarrow> cert_files \<Rightarrow> string \<times> string \<Rightarrow> string \<times> string" where
  "boot_choice be cf s disk \<equiv>
     chosen_pair (domain_pair (snd (ensure_admin_user (be_hash_pw be) (be_admin_pw be) (be_generated_pw be) s)))
       (self_signed_pair (be_self_signed be) cf disk)"

abbreviation boot_loader :: "boot_env \<Rightarrow> cert_files \<Rightarrow> string \<times> string \<Rightarrow> string \<times> string \<Rightarrow> tls_loader option" where
  "boot_loader be disk explicit init \<equiv>
     new_tls_cert_loader (be_pair_ok be) (be_load be disk) (fst explicit) (snd explicit) (fst init) (snd init)"

lemma boot_pairs:
  assumes "boot be cf s disk = (Inr rn, s', disk')"
  shows "smtp_pair (rn_config rn) = boot_choice be cf s disk (smtp_pair cf)"
    "imap_pair (rn_config rn) = boot_choice be cf s disk (imap_pair cf)"
    "pop3_pair (rn_config rn) = boot_choice be cf s disk (pop3_pair cf)"
proof -
  let ?s1 = "snd (ensure_admin_user (be_hash_pw be) (be_admin_pw be) (be_generated_pw be) s)"
  let ?ss = "self_signed_pair (be_self_signed be) cf disk"
  obtain cf1 s2 where a: "apply_domain_tls_config cf ?s1 = (cf1, s2)" by (cases "apply_domain_tls_config cf ?s1")
  obtain cf2 disk2 where e: "ensure_self_signed_tls_config (be_self_signed be) cf1 disk = (cf2, disk2)"
    by (cases "ensure_self_signed_tls_config (be_self_signed be) cf1 disk")
  have dom: "domain_pair ?s1 \<noteq> Some ([], [])" using domain_pair_nonempty by fastforce
  have ss: "self_signed_pair (be_self_signed be) cf1 disk = ?ss"
    using apply_domain_pairs [OF a] by (simp add: self_signed_pair_def self_signed_paths_def)
  from assms a e have c: "rn_config rn = cf2" by (auto simp: boot_def Let_def split: prod.splits sum.splits)
  show "smtp_pair (rn_config rn) = boot_choice be cf s disk (smtp_pair cf)"
    "imap_pair (rn_config rn) = boot_choice be cf s disk (imap_pair cf)"
    "pop3_pair (rn_config rn) = boot_choice be cf s disk (pop3_pair cf)"
    unfolding c self_signed_pairs [OF e] apply_domain_pairs [OF a] ss
    using dom by (simp_all only: chosen_pair_twice if_False)
qed

lemma boot_loaders:
  assumes "boot be cf s disk = (Inr rn, s', disk')"
  shows "rn_smtp_tls rn = boot_loader be disk' (smtp_pair cf) (smtp_pair (rn_config rn))"
    "rn_imap_tls rn = boot_loader be disk' (imap_pair cf) (imap_pair (rn_config rn))"
    "rn_pop3_tls rn = boot_loader be disk' (pop3_pair cf) (pop3_pair (rn_config rn))"
  using assms unfolding pair_defs fst_conv snd_conv by (auto simp: boot_def Let_def split: prod.splits sum.splits)

lemma boot_services:
  assumes "boot be cf s disk = (Inr rn, s', disk')"
  shows "rn_services rn =
    (if manager_enabled (cf_outbound (rn_config rn)) then [Outbound_Workers] else []) @
    [Imap_Listener] @ tls_services (fst (imap_pair (rn_config rn))) (snd (imap_pair (rn_config rn))) (rn_imap_tls rn) [Imaps_Listener] @
    [Smtp_Listener] @ tls_services (fst (smtp_pair (rn_config rn))) (snd (smtp_pair (rn_config rn))) (rn_smtp_tls rn)
                        [Smtps_Listener, Submission_Listener] @
    [Pop3_Listener] @ tls_services (fst (pop3_pair (rn_config rn))) (snd (pop3_pair (rn_config rn))) (rn_pop3_tls rn) [Pop3s_Listener] @
    [Web_Listener] @ (if wc_log_keep_days (cf_web (rn_config rn)) > 0 then [Log_Cleaner] else [])"
  using assms unfolding pair_defs fst_conv snd_conv by (auto simp: boot_def Let_def split: prod.splits sum.splits)

lemma boot_loader_runs:
  assumes "p = boot_choice be cf s disk explicit"
  shows "boot_loader be disk' explicit p \<noteq> None \<longleftrightarrow> loads be disk' p"
  using assms new_loader_some [of "be_pair_ok be" "be_load be disk'"]
  by (auto simp: new_tls_cert_loader_def loads_def chosen_pair_def split: if_splits option.splits)

text \<open>C36: which certificate a protocol starts with, and whether its TLS ports open. A pair of the
  configuration comes first, then the one of the first domain that has TLS on and both its paths set, then the
  self-signed one if it is there or can be made, for each protocol by itself; and the ports that need TLS (465, 587, 993, 995)
  are opened exactly if both paths of that pair are set and the files load. A configured pair with one of
  the two missing therefore closes them, whatever else there is.\<close>

theorem listeners_follow_certificates:
  assumes "boot be cf s disk = (Inr rn, s', disk')"
  shows "let pick = chosen_pair (domain_pair (snd (ensure_admin_user (be_hash_pw be) (be_admin_pw be) (be_generated_pw be) s)))
                        (self_signed_pair (be_self_signed be) cf disk)
    in smtp_pair (rn_config rn) = pick (smtp_pair cf) \<and> imap_pair (rn_config rn) = pick (imap_pair cf) \<and>
       pop3_pair (rn_config rn) = pick (pop3_pair cf) \<and>
       (Smtps_Listener \<in> set (rn_services rn) \<longleftrightarrow> loads be disk' (pick (smtp_pair cf))) \<and>
       (Submission_Listener \<in> set (rn_services rn) \<longleftrightarrow> loads be disk' (pick (smtp_pair cf))) \<and>
       (Imaps_Listener \<in> set (rn_services rn) \<longleftrightarrow> loads be disk' (pick (imap_pair cf))) \<and>
       (Pop3s_Listener \<in> set (rn_services rn) \<longleftrightarrow> loads be disk' (pick (pop3_pair cf)))"
proof -
  note p = boot_pairs [OF assms]
  note run = tls_service_runs [where be = be and disk = disk', OF p(1)] tls_service_runs [where be = be and disk = disk', OF p(2)]
    tls_service_runs [where be = be and disk = disk', OF p(3)]
  have other: "x \<notin> set xs \<Longrightarrow> x \<notin> set (tls_services c k l xs)" for x c k l xs using tls_services_subset by blast
  have "(Smtps_Listener \<in> set (rn_services rn) \<longleftrightarrow> loads be disk' (smtp_pair (rn_config rn))) \<and>
       (Submission_Listener \<in> set (rn_services rn) \<longleftrightarrow> loads be disk' (smtp_pair (rn_config rn))) \<and>
       (Imaps_Listener \<in> set (rn_services rn) \<longleftrightarrow> loads be disk' (imap_pair (rn_config rn))) \<and>
       (Pop3s_Listener \<in> set (rn_services rn) \<longleftrightarrow> loads be disk' (pop3_pair (rn_config rn)))"
    using run other unfolding boot_services [OF assms] boot_loaders [OF assms] by simp
  with p show ?thesis by (simp add: Let_def)
qed

section \<open>The first account\<close>

lemma password_charset_length: "length password_charset = 62"
  by code_simp

text \<open>A generated password is sixteen letters and digits. This holds for the sixteen random bytes and for
  the fallback with any clock after 1970, so that neither path can index outside of the alphabet.\<close>

theorem random_password_shape:
  assumes "\<And>bs. bytes = Some bs \<Longrightarrow> length bs = 16" and "0 \<le> unix_nano"
  shows "\<exists>p. random_password bytes unix_nano = Some p \<and> length p = 16 \<and> set p \<subseteq> set password_charset"
proof (cases bytes)
  case (Some bs)
  then show ?thesis using assms(1)
    by (auto simp: random_password_def password_charset_length intro!: nth_mem)
next
  case None
  have "0 \<le> unix_nano div 2 ^ (i * 4)" for i using assms(2) by (simp add: pos_imp_zdiv_nonneg_iff)
  then have nn: "\<not> unix_nano div 2 ^ (i * 4) < 0" for i by (simp add: not_less)
  have "password_charset ! nat (x mod 62) \<in> set password_charset" for x
    by (rule nth_mem) (simp add: password_charset_length nat_less_iff)
  moreover have "\<not> x mod 62 < 0" for x :: int by (simp add: not_less)
  ultimately show ?thesis using None nn
    by (simp add: random_password_def password_charset_length Let_def image_subset_iff)
qed

text \<open>The letters \<open>a\<close> to \<open>h\<close> come up a quarter more often than the other characters.\<close>

lemma random_password_bias:
  "map (\<lambda>c. length (filter (\<lambda>b. password_charset ! (b mod length password_charset) = c) [0..<256])) ''ahi9'' = [5, 5, 4, 4]"
  by code_simp

lemma get_admin_ok:
  assumes "db_faults s = []"
  shows "users_get_by_email ''admin@example.com'' s =
    (case find (\<lambda>u. u_username u = ''admin'' \<and> in_domain s ''example.com'' u) (db_users s) of
       None \<Rightarrow> Inl ErrRecordNotFound
     | Some u \<Rightarrow> Inr (if u_domain_id u = 0 then u\<lparr>u_domain := zero_domain\<rparr> else with_domain s u), s)"
proof -
  have "split_n2 CHR ''@'' ''admin@example.com'' = [''admin'', ''example.com'']" by code_simp
  with assms show ?thesis
    by (auto simp: users_get_by_email_def db_first_ok db_query_ok preload_domain_def preload_domains_def split: option.splits)
qed

lemma find_first_new: "find P xs = None \<Longrightarrow> P y \<Longrightarrow> find P (xs @ [y]) = Some y"
  by (induction xs) (auto split: if_splits)

lemma default_domain_row_ok:
  assumes "db_faults s = []"
  obtains d s1 where "default_domain_row s = (Inr d, s1)" "db_faults s1 = []" "d \<in> set (db_domains s1)"
    "d_name d = ''example.com''" "db_users s1 = db_users s" "db_next s1 TUsers = db_next s TUsers"
    "set (db_domains s1) = set (db_domains s) \<or> set (db_domains s1) = insert d (set (db_domains s)) \<and> d_id d = db_next s TDomains"
proof (cases "find (\<lambda>d. d_name d = ''example.com'') (db_domains s)")
  case (Some d)
  with assms find_Some_iff [OF Some] show ?thesis
    by (intro that [of d s]) (auto simp: default_domain_row_def domains_get_by_name_def db_first_ok)
next
  case None
  then have new: "''example.com'' \<notin> d_name ` set (db_domains s)" by (auto simp: find_None_iff_all)
  let ?d = "new_domain default_domain s"
  have "default_domain_row s = (Inr ?d, insert_domain ?d s)"
    using None assms new by (simp add: default_domain_row_def domains_get_by_name_def db_first_ok domains_create_def
        db_stmt_def default_domain_def Let_def)
  then show ?thesis using assms
    by (intro that [of ?d "insert_domain ?d s"]) (auto simp: insert_domain_def new_domain_def default_domain_def)
qed

text \<open>After the start there is an administrator, and only one start makes it. If the database answers,
  then afterwards \<open>admin@example.com\<close> is an account: the one that was there, with no row changed, or a
  new active administrator that must change the given or generated password at the first login; and
  another start leaves everything as it is.\<close>

theorem admin_bootstrap:
  assumes "db_faults s = []" and "\<forall>u \<in> set (db_users s). u_domain_id u < db_next s TDomains"
    and "hash_pw (if env_pw = [] then generated else env_pw) = Some hashed"
    and "ensure_admin_user hash_pw env_pw generated s = (r, s')"
  shows "\<exists>u. users_get_by_email ''admin@example.com'' s' = (Inr u, s') \<and>
     (r = Admin_Exists \<and> s' = s \<or>
      r = Admin_Created (if env_pw = [] then generated else env_pw) (env_pw = []) \<and> u_is_admin u \<and> u_is_active u \<and>
        u_must_change_password u \<and> u_password_hash u = hashed \<and> (\<exists>v. db_users s' = db_users s @ [v] \<and> same_account u v)) \<and>
     ensure_admin_user hash_pw env_pw generated s' = (Admin_Exists, s')"
proof (cases "find (\<lambda>u. u_username u = ''admin'' \<and> in_domain s ''example.com'' u) (db_users s)")
  case (Some u)
  then have g: "users_get_by_email ''admin@example.com'' s = (Inr (if u_domain_id u = 0 then u\<lparr>u_domain := zero_domain\<rparr> else with_domain s u), s)"
    by (simp add: get_admin_ok [OF assms(1)])
  then have "r = Admin_Exists" "s' = s" using assms(4) by (simp_all add: ensure_admin_user_def)
  with g show ?thesis by (simp add: ensure_admin_user_def)
next
  case None
  obtain d s1 where d: "default_domain_row s = (Inr d, s1)" "db_faults s1 = []" "d \<in> set (db_domains s1)"
    "d_name d = ''example.com''" "db_users s1 = db_users s" "db_next s1 TUsers = db_next s TUsers"
    "set (db_domains s1) = set (db_domains s) \<or> set (db_domains s1) = insert d (set (db_domains s)) \<and> d_id d = db_next s TDomains"
    using default_domain_row_ok [OF assms(1)] by blast
  let ?v = "new_user (admin_row hashed (d_id d)) s1"
  have s': "s' = insert_user ?v s1" and r: "r = Admin_Created (if env_pw = [] then generated else env_pw) (env_pw = [])"
    using assms(3,4) None d(1,2)
    by (auto simp: ensure_admin_user_def get_admin_ok [OF assms(1)] users_create_def db_stmt_def Let_def)
  have f: "db_faults s' = []" and us: "db_users s' = db_users s @ [?v]" and ds: "db_domains s' = db_domains s1"
    using s' d(2,5) by (simp_all add: insert_user_def)
  have old: "in_domain s' ''example.com'' u = in_domain s ''example.com'' u" if "u \<in> set (db_users s)" for u
    unfolding in_domain_def ds using bspec [OF assms(2) that] d(7) by (elim disjE) force+
  have "find (\<lambda>u. u_username u = ''admin'' \<and> in_domain s' ''example.com'' u) (db_users s) = None"
    using None old by (auto simp: find_None_iff_all)
  moreover have "u_username ?v = ''admin'' \<and> in_domain s' ''example.com'' ?v"
    using d(3,4) ds by (auto simp: in_domain_def new_user_def admin_row_def)
  ultimately have "find (\<lambda>u. u_username u = ''admin'' \<and> in_domain s' ''example.com'' u) (db_users s') = Some ?v"
    unfolding us by (rule find_first_new)
  then have g: "users_get_by_email ''admin@example.com'' s' = (Inr (if u_domain_id ?v = 0 then ?v\<lparr>u_domain := zero_domain\<rparr> else with_domain s' ?v), s')"
    by (simp add: get_admin_ok [OF f])
  then show ?thesis using us r by (auto simp: ensure_admin_user_def new_user_def admin_row_def)
qed

text \<open>Any failure to look the administrator up counts as there being none. If that one statement fails
  while \<open>admin@example.com\<close> is there, a second administrator with the same address is stored beside it.\<close>

theorem fault_duplicates_admin:
  assumes "db_faults s = [True]" and "u \<in> set (db_users s)" and "u_username u = ''admin''" and "in_domain s ''example.com'' u"
    and "hash_pw (if env_pw = [] then generated else env_pw) = Some hashed"
  shows "\<exists>v s'. ensure_admin_user hash_pw env_pw generated s =
       (Admin_Created (if env_pw = [] then generated else env_pw) (env_pw = []), s') \<and>
     db_users s' = db_users s @ [v] \<and> u_username v = u_username u \<and> in_domain s' ''example.com'' v \<and> u_is_admin v"
proof -
  have "split_n2 CHR ''@'' ''admin@example.com'' = [''admin'', ''example.com'']" by code_simp
  then have e: "users_get_by_email ''admin@example.com'' s = (Inl ErrDb, tick s)"
    using assms(1) by (simp add: users_get_by_email_def db_first_def db_stmt_def fault_def)
  have f: "db_faults (tick s) = []" using assms(1) by simp
  obtain d s1 where d: "default_domain_row (tick s) = (Inr d, s1)" "db_faults s1 = []" "d \<in> set (db_domains s1)"
    "d_name d = ''example.com''" "db_users s1 = db_users (tick s)"
    using default_domain_row_ok [OF f] by blast
  let ?v = "new_user (admin_row hashed (d_id d)) s1"
  have "ensure_admin_user hash_pw env_pw generated s =
      (Admin_Created (if env_pw = [] then generated else env_pw) (env_pw = []), insert_user ?v s1)"
    using assms(5) d(1,2) by (simp add: ensure_admin_user_def e users_create_def db_stmt_def Let_def)
  moreover have "in_domain (insert_user ?v s1) ''example.com'' ?v"
    using d(3,4) by (auto simp: in_domain_def insert_user_def new_user_def admin_row_def)
  ultimately show ?thesis using assms(3) d(5) by (auto simp: insert_user_def new_user_def admin_row_def)
qed

section \<open>Examples\<close>

definition sample_self_signed :: self_signed_env where
  "sample_self_signed = \<lparr>sg_now = 0, sg_ten_years = (\<lambda>t. t + 1), sg_mkdir = True, sg_rsa_key = Some ''K'', sg_serial = Some 7,
     sg_create = (\<lambda>t k. Some (''C'' @ k)), sg_pem = (\<lambda>t b. b), sg_open = (\<lambda>_. True), sg_write = (\<lambda>_. None),
     sg_close = (\<lambda>_. True)\<rparr>"

definition sample_boot :: boot_env where
  "sample_boot = \<lparr>be_hash_pw = Some, be_admin_pw = [], be_generated_pw = ''pw'', be_self_signed = sample_self_signed,
     be_pair_ok = (\<lambda>c k. c = CHR ''C'' # k),
     be_load = (\<lambda>disk. let v = \<lparr>dv_file = disk, dv_mtime = (\<lambda>_. Some 1)\<rparr>
                      in \<lparr>hs_now = 1, hs_seen = v, hs_read_cert = v, hs_read_key = v, hs_stat = v\<rparr>),
     be_known_zone = (\<lambda>z. z = ''Asia/Shanghai'')\<rparr>"

definition sample_start_config :: config where
  "sample_start_config = (default_config False)\<lparr>cf_web := (cf_web (default_config False))\<lparr>wc_secret_key := replicate 32 CHR ''x''\<rparr>\<rparr>"

abbreviation sample_run :: "(web_error + running) \<times> db \<times> cert_files" where
  "sample_run \<equiv> boot sample_boot sample_start_config empty_db Map.empty"

theorem listeners_follow_certificates_witness:
  "Submission_Listener \<in> set (rn_services (projr (fst sample_run)))"
proof -
  have "\<not> isl (fst sample_run)" by code_simp
  then have "sample_run = (Inr (projr (fst sample_run)), fst (snd sample_run), snd (snd sample_run))"
    by (metis prod.collapse sum.collapse(2))
  note run = listeners_follow_certificates [OF this, unfolded Let_def]
  have "loads sample_boot (snd (snd sample_run))
      (chosen_pair (domain_pair (snd (ensure_admin_user (be_hash_pw sample_boot) (be_admin_pw sample_boot) (be_generated_pw sample_boot) empty_db)))
        (self_signed_pair (be_self_signed sample_boot) sample_start_config Map.empty) (smtp_pair sample_start_config))"
    by code_simp
  with run show ?thesis by blast
qed

theorem random_password_shape_witness:
  "\<exists>p. random_password None 5 = Some p \<and> length p = 16 \<and> set p \<subseteq> set password_charset"
  by (rule random_password_shape) simp_all

theorem admin_bootstrap_witness:
  "\<exists>u. users_get_by_email ''admin@example.com'' (snd (ensure_admin_user Some [] ''pw'' empty_db)) =
         (Inr u, snd (ensure_admin_user Some [] ''pw'' empty_db)) \<and> u_password_hash u = ''pw''"
proof -
  have "fst (ensure_admin_user Some [] ''pw'' empty_db) \<noteq> Admin_Exists" by code_simp
  then show ?thesis
    using admin_bootstrap [of empty_db Some "[]" "''pw''" "''pw''", OF _ _ _ prod.collapse [symmetric]]
    by (auto simp: empty_db_def)
qed

theorem fault_duplicates_admin_witness:
  "\<exists>v s'. ensure_admin_user Some ''x'' [] ((snd (ensure_admin_user Some [] ''pw'' empty_db))\<lparr>db_faults := [True]\<rparr>) =
       (Admin_Created ''x'' False, s') \<and>
     db_users s' = db_users (snd (ensure_admin_user Some [] ''pw'' empty_db)) @ [v] \<and> u_username v = ''admin''"
proof -
  let ?s = "(snd (ensure_admin_user Some [] ''pw'' empty_db))\<lparr>db_faults := [True]\<rparr>"
  have u: "hd (db_users ?s) \<in> set (db_users ?s)" "u_username (hd (db_users ?s)) = ''admin''"
    "in_domain ?s ''example.com'' (hd (db_users ?s))" by code_simp+
  show ?thesis using fault_duplicates_admin [OF _ u, of Some "''x''" "[]" "''x''"] u(2) by auto
qed

end
