(* ===== verification/Listeners.thy ===== *)
theory Listeners
  imports Startup Smtp_Server Pop3_Server Imap_Session
begin

text \<open>
  The listeners of the three protocols as they are configured: \<open>newServer\<close>, \<open>Start\<close>, \<open>StartTLS\<close> and
  \<open>StartSubmission\<close> of \<open>internal/smtp_server/server.go\<close>, \<open>internal/imap_server/server.go\<close> and
  \<open>internal/pop3_server/server.go\<close>, and which of them \<open>main.go\<close> opens. What is configured is the data that
  the protocol libraries get; accepting connections is theirs.
\<close>

datatype serving = Serve_Plain | Serve_TLS           \<comment> \<open>\<open>ListenAndServe\<close>, \<open>ListenAndServeTLS\<close>\<close>

definition tls_config_or :: "string \<Rightarrow> tls_loader option \<Rightarrow> string + tls_loader" where
  \<comment> \<open>\<open>tlsConfig\<close> of each server, with the name in its error\<close>
  "tls_config_or name loader =
     (case loader of
        None \<Rightarrow> Inl (name @ '' TLS certificate or key not configured'')
      | Some l \<Rightarrow> Inr l)"

section \<open>SMTP\<close>

record smtp_listener =
  sl_addr :: string
  sl_mode :: smtp_mode
  sl_domain :: string
  sl_max_message :: int
  sl_insecure_auth :: bool                           \<comment> \<open>AUTH on a connection without TLS\<close>
  sl_timeout :: duration
  sl_tls :: "tls_loader option"
  sl_serving :: serving

definition smtp_new_server :: "smtp_config \<Rightarrow> string \<Rightarrow> smtp_mode \<Rightarrow> tls_loader option \<Rightarrow> serving \<Rightarrow> smtp_listener" where
  "smtp_new_server cfg addr mode tls how =
     \<lparr>sl_addr = addr, sl_mode = mode, sl_domain = sc_domain cfg, sl_max_message = sc_max_message cfg,
      sl_insecure_auth = (tls = None), sl_timeout = 60 * second, sl_tls = tls, sl_serving = how\<rparr>"

definition smtp_start :: "smtp_config \<Rightarrow> tls_loader option \<Rightarrow> string + smtp_listener" where
  \<comment> \<open>a missing certificate is only logged\<close>
  "smtp_start cfg loader =
     Inr (smtp_new_server cfg (sc_addr cfg) Inbound
            (case tls_config_or ''SMTP'' loader of Inl _ \<Rightarrow> None | Inr l \<Rightarrow> Some l) Serve_Plain)"

definition smtp_start_tls :: "smtp_config \<Rightarrow> tls_loader option \<Rightarrow> string + smtp_listener" where
  "smtp_start_tls cfg loader =
     (case tls_config_or ''SMTP'' loader of
        Inl e \<Rightarrow> Inl e
      | Inr l \<Rightarrow> Inr (smtp_new_server cfg (sc_tls_addr cfg) Implicit_TLS (Some l) Serve_TLS))"

definition smtp_start_submission :: "smtp_config \<Rightarrow> tls_loader option \<Rightarrow> string + smtp_listener" where
  "smtp_start_submission cfg loader =
     (case tls_config_or ''SMTP'' loader of
        Inl e \<Rightarrow> Inl e
      | Inr l \<Rightarrow> Inr (smtp_new_server cfg (sc_submission_addr cfg) Submission (Some l) Serve_Plain))"

section \<open>IMAP\<close>

definition imap_caps :: "string list" where
  "imap_caps = [''IMAP4rev1'', ''UIDPLUS'', ''MOVE'', ''LITERAL+'', ''CHILDREN'', ''SPECIAL-USE'']"

record imap_listener =
  il_addr :: string
  il_caps :: "string list"
  il_port :: int                                     \<comment> \<open>what the session factory hands to its sessions\<close>
  il_insecure_auth :: bool
  il_tls :: "tls_loader option"
  il_serving :: serving

definition imap_new_server :: "string \<Rightarrow> tls_loader option \<Rightarrow> serving \<Rightarrow> imap_listener" where
  "imap_new_server addr tls how =
     \<lparr>il_addr = addr, il_caps = imap_caps, il_port = port_of addr, il_insecure_auth = (tls = None),
      il_tls = tls, il_serving = how\<rparr>"

definition imap_start :: "imap_config \<Rightarrow> tls_loader option \<Rightarrow> string + imap_listener" where
  "imap_start cfg loader =
     Inr (imap_new_server (ic_addr cfg) (case tls_config_or ''IMAP'' loader of Inl _ \<Rightarrow> None | Inr l \<Rightarrow> Some l) Serve_Plain)"

definition imap_start_tls :: "imap_config \<Rightarrow> tls_loader option \<Rightarrow> string + imap_listener" where
  "imap_start_tls cfg loader =
     (case tls_config_or ''IMAP'' loader of
        Inl e \<Rightarrow> Inl e
      | Inr l \<Rightarrow> Inr (imap_new_server (ic_tls_addr cfg) (Some l) Serve_TLS))"

definition imap_accept :: "imap_listener \<Rightarrow> string \<Rightarrow> gotime \<Rightarrow> nat \<Rightarrow> imap_world \<Rightarrow> imap_world" where
  \<comment> \<open>\<open>newSessionFactory\<close>: the session of a new connection\<close>
  "imap_accept l = open_session (il_port l)"

section \<open>POP3\<close>

record pop3_listener =
  pl_addr :: string
  pl_port :: int
  pl_tls :: "tls_loader option"                      \<comment> \<open>of an implicit TLS listener\<close>
  pl_stls :: bool                                    \<comment> \<open>whether a connection can be upgraded\<close>

definition pop3_start :: "(string \<Rightarrow> bool) \<Rightarrow> pop3_config \<Rightarrow> tls_loader option \<Rightarrow> string + pop3_listener" where
  \<comment> \<open>the first argument is whether \<open>net.Listen\<close> gets the address\<close>
  "pop3_start bound cfg loader =
     (if \<not> bound (pc_addr cfg) then Inl ''POP3 listen failed''
      else Inr \<lparr>pl_addr = pc_addr cfg, pl_port = port_of (pc_addr cfg), pl_tls = None, pl_stls = (loader \<noteq> None)\<rparr>)"

definition pop3_start_tls :: "(string \<Rightarrow> bool) \<Rightarrow> pop3_config \<Rightarrow> tls_loader option \<Rightarrow> string + pop3_listener" where
  "pop3_start_tls bound cfg loader =
     (case tls_config_or ''POP3'' loader of
        Inl e \<Rightarrow> Inl e
      | Inr l \<Rightarrow>
          if \<not> bound (pc_tls_addr cfg) then Inl ''POP3 TLS listen failed''
          else Inr \<lparr>pl_addr = pc_tls_addr cfg, pl_port = port_of (pc_tls_addr cfg), pl_tls = Some l, pl_stls = True\<rparr>)"

section \<open>What \<open>main\<close> opens\<close>

datatype listener = Smtp_On smtp_listener | Imap_On imap_listener | Pop3_On pop3_listener

definition opened :: "('a \<Rightarrow> listener) \<Rightarrow> string + 'a \<Rightarrow> listener list" where
  \<comment> \<open>an error of a start is logged\<close>
  "opened f r = (case r of Inl _ \<Rightarrow> [] | Inr x \<Rightarrow> [f x])"

definition main_listeners :: "(string \<Rightarrow> bool) \<Rightarrow> running \<Rightarrow> listener list" where
  "main_listeners bound rn =
     (let sc = cf_smtp (rn_config rn); ic = cf_imap (rn_config rn); pc = cf_pop3 (rn_config rn)
      in opened Imap_On (imap_start ic (rn_imap_tls rn)) @
         (if ic_tls_cert ic \<noteq> [] \<and> ic_tls_key ic \<noteq> [] then opened Imap_On (imap_start_tls ic (rn_imap_tls rn)) else []) @
         opened Smtp_On (smtp_start sc (rn_smtp_tls rn)) @
         (if sc_tls_cert sc \<noteq> [] \<and> sc_tls_key sc \<noteq> []
          then opened Smtp_On (smtp_start_tls sc (rn_smtp_tls rn)) @ opened Smtp_On (smtp_start_submission sc (rn_smtp_tls rn))
          else []) @
         opened Pop3_On (pop3_start bound pc (rn_pop3_tls rn)) @
         (if pc_tls_cert pc \<noteq> [] \<and> pc_tls_key pc \<noteq> [] then opened Pop3_On (pop3_start_tls bound pc (rn_pop3_tls rn)) else []))"

fun service_of :: "listener \<Rightarrow> service" where
  "service_of (Imap_On l) = (if il_serving l = Serve_TLS then Imaps_Listener else Imap_Listener)"
| "service_of (Smtp_On l) =
     (case sl_mode l of Inbound \<Rightarrow> Smtp_Listener | Submission \<Rightarrow> Submission_Listener | Implicit_TLS \<Rightarrow> Smtps_Listener)"
| "service_of (Pop3_On l) = (if pl_tls l = None then Pop3_Listener else Pop3s_Listener)"

fun protocol_service :: "service \<Rightarrow> bool" where
  "protocol_service Outbound_Workers = False"
| "protocol_service Web_Listener = False"
| "protocol_service Log_Cleaner = False"
| "protocol_service _ = True"

text \<open>
  The SMTP and IMAP libraries refuse a login without TLS unless the server allows it (\<open>AllowInsecureAuth\<close>,
  \<open>InsecureAuth\<close>). The POP3 server has no such setting; whether it takes a password is for its handlers to
  say: \<open>pass_logs_in\<close> is that \<open>PASS\<close> with the right password of the user named before makes the connection
  a logged-in one, given whether a certificate is loaded and whether the connection is under TLS.
\<close>

definition pass_logs_in :: "bool \<Rightarrow> bool \<Rightarrow> bool" where
  "pass_logs_in loader tls \<longleftrightarrow>
     (\<forall>srv peer now pw st u0 u d.
        ps_tls_loader srv = loader \<and> po_tls st = tls \<and> po_user st = Some u0 \<and> u_id u \<noteq> 0 \<and>
        guarded_login (ps_check_pw srv) (ps_ban srv) now (pk_ip peer) (u_username u0) pw (po_db st) = (Some u, d) \<longrightarrow>
        is_authenticated (snd (pop3_dispatch srv peer now ''PASS'' pw st)))"

lemma pass_logs_in: "pass_logs_in loader tls"
  unfolding pass_logs_in_def
  by (auto simp: pop3_dispatch_def handle_pass_def after_pass_def is_authenticated_def send_response_def Let_def
      split: prod.splits)

fun clear_login :: "listener \<Rightarrow> bool" where
  \<comment> \<open>whether a client can log in over a connection without TLS\<close>
  "clear_login (Imap_On l) \<longleftrightarrow> il_insecure_auth l \<and> il_serving l = Serve_Plain"
| "clear_login (Smtp_On l) \<longleftrightarrow> sl_insecure_auth l \<and> sl_serving l = Serve_Plain"
| "clear_login (Pop3_On l) \<longleftrightarrow> pl_tls l = None \<and> pass_logs_in (pl_stls l) False"

section \<open>Properties\<close>

lemmas start_defs = smtp_start_def smtp_start_tls_def smtp_start_submission_def smtp_new_server_def
  imap_start_def imap_start_tls_def imap_new_server_def pop3_start_def pop3_start_tls_def tls_config_or_def opened_def

text \<open>C37: no password in the clear where there is a certificate. The listeners that the servers of the three
  protocols open are exactly the services of the program, in its order; each of them that speaks SMTP or
  IMAP takes a login without TLS if and only if the certificate of its protocol does not load; the
  submission port and the implicit TLS ports never do. POP3 is the exception: on its plain port the right
  password logs a client in without TLS, whether or not there is a certificate.\<close>

theorem clear_login_only_without_certificate:
  assumes "boot be cf s disk = (Inr rn, s', disk')"
  shows "map service_of (main_listeners (\<lambda>_. True) rn) = filter protocol_service (rn_services rn) \<and>
    list_all (\<lambda>l. clear_login l =
      (case service_of l of
         Imap_Listener \<Rightarrow> \<not> loads be disk' (imap_pair (rn_config rn))
       | Smtp_Listener \<Rightarrow> \<not> loads be disk' (smtp_pair (rn_config rn))
       | Pop3_Listener \<Rightarrow> True
       | _ \<Rightarrow> False)) (main_listeners bound rn)"
proof -
  have load: "rn_smtp_tls rn \<noteq> None \<longleftrightarrow> loads be disk' (smtp_pair (rn_config rn))"
    "rn_imap_tls rn \<noteq> None \<longleftrightarrow> loads be disk' (imap_pair (rn_config rn))"
    unfolding boot_loaders [OF assms] by (rule boot_loader_runs, rule boot_pairs [OF assms])+
  have "map service_of (main_listeners (\<lambda>_. True) rn) = filter protocol_service (rn_services rn)"
    unfolding boot_services [OF assms]
    by (cases "rn_smtp_tls rn"; cases "rn_imap_tls rn"; cases "rn_pop3_tls rn")
       (simp_all add: main_listeners_def start_defs tls_services_def pair_defs Let_def)
  moreover have "list_all (\<lambda>l. clear_login l =
      (case service_of l of Imap_Listener \<Rightarrow> rn_imap_tls rn = None | Smtp_Listener \<Rightarrow> rn_smtp_tls rn = None
       | Pop3_Listener \<Rightarrow> True | _ \<Rightarrow> False)) (main_listeners bound rn)"
    by (cases "rn_smtp_tls rn"; cases "rn_imap_tls rn"; cases "rn_pop3_tls rn")
       (simp_all add: main_listeners_def start_defs Let_def pass_logs_in)
  moreover have "(\<not> loads be disk' (smtp_pair (rn_config rn))) = (rn_smtp_tls rn = None)"
    "(\<not> loads be disk' (imap_pair (rn_config rn))) = (rn_imap_tls rn = None)" using load by blast+
  ultimately show ?thesis by (simp only: conj_assoc simp_thms)
qed

theorem clear_login_only_without_certificate_witness:
  "map service_of (main_listeners (\<lambda>_. True) (projr (fst sample_run))) =
     [Imap_Listener, Imaps_Listener, Smtp_Listener, Smtps_Listener, Submission_Listener, Pop3_Listener, Pop3s_Listener]"
proof -
  have "\<not> isl (fst sample_run)" by code_simp
  then have "sample_run = (Inr (projr (fst sample_run)), fst (snd sample_run), snd (snd sample_run))"
    by (metis prod.collapse sum.collapse(2))
  note clear_login_only_without_certificate [OF this, THEN conjunct1]
  moreover have "filter protocol_service (rn_services (projr (fst sample_run))) =
     [Imap_Listener, Imaps_Listener, Smtp_Listener, Smtps_Listener, Submission_Listener, Pop3_Listener, Pop3s_Listener]"
    by code_simp
  ultimately show ?thesis by metis
qed

end
