(* ===== verification/Db_Open.thy ===== *)
theory Db_Open
  imports Config Attachment_Storage Account_Store
begin

text \<open>
  Opening the database (\<open>internal/db/db.go\<close>): the driver and its data source, and the repair of the ban
  table of older versions before GORM migrates it. The drivers and GORM's \<open>AutoMigrate\<close> are parameters.
\<close>

section \<open>The data source\<close>

definition sqlite_path :: "string \<Rightarrow> string \<Rightarrow> string" where
  \<comment> \<open>a default path moves below the storage directory\<close>
  "sqlite_path base dsn =
     (if dsn = default_dsn True \<or> dsn = default_dsn False then path_join base ''mail.db'' else dsn)"

definition sqlite_dsn :: "string \<Rightarrow> string" where
  "sqlite_dsn dsn =
     dsn @ (if contains dsn ''?'' then ''&'' else ''?'') @ ''_busy_timeout=5000&_journal_mode=WAL&_synchronous=NORMAL''"

section \<open>The ban table of older versions\<close>

text \<open>In older versions the address was not unique, and its index was a plain one of the same name.\<close>

record stored_db =
  sd_db :: db
  sd_has_bans :: bool        \<comment> \<open>whether the table is there at all\<close>
  sd_legacy_index :: bool

definition on_stored :: "(db \<Rightarrow> 'a \<times> db) \<Rightarrow> stored_db \<Rightarrow> 'a \<times> stored_db" where
  "on_stored f sd = (case f (sd_db sd) of (r, s) \<Rightarrow> (r, sd\<lparr>sd_db := s\<rparr>))"

definition max_ids :: "ban_entry list \<Rightarrow> nat list" where
  \<comment> \<open>\<open>SELECT MAX(id) FROM ban_entries GROUP BY ip_address\<close>\<close>
  "max_ids bs =
     map (\<lambda>ip. Max (set (map b_id (filter (\<lambda>b. b_ip_address b = ip) bs)))) (remdups (map b_ip_address bs))"

definition drop_duplicates :: "ban_entry list \<Rightarrow> ban_entry list" where
  "drop_duplicates bs = filter (\<lambda>b. \<not> b_id b \<notin> set (max_ids bs)) bs"

definition dedupe_ban_entries :: "stored_db \<Rightarrow> stored_db" where
  \<comment> \<open>every error is at most logged\<close>
  "dedupe_ban_entries sd =
     snd (on_stored (db_stmt (\<lambda>s. if sd_has_bans sd then (Inr (), s\<lparr>db_bans := drop_duplicates (db_bans s)\<rparr>)
                                  else (Inl ErrDb, s))) sd)"

definition drop_legacy_ban_index :: "string \<Rightarrow> stored_db \<Rightarrow> stored_db" where
  "drop_legacy_ban_index driver sd =
     (if driver \<noteq> ''mysql'' then sd
      else case on_stored (db_query (\<lambda>_. if sd_has_bans sd \<and> sd_legacy_index sd then 1 else 0 :: nat)) sd of
             (Inl _, sd1) \<Rightarrow> sd1
           | (Inr n, sd1) \<Rightarrow>
               if n = 0 then sd1
               else (case on_stored (db_exec (\<lambda>s. s)) sd1 of
                       (Inl _, sd2) \<Rightarrow> sd2
                     | (Inr _, sd2) \<Rightarrow> sd2\<lparr>sd_legacy_index := False\<rparr>))"

section \<open>Opening\<close>

datatype init_error = Dir_Failed string | Unknown_Driver string | Connect_Failed | Migrate_Failed

record init_env =
  ie_mkdir :: "string \<Rightarrow> bool"
  ie_open :: "string \<Rightarrow> string \<Rightarrow> stored_db option"            \<comment> \<open>driver and source\<close>
  ie_migrate :: "string \<Rightarrow> stored_db \<Rightarrow> stored_db option"      \<comment> \<open>\<open>AutoMigrate\<close> of all models\<close>

definition data_source :: "(string \<Rightarrow> bool) \<Rightarrow> database_config \<Rightarrow> storage_config \<Rightarrow> init_error + string" where
  "data_source mkdir dbc stc =
     (if dbc_driver dbc = ''sqlite'' then
        (let path = sqlite_path (stc_base_dir stc) (dbc_dsn dbc)
         in if mkdir (path_dir path) then Inr (sqlite_dsn path) else Inl (Dir_Failed (path_dir path)))
      else if dbc_driver dbc = ''mysql'' then Inr (dbc_dsn dbc)
      else Inl (Unknown_Driver (dbc_driver dbc)))"

definition init_db :: "init_env \<Rightarrow> database_config \<Rightarrow> storage_config \<Rightarrow> init_error + stored_db" where
  "init_db ie dbc stc =
     (case data_source (ie_mkdir ie) dbc stc of
        Inl e \<Rightarrow> Inl e
      | Inr dsn \<Rightarrow>
          (case ie_open ie (dbc_driver dbc) dsn of
             None \<Rightarrow> Inl Connect_Failed
           | Some sd \<Rightarrow>
               (case ie_migrate ie (dbc_driver dbc)
                       (drop_legacy_ban_index (dbc_driver dbc) (dedupe_ban_entries sd)) of
                  None \<Rightarrow> Inl Migrate_Failed
                | Some sd' \<Rightarrow> Inr sd')))"

section \<open>What the repair leaves\<close>

definition newest :: "ban_entry list \<Rightarrow> ban_entry \<Rightarrow> bool" where
  "newest bs b \<longleftrightarrow> (\<forall>c \<in> set bs. b_ip_address c = b_ip_address b \<longrightarrow> b_id c \<le> b_id b)"

lemma max_ids_iff:
  assumes "distinct (map b_id bs)" and "b \<in> set bs"
  shows "b_id b \<in> set (max_ids bs) \<longleftrightarrow> newest bs b"
proof -
  let ?ids = "\<lambda>ip. set (map b_id (filter (\<lambda>b. b_ip_address b = ip) bs))"
  have same: "c = b" if "c \<in> set bs" "b_id c = b_id b" for c
    using that assms by (metis distinct_map inj_onD)
  have mx: "Max (?ids (b_ip_address c)) \<in> ?ids (b_ip_address c)" if "c \<in> set bs" for c
    using that by (intro Max_in) (auto simp: filter_empty_conv)
  show ?thesis
  proof
    assume "b_id b \<in> set (max_ids bs)"
    then obtain c where c: "c \<in> set bs" "b_id b = Max (?ids (b_ip_address c))" by (auto simp: max_ids_def)
    from mx [OF c(1)] c(2) obtain b' where "b' \<in> set bs" "b_ip_address b' = b_ip_address c" "b_id b' = b_id b" by auto
    with same have ip: "b_ip_address b = b_ip_address c" by metis
    show "newest bs b" unfolding newest_def c(2) ip by (auto intro!: Max_ge)
  next
    assume n: "newest bs b"
    have "Max (?ids (b_ip_address b)) = b_id b"
      using assms(2) n by (intro Max_eqI) (auto simp: newest_def)
    then show "b_id b \<in> set (max_ids bs)"
      using assms(2) by (auto simp: max_ids_def intro!: rev_image_eqI [of "b_ip_address b"])
  qed
qed

lemma drop_duplicates_newest:
  assumes "distinct (map b_id bs)"
  shows "drop_duplicates bs = filter (newest bs) bs"
  unfolding drop_duplicates_def using max_ids_iff [OF assms] by (intro filter_cong) simp_all

lemma newest_exists:
  assumes "b \<in> set bs"
  shows "\<exists>c \<in> set bs. b_ip_address c = b_ip_address b \<and> newest bs c"
proof -
  let ?S = "{c \<in> set bs. b_ip_address c = b_ip_address b}"
  have "finite ?S" "?S \<noteq> {}" using assms by auto
  from finite_imageI [OF this(1), of b_id] this(2) obtain c where "c \<in> ?S" "b_id c = Max (b_id ` ?S)"
    using Max_in [of "b_id ` ?S"] by fastforce
  with \<open>finite ?S\<close> show ?thesis by (intro bexI [of _ c]) (auto simp: newest_def)
qed

lemma drop_duplicates_unique:
  assumes "distinct (map b_id bs)"
  shows "distinct (map b_ip_address (drop_duplicates bs))"
proof -
  have "inj_on b_ip_address (set (filter (newest bs) bs))"
  proof (rule inj_onI)
    fix b c assume "b \<in> set (filter (newest bs) bs)" "c \<in> set (filter (newest bs) bs)" "b_ip_address b = b_ip_address c"
    then have "b \<in> set bs" "c \<in> set bs" "b_id b = b_id c" by (auto simp: newest_def intro!: le_antisym)
    with assms show "b = c" by (metis distinct_map inj_onD)
  qed
  moreover have "distinct bs" using assms by (metis distinct_map)
  ultimately show ?thesis by (simp add: drop_duplicates_newest [OF assms] distinct_map)
qed

lemma addresses_kept: "b_ip_address ` set (filter (newest bs) bs) = b_ip_address ` set bs"
proof (intro equalityI subsetI)
  fix ip assume "ip \<in> b_ip_address ` set bs"
  then obtain b where "b \<in> set bs" "ip = b_ip_address b" by blast
  with newest_exists [OF this(1)] obtain c where "c \<in> set (filter (newest bs) bs)" "ip = b_ip_address c" by auto
  then show "ip \<in> b_ip_address ` set (filter (newest bs) bs)" by (rule rev_image_eqI)
qed auto

text \<open>An old database is opened. Whatever duplicates and legacy index its ban table has, if the database
  answers and GORM migrates a table whose addresses are unique and which has no index of the new one's name,
  then the start goes on, and of the bans exactly the newest row of each address is left; every
  address that had one still has one, and no other table is touched.\<close>

theorem old_database_opens:
  assumes "data_source (ie_mkdir ie) dbc stc = Inr dsn" and "ie_open ie (dbc_driver dbc) dsn = Some sd"
    and "db_faults (sd_db sd) = []" and "sd_has_bans sd" and "distinct (map b_id (db_bans (sd_db sd)))"
    and "\<And>driver t. distinct (map b_ip_address (db_bans (sd_db t))) \<Longrightarrow> driver = ''mysql'' \<longrightarrow> \<not> sd_legacy_index t \<Longrightarrow>
       \<exists>t'. ie_migrate ie driver t = Some t' \<and> sd_db t' = sd_db t"
  shows "\<exists>sd'. init_db ie dbc stc = Inr sd' \<and>
     sd_db sd' = (sd_db sd)\<lparr>db_bans := filter (newest (db_bans (sd_db sd))) (db_bans (sd_db sd))\<rparr> \<and>
     distinct (map b_ip_address (db_bans (sd_db sd'))) \<and>
     b_ip_address ` set (db_bans (sd_db sd')) = b_ip_address ` set (db_bans (sd_db sd))"
proof -
  let ?bs = "db_bans (sd_db sd)"
  let ?sd1 = "dedupe_ban_entries sd"
  let ?sd2 = "drop_legacy_ban_index (dbc_driver dbc) ?sd1"
  have 1: "?sd1 = sd\<lparr>sd_db := (sd_db sd)\<lparr>db_bans := drop_duplicates ?bs\<rparr>\<rparr>"
    using assms(3,4) by (simp add: dedupe_ban_entries_def on_stored_def db_stmt_def)
  then have "db_faults (sd_db ?sd1) = []" using assms(3) by simp
  then have 2: "sd_db ?sd2 = sd_db ?sd1 \<and> (dbc_driver dbc = ''mysql'' \<longrightarrow> \<not> sd_legacy_index ?sd2)"
    using 1 assms(4) by (simp add: drop_legacy_ban_index_def on_stored_def db_query_ok db_exec_ok)
  have u: "distinct (map b_ip_address (db_bans (sd_db ?sd2)))" using 1 2 drop_duplicates_unique [OF assms(5)] by simp
  from assms(6) [OF u] 2 obtain t' where t': "ie_migrate ie (dbc_driver dbc) ?sd2 = Some t'" "sd_db t' = sd_db ?sd2" by blast
  note addresses_kept [of ?bs]
  then show ?thesis using assms(1,2) t' 1 2 u drop_duplicates_newest [OF assms(5)]
    by (intro exI [of _ t']) (simp add: init_db_def)
qed

definition sample_ban :: "nat \<Rightarrow> string \<Rightarrow> ban_entry" where
  "sample_ban i ip = \<lparr>b_id = i, b_ip_address = ip, b_reason = NoReason, b_fail_count = 0, b_ban_count = 1, b_expires_at = 0\<rparr>"

definition sample_stored :: stored_db where
  "sample_stored = \<lparr>sd_db = empty_db\<lparr>db_bans := [sample_ban 1 ''10.0.0.1'', sample_ban 2 ''10.0.0.2'', sample_ban 3 ''10.0.0.1'']\<rparr>,
     sd_has_bans = True, sd_legacy_index = True\<rparr>"

definition sample_init :: init_env where
  "sample_init = \<lparr>ie_mkdir = (\<lambda>_. True), ie_open = (\<lambda>_ _. Some sample_stored),
     ie_migrate = (\<lambda>driver sd. if distinct (map b_ip_address (db_bans (sd_db sd))) \<and> (driver \<noteq> ''mysql'' \<or> \<not> sd_legacy_index sd)
                               then Some sd else None)\<rparr>"

theorem old_database_opens_witness:
  "\<exists>sd'. init_db sample_init \<lparr>dbc_driver = ''mysql'', dbc_dsn = ''d''\<rparr> \<lparr>stc_base_dir = ''/srv'', stc_attach_dir = ''/srv/a''\<rparr> = Inr sd' \<and>
     sd_db sd' = (sd_db sample_stored)\<lparr>db_bans := filter (newest (db_bans (sd_db sample_stored))) (db_bans (sd_db sample_stored))\<rparr> \<and>
     distinct (map b_ip_address (db_bans (sd_db sd'))) \<and>
     b_ip_address ` set (db_bans (sd_db sd')) = b_ip_address ` set (db_bans (sd_db sample_stored))"
  by (rule old_database_opens [where dsn = "''d''"])
     (auto simp: data_source_def sample_init_def sample_stored_def sample_ban_def empty_db_def)

lemma sample_repair:
  "map b_id (drop_duplicates (db_bans (sd_db sample_stored))) = [2, 3]"
  by code_simp

end
