(* ===== verification/Migrate.thy ===== *)
theory Migrate
  imports Mail_Store Outbound_Store Log_Store Ban_Store Account_Store "HOL-Library.Multiset"
begin

text \<open>
  The tool that copies an SQLite database into a MySQL one (\<open>cmd/migrate/main.go\<close>), after both have been
  opened. Every failure ends the program (\<open>log.Fatalf\<close>) with what has been copied so far. Six tables go through
  GORM's \<open>Create\<close>, which refuses an empty list and replaces zero values by the declared defaults; two are
  copied by plain SQL. The precision of a MySQL time column is the parameter \<open>tt\<close>. The columns are those of
  \<open>DB_Models\<close>; the times \<open>created_at\<close> and \<open>updated_at\<close> of domains, accounts, attachments, queued messages,
  bans and folder states, which no code reads (one template shows that of a queued message), are in
  neither.
\<close>

section \<open>Steps\<close>

datatype migrate_error = Read_Failed string | Write_Failed string | Table_Failed string | Check_Failed string

type_synonym 'a migration = "db \<times> db \<Rightarrow> (migrate_error + 'a) \<times> db \<times> db"  \<comment> \<open>source and target\<close>

definition andthen :: "'a migration \<Rightarrow> ('a \<Rightarrow> 'b migration) \<Rightarrow> 'b migration" where
  "andthen m k st = (case m st of (Inl e, st1) \<Rightarrow> (Inl e, st1) | (Inr x, st1) \<Rightarrow> k x st1)"

definition stop :: "'a \<Rightarrow> 'a migration" where
  "stop x st = (Inr x, st)"

definition read_rows :: "string \<Rightarrow> (db \<Rightarrow> 'r list) \<Rightarrow> 'r list migration" where
  "read_rows name f = (\<lambda>(src, dst).
     case db_query f src of (Inl _, src1) \<Rightarrow> (Inl (Read_Failed name), src1, dst) | (Inr xs, src1) \<Rightarrow> (Inr xs, src1, dst))"

definition write_rows :: "string \<Rightarrow> (db \<Rightarrow> db option) \<Rightarrow> unit migration" where
  \<comment> \<open>\<open>None\<close> is a violated key\<close>
  "write_rows name put = (\<lambda>(src, dst).
     case db_stmt (\<lambda>s. case put s of None \<Rightarrow> (Inl ErrUniqueConflict, s) | Some s' \<Rightarrow> (Inr (), s')) dst of
       (Inl _, dst1) \<Rightarrow> (Inl (Write_Failed name), src, dst1)
     | (Inr _, dst1) \<Rightarrow> (Inr (), src, dst1))"

definition copy_table :: "string \<Rightarrow> (db \<Rightarrow> 'r list) \<Rightarrow> ('r list \<Rightarrow> db \<Rightarrow> db option) \<Rightarrow> nat migration" where
  \<comment> \<open>GORM's \<open>Create\<close> returns an error for an empty slice\<close>
  "copy_table name rows put =
     andthen (read_rows name rows) (\<lambda>xs.
     andthen (if xs = [] then (\<lambda>st. (Inl (Write_Failed name), st)) else write_rows name (put xs)) (\<lambda>_.
     stop (length xs)))"

fun each :: "('r \<Rightarrow> unit migration) \<Rightarrow> 'r list \<Rightarrow> unit migration" where
  "each f [] = stop ()"
| "each f (x # xs) = andthen (f x) (\<lambda>_. each f xs)"

definition check_count :: "string \<Rightarrow> (db \<Rightarrow> nat) \<Rightarrow> nat \<Rightarrow> unit migration" where
  "check_count name count_of want = (\<lambda>(src, dst).
     case db_query count_of dst of
       (Inl _, dst1) \<Rightarrow> (Inl (Check_Failed name), src, dst1)
     | (Inr n, dst1) \<Rightarrow> if n \<noteq> want then (Inl (Check_Failed name), src, dst1) else (Inr (), src, dst1))"

section \<open>Tables\<close>

definition fits :: "('r \<Rightarrow> 'k) \<Rightarrow> 'r list \<Rightarrow> 'r list \<Rightarrow> bool" where
  \<comment> \<open>no key of a new row is taken\<close>
  "fits key rows new \<longleftrightarrow> distinct (map key new) \<and> key ` set new \<inter> key ` set rows = {}"

definition bump :: "tbl \<Rightarrow> nat list \<Rightarrow> db \<Rightarrow> db" where
  \<comment> \<open>MySQL's counter passes every id that is inserted\<close>
  "bump t ids s = s\<lparr>db_next := (db_next s)(t := foldl max (db_next s t) (map Suc ids))\<rparr>"

definition put_domains :: "domain list \<Rightarrow> db \<Rightarrow> db option" where
  "put_domains xs s =
     (if fits d_id (db_domains s) xs \<and> fits d_name (db_domains s) xs
      then Some (bump TDomains (map d_id xs)
             (s\<lparr>db_domains := sort_key d_id (db_domains s @ map (\<lambda>d. (new_domain d s)\<lparr>d_id := d_id d\<rparr>) xs)\<rparr>))
      else None)"

definition put_users :: "user list \<Rightarrow> db \<Rightarrow> db option" where
  "put_users xs s =
     (if fits u_id (db_users s) xs
      then Some (bump TUsers (map u_id xs)
             (s\<lparr>db_users := sort_key u_id (db_users s @ map (\<lambda>u. (new_user u s)\<lparr>u_id := u_id u\<rparr>) xs)\<rparr>))
      else None)"

definition utc_message :: "(gotime \<Rightarrow> gotime) \<Rightarrow> message \<Rightarrow> message" where
  "utc_message tt m = m\<lparr>m_date := tt (m_date m), m_created_at := tt (m_created_at m)\<rparr>"

definition put_messages :: "(gotime \<Rightarrow> gotime) \<Rightarrow> gotime \<Rightarrow> message list \<Rightarrow> db \<Rightarrow> db option" where
  "put_messages tt now xs s =
     (if fits m_id (db_messages s) xs
      then Some (bump TMessages (map m_id xs)
             (s\<lparr>db_messages := sort_key m_id
                 (db_messages s @ map (\<lambda>m. utc_message tt ((new_message now m s)\<lparr>m_id := m_id m\<rparr>)) xs)\<rparr>))
      else None)"

definition put_attachments :: "attachment list \<Rightarrow> db \<Rightarrow> db option" where
  "put_attachments xs s =
     (if fits a_id (db_attachments s) xs
      then Some (bump TAttachments (map a_id xs) (s\<lparr>db_attachments := sort_key a_id (db_attachments s @ xs)\<rparr>))
      else None)"

definition utc_outbound :: "(gotime \<Rightarrow> gotime) \<Rightarrow> outbound_message \<Rightarrow> outbound_message" where
  "utc_outbound tt m = m\<lparr>o_next_attempt_at := tt (o_next_attempt_at m), o_completed_at := map_option tt (o_completed_at m)\<rparr>"

definition put_outbound :: "(gotime \<Rightarrow> gotime) \<Rightarrow> outbound_message list \<Rightarrow> db \<Rightarrow> db option" where
  "put_outbound tt xs s =
     (if fits o_id (db_outbound s) xs
      then Some (bump TOutbound (map o_id xs)
             (s\<lparr>db_outbound := sort_key o_id (db_outbound s @ map (utc_outbound tt) xs)\<rparr>))
      else None)"

definition put_ban :: "(gotime \<Rightarrow> gotime) \<Rightarrow> ban_entry \<Rightarrow> db \<Rightarrow> db option" where
  \<comment> \<open>a zero time is stored as \<open>NULL\<close>, which reads as zero again\<close>
  "put_ban tt b s =
     (if fits b_id (db_bans s) [b] \<and> fits b_ip_address (db_bans s) [b]
      then Some (bump TBans [b_id b]
             (s\<lparr>db_bans := sort_key b_id (db_bans s @ [b\<lparr>b_expires_at := (if b_expires_at b = 0 then 0 else tt (b_expires_at b))\<rparr>])\<rparr>))
      else None)"

definition put_logs :: "(gotime \<Rightarrow> gotime) \<Rightarrow> protocol_log list \<Rightarrow> db \<Rightarrow> db option" where
  "put_logs tt xs s =
     (if fits p_id (db_logs s) xs
      then Some (bump TLogs (map p_id xs)
             (s\<lparr>db_logs := sort_key p_id (db_logs s @ map (\<lambda>l. l\<lparr>p_created_at := tt (p_created_at l)\<rparr>) xs)\<rparr>))
      else None)"

definition put_state :: "mailbox_state \<Rightarrow> db \<Rightarrow> db option" where
  "put_state st s =
     (if fits (\<lambda>t. (ms_user_id t, ms_folder t)) (db_mailbox_states s) [st]
      then Some (s\<lparr>db_mailbox_states := db_mailbox_states s @ [st]\<rparr>) else None)"

definition copy_states :: "nat option migration" where
  \<comment> \<open>\<open>InitDB\<close> has made the table in both databases: a count of zero means that the query failed; then the
      source is skipped, and for the target \<open>CREATE TABLE\<close> fails because the table is there\<close>
  "copy_states = (\<lambda>(src, dst).
     case db_query (\<lambda>_. ()) src of
       (Inl _, src1) \<Rightarrow> (Inr None, src1, dst)
     | (Inr _, src1) \<Rightarrow>
         (case db_query (\<lambda>_. ()) dst of
            (Inl _, dst1) \<Rightarrow> (Inl (Table_Failed ''mailbox_states''), src1, tick dst1)
          | (Inr _, dst1) \<Rightarrow>
              andthen (read_rows ''mailbox_states'' (\<lambda>s. db_mailbox_states s)) (\<lambda>xs.
              andthen (each (\<lambda>st. write_rows ''mailbox_states'' (put_state st)) xs) (\<lambda>_.
              stop (Some (length xs)))) (src1, dst1)))"

definition copy_bans :: "(gotime \<Rightarrow> gotime) \<Rightarrow> nat migration" where
  "copy_bans tt =
     andthen (read_rows ''ban_entries'' (\<lambda>s. sort_key b_id (db_bans s))) (\<lambda>xs.
     andthen (each (\<lambda>b. write_rows ''ban_entries'' (put_ban tt b)) xs) (\<lambda>_. stop (length xs)))"

definition check_all :: "nat \<Rightarrow> nat \<Rightarrow> nat \<Rightarrow> nat \<Rightarrow> nat \<Rightarrow> nat \<Rightarrow> nat \<Rightarrow> nat option \<Rightarrow> unit migration" where
  "check_all n_domains n_users n_messages n_attachments n_outbound n_bans n_logs n_states =
     andthen (check_count ''domains'' (\<lambda>s. length (db_domains s)) n_domains) (\<lambda>_.
     andthen (check_count ''users'' (\<lambda>s. length (db_users s)) n_users) (\<lambda>_.
     andthen (check_count ''messages'' (\<lambda>s. length (db_messages s)) n_messages) (\<lambda>_.
     andthen (check_count ''attachments'' (\<lambda>s. length (db_attachments s)) n_attachments) (\<lambda>_.
     andthen (check_count ''outbound_messages'' (\<lambda>s. length (db_outbound s)) n_outbound) (\<lambda>_.
     andthen (check_count ''ban_entries'' (\<lambda>s. length (db_bans s)) n_bans) (\<lambda>_.
     andthen (check_count ''protocol_logs'' (\<lambda>s. length (db_logs s)) n_logs) (\<lambda>_.
     case n_states of
       None \<Rightarrow> stop ()
     | Some n \<Rightarrow> check_count ''mailbox_states'' (\<lambda>s. length (db_mailbox_states s)) n)))))))"

definition migrate :: "(gotime \<Rightarrow> gotime) \<Rightarrow> gotime \<Rightarrow> unit migration" where
  "migrate tt now =
     andthen (copy_table ''domains'' (\<lambda>s. sort_key d_id (db_domains s)) put_domains) (\<lambda>n_domains.
     andthen (copy_table ''users'' (\<lambda>s. sort_key u_id (db_users s)) put_users) (\<lambda>n_users.
     andthen (copy_table ''messages'' (\<lambda>s. sort_key m_id (db_messages s)) (put_messages tt now)) (\<lambda>n_messages.
     andthen (copy_table ''attachments'' (\<lambda>s. sort_key a_id (db_attachments s)) put_attachments) (\<lambda>n_attachments.
     andthen (copy_table ''outbound_messages'' (\<lambda>s. sort_key o_id (db_outbound s)) (put_outbound tt)) (\<lambda>n_outbound.
     andthen (copy_bans tt) (\<lambda>n_bans.
     andthen (copy_table ''protocol_logs'' (\<lambda>s. sort_key p_id (db_logs s)) (put_logs tt)) (\<lambda>n_logs.
     andthen copy_states
       (check_all n_domains n_users n_messages n_attachments n_outbound n_bans n_logs))))))))"

section \<open>What a run that succeeds has copied\<close>

lemma andthen_Inr:
  "andthen m k st = (Inr y, st2) \<longleftrightarrow> (\<exists>x src1 dst1. m st = (Inr x, src1, dst1) \<and> k x (src1, dst1) = (Inr y, st2))"
  by (cases "m st") (auto simp: andthen_def split: sum.splits)

lemma stop_Inr [simp]: "stop x st = (Inr y, st2) \<longleftrightarrow> x = y \<and> st = st2"
  by (auto simp: stop_def)

lemma read_rows_Inr:
  "read_rows name f (src, dst) = (Inr xs, src', dst') \<longleftrightarrow> \<not> fault src \<and> xs = f (tick src) \<and> src' = tick src \<and> dst' = dst"
  by (auto simp: read_rows_def db_query_def db_stmt_def split: prod.splits sum.splits)

lemma write_rows_Inr:
  "write_rows name put (src, dst) = (Inr u, src', dst') \<longleftrightarrow> \<not> fault dst \<and> put (tick dst) = Some dst' \<and> src' = src"
  by (auto simp: write_rows_def db_stmt_def split: prod.splits sum.splits option.splits)

lemma copy_table_Inr:
  "copy_table name rows put (src, dst) = (Inr n, src', dst') \<longleftrightarrow>
     \<not> fault src \<and> \<not> fault dst \<and> rows (tick src) \<noteq> [] \<and> n = length (rows (tick src)) \<and> src' = tick src \<and>
     put (rows (tick src)) (tick dst) = Some dst'"
  by (auto simp: copy_table_def andthen_Inr read_rows_Inr write_rows_Inr)

lemma check_count_Inr:
  "check_count name f want (src, dst) = (Inr u, src', dst') \<Longrightarrow> src' = src \<and> dst' = tick dst"
  by (auto simp: check_count_def db_query_def db_stmt_def split: prod.splits sum.splits if_splits)

lemma bump_simps [simp]:
  "db_users (bump t ids s) = db_users s" "db_domains (bump t ids s) = db_domains s" "db_messages (bump t ids s) = db_messages s"
  "db_outbound (bump t ids s) = db_outbound s" "db_bans (bump t ids s) = db_bans s" "db_logs (bump t ids s) = db_logs s"
  "db_attachments (bump t ids s) = db_attachments s" "db_mailboxes (bump t ids s) = db_mailboxes s"
  "db_mailbox_states (bump t ids s) = db_mailbox_states s"
  by (simp_all add: bump_def)

definition same_but :: "tbl set \<Rightarrow> db \<Rightarrow> db \<Rightarrow> bool" where
  \<comment> \<open>the rows of all other tables are the same (\<open>TMailboxes\<close> is for the folder states; the folders never change)\<close>
  "same_but T s s' \<longleftrightarrow>
     (TUsers \<notin> T \<longrightarrow> db_users s' = db_users s) \<and> (TDomains \<notin> T \<longrightarrow> db_domains s' = db_domains s) \<and>
     (TMessages \<notin> T \<longrightarrow> db_messages s' = db_messages s) \<and> (TOutbound \<notin> T \<longrightarrow> db_outbound s' = db_outbound s) \<and>
     (TBans \<notin> T \<longrightarrow> db_bans s' = db_bans s) \<and> (TLogs \<notin> T \<longrightarrow> db_logs s' = db_logs s) \<and>
     (TAttachments \<notin> T \<longrightarrow> db_attachments s' = db_attachments s) \<and> (TMailboxes \<notin> T \<longrightarrow> db_mailbox_states s' = db_mailbox_states s) \<and> db_mailboxes s' = db_mailboxes s"

lemma same_but_refl [simp]: "same_but T s s"
  by (simp add: same_but_def)

lemma put_domains_Some:
  "put_domains ds s = Some s' \<Longrightarrow> same_but {TDomains} s s' \<and>
     mset (db_domains s') = mset (db_domains s) + image_mset (\<lambda>d. (new_domain d s)\<lparr>d_id := d_id d\<rparr>) (mset ds)"
  by (auto simp: put_domains_def same_but_def split: if_splits)

lemma put_users_Some:
  "put_users us s = Some s' \<Longrightarrow> same_but {TUsers} s s' \<and>
     mset (db_users s') = mset (db_users s) + image_mset (\<lambda>u. (new_user u s)\<lparr>u_id := u_id u\<rparr>) (mset us)"
  by (auto simp: put_users_def same_but_def split: if_splits)

lemma put_messages_Some:
  "put_messages tt now ms s = Some s' \<Longrightarrow> same_but {TMessages} s s' \<and>
     mset (db_messages s') = mset (db_messages s) +
       image_mset (\<lambda>m. utc_message tt ((new_message now m s)\<lparr>m_id := m_id m\<rparr>)) (mset ms)"
  by (auto simp: put_messages_def same_but_def split: if_splits)

lemma put_attachments_Some:
  "put_attachments xs s = Some s' \<Longrightarrow> same_but {TAttachments} s s' \<and>
     mset (db_attachments s') = mset (db_attachments s) + mset xs"
  by (auto simp: put_attachments_def same_but_def split: if_splits)

lemma put_outbound_Some:
  "put_outbound tt os s = Some s' \<Longrightarrow> same_but {TOutbound} s s' \<and>
     mset (db_outbound s') = mset (db_outbound s) + image_mset (utc_outbound tt) (mset os)"
  by (auto simp: put_outbound_def same_but_def split: if_splits)

lemma put_logs_Some:
  "put_logs tt ls s = Some s' \<Longrightarrow> same_but {TLogs} s s' \<and>
     mset (db_logs s') = mset (db_logs s) + image_mset (\<lambda>l. l\<lparr>p_created_at := tt (p_created_at l)\<rparr>) (mset ls)"
  by (auto simp: put_logs_def same_but_def split: if_splits)

definition utc_ban :: "(gotime \<Rightarrow> gotime) \<Rightarrow> ban_entry \<Rightarrow> ban_entry" where
  "utc_ban tt b = b\<lparr>b_expires_at := (if b_expires_at b = 0 then 0 else tt (b_expires_at b))\<rparr>"

lemma put_ban_Some:
  "put_ban tt b s = Some s' \<Longrightarrow> same_but {TBans} s s' \<and> mset (db_bans s') = add_mset (utc_ban tt b) (mset (db_bans s))"
  by (auto simp: put_ban_def same_but_def utc_ban_def split: if_splits)

lemma same_but_tick [simp]: "same_but T (tick s) s' = same_but T s s'" "same_but T s (tick s') = same_but T s s'"
  by (simp_all add: same_but_def)

lemma same_but_trans: "same_but S s t \<Longrightarrow> same_but T t u \<Longrightarrow> same_but (S \<union> T) s u"
  by (auto simp: same_but_def)

lemma copy_bans_Inr:
  assumes "copy_bans tt (src, dst) = (Inr n, src', dst')"
  shows "src' = tick src \<and> same_but {TBans} dst dst' \<and>
     mset (db_bans dst') = mset (db_bans dst) + image_mset (utc_ban tt) (mset (db_bans src))"
proof -
  have e: "each (\<lambda>b. write_rows ''ban_entries'' (put_ban tt b)) bs (s, d) = (Inr u, s', d') \<Longrightarrow>
      s' = s \<and> same_but {TBans} d d' \<and> mset (db_bans d') = mset (db_bans d) + image_mset (utc_ban tt) (mset bs)" for bs s d s' d' u
  proof (induction bs arbitrary: s d)
    case Nil
    then show ?case by (simp add: same_but_def)
  next
    case (Cons b bs)
    from Cons.prems obtain d1 where p: "put_ban tt b (tick d) = Some d1"
      and r: "each (\<lambda>b. write_rows ''ban_entries'' (put_ban tt b)) bs (s, d1) = (Inr u, s', d')"
      by (auto simp: andthen_Inr write_rows_Inr)
    from Cons.IH [OF r] put_ban_Some [OF p] show ?case
      using same_but_trans [of "{TBans}" d d1 "{TBans}" d'] by auto
  qed
  from assms show ?thesis by (auto simp: copy_bans_def andthen_Inr read_rows_Inr dest!: e)
qed

lemma copy_states_Inr:
  assumes "copy_states (src, dst) = (Inr n, src', dst')"
  shows "same_but {TMailboxes} dst dst' \<and> (n = None \<longrightarrow> db_mailbox_states dst' = db_mailbox_states dst) \<and>
    (n \<noteq> None \<longrightarrow> mset (db_mailbox_states dst') = mset (db_mailbox_states dst) + mset (db_mailbox_states src))"
proof -
  have e: "each (\<lambda>x. write_rows ''mailbox_states'' (put_state x)) xs (s, d) = (Inr u, s', d') \<Longrightarrow>
      same_but {TMailboxes} d d' \<and> mset (db_mailbox_states d') = mset (db_mailbox_states d) + mset xs" for xs s d s' d' u
  proof (induction xs arbitrary: s d)
    case Nil
    then show ?case by (simp add: same_but_def)
  next
    case (Cons x xs)
    from Cons.prems obtain d1 where p: "put_state x (tick d) = Some d1"
      and r: "each (\<lambda>x. write_rows ''mailbox_states'' (put_state x)) xs (s, d1) = (Inr u, s', d')"
      by (auto simp: andthen_Inr write_rows_Inr)
    from p have "same_but {TMailboxes} d d1 \<and> mset (db_mailbox_states d1) = add_mset x (mset (db_mailbox_states d))"
      by (auto simp: put_state_def same_but_def split: if_splits)
    with Cons.IH [OF r] same_but_trans [of "{TMailboxes}" d d1 "{TMailboxes}" d'] show ?case by simp
  qed
  from assms show ?thesis
    by (auto simp: copy_states_def db_query_def db_stmt_def andthen_Inr read_rows_Inr split: if_splits dest!: e)
qed

text \<open>What GORM's defaults make of a copied row.\<close>

definition copied_user :: "user \<Rightarrow> user" where
  "copied_user u = u\<lparr>u_quota_bytes := (if u_quota_bytes u = 0 then 5368709120 else u_quota_bytes u), u_is_active := True,
     u_language := (if u_language u = [] then ''auto'' else u_language u)\<rparr>"

lemma copied_user: "(new_user u s)\<lparr>u_id := u_id u\<rparr> = copied_user u"
  by (simp add: new_user_def copied_user_def)

lemma copied_domain:
  "d_smtp_port d \<noteq> 0 \<Longrightarrow> d_imap_port d \<noteq> 0 \<Longrightarrow> d_pop3_port d \<noteq> 0 \<Longrightarrow> d_dkim_selector d \<noteq> [] \<Longrightarrow>
   (new_domain d s)\<lparr>d_id := d_id d\<rparr> = d"
  by (simp add: new_domain_def)

lemma checks_Inr:
  assumes "andthen (check_count n f w) (\<lambda>_. k) (src, dst) = (Inr u, src', dst')"
  shows "k (src, tick dst) = (Inr u, src', dst')"
  using assms by (auto simp: andthen_Inr dest!: check_count_Inr)

lemma last_check_Inr:
  assumes "(case n of None \<Rightarrow> stop () | Some w \<Rightarrow> check_count name f w) (src, dst) = (Inr u, src', dst')"
  shows "tables dst' = tables dst"
  using assms by (auto split: option.splits dest!: check_count_Inr)

lemma same_but_tables:
  assumes "same_but T s t" and "tables u = tables t"
  shows "same_but T s u"
  using assms(1) unfolding same_but_def tables_eqD [OF assms(2)] .

lemma same_but_rows:
  assumes "same_but T s t"
  shows "TUsers \<notin> T \<Longrightarrow> db_users t = db_users s" "TDomains \<notin> T \<Longrightarrow> db_domains t = db_domains s"
    "TMessages \<notin> T \<Longrightarrow> db_messages t = db_messages s" "TOutbound \<notin> T \<Longrightarrow> db_outbound t = db_outbound s"
    "TBans \<notin> T \<Longrightarrow> db_bans t = db_bans s" "TLogs \<notin> T \<Longrightarrow> db_logs t = db_logs s"
    "TAttachments \<notin> T \<Longrightarrow> db_attachments t = db_attachments s"
    "TMailboxes \<notin> T \<Longrightarrow> db_mailbox_states t = db_mailbox_states s" "db_mailboxes t = db_mailboxes s"
  using assms by (simp_all add: same_but_def)

lemma check_all_Inr:
  assumes "check_all a b c d e f g n (src, dst) = (Inr u, src', dst')"
  shows "tables dst' = tables dst"
proof -
  note k = assms [unfolded check_all_def]
  show ?thesis
    using last_check_Inr [OF checks_Inr [OF checks_Inr [OF checks_Inr [OF checks_Inr [OF checks_Inr [OF checks_Inr [OF checks_Inr [OF k]]]]]]]]
    by simp
qed

lemma copy_stepE:
  assumes "andthen (copy_table name rows put) k (src, dst) = (Inr y, src', dst')"
  obtains d1 where "put (rows (tick src)) (tick dst) = Some d1"
    "k (length (rows (tick src))) (tick src, d1) = (Inr y, src', dst')"
  using assms by (auto simp: andthen_Inr copy_table_Inr)

lemma bans_stepE:
  assumes "andthen (copy_bans tt) k (src, dst) = (Inr y, src', dst')"
  obtains n d1 where "k n (tick src, d1) = (Inr y, src', dst')" "same_but {TBans} dst d1"
    "mset (db_bans d1) = mset (db_bans dst) + image_mset (utc_ban tt) (mset (db_bans src))"
  using assms by (auto simp: andthen_Inr dest!: copy_bans_Inr)

lemma states_stepE:
  assumes "andthen copy_states (check_all a b c d e f g) (src, dst) = (Inr y, src', dst')"
  obtains "same_but {TMailboxes} dst dst'"
    "db_mailbox_states dst' = db_mailbox_states dst \<or>
     mset (db_mailbox_states dst') = mset (db_mailbox_states dst) + mset (db_mailbox_states src)"
proof -
  from assms obtain n src1 d1 where st: "copy_states (src, dst) = (Inr n, src1, d1)"
    and c: "check_all a b c d e f g n (src1, d1) = (Inr y, src', dst')" by (auto simp: andthen_Inr)
  from copy_states_Inr [OF st] have m: "same_but {TMailboxes} dst d1" by simp
  show ?thesis
    using same_but_tables [OF m check_all_Inr [OF c]] copy_states_Inr [OF st] tables_eqD(9) [OF check_all_Inr [OF c]]
    by (intro that) auto
qed

lemma migrate_steps:
  assumes "migrate tt now (src, dst) = (Inr u, src', dst')"
  obtains d1 d2 d3 d4 d5 d6 d7 where
    "put_domains (sort_key d_id (db_domains src)) (tick dst) = Some d1"
    "put_users (sort_key u_id (db_users src)) (tick d1) = Some d2"
    "put_messages tt now (sort_key m_id (db_messages src)) (tick d2) = Some d3"
    "put_attachments (sort_key a_id (db_attachments src)) (tick d3) = Some d4"
    "put_outbound tt (sort_key o_id (db_outbound src)) (tick d4) = Some d5"
    "same_but {TBans} d5 d6" "mset (db_bans d6) = mset (db_bans d5) + image_mset (utc_ban tt) (mset (db_bans src))"
    "put_logs tt (sort_key p_id (db_logs src)) (tick d6) = Some d7"
    "same_but {TMailboxes} d7 dst'"
    "db_mailbox_states dst' = db_mailbox_states d7 \<or>
       mset (db_mailbox_states dst') = mset (db_mailbox_states d7) + mset (db_mailbox_states src)"
  using assms unfolding migrate_def
  by (elim copy_stepE bans_stepE states_stepE) (rule that, simp_all only: tick_simps)

definition blank_target :: "db \<Rightarrow> bool" where
  \<comment> \<open>the tables as \<open>AutoMigrate\<close> makes them\<close>
  "blank_target s \<longleftrightarrow> db_users s = [] \<and> db_domains s = [] \<and> db_messages s = [] \<and> db_outbound s = [] \<and> db_bans s = [] \<and>
     db_logs s = [] \<and> db_attachments s = [] \<and> db_mailboxes s = [] \<and> db_mailbox_states s = []"

lemma migrate_rows:
  assumes "migrate tt now (src, dst) = (Inr u, src', dst')" and "blank_target dst"
  shows "mset (db_users dst') = image_mset copied_user (mset (db_users src))"
    "mset (db_domains dst') = image_mset (\<lambda>d. (new_domain d dst)\<lparr>d_id := d_id d\<rparr>) (mset (db_domains src))"
    "\<exists>s. mset (db_messages dst') =
       image_mset (\<lambda>m. utc_message tt ((new_message now m s)\<lparr>m_id := m_id m\<rparr>)) (mset (db_messages src))"
    "mset (db_attachments dst') = mset (db_attachments src)"
    "mset (db_outbound dst') = image_mset (utc_outbound tt) (mset (db_outbound src))"
    "mset (db_bans dst') = image_mset (utc_ban tt) (mset (db_bans src))"
    "mset (db_logs dst') = image_mset (\<lambda>l. l\<lparr>p_created_at := tt (p_created_at l)\<rparr>) (mset (db_logs src))"
    "db_mailboxes dst' = []" "db_mailbox_states dst' = [] \<or> mset (db_mailbox_states dst') = mset (db_mailbox_states src)"
proof -
  obtain d1 d2 d3 d4 d5 d6 d7 where
    p1: "put_domains (sort_key d_id (db_domains src)) (tick dst) = Some d1" and
    p2: "put_users (sort_key u_id (db_users src)) (tick d1) = Some d2" and
    p3: "put_messages tt now (sort_key m_id (db_messages src)) (tick d2) = Some d3" and
    p4: "put_attachments (sort_key a_id (db_attachments src)) (tick d3) = Some d4" and
    p5: "put_outbound tt (sort_key o_id (db_outbound src)) (tick d4) = Some d5" and
    p6: "same_but {TBans} d5 d6" "mset (db_bans d6) = mset (db_bans d5) + image_mset (utc_ban tt) (mset (db_bans src))" and
    p7: "put_logs tt (sort_key p_id (db_logs src)) (tick d6) = Some d7" and
    p8: "same_but {TMailboxes} d7 dst'"
      "db_mailbox_states dst' = db_mailbox_states d7 \<or>
       mset (db_mailbox_states dst') = mset (db_mailbox_states d7) + mset (db_mailbox_states src)"
    using migrate_steps [OF assms(1)] by blast
  note b = assms(2) [unfolded blank_target_def]
  note put1 = put_domains_Some [OF p1] and put2 = put_users_Some [OF p2] and put3 = put_messages_Some [OF p3]
    and put4 = put_attachments_Some [OF p4] and put5 = put_outbound_Some [OF p5] and put7 = put_logs_Some [OF p7]
  note r1 = same_but_rows [OF conjunct1 [OF put1]] and r2 = same_but_rows [OF conjunct1 [OF put2]]
    and r3 = same_but_rows [OF conjunct1 [OF put3]] and r4 = same_but_rows [OF conjunct1 [OF put4]]
    and r5 = same_but_rows [OF conjunct1 [OF put5]] and r6 = same_but_rows [OF p6(1)]
    and r7 = same_but_rows [OF conjunct1 [OF put7]] and r8 = same_but_rows [OF p8(1)]
  show "mset (db_users dst') = image_mset copied_user (mset (db_users src))"
    using put2 b r1 by (simp add: r8 r7 r6 r5 r4 r3 copied_user)
  show "mset (db_domains dst') = image_mset (\<lambda>d. (new_domain d dst)\<lparr>d_id := d_id d\<rparr>) (mset (db_domains src))"
    using put1 b by (simp add: r8 r7 r6 r5 r4 r3 r2 new_domain_def)
  show "\<exists>s. mset (db_messages dst') =
       image_mset (\<lambda>m. utc_message tt ((new_message now m s)\<lparr>m_id := m_id m\<rparr>)) (mset (db_messages src))"
    using put3 b r1 r2 by (intro exI [of _ "tick d2"]) (simp add: r8 r7 r6 r5 r4)
  show "mset (db_attachments dst') = mset (db_attachments src)"
    using put4 b r1 r2 r3 by (simp add: r8 r7 r6 r5)
  show "mset (db_outbound dst') = image_mset (utc_outbound tt) (mset (db_outbound src))"
    using put5 b r1 r2 r3 r4 by (simp add: r8 r7 r6)
  show "mset (db_bans dst') = image_mset (utc_ban tt) (mset (db_bans src))"
    using p6(2) b r1 r2 r3 r4 r5 by (simp add: r8 r7)
  show "mset (db_logs dst') = image_mset (\<lambda>l. l\<lparr>p_created_at := tt (p_created_at l)\<rparr>) (mset (db_logs src))"
    using put7 b r1 r2 r3 r4 r5 r6 by (simp add: r8)
  show "db_mailboxes dst' = []" using b r1 r2 r3 r4 r5 r6 r7 r8 by simp
  show "db_mailbox_states dst' = [] \<or> mset (db_mailbox_states dst') = mset (db_mailbox_states src)"
    using p8(2) b r1 r2 r3 r4 r5 r6 r7 by simp
qed


text \<open>C39: accounts do not come through a migration as they were. GORM's \<open>Create\<close> takes a value that is zero
  for one that is not given. So after a migration into empty tables the accounts are those of the source, but
  each that was switched off is active, a quota of zero is exactly five gigabytes and an empty language is
  \<open>auto\<close>; and the table of the users' own folders is not copied at all.\<close>

theorem migration_reactivates_accounts:
  assumes "migrate tt now (src, dst) = (Inr u, src', dst')" and "blank_target dst"
  shows "mset (db_users dst') =
       image_mset (\<lambda>v. v\<lparr>u_is_active := True,
           u_quota_bytes := (if u_quota_bytes v = 0 then 5 * 1024 * 1024 * 1024 else u_quota_bytes v),
           u_language := (if u_language v = [] then ''auto'' else u_language v)\<rparr>) (mset (db_users src)) \<and>
     (\<forall>v \<in> set (db_users dst'). u_is_active v \<and> u_quota_bytes v \<noteq> 0) \<and>
     u_id ` set (db_users dst') = u_id ` set (db_users src) \<and> db_mailboxes dst' = []"
proof -
  from arg_cong [OF migrate_rows(1) [OF assms], of set_mset]
  have "set (db_users dst') = copied_user ` set (db_users src)" by simp
  moreover have "copied_user = (\<lambda>v. v\<lparr>u_is_active := True,
      u_quota_bytes := (if u_quota_bytes v = 0 then 5 * 1024 * 1024 * 1024 else u_quota_bytes v),
      u_language := (if u_language v = [] then ''auto'' else u_language v)\<rparr>)"
    by (rule ext) (simp add: copied_user_def)
  ultimately show ?thesis using migrate_rows(1,8) [OF assms] by (auto simp: copied_user_def image_iff)
qed

text \<open>A database in which one of the six tables is empty cannot be migrated: an installation whose mails have no
  attachments, say, stops half way, with what came before already in the target.\<close>

theorem empty_table_stops_migration:
  assumes "db_domains src = [] \<or> db_users src = [] \<or> db_messages src = [] \<or> db_attachments src = [] \<or>
    db_outbound src = [] \<or> db_logs src = []"
  shows "\<exists>e st. migrate tt now (src, dst) = (Inl e, st)"
proof -
  have "migrate tt now (src, dst) \<noteq> (Inr u, src', dst')" for u src' dst'
    using assms unfolding migrate_def by (auto simp: andthen_Inr copy_table_Inr dest!: copy_bans_Inr)
  then show ?thesis by (cases "migrate tt now (src, dst)"; cases "fst (migrate tt now (src, dst))") auto
qed

section \<open>An example\<close>

definition sample_source :: db where
  "sample_source = empty_db\<lparr>
     db_domains := [zero_domain\<lparr>d_id := 1, d_name := ''a.org''\<rparr>],
     db_users := [\<lparr>u_id = 4, u_username = ''u'', u_password_hash = ''h'', u_domain_id = 1, u_domain = zero_domain,
       u_quota_bytes = 0, u_used_bytes = 0, u_is_active = False, u_is_admin = False, u_must_change_password = False,
       u_language = ''en''\<rparr>],
     db_messages := [\<lparr>m_id = 9, m_user_id = 4, m_message_id = ''i'', m_folder = ''INBOX'', m_from_addr = [], m_to_addr = [],
       m_cc_addr = [], m_subject = [], m_text_body = [], m_html_body = [], m_raw_data = ''r'', m_is_read = False,
       m_is_flagged = False, m_is_deleted = False, m_date = 5, m_created_at = 5\<rparr>],
     db_attachments := [\<lparr>a_id = 2, a_message_id = 9, a_file_name = ''f'', a_file_path = ''p'', a_content_type = [], a_file_size = 1\<rparr>],
     db_outbound := [\<lparr>o_id = 3, o_message_id = ''i'', o_user_id = 4, o_from_addr = [], o_to_addr = [], o_recipient_dom = [],
       o_raw_data = [], o_status = Sent, o_attempts = 1, o_next_attempt_at = 5, o_last_response = [], o_last_error = [],
       o_completed_at = Some 6\<rparr>],
     db_logs := [\<lparr>p_id = 1, p_protocol = ''pop3'', p_port = 110, p_client_ip = ''x'', p_username = [], p_success = True,
       p_fail_reason = [], p_detail = [], p_msg_count = 0, p_duration_ms = 0, p_created_at = 5\<rparr>],
     db_mailboxes := [\<lparr>mb_id = 1, mb_user_id = 4, mb_name = ''Work'', mb_special_use = [], mb_is_subscribed = True\<rparr>]\<rparr>"

abbreviation sample_target :: db where
  "sample_target \<equiv> snd (snd (migrate (\<lambda>t. t) 1 (sample_source, empty_db)))"

lemma sample_migration:
  "migrate (\<lambda>t. t) 1 (sample_source, empty_db) = (Inr (), fst (snd (migrate (\<lambda>t. t) 1 (sample_source, empty_db))), sample_target)"
proof -
  have "\<not> isl (fst (migrate (\<lambda>t. t) 1 (sample_source, empty_db)))" by code_simp
  then show ?thesis by (metis (full_types) old.unit.exhaust prod.collapse sum.collapse(2))
qed

lemma blank_empty: "blank_target empty_db"
  by (simp add: blank_target_def empty_db_def)


theorem migration_reactivates_accounts_witness:
  "\<not> u_is_active (hd (db_users sample_source)) \<and> db_mailboxes sample_source \<noteq> [] \<and>
   list_all u_is_active (db_users sample_target) \<and> image_mset u_quota_bytes (mset (db_users sample_target)) = {#5368709120#} \<and> u_id ` set (db_users sample_target) = {4} \<and> db_mailboxes sample_target = []"
  using migration_reactivates_accounts [OF sample_migration blank_empty] by (simp add: sample_source_def list_all_iff)

theorem empty_table_stops_migration_witness:
  "\<exists>e st. migrate (\<lambda>t. t) 1 (sample_source\<lparr>db_attachments := []\<rparr>, empty_db) = (Inl e, st)"
  by (rule empty_table_stops_migration) simp

end
