(* ===== verification/Catalog_En.thy ===== *)
theory Catalog_En
  imports Go_Strings
begin

text \<open>
  The English catalogue of \<open>internal/i18n/catalog.go\<close>: for each Chinese text of the interface the one that is shown
  instead, in the sections of the source. Texts are byte strings; what is not ASCII is written by its bytes.
\<close>

definition en_clock :: "(string \<times> string) list" where
  "en_clock = [
    (utf8 [228, 184, 138, 229, 141, 136], ''AM''),
    (utf8 [228, 184, 139, 229, 141, 136], ''PM'')]"

definition en_folders :: "(string \<times> string) list" where
  "en_folders = [
    (utf8 [230, 148, 182, 228, 187, 182, 231, 174, 177], ''Inbox''),
    (utf8 [229, 183, 178, 229, 143, 145, 233, 128, 129], ''Sent''),
    (utf8 [232, 141, 137, 231, 168, 191, 231, 174, 177], ''Drafts''),
    (utf8 [229, 183, 178, 229, 136, 160, 233, 153, 164], ''Trash'')]"

definition en_sidebar :: "(string \<times> string) list" where
  "en_sidebar = [
    (utf8 [233, 130, 174, 231, 174, 177], ''Mail''),
    (utf8 [230, 144, 156, 231, 180, 162, 233, 130, 174, 228, 187, 182, 239, 188, 136, 229, 143, 145, 228, 187, 182, 228, 186, 186] @ '' / '' @ utf8 [228, 184, 187, 233, 162, 152, 239, 188, 137], ''Search mail (sender / subject)''),
    (utf8 [231, 174, 161, 231, 144, 134, 229, 144, 142, 229, 143, 176], ''Admin''),
    (utf8 [232, 174, 190, 231, 189, 174], ''Settings''),
    (utf8 [233, 128, 128, 229, 135, 186, 231, 153, 187, 229, 189, 149], ''Log out''),
    (utf8 [229, 134, 153, 228, 191, 161], ''Compose'')]"

definition en_mail_list :: "(string \<times> string) list" where
  "en_mail_list = [
    (utf8 [229, 133, 168, 233, 128, 137] @ ''/'' @ utf8 [229, 143, 150, 230, 182, 136, 229, 133, 168, 233, 128, 137], ''Select all / deselect all''),
    (utf8 [229, 133, 168, 233, 128, 137], ''Select all''),
    (utf8 [229, 136, 183, 230, 150, 176], ''Refresh''),
    (utf8 [229, 136, 160, 233, 153, 164], ''Delete''),
    (utf8 [229, 189, 187, 229, 186, 149, 229, 136, 160, 233, 153, 164], ''Delete permanently''),
    (utf8 [231, 161, 174, 229, 174, 154, 232, 166, 129, 230, 184, 133, 231, 169, 186, 227, 128, 140, 229, 183, 178, 229, 136, 160, 233, 153, 164, 227, 128, 141, 230, 150, 135, 228, 187, 182, 229, 164, 185, 229, 144, 151, 239, 188, 159, 230, 173, 164, 230, 147, 141, 228, 189, 156, 228, 184, 141, 229, 143, 175, 230, 129, 162, 229, 164, 141, 227, 128, 130], ''Empty the Trash folder? This cannot be undone.''),
    (utf8 [230, 184, 133, 231, 169, 186, 230, 150, 135, 228, 187, 182, 229, 164, 185], ''Empty folder''),
    (utf8 [229, 133, 177] @ '' %d '' @ utf8 [229, 176, 129], ''%d messages''),
    (utf8 [230, 154, 130, 230, 151, 160, 233, 130, 174, 228, 187, 182], ''No messages''),
    (utf8 [230, 148, 182, 228, 187, 182, 228, 186, 186, 239, 188, 154] @ ''%s'', ''To: %s''),
    (utf8 [232, 135, 180, 239, 188, 154], ''To: ''),
    (''('' @ utf8 [230, 151, 160, 228, 184, 187, 233, 162, 152] @ '')'', ''(no subject)''),
    (''[HTML '' @ utf8 [233, 130, 174, 228, 187, 182] @ '']'', ''[HTML email]''),
    (utf8 [231, 161, 174, 229, 174, 154, 232, 166, 129, 230, 129, 162, 229, 164, 141, 232, 191, 153, 229, 176, 129, 233, 130, 174, 228, 187, 182, 229, 144, 151, 239, 188, 159], ''Restore this message?''),
    (utf8 [230, 129, 162, 229, 164, 141, 229, 136, 176, 230, 148, 182, 228, 187, 182, 231, 174, 177], ''Restore to inbox''),
    (utf8 [231, 161, 174, 229, 174, 154, 232, 166, 129, 229, 136, 160, 233, 153, 164, 232, 191, 153, 229, 176, 129, 233, 130, 174, 228, 187, 182, 229, 144, 151, 239, 188, 159], ''Delete this message?''),
    (utf8 [231, 172, 172] @ '' %d / %d '' @ utf8 [233, 161, 181], ''Page %d of %d''),
    (utf8 [228, 184, 138, 228, 184, 128, 233, 161, 181], ''Previous''),
    (utf8 [228, 184, 139, 228, 184, 128, 233, 161, 181], ''Next''),
    (utf8 [231, 161, 174, 229, 174, 154, 232, 166, 129, 229, 136, 160, 233, 153, 164, 233, 128, 137, 228, 184, 173, 231, 154, 132] @ '' %s '' @ utf8 [229, 176, 129, 233, 130, 174, 228, 187, 182, 229, 144, 151, 239, 188, 159], ''Delete the %s selected message(s)?'')]"

definition en_mail_view :: "(string \<times> string) list" where
  "en_mail_view = [
    (utf8 [230, 159, 165, 231, 156, 139, 233, 130, 174, 228, 187, 182], ''View message''),
    (utf8 [232, 191, 148, 229, 155, 158], ''Back''),
    (utf8 [229, 155, 158, 229, 164, 141], ''Reply''),
    (utf8 [230, 129, 162, 229, 164, 141], ''Restore''),
    (utf8 [231, 161, 174, 229, 174, 154, 232, 166, 129, 229, 189, 187, 229, 186, 149, 229, 136, 160, 233, 153, 164, 232, 191, 153, 229, 176, 129, 233, 130, 174, 228, 187, 182, 229, 144, 151, 239, 188, 159, 230, 173, 164, 230, 147, 141, 228, 189, 156, 228, 184, 141, 229, 143, 175, 230, 129, 162, 229, 164, 141, 227, 128, 130], ''Permanently delete this message? This cannot be undone.''),
    (utf8 [229, 136, 160, 233, 153, 164, 233, 130, 174, 228, 187, 182], ''Delete message''),
    (utf8 [230, 138, 132, 233, 128, 129, 239, 188, 154], ''Cc: '')]"

definition en_compose :: "(string \<times> string) list" where
  "en_compose = [
    (utf8 [229, 143, 145, 233, 128, 129], ''Send''),
    (utf8 [233, 153, 132, 228, 187, 182], ''Attach''),
    (utf8 [229, 143, 150, 230, 182, 136], ''Cancel''),
    (utf8 [230, 146, 176, 229, 134, 153, 230, 150, 176, 233, 130, 174, 228, 187, 182], ''New message''),
    (utf8 [230, 148, 182, 228, 187, 182, 228, 186, 186], ''To''),
    (utf8 [232, 190, 147, 229, 133, 165, 230, 148, 182, 228, 187, 182, 228, 186, 186, 233, 130, 174, 231, 174, 177, 229, 156, 176, 229, 157, 128], ''Recipient email address''),
    (utf8 [230, 138, 132, 233, 128, 129], ''Cc''),
    (utf8 [229, 164, 154, 228, 184, 170, 229, 156, 176, 229, 157, 128, 231, 148, 168, 233, 128, 151, 229, 143, 183, 229, 136, 134, 233, 154, 148, 239, 188, 136, 229, 143, 175, 233, 128, 137, 239, 188, 137], ''Separate multiple addresses with commas (optional)''),
    (utf8 [228, 184, 187, 233, 162, 152], ''Subject''),
    (utf8 [232, 190, 147, 229, 133, 165, 233, 130, 174, 228, 187, 182, 228, 184, 187, 233, 162, 152], ''Email subject''),
    (utf8 [232, 175, 183, 232, 190, 147, 229, 133, 165, 233, 130, 174, 228, 187, 182, 229, 134, 133, 229, 174, 185] @ ''...'', ''Enter your message...''),
    (utf8 [233, 153, 132, 228, 187, 182, 233, 133, 141, 233, 162, 157], ''Attachment quota''),
    (utf8 [231, 167, 187, 233, 153, 164], ''Remove'')]"

definition en_settings :: "(string \<times> string) list" where
  "en_settings = [
    (utf8 [226, 154, 160, 239, 184, 143] @ '' '' @ utf8 [233, 166, 150, 230, 172, 161, 231, 153, 187, 229, 189, 149] @ ''/'' @ utf8 [229, 175, 134, 231, 160, 129, 229, 183, 178, 232, 162, 171, 233, 135, 141, 231, 189, 174, 239, 188, 140, 232, 175, 183, 231, 171, 139, 229, 141, 179, 228, 191, 174, 230, 148, 185, 229, 175, 134, 231, 160, 129, 229, 144, 142, 229, 134, 141, 231, 187, 167, 231, 187, 173, 228, 189, 191, 231, 148, 168, 233, 130, 174, 231, 174, 177, 229, 138, 159, 232, 131, 189, 227, 128, 130], utf8 [226, 154, 160, 239, 184, 143] @ '' First login / password has been reset. Please change your password before using the mailbox.''),
    (utf8 [232, 180, 166, 229, 143, 183, 228, 191, 161, 230, 129, 175], ''Account info''),
    (utf8 [229, 183, 178, 231, 148, 168] @ '' %s / '' @ utf8 [233, 133, 141, 233, 162, 157] @ '' %s'', ''Used %s / Quota %s''),
    (utf8 [231, 174, 161, 231, 144, 134, 229, 145, 152], ''Admin''),
    (utf8 [228, 191, 174, 230, 148, 185, 229, 175, 134, 231, 160, 129], ''Change password''),
    (utf8 [229, 189, 147, 229, 137, 141, 229, 175, 134, 231, 160, 129], ''Current password''),
    (utf8 [232, 175, 183, 232, 190, 147, 229, 133, 165, 229, 189, 147, 229, 137, 141, 229, 175, 134, 231, 160, 129], ''Enter current password''),
    (utf8 [230, 150, 176, 229, 175, 134, 231, 160, 129], ''New password''),
    (utf8 [232, 175, 183, 232, 190, 147, 229, 133, 165, 230, 150, 176, 229, 175, 134, 231, 160, 129], ''Enter new password''),
    (utf8 [231, 161, 174, 232, 174, 164, 230, 150, 176, 229, 175, 134, 231, 160, 129], ''Confirm new password''),
    (utf8 [232, 175, 183, 229, 134, 141, 230, 172, 161, 232, 190, 147, 229, 133, 165, 230, 150, 176, 229, 175, 134, 231, 160, 129], ''Re-enter new password''),
    (utf8 [231, 149, 140, 233, 157, 162, 232, 175, 173, 232, 168, 128], ''Interface language''),
    (utf8 [232, 135, 170, 229, 138, 168, 239, 188, 136, 232, 183, 159, 233, 154, 143, 230, 181, 143, 232, 167, 136, 229, 153, 168, 239, 188, 137], ''Auto (browser)''),
    (utf8 [228, 191, 157, 229, 173, 152], ''Save''),
    (utf8 [232, 175, 173, 232, 168, 128, 229, 129, 143, 229, 165, 189, 229, 183, 178, 228, 191, 157, 229, 173, 152], ''Language preference saved''),
    (utf8 [232, 175, 173, 232, 168, 128, 229, 129, 143, 229, 165, 189, 228, 191, 157, 229, 173, 152, 229, 164, 177, 232, 180, 165], ''Failed to save language preference''),
    (utf8 [229, 184, 174, 229, 138, 169], ''Help''),
    (utf8 [229, 174, 162, 230, 136, 183, 231, 171, 175, 230, 148, 182, 229, 143, 145, 228, 191, 161, 239, 188, 136] @ ''IMAP / SMTP'' @ utf8 [239, 188, 137, 233, 133, 141, 231, 189, 174, 239, 188, 154], ''IMAP / SMTP client settings:''),
    (''IMAP '' @ utf8 [230, 156, 141, 229, 138, 161, 229, 153, 168, 239, 188, 154] @ ''%s '' @ utf8 [231, 171, 175, 229, 143, 163] @ '' %d / SSL %d'', ''IMAP server: %s port %d / SSL %d''),
    (''SMTP '' @ utf8 [230, 156, 141, 229, 138, 161, 229, 153, 168, 239, 188, 154] @ ''%s '' @ utf8 [231, 171, 175, 229, 143, 163] @ '' %d'' @ utf8 [239, 188, 136, 230, 143, 144, 228, 186, 164, 239, 188, 137] @ ''/ SSL %d'', ''SMTP server: %s port %d (submission) / SSL %d'')]"

definition en_login :: "(string \<times> string) list" where
  "en_login = [
    (utf8 [231, 153, 187, 229, 189, 149], ''Log in''),
    (utf8 [231, 153, 187, 229, 189, 149, 230, 130, 168, 231, 154, 132, 233, 130, 174, 231, 174, 177, 232, 180, 166, 230, 136, 183], ''Log in to your mailbox''),
    (utf8 [233, 130, 174, 231, 174, 177, 229, 156, 176, 229, 157, 128], ''Email address''),
    (utf8 [229, 175, 134, 231, 160, 129], ''Password''),
    (utf8 [232, 175, 183, 232, 190, 147, 229, 133, 165, 229, 175, 134, 231, 160, 129], ''Enter password''),
    (utf8 [231, 153, 187] @ '' '' @ utf8 [229, 189, 149], ''Log in''),
    (utf8 [230, 136, 150], ''or''),
    (''LDAP '' @ utf8 [231, 148, 168, 230, 136, 183, 229, 144, 141], ''LDAP username''),
    (''LDAP '' @ utf8 [229, 175, 134, 231, 160, 129], ''LDAP password''),
    (''LDAP '' @ utf8 [231, 153, 187, 229, 189, 149], ''LDAP sign in'')]"

definition en_banned :: "(string \<times> string) list" where
  "en_banned = [
    (utf8 [232, 174, 191, 233, 151, 174, 232, 162, 171, 231, 166, 129, 230, 173, 162], ''Access denied''),
    (utf8 [230, 130, 168, 231, 154, 132] @ '' IP '' @ utf8 [229, 183, 178, 232, 162, 171, 230, 154, 130, 230, 151, 182, 231, 166, 129, 230, 173, 162, 232, 174, 191, 233, 151, 174], ''Your IP has been temporarily blocked''),
    (utf8 [231, 148, 177, 228, 186, 142, 231, 153, 187, 229, 189, 149, 229, 164, 177, 232, 180, 165, 230, 172, 161, 230, 149, 176, 232, 191, 135, 229, 164, 154, 239, 188, 140, 230, 130, 168, 231, 154, 132] @ '' IP '' @ utf8 [229, 156, 176, 229, 157, 128, 229, 183, 178, 232, 162, 171, 230, 154, 130, 230, 151, 182, 229, 176, 129, 231, 166, 129, 227, 128, 130], ''Your IP address has been temporarily banned due to too many failed login attempts.''),
    (''IP '' @ utf8 [229, 156, 176, 229, 157, 128], ''IP address''),
    (utf8 [229, 176, 129, 231, 166, 129, 230, 161, 163, 228, 189, 141], ''Ban level''),
    (utf8 [231, 172, 172] @ '' %d '' @ utf8 [230, 172, 161, 229, 176, 129, 231, 166, 129], ''Ban #%d''),
    (utf8 [229, 142, 159, 229, 155, 160], ''Reason''),
    (utf8 [229, 164, 177, 232, 180, 165, 230, 172, 161, 230, 149, 176], ''Failed attempts''),
    (''%d '' @ utf8 [230, 172, 161], ''%d times''),
    (utf8 [232, 167, 163, 229, 176, 129, 230, 151, 182, 233, 151, 180], ''Unban time''),
    (utf8 [232, 175, 183, 229, 156, 168, 232, 167, 163, 229, 176, 129, 230, 151, 182, 233, 151, 180, 229, 144, 142, 233, 135, 141, 232, 175, 149, 239, 188, 140, 230, 136, 150, 232, 129, 148, 231, 179, 187, 231, 174, 161, 231, 144, 134, 229, 145, 152, 227, 128, 130], ''Please retry after the unban time, or contact the administrator.''),
    (utf8 [232, 191, 148, 229, 155, 158, 231, 153, 187, 229, 189, 149, 233, 161, 181], ''Back to login'')]"

definition en_admin_sidebar :: "(string \<times> string) list" where
  "en_admin_sidebar = [
    (utf8 [232, 191, 148, 229, 155, 158, 233, 130, 174, 231, 174, 177], ''Back to mailbox''),
    (utf8 [230, 142, 167, 229, 136, 182, 233, 157, 162, 230, 157, 191], ''Dashboard''),
    (utf8 [229, 159, 159, 229, 144, 141, 231, 174, 161, 231, 144, 134], ''Domains''),
    (utf8 [231, 148, 168, 230, 136, 183, 231, 174, 161, 231, 144, 134], ''Users''),
    (utf8 [230, 137, 128, 230, 156, 137, 233, 130, 174, 228, 187, 182], ''All mail''),
    (utf8 [229, 164, 150, 229, 143, 145, 233, 152, 159, 229, 136, 151], ''Outbound queue''),
    (utf8 [229, 141, 143, 232, 174, 174, 230, 151, 165, 229, 191, 151], ''Protocol logs''),
    (utf8 [229, 189, 147, 229, 137, 141, 232, 191, 158, 230, 142, 165], ''Connections''),
    (''IP'' @ utf8 [233, 187, 145, 229, 144, 141, 229, 141, 149], ''IP blacklist'')]"

definition en_dashboard :: "(string \<times> string) list" where
  "en_dashboard = [
    (utf8 [229, 159, 159, 229, 144, 141, 230, 149, 176], ''Domains''),
    (utf8 [231, 148, 168, 230, 136, 183, 230, 149, 176], ''Users''),
    (utf8 [233, 130, 174, 228, 187, 182, 230, 128, 187, 230, 149, 176], ''Total mail''),
    (utf8 [232, 162, 171, 229, 176, 129] @ ''IP'', ''Banned IPs''),
    (utf8 [233, 130, 174, 228, 187, 182, 229, 136, 134, 229, 184, 131], ''Mail distribution''),
    (utf8 [230, 150, 135, 228, 187, 182, 229, 164, 185], ''Folder''),
    (utf8 [233, 130, 174, 228, 187, 182, 230, 149, 176], ''Messages''),
    (utf8 [229, 141, 160, 231, 148, 168, 231, 169, 186, 233, 151, 180], ''Size''),
    (utf8 [229, 144, 136, 232, 174, 161], ''Total''),
    (utf8 [230, 148, 182, 229, 143, 145, 231, 187, 159, 232, 174, 161], ''Send/receive stats''),
    (utf8 [230, 151, 182, 233, 151, 180, 230, 174, 181], ''Period''),
    (utf8 [230, 148, 182, 228, 187, 182], ''Received''),
    (utf8 [229, 143, 145, 228, 187, 182], ''Sent''),
    (utf8 [228, 187, 138, 230, 151, 165], ''Today''),
    (utf8 [232, 191, 145] @ '' 7 '' @ utf8 [229, 164, 169], ''Last 7 days''),
    (utf8 [229, 191, 171, 230, 141, 183, 230, 147, 141, 228, 189, 156], ''Quick actions''),
    (utf8 [230, 150, 176, 229, 162, 158, 229, 159, 159, 229, 144, 141], ''Add domain''),
    (utf8 [230, 150, 176, 229, 162, 158, 231, 148, 168, 230, 136, 183], ''Add user''),
    (utf8 [230, 159, 165, 231, 156, 139, 230, 137, 128, 230, 156, 137, 233, 130, 174, 228, 187, 182], ''View all mail'')]"

definition en_users :: "(string \<times> string) list" where
  "en_users = [
    (utf8 [231, 148, 168, 230, 136, 183, 229, 136, 151, 232, 161, 168], ''Users''),
    (utf8 [230, 154, 130, 230, 151, 160, 231, 148, 168, 230, 136, 183], ''No users''),
    (utf8 [231, 148, 168, 230, 136, 183, 229, 144, 141], ''Username''),
    (utf8 [229, 159, 159, 229, 144, 141] @ ''ID'', ''Domain ID''),
    (utf8 [233, 133, 141, 233, 162, 157], ''Quota''),
    (utf8 [229, 183, 178, 231, 148, 168], ''Used''),
    (utf8 [231, 138, 182, 230, 128, 129], ''Status''),
    (utf8 [230, 147, 141, 228, 189, 156], ''Actions''),
    (utf8 [231, 188, 150, 232, 190, 145], ''Edit''),
    (utf8 [231, 161, 174, 229, 174, 154, 232, 166, 129, 229, 136, 160, 233, 153, 164, 231, 148, 168, 230, 136, 183] @ '' %s '' @ utf8 [229, 144, 151, 239, 188, 159], ''Delete user %s?''),
    (utf8 [231, 188, 150, 232, 190, 145, 231, 148, 168, 230, 136, 183], ''Edit user''),
    (utf8 [230, 150, 176, 229, 175, 134, 231, 160, 129, 239, 188, 136, 231, 149, 153, 231, 169, 186, 229, 136, 153, 228, 184, 141, 228, 191, 174, 230, 148, 185, 239, 188, 137], ''New password (leave blank to keep)''),
    (utf8 [229, 159, 159, 229, 144, 141], ''Domain''),
    (utf8 [232, 175, 183, 233, 128, 137, 230, 139, 169, 229, 159, 159, 229, 144, 141], ''Select a domain''),
    (utf8 [233, 133, 141, 233, 162, 157] @ '' (GB)'', ''Quota (GB)''),
    (utf8 [229, 144, 175, 231, 148, 168, 232, 180, 166, 230, 136, 183], ''Active account''),
    (utf8 [228, 191, 157, 229, 173, 152, 230, 155, 180, 230, 148, 185], ''Save changes''),
    (utf8 [229, 136, 155, 229, 187, 186, 231, 148, 168, 230, 136, 183], ''Create user'')]"

definition en_domains :: "(string \<times> string) list" where
  "en_domains = [
    (utf8 [229, 159, 159, 229, 144, 141, 229, 136, 151, 232, 161, 168], ''Domains''),
    (utf8 [230, 154, 130, 230, 151, 160, 229, 159, 159, 229, 144, 141], ''No domains''),
    (utf8 [231, 161, 174, 229, 174, 154, 232, 166, 129, 229, 136, 160, 233, 153, 164, 229, 159, 159, 229, 144, 141] @ '' %s '' @ utf8 [229, 144, 151, 239, 188, 159, 229, 136, 160, 233, 153, 164, 229, 159, 159, 229, 144, 141, 229, 176, 134, 229, 175, 188, 232, 135, 180, 229, 133, 179, 232, 129, 148, 231, 148, 168, 230, 136, 183, 230, 151, 160, 230, 179, 149, 230, 148, 182, 229, 143, 145, 233, 130, 174, 228, 187, 182, 239, 188, 129], ''Delete domain %s? Users of this domain will no longer be able to send or receive mail!''),
    (utf8 [231, 188, 150, 232, 190, 145, 229, 159, 159, 229, 144, 141], ''Edit domain''),
    (''SMTP '' @ utf8 [231, 171, 175, 229, 143, 163], ''SMTP port''),
    (''IMAP '' @ utf8 [231, 171, 175, 229, 143, 163], ''IMAP port''),
    (''POP3 '' @ utf8 [231, 171, 175, 229, 143, 163], ''POP3 port''),
    (utf8 [229, 144, 175, 231, 148, 168] @ '' TLS'', ''Enable TLS''),
    (utf8 [229, 139, 190, 233, 128, 137, 229, 144, 142, 231, 171, 175, 229, 143, 163, 229, 176, 134, 232, 135, 170, 229, 138, 168, 229, 136, 135, 230, 141, 162, 228, 184, 186] @ '' SSL/TLS '' @ utf8 [230, 160, 135, 229, 135, 134, 231, 171, 175, 229, 143, 163], ''When checked, ports switch to standard SSL/TLS ports automatically''),
    (''TLS '' @ utf8 [231, 167, 129, 233, 146, 165] @ '' PEM'', ''TLS private key (PEM)''),
    (''TLS '' @ utf8 [229, 133, 172, 233, 146, 165, 232, 175, 129, 228, 185, 166] @ '' PEM'', ''TLS certificate (PEM)''),
    (utf8 [231, 167, 129, 233, 146, 165, 228, 184, 141, 228, 188, 154, 229, 155, 158, 230, 152, 190, 239, 188, 155, 231, 149, 153, 231, 169, 186, 229, 136, 153, 228, 191, 157, 231, 149, 153, 231, 142, 176, 230, 156, 137, 231, 167, 129, 233, 146, 165, 227, 128, 130], ''The private key is not shown; leave blank to keep the current key.''),
    (utf8 [226, 156, 133] @ '' TLS '' @ utf8 [232, 175, 129, 228, 185, 166, 229, 183, 178, 233, 133, 141, 231, 189, 174, 239, 188, 155, 228, 184, 138, 228, 188, 160, 230, 150, 176, 232, 175, 129, 228, 185, 166, 229, 144, 142, 232, 135, 170, 229, 138, 168, 231, 131, 173, 229, 138, 160, 232, 189, 189, 231, 148, 159, 230, 149, 136, 227, 128, 130], utf8 [226, 156, 133] @ '' Certificate configured; uploading a new certificate hot-reloads automatically.''),
    (utf8 [226, 154, 160, 239, 184, 143] @ '' TLS '' @ utf8 [232, 175, 129, 228, 185, 166, 230, 156, 170, 233, 133, 141, 231, 189, 174, 239, 188, 140, 229, 144, 175, 231, 148, 168] @ '' TLS '' @ utf8 [230, 151, 182, 229, 191, 133, 233, 161, 187, 229, 144, 140, 230, 151, 182, 229, 161, 171, 229, 134, 153, 231, 167, 129, 233, 146, 165, 229, 146, 140, 232, 175, 129, 228, 185, 166, 227, 128, 130], utf8 [226, 154, 160, 239, 184, 143] @ '' No certificate configured. To enable TLS you must provide both the private key and the certificate.''),
    (utf8 [228, 187, 142] @ '' Caddy '' @ utf8 [232, 142, 183, 229, 143, 150, 232, 175, 129, 228, 185, 166], ''Fetch certificate from Caddy''),
    (utf8 [232, 139, 165, 232, 175, 165, 229, 159, 159, 229, 144, 141, 229, 183, 178, 231, 148, 177, 230, 156, 172, 230, 156, 186] @ '' Caddy '' @ utf8 [230, 137, 152, 231, 174, 161] @ '' HTTPS'' @ utf8 [239, 188, 136, 232, 135, 170, 229, 138, 168, 231, 173, 190, 229, 143, 145, 232, 175, 129, 228, 185, 166, 239, 188, 137, 239, 188, 140, 229, 143, 175, 228, 184, 128, 233, 148, 174, 229, 175, 188, 229, 133, 165, 229, 133, 182, 232, 175, 129, 228, 185, 166, 228, 184, 142, 231, 167, 129, 233, 146, 165, 239, 188, 140, 229, 185, 182, 232, 135, 170, 229, 138, 168, 229, 144, 175, 231, 148, 168] @ '' TLS'' @ utf8 [239, 188, 155, 232, 175, 129, 228, 185, 166, 231, 131, 173, 229, 138, 160, 232, 189, 189, 239, 188, 140, 230, 151, 160, 233, 156, 128, 233, 135, 141, 229, 144, 175, 230, 156, 141, 229, 138, 161, 227, 128, 130], ''If this domain is served by local Caddy with HTTPS (automatic certificates), import its certificate and private key with one click; TLS is enabled and hot-reloaded, no restart needed.''),
    (utf8 [240, 159, 148, 146] @ '' '' @ utf8 [228, 187, 142] @ '' Caddy '' @ utf8 [232, 142, 183, 229, 143, 150, 232, 175, 129, 228, 185, 166], utf8 [240, 159, 148, 146] @ '' Fetch certificate from Caddy''),
    (utf8 [232, 142, 183, 229, 143, 150, 228, 184, 173, 226, 128, 166], ''Fetching...''),
    (utf8 [232, 142, 183, 229, 143, 150, 229, 164, 177, 232, 180, 165], ''Fetch failed''),
    (utf8 [232, 175, 183, 230, 177, 130, 229, 164, 177, 232, 180, 165], ''Request failed''),
    (utf8 [233, 135, 141, 230, 150, 176, 231, 148, 159, 230, 136, 144] @ '' DKIM '' @ utf8 [229, 175, 134, 233, 146, 165], ''Regenerate DKIM key''),
    (utf8 [226, 156, 133] @ '' DKIM '' @ utf8 [229, 175, 134, 233, 146, 165, 229, 183, 178, 233, 133, 141, 231, 189, 174], utf8 [226, 156, 133] @ '' DKIM key configured''),
    (utf8 [226, 154, 160, 239, 184, 143] @ '' DKIM '' @ utf8 [229, 175, 134, 233, 146, 165, 230, 156, 170, 233, 133, 141, 231, 189, 174], utf8 [226, 154, 160, 239, 184, 143] @ '' DKIM key not configured''),
    (utf8 [229, 136, 155, 229, 187, 186, 229, 159, 159, 229, 144, 141], ''Create domain''),
    (''DNS'' @ utf8 [233, 133, 141, 231, 189, 174], ''DNS configuration''),
    (''DNS '' @ utf8 [233, 133, 141, 231, 189, 174, 230, 143, 144, 231, 164, 186] @ '' '' @ utf8 [226, 128, 148] @ '' %s'', ''DNS configuration hint '' @ utf8 [226, 128, 148] @ '' %s''),
    (utf8 [232, 175, 183, 229, 156, 168, 230, 130, 168, 231, 154, 132] @ '' DNS '' @ utf8 [230, 156, 141, 229, 138, 161, 229, 149, 134, 229, 164, 132, 230, 183, 187, 229, 138, 160, 228, 187, 165, 228, 184, 139, 232, 174, 176, 229, 189, 149, 239, 188, 154], ''Add the following records at your DNS provider:''),
    (''MX '' @ utf8 [232, 174, 176, 229, 189, 149], ''MX record''),
    (''SPF '' @ utf8 [232, 174, 176, 229, 189, 149] @ '' (TXT)'', ''SPF record (TXT)''),
    (''DKIM '' @ utf8 [232, 174, 176, 229, 189, 149] @ '' (TXT)'', ''DKIM record (TXT)''),
    (''DMARC '' @ utf8 [232, 174, 176, 229, 189, 149], ''DMARC record''),
    (utf8 [226, 154, 160, 239, 184, 143] @ '' DKIM '' @ utf8 [229, 175, 134, 233, 146, 165, 229, 176, 154, 230, 156, 170, 231, 148, 159, 230, 136, 144, 239, 188, 140, 232, 175, 183, 231, 188, 150, 232, 190, 145, 229, 159, 159, 229, 144, 141, 233, 135, 141, 230, 150, 176, 231, 148, 159, 230, 136, 144, 227, 128, 130], utf8 [226, 154, 160, 239, 184, 143] @ '' DKIM key not generated yet. Edit the domain to regenerate it.''),
    (utf8 [232, 191, 148, 229, 155, 158, 229, 159, 159, 229, 144, 141, 229, 136, 151, 232, 161, 168], ''Back to domains'')]"

definition en_all_mails :: "(string \<times> string) list" where
  "en_all_mails = [
    (utf8 [229, 143, 145, 228, 187, 182, 228, 186, 186], ''From''),
    (utf8 [230, 137, 128, 229, 177, 158, 231, 148, 168, 230, 136, 183], ''Owner''),
    (utf8 [230, 151, 165, 230, 156, 159], ''Date''),
    (utf8 [229, 133, 168, 233, 131, 168], ''All''),
    (utf8 [232, 191, 148, 229, 155, 158, 233, 130, 174, 228, 187, 182, 229, 136, 151, 232, 161, 168], ''Back to list''),
    (utf8 [229, 143, 145, 228, 187, 182, 228, 186, 186] @ '':'', ''From:''),
    (utf8 [230, 148, 182, 228, 187, 182, 228, 186, 186] @ '':'', ''To:''),
    (utf8 [230, 138, 132, 233, 128, 129] @ '':'', ''Cc:''),
    (utf8 [230, 137, 128, 229, 177, 158, 231, 148, 168, 230, 136, 183] @ '':'', ''Owner:''),
    (utf8 [230, 150, 135, 228, 187, 182, 229, 164, 185] @ '':'', ''Folder:''),
    (utf8 [230, 151, 182, 233, 151, 180] @ '':'', ''Time:''),
    (utf8 [233, 153, 132, 228, 187, 182, 229, 136, 151, 232, 161, 168], ''Attachments'')]"

definition en_outbound :: "(string \<times> string) list" where
  "en_outbound = [
    (utf8 [233, 152, 159, 229, 136, 151, 228, 184, 186, 231, 169, 186], ''Queue is empty''),
    (utf8 [229, 190, 133, 229, 143, 145, 233, 128, 129], ''Pending''),
    (utf8 [229, 143, 145, 233, 128, 129, 228, 184, 173], ''Sending''),
    (utf8 [229, 183, 178, 233, 128, 129, 232, 190, 190], ''Delivered''),
    (utf8 [231, 173, 137, 229, 190, 133, 233, 135, 141, 232, 175, 149], ''Waiting to retry''),
    (utf8 [229, 164, 177, 232, 180, 165], ''Failed''),
    (utf8 [229, 183, 178, 229, 143, 150, 230, 182, 136], ''Canceled''),
    (utf8 [229, 176, 157, 232, 175, 149, 230, 172, 161, 230, 149, 176], ''Attempts''),
    (utf8 [228, 184, 139, 230, 172, 161, 233, 135, 141, 232, 175, 149], ''Next retry''),
    (utf8 [230, 156, 128, 229, 144, 142, 229, 147, 141, 229, 186, 148] @ '' / '' @ utf8 [233, 148, 153, 232, 175, 175], ''Last response / error''),
    (utf8 [229, 136, 155, 229, 187, 186, 230, 151, 182, 233, 151, 180], ''Created''),
    (utf8 [233, 135, 141, 232, 175, 149], ''Retry''),
    (utf8 [231, 161, 174, 232, 174, 164, 229, 143, 150, 230, 182, 136, 232, 175, 165, 230, 138, 149, 233, 128, 146, 228, 187, 187, 229, 138, 161, 239, 188, 159], ''Cancel this delivery task?'')]"

definition en_protocol_logs :: "(string \<times> string) list" where
  "en_protocol_logs = [
    (utf8 [229, 141, 143, 232, 174, 174, 230, 151, 165, 229, 191, 151, 239, 188, 136] @ ''SMTP / IMAP / POP3'' @ utf8 [239, 188, 137], ''Protocol logs (SMTP / IMAP / POP3)''),
    (utf8 [230, 184, 133, 231, 144, 134, 230, 151, 167, 230, 151, 165, 229, 191, 151], ''Clean old logs''),
    (utf8 [231, 161, 174, 232, 174, 164, 230, 184, 133, 231, 144, 134] @ '' %d '' @ utf8 [229, 164, 169, 229, 137, 141, 231, 154, 132, 229, 141, 143, 232, 174, 174, 230, 151, 165, 229, 191, 151, 239, 188, 159], ''Delete protocol logs older than %d days?''),
    (utf8 [228, 187, 138, 230, 151, 165] @ '' SMTP '' @ utf8 [229, 164, 177, 232, 180, 165], ''SMTP failures today''),
    (utf8 [228, 187, 138, 230, 151, 165] @ '' IMAP '' @ utf8 [229, 164, 177, 232, 180, 165], ''IMAP failures today''),
    (utf8 [228, 187, 138, 230, 151, 165] @ '' POP3 '' @ utf8 [229, 164, 177, 232, 180, 165], ''POP3 failures today''),
    (utf8 [229, 142, 134, 229, 143, 178, 229, 164, 177, 232, 180, 165, 239, 188, 136, 229, 133, 168, 233, 131, 168, 239, 188, 137], ''Historical failures (all)''),
    (utf8 [229, 133, 168, 233, 131, 168, 229, 141, 143, 232, 174, 174], ''All protocols''),
    (utf8 [229, 133, 168, 233, 131, 168, 231, 138, 182, 230, 128, 129], ''All statuses''),
    (utf8 [230, 136, 144, 229, 138, 159], ''Success''),
    (utf8 [230, 157, 165, 230, 186, 144] @ '' IP'' @ utf8 [239, 188, 136, 230, 168, 161, 231, 179, 138, 239, 188, 137], ''Source IP (fuzzy)''),
    (utf8 [231, 148, 168, 230, 136, 183, 229, 144, 141, 239, 188, 136, 230, 168, 161, 231, 179, 138, 239, 188, 137], ''Username (fuzzy)''),
    (utf8 [232, 135, 179], ''to''),
    (utf8 [231, 173, 155, 233, 128, 137], ''Filter''),
    (utf8 [233, 135, 141, 231, 189, 174], ''Reset''),
    (utf8 [230, 151, 182, 233, 151, 180], ''Time''),
    (utf8 [231, 171, 175, 229, 143, 163], ''Port''),
    (utf8 [229, 164, 177, 232, 180, 165, 229, 142, 159, 229, 155, 160], ''Failure reason''),
    (utf8 [230, 147, 141, 228, 189, 156, 230, 145, 152, 232, 166, 129], ''Summary''),
    (utf8 [230, 182, 136, 230, 129, 175, 230, 149, 176], ''Messages''),
    (utf8 [230, 151, 182, 233, 149, 191], ''Duration''),
    (utf8 [230, 154, 130, 230, 151, 160, 232, 174, 176, 229, 189, 149], ''No records''),
    (utf8 [231, 172, 172] @ '' %d / %d '' @ utf8 [233, 161, 181, 239, 188, 136, 229, 133, 177] @ '' %d '' @ utf8 [230, 157, 161, 239, 188, 137], ''Page %d of %d (%d entries)'')]"

definition en_connections :: "(string \<times> string) list" where
  "en_connections = [
    (utf8 [229, 189, 147, 229, 137, 141, 232, 191, 158, 230, 142, 165, 239, 188, 136] @ ''SMTP / IMAP / POP3'' @ utf8 [239, 188, 137], ''Active connections (SMTP / IMAP / POP3)''),
    (utf8 [230, 175, 143] @ '' 5 '' @ utf8 [231, 167, 146, 232, 135, 170, 229, 138, 168, 229, 136, 183, 230, 150, 176], ''Auto-refreshes every 5 seconds''),
    (utf8 [229, 189, 147, 229, 137, 141, 232, 191, 158, 230, 142, 165, 230, 128, 187, 230, 149, 176], ''Total active connections''),
    (utf8 [229, 141, 143, 232, 174, 174], ''Protocol''),
    (utf8 [230, 157, 165, 230, 186, 144] @ '' IP'', ''Source IP''),
    (''TLS'', ''TLS''),
    (utf8 [230, 152, 142, 230, 150, 135], ''Plain''),
    (utf8 [232, 191, 158, 230, 142, 165, 230, 151, 182, 233, 151, 180], ''Connected''),
    (utf8 [230, 156, 128, 229, 144, 142, 230, 180, 187, 232, 183, 131], ''Last active''),
    (utf8 [230, 150, 173, 229, 188, 128, 229, 185, 182, 229, 176, 129, 231, 166, 129], ''Disconnect & ban''),
    (utf8 [229, 189, 147, 229, 137, 141, 230, 178, 161, 230, 156, 137, 230, 180, 187, 229, 138, 168, 232, 191, 158, 230, 142, 165], ''No active connections''),
    (utf8 [231, 161, 174, 229, 174, 154, 232, 166, 129, 230, 150, 173, 229, 188, 128] @ '' IP %s '' @ utf8 [231, 154, 132, 230, 137, 128, 230, 156, 137, 232, 191, 158, 230, 142, 165, 229, 185, 182, 229, 138, 160, 229, 133, 165, 233, 187, 145, 229, 144, 141, 229, 141, 149, 239, 188, 136] @ ''180 '' @ utf8 [229, 164, 169, 239, 188, 137, 229, 144, 151, 239, 188, 159], ''Disconnect all connections of IP %s and add to blacklist (180 days)?'')]"

definition en_bans :: "(string \<times> string) list" where
  "en_bans = [
    (''IP '' @ utf8 [233, 187, 145, 229, 144, 141, 229, 141, 149], ''IP blacklist''),
    (utf8 [233, 152, 182, 230, 174, 181, 230, 128, 167, 229, 176, 129, 231, 166, 129, 239, 188, 154, 231, 172, 172] @ '' 4 '' @ utf8 [230, 172, 161, 232, 167, 166, 229, 143, 145, 232, 181, 183, 229, 176, 129, 231, 166, 129, 239, 188, 140] @ ''30'' @ utf8 [229, 136, 134, 233, 146, 159] @ '' '' @ utf8 [226, 134, 146] @ '' 3'' @ utf8 [229, 176, 143, 230, 151, 182] @ '' '' @ utf8 [226, 134, 146] @ '' 3'' @ utf8 [228, 184, 170, 230, 156, 136] @ '' '' @ utf8 [226, 134, 146] @ '' '' @ utf8 [229, 141, 138, 229, 185, 180, 239, 188, 136, 228, 184, 138, 233, 153, 144, 239, 188, 137], ''Staged bans: banning starts at the 4th trigger; 30 min '' @ utf8 [226, 134, 146] @ '' 3 h '' @ utf8 [226, 134, 146] @ '' 3 mo '' @ utf8 [226, 134, 146] @ '' 6 mo (max)''),
    (utf8 [229, 176, 129, 231, 166, 129, 230, 172, 161, 230, 149, 176], ''Ban count''),
    (utf8 [229, 136, 176, 230, 156, 159, 230, 151, 182, 233, 151, 180], ''Expires''),
    (utf8 [229, 176, 129, 231, 166, 129, 228, 184, 173], ''Banned''),
    (utf8 [229, 183, 178, 232, 191, 135, 230, 156, 159], ''Expired''),
    (utf8 [228, 187, 133, 232, 174, 161, 230, 149, 176], ''Counting only''),
    (utf8 [239, 188, 136, 229, 183, 178, 232, 191, 135, 230, 156, 159, 239, 188, 137], '' (expired)''),
    (utf8 [232, 167, 163, 229, 176, 129], ''Unban''),
    (utf8 [231, 161, 174, 229, 174, 154, 232, 166, 129, 232, 167, 163, 229, 176, 129] @ '' IP %s '' @ utf8 [229, 144, 151, 239, 188, 159, 232, 167, 163, 229, 176, 129, 229, 144, 142, 232, 175, 165] @ '' IP '' @ utf8 [231, 154, 132, 229, 176, 129, 231, 166, 129, 230, 161, 163, 228, 189, 141, 229, 176, 134, 230, 184, 133, 233, 155, 182, 227, 128, 130], ''Unban IP %s? Its ban level will be reset.''),
    (utf8 [230, 154, 130, 230, 151, 160, 229, 176, 129, 231, 166, 129, 232, 174, 176, 229, 189, 149], ''No ban records'')]"

definition en_auth_errors :: "(string \<times> string) list" where
  "en_auth_errors = [
    (utf8 [232, 175, 183, 232, 190, 147, 229, 133, 165, 233, 130, 174, 231, 174, 177, 229, 146, 140, 229, 175, 134, 231, 160, 129], ''Please enter your email and password''),
    (utf8 [231, 148, 168, 230, 136, 183, 229, 144, 141, 230, 136, 150, 229, 175, 134, 231, 160, 129, 233, 148, 153, 232, 175, 175, 239, 188, 140, 232, 191, 152, 229, 137, 169] @ '' %d '' @ utf8 [230, 172, 161, 229, 176, 157, 232, 175, 149, 230, 156, 186, 228, 188, 154], ''Incorrect username or password. %d attempts remaining''),
    (utf8 [228, 188, 154, 232, 175, 157, 228, 191, 157, 229, 173, 152, 229, 164, 177, 232, 180, 165, 239, 188, 140, 232, 175, 183, 233, 135, 141, 232, 175, 149], ''Failed to save session, please retry''),
    (utf8 [232, 175, 183, 232, 190, 147, 229, 133, 165] @ ''LDAP'' @ utf8 [231, 148, 168, 230, 136, 183, 229, 144, 141, 229, 146, 140, 229, 175, 134, 231, 160, 129], ''Please enter your LDAP username and password''),
    (''LDAP '' @ utf8 [232, 174, 164, 232, 175, 129, 229, 164, 177, 232, 180, 165, 239, 188, 140, 232, 191, 152, 229, 137, 169] @ '' %d '' @ utf8 [230, 172, 161, 229, 176, 157, 232, 175, 149, 230, 156, 186, 228, 188, 154], ''LDAP authentication failed. %d attempts remaining''),
    (''LDAP '' @ utf8 [232, 180, 166, 229, 143, 183, 230, 156, 170, 230, 142, 165, 229, 133, 165, 230, 156, 172, 231, 179, 187, 231, 187, 159, 239, 188, 140, 232, 175, 183, 232, 129, 148, 231, 179, 187, 231, 174, 161, 231, 144, 134, 229, 145, 152], ''LDAP account is not linked to this system. Contact the administrator''),
    (utf8 [231, 148, 168, 230, 136, 183, 229, 183, 178, 232, 162, 171, 231, 166, 129, 231, 148, 168], ''User is disabled''),
    (''OAuth2 state '' @ utf8 [230, 160, 161, 233, 170, 140, 229, 164, 177, 232, 180, 165, 239, 188, 140, 232, 175, 183, 233, 135, 141, 230, 150, 176, 229, 143, 145, 232, 181, 183, 231, 153, 187, 229, 189, 149], ''OAuth2 state validation failed, please log in again''),
    (''OAuth2 '' @ utf8 [230, 142, 136, 230, 157, 131, 231, 160, 129, 231, 188, 186, 229, 164, 177], ''Missing OAuth2 authorization code''),
    (''OAuth2 '' @ utf8 [232, 174, 164, 232, 175, 129, 229, 164, 177, 232, 180, 165, 239, 188, 140, 232, 175, 183, 233, 135, 141, 232, 175, 149, 230, 136, 150, 232, 129, 148, 231, 179, 187, 231, 174, 161, 231, 144, 134, 229, 145, 152], ''OAuth2 authentication failed. Please retry or contact the administrator''),
    (''OAuth2 '' @ utf8 [232, 180, 166, 229, 143, 183, 230, 156, 170, 230, 142, 165, 229, 133, 165, 230, 156, 172, 231, 179, 187, 231, 187, 159, 239, 188, 140, 232, 175, 183, 232, 129, 148, 231, 179, 187, 231, 174, 161, 231, 144, 134, 229, 145, 152], ''OAuth2 account is not linked to this system. Contact the administrator''),
    (''OAuth2 '' @ utf8 [230, 156, 170, 229, 144, 175, 231, 148, 168], ''OAuth2 is not enabled''),
    (''OAuth2 '' @ utf8 [231, 153, 187, 229, 189, 149, 230, 154, 130, 228, 184, 141, 229, 143, 175, 231, 148, 168, 239, 188, 140, 232, 175, 183, 231, 168, 141, 229, 144, 142, 233, 135, 141, 232, 175, 149], ''OAuth2 login is temporarily unavailable, please try again later''),
    (utf8 [231, 153, 187, 229, 189, 149, 229, 164, 177, 232, 180, 165, 230, 172, 161, 230, 149, 176, 232, 191, 135, 229, 164, 154], ''Too many failed login attempts''),
    (''LDAP '' @ utf8 [231, 153, 187, 229, 189, 149, 229, 164, 177, 232, 180, 165, 230, 172, 161, 230, 149, 176, 232, 191, 135, 229, 164, 154], ''Too many LDAP login failures'')]"

definition en_mail_errors :: "(string \<times> string) list" where
  "en_mail_errors = [
    (utf8 [232, 175, 183, 232, 190, 147, 229, 133, 165, 230, 148, 182, 228, 187, 182, 228, 186, 186], ''Please enter a recipient''),
    (utf8 [233, 133, 141, 233, 162, 157, 230, 163, 128, 230, 159, 165, 229, 164, 177, 232, 180, 165, 239, 188, 140, 232, 175, 183, 231, 168, 141, 229, 144, 142, 233, 135, 141, 232, 175, 149], ''Quota check failed, please try again later''),
    (utf8 [233, 153, 132, 228, 187, 182, 232, 182, 133, 229, 135, 186, 233, 133, 141, 233, 162, 157, 233, 153, 144, 229, 136, 182, 227, 128, 130, 229, 183, 178, 231, 148, 168] @ '' %s / '' @ utf8 [230, 128, 187, 233, 133, 141, 233, 162, 157] @ '' %s'', ''Attachments exceed the quota. Used %s / total %s''),
    (utf8 [229, 164, 150, 233, 131, 168, 230, 138, 149, 233, 128, 146, 230, 156, 170, 229, 144, 175, 231, 148, 168], ''Outbound delivery is not enabled''),
    (utf8 [229, 164, 150, 233, 131, 168, 230, 148, 182, 228, 187, 182, 228, 186, 186, 232, 191, 135, 229, 164, 154, 239, 188, 154, 230, 156, 128, 229, 164, 154] @ '' %d '' @ utf8 [228, 184, 170], ''Too many external recipients: maximum %d''),
    (utf8 [229, 164, 150, 229, 143, 145, 233, 130, 174, 228, 187, 182, 229, 133, 165, 233, 152, 159, 229, 164, 177, 232, 180, 165] @ '' (%s): %v'', ''Failed to enqueue outbound mail (%s): %v''),
    (utf8 [230, 138, 149, 233, 128, 146, 233, 130, 174, 228, 187, 182, 229, 164, 177, 232, 180, 165] @ '': %v'', ''Failed to deliver mail: %v''),
    (utf8 [228, 191, 157, 229, 173, 152, 233, 130, 174, 228, 187, 182, 229, 164, 177, 232, 180, 165] @ '': %v'', ''Failed to save mail: %v''),
    (utf8 [229, 189, 147, 229, 137, 141, 229, 175, 134, 231, 160, 129, 228, 184, 141, 230, 173, 163, 231, 161, 174], ''Current password is incorrect''),
    (utf8 [230, 150, 176, 229, 175, 134, 231, 160, 129, 228, 184, 141, 232, 131, 189, 228, 184, 186, 231, 169, 186], ''New password cannot be empty''),
    (utf8 [228, 184, 164, 230, 172, 161, 232, 190, 147, 229, 133, 165, 231, 154, 132, 229, 175, 134, 231, 160, 129, 228, 184, 141, 228, 184, 128, 232, 135, 180], ''The two passwords do not match''),
    (utf8 [229, 175, 134, 231, 160, 129, 229, 138, 160, 229, 175, 134, 229, 164, 177, 232, 180, 165], ''Failed to encrypt password''),
    (utf8 [229, 175, 134, 231, 160, 129, 230, 155, 180, 230, 150, 176, 229, 164, 177, 232, 180, 165], ''Failed to update password''),
    (utf8 [229, 175, 134, 231, 160, 129, 228, 191, 174, 230, 148, 185, 230, 136, 144, 229, 138, 159], ''Password changed successfully''),
    (utf8 [233, 130, 174, 231, 174, 177, 228, 184, 141, 229, 173, 152, 229, 156, 168], ''Mailbox does not exist''),
    (utf8 [229, 138, 160, 232, 189, 189, 233, 130, 174, 228, 187, 182, 229, 136, 151, 232, 161, 168, 229, 164, 177, 232, 180, 165] @ '': %v'', ''Failed to load messages: %v''),
    (utf8 [230, 151, 160, 230, 149, 136, 231, 154, 132, 233, 130, 174, 228, 187, 182] @ ''ID'', ''Invalid message ID''),
    (utf8 [233, 130, 174, 228, 187, 182, 228, 184, 141, 229, 173, 152, 229, 156, 168], ''Message does not exist''),
    (utf8 [231, 166, 129, 230, 173, 162, 232, 174, 191, 233, 151, 174], ''Access denied''),
    (utf8 [230, 151, 160, 230, 149, 136, 231, 154, 132, 233, 153, 132, 228, 187, 182] @ ''ID'', ''Invalid attachment ID''),
    (utf8 [233, 153, 132, 228, 187, 182, 228, 184, 141, 229, 173, 152, 229, 156, 168], ''Attachment does not exist''),
    (utf8 [232, 175, 187, 229, 143, 150, 233, 153, 132, 228, 187, 182, 229, 164, 177, 232, 180, 165], ''Failed to read attachment''),
    (utf8 [229, 136, 160, 233, 153, 164, 229, 164, 177, 232, 180, 165], ''Delete failed''),
    (utf8 [230, 129, 162, 229, 164, 141, 229, 164, 177, 232, 180, 165], ''Restore failed''),
    (utf8 [230, 184, 133, 231, 169, 186, 230, 150, 135, 228, 187, 182, 229, 164, 185, 229, 164, 177, 232, 180, 165] @ '': %v'', ''Failed to empty folder: %v'')]"

definition en_admin_errors :: "(string \<times> string) list" where
  "en_admin_errors = [
    (utf8 [230, 151, 160, 230, 149, 136, 231, 154, 132, 232, 191, 158, 230, 142, 165] @ ''ID'', ''Invalid connection ID''),
    (utf8 [232, 191, 158, 230, 142, 165, 228, 184, 141, 229, 173, 152, 229, 156, 168, 230, 136, 150, 229, 183, 178, 230, 150, 173, 229, 188, 128], ''Connection does not exist or is disconnected''),
    (utf8 [231, 174, 161, 231, 144, 134, 229, 145, 152, 230, 137, 139, 229, 138, 168, 229, 176, 129, 231, 166, 129, 239, 188, 136, 232, 191, 158, 230, 142, 165, 230, 150, 173, 229, 188, 128, 239, 188, 137], ''Banned manually by admin (connection disconnected)''),
    (utf8 [229, 176, 129, 231, 166, 129, 229, 164, 177, 232, 180, 165] @ '': %v'', ''Ban failed: %v''),
    (utf8 [229, 138, 160, 232, 189, 189, 229, 159, 159, 229, 144, 141, 229, 136, 151, 232, 161, 168, 229, 164, 177, 232, 180, 165] @ '': %v'', ''Failed to load domains: %v''),
    (utf8 [232, 175, 183, 232, 190, 147, 229, 133, 165, 229, 159, 159, 229, 144, 141], ''Please enter a domain name''),
    (utf8 [229, 136, 155, 229, 187, 186, 229, 159, 159, 229, 144, 141, 229, 164, 177, 232, 180, 165] @ '': %v'', ''Failed to create domain: %v''),
    (utf8 [230, 151, 160, 230, 149, 136, 231, 154, 132, 229, 159, 159, 229, 144, 141] @ ''ID'', ''Invalid domain ID''),
    (utf8 [229, 159, 159, 229, 144, 141, 228, 184, 141, 229, 173, 152, 229, 156, 168], ''Domain does not exist''),
    (utf8 [226, 156, 133] @ '' '' @ utf8 [229, 183, 178, 228, 187, 142] @ '' Caddy '' @ utf8 [232, 142, 183, 229, 143, 150, 232, 175, 129, 228, 185, 166, 229, 185, 182, 228, 191, 157, 229, 173, 152, 229, 136, 176, 229, 159, 159, 229, 144, 141] @ '' TLS '' @ utf8 [231, 155, 174, 229, 189, 149, 239, 188, 140, 229, 144, 140, 230, 151, 182, 229, 183, 178, 229, 144, 175, 231, 148, 168, 232, 175, 165, 229, 159, 159, 229, 144, 141, 231, 154, 132] @ '' TLS'' @ utf8 [239, 188, 155, 232, 175, 129, 228, 185, 166, 229, 183, 178, 231, 131, 173, 229, 138, 160, 232, 189, 189, 239, 188, 140, 230, 151, 160, 233, 156, 128, 233, 135, 141, 229, 144, 175, 230, 156, 141, 229, 138, 161, 227, 128, 130], utf8 [226, 156, 133] @ '' Certificate fetched from Caddy and saved to the domain TLS directory; TLS enabled and hot-reloaded, no restart needed.''),
    (utf8 [229, 144, 175, 231, 148, 168] @ '' TLS '' @ utf8 [230, 151, 182, 229, 191, 133, 233, 161, 187, 229, 161, 171, 229, 134, 153] @ '' TLS '' @ utf8 [231, 167, 129, 233, 146, 165, 229, 146, 140, 229, 133, 172, 233, 146, 165, 232, 175, 129, 228, 185, 166], ''TLS private key and certificate are required to enable TLS''),
    (''TLS '' @ utf8 [231, 167, 129, 233, 146, 165, 229, 146, 140, 229, 133, 172, 233, 146, 165, 232, 175, 129, 228, 185, 166, 229, 191, 133, 233, 161, 187, 229, 144, 140, 230, 151, 182, 229, 161, 171, 229, 134, 153], ''TLS private key and certificate must be provided together''),
    (''TLS '' @ utf8 [232, 175, 129, 228, 185, 166, 230, 136, 150, 231, 167, 129, 233, 146, 165, 230, 151, 160, 230, 149, 136] @ '': %v'', ''Invalid TLS certificate or private key: %v''),
    (utf8 [229, 136, 155, 229, 187, 186] @ '' TLS '' @ utf8 [232, 175, 129, 228, 185, 166, 231, 155, 174, 229, 189, 149, 229, 164, 177, 232, 180, 165] @ '': %v'', ''Failed to create TLS directory: %v''),
    (utf8 [228, 191, 157, 229, 173, 152] @ '' TLS '' @ utf8 [229, 133, 172, 233, 146, 165, 232, 175, 129, 228, 185, 166, 229, 164, 177, 232, 180, 165] @ '': %v'', ''Failed to save TLS certificate: %v''),
    (utf8 [228, 191, 157, 229, 173, 152] @ '' TLS '' @ utf8 [231, 167, 129, 233, 146, 165, 229, 164, 177, 232, 180, 165] @ '': %v'', ''Failed to save TLS private key: %v''),
    (utf8 [228, 187, 142] @ '' Caddy '' @ utf8 [232, 142, 183, 229, 143, 150, 232, 175, 129, 228, 185, 166, 229, 164, 177, 232, 180, 165] @ '': %v'', ''Failed to fetch certificate from Caddy: %v''),
    (utf8 [230, 155, 180, 230, 150, 176, 229, 159, 159, 229, 144, 141, 232, 174, 176, 229, 189, 149, 229, 164, 177, 232, 180, 165] @ '': %v'', ''Failed to update domain record: %v''),
    (utf8 [230, 155, 180, 230, 150, 176, 229, 159, 159, 229, 144, 141, 229, 164, 177, 232, 180, 165] @ '': %v'', ''Failed to update domain: %v''),
    (utf8 [229, 136, 160, 233, 153, 164, 229, 159, 159, 229, 144, 141, 229, 164, 177, 232, 180, 165] @ '': %v'', ''Failed to delete domain: %v''),
    (utf8 [229, 138, 160, 232, 189, 189, 231, 148, 168, 230, 136, 183, 229, 136, 151, 232, 161, 168, 229, 164, 177, 232, 180, 165] @ '': %v'', ''Failed to load users: %v''),
    (utf8 [232, 175, 183, 229, 161, 171, 229, 134, 153, 230, 137, 128, 230, 156, 137, 229, 191, 133, 229, 161, 171, 229, 173, 151, 230, 174, 181], ''Please fill in all required fields''),
    (utf8 [229, 136, 155, 229, 187, 186, 231, 148, 168, 230, 136, 183, 229, 164, 177, 232, 180, 165] @ '': %v'', ''Failed to create user: %v''),
    (utf8 [230, 151, 160, 230, 149, 136, 231, 154, 132, 231, 148, 168, 230, 136, 183] @ ''ID'', ''Invalid user ID''),
    (utf8 [228, 184, 141, 232, 131, 189, 229, 136, 160, 233, 153, 164, 232, 135, 170, 229, 183, 177, 231, 154, 132, 232, 180, 166, 230, 136, 183], ''You cannot delete your own account''),
    (utf8 [229, 136, 160, 233, 153, 164, 231, 148, 168, 230, 136, 183, 229, 164, 177, 232, 180, 165] @ '': %v'', ''Failed to delete user: %v''),
    (utf8 [231, 148, 168, 230, 136, 183, 228, 184, 141, 229, 173, 152, 229, 156, 168], ''User does not exist''),
    (utf8 [230, 155, 180, 230, 150, 176, 231, 148, 168, 230, 136, 183, 229, 164, 177, 232, 180, 165] @ '': %v'', ''Failed to update user: %v''),
    (utf8 [229, 138, 160, 232, 189, 189, 233, 187, 145, 229, 144, 141, 229, 141, 149, 229, 164, 177, 232, 180, 165] @ '': %v'', ''Failed to load blacklist: %v''),
    (utf8 [230, 151, 160, 230, 149, 136, 231, 154, 132, 232, 174, 176, 229, 189, 149] @ ''ID'', ''Invalid record ID''),
    (utf8 [232, 167, 163, 229, 176, 129, 229, 164, 177, 232, 180, 165] @ '': %v'', ''Unban failed: %v''),
    (utf8 [229, 138, 160, 232, 189, 189, 229, 141, 143, 232, 174, 174, 230, 151, 165, 229, 191, 151, 229, 164, 177, 232, 180, 165] @ '': %v'', ''Failed to load protocol logs: %v''),
    (utf8 [229, 138, 160, 232, 189, 189, 229, 164, 150, 229, 143, 145, 233, 152, 159, 229, 136, 151, 229, 164, 177, 232, 180, 165] @ '': %v'', ''Failed to load outbound queue: %v''),
    (utf8 [229, 164, 150, 229, 143, 145, 230, 156, 141, 229, 138, 161, 228, 184, 141, 229, 143, 175, 231, 148, 168], ''Outbound service is unavailable''),
    (utf8 [233, 135, 141, 232, 175, 149, 229, 164, 177, 232, 180, 165] @ '': %v'', ''Retry failed: %v''),
    (utf8 [229, 143, 150, 230, 182, 136, 229, 164, 177, 232, 180, 165] @ '': %v'', ''Cancel failed: %v''),
    (utf8 [230, 151, 160, 230, 149, 136, 231, 154, 132, 233, 152, 159, 229, 136, 151] @ ''ID'', ''Invalid queue ID''),
    (utf8 [231, 166, 129, 230, 173, 162, 232, 174, 191, 233, 151, 174, 239, 188, 154, 233, 156, 128, 232, 166, 129, 231, 174, 161, 231, 144, 134, 229, 145, 152, 230, 157, 131, 233, 153, 144], ''Access denied: administrator privileges required'')]"

definition en_catalogue :: "(string \<times> string) list" where
  "en_catalogue = concat [en_clock, en_folders, en_sidebar, en_mail_list, en_mail_view, en_compose, en_settings, en_login, en_banned, en_admin_sidebar, en_dashboard, en_users, en_domains, en_all_mails, en_outbound, en_protocol_logs, en_connections, en_bans, en_auth_errors, en_mail_errors, en_admin_errors]"

end
