(* ===== verification/Catalog_Ja.thy ===== *)
theory Catalog_Ja
  imports Go_Strings
begin

text \<open>
  The Japanese catalogue of \<open>internal/i18n/catalog.go\<close>: for each Chinese text of the interface the one that is shown
  instead, in the sections of the source. Texts are byte strings; what is not ASCII is written by its bytes.
\<close>

definition ja_clock :: "(string \<times> string) list" where
  "ja_clock = [
    (utf8 [228, 184, 138, 229, 141, 136], utf8 [229, 141, 136, 229, 137, 141]),
    (utf8 [228, 184, 139, 229, 141, 136], utf8 [229, 141, 136, 229, 190, 140])]"

definition ja_folders :: "(string \<times> string) list" where
  "ja_folders = [
    (utf8 [230, 148, 182, 228, 187, 182, 231, 174, 177], utf8 [229, 143, 151, 228, 191, 161, 227, 131, 136, 227, 131, 172, 227, 130, 164]),
    (utf8 [229, 183, 178, 229, 143, 145, 233, 128, 129], utf8 [233, 128, 129, 228, 191, 161, 230, 184, 136, 227, 129, 191]),
    (utf8 [232, 141, 137, 231, 168, 191, 231, 174, 177], utf8 [228, 184, 139, 230, 155, 184, 227, 129, 141]),
    (utf8 [229, 183, 178, 229, 136, 160, 233, 153, 164], utf8 [227, 130, 180, 227, 131, 159, 231, 174, 177])]"

definition ja_sidebar :: "(string \<times> string) list" where
  "ja_sidebar = [
    (utf8 [233, 130, 174, 231, 174, 177], utf8 [227, 131, 161, 227, 131, 188, 227, 131, 171]),
    (utf8 [230, 144, 156, 231, 180, 162, 233, 130, 174, 228, 187, 182, 239, 188, 136, 229, 143, 145, 228, 187, 182, 228, 186, 186] @ '' / '' @ utf8 [228, 184, 187, 233, 162, 152, 239, 188, 137], utf8 [227, 131, 161, 227, 131, 188, 227, 131, 171, 227, 130, 146, 230, 164, 156, 231, 180, 162, 239, 188, 136, 233, 128, 129, 228, 191, 161, 232, 128, 133] @ '' / '' @ utf8 [228, 187, 182, 229, 144, 141, 239, 188, 137]),
    (utf8 [231, 174, 161, 231, 144, 134, 229, 144, 142, 229, 143, 176], utf8 [231, 174, 161, 231, 144, 134, 231, 148, 187, 233, 157, 162]),
    (utf8 [232, 174, 190, 231, 189, 174], utf8 [232, 168, 173, 229, 174, 154]),
    (utf8 [233, 128, 128, 229, 135, 186, 231, 153, 187, 229, 189, 149], utf8 [227, 131, 173, 227, 130, 176, 227, 130, 162, 227, 130, 166, 227, 131, 136]),
    (utf8 [229, 134, 153, 228, 191, 161], utf8 [228, 189, 156, 230, 136, 144])]"

definition ja_mail_list :: "(string \<times> string) list" where
  "ja_mail_list = [
    (utf8 [229, 133, 168, 233, 128, 137] @ ''/'' @ utf8 [229, 143, 150, 230, 182, 136, 229, 133, 168, 233, 128, 137], utf8 [227, 129, 153, 227, 129, 185, 227, 129, 166, 233, 129, 184, 230, 138, 158] @ '' / '' @ utf8 [233, 129, 184, 230, 138, 158, 232, 167, 163, 233, 153, 164]),
    (utf8 [229, 133, 168, 233, 128, 137], utf8 [227, 129, 153, 227, 129, 185, 227, 129, 166, 233, 129, 184, 230, 138, 158]),
    (utf8 [229, 136, 183, 230, 150, 176], utf8 [230, 155, 180, 230, 150, 176]),
    (utf8 [229, 136, 160, 233, 153, 164], utf8 [229, 137, 138, 233, 153, 164]),
    (utf8 [229, 189, 187, 229, 186, 149, 229, 136, 160, 233, 153, 164], utf8 [229, 174, 140, 229, 133, 168, 227, 129, 171, 229, 137, 138, 233, 153, 164]),
    (utf8 [231, 161, 174, 229, 174, 154, 232, 166, 129, 230, 184, 133, 231, 169, 186, 227, 128, 140, 229, 183, 178, 229, 136, 160, 233, 153, 164, 227, 128, 141, 230, 150, 135, 228, 187, 182, 229, 164, 185, 229, 144, 151, 239, 188, 159, 230, 173, 164, 230, 147, 141, 228, 189, 156, 228, 184, 141, 229, 143, 175, 230, 129, 162, 229, 164, 141, 227, 128, 130], utf8 [227, 128, 140, 227, 130, 180, 227, 131, 159, 231, 174, 177, 227, 128, 141, 227, 131, 149, 227, 130, 169, 227, 131, 171, 227, 131, 128, 227, 130, 146, 231, 169, 186, 227, 129, 171, 227, 129, 151, 227, 129, 190, 227, 129, 153, 227, 129, 139, 239, 188, 159, 227, 129, 147, 227, 129, 174, 230, 147, 141, 228, 189, 156, 227, 129, 175, 229, 133, 131, 227, 129, 171, 230, 136, 187, 227, 129, 155, 227, 129, 190, 227, 129, 155, 227, 130, 147, 227, 128, 130]),
    (utf8 [230, 184, 133, 231, 169, 186, 230, 150, 135, 228, 187, 182, 229, 164, 185], utf8 [227, 131, 149, 227, 130, 169, 227, 131, 171, 227, 131, 128, 227, 130, 146, 231, 169, 186, 227, 129, 171, 227, 129, 153, 227, 130, 139]),
    (utf8 [229, 133, 177] @ '' %d '' @ utf8 [229, 176, 129], ''%d '' @ utf8 [228, 187, 182]),
    (utf8 [230, 154, 130, 230, 151, 160, 233, 130, 174, 228, 187, 182], utf8 [227, 131, 161, 227, 131, 188, 227, 131, 171, 227, 129, 175, 227, 129, 130, 227, 130, 138, 227, 129, 190, 227, 129, 155, 227, 130, 147]),
    (utf8 [230, 148, 182, 228, 187, 182, 228, 186, 186, 239, 188, 154] @ ''%s'', utf8 [229, 174, 155, 229, 133, 136, 239, 188, 154] @ ''%s''),
    (utf8 [232, 135, 180, 239, 188, 154], utf8 [229, 174, 155, 229, 133, 136, 239, 188, 154]),
    (''('' @ utf8 [230, 151, 160, 228, 184, 187, 233, 162, 152] @ '')'', utf8 [239, 188, 136, 228, 187, 182, 229, 144, 141, 227, 129, 170, 227, 129, 151, 239, 188, 137]),
    (''[HTML '' @ utf8 [233, 130, 174, 228, 187, 182] @ '']'', ''[HTML '' @ utf8 [227, 131, 161, 227, 131, 188, 227, 131, 171] @ '']''),
    (utf8 [231, 161, 174, 229, 174, 154, 232, 166, 129, 230, 129, 162, 229, 164, 141, 232, 191, 153, 229, 176, 129, 233, 130, 174, 228, 187, 182, 229, 144, 151, 239, 188, 159], utf8 [227, 129, 147, 227, 129, 174, 227, 131, 161, 227, 131, 188, 227, 131, 171, 227, 130, 146, 229, 190, 169, 229, 133, 131, 227, 129, 151, 227, 129, 190, 227, 129, 153, 227, 129, 139, 239, 188, 159]),
    (utf8 [230, 129, 162, 229, 164, 141, 229, 136, 176, 230, 148, 182, 228, 187, 182, 231, 174, 177], utf8 [229, 143, 151, 228, 191, 161, 227, 131, 136, 227, 131, 172, 227, 130, 164, 227, 129, 184, 229, 190, 169, 229, 133, 131]),
    (utf8 [231, 161, 174, 229, 174, 154, 232, 166, 129, 229, 136, 160, 233, 153, 164, 232, 191, 153, 229, 176, 129, 233, 130, 174, 228, 187, 182, 229, 144, 151, 239, 188, 159], utf8 [227, 129, 147, 227, 129, 174, 227, 131, 161, 227, 131, 188, 227, 131, 171, 227, 130, 146, 229, 137, 138, 233, 153, 164, 227, 129, 151, 227, 129, 190, 227, 129, 153, 227, 129, 139, 239, 188, 159]),
    (utf8 [231, 172, 172] @ '' %d / %d '' @ utf8 [233, 161, 181], ''%d / %d '' @ utf8 [227, 131, 154, 227, 131, 188, 227, 130, 184]),
    (utf8 [228, 184, 138, 228, 184, 128, 233, 161, 181], utf8 [229, 137, 141, 227, 129, 184]),
    (utf8 [228, 184, 139, 228, 184, 128, 233, 161, 181], utf8 [230, 172, 161, 227, 129, 184]),
    (utf8 [231, 161, 174, 229, 174, 154, 232, 166, 129, 229, 136, 160, 233, 153, 164, 233, 128, 137, 228, 184, 173, 231, 154, 132] @ '' %s '' @ utf8 [229, 176, 129, 233, 130, 174, 228, 187, 182, 229, 144, 151, 239, 188, 159], utf8 [233, 129, 184, 230, 138, 158, 227, 129, 151, 227, 129, 159] @ '' %s '' @ utf8 [228, 187, 182, 227, 129, 174, 227, 131, 161, 227, 131, 188, 227, 131, 171, 227, 130, 146, 229, 137, 138, 233, 153, 164, 227, 129, 151, 227, 129, 190, 227, 129, 153, 227, 129, 139, 239, 188, 159])]"

definition ja_mail_view :: "(string \<times> string) list" where
  "ja_mail_view = [
    (utf8 [230, 159, 165, 231, 156, 139, 233, 130, 174, 228, 187, 182], utf8 [227, 131, 161, 227, 131, 188, 227, 131, 171, 227, 130, 146, 232, 161, 168, 231, 164, 186]),
    (utf8 [232, 191, 148, 229, 155, 158], utf8 [230, 136, 187, 227, 130, 139]),
    (utf8 [229, 155, 158, 229, 164, 141], utf8 [232, 191, 148, 228, 191, 161]),
    (utf8 [230, 129, 162, 229, 164, 141], utf8 [229, 190, 169, 229, 133, 131]),
    (utf8 [231, 161, 174, 229, 174, 154, 232, 166, 129, 229, 189, 187, 229, 186, 149, 229, 136, 160, 233, 153, 164, 232, 191, 153, 229, 176, 129, 233, 130, 174, 228, 187, 182, 229, 144, 151, 239, 188, 159, 230, 173, 164, 230, 147, 141, 228, 189, 156, 228, 184, 141, 229, 143, 175, 230, 129, 162, 229, 164, 141, 227, 128, 130], utf8 [227, 129, 147, 227, 129, 174, 227, 131, 161, 227, 131, 188, 227, 131, 171, 227, 130, 146, 229, 174, 140, 229, 133, 168, 227, 129, 171, 229, 137, 138, 233, 153, 164, 227, 129, 151, 227, 129, 190, 227, 129, 153, 227, 129, 139, 239, 188, 159, 227, 129, 147, 227, 129, 174, 230, 147, 141, 228, 189, 156, 227, 129, 175, 229, 133, 131, 227, 129, 171, 230, 136, 187, 227, 129, 155, 227, 129, 190, 227, 129, 155, 227, 130, 147, 227, 128, 130]),
    (utf8 [229, 136, 160, 233, 153, 164, 233, 130, 174, 228, 187, 182], utf8 [227, 131, 161, 227, 131, 188, 227, 131, 171, 227, 130, 146, 229, 137, 138, 233, 153, 164]),
    (utf8 [230, 138, 132, 233, 128, 129, 239, 188, 154], ''Cc'' @ utf8 [239, 188, 154])]"

definition ja_compose :: "(string \<times> string) list" where
  "ja_compose = [
    (utf8 [229, 143, 145, 233, 128, 129], utf8 [233, 128, 129, 228, 191, 161]),
    (utf8 [233, 153, 132, 228, 187, 182], utf8 [230, 183, 187, 228, 187, 152]),
    (utf8 [229, 143, 150, 230, 182, 136], utf8 [227, 130, 173, 227, 131, 163, 227, 131, 179, 227, 130, 187, 227, 131, 171]),
    (utf8 [230, 146, 176, 229, 134, 153, 230, 150, 176, 233, 130, 174, 228, 187, 182], utf8 [230, 150, 176, 227, 129, 151, 227, 129, 132, 227, 131, 161, 227, 131, 188, 227, 131, 171, 227, 130, 146, 228, 189, 156, 230, 136, 144]),
    (utf8 [230, 148, 182, 228, 187, 182, 228, 186, 186], utf8 [229, 174, 155, 229, 133, 136]),
    (utf8 [232, 190, 147, 229, 133, 165, 230, 148, 182, 228, 187, 182, 228, 186, 186, 233, 130, 174, 231, 174, 177, 229, 156, 176, 229, 157, 128], utf8 [229, 174, 155, 229, 133, 136, 227, 131, 161, 227, 131, 188, 227, 131, 171, 227, 130, 162, 227, 131, 137, 227, 131, 172, 227, 130, 185, 227, 130, 146, 229, 133, 165, 229, 138, 155]),
    (utf8 [230, 138, 132, 233, 128, 129], ''Cc''),
    (utf8 [229, 164, 154, 228, 184, 170, 229, 156, 176, 229, 157, 128, 231, 148, 168, 233, 128, 151, 229, 143, 183, 229, 136, 134, 233, 154, 148, 239, 188, 136, 229, 143, 175, 233, 128, 137, 239, 188, 137], utf8 [232, 164, 135, 230, 149, 176, 227, 129, 174, 227, 130, 162, 227, 131, 137, 227, 131, 172, 227, 130, 185, 227, 129, 175, 227, 130, 171, 227, 131, 179, 227, 131, 158, 229, 140, 186, 229, 136, 135, 227, 130, 138, 239, 188, 136, 228, 187, 187, 230, 132, 143, 239, 188, 137]),
    (utf8 [228, 184, 187, 233, 162, 152], utf8 [228, 187, 182, 229, 144, 141]),
    (utf8 [232, 190, 147, 229, 133, 165, 233, 130, 174, 228, 187, 182, 228, 184, 187, 233, 162, 152], utf8 [227, 131, 161, 227, 131, 188, 227, 131, 171, 227, 129, 174, 228, 187, 182, 229, 144, 141, 227, 130, 146, 229, 133, 165, 229, 138, 155]),
    (utf8 [232, 175, 183, 232, 190, 147, 229, 133, 165, 233, 130, 174, 228, 187, 182, 229, 134, 133, 229, 174, 185] @ ''...'', utf8 [227, 131, 161, 227, 131, 188, 227, 131, 171, 230, 156, 172, 230, 150, 135, 227, 130, 146, 229, 133, 165, 229, 138, 155, 227, 129, 151, 227, 129, 166, 227, 129, 143, 227, 129, 160, 227, 129, 149, 227, 129, 132] @ ''...''),
    (utf8 [233, 153, 132, 228, 187, 182, 233, 133, 141, 233, 162, 157], utf8 [230, 183, 187, 228, 187, 152, 227, 131, 149, 227, 130, 161, 227, 130, 164, 227, 131, 171, 229, 174, 185, 233, 135, 143]),
    (utf8 [231, 167, 187, 233, 153, 164], utf8 [229, 137, 138, 233, 153, 164])]"

definition ja_settings :: "(string \<times> string) list" where
  "ja_settings = [
    (utf8 [226, 154, 160, 239, 184, 143] @ '' '' @ utf8 [233, 166, 150, 230, 172, 161, 231, 153, 187, 229, 189, 149] @ ''/'' @ utf8 [229, 175, 134, 231, 160, 129, 229, 183, 178, 232, 162, 171, 233, 135, 141, 231, 189, 174, 239, 188, 140, 232, 175, 183, 231, 171, 139, 229, 141, 179, 228, 191, 174, 230, 148, 185, 229, 175, 134, 231, 160, 129, 229, 144, 142, 229, 134, 141, 231, 187, 167, 231, 187, 173, 228, 189, 191, 231, 148, 168, 233, 130, 174, 231, 174, 177, 229, 138, 159, 232, 131, 189, 227, 128, 130], utf8 [226, 154, 160, 239, 184, 143] @ '' '' @ utf8 [229, 136, 157, 229, 155, 158, 227, 131, 173, 227, 130, 176, 227, 130, 164, 227, 131, 179, 227, 129, 190, 227, 129, 159, 227, 129, 175, 227, 131, 145, 227, 130, 185, 227, 131, 175, 227, 131, 188, 227, 131, 137, 227, 131, 170, 227, 130, 187, 227, 131, 131, 227, 131, 136, 229, 190, 140, 227, 129, 167, 227, 129, 153, 227, 128, 130, 227, 131, 161, 227, 131, 188, 227, 131, 171, 230, 169, 159, 232, 131, 189, 227, 130, 146, 229, 136, 169, 231, 148, 168, 227, 129, 153, 227, 130, 139, 229, 137, 141, 227, 129, 171, 227, 131, 145, 227, 130, 185, 227, 131, 175, 227, 131, 188, 227, 131, 137, 227, 130, 146, 229, 164, 137, 230, 155, 180, 227, 129, 151, 227, 129, 166, 227, 129, 143, 227, 129, 160, 227, 129, 149, 227, 129, 132, 227, 128, 130]),
    (utf8 [232, 180, 166, 229, 143, 183, 228, 191, 161, 230, 129, 175], utf8 [227, 130, 162, 227, 130, 171, 227, 130, 166, 227, 131, 179, 227, 131, 136, 230, 131, 133, 229, 160, 177]),
    (utf8 [229, 183, 178, 231, 148, 168] @ '' %s / '' @ utf8 [233, 133, 141, 233, 162, 157] @ '' %s'', utf8 [228, 189, 191, 231, 148, 168] @ '' %s / '' @ utf8 [229, 174, 185, 233, 135, 143] @ '' %s''),
    (utf8 [231, 174, 161, 231, 144, 134, 229, 145, 152], utf8 [231, 174, 161, 231, 144, 134, 232, 128, 133]),
    (utf8 [228, 191, 174, 230, 148, 185, 229, 175, 134, 231, 160, 129], utf8 [227, 131, 145, 227, 130, 185, 227, 131, 175, 227, 131, 188, 227, 131, 137, 229, 164, 137, 230, 155, 180]),
    (utf8 [229, 189, 147, 229, 137, 141, 229, 175, 134, 231, 160, 129], utf8 [231, 143, 190, 229, 156, 168, 227, 129, 174, 227, 131, 145, 227, 130, 185, 227, 131, 175, 227, 131, 188, 227, 131, 137]),
    (utf8 [232, 175, 183, 232, 190, 147, 229, 133, 165, 229, 189, 147, 229, 137, 141, 229, 175, 134, 231, 160, 129], utf8 [231, 143, 190, 229, 156, 168, 227, 129, 174, 227, 131, 145, 227, 130, 185, 227, 131, 175, 227, 131, 188, 227, 131, 137, 227, 130, 146, 229, 133, 165, 229, 138, 155]),
    (utf8 [230, 150, 176, 229, 175, 134, 231, 160, 129], utf8 [230, 150, 176, 227, 129, 151, 227, 129, 132, 227, 131, 145, 227, 130, 185, 227, 131, 175, 227, 131, 188, 227, 131, 137]),
    (utf8 [232, 175, 183, 232, 190, 147, 229, 133, 165, 230, 150, 176, 229, 175, 134, 231, 160, 129], utf8 [230, 150, 176, 227, 129, 151, 227, 129, 132, 227, 131, 145, 227, 130, 185, 227, 131, 175, 227, 131, 188, 227, 131, 137, 227, 130, 146, 229, 133, 165, 229, 138, 155]),
    (utf8 [231, 161, 174, 232, 174, 164, 230, 150, 176, 229, 175, 134, 231, 160, 129], utf8 [230, 150, 176, 227, 129, 151, 227, 129, 132, 227, 131, 145, 227, 130, 185, 227, 131, 175, 227, 131, 188, 227, 131, 137, 239, 188, 136, 231, 162, 186, 232, 170, 141, 239, 188, 137]),
    (utf8 [232, 175, 183, 229, 134, 141, 230, 172, 161, 232, 190, 147, 229, 133, 165, 230, 150, 176, 229, 175, 134, 231, 160, 129], utf8 [230, 150, 176, 227, 129, 151, 227, 129, 132, 227, 131, 145, 227, 130, 185, 227, 131, 175, 227, 131, 188, 227, 131, 137, 227, 130, 146, 229, 134, 141, 229, 133, 165, 229, 138, 155]),
    (utf8 [231, 149, 140, 233, 157, 162, 232, 175, 173, 232, 168, 128], utf8 [232, 161, 168, 231, 164, 186, 232, 168, 128, 232, 170, 158]),
    (utf8 [232, 135, 170, 229, 138, 168, 239, 188, 136, 232, 183, 159, 233, 154, 143, 230, 181, 143, 232, 167, 136, 229, 153, 168, 239, 188, 137], utf8 [232, 135, 170, 229, 139, 149, 239, 188, 136, 227, 131, 150, 227, 131, 169, 227, 130, 166, 227, 130, 182, 227, 129, 171, 229, 190, 147, 227, 129, 134, 239, 188, 137]),
    (utf8 [228, 191, 157, 229, 173, 152], utf8 [228, 191, 157, 229, 173, 152]),
    (utf8 [232, 175, 173, 232, 168, 128, 229, 129, 143, 229, 165, 189, 229, 183, 178, 228, 191, 157, 229, 173, 152], utf8 [232, 168, 128, 232, 170, 158, 232, 168, 173, 229, 174, 154, 227, 130, 146, 228, 191, 157, 229, 173, 152, 227, 129, 151, 227, 129, 190, 227, 129, 151, 227, 129, 159]),
    (utf8 [232, 175, 173, 232, 168, 128, 229, 129, 143, 229, 165, 189, 228, 191, 157, 229, 173, 152, 229, 164, 177, 232, 180, 165], utf8 [232, 168, 128, 232, 170, 158, 232, 168, 173, 229, 174, 154, 227, 129, 174, 228, 191, 157, 229, 173, 152, 227, 129, 171, 229, 164, 177, 230, 149, 151, 227, 129, 151, 227, 129, 190, 227, 129, 151, 227, 129, 159]),
    (utf8 [229, 184, 174, 229, 138, 169], utf8 [227, 131, 152, 227, 131, 171, 227, 131, 151]),
    (utf8 [229, 174, 162, 230, 136, 183, 231, 171, 175, 230, 148, 182, 229, 143, 145, 228, 191, 161, 239, 188, 136] @ ''IMAP / SMTP'' @ utf8 [239, 188, 137, 233, 133, 141, 231, 189, 174, 239, 188, 154], utf8 [227, 130, 175, 227, 131, 169, 227, 130, 164, 227, 130, 162, 227, 131, 179, 227, 131, 136, 232, 168, 173, 229, 174, 154, 239, 188, 136] @ ''IMAP / SMTP'' @ utf8 [239, 188, 137, 239, 188, 154]),
    (''IMAP '' @ utf8 [230, 156, 141, 229, 138, 161, 229, 153, 168, 239, 188, 154] @ ''%s '' @ utf8 [231, 171, 175, 229, 143, 163] @ '' %d / SSL %d'', ''IMAP '' @ utf8 [227, 130, 181, 227, 131, 188, 227, 131, 144, 227, 131, 188, 239, 188, 154] @ ''%s '' @ utf8 [227, 131, 157, 227, 131, 188, 227, 131, 136] @ '' %d / SSL %d''),
    (''SMTP '' @ utf8 [230, 156, 141, 229, 138, 161, 229, 153, 168, 239, 188, 154] @ ''%s '' @ utf8 [231, 171, 175, 229, 143, 163] @ '' %d'' @ utf8 [239, 188, 136, 230, 143, 144, 228, 186, 164, 239, 188, 137] @ ''/ SSL %d'', ''SMTP '' @ utf8 [227, 130, 181, 227, 131, 188, 227, 131, 144, 227, 131, 188, 239, 188, 154] @ ''%s '' @ utf8 [227, 131, 157, 227, 131, 188, 227, 131, 136] @ '' %d'' @ utf8 [239, 188, 136, 227, 130, 181, 227, 131, 150, 227, 131, 159, 227, 131, 131, 227, 130, 183, 227, 131, 167, 227, 131, 179, 239, 188, 137] @ ''/ SSL %d'')]"

definition ja_login :: "(string \<times> string) list" where
  "ja_login = [
    (utf8 [231, 153, 187, 229, 189, 149], utf8 [227, 131, 173, 227, 130, 176, 227, 130, 164, 227, 131, 179]),
    (utf8 [231, 153, 187, 229, 189, 149, 230, 130, 168, 231, 154, 132, 233, 130, 174, 231, 174, 177, 232, 180, 166, 230, 136, 183], utf8 [227, 131, 161, 227, 131, 188, 227, 131, 171, 227, 130, 162, 227, 130, 171, 227, 130, 166, 227, 131, 179, 227, 131, 136, 227, 129, 171, 227, 131, 173, 227, 130, 176, 227, 130, 164, 227, 131, 179]),
    (utf8 [233, 130, 174, 231, 174, 177, 229, 156, 176, 229, 157, 128], utf8 [227, 131, 161, 227, 131, 188, 227, 131, 171, 227, 130, 162, 227, 131, 137, 227, 131, 172, 227, 130, 185]),
    (utf8 [229, 175, 134, 231, 160, 129], utf8 [227, 131, 145, 227, 130, 185, 227, 131, 175, 227, 131, 188, 227, 131, 137]),
    (utf8 [232, 175, 183, 232, 190, 147, 229, 133, 165, 229, 175, 134, 231, 160, 129], utf8 [227, 131, 145, 227, 130, 185, 227, 131, 175, 227, 131, 188, 227, 131, 137, 227, 130, 146, 229, 133, 165, 229, 138, 155]),
    (utf8 [231, 153, 187] @ '' '' @ utf8 [229, 189, 149], utf8 [227, 131, 173, 227, 130, 176, 227, 130, 164, 227, 131, 179]),
    (utf8 [230, 136, 150], utf8 [227, 129, 190, 227, 129, 159, 227, 129, 175]),
    (''LDAP '' @ utf8 [231, 148, 168, 230, 136, 183, 229, 144, 141], ''LDAP '' @ utf8 [227, 131, 166, 227, 131, 188, 227, 130, 182, 227, 131, 188, 229, 144, 141]),
    (''LDAP '' @ utf8 [229, 175, 134, 231, 160, 129], ''LDAP '' @ utf8 [227, 131, 145, 227, 130, 185, 227, 131, 175, 227, 131, 188, 227, 131, 137]),
    (''LDAP '' @ utf8 [231, 153, 187, 229, 189, 149], ''LDAP '' @ utf8 [227, 131, 173, 227, 130, 176, 227, 130, 164, 227, 131, 179])]"

definition ja_banned :: "(string \<times> string) list" where
  "ja_banned = [
    (utf8 [232, 174, 191, 233, 151, 174, 232, 162, 171, 231, 166, 129, 230, 173, 162], utf8 [227, 130, 162, 227, 130, 175, 227, 130, 187, 227, 130, 185, 227, 129, 140, 231, 166, 129, 230, 173, 162, 227, 129, 149, 227, 130, 140, 227, 129, 166, 227, 129, 132, 227, 129, 190, 227, 129, 153]),
    (utf8 [230, 130, 168, 231, 154, 132] @ '' IP '' @ utf8 [229, 183, 178, 232, 162, 171, 230, 154, 130, 230, 151, 182, 231, 166, 129, 230, 173, 162, 232, 174, 191, 233, 151, 174], utf8 [227, 129, 138, 228, 189, 191, 227, 129, 132, 227, 129, 174] @ '' IP '' @ utf8 [227, 129, 175, 228, 184, 128, 230, 153, 130, 231, 154, 132, 227, 129, 171, 227, 130, 162, 227, 130, 175, 227, 130, 187, 227, 130, 185, 231, 166, 129, 230, 173, 162, 227, 129, 149, 227, 130, 140, 227, 129, 166, 227, 129, 132, 227, 129, 190, 227, 129, 153]),
    (utf8 [231, 148, 177, 228, 186, 142, 231, 153, 187, 229, 189, 149, 229, 164, 177, 232, 180, 165, 230, 172, 161, 230, 149, 176, 232, 191, 135, 229, 164, 154, 239, 188, 140, 230, 130, 168, 231, 154, 132] @ '' IP '' @ utf8 [229, 156, 176, 229, 157, 128, 229, 183, 178, 232, 162, 171, 230, 154, 130, 230, 151, 182, 229, 176, 129, 231, 166, 129, 227, 128, 130], utf8 [227, 131, 173, 227, 130, 176, 227, 130, 164, 227, 131, 179, 229, 164, 177, 230, 149, 151, 227, 129, 140, 229, 164, 154, 227, 129, 153, 227, 129, 142, 227, 130, 139, 227, 129, 159, 227, 130, 129, 227, 128, 129] @ ''IP '' @ utf8 [227, 130, 162, 227, 131, 137, 227, 131, 172, 227, 130, 185, 227, 129, 140, 228, 184, 128, 230, 153, 130, 231, 154, 132, 227, 129, 171, 227, 131, 150, 227, 131, 173, 227, 131, 131, 227, 130, 175, 227, 129, 149, 227, 130, 140, 227, 129, 166, 227, 129, 132, 227, 129, 190, 227, 129, 153, 227, 128, 130]),
    (''IP '' @ utf8 [229, 156, 176, 229, 157, 128], ''IP '' @ utf8 [227, 130, 162, 227, 131, 137, 227, 131, 172, 227, 130, 185]),
    (utf8 [229, 176, 129, 231, 166, 129, 230, 161, 163, 228, 189, 141], utf8 [227, 131, 150, 227, 131, 173, 227, 131, 131, 227, 130, 175, 230, 174, 181, 233, 154, 142]),
    (utf8 [231, 172, 172] @ '' %d '' @ utf8 [230, 172, 161, 229, 176, 129, 231, 166, 129], ''%d '' @ utf8 [229, 155, 158, 231, 155, 174, 227, 129, 174, 227, 131, 150, 227, 131, 173, 227, 131, 131, 227, 130, 175]),
    (utf8 [229, 142, 159, 229, 155, 160], utf8 [231, 144, 134, 231, 148, 177]),
    (utf8 [229, 164, 177, 232, 180, 165, 230, 172, 161, 230, 149, 176], utf8 [229, 164, 177, 230, 149, 151, 229, 155, 158, 230, 149, 176]),
    (''%d '' @ utf8 [230, 172, 161], ''%d '' @ utf8 [229, 155, 158]),
    (utf8 [232, 167, 163, 229, 176, 129, 230, 151, 182, 233, 151, 180], utf8 [227, 131, 150, 227, 131, 173, 227, 131, 131, 227, 130, 175, 232, 167, 163, 233, 153, 164, 230, 153, 130, 229, 136, 187]),
    (utf8 [232, 175, 183, 229, 156, 168, 232, 167, 163, 229, 176, 129, 230, 151, 182, 233, 151, 180, 229, 144, 142, 233, 135, 141, 232, 175, 149, 239, 188, 140, 230, 136, 150, 232, 129, 148, 231, 179, 187, 231, 174, 161, 231, 144, 134, 229, 145, 152, 227, 128, 130], utf8 [227, 131, 150, 227, 131, 173, 227, 131, 131, 227, 130, 175, 232, 167, 163, 233, 153, 164, 229, 190, 140, 227, 129, 171, 227, 130, 130, 227, 129, 134, 228, 184, 128, 229, 186, 166, 227, 129, 138, 232, 169, 166, 227, 129, 151, 227, 129, 132, 227, 129, 159, 227, 129, 160, 227, 129, 143, 227, 129, 139, 227, 128, 129, 231, 174, 161, 231, 144, 134, 232, 128, 133, 227, 129, 171, 233, 128, 163, 231, 181, 161, 227, 129, 151, 227, 129, 166, 227, 129, 143, 227, 129, 160, 227, 129, 149, 227, 129, 132, 227, 128, 130]),
    (utf8 [232, 191, 148, 229, 155, 158, 231, 153, 187, 229, 189, 149, 233, 161, 181], utf8 [227, 131, 173, 227, 130, 176, 227, 130, 164, 227, 131, 179, 227, 131, 154, 227, 131, 188, 227, 130, 184, 227, 129, 171, 230, 136, 187, 227, 130, 139])]"

definition ja_admin_sidebar :: "(string \<times> string) list" where
  "ja_admin_sidebar = [
    (utf8 [232, 191, 148, 229, 155, 158, 233, 130, 174, 231, 174, 177], utf8 [227, 131, 161, 227, 131, 188, 227, 131, 171, 227, 131, 156, 227, 131, 131, 227, 130, 175, 227, 130, 185, 227, 129, 171, 230, 136, 187, 227, 130, 139]),
    (utf8 [230, 142, 167, 229, 136, 182, 233, 157, 162, 230, 157, 191], utf8 [227, 131, 128, 227, 131, 131, 227, 130, 183, 227, 131, 165, 227, 131, 156, 227, 131, 188, 227, 131, 137]),
    (utf8 [229, 159, 159, 229, 144, 141, 231, 174, 161, 231, 144, 134], utf8 [227, 131, 137, 227, 131, 161, 227, 130, 164, 227, 131, 179, 231, 174, 161, 231, 144, 134]),
    (utf8 [231, 148, 168, 230, 136, 183, 231, 174, 161, 231, 144, 134], utf8 [227, 131, 166, 227, 131, 188, 227, 130, 182, 227, 131, 188, 231, 174, 161, 231, 144, 134]),
    (utf8 [230, 137, 128, 230, 156, 137, 233, 130, 174, 228, 187, 182], utf8 [227, 129, 153, 227, 129, 185, 227, 129, 166, 227, 129, 174, 227, 131, 161, 227, 131, 188, 227, 131, 171]),
    (utf8 [229, 164, 150, 229, 143, 145, 233, 152, 159, 229, 136, 151], utf8 [233, 128, 129, 228, 191, 161, 227, 130, 173, 227, 131, 165, 227, 131, 188]),
    (utf8 [229, 141, 143, 232, 174, 174, 230, 151, 165, 229, 191, 151], utf8 [227, 131, 151, 227, 131, 173, 227, 131, 136, 227, 130, 179, 227, 131, 171, 227, 131, 173, 227, 130, 176]),
    (utf8 [229, 189, 147, 229, 137, 141, 232, 191, 158, 230, 142, 165], utf8 [231, 143, 190, 229, 156, 168, 227, 129, 174, 230, 142, 165, 231, 182, 154]),
    (''IP'' @ utf8 [233, 187, 145, 229, 144, 141, 229, 141, 149], ''IP '' @ utf8 [227, 131, 150, 227, 131, 169, 227, 131, 131, 227, 130, 175, 227, 131, 170, 227, 130, 185, 227, 131, 136])]"

definition ja_dashboard :: "(string \<times> string) list" where
  "ja_dashboard = [
    (utf8 [229, 159, 159, 229, 144, 141, 230, 149, 176], utf8 [227, 131, 137, 227, 131, 161, 227, 130, 164, 227, 131, 179, 230, 149, 176]),
    (utf8 [231, 148, 168, 230, 136, 183, 230, 149, 176], utf8 [227, 131, 166, 227, 131, 188, 227, 130, 182, 227, 131, 188, 230, 149, 176]),
    (utf8 [233, 130, 174, 228, 187, 182, 230, 128, 187, 230, 149, 176], utf8 [227, 131, 161, 227, 131, 188, 227, 131, 171, 231, 183, 143, 230, 149, 176]),
    (utf8 [232, 162, 171, 229, 176, 129] @ ''IP'', utf8 [227, 131, 150, 227, 131, 173, 227, 131, 131, 227, 130, 175, 230, 184, 136, 227, 129, 191] @ '' IP''),
    (utf8 [233, 130, 174, 228, 187, 182, 229, 136, 134, 229, 184, 131], utf8 [227, 131, 161, 227, 131, 188, 227, 131, 171, 229, 136, 134, 229, 184, 131]),
    (utf8 [230, 150, 135, 228, 187, 182, 229, 164, 185], utf8 [227, 131, 149, 227, 130, 169, 227, 131, 171, 227, 131, 128]),
    (utf8 [233, 130, 174, 228, 187, 182, 230, 149, 176], utf8 [227, 131, 161, 227, 131, 188, 227, 131, 171, 230, 149, 176]),
    (utf8 [229, 141, 160, 231, 148, 168, 231, 169, 186, 233, 151, 180], utf8 [228, 189, 191, 231, 148, 168, 229, 174, 185, 233, 135, 143]),
    (utf8 [229, 144, 136, 232, 174, 161], utf8 [229, 144, 136, 232, 168, 136]),
    (utf8 [230, 148, 182, 229, 143, 145, 231, 187, 159, 232, 174, 161], utf8 [233, 128, 129, 229, 143, 151, 228, 191, 161, 231, 181, 177, 232, 168, 136]),
    (utf8 [230, 151, 182, 233, 151, 180, 230, 174, 181], utf8 [230, 156, 159, 233, 150, 147]),
    (utf8 [230, 148, 182, 228, 187, 182], utf8 [229, 143, 151, 228, 191, 161]),
    (utf8 [229, 143, 145, 228, 187, 182], utf8 [233, 128, 129, 228, 191, 161]),
    (utf8 [228, 187, 138, 230, 151, 165], utf8 [228, 187, 138, 230, 151, 165]),
    (utf8 [232, 191, 145] @ '' 7 '' @ utf8 [229, 164, 169], utf8 [233, 129, 142, 229, 142, 187] @ '' 7 '' @ utf8 [230, 151, 165, 233, 150, 147]),
    (utf8 [229, 191, 171, 230, 141, 183, 230, 147, 141, 228, 189, 156], utf8 [227, 130, 175, 227, 130, 164, 227, 131, 131, 227, 130, 175, 230, 147, 141, 228, 189, 156]),
    (utf8 [230, 150, 176, 229, 162, 158, 229, 159, 159, 229, 144, 141], utf8 [227, 131, 137, 227, 131, 161, 227, 130, 164, 227, 131, 179, 227, 130, 146, 232, 191, 189, 229, 138, 160]),
    (utf8 [230, 150, 176, 229, 162, 158, 231, 148, 168, 230, 136, 183], utf8 [227, 131, 166, 227, 131, 188, 227, 130, 182, 227, 131, 188, 227, 130, 146, 232, 191, 189, 229, 138, 160]),
    (utf8 [230, 159, 165, 231, 156, 139, 230, 137, 128, 230, 156, 137, 233, 130, 174, 228, 187, 182], utf8 [227, 129, 153, 227, 129, 185, 227, 129, 166, 227, 129, 174, 227, 131, 161, 227, 131, 188, 227, 131, 171, 227, 130, 146, 232, 161, 168, 231, 164, 186])]"

definition ja_users :: "(string \<times> string) list" where
  "ja_users = [
    (utf8 [231, 148, 168, 230, 136, 183, 229, 136, 151, 232, 161, 168], utf8 [227, 131, 166, 227, 131, 188, 227, 130, 182, 227, 131, 188, 228, 184, 128, 232, 166, 167]),
    (utf8 [230, 154, 130, 230, 151, 160, 231, 148, 168, 230, 136, 183], utf8 [227, 131, 166, 227, 131, 188, 227, 130, 182, 227, 131, 188, 227, 129, 175, 227, 129, 132, 227, 129, 190, 227, 129, 155, 227, 130, 147]),
    (utf8 [231, 148, 168, 230, 136, 183, 229, 144, 141], utf8 [227, 131, 166, 227, 131, 188, 227, 130, 182, 227, 131, 188, 229, 144, 141]),
    (utf8 [229, 159, 159, 229, 144, 141] @ ''ID'', utf8 [227, 131, 137, 227, 131, 161, 227, 130, 164, 227, 131, 179] @ '' ID''),
    (utf8 [233, 133, 141, 233, 162, 157], utf8 [229, 174, 185, 233, 135, 143]),
    (utf8 [229, 183, 178, 231, 148, 168], utf8 [228, 189, 191, 231, 148, 168, 233, 135, 143]),
    (utf8 [231, 138, 182, 230, 128, 129], utf8 [231, 138, 182, 230, 133, 139]),
    (utf8 [230, 147, 141, 228, 189, 156], utf8 [230, 147, 141, 228, 189, 156]),
    (utf8 [231, 188, 150, 232, 190, 145], utf8 [231, 183, 168, 233, 155, 134]),
    (utf8 [231, 161, 174, 229, 174, 154, 232, 166, 129, 229, 136, 160, 233, 153, 164, 231, 148, 168, 230, 136, 183] @ '' %s '' @ utf8 [229, 144, 151, 239, 188, 159], utf8 [227, 131, 166, 227, 131, 188, 227, 130, 182, 227, 131, 188] @ '' %s '' @ utf8 [227, 130, 146, 229, 137, 138, 233, 153, 164, 227, 129, 151, 227, 129, 190, 227, 129, 153, 227, 129, 139, 239, 188, 159]),
    (utf8 [231, 188, 150, 232, 190, 145, 231, 148, 168, 230, 136, 183], utf8 [227, 131, 166, 227, 131, 188, 227, 130, 182, 227, 131, 188, 227, 130, 146, 231, 183, 168, 233, 155, 134]),
    (utf8 [230, 150, 176, 229, 175, 134, 231, 160, 129, 239, 188, 136, 231, 149, 153, 231, 169, 186, 229, 136, 153, 228, 184, 141, 228, 191, 174, 230, 148, 185, 239, 188, 137], utf8 [230, 150, 176, 227, 129, 151, 227, 129, 132, 227, 131, 145, 227, 130, 185, 227, 131, 175, 227, 131, 188, 227, 131, 137, 239, 188, 136, 231, 169, 186, 230, 172, 132, 227, 129, 170, 227, 130, 137, 229, 164, 137, 230, 155, 180, 227, 129, 170, 227, 129, 151, 239, 188, 137]),
    (utf8 [229, 159, 159, 229, 144, 141], utf8 [227, 131, 137, 227, 131, 161, 227, 130, 164, 227, 131, 179]),
    (utf8 [232, 175, 183, 233, 128, 137, 230, 139, 169, 229, 159, 159, 229, 144, 141], utf8 [227, 131, 137, 227, 131, 161, 227, 130, 164, 227, 131, 179, 227, 130, 146, 233, 129, 184, 230, 138, 158]),
    (utf8 [233, 133, 141, 233, 162, 157] @ '' (GB)'', utf8 [229, 174, 185, 233, 135, 143] @ '' (GB)''),
    (utf8 [229, 144, 175, 231, 148, 168, 232, 180, 166, 230, 136, 183], utf8 [227, 130, 162, 227, 130, 171, 227, 130, 166, 227, 131, 179, 227, 131, 136, 227, 130, 146, 230, 156, 137, 229, 138, 185, 227, 129, 171, 227, 129, 153, 227, 130, 139]),
    (utf8 [228, 191, 157, 229, 173, 152, 230, 155, 180, 230, 148, 185], utf8 [229, 164, 137, 230, 155, 180, 227, 130, 146, 228, 191, 157, 229, 173, 152]),
    (utf8 [229, 136, 155, 229, 187, 186, 231, 148, 168, 230, 136, 183], utf8 [227, 131, 166, 227, 131, 188, 227, 130, 182, 227, 131, 188, 227, 130, 146, 228, 189, 156, 230, 136, 144])]"

definition ja_domains :: "(string \<times> string) list" where
  "ja_domains = [
    (utf8 [229, 159, 159, 229, 144, 141, 229, 136, 151, 232, 161, 168], utf8 [227, 131, 137, 227, 131, 161, 227, 130, 164, 227, 131, 179, 228, 184, 128, 232, 166, 167]),
    (utf8 [230, 154, 130, 230, 151, 160, 229, 159, 159, 229, 144, 141], utf8 [227, 131, 137, 227, 131, 161, 227, 130, 164, 227, 131, 179, 227, 129, 175, 227, 129, 130, 227, 130, 138, 227, 129, 190, 227, 129, 155, 227, 130, 147]),
    (utf8 [231, 161, 174, 229, 174, 154, 232, 166, 129, 229, 136, 160, 233, 153, 164, 229, 159, 159, 229, 144, 141] @ '' %s '' @ utf8 [229, 144, 151, 239, 188, 159, 229, 136, 160, 233, 153, 164, 229, 159, 159, 229, 144, 141, 229, 176, 134, 229, 175, 188, 232, 135, 180, 229, 133, 179, 232, 129, 148, 231, 148, 168, 230, 136, 183, 230, 151, 160, 230, 179, 149, 230, 148, 182, 229, 143, 145, 233, 130, 174, 228, 187, 182, 239, 188, 129], utf8 [227, 131, 137, 227, 131, 161, 227, 130, 164, 227, 131, 179] @ '' %s '' @ utf8 [227, 130, 146, 229, 137, 138, 233, 153, 164, 227, 129, 151, 227, 129, 190, 227, 129, 153, 227, 129, 139, 239, 188, 159, 233, 150, 162, 233, 128, 163, 227, 131, 166, 227, 131, 188, 227, 130, 182, 227, 131, 188, 227, 129, 175, 227, 131, 161, 227, 131, 188, 227, 131, 171, 227, 129, 174, 233, 128, 129, 229, 143, 151, 228, 191, 161, 227, 129, 140, 227, 129, 167, 227, 129, 141, 227, 129, 170, 227, 129, 143, 227, 129, 170, 227, 130, 138, 227, 129, 190, 227, 129, 153, 239, 188, 129]),
    (utf8 [231, 188, 150, 232, 190, 145, 229, 159, 159, 229, 144, 141], utf8 [227, 131, 137, 227, 131, 161, 227, 130, 164, 227, 131, 179, 227, 130, 146, 231, 183, 168, 233, 155, 134]),
    (''SMTP '' @ utf8 [231, 171, 175, 229, 143, 163], ''SMTP '' @ utf8 [227, 131, 157, 227, 131, 188, 227, 131, 136]),
    (''IMAP '' @ utf8 [231, 171, 175, 229, 143, 163], ''IMAP '' @ utf8 [227, 131, 157, 227, 131, 188, 227, 131, 136]),
    (''POP3 '' @ utf8 [231, 171, 175, 229, 143, 163], ''POP3 '' @ utf8 [227, 131, 157, 227, 131, 188, 227, 131, 136]),
    (utf8 [229, 144, 175, 231, 148, 168] @ '' TLS'', ''TLS '' @ utf8 [227, 130, 146, 230, 156, 137, 229, 138, 185, 227, 129, 171, 227, 129, 153, 227, 130, 139]),
    (utf8 [229, 139, 190, 233, 128, 137, 229, 144, 142, 231, 171, 175, 229, 143, 163, 229, 176, 134, 232, 135, 170, 229, 138, 168, 229, 136, 135, 230, 141, 162, 228, 184, 186] @ '' SSL/TLS '' @ utf8 [230, 160, 135, 229, 135, 134, 231, 171, 175, 229, 143, 163], utf8 [227, 131, 129, 227, 130, 167, 227, 131, 131, 227, 130, 175, 227, 129, 153, 227, 130, 139, 227, 129, 168, 227, 131, 157, 227, 131, 188, 227, 131, 136, 227, 129, 175, 230, 168, 153, 230, 186, 150, 227, 129, 174] @ '' SSL/TLS '' @ utf8 [227, 131, 157, 227, 131, 188, 227, 131, 136, 227, 129, 171, 232, 135, 170, 229, 139, 149, 231, 154, 132, 227, 129, 171, 229, 136, 135, 227, 130, 138, 230, 155, 191, 227, 130, 143, 227, 130, 138, 227, 129, 190, 227, 129, 153]),
    (''TLS '' @ utf8 [231, 167, 129, 233, 146, 165] @ '' PEM'', ''TLS '' @ utf8 [231, 167, 152, 229, 175, 134, 233, 141, 181] @ '' (PEM)''),
    (''TLS '' @ utf8 [229, 133, 172, 233, 146, 165, 232, 175, 129, 228, 185, 166] @ '' PEM'', ''TLS '' @ utf8 [229, 133, 172, 233, 150, 139, 233, 141, 181, 232, 168, 188, 230, 152, 142, 230, 155, 184] @ '' (PEM)''),
    (utf8 [231, 167, 129, 233, 146, 165, 228, 184, 141, 228, 188, 154, 229, 155, 158, 230, 152, 190, 239, 188, 155, 231, 149, 153, 231, 169, 186, 229, 136, 153, 228, 191, 157, 231, 149, 153, 231, 142, 176, 230, 156, 137, 231, 167, 129, 233, 146, 165, 227, 128, 130], utf8 [231, 167, 152, 229, 175, 134, 233, 141, 181, 227, 129, 175, 232, 161, 168, 231, 164, 186, 227, 129, 149, 227, 130, 140, 227, 129, 190, 227, 129, 155, 227, 130, 147, 227, 128, 130, 231, 169, 186, 230, 172, 132, 227, 129, 174, 229, 160, 180, 229, 144, 136, 227, 129, 175, 231, 143, 190, 229, 156, 168, 227, 129, 174, 233, 141, 181, 227, 130, 146, 228, 191, 157, 230, 140, 129, 227, 129, 151, 227, 129, 190, 227, 129, 153, 227, 128, 130]),
    (utf8 [226, 156, 133] @ '' TLS '' @ utf8 [232, 175, 129, 228, 185, 166, 229, 183, 178, 233, 133, 141, 231, 189, 174, 239, 188, 155, 228, 184, 138, 228, 188, 160, 230, 150, 176, 232, 175, 129, 228, 185, 166, 229, 144, 142, 232, 135, 170, 229, 138, 168, 231, 131, 173, 229, 138, 160, 232, 189, 189, 231, 148, 159, 230, 149, 136, 227, 128, 130], utf8 [226, 156, 133] @ '' '' @ utf8 [232, 168, 188, 230, 152, 142, 230, 155, 184, 227, 129, 175, 232, 168, 173, 229, 174, 154, 230, 184, 136, 227, 129, 191, 227, 129, 167, 227, 129, 153, 227, 128, 130, 230, 150, 176, 227, 129, 151, 227, 129, 132, 232, 168, 188, 230, 152, 142, 230, 155, 184, 227, 130, 146, 227, 130, 162, 227, 131, 131, 227, 131, 151, 227, 131, 173, 227, 131, 188, 227, 131, 137, 227, 129, 153, 227, 130, 139, 227, 129, 168, 232, 135, 170, 229, 139, 149, 231, 154, 132, 227, 129, 171, 227, 131, 155, 227, 131, 131, 227, 131, 136, 227, 131, 170, 227, 131, 173, 227, 131, 188, 227, 131, 137, 227, 129, 149, 227, 130, 140, 227, 129, 190, 227, 129, 153, 227, 128, 130]),
    (utf8 [226, 154, 160, 239, 184, 143] @ '' TLS '' @ utf8 [232, 175, 129, 228, 185, 166, 230, 156, 170, 233, 133, 141, 231, 189, 174, 239, 188, 140, 229, 144, 175, 231, 148, 168] @ '' TLS '' @ utf8 [230, 151, 182, 229, 191, 133, 233, 161, 187, 229, 144, 140, 230, 151, 182, 229, 161, 171, 229, 134, 153, 231, 167, 129, 233, 146, 165, 229, 146, 140, 232, 175, 129, 228, 185, 166, 227, 128, 130], utf8 [226, 154, 160, 239, 184, 143] @ '' '' @ utf8 [232, 168, 188, 230, 152, 142, 230, 155, 184, 227, 129, 140, 230, 156, 170, 232, 168, 173, 229, 174, 154, 227, 129, 167, 227, 129, 153, 227, 128, 130] @ ''TLS '' @ utf8 [227, 130, 146, 230, 156, 137, 229, 138, 185, 227, 129, 171, 227, 129, 153, 227, 130, 139, 227, 129, 171, 227, 129, 175, 231, 167, 152, 229, 175, 134, 233, 141, 181, 227, 129, 168, 232, 168, 188, 230, 152, 142, 230, 155, 184, 227, 129, 174, 228, 184, 161, 230, 150, 185, 227, 129, 140, 229, 191, 133, 232, 166, 129, 227, 129, 167, 227, 129, 153, 227, 128, 130]),
    (utf8 [228, 187, 142] @ '' Caddy '' @ utf8 [232, 142, 183, 229, 143, 150, 232, 175, 129, 228, 185, 166], ''Caddy '' @ utf8 [227, 129, 139, 227, 130, 137, 232, 168, 188, 230, 152, 142, 230, 155, 184, 227, 130, 146, 229, 143, 150, 229, 190, 151]),
    (utf8 [232, 139, 165, 232, 175, 165, 229, 159, 159, 229, 144, 141, 229, 183, 178, 231, 148, 177, 230, 156, 172, 230, 156, 186] @ '' Caddy '' @ utf8 [230, 137, 152, 231, 174, 161] @ '' HTTPS'' @ utf8 [239, 188, 136, 232, 135, 170, 229, 138, 168, 231, 173, 190, 229, 143, 145, 232, 175, 129, 228, 185, 166, 239, 188, 137, 239, 188, 140, 229, 143, 175, 228, 184, 128, 233, 148, 174, 229, 175, 188, 229, 133, 165, 229, 133, 182, 232, 175, 129, 228, 185, 166, 228, 184, 142, 231, 167, 129, 233, 146, 165, 239, 188, 140, 229, 185, 182, 232, 135, 170, 229, 138, 168, 229, 144, 175, 231, 148, 168] @ '' TLS'' @ utf8 [239, 188, 155, 232, 175, 129, 228, 185, 166, 231, 131, 173, 229, 138, 160, 232, 189, 189, 239, 188, 140, 230, 151, 160, 233, 156, 128, 233, 135, 141, 229, 144, 175, 230, 156, 141, 229, 138, 161, 227, 128, 130], utf8 [227, 129, 147, 227, 129, 174, 227, 131, 137, 227, 131, 161, 227, 130, 164, 227, 131, 179, 227, 129, 140, 227, 131, 173, 227, 131, 188, 227, 130, 171, 227, 131, 171] @ '' Caddy '' @ utf8 [227, 129, 167] @ '' HTTPS '' @ utf8 [233, 129, 139, 231, 148, 168, 227, 129, 149, 227, 130, 140, 227, 129, 166, 227, 129, 132, 227, 130, 139, 229, 160, 180, 229, 144, 136, 239, 188, 136, 232, 135, 170, 229, 139, 149, 232, 168, 188, 230, 152, 142, 230, 155, 184, 239, 188, 137, 227, 128, 129, 232, 168, 188, 230, 152, 142, 230, 155, 184, 227, 129, 168, 231, 167, 152, 229, 175, 134, 233, 141, 181, 227, 130, 146, 227, 131, 175, 227, 131, 179, 227, 130, 175, 227, 131, 170, 227, 131, 131, 227, 130, 175, 227, 129, 167, 227, 130, 164, 227, 131, 179, 227, 131, 157, 227, 131, 188, 227, 131, 136, 227, 129, 151, 227, 128, 129] @ ''TLS '' @ utf8 [227, 130, 146, 232, 135, 170, 229, 139, 149, 227, 129, 167, 230, 156, 137, 229, 138, 185, 229, 140, 150, 227, 129, 151, 227, 129, 190, 227, 129, 153, 227, 128, 130, 227, 131, 155, 227, 131, 131, 227, 131, 136, 227, 131, 170, 227, 131, 173, 227, 131, 188, 227, 131, 137, 227, 129, 149, 227, 130, 140, 227, 130, 139, 227, 129, 159, 227, 130, 129, 229, 134, 141, 232, 181, 183, 229, 139, 149, 227, 129, 175, 228, 184, 141, 232, 166, 129, 227, 129, 167, 227, 129, 153, 227, 128, 130]),
    (utf8 [240, 159, 148, 146] @ '' '' @ utf8 [228, 187, 142] @ '' Caddy '' @ utf8 [232, 142, 183, 229, 143, 150, 232, 175, 129, 228, 185, 166], utf8 [240, 159, 148, 146] @ '' Caddy '' @ utf8 [227, 129, 139, 227, 130, 137, 232, 168, 188, 230, 152, 142, 230, 155, 184, 227, 130, 146, 229, 143, 150, 229, 190, 151]),
    (utf8 [232, 142, 183, 229, 143, 150, 228, 184, 173, 226, 128, 166], utf8 [229, 143, 150, 229, 190, 151, 228, 184, 173] @ ''...''),
    (utf8 [232, 142, 183, 229, 143, 150, 229, 164, 177, 232, 180, 165], utf8 [229, 143, 150, 229, 190, 151, 229, 164, 177, 230, 149, 151]),
    (utf8 [232, 175, 183, 230, 177, 130, 229, 164, 177, 232, 180, 165], utf8 [227, 131, 170, 227, 130, 175, 227, 130, 168, 227, 130, 185, 227, 131, 136, 229, 164, 177, 230, 149, 151]),
    (utf8 [233, 135, 141, 230, 150, 176, 231, 148, 159, 230, 136, 144] @ '' DKIM '' @ utf8 [229, 175, 134, 233, 146, 165], ''DKIM '' @ utf8 [227, 130, 173, 227, 131, 188, 227, 130, 146, 229, 134, 141, 231, 148, 159, 230, 136, 144]),
    (utf8 [226, 156, 133] @ '' DKIM '' @ utf8 [229, 175, 134, 233, 146, 165, 229, 183, 178, 233, 133, 141, 231, 189, 174], utf8 [226, 156, 133] @ '' DKIM '' @ utf8 [227, 130, 173, 227, 131, 188, 232, 168, 173, 229, 174, 154, 230, 184, 136, 227, 129, 191]),
    (utf8 [226, 154, 160, 239, 184, 143] @ '' DKIM '' @ utf8 [229, 175, 134, 233, 146, 165, 230, 156, 170, 233, 133, 141, 231, 189, 174], utf8 [226, 154, 160, 239, 184, 143] @ '' DKIM '' @ utf8 [227, 130, 173, 227, 131, 188, 230, 156, 170, 232, 168, 173, 229, 174, 154]),
    (utf8 [229, 136, 155, 229, 187, 186, 229, 159, 159, 229, 144, 141], utf8 [227, 131, 137, 227, 131, 161, 227, 130, 164, 227, 131, 179, 227, 130, 146, 228, 189, 156, 230, 136, 144]),
    (''DNS'' @ utf8 [233, 133, 141, 231, 189, 174], ''DNS '' @ utf8 [232, 168, 173, 229, 174, 154]),
    (''DNS '' @ utf8 [233, 133, 141, 231, 189, 174, 230, 143, 144, 231, 164, 186] @ '' '' @ utf8 [226, 128, 148] @ '' %s'', ''DNS '' @ utf8 [232, 168, 173, 229, 174, 154, 227, 131, 146, 227, 131, 179, 227, 131, 136] @ '' '' @ utf8 [226, 128, 148] @ '' %s''),
    (utf8 [232, 175, 183, 229, 156, 168, 230, 130, 168, 231, 154, 132] @ '' DNS '' @ utf8 [230, 156, 141, 229, 138, 161, 229, 149, 134, 229, 164, 132, 230, 183, 187, 229, 138, 160, 228, 187, 165, 228, 184, 139, 232, 174, 176, 229, 189, 149, 239, 188, 154], ''DNS '' @ utf8 [227, 131, 151, 227, 131, 173, 227, 131, 144, 227, 130, 164, 227, 131, 128, 227, 131, 188, 227, 129, 167, 230, 172, 161, 227, 129, 174, 227, 131, 172, 227, 130, 179, 227, 131, 188, 227, 131, 137, 227, 130, 146, 232, 191, 189, 229, 138, 160, 227, 129, 151, 227, 129, 166, 227, 129, 143, 227, 129, 160, 227, 129, 149, 227, 129, 132, 239, 188, 154]),
    (''MX '' @ utf8 [232, 174, 176, 229, 189, 149], ''MX '' @ utf8 [227, 131, 172, 227, 130, 179, 227, 131, 188, 227, 131, 137]),
    (''SPF '' @ utf8 [232, 174, 176, 229, 189, 149] @ '' (TXT)'', ''SPF '' @ utf8 [227, 131, 172, 227, 130, 179, 227, 131, 188, 227, 131, 137] @ '' (TXT)''),
    (''DKIM '' @ utf8 [232, 174, 176, 229, 189, 149] @ '' (TXT)'', ''DKIM '' @ utf8 [227, 131, 172, 227, 130, 179, 227, 131, 188, 227, 131, 137] @ '' (TXT)''),
    (''DMARC '' @ utf8 [232, 174, 176, 229, 189, 149], ''DMARC '' @ utf8 [227, 131, 172, 227, 130, 179, 227, 131, 188, 227, 131, 137]),
    (utf8 [226, 154, 160, 239, 184, 143] @ '' DKIM '' @ utf8 [229, 175, 134, 233, 146, 165, 229, 176, 154, 230, 156, 170, 231, 148, 159, 230, 136, 144, 239, 188, 140, 232, 175, 183, 231, 188, 150, 232, 190, 145, 229, 159, 159, 229, 144, 141, 233, 135, 141, 230, 150, 176, 231, 148, 159, 230, 136, 144, 227, 128, 130], utf8 [226, 154, 160, 239, 184, 143] @ '' DKIM '' @ utf8 [227, 130, 173, 227, 131, 188, 227, 129, 140, 230, 156, 170, 231, 148, 159, 230, 136, 144, 227, 129, 167, 227, 129, 153, 227, 128, 130, 227, 131, 137, 227, 131, 161, 227, 130, 164, 227, 131, 179, 227, 130, 146, 231, 183, 168, 233, 155, 134, 227, 129, 151, 227, 129, 166, 229, 134, 141, 231, 148, 159, 230, 136, 144, 227, 129, 151, 227, 129, 166, 227, 129, 143, 227, 129, 160, 227, 129, 149, 227, 129, 132, 227, 128, 130]),
    (utf8 [232, 191, 148, 229, 155, 158, 229, 159, 159, 229, 144, 141, 229, 136, 151, 232, 161, 168], utf8 [227, 131, 137, 227, 131, 161, 227, 130, 164, 227, 131, 179, 228, 184, 128, 232, 166, 167, 227, 129, 171, 230, 136, 187, 227, 130, 139])]"

definition ja_all_mails :: "(string \<times> string) list" where
  "ja_all_mails = [
    (utf8 [229, 143, 145, 228, 187, 182, 228, 186, 186], utf8 [233, 128, 129, 228, 191, 161, 232, 128, 133]),
    (utf8 [230, 137, 128, 229, 177, 158, 231, 148, 168, 230, 136, 183], utf8 [230, 137, 128, 230, 156, 137, 232, 128, 133]),
    (utf8 [230, 151, 165, 230, 156, 159], utf8 [230, 151, 165, 228, 187, 152]),
    (utf8 [229, 133, 168, 233, 131, 168], utf8 [227, 129, 153, 227, 129, 185, 227, 129, 166]),
    (utf8 [232, 191, 148, 229, 155, 158, 233, 130, 174, 228, 187, 182, 229, 136, 151, 232, 161, 168], utf8 [228, 184, 128, 232, 166, 167, 227, 129, 171, 230, 136, 187, 227, 130, 139]),
    (utf8 [229, 143, 145, 228, 187, 182, 228, 186, 186] @ '':'', utf8 [233, 128, 129, 228, 191, 161, 232, 128, 133, 239, 188, 154]),
    (utf8 [230, 148, 182, 228, 187, 182, 228, 186, 186] @ '':'', utf8 [229, 174, 155, 229, 133, 136, 239, 188, 154]),
    (utf8 [230, 138, 132, 233, 128, 129] @ '':'', ''Cc'' @ utf8 [239, 188, 154]),
    (utf8 [230, 137, 128, 229, 177, 158, 231, 148, 168, 230, 136, 183] @ '':'', utf8 [230, 137, 128, 230, 156, 137, 232, 128, 133, 239, 188, 154]),
    (utf8 [230, 150, 135, 228, 187, 182, 229, 164, 185] @ '':'', utf8 [227, 131, 149, 227, 130, 169, 227, 131, 171, 227, 131, 128, 239, 188, 154]),
    (utf8 [230, 151, 182, 233, 151, 180] @ '':'', utf8 [230, 153, 130, 229, 136, 187, 239, 188, 154]),
    (utf8 [233, 153, 132, 228, 187, 182, 229, 136, 151, 232, 161, 168], utf8 [230, 183, 187, 228, 187, 152, 227, 131, 149, 227, 130, 161, 227, 130, 164, 227, 131, 171])]"

definition ja_outbound :: "(string \<times> string) list" where
  "ja_outbound = [
    (utf8 [233, 152, 159, 229, 136, 151, 228, 184, 186, 231, 169, 186], utf8 [227, 130, 173, 227, 131, 165, 227, 131, 188, 227, 129, 175, 231, 169, 186, 227, 129, 167, 227, 129, 153]),
    (utf8 [229, 190, 133, 229, 143, 145, 233, 128, 129], utf8 [229, 190, 133, 230, 169, 159, 228, 184, 173]),
    (utf8 [229, 143, 145, 233, 128, 129, 228, 184, 173], utf8 [233, 128, 129, 228, 191, 161, 228, 184, 173]),
    (utf8 [229, 183, 178, 233, 128, 129, 232, 190, 190], utf8 [233, 128, 129, 228, 191, 161, 230, 184, 136, 227, 129, 191]),
    (utf8 [231, 173, 137, 229, 190, 133, 233, 135, 141, 232, 175, 149], utf8 [229, 134, 141, 232, 169, 166, 232, 161, 140, 229, 190, 133, 227, 129, 161]),
    (utf8 [229, 164, 177, 232, 180, 165], utf8 [229, 164, 177, 230, 149, 151]),
    (utf8 [229, 183, 178, 229, 143, 150, 230, 182, 136], utf8 [227, 130, 173, 227, 131, 163, 227, 131, 179, 227, 130, 187, 227, 131, 171, 230, 184, 136, 227, 129, 191]),
    (utf8 [229, 176, 157, 232, 175, 149, 230, 172, 161, 230, 149, 176], utf8 [232, 169, 166, 232, 161, 140, 229, 155, 158, 230, 149, 176]),
    (utf8 [228, 184, 139, 230, 172, 161, 233, 135, 141, 232, 175, 149], utf8 [230, 172, 161, 229, 155, 158, 229, 134, 141, 232, 169, 166, 232, 161, 140]),
    (utf8 [230, 156, 128, 229, 144, 142, 229, 147, 141, 229, 186, 148] @ '' / '' @ utf8 [233, 148, 153, 232, 175, 175], utf8 [230, 156, 128, 231, 181, 130, 227, 131, 172, 227, 130, 185, 227, 131, 157, 227, 131, 179, 227, 130, 185] @ '' / '' @ utf8 [227, 130, 168, 227, 131, 169, 227, 131, 188]),
    (utf8 [229, 136, 155, 229, 187, 186, 230, 151, 182, 233, 151, 180], utf8 [228, 189, 156, 230, 136, 144, 230, 151, 165, 230, 153, 130]),
    (utf8 [233, 135, 141, 232, 175, 149], utf8 [229, 134, 141, 232, 169, 166, 232, 161, 140]),
    (utf8 [231, 161, 174, 232, 174, 164, 229, 143, 150, 230, 182, 136, 232, 175, 165, 230, 138, 149, 233, 128, 146, 228, 187, 187, 229, 138, 161, 239, 188, 159], utf8 [227, 129, 147, 227, 129, 174, 233, 133, 141, 228, 191, 161, 227, 130, 191, 227, 130, 185, 227, 130, 175, 227, 130, 146, 227, 130, 173, 227, 131, 163, 227, 131, 179, 227, 130, 187, 227, 131, 171, 227, 129, 151, 227, 129, 190, 227, 129, 153, 227, 129, 139, 239, 188, 159])]"

definition ja_protocol_logs :: "(string \<times> string) list" where
  "ja_protocol_logs = [
    (utf8 [229, 141, 143, 232, 174, 174, 230, 151, 165, 229, 191, 151, 239, 188, 136] @ ''SMTP / IMAP / POP3'' @ utf8 [239, 188, 137], utf8 [227, 131, 151, 227, 131, 173, 227, 131, 136, 227, 130, 179, 227, 131, 171, 227, 131, 173, 227, 130, 176, 239, 188, 136] @ ''SMTP / IMAP / POP3'' @ utf8 [239, 188, 137]),
    (utf8 [230, 184, 133, 231, 144, 134, 230, 151, 167, 230, 151, 165, 229, 191, 151], utf8 [229, 143, 164, 227, 129, 132, 227, 131, 173, 227, 130, 176, 227, 130, 146, 229, 137, 138, 233, 153, 164]),
    (utf8 [231, 161, 174, 232, 174, 164, 230, 184, 133, 231, 144, 134] @ '' %d '' @ utf8 [229, 164, 169, 229, 137, 141, 231, 154, 132, 229, 141, 143, 232, 174, 174, 230, 151, 165, 229, 191, 151, 239, 188, 159], ''%d '' @ utf8 [230, 151, 165, 229, 137, 141, 227, 130, 136, 227, 130, 138, 229, 137, 141, 227, 129, 174, 227, 131, 151, 227, 131, 173, 227, 131, 136, 227, 130, 179, 227, 131, 171, 227, 131, 173, 227, 130, 176, 227, 130, 146, 229, 137, 138, 233, 153, 164, 227, 129, 151, 227, 129, 190, 227, 129, 153, 227, 129, 139, 239, 188, 159]),
    (utf8 [228, 187, 138, 230, 151, 165] @ '' SMTP '' @ utf8 [229, 164, 177, 232, 180, 165], utf8 [228, 187, 138, 230, 151, 165, 227, 129, 174] @ '' SMTP '' @ utf8 [229, 164, 177, 230, 149, 151]),
    (utf8 [228, 187, 138, 230, 151, 165] @ '' IMAP '' @ utf8 [229, 164, 177, 232, 180, 165], utf8 [228, 187, 138, 230, 151, 165, 227, 129, 174] @ '' IMAP '' @ utf8 [229, 164, 177, 230, 149, 151]),
    (utf8 [228, 187, 138, 230, 151, 165] @ '' POP3 '' @ utf8 [229, 164, 177, 232, 180, 165], utf8 [228, 187, 138, 230, 151, 165, 227, 129, 174] @ '' POP3 '' @ utf8 [229, 164, 177, 230, 149, 151]),
    (utf8 [229, 142, 134, 229, 143, 178, 229, 164, 177, 232, 180, 165, 239, 188, 136, 229, 133, 168, 233, 131, 168, 239, 188, 137], utf8 [233, 129, 142, 229, 142, 187, 227, 129, 174, 229, 164, 177, 230, 149, 151, 239, 188, 136, 227, 129, 153, 227, 129, 185, 227, 129, 166, 239, 188, 137]),
    (utf8 [229, 133, 168, 233, 131, 168, 229, 141, 143, 232, 174, 174], utf8 [227, 129, 153, 227, 129, 185, 227, 129, 166, 227, 129, 174, 227, 131, 151, 227, 131, 173, 227, 131, 136, 227, 130, 179, 227, 131, 171]),
    (utf8 [229, 133, 168, 233, 131, 168, 231, 138, 182, 230, 128, 129], utf8 [227, 129, 153, 227, 129, 185, 227, 129, 166, 227, 129, 174, 231, 138, 182, 230, 133, 139]),
    (utf8 [230, 136, 144, 229, 138, 159], utf8 [230, 136, 144, 229, 138, 159]),
    (utf8 [230, 157, 165, 230, 186, 144] @ '' IP'' @ utf8 [239, 188, 136, 230, 168, 161, 231, 179, 138, 239, 188, 137], utf8 [233, 128, 129, 228, 191, 161, 229, 133, 131] @ '' IP'' @ utf8 [239, 188, 136, 227, 129, 130, 227, 129, 132, 227, 129, 190, 227, 129, 132, 239, 188, 137]),
    (utf8 [231, 148, 168, 230, 136, 183, 229, 144, 141, 239, 188, 136, 230, 168, 161, 231, 179, 138, 239, 188, 137], utf8 [227, 131, 166, 227, 131, 188, 227, 130, 182, 227, 131, 188, 229, 144, 141, 239, 188, 136, 227, 129, 130, 227, 129, 132, 227, 129, 190, 227, 129, 132, 239, 188, 137]),
    (utf8 [232, 135, 179], utf8 [227, 128, 156]),
    (utf8 [231, 173, 155, 233, 128, 137], utf8 [227, 131, 149, 227, 130, 163, 227, 131, 171, 227, 130, 191, 227, 131, 188]),
    (utf8 [233, 135, 141, 231, 189, 174], utf8 [227, 131, 170, 227, 130, 187, 227, 131, 131, 227, 131, 136]),
    (utf8 [230, 151, 182, 233, 151, 180], utf8 [230, 153, 130, 229, 136, 187]),
    (utf8 [231, 171, 175, 229, 143, 163], utf8 [227, 131, 157, 227, 131, 188, 227, 131, 136]),
    (utf8 [229, 164, 177, 232, 180, 165, 229, 142, 159, 229, 155, 160], utf8 [229, 164, 177, 230, 149, 151, 231, 144, 134, 231, 148, 177]),
    (utf8 [230, 147, 141, 228, 189, 156, 230, 145, 152, 232, 166, 129], utf8 [230, 147, 141, 228, 189, 156, 230, 166, 130, 232, 166, 129]),
    (utf8 [230, 182, 136, 230, 129, 175, 230, 149, 176], utf8 [227, 131, 161, 227, 131, 131, 227, 130, 187, 227, 131, 188, 227, 130, 184, 230, 149, 176]),
    (utf8 [230, 151, 182, 233, 149, 191], utf8 [230, 137, 128, 232, 166, 129, 230, 153, 130, 233, 150, 147]),
    (utf8 [230, 154, 130, 230, 151, 160, 232, 174, 176, 229, 189, 149], utf8 [232, 168, 152, 233, 140, 178, 227, 129, 175, 227, 129, 130, 227, 130, 138, 227, 129, 190, 227, 129, 155, 227, 130, 147]),
    (utf8 [231, 172, 172] @ '' %d / %d '' @ utf8 [233, 161, 181, 239, 188, 136, 229, 133, 177] @ '' %d '' @ utf8 [230, 157, 161, 239, 188, 137], ''%d / %d '' @ utf8 [227, 131, 154, 227, 131, 188, 227, 130, 184, 239, 188, 136, 229, 133, 168] @ '' %d '' @ utf8 [228, 187, 182, 239, 188, 137])]"

definition ja_connections :: "(string \<times> string) list" where
  "ja_connections = [
    (utf8 [229, 189, 147, 229, 137, 141, 232, 191, 158, 230, 142, 165, 239, 188, 136] @ ''SMTP / IMAP / POP3'' @ utf8 [239, 188, 137], utf8 [231, 143, 190, 229, 156, 168, 227, 129, 174, 230, 142, 165, 231, 182, 154, 239, 188, 136] @ ''SMTP / IMAP / POP3'' @ utf8 [239, 188, 137]),
    (utf8 [230, 175, 143] @ '' 5 '' @ utf8 [231, 167, 146, 232, 135, 170, 229, 138, 168, 229, 136, 183, 230, 150, 176], ''5 '' @ utf8 [231, 167, 146, 227, 129, 148, 227, 129, 168, 227, 129, 171, 232, 135, 170, 229, 139, 149, 230, 155, 180, 230, 150, 176]),
    (utf8 [229, 189, 147, 229, 137, 141, 232, 191, 158, 230, 142, 165, 230, 128, 187, 230, 149, 176], utf8 [231, 143, 190, 229, 156, 168, 227, 129, 174, 230, 142, 165, 231, 182, 154, 230, 149, 176]),
    (utf8 [229, 141, 143, 232, 174, 174], utf8 [227, 131, 151, 227, 131, 173, 227, 131, 136, 227, 130, 179, 227, 131, 171]),
    (utf8 [230, 157, 165, 230, 186, 144] @ '' IP'', utf8 [233, 128, 129, 228, 191, 161, 229, 133, 131] @ '' IP''),
    (''TLS'', ''TLS''),
    (utf8 [230, 152, 142, 230, 150, 135], utf8 [229, 185, 179, 230, 150, 135]),
    (utf8 [232, 191, 158, 230, 142, 165, 230, 151, 182, 233, 151, 180], utf8 [230, 142, 165, 231, 182, 154, 230, 153, 130, 229, 136, 187]),
    (utf8 [230, 156, 128, 229, 144, 142, 230, 180, 187, 232, 183, 131], utf8 [230, 156, 128, 231, 181, 130, 227, 130, 162, 227, 130, 175, 227, 131, 134, 227, 130, 163, 227, 131, 150]),
    (utf8 [230, 150, 173, 229, 188, 128, 229, 185, 182, 229, 176, 129, 231, 166, 129], utf8 [229, 136, 135, 230, 150, 173, 227, 129, 151, 227, 129, 166, 227, 131, 150, 227, 131, 173, 227, 131, 131, 227, 130, 175]),
    (utf8 [229, 189, 147, 229, 137, 141, 230, 178, 161, 230, 156, 137, 230, 180, 187, 229, 138, 168, 232, 191, 158, 230, 142, 165], utf8 [227, 130, 162, 227, 130, 175, 227, 131, 134, 227, 130, 163, 227, 131, 150, 227, 129, 170, 230, 142, 165, 231, 182, 154, 227, 129, 175, 227, 129, 130, 227, 130, 138, 227, 129, 190, 227, 129, 155, 227, 130, 147]),
    (utf8 [231, 161, 174, 229, 174, 154, 232, 166, 129, 230, 150, 173, 229, 188, 128] @ '' IP %s '' @ utf8 [231, 154, 132, 230, 137, 128, 230, 156, 137, 232, 191, 158, 230, 142, 165, 229, 185, 182, 229, 138, 160, 229, 133, 165, 233, 187, 145, 229, 144, 141, 229, 141, 149, 239, 188, 136] @ ''180 '' @ utf8 [229, 164, 169, 239, 188, 137, 229, 144, 151, 239, 188, 159], ''IP %s '' @ utf8 [227, 129, 174, 227, 129, 153, 227, 129, 185, 227, 129, 166, 227, 129, 174, 230, 142, 165, 231, 182, 154, 227, 130, 146, 229, 136, 135, 230, 150, 173, 227, 129, 151, 227, 129, 166, 227, 131, 150, 227, 131, 169, 227, 131, 131, 227, 130, 175, 227, 131, 170, 227, 130, 185, 227, 131, 136, 227, 129, 171, 232, 191, 189, 229, 138, 160, 227, 129, 151, 227, 129, 190, 227, 129, 153, 227, 129, 139, 239, 188, 136] @ ''180 '' @ utf8 [230, 151, 165, 239, 188, 137, 239, 188, 159])]"

definition ja_bans :: "(string \<times> string) list" where
  "ja_bans = [
    (''IP '' @ utf8 [233, 187, 145, 229, 144, 141, 229, 141, 149], ''IP '' @ utf8 [227, 131, 150, 227, 131, 169, 227, 131, 131, 227, 130, 175, 227, 131, 170, 227, 130, 185, 227, 131, 136]),
    (utf8 [233, 152, 182, 230, 174, 181, 230, 128, 167, 229, 176, 129, 231, 166, 129, 239, 188, 154, 231, 172, 172] @ '' 4 '' @ utf8 [230, 172, 161, 232, 167, 166, 229, 143, 145, 232, 181, 183, 229, 176, 129, 231, 166, 129, 239, 188, 140] @ ''30'' @ utf8 [229, 136, 134, 233, 146, 159] @ '' '' @ utf8 [226, 134, 146] @ '' 3'' @ utf8 [229, 176, 143, 230, 151, 182] @ '' '' @ utf8 [226, 134, 146] @ '' 3'' @ utf8 [228, 184, 170, 230, 156, 136] @ '' '' @ utf8 [226, 134, 146] @ '' '' @ utf8 [229, 141, 138, 229, 185, 180, 239, 188, 136, 228, 184, 138, 233, 153, 144, 239, 188, 137], utf8 [230, 174, 181, 233, 154, 142, 231, 154, 132, 227, 131, 150, 227, 131, 173, 227, 131, 131, 227, 130, 175, 239, 188, 154] @ ''4 '' @ utf8 [229, 155, 158, 231, 155, 174, 227, 129, 174, 231, 153, 186, 229, 139, 149, 227, 129, 139, 227, 130, 137, 227, 131, 150, 227, 131, 173, 227, 131, 131, 227, 130, 175, 233, 150, 139, 229, 167, 139, 227, 128, 129] @ ''30'' @ utf8 [229, 136, 134] @ '' '' @ utf8 [226, 134, 146] @ '' 3'' @ utf8 [230, 153, 130, 233, 150, 147] @ '' '' @ utf8 [226, 134, 146] @ '' 3'' @ utf8 [227, 129, 139, 230, 156, 136] @ '' '' @ utf8 [226, 134, 146] @ '' '' @ utf8 [229, 141, 138, 229, 185, 180, 239, 188, 136, 228, 184, 138, 233, 153, 144, 239, 188, 137]),
    (utf8 [229, 176, 129, 231, 166, 129, 230, 172, 161, 230, 149, 176], utf8 [227, 131, 150, 227, 131, 173, 227, 131, 131, 227, 130, 175, 229, 155, 158, 230, 149, 176]),
    (utf8 [229, 136, 176, 230, 156, 159, 230, 151, 182, 233, 151, 180], utf8 [232, 167, 163, 233, 153, 164, 230, 153, 130, 229, 136, 187]),
    (utf8 [229, 176, 129, 231, 166, 129, 228, 184, 173], utf8 [227, 131, 150, 227, 131, 173, 227, 131, 131, 227, 130, 175, 228, 184, 173]),
    (utf8 [229, 183, 178, 232, 191, 135, 230, 156, 159], utf8 [230, 156, 159, 233, 153, 144, 229, 136, 135, 227, 130, 140]),
    (utf8 [228, 187, 133, 232, 174, 161, 230, 149, 176], utf8 [227, 130, 171, 227, 130, 166, 227, 131, 179, 227, 131, 136, 227, 129, 174, 227, 129, 191]),
    (utf8 [239, 188, 136, 229, 183, 178, 232, 191, 135, 230, 156, 159, 239, 188, 137], utf8 [239, 188, 136, 230, 156, 159, 233, 153, 144, 229, 136, 135, 227, 130, 140, 239, 188, 137]),
    (utf8 [232, 167, 163, 229, 176, 129], utf8 [232, 167, 163, 233, 153, 164]),
    (utf8 [231, 161, 174, 229, 174, 154, 232, 166, 129, 232, 167, 163, 229, 176, 129] @ '' IP %s '' @ utf8 [229, 144, 151, 239, 188, 159, 232, 167, 163, 229, 176, 129, 229, 144, 142, 232, 175, 165] @ '' IP '' @ utf8 [231, 154, 132, 229, 176, 129, 231, 166, 129, 230, 161, 163, 228, 189, 141, 229, 176, 134, 230, 184, 133, 233, 155, 182, 227, 128, 130], ''IP %s '' @ utf8 [227, 129, 174, 227, 131, 150, 227, 131, 173, 227, 131, 131, 227, 130, 175, 227, 130, 146, 232, 167, 163, 233, 153, 164, 227, 129, 151, 227, 129, 190, 227, 129, 153, 227, 129, 139, 239, 188, 159, 227, 131, 150, 227, 131, 173, 227, 131, 131, 227, 130, 175, 230, 174, 181, 233, 154, 142, 227, 129, 175, 227, 131, 170, 227, 130, 187, 227, 131, 131, 227, 131, 136, 227, 129, 149, 227, 130, 140, 227, 129, 190, 227, 129, 153, 227, 128, 130]),
    (utf8 [230, 154, 130, 230, 151, 160, 229, 176, 129, 231, 166, 129, 232, 174, 176, 229, 189, 149], utf8 [227, 131, 150, 227, 131, 173, 227, 131, 131, 227, 130, 175, 232, 168, 152, 233, 140, 178, 227, 129, 175, 227, 129, 130, 227, 130, 138, 227, 129, 190, 227, 129, 155, 227, 130, 147])]"

definition ja_auth_errors :: "(string \<times> string) list" where
  "ja_auth_errors = [
    (utf8 [232, 175, 183, 232, 190, 147, 229, 133, 165, 233, 130, 174, 231, 174, 177, 229, 146, 140, 229, 175, 134, 231, 160, 129], utf8 [227, 131, 161, 227, 131, 188, 227, 131, 171, 227, 130, 162, 227, 131, 137, 227, 131, 172, 227, 130, 185, 227, 129, 168, 227, 131, 145, 227, 130, 185, 227, 131, 175, 227, 131, 188, 227, 131, 137, 227, 130, 146, 229, 133, 165, 229, 138, 155, 227, 129, 151, 227, 129, 166, 227, 129, 143, 227, 129, 160, 227, 129, 149, 227, 129, 132]),
    (utf8 [231, 148, 168, 230, 136, 183, 229, 144, 141, 230, 136, 150, 229, 175, 134, 231, 160, 129, 233, 148, 153, 232, 175, 175, 239, 188, 140, 232, 191, 152, 229, 137, 169] @ '' %d '' @ utf8 [230, 172, 161, 229, 176, 157, 232, 175, 149, 230, 156, 186, 228, 188, 154], utf8 [227, 131, 166, 227, 131, 188, 227, 130, 182, 227, 131, 188, 229, 144, 141, 227, 129, 190, 227, 129, 159, 227, 129, 175, 227, 131, 145, 227, 130, 185, 227, 131, 175, 227, 131, 188, 227, 131, 137, 227, 129, 140, 233, 129, 149, 227, 129, 132, 227, 129, 190, 227, 129, 153, 227, 128, 130, 227, 129, 130, 227, 129, 168] @ '' %d '' @ utf8 [229, 155, 158, 232, 169, 166, 232, 161, 140, 227, 129, 167, 227, 129, 141, 227, 129, 190, 227, 129, 153]),
    (utf8 [228, 188, 154, 232, 175, 157, 228, 191, 157, 229, 173, 152, 229, 164, 177, 232, 180, 165, 239, 188, 140, 232, 175, 183, 233, 135, 141, 232, 175, 149], utf8 [227, 130, 187, 227, 131, 131, 227, 130, 183, 227, 131, 167, 227, 131, 179, 227, 129, 174, 228, 191, 157, 229, 173, 152, 227, 129, 171, 229, 164, 177, 230, 149, 151, 227, 129, 151, 227, 129, 190, 227, 129, 151, 227, 129, 159, 227, 128, 130, 227, 130, 130, 227, 129, 134, 228, 184, 128, 229, 186, 166, 227, 129, 138, 232, 169, 166, 227, 129, 151, 227, 129, 143, 227, 129, 160, 227, 129, 149, 227, 129, 132]),
    (utf8 [232, 175, 183, 232, 190, 147, 229, 133, 165] @ ''LDAP'' @ utf8 [231, 148, 168, 230, 136, 183, 229, 144, 141, 229, 146, 140, 229, 175, 134, 231, 160, 129], ''LDAP '' @ utf8 [227, 131, 166, 227, 131, 188, 227, 130, 182, 227, 131, 188, 229, 144, 141, 227, 129, 168, 227, 131, 145, 227, 130, 185, 227, 131, 175, 227, 131, 188, 227, 131, 137, 227, 130, 146, 229, 133, 165, 229, 138, 155, 227, 129, 151, 227, 129, 166, 227, 129, 143, 227, 129, 160, 227, 129, 149, 227, 129, 132]),
    (''LDAP '' @ utf8 [232, 174, 164, 232, 175, 129, 229, 164, 177, 232, 180, 165, 239, 188, 140, 232, 191, 152, 229, 137, 169] @ '' %d '' @ utf8 [230, 172, 161, 229, 176, 157, 232, 175, 149, 230, 156, 186, 228, 188, 154], ''LDAP '' @ utf8 [232, 170, 141, 232, 168, 188, 227, 129, 171, 229, 164, 177, 230, 149, 151, 227, 129, 151, 227, 129, 190, 227, 129, 151, 227, 129, 159, 227, 128, 130, 227, 129, 130, 227, 129, 168] @ '' %d '' @ utf8 [229, 155, 158, 232, 169, 166, 232, 161, 140, 227, 129, 167, 227, 129, 141, 227, 129, 190, 227, 129, 153]),
    (''LDAP '' @ utf8 [232, 180, 166, 229, 143, 183, 230, 156, 170, 230, 142, 165, 229, 133, 165, 230, 156, 172, 231, 179, 187, 231, 187, 159, 239, 188, 140, 232, 175, 183, 232, 129, 148, 231, 179, 187, 231, 174, 161, 231, 144, 134, 229, 145, 152], ''LDAP '' @ utf8 [227, 130, 162, 227, 130, 171, 227, 130, 166, 227, 131, 179, 227, 131, 136, 227, 129, 175, 227, 129, 147, 227, 129, 174, 227, 130, 183, 227, 130, 185, 227, 131, 134, 227, 131, 160, 227, 129, 171, 230, 142, 165, 231, 182, 154, 227, 129, 149, 227, 130, 140, 227, 129, 166, 227, 129, 132, 227, 129, 190, 227, 129, 155, 227, 130, 147, 227, 128, 130, 231, 174, 161, 231, 144, 134, 232, 128, 133, 227, 129, 171, 233, 128, 163, 231, 181, 161, 227, 129, 151, 227, 129, 166, 227, 129, 143, 227, 129, 160, 227, 129, 149, 227, 129, 132]),
    (utf8 [231, 148, 168, 230, 136, 183, 229, 183, 178, 232, 162, 171, 231, 166, 129, 231, 148, 168], utf8 [227, 131, 166, 227, 131, 188, 227, 130, 182, 227, 131, 188, 227, 129, 175, 231, 132, 161, 229, 138, 185, 227, 129, 167, 227, 129, 153]),
    (''OAuth2 state '' @ utf8 [230, 160, 161, 233, 170, 140, 229, 164, 177, 232, 180, 165, 239, 188, 140, 232, 175, 183, 233, 135, 141, 230, 150, 176, 229, 143, 145, 232, 181, 183, 231, 153, 187, 229, 189, 149], ''OAuth2 '' @ utf8 [227, 129, 174] @ '' state '' @ utf8 [230, 164, 156, 232, 168, 188, 227, 129, 171, 229, 164, 177, 230, 149, 151, 227, 129, 151, 227, 129, 190, 227, 129, 151, 227, 129, 159, 227, 128, 130, 227, 130, 130, 227, 129, 134, 228, 184, 128, 229, 186, 166, 227, 131, 173, 227, 130, 176, 227, 130, 164, 227, 131, 179, 227, 129, 151, 227, 129, 166, 227, 129, 143, 227, 129, 160, 227, 129, 149, 227, 129, 132]),
    (''OAuth2 '' @ utf8 [230, 142, 136, 230, 157, 131, 231, 160, 129, 231, 188, 186, 229, 164, 177], ''OAuth2 '' @ utf8 [232, 170, 141, 229, 143, 175, 227, 130, 179, 227, 131, 188, 227, 131, 137, 227, 129, 140, 227, 129, 130, 227, 130, 138, 227, 129, 190, 227, 129, 155, 227, 130, 147]),
    (''OAuth2 '' @ utf8 [232, 174, 164, 232, 175, 129, 229, 164, 177, 232, 180, 165, 239, 188, 140, 232, 175, 183, 233, 135, 141, 232, 175, 149, 230, 136, 150, 232, 129, 148, 231, 179, 187, 231, 174, 161, 231, 144, 134, 229, 145, 152], ''OAuth2 '' @ utf8 [232, 170, 141, 232, 168, 188, 227, 129, 171, 229, 164, 177, 230, 149, 151, 227, 129, 151, 227, 129, 190, 227, 129, 151, 227, 129, 159, 227, 128, 130, 229, 134, 141, 232, 169, 166, 232, 161, 140, 227, 129, 153, 227, 130, 139, 227, 129, 139, 231, 174, 161, 231, 144, 134, 232, 128, 133, 227, 129, 171, 233, 128, 163, 231, 181, 161, 227, 129, 151, 227, 129, 166, 227, 129, 143, 227, 129, 160, 227, 129, 149, 227, 129, 132]),
    (''OAuth2 '' @ utf8 [232, 180, 166, 229, 143, 183, 230, 156, 170, 230, 142, 165, 229, 133, 165, 230, 156, 172, 231, 179, 187, 231, 187, 159, 239, 188, 140, 232, 175, 183, 232, 129, 148, 231, 179, 187, 231, 174, 161, 231, 144, 134, 229, 145, 152], ''OAuth2 '' @ utf8 [227, 130, 162, 227, 130, 171, 227, 130, 166, 227, 131, 179, 227, 131, 136, 227, 129, 175, 227, 129, 147, 227, 129, 174, 227, 130, 183, 227, 130, 185, 227, 131, 134, 227, 131, 160, 227, 129, 171, 230, 142, 165, 231, 182, 154, 227, 129, 149, 227, 130, 140, 227, 129, 166, 227, 129, 132, 227, 129, 190, 227, 129, 155, 227, 130, 147, 227, 128, 130, 231, 174, 161, 231, 144, 134, 232, 128, 133, 227, 129, 171, 233, 128, 163, 231, 181, 161, 227, 129, 151, 227, 129, 166, 227, 129, 143, 227, 129, 160, 227, 129, 149, 227, 129, 132]),
    (''OAuth2 '' @ utf8 [230, 156, 170, 229, 144, 175, 231, 148, 168], ''OAuth2 '' @ utf8 [227, 129, 175, 230, 156, 137, 229, 138, 185, 227, 129, 167, 227, 129, 175, 227, 129, 130, 227, 130, 138, 227, 129, 190, 227, 129, 155, 227, 130, 147]),
    (''OAuth2 '' @ utf8 [231, 153, 187, 229, 189, 149, 230, 154, 130, 228, 184, 141, 229, 143, 175, 231, 148, 168, 239, 188, 140, 232, 175, 183, 231, 168, 141, 229, 144, 142, 233, 135, 141, 232, 175, 149], ''OAuth2 '' @ utf8 [227, 131, 173, 227, 130, 176, 227, 130, 164, 227, 131, 179, 227, 129, 175, 228, 184, 128, 230, 153, 130, 231, 154, 132, 227, 129, 171, 229, 136, 169, 231, 148, 168, 227, 129, 167, 227, 129, 141, 227, 129, 190, 227, 129, 155, 227, 130, 147, 227, 128, 130, 229, 190, 140, 227, 129, 167, 227, 130, 130, 227, 129, 134, 228, 184, 128, 229, 186, 166, 227, 129, 138, 232, 169, 166, 227, 129, 151, 227, 129, 143, 227, 129, 160, 227, 129, 149, 227, 129, 132]),
    (utf8 [231, 153, 187, 229, 189, 149, 229, 164, 177, 232, 180, 165, 230, 172, 161, 230, 149, 176, 232, 191, 135, 229, 164, 154], utf8 [227, 131, 173, 227, 130, 176, 227, 130, 164, 227, 131, 179, 229, 164, 177, 230, 149, 151, 227, 129, 140, 229, 164, 154, 227, 129, 153, 227, 129, 142, 227, 129, 190, 227, 129, 153]),
    (''LDAP '' @ utf8 [231, 153, 187, 229, 189, 149, 229, 164, 177, 232, 180, 165, 230, 172, 161, 230, 149, 176, 232, 191, 135, 229, 164, 154], ''LDAP '' @ utf8 [227, 131, 173, 227, 130, 176, 227, 130, 164, 227, 131, 179, 229, 164, 177, 230, 149, 151, 227, 129, 140, 229, 164, 154, 227, 129, 153, 227, 129, 142, 227, 129, 190, 227, 129, 153])]"

definition ja_mail_errors :: "(string \<times> string) list" where
  "ja_mail_errors = [
    (utf8 [232, 175, 183, 232, 190, 147, 229, 133, 165, 230, 148, 182, 228, 187, 182, 228, 186, 186], utf8 [229, 174, 155, 229, 133, 136, 227, 130, 146, 229, 133, 165, 229, 138, 155, 227, 129, 151, 227, 129, 166, 227, 129, 143, 227, 129, 160, 227, 129, 149, 227, 129, 132]),
    (utf8 [233, 133, 141, 233, 162, 157, 230, 163, 128, 230, 159, 165, 229, 164, 177, 232, 180, 165, 239, 188, 140, 232, 175, 183, 231, 168, 141, 229, 144, 142, 233, 135, 141, 232, 175, 149], utf8 [229, 174, 185, 233, 135, 143, 227, 131, 129, 227, 130, 167, 227, 131, 131, 227, 130, 175, 227, 129, 171, 229, 164, 177, 230, 149, 151, 227, 129, 151, 227, 129, 190, 227, 129, 151, 227, 129, 159, 227, 128, 130, 229, 190, 140, 227, 129, 167, 227, 130, 130, 227, 129, 134, 228, 184, 128, 229, 186, 166, 227, 129, 138, 232, 169, 166, 227, 129, 151, 227, 129, 143, 227, 129, 160, 227, 129, 149, 227, 129, 132]),
    (utf8 [233, 153, 132, 228, 187, 182, 232, 182, 133, 229, 135, 186, 233, 133, 141, 233, 162, 157, 233, 153, 144, 229, 136, 182, 227, 128, 130, 229, 183, 178, 231, 148, 168] @ '' %s / '' @ utf8 [230, 128, 187, 233, 133, 141, 233, 162, 157] @ '' %s'', utf8 [230, 183, 187, 228, 187, 152, 227, 131, 149, 227, 130, 161, 227, 130, 164, 227, 131, 171, 227, 129, 140, 229, 174, 185, 233, 135, 143, 227, 130, 146, 232, 182, 133, 227, 129, 136, 227, 129, 166, 227, 129, 132, 227, 129, 190, 227, 129, 153, 227, 128, 130, 228, 189, 191, 231, 148, 168] @ '' %s / '' @ utf8 [229, 144, 136, 232, 168, 136] @ '' %s''),
    (utf8 [229, 164, 150, 233, 131, 168, 230, 138, 149, 233, 128, 146, 230, 156, 170, 229, 144, 175, 231, 148, 168], utf8 [229, 164, 150, 233, 131, 168, 233, 128, 129, 228, 191, 161, 227, 129, 175, 230, 156, 137, 229, 138, 185, 227, 129, 167, 227, 129, 175, 227, 129, 130, 227, 130, 138, 227, 129, 190, 227, 129, 155, 227, 130, 147]),
    (utf8 [229, 164, 150, 233, 131, 168, 230, 148, 182, 228, 187, 182, 228, 186, 186, 232, 191, 135, 229, 164, 154, 239, 188, 154, 230, 156, 128, 229, 164, 154] @ '' %d '' @ utf8 [228, 184, 170], utf8 [229, 164, 150, 233, 131, 168, 229, 174, 155, 229, 133, 136, 227, 129, 140, 229, 164, 154, 227, 129, 153, 227, 129, 142, 227, 129, 190, 227, 129, 153, 239, 188, 154, 230, 156, 128, 229, 164, 167] @ '' %d '' @ utf8 [228, 187, 182]),
    (utf8 [229, 164, 150, 229, 143, 145, 233, 130, 174, 228, 187, 182, 229, 133, 165, 233, 152, 159, 229, 164, 177, 232, 180, 165] @ '' (%s): %v'', utf8 [229, 164, 150, 233, 131, 168, 227, 131, 161, 227, 131, 188, 227, 131, 171, 227, 129, 174, 227, 130, 173, 227, 131, 165, 227, 131, 188, 231, 153, 187, 233, 140, 178, 227, 129, 171, 229, 164, 177, 230, 149, 151, 227, 129, 151, 227, 129, 190, 227, 129, 151, 227, 129, 159] @ '' (%s): %v''),
    (utf8 [230, 138, 149, 233, 128, 146, 233, 130, 174, 228, 187, 182, 229, 164, 177, 232, 180, 165] @ '': %v'', utf8 [227, 131, 161, 227, 131, 188, 227, 131, 171, 227, 129, 174, 233, 133, 141, 228, 191, 161, 227, 129, 171, 229, 164, 177, 230, 149, 151, 227, 129, 151, 227, 129, 190, 227, 129, 151, 227, 129, 159] @ '': %v''),
    (utf8 [228, 191, 157, 229, 173, 152, 233, 130, 174, 228, 187, 182, 229, 164, 177, 232, 180, 165] @ '': %v'', utf8 [227, 131, 161, 227, 131, 188, 227, 131, 171, 227, 129, 174, 228, 191, 157, 229, 173, 152, 227, 129, 171, 229, 164, 177, 230, 149, 151, 227, 129, 151, 227, 129, 190, 227, 129, 151, 227, 129, 159] @ '': %v''),
    (utf8 [229, 189, 147, 229, 137, 141, 229, 175, 134, 231, 160, 129, 228, 184, 141, 230, 173, 163, 231, 161, 174], utf8 [231, 143, 190, 229, 156, 168, 227, 129, 174, 227, 131, 145, 227, 130, 185, 227, 131, 175, 227, 131, 188, 227, 131, 137, 227, 129, 140, 230, 173, 163, 227, 129, 151, 227, 129, 143, 227, 129, 130, 227, 130, 138, 227, 129, 190, 227, 129, 155, 227, 130, 147]),
    (utf8 [230, 150, 176, 229, 175, 134, 231, 160, 129, 228, 184, 141, 232, 131, 189, 228, 184, 186, 231, 169, 186], utf8 [230, 150, 176, 227, 129, 151, 227, 129, 132, 227, 131, 145, 227, 130, 185, 227, 131, 175, 227, 131, 188, 227, 131, 137, 227, 129, 175, 229, 191, 133, 233, 160, 136, 227, 129, 167, 227, 129, 153]),
    (utf8 [228, 184, 164, 230, 172, 161, 232, 190, 147, 229, 133, 165, 231, 154, 132, 229, 175, 134, 231, 160, 129, 228, 184, 141, 228, 184, 128, 232, 135, 180], utf8 [227, 131, 145, 227, 130, 185, 227, 131, 175, 227, 131, 188, 227, 131, 137, 227, 129, 140, 228, 184, 128, 232, 135, 180, 227, 129, 151, 227, 129, 190, 227, 129, 155, 227, 130, 147]),
    (utf8 [229, 175, 134, 231, 160, 129, 229, 138, 160, 229, 175, 134, 229, 164, 177, 232, 180, 165], utf8 [227, 131, 145, 227, 130, 185, 227, 131, 175, 227, 131, 188, 227, 131, 137, 227, 129, 174, 230, 154, 151, 229, 143, 183, 229, 140, 150, 227, 129, 171, 229, 164, 177, 230, 149, 151, 227, 129, 151, 227, 129, 190, 227, 129, 151, 227, 129, 159]),
    (utf8 [229, 175, 134, 231, 160, 129, 230, 155, 180, 230, 150, 176, 229, 164, 177, 232, 180, 165], utf8 [227, 131, 145, 227, 130, 185, 227, 131, 175, 227, 131, 188, 227, 131, 137, 227, 129, 174, 230, 155, 180, 230, 150, 176, 227, 129, 171, 229, 164, 177, 230, 149, 151, 227, 129, 151, 227, 129, 190, 227, 129, 151, 227, 129, 159]),
    (utf8 [229, 175, 134, 231, 160, 129, 228, 191, 174, 230, 148, 185, 230, 136, 144, 229, 138, 159], utf8 [227, 131, 145, 227, 130, 185, 227, 131, 175, 227, 131, 188, 227, 131, 137, 227, 130, 146, 229, 164, 137, 230, 155, 180, 227, 129, 151, 227, 129, 190, 227, 129, 151, 227, 129, 159]),
    (utf8 [233, 130, 174, 231, 174, 177, 228, 184, 141, 229, 173, 152, 229, 156, 168], utf8 [227, 131, 161, 227, 131, 188, 227, 131, 171, 227, 131, 156, 227, 131, 131, 227, 130, 175, 227, 130, 185, 227, 129, 140, 229, 173, 152, 229, 156, 168, 227, 129, 151, 227, 129, 190, 227, 129, 155, 227, 130, 147]),
    (utf8 [229, 138, 160, 232, 189, 189, 233, 130, 174, 228, 187, 182, 229, 136, 151, 232, 161, 168, 229, 164, 177, 232, 180, 165] @ '': %v'', utf8 [227, 131, 161, 227, 131, 188, 227, 131, 171, 228, 184, 128, 232, 166, 167, 227, 129, 174, 232, 170, 173, 227, 129, 191, 232, 190, 188, 227, 129, 191, 227, 129, 171, 229, 164, 177, 230, 149, 151, 227, 129, 151, 227, 129, 190, 227, 129, 151, 227, 129, 159] @ '': %v''),
    (utf8 [230, 151, 160, 230, 149, 136, 231, 154, 132, 233, 130, 174, 228, 187, 182] @ ''ID'', utf8 [231, 132, 161, 229, 138, 185, 227, 129, 170, 227, 131, 161, 227, 131, 188, 227, 131, 171] @ '' ID''),
    (utf8 [233, 130, 174, 228, 187, 182, 228, 184, 141, 229, 173, 152, 229, 156, 168], utf8 [227, 131, 161, 227, 131, 188, 227, 131, 171, 227, 129, 140, 229, 173, 152, 229, 156, 168, 227, 129, 151, 227, 129, 190, 227, 129, 155, 227, 130, 147]),
    (utf8 [231, 166, 129, 230, 173, 162, 232, 174, 191, 233, 151, 174], utf8 [227, 130, 162, 227, 130, 175, 227, 130, 187, 227, 130, 185, 227, 129, 140, 230, 139, 146, 229, 144, 166, 227, 129, 149, 227, 130, 140, 227, 129, 190, 227, 129, 151, 227, 129, 159]),
    (utf8 [230, 151, 160, 230, 149, 136, 231, 154, 132, 233, 153, 132, 228, 187, 182] @ ''ID'', utf8 [231, 132, 161, 229, 138, 185, 227, 129, 170, 230, 183, 187, 228, 187, 152, 227, 131, 149, 227, 130, 161, 227, 130, 164, 227, 131, 171] @ '' ID''),
    (utf8 [233, 153, 132, 228, 187, 182, 228, 184, 141, 229, 173, 152, 229, 156, 168], utf8 [230, 183, 187, 228, 187, 152, 227, 131, 149, 227, 130, 161, 227, 130, 164, 227, 131, 171, 227, 129, 140, 229, 173, 152, 229, 156, 168, 227, 129, 151, 227, 129, 190, 227, 129, 155, 227, 130, 147]),
    (utf8 [232, 175, 187, 229, 143, 150, 233, 153, 132, 228, 187, 182, 229, 164, 177, 232, 180, 165], utf8 [230, 183, 187, 228, 187, 152, 227, 131, 149, 227, 130, 161, 227, 130, 164, 227, 131, 171, 227, 129, 174, 232, 170, 173, 227, 129, 191, 232, 190, 188, 227, 129, 191, 227, 129, 171, 229, 164, 177, 230, 149, 151, 227, 129, 151, 227, 129, 190, 227, 129, 151, 227, 129, 159]),
    (utf8 [229, 136, 160, 233, 153, 164, 229, 164, 177, 232, 180, 165], utf8 [229, 137, 138, 233, 153, 164, 227, 129, 171, 229, 164, 177, 230, 149, 151, 227, 129, 151, 227, 129, 190, 227, 129, 151, 227, 129, 159]),
    (utf8 [230, 129, 162, 229, 164, 141, 229, 164, 177, 232, 180, 165], utf8 [229, 190, 169, 229, 133, 131, 227, 129, 171, 229, 164, 177, 230, 149, 151, 227, 129, 151, 227, 129, 190, 227, 129, 151, 227, 129, 159]),
    (utf8 [230, 184, 133, 231, 169, 186, 230, 150, 135, 228, 187, 182, 229, 164, 185, 229, 164, 177, 232, 180, 165] @ '': %v'', utf8 [227, 131, 149, 227, 130, 169, 227, 131, 171, 227, 131, 128, 227, 130, 146, 231, 169, 186, 227, 129, 171, 227, 129, 167, 227, 129, 141, 227, 129, 190, 227, 129, 155, 227, 130, 147, 227, 129, 167, 227, 129, 151, 227, 129, 159] @ '': %v'')]"

definition ja_admin_errors :: "(string \<times> string) list" where
  "ja_admin_errors = [
    (utf8 [230, 151, 160, 230, 149, 136, 231, 154, 132, 232, 191, 158, 230, 142, 165] @ ''ID'', utf8 [231, 132, 161, 229, 138, 185, 227, 129, 170, 230, 142, 165, 231, 182, 154] @ '' ID''),
    (utf8 [232, 191, 158, 230, 142, 165, 228, 184, 141, 229, 173, 152, 229, 156, 168, 230, 136, 150, 229, 183, 178, 230, 150, 173, 229, 188, 128], utf8 [230, 142, 165, 231, 182, 154, 227, 129, 140, 229, 173, 152, 229, 156, 168, 227, 129, 151, 227, 129, 170, 227, 129, 132, 227, 129, 139, 229, 136, 135, 230, 150, 173, 227, 129, 149, 227, 130, 140, 227, 129, 166, 227, 129, 132, 227, 129, 190, 227, 129, 153]),
    (utf8 [231, 174, 161, 231, 144, 134, 229, 145, 152, 230, 137, 139, 229, 138, 168, 229, 176, 129, 231, 166, 129, 239, 188, 136, 232, 191, 158, 230, 142, 165, 230, 150, 173, 229, 188, 128, 239, 188, 137], utf8 [231, 174, 161, 231, 144, 134, 232, 128, 133, 227, 129, 171, 227, 130, 136, 227, 130, 139, 230, 137, 139, 229, 139, 149, 227, 131, 150, 227, 131, 173, 227, 131, 131, 227, 130, 175, 239, 188, 136, 230, 142, 165, 231, 182, 154, 229, 136, 135, 230, 150, 173, 239, 188, 137]),
    (utf8 [229, 176, 129, 231, 166, 129, 229, 164, 177, 232, 180, 165] @ '': %v'', utf8 [227, 131, 150, 227, 131, 173, 227, 131, 131, 227, 130, 175, 227, 129, 171, 229, 164, 177, 230, 149, 151, 227, 129, 151, 227, 129, 190, 227, 129, 151, 227, 129, 159] @ '': %v''),
    (utf8 [229, 138, 160, 232, 189, 189, 229, 159, 159, 229, 144, 141, 229, 136, 151, 232, 161, 168, 229, 164, 177, 232, 180, 165] @ '': %v'', utf8 [227, 131, 137, 227, 131, 161, 227, 130, 164, 227, 131, 179, 228, 184, 128, 232, 166, 167, 227, 129, 174, 232, 170, 173, 227, 129, 191, 232, 190, 188, 227, 129, 191, 227, 129, 171, 229, 164, 177, 230, 149, 151, 227, 129, 151, 227, 129, 190, 227, 129, 151, 227, 129, 159] @ '': %v''),
    (utf8 [232, 175, 183, 232, 190, 147, 229, 133, 165, 229, 159, 159, 229, 144, 141], utf8 [227, 131, 137, 227, 131, 161, 227, 130, 164, 227, 131, 179, 229, 144, 141, 227, 130, 146, 229, 133, 165, 229, 138, 155, 227, 129, 151, 227, 129, 166, 227, 129, 143, 227, 129, 160, 227, 129, 149, 227, 129, 132]),
    (utf8 [229, 136, 155, 229, 187, 186, 229, 159, 159, 229, 144, 141, 229, 164, 177, 232, 180, 165] @ '': %v'', utf8 [227, 131, 137, 227, 131, 161, 227, 130, 164, 227, 131, 179, 227, 129, 174, 228, 189, 156, 230, 136, 144, 227, 129, 171, 229, 164, 177, 230, 149, 151, 227, 129, 151, 227, 129, 190, 227, 129, 151, 227, 129, 159] @ '': %v''),
    (utf8 [230, 151, 160, 230, 149, 136, 231, 154, 132, 229, 159, 159, 229, 144, 141] @ ''ID'', utf8 [231, 132, 161, 229, 138, 185, 227, 129, 170, 227, 131, 137, 227, 131, 161, 227, 130, 164, 227, 131, 179] @ '' ID''),
    (utf8 [229, 159, 159, 229, 144, 141, 228, 184, 141, 229, 173, 152, 229, 156, 168], utf8 [227, 131, 137, 227, 131, 161, 227, 130, 164, 227, 131, 179, 227, 129, 140, 229, 173, 152, 229, 156, 168, 227, 129, 151, 227, 129, 190, 227, 129, 155, 227, 130, 147]),
    (utf8 [226, 156, 133] @ '' '' @ utf8 [229, 183, 178, 228, 187, 142] @ '' Caddy '' @ utf8 [232, 142, 183, 229, 143, 150, 232, 175, 129, 228, 185, 166, 229, 185, 182, 228, 191, 157, 229, 173, 152, 229, 136, 176, 229, 159, 159, 229, 144, 141] @ '' TLS '' @ utf8 [231, 155, 174, 229, 189, 149, 239, 188, 140, 229, 144, 140, 230, 151, 182, 229, 183, 178, 229, 144, 175, 231, 148, 168, 232, 175, 165, 229, 159, 159, 229, 144, 141, 231, 154, 132] @ '' TLS'' @ utf8 [239, 188, 155, 232, 175, 129, 228, 185, 166, 229, 183, 178, 231, 131, 173, 229, 138, 160, 232, 189, 189, 239, 188, 140, 230, 151, 160, 233, 156, 128, 233, 135, 141, 229, 144, 175, 230, 156, 141, 229, 138, 161, 227, 128, 130], utf8 [226, 156, 133] @ '' Caddy '' @ utf8 [227, 129, 139, 227, 130, 137, 232, 168, 188, 230, 152, 142, 230, 155, 184, 227, 130, 146, 229, 143, 150, 229, 190, 151, 227, 129, 151, 227, 128, 129, 227, 131, 137, 227, 131, 161, 227, 130, 164, 227, 131, 179, 227, 129, 174] @ '' TLS '' @ utf8 [227, 131, 135, 227, 130, 163, 227, 131, 172, 227, 130, 175, 227, 131, 136, 227, 131, 170, 227, 129, 171, 228, 191, 157, 229, 173, 152, 227, 129, 151, 227, 129, 190, 227, 129, 151, 227, 129, 159, 227, 128, 130] @ ''TLS '' @ utf8 [227, 129, 140, 230, 156, 137, 229, 138, 185, 227, 129, 171, 227, 129, 170, 227, 130, 138, 227, 128, 129, 227, 131, 155, 227, 131, 131, 227, 131, 136, 227, 131, 170, 227, 131, 173, 227, 131, 188, 227, 131, 137, 230, 184, 136, 227, 129, 191, 227, 129, 167, 227, 129, 153, 227, 128, 130, 229, 134, 141, 232, 181, 183, 229, 139, 149, 227, 129, 175, 228, 184, 141, 232, 166, 129, 227, 129, 167, 227, 129, 153, 227, 128, 130]),
    (utf8 [229, 144, 175, 231, 148, 168] @ '' TLS '' @ utf8 [230, 151, 182, 229, 191, 133, 233, 161, 187, 229, 161, 171, 229, 134, 153] @ '' TLS '' @ utf8 [231, 167, 129, 233, 146, 165, 229, 146, 140, 229, 133, 172, 233, 146, 165, 232, 175, 129, 228, 185, 166], ''TLS '' @ utf8 [227, 130, 146, 230, 156, 137, 229, 138, 185, 227, 129, 171, 227, 129, 153, 227, 130, 139, 227, 129, 171, 227, 129, 175, 231, 167, 152, 229, 175, 134, 233, 141, 181, 227, 129, 168, 232, 168, 188, 230, 152, 142, 230, 155, 184, 227, 129, 140, 229, 191, 133, 232, 166, 129, 227, 129, 167, 227, 129, 153]),
    (''TLS '' @ utf8 [231, 167, 129, 233, 146, 165, 229, 146, 140, 229, 133, 172, 233, 146, 165, 232, 175, 129, 228, 185, 166, 229, 191, 133, 233, 161, 187, 229, 144, 140, 230, 151, 182, 229, 161, 171, 229, 134, 153], utf8 [231, 167, 152, 229, 175, 134, 233, 141, 181, 227, 129, 168, 232, 168, 188, 230, 152, 142, 230, 155, 184, 227, 129, 175, 228, 184, 161, 230, 150, 185, 229, 191, 133, 232, 166, 129, 227, 129, 167, 227, 129, 153]),
    (''TLS '' @ utf8 [232, 175, 129, 228, 185, 166, 230, 136, 150, 231, 167, 129, 233, 146, 165, 230, 151, 160, 230, 149, 136] @ '': %v'', ''TLS '' @ utf8 [232, 168, 188, 230, 152, 142, 230, 155, 184, 227, 129, 190, 227, 129, 159, 227, 129, 175, 231, 167, 152, 229, 175, 134, 233, 141, 181, 227, 129, 140, 231, 132, 161, 229, 138, 185, 227, 129, 167, 227, 129, 153] @ '': %v''),
    (utf8 [229, 136, 155, 229, 187, 186] @ '' TLS '' @ utf8 [232, 175, 129, 228, 185, 166, 231, 155, 174, 229, 189, 149, 229, 164, 177, 232, 180, 165] @ '': %v'', ''TLS '' @ utf8 [227, 131, 135, 227, 130, 163, 227, 131, 172, 227, 130, 175, 227, 131, 136, 227, 131, 170, 227, 129, 174, 228, 189, 156, 230, 136, 144, 227, 129, 171, 229, 164, 177, 230, 149, 151, 227, 129, 151, 227, 129, 190, 227, 129, 151, 227, 129, 159] @ '': %v''),
    (utf8 [228, 191, 157, 229, 173, 152] @ '' TLS '' @ utf8 [229, 133, 172, 233, 146, 165, 232, 175, 129, 228, 185, 166, 229, 164, 177, 232, 180, 165] @ '': %v'', ''TLS '' @ utf8 [232, 168, 188, 230, 152, 142, 230, 155, 184, 227, 129, 174, 228, 191, 157, 229, 173, 152, 227, 129, 171, 229, 164, 177, 230, 149, 151, 227, 129, 151, 227, 129, 190, 227, 129, 151, 227, 129, 159] @ '': %v''),
    (utf8 [228, 191, 157, 229, 173, 152] @ '' TLS '' @ utf8 [231, 167, 129, 233, 146, 165, 229, 164, 177, 232, 180, 165] @ '': %v'', ''TLS '' @ utf8 [231, 167, 152, 229, 175, 134, 233, 141, 181, 227, 129, 174, 228, 191, 157, 229, 173, 152, 227, 129, 171, 229, 164, 177, 230, 149, 151, 227, 129, 151, 227, 129, 190, 227, 129, 151, 227, 129, 159] @ '': %v''),
    (utf8 [228, 187, 142] @ '' Caddy '' @ utf8 [232, 142, 183, 229, 143, 150, 232, 175, 129, 228, 185, 166, 229, 164, 177, 232, 180, 165] @ '': %v'', ''Caddy '' @ utf8 [227, 129, 139, 227, 130, 137, 227, 129, 174, 232, 168, 188, 230, 152, 142, 230, 155, 184, 229, 143, 150, 229, 190, 151, 227, 129, 171, 229, 164, 177, 230, 149, 151, 227, 129, 151, 227, 129, 190, 227, 129, 151, 227, 129, 159] @ '': %v''),
    (utf8 [230, 155, 180, 230, 150, 176, 229, 159, 159, 229, 144, 141, 232, 174, 176, 229, 189, 149, 229, 164, 177, 232, 180, 165] @ '': %v'', utf8 [227, 131, 137, 227, 131, 161, 227, 130, 164, 227, 131, 179, 230, 131, 133, 229, 160, 177, 227, 129, 174, 230, 155, 180, 230, 150, 176, 227, 129, 171, 229, 164, 177, 230, 149, 151, 227, 129, 151, 227, 129, 190, 227, 129, 151, 227, 129, 159] @ '': %v''),
    (utf8 [230, 155, 180, 230, 150, 176, 229, 159, 159, 229, 144, 141, 229, 164, 177, 232, 180, 165] @ '': %v'', utf8 [227, 131, 137, 227, 131, 161, 227, 130, 164, 227, 131, 179, 227, 129, 174, 230, 155, 180, 230, 150, 176, 227, 129, 171, 229, 164, 177, 230, 149, 151, 227, 129, 151, 227, 129, 190, 227, 129, 151, 227, 129, 159] @ '': %v''),
    (utf8 [229, 136, 160, 233, 153, 164, 229, 159, 159, 229, 144, 141, 229, 164, 177, 232, 180, 165] @ '': %v'', utf8 [227, 131, 137, 227, 131, 161, 227, 130, 164, 227, 131, 179, 227, 129, 174, 229, 137, 138, 233, 153, 164, 227, 129, 171, 229, 164, 177, 230, 149, 151, 227, 129, 151, 227, 129, 190, 227, 129, 151, 227, 129, 159] @ '': %v''),
    (utf8 [229, 138, 160, 232, 189, 189, 231, 148, 168, 230, 136, 183, 229, 136, 151, 232, 161, 168, 229, 164, 177, 232, 180, 165] @ '': %v'', utf8 [227, 131, 166, 227, 131, 188, 227, 130, 182, 227, 131, 188, 228, 184, 128, 232, 166, 167, 227, 129, 174, 232, 170, 173, 227, 129, 191, 232, 190, 188, 227, 129, 191, 227, 129, 171, 229, 164, 177, 230, 149, 151, 227, 129, 151, 227, 129, 190, 227, 129, 151, 227, 129, 159] @ '': %v''),
    (utf8 [232, 175, 183, 229, 161, 171, 229, 134, 153, 230, 137, 128, 230, 156, 137, 229, 191, 133, 229, 161, 171, 229, 173, 151, 230, 174, 181], utf8 [229, 191, 133, 233, 160, 136, 233, 160, 133, 231, 155, 174, 227, 130, 146, 227, 129, 153, 227, 129, 185, 227, 129, 166, 229, 133, 165, 229, 138, 155, 227, 129, 151, 227, 129, 166, 227, 129, 143, 227, 129, 160, 227, 129, 149, 227, 129, 132]),
    (utf8 [229, 136, 155, 229, 187, 186, 231, 148, 168, 230, 136, 183, 229, 164, 177, 232, 180, 165] @ '': %v'', utf8 [227, 131, 166, 227, 131, 188, 227, 130, 182, 227, 131, 188, 227, 129, 174, 228, 189, 156, 230, 136, 144, 227, 129, 171, 229, 164, 177, 230, 149, 151, 227, 129, 151, 227, 129, 190, 227, 129, 151, 227, 129, 159] @ '': %v''),
    (utf8 [230, 151, 160, 230, 149, 136, 231, 154, 132, 231, 148, 168, 230, 136, 183] @ ''ID'', utf8 [231, 132, 161, 229, 138, 185, 227, 129, 170, 227, 131, 166, 227, 131, 188, 227, 130, 182, 227, 131, 188] @ '' ID''),
    (utf8 [228, 184, 141, 232, 131, 189, 229, 136, 160, 233, 153, 164, 232, 135, 170, 229, 183, 177, 231, 154, 132, 232, 180, 166, 230, 136, 183], utf8 [232, 135, 170, 229, 136, 134, 227, 129, 174, 227, 130, 162, 227, 130, 171, 227, 130, 166, 227, 131, 179, 227, 131, 136, 227, 129, 175, 229, 137, 138, 233, 153, 164, 227, 129, 167, 227, 129, 141, 227, 129, 190, 227, 129, 155, 227, 130, 147]),
    (utf8 [229, 136, 160, 233, 153, 164, 231, 148, 168, 230, 136, 183, 229, 164, 177, 232, 180, 165] @ '': %v'', utf8 [227, 131, 166, 227, 131, 188, 227, 130, 182, 227, 131, 188, 227, 129, 174, 229, 137, 138, 233, 153, 164, 227, 129, 171, 229, 164, 177, 230, 149, 151, 227, 129, 151, 227, 129, 190, 227, 129, 151, 227, 129, 159] @ '': %v''),
    (utf8 [231, 148, 168, 230, 136, 183, 228, 184, 141, 229, 173, 152, 229, 156, 168], utf8 [227, 131, 166, 227, 131, 188, 227, 130, 182, 227, 131, 188, 227, 129, 140, 229, 173, 152, 229, 156, 168, 227, 129, 151, 227, 129, 190, 227, 129, 155, 227, 130, 147]),
    (utf8 [230, 155, 180, 230, 150, 176, 231, 148, 168, 230, 136, 183, 229, 164, 177, 232, 180, 165] @ '': %v'', utf8 [227, 131, 166, 227, 131, 188, 227, 130, 182, 227, 131, 188, 227, 129, 174, 230, 155, 180, 230, 150, 176, 227, 129, 171, 229, 164, 177, 230, 149, 151, 227, 129, 151, 227, 129, 190, 227, 129, 151, 227, 129, 159] @ '': %v''),
    (utf8 [229, 138, 160, 232, 189, 189, 233, 187, 145, 229, 144, 141, 229, 141, 149, 229, 164, 177, 232, 180, 165] @ '': %v'', utf8 [227, 131, 150, 227, 131, 169, 227, 131, 131, 227, 130, 175, 227, 131, 170, 227, 130, 185, 227, 131, 136, 227, 129, 174, 232, 170, 173, 227, 129, 191, 232, 190, 188, 227, 129, 191, 227, 129, 171, 229, 164, 177, 230, 149, 151, 227, 129, 151, 227, 129, 190, 227, 129, 151, 227, 129, 159] @ '': %v''),
    (utf8 [230, 151, 160, 230, 149, 136, 231, 154, 132, 232, 174, 176, 229, 189, 149] @ ''ID'', utf8 [231, 132, 161, 229, 138, 185, 227, 129, 170, 227, 131, 172, 227, 130, 179, 227, 131, 188, 227, 131, 137] @ '' ID''),
    (utf8 [232, 167, 163, 229, 176, 129, 229, 164, 177, 232, 180, 165] @ '': %v'', utf8 [227, 131, 150, 227, 131, 173, 227, 131, 131, 227, 130, 175, 232, 167, 163, 233, 153, 164, 227, 129, 171, 229, 164, 177, 230, 149, 151, 227, 129, 151, 227, 129, 190, 227, 129, 151, 227, 129, 159] @ '': %v''),
    (utf8 [229, 138, 160, 232, 189, 189, 229, 141, 143, 232, 174, 174, 230, 151, 165, 229, 191, 151, 229, 164, 177, 232, 180, 165] @ '': %v'', utf8 [227, 131, 151, 227, 131, 173, 227, 131, 136, 227, 130, 179, 227, 131, 171, 227, 131, 173, 227, 130, 176, 227, 129, 174, 232, 170, 173, 227, 129, 191, 232, 190, 188, 227, 129, 191, 227, 129, 171, 229, 164, 177, 230, 149, 151, 227, 129, 151, 227, 129, 190, 227, 129, 151, 227, 129, 159] @ '': %v''),
    (utf8 [229, 138, 160, 232, 189, 189, 229, 164, 150, 229, 143, 145, 233, 152, 159, 229, 136, 151, 229, 164, 177, 232, 180, 165] @ '': %v'', utf8 [233, 128, 129, 228, 191, 161, 227, 130, 173, 227, 131, 165, 227, 131, 188, 227, 129, 174, 232, 170, 173, 227, 129, 191, 232, 190, 188, 227, 129, 191, 227, 129, 171, 229, 164, 177, 230, 149, 151, 227, 129, 151, 227, 129, 190, 227, 129, 151, 227, 129, 159] @ '': %v''),
    (utf8 [229, 164, 150, 229, 143, 145, 230, 156, 141, 229, 138, 161, 228, 184, 141, 229, 143, 175, 231, 148, 168], utf8 [233, 128, 129, 228, 191, 161, 227, 130, 181, 227, 131, 188, 227, 131, 147, 227, 130, 185, 227, 130, 146, 229, 136, 169, 231, 148, 168, 227, 129, 167, 227, 129, 141, 227, 129, 190, 227, 129, 155, 227, 130, 147]),
    (utf8 [233, 135, 141, 232, 175, 149, 229, 164, 177, 232, 180, 165] @ '': %v'', utf8 [229, 134, 141, 232, 169, 166, 232, 161, 140, 227, 129, 171, 229, 164, 177, 230, 149, 151, 227, 129, 151, 227, 129, 190, 227, 129, 151, 227, 129, 159] @ '': %v''),
    (utf8 [229, 143, 150, 230, 182, 136, 229, 164, 177, 232, 180, 165] @ '': %v'', utf8 [227, 130, 173, 227, 131, 163, 227, 131, 179, 227, 130, 187, 227, 131, 171, 227, 129, 171, 229, 164, 177, 230, 149, 151, 227, 129, 151, 227, 129, 190, 227, 129, 151, 227, 129, 159] @ '': %v''),
    (utf8 [230, 151, 160, 230, 149, 136, 231, 154, 132, 233, 152, 159, 229, 136, 151] @ ''ID'', utf8 [231, 132, 161, 229, 138, 185, 227, 129, 170, 227, 130, 173, 227, 131, 165, 227, 131, 188] @ '' ID''),
    (utf8 [231, 166, 129, 230, 173, 162, 232, 174, 191, 233, 151, 174, 239, 188, 154, 233, 156, 128, 232, 166, 129, 231, 174, 161, 231, 144, 134, 229, 145, 152, 230, 157, 131, 233, 153, 144], utf8 [227, 130, 162, 227, 130, 175, 227, 130, 187, 227, 130, 185, 227, 129, 140, 230, 139, 146, 229, 144, 166, 227, 129, 149, 227, 130, 140, 227, 129, 190, 227, 129, 151, 227, 129, 159, 239, 188, 154, 231, 174, 161, 231, 144, 134, 232, 128, 133, 230, 168, 169, 233, 153, 144, 227, 129, 140, 229, 191, 133, 232, 166, 129, 227, 129, 167, 227, 129, 153])]"

definition ja_catalogue :: "(string \<times> string) list" where
  "ja_catalogue = concat [ja_clock, ja_folders, ja_sidebar, ja_mail_list, ja_mail_view, ja_compose, ja_settings, ja_login, ja_banned, ja_admin_sidebar, ja_dashboard, ja_users, ja_domains, ja_all_mails, ja_outbound, ja_protocol_logs, ja_connections, ja_bans, ja_auth_errors, ja_mail_errors, ja_admin_errors]"

end
