(* ===== verification/Catalog.thy ===== *)
theory Catalog
  imports Catalog_En Catalog_Ja Web_Text Manager_Run
begin

text \<open>
  The translations of \<open>internal/i18n/catalog.go\<close> at work: with the two catalogues the lookup of
  \<open>internal/i18n/i18n.go\<close> finds every text of the handlers, and a message with placeholders is filled with
  the same arguments in every language.
\<close>

definition ui_env :: "(string \<Rightarrow> rat option) \<Rightarrow> lang_env" where
  "ui_env parse_float = \<lparr>le_en = map_of en_catalogue, le_ja = map_of ja_catalogue, le_parse_float = parse_float\<rparr>"

section \<open>Placeholders\<close>

fun verbs_from :: "bool \<Rightarrow> string \<Rightarrow> string" where
  \<comment> \<open>the verbs of a format in their order, the flag is whether a percent sign went before; an exclamation
    mark for a percent sign at the end\<close>
  "verbs_from p [] = (if p then ''!'' else [])"
| "verbs_from False (c # cs) = verbs_from (c = CHR ''%'') cs"
| "verbs_from True (c # cs) = (if c = CHR ''%'' then verbs_from False cs else c # verbs_from False cs)"

definition verb_fits :: "char \<Rightarrow> fmt_arg \<Rightarrow> bool" where
  "verb_fits v a \<longleftrightarrow> v = CHR ''v'' \<or> v = CHR ''d'' \<and> (\<exists>i. a = F_Int i) \<or> v = CHR ''s'' \<and> (\<exists>s. a = F_Str s)"

fun fill :: "string \<Rightarrow> string list \<Rightarrow> string" where
  \<comment> \<open>the format with its verbs replaced one by one\<close>
  "fill [] vs = []"
| "fill [c] vs = [c]"
| "fill (c # d # cs) vs =
     (if c \<noteq> CHR ''%'' then c # fill (d # cs) vs
      else if d = CHR ''%'' then CHR ''%'' # fill cs vs
      else hd vs @ fill cs (tl vs))"

lemma sprintf_fits:
  "list_all2 verb_fits (verbs_from False t) as \<Longrightarrow> sprintf t as = fill t (map fmt_value as)"
proof (induction t as rule: sprintf.induct)
  case (2 c as)
  then show ?case by (cases "c = CHR ''%''") (auto simp: list_all2_Cons1 verb_fits_def)
next
  case (3 c d cs as)
  show ?case
  proof (cases "c = CHR ''%''")
    case False
    with 3 show ?thesis by simp
  next
    case True
    show ?thesis
    proof (cases "d = CHR ''%''")
      case True
      with 3 \<open>c = CHR ''%''\<close> show ?thesis by simp
    next
      case False
      with 3 True obtain a bs where "as = a # bs" "verb_fits d a" "list_all2 verb_fits (verbs_from False cs) bs"
        by (auto simp: list_all2_Cons1)
      with 3 True False show ?thesis by (auto simp: fmt_verb_def verb_fits_def)
    qed
  qed
qed simp

lemma char_of_percent:
  assumes "127 < b" and "b < (256::nat)" shows "char_of b \<noteq> CHR ''%''"
proof
  assume "char_of b = CHR ''%''"
  then have "of_char (char_of b :: char) = (of_char CHR ''%'' :: nat)" by simp
  with assms show False by simp
qed

lemma verbs_from_utf8:
  "list_all (\<lambda>b. 127 < b \<and> b < 256) bs \<Longrightarrow> verbs_from False (utf8 bs @ s) = verbs_from False s"
  "list_all (\<lambda>b. 127 < b \<and> b < 256) bs \<Longrightarrow> verbs_from False (utf8 bs) = []"
  unfolding utf8_def by (induction bs) (simp_all add: char_of_percent)

section \<open>The catalogues agree\<close>

definition same_verbs :: "(string \<times> string) list \<Rightarrow> bool" where
  "same_verbs es = list_all (\<lambda>(k, v). verbs_from False k = verbs_from False v) es"

lemma same_verbs_append: "same_verbs (xs @ ys) \<longleftrightarrow> same_verbs xs \<and> same_verbs ys"
  by (simp add: same_verbs_def)

lemma en_verbs:
  "same_verbs en_clock" "same_verbs en_folders" "same_verbs en_sidebar" "same_verbs en_mail_list" "same_verbs
  en_mail_view" "same_verbs en_compose" "same_verbs en_settings" "same_verbs en_login" "same_verbs en_banned"
  "same_verbs en_admin_sidebar" "same_verbs en_dashboard" "same_verbs en_users" "same_verbs en_domains"
  "same_verbs en_all_mails" "same_verbs en_outbound" "same_verbs en_protocol_logs" "same_verbs en_connections"
  "same_verbs en_bans" "same_verbs en_auth_errors" "same_verbs en_mail_errors" "same_verbs en_admin_errors"
  by (simp_all add: same_verbs_def verbs_from_utf8
    en_clock_def en_folders_def en_sidebar_def en_mail_list_def en_mail_view_def en_compose_def
    en_settings_def en_login_def en_banned_def en_admin_sidebar_def en_dashboard_def en_users_def
    en_domains_def en_all_mails_def en_outbound_def en_protocol_logs_def en_connections_def en_bans_def
    en_auth_errors_def en_mail_errors_def en_admin_errors_def)

lemma ja_verbs:
  "same_verbs ja_clock" "same_verbs ja_folders" "same_verbs ja_sidebar" "same_verbs ja_mail_list" "same_verbs
  ja_mail_view" "same_verbs ja_compose" "same_verbs ja_settings" "same_verbs ja_login" "same_verbs ja_banned"
  "same_verbs ja_admin_sidebar" "same_verbs ja_dashboard" "same_verbs ja_users" "same_verbs ja_domains"
  "same_verbs ja_all_mails" "same_verbs ja_outbound" "same_verbs ja_protocol_logs" "same_verbs ja_connections"
  "same_verbs ja_bans" "same_verbs ja_auth_errors" "same_verbs ja_mail_errors" "same_verbs ja_admin_errors"
  by (simp_all add: same_verbs_def verbs_from_utf8
    ja_clock_def ja_folders_def ja_sidebar_def ja_mail_list_def ja_mail_view_def ja_compose_def
    ja_settings_def ja_login_def ja_banned_def ja_admin_sidebar_def ja_dashboard_def ja_users_def
    ja_domains_def ja_all_mails_def ja_outbound_def ja_protocol_logs_def ja_connections_def ja_bans_def
    ja_auth_errors_def ja_mail_errors_def ja_admin_errors_def)

lemma catalogue_verbs: "same_verbs en_catalogue" "same_verbs ja_catalogue"
  by (simp_all add: en_catalogue_def ja_catalogue_def same_verbs_append en_verbs ja_verbs)

lemma same_verbs_lookup: "same_verbs es \<Longrightarrow> map_of es k = Some v \<Longrightarrow> verbs_from False v = verbs_from False k"
  by (auto simp: same_verbs_def list_all_iff dest!: map_of_SomeD)

lemma translate_verbs: "verbs_from False (translate (ui_env pf) lang key) = verbs_from False key"
  using same_verbs_lookup [OF catalogue_verbs(1), of key] same_verbs_lookup [OF catalogue_verbs(2), of key]
  by (auto simp: translate_def ui_env_def Let_def split: option.splits)

text \<open>A message with placeholders is formatted without an error in every language: if the arguments fit the
  verbs of the Chinese text, which is the key, the result is the translation with exactly these arguments in
  its places, for every key, listed or not.\<close>

theorem translations_keep_arguments:
  assumes "list_all2 verb_fits (verbs_from False key) as"
  shows "translate_fmt (ui_env pf) lang key as = fill (translate (ui_env pf) lang key) (map fmt_value as)"
  unfolding translate_fmt_def by (rule sprintf_fits) (simp add: translate_verbs assms)

lemma same_keys:
  "map fst ja_clock = map fst en_clock"
  "map fst ja_folders = map fst en_folders"
  "map fst ja_sidebar = map fst en_sidebar"
  "map fst ja_mail_list = map fst en_mail_list"
  "map fst ja_mail_view = map fst en_mail_view"
  "map fst ja_compose = map fst en_compose"
  "map fst ja_settings = map fst en_settings"
  "map fst ja_login = map fst en_login"
  "map fst ja_banned = map fst en_banned"
  "map fst ja_admin_sidebar = map fst en_admin_sidebar"
  "map fst ja_dashboard = map fst en_dashboard"
  "map fst ja_users = map fst en_users"
  "map fst ja_domains = map fst en_domains"
  "map fst ja_all_mails = map fst en_all_mails"
  "map fst ja_outbound = map fst en_outbound"
  "map fst ja_protocol_logs = map fst en_protocol_logs"
  "map fst ja_connections = map fst en_connections"
  "map fst ja_bans = map fst en_bans"
  "map fst ja_auth_errors = map fst en_auth_errors"
  "map fst ja_mail_errors = map fst en_mail_errors"
  "map fst ja_admin_errors = map fst en_admin_errors"
  by (simp_all add: 
    en_clock_def ja_clock_def en_folders_def ja_folders_def en_sidebar_def ja_sidebar_def en_mail_list_def
    ja_mail_list_def en_mail_view_def ja_mail_view_def en_compose_def ja_compose_def en_settings_def
    ja_settings_def en_login_def ja_login_def en_banned_def ja_banned_def en_admin_sidebar_def
    ja_admin_sidebar_def en_dashboard_def ja_dashboard_def en_users_def ja_users_def en_domains_def
    ja_domains_def en_all_mails_def ja_all_mails_def en_outbound_def ja_outbound_def en_protocol_logs_def
    ja_protocol_logs_def en_connections_def ja_connections_def en_bans_def ja_bans_def en_auth_errors_def
    ja_auth_errors_def en_mail_errors_def ja_mail_errors_def en_admin_errors_def ja_admin_errors_def)

lemma catalogues_same_keys: "map fst ja_catalogue = map fst en_catalogue"
  by (simp add: en_catalogue_def ja_catalogue_def same_keys)

section \<open>The texts of the handlers\<close>

definition mail_errors_texts :: "string list" where
  "mail_errors_texts = [
    k_forbidden, k_bad_mail_id, k_bad_attachment_id, k_no_mailbox, k_no_mail, k_no_attachment,
    k_read_attachment_failed, k_hash_failed, k_outbound_disabled, k_list_failed, k_no_recipient,
    k_quota_check_failed, k_over_quota, k_too_many_external, k_queue_failed, k_deliver_failed,
    k_save_failed, k_delete_failed, k_restore_failed, k_empty_failed, k_wrong_password, k_empty_password,
    k_password_mismatch, k_password_failed, k_password_changed]"

lemma mail_errors_texts_listed: "set mail_errors_texts \<subseteq> fst ` set en_mail_errors"
  by (simp add: mail_errors_texts_def en_mail_errors_def
    k_forbidden_def k_bad_mail_id_def k_bad_attachment_id_def k_no_mailbox_def k_no_mail_def
    k_no_attachment_def k_read_attachment_failed_def k_hash_failed_def k_outbound_disabled_def
    k_list_failed_def k_no_recipient_def k_quota_check_failed_def k_over_quota_def k_too_many_external_def
    k_queue_failed_def k_deliver_failed_def k_save_failed_def k_delete_failed_def k_restore_failed_def
    k_empty_failed_def k_wrong_password_def k_empty_password_def k_password_mismatch_def
    k_password_failed_def k_password_changed_def)

definition admin_errors_texts :: "string list" where
  "admin_errors_texts = [
    k_admin_required, k_bad_domain_id, k_bad_user_id, k_bad_queue_id, k_bad_conn_id, k_bad_record_id,
    k_no_domain, k_no_user, k_no_connection, k_outbound_missing, k_ban_failed, k_manual_ban, k_unban_failed,
    k_domains_failed, k_domain_name_missing, k_domain_create_failed, k_domain_update_failed,
    k_domain_delete_failed, k_caddy_ok, k_caddy_failed, k_tls_dir_failed, k_tls_cert_failed,
    k_tls_key_failed, k_domain_record_failed, k_tls_required, k_tls_both, k_tls_invalid, k_users_failed,
    k_fields_missing, k_user_create_failed, k_user_update_failed, k_user_delete_failed, k_delete_self,
    k_bans_failed, k_logs_failed, k_queue_list_failed, k_retry_failed, k_cancel_failed]"

lemma admin_errors_texts_listed: "set admin_errors_texts \<subseteq> fst ` set en_admin_errors"
  by (simp add: admin_errors_texts_def en_admin_errors_def
    k_admin_required_def k_bad_domain_id_def k_bad_user_id_def k_bad_queue_id_def k_bad_conn_id_def
    k_bad_record_id_def k_no_domain_def k_no_user_def k_no_connection_def k_outbound_missing_def
    k_ban_failed_def k_manual_ban_def k_unban_failed_def k_domains_failed_def k_domain_name_missing_def
    k_domain_create_failed_def k_domain_update_failed_def k_domain_delete_failed_def k_caddy_ok_def
    k_caddy_failed_def k_tls_dir_failed_def k_tls_cert_failed_def k_tls_key_failed_def
    k_domain_record_failed_def k_tls_required_def k_tls_both_def k_tls_invalid_def k_users_failed_def
    k_fields_missing_def k_user_create_failed_def k_user_update_failed_def k_user_delete_failed_def
    k_delete_self_def k_bans_failed_def k_logs_failed_def k_queue_list_failed_def k_retry_failed_def
    k_cancel_failed_def)

definition auth_errors_texts :: "string list" where
  "auth_errors_texts = [
    k_session_not_saved, k_user_disabled, k_oauth_disabled, k_oauth_unavailable, k_oauth_state,
    k_oauth_no_code, k_oauth_failed, k_oauth_unknown, k_ldap_unknown, k_ldap_missing, k_ldap_failed,
    k_login_missing, k_login_failed, k_login_reason, k_ldap_reason]"

lemma auth_errors_texts_listed: "set auth_errors_texts \<subseteq> fst ` set en_auth_errors"
  by (simp add: auth_errors_texts_def en_auth_errors_def
    k_session_not_saved_def k_user_disabled_def k_oauth_disabled_def k_oauth_unavailable_def
    k_oauth_state_def k_oauth_no_code_def k_oauth_failed_def k_oauth_unknown_def k_ldap_unknown_def
    k_ldap_missing_def k_ldap_failed_def k_login_missing_def k_login_failed_def k_login_reason_def
    k_ldap_reason_def)

definition settings_texts :: "string list" where
  "settings_texts = [
    k_language_failed, k_language_saved]"

lemma settings_texts_listed: "set settings_texts \<subseteq> fst ` set en_settings"
  by (simp add: settings_texts_def en_settings_def
    k_language_failed_def k_language_saved_def)

definition folders_texts :: "string list" where
  "folders_texts = [
    k_inbox, k_sent, k_drafts, k_trash]"

lemma folders_texts_listed: "set folders_texts \<subseteq> fst ` set en_folders"
  by (simp add: folders_texts_def en_folders_def
    k_inbox_def k_sent_def k_drafts_def k_trash_def)

definition clock_texts :: "string list" where
  "clock_texts = [
    k_am, k_pm]"

lemma clock_texts_listed: "set clock_texts \<subseteq> fst ` set en_clock"
  by (simp add: clock_texts_def en_clock_def
    k_am_def k_pm_def)

lemma status_text_listed: "status_text st \<in> fst ` set en_outbound"
  by (cases st) (simp_all add: en_outbound_def status_text_def)

lemma listed_translated:
  assumes "k \<in> fst ` set en_catalogue"
  shows "le_en (ui_env pf) k \<noteq> None \<and> le_ja (ui_env pf) k \<noteq> None"
proof -
  have "k \<in> fst ` set ja_catalogue"
    using assms catalogues_same_keys by (metis set_map)
  with assms show ?thesis by (simp add: ui_env_def map_of_eq_None_iff)
qed

definition handler_texts :: "string list" where
  "handler_texts = mail_errors_texts @ admin_errors_texts @ auth_errors_texts @ settings_texts @ folders_texts @
     clock_texts @ map status_text [Pending, Sending, Sent, Deferred, Failed, Canceled]"

lemma handler_texts_listed: "set handler_texts \<subseteq> fst ` set en_catalogue"
proof -
  have "set en_mail_errors \<union> set en_admin_errors \<union> set en_auth_errors \<union> set en_settings \<union> set en_folders \<union>
      set en_clock \<union> set en_outbound \<subseteq> set en_catalogue"
    by (simp only: en_catalogue_def set_concat list.set) blast
  then show ?thesis
    using mail_errors_texts_listed admin_errors_texts_listed auth_errors_texts_listed settings_texts_listed
      folders_texts_listed clock_texts_listed status_text_listed
    unfolding handler_texts_def by simp (meson image_mono order_trans subset_iff)
qed

text \<open>No page falls back to Chinese: every text that a handler looks up, and every label of the delivery queue,
  has an English and a Japanese translation.\<close>

theorem handler_texts_translated:
  "list_all (\<lambda>k. le_en (ui_env pf) k \<noteq> None \<and> le_ja (ui_env pf) k \<noteq> None) handler_texts"
  unfolding list_all_iff using handler_texts_listed listed_translated by blast

end
