(* ===== verification/Spec2Isabelle.thy ===== *)
theory Spec2Isabelle
  imports Smtp_Server Pop3_Server Conn_Hub Attachment_Storage Mail_Util Mailbox_Store Account_Store Ban_Store Log_Store Outbound_Store Config Outbound_Manager Mailer Manager_Run Imap_Runs Web_Server Web_Delivery Startup Listeners Db_Open Migrate Catalog
begin

text \<open>
  A verification library for \<open>mail_go\<close>, a mail server in Go: SMTP, IMAP and POP3 servers, a web interface for
  users and administrators, a delivery queue for outgoing mail, over one SQL database.

  The definitions are translated from the Go files under \<open>src/\<close>, function by function; they compute, so that the
  examples (the theorems named \<open>_witness\<close>) evaluate them. The theorems that matter most carry a number (\<open>C1\<close>,
  \<open>C2\<close> and so on) in the text before them.
\<close>

section \<open>The program and its theories\<close>

text \<open>
  \<^item> \<^bold>\<open>Ground.\<close> \<open>Prelude\<close> (collections of rules, times, general lemmas) and \<open>Go_Strings\<close> (\<open>strings\<close>, \<open>strconv\<close>,
    \<open>net/url\<close>, \<open>path\<close>). A Go string is a list of bytes; text outside ASCII is written by its bytes with \<open>utf8\<close>.
    An \<open>int64\<close> is an \<open>int\<close>, with \<open>int64\<close> where a result can leave the range; \<open>uint32\<close> (UIDs, sequence numbers)
    is a 32-bit word.
  \<^item> \<^bold>\<open>Database.\<close> \<open>DB_Models\<close>: the structs of \<open>internal/db/models.go\<close> are records, a table is a list of rows, and
    \<open>db\<close> is all tables with their next ids and a list of future faults. A statement is a function of \<open>db\<close> that
    fails when the next fault says so; a theorem that does not mention faults holds for any of them. \<open>Db_Open\<close>
    is \<open>internal/db/db.go\<close>, \<open>Migrate\<close> is \<open>cmd/migrate/main.go\<close>.
  \<^item> \<^bold>\<open>Stores\<close> (\<open>internal/store\<close>): \<open>Mail_Store\<close>, \<open>Mailbox_Store\<close>, \<open>Account_Store\<close> (domains, users, quota,
    logins), \<open>Ban_Store\<close> (ban ledger and login guard), \<open>Log_Store\<close>, \<open>Outbound_Store\<close>; \<open>Attachment_Storage\<close> is
    the directory of \<open>internal/storage\<close>.
  \<^item> \<^bold>\<open>Outgoing mail\<close> (\<open>internal/outbound\<close>): \<open>Outbound_Manager\<close> (queueing, rate limits, signing, one attempt,
    retries, notices, and a step relation over them), \<open>Mailer\<close> (the SMTP client on a modelled connection),
    \<open>Manager_Run\<close> (the dispatcher, its channels, the workers and \<open>Stop\<close> as a machine that refines that relation).
  \<^item> \<^bold>\<open>Protocol servers.\<close> \<open>Conn_Hub\<close> (\<open>internal/connhub\<close>), \<open>Protocol_Common\<close>, \<open>Mail_Util\<close>
    (\<open>internal/mailutil\<close>), \<open>Smtp_Server\<close>, \<open>Pop3_Server\<close>, and IMAP in four parts: \<open>Imap_Service\<close> (folders),
    \<open>Imap_Push\<close> (hubs, queues, IDLE), \<open>Imap_Session\<close> (one definition per command), \<open>Imap_Runs\<close> (any number of
    sessions). The state of a server is a world record: tables, files, connections, sessions, notices.
  \<^item> \<^bold>\<open>Web\<close> (\<open>internal/web\<close>, \<open>internal/auth\<close>, \<open>internal/i18n\<close>, \<open>internal/dkim\<close>): \<open>Web_Keys\<close>, \<open>Web_Text\<close>,
    \<open>Catalog_En\<close>, \<open>Catalog_Ja\<close>, \<open>Catalog\<close> (texts and translations), \<open>Web_Common\<close> (requests, sessions,
    middlewares), \<open>Web_Outgoing\<close> (the MIME message of a form), \<open>Web_Mail\<close>, \<open>Web_Auth\<close>, \<open>Web_Admin\<close> (the
    handlers), \<open>Web_Server\<close> (routes and the whole way of a request). \<open>Web_Isolation\<close> and \<open>Web_Delivery\<close> hold
    what is proved of the mail pages. A page is its template name and variables.
  \<^item> \<^bold>\<open>Start and certificates.\<close> \<open>Config\<close> (\<open>config/\<close>), \<open>Caddy_Cert\<close>, \<open>Tls_Loader\<close> (\<open>internal/tlsutil\<close>),
    \<open>Startup\<close> (\<open>main.go\<close> and \<open>NewWebServer\<close>), \<open>Listeners\<close> (what the servers listen on).

  Interaction: SMTP sessions and the compose page store local mail through \<open>Mail_Store\<close>, hand external mail to
  \<open>enqueue\<close>, and push a notice to the IMAP hubs; POP3, IMAP and the mail pages read and change the same tables and
  push their changes; every login goes through the ban ledger; the loader reads the certificate paths of the
  domains table that the administration pages and the Caddy import write.
\<close>

section \<open>What is proved\<close>

text \<open>
  \<^item> \<^bold>\<open>Who may do what.\<close> No relaying without login and no forged local sender; a POP3 or IMAP session touches only
    the mail of the account it has proved; a web request changes only what its user owns, the administration
    only answers administrators, a web session starts only with credentials; logins are sound and guarded.
  \<^item> \<^bold>\<open>Mail arrives.\<close> What an SMTP session or the compose page accepts is with every local recipient and, for the
    others, in the queue; a refusal of the page stores no copy; the queue never gives an item to two workers,
    attempts every item it claims, wakes up for every submission, and stops when asked; what the client reports
    as delivered the remote server has accepted; credentials go out over TLS only.
  \<^item> \<^bold>\<open>What clients see.\<close> Notices reach exactly the sessions that have the mailbox selected, and IDLE loses none;
    a message read over POP3 is the stored one, and no POP3 command indexes out of range; the admin page lists
    the open connections whatever order Go visits its map in; what a LIST pattern matches; purging frees
    rows, files and quota; a composed message has exactly the headers of its form, whatever the form holds.
  \<^item> \<^bold>\<open>Resources.\<close> Quota, daily limits and path confinement hold for every sequence of calls.
  \<^item> \<^bold>\<open>Start.\<close> The session key of a loaded configuration is never a weak one, certificates are chosen in a fixed
    order, handshakes never lose a certificate that once loaded, and an import reaches them within seconds.
  \<^item> \<^bold>\<open>Where the code falls short.\<close> A few theorems show defects: IMAP clients lose track after two removals,
    items that were being sent when the program ended stay so, the migration switches disabled accounts on, the
    plain POP3 port takes passwords beside a certificate, the pattern \<open>inbox\<close> does not list INBOX.

  Interfaces are locales, each interpreted on the model: \<open>claim_queue\<close> (the compare-and-set of the queue),
  \<open>ban_ledger\<close> (ban and forget), \<open>pusher\<close> (notices), \<open>guarantee\<close> (a reflexive and transitive relation between
  the worlds before and after a handler, for which a handler is followed call by call).
\<close>

section \<open>Bounds\<close>

text \<open>
  No definition uses fuel. Loops over lists are structural recursions; the others (\<open>unit_loop\<close>, \<open>wrap76\<close>,
  \<open>fields_from\<close> and their like) have termination proofs by the length or size they reduce. Loops that wait for
  events are given their events as a list or are step relations: IDLE, the delivery system, the IMAP server as a
  whole, the goroutines of the delivery manager. For the last, \<open>steps_left\<close> bounds the events until \<open>Stop\<close>
  returns. Times are integers of nanoseconds.
\<close>

section \<open>Not modelled\<close>

text \<open>
  \<^item> Third-party code is a parameter of the definitions that use it: bcrypt, X.509 and RSA, the DKIM signer, DNS
    and sockets, the MIME reader with its character sets, the message extractors of the IMAP library, LDAP and
    OAuth2 clients, the TOML codec, \<open>strconv.ParseFloat\<close>, the random source.
  \<^item> The protocol libraries (\<open>go-smtp\<close>, \<open>go-imap\<close>) and the web framework: their parsers, encoders, accept loops,
    cookies and template engine. What they call is modelled, for any sequence of calls.
  \<^item> The HTML templates, the static files and the template function table of \<open>internal/web/server.go\<close>; of the
    functions in it those with code of their own are in \<open>Web_Text\<close>.
  \<^item> SQL itself: a query is a filter of rows, in the order in which they were inserted unless it sorts them, and a statement is atomic. GORM's hooks
    that the program relies on (defaults for zero values, preloading, saving of associations) are in the
    definitions.
  \<^item> Real time between two statements of a handler, except where the machines above interleave them. In the
    delivery manager one attempt (\<open>deliverOne\<close> up to the release) and one submission are each a single step, so
    nothing else happens between their statements; in IDLE appending and notifying are two.
  \<^item> The ends of IDLE (DONE, a write that fails): \<open>idle_step\<close> has the steps of a loop that goes on.
  \<^item> The redirect of the web framework for a path that differs from a route by a final slash (301): \<open>route_of\<close>
    has no route for it and the answer is 404.
  \<^item> Runes where bytes do: LIST patterns are matched byte by byte, which is the same for valid UTF-8. Go's
    \<open>regexp\<close> would read an invalid byte as U+FFFD.
  \<^item> The columns \<open>created_at\<close> and \<open>updated_at\<close> other than those of messages and the protocol log, which no code
    reads; file modes on Windows, where \<open>os.Chmod\<close> has no 0600.
  \<^item> The command line of the two programs, the installation script, and the tests.
\<close>

end
